(* ===== verification/Prelude.thy ===== *)
theory Prelude
  imports Main "HOL-Library.Char_ord" "HOL-Library.List_Lexorder"
begin

text \<open>
  The prelude of the development: the lemma collections the component theories fill and
  use, the type names shared by all of them, and generic facts on lists and options.
  \<^item> \<open>guard_simps\<close>: equations that decide a guard or a validator of the code;
  \<^item> \<open>frame_simps\<close>: what an operation leaves alone;
  \<^item> \<open>lookup_simps\<close>: what a lookup returns after an update.
  Byte strings are HOL's \<open>string\<close> (a Go string is a byte sequence too), instants are
  nanoseconds since the epoch, and a Go map with string keys and values is an association
  list read with \<^const>\<open>map_of\<close>.
\<close>

named_theorems guard_simps
named_theorems frame_simps
named_theorems lookup_simps

type_synonym instant = int
type_synonym bytes = string
type_synonym strmap = "(string \<times> string) list"

section \<open>Results of fallible operations\<close>

text \<open>A Go call that returns \<open>(value, error)\<close> is a value of \<open>'e + 'a\<close>: \<^const>\<open>Inl\<close> is the error.\<close>

definition is_ok :: "'e + 'a \<Rightarrow> bool" where
  "is_ok r = (case r of Inl _ \<Rightarrow> False | Inr _ \<Rightarrow> True)"

lemma is_ok_simps [simp]:
  "is_ok (Inr x) = True"
  "is_ok (Inl e) = False"
  by (simp_all add: is_ok_def)

lemma is_ok_iff: "is_ok r \<longleftrightarrow> (\<exists>x. r = Inr x)"
  by (cases r) auto

section \<open>Lists of rows\<close>

text \<open>
  A table is the list of its rows in insertion order. \<open>update_rows\<close> is SQL's
  \<open>UPDATE ... WHERE\<close>, \<open>delete_rows\<close> its \<open>DELETE ... WHERE\<close>, and \<open>find_row\<close> a
  \<open>SELECT\<close> whose condition is a key.
\<close>

definition find_row :: "('r \<Rightarrow> bool) \<Rightarrow> 'r list \<Rightarrow> 'r option" where
  "find_row P rows = List.find P rows"

definition update_rows :: "('r \<Rightarrow> bool) \<Rightarrow> ('r \<Rightarrow> 'r) \<Rightarrow> 'r list \<Rightarrow> 'r list" where
  "update_rows P f rows = map (\<lambda>r. if P r then f r else r) rows"

definition delete_rows :: "('r \<Rightarrow> bool) \<Rightarrow> 'r list \<Rightarrow> 'r list" where
  "delete_rows P rows = filter (\<lambda>r. \<not> P r) rows"

lemma find_row_Nil [simp]: "find_row P [] = None"
  by (simp add: find_row_def)

lemma find_row_Cons: "find_row P (r # rs) = (if P r then Some r else find_row P rs)"
  by (simp add: find_row_def)

lemma find_row_append:
  "find_row P (xs @ ys) = (case find_row P xs of Some r \<Rightarrow> Some r | None \<Rightarrow> find_row P ys)"
  by (induction xs) (auto simp: find_row_Cons)

lemma find_row_None_iff: "find_row P rows = None \<longleftrightarrow> (\<forall>r \<in> set rows. \<not> P r)"
  by (induction rows) (auto simp: find_row_Cons)

lemma find_row_SomeD: "find_row P rows = Some r \<Longrightarrow> r \<in> set rows \<and> P r"
  by (induction rows) (auto simp: find_row_Cons split: if_splits)

lemma find_row_update_same [lookup_simps]:
  "(\<And>r. P (f r) = P r) \<Longrightarrow> find_row P (update_rows P f rows) = map_option f (find_row P rows)"
  by (induction rows) (auto simp: find_row_Cons update_rows_def)

lemma find_row_update_other [lookup_simps]:
  "(\<And>r. P r \<Longrightarrow> Q (f r) = Q r) \<Longrightarrow> (\<And>r. P r \<Longrightarrow> \<not> Q r)
   \<Longrightarrow> find_row Q (update_rows P f rows) = find_row Q rows"
  by (induction rows) (auto simp: find_row_Cons update_rows_def)

lemma find_row_delete_same [lookup_simps]: "find_row P (delete_rows P rows) = None"
  by (auto simp: find_row_None_iff delete_rows_def)

lemma find_row_delete_other [lookup_simps]:
  "(\<And>r. P r \<Longrightarrow> \<not> Q r) \<Longrightarrow> find_row Q (delete_rows P rows) = find_row Q rows"
  by (induction rows) (auto simp: find_row_Cons delete_rows_def)

lemma set_update_rows: "set (update_rows P f rows) = (\<lambda>r. if P r then f r else r) ` set rows"
  by (simp add: update_rows_def)

lemma set_delete_rows [simp]: "set (delete_rows P rows) = {r \<in> set rows. \<not> P r}"
  by (auto simp: delete_rows_def)

lemma length_update_rows [simp]: "length (update_rows P f rows) = length rows"
  by (simp add: update_rows_def)

lemma map_update_rows [simp]: "(\<And>r. k (f r) = k r) \<Longrightarrow> map k (update_rows P f rows) = map k rows"
  by (simp add: update_rows_def)

lemma update_rows_none: "(\<And>r. r \<in> set rows \<Longrightarrow> \<not> P r) \<Longrightarrow> update_rows P f rows = rows"
  by (auto simp: update_rows_def intro: map_idI)

lemma update_rows_Nil [simp]: "update_rows P f [] = []"
  by (simp add: update_rows_def)

lemma update_rows_Cons [simp]:
  "update_rows P f (r # rs) = (if P r then f r else r) # update_rows P f rs"
  by (simp add: update_rows_def)

lemma update_rows_append [simp]:
  "update_rows P f (xs @ ys) = update_rows P f xs @ update_rows P f ys"
  by (simp add: update_rows_def)

lemma image_update_rows [simp]:
  "(\<And>r. k (f r) = k r) \<Longrightarrow> k ` set (update_rows P f rows) = k ` set rows"
proof -
  assume "\<And>r. k (f r) = k r"
  then have "set (map k (update_rows P f rows)) = set (map k rows)" by simp
  then show ?thesis by (simp only: set_map)
qed

lemma find_row_None_keys: "find_row (\<lambda>r. k r = x) rows = None \<longleftrightarrow> x \<notin> k ` set rows"
  by (auto simp: find_row_None_iff)

lemma filter_update_rows_other:
  "(\<And>r. P r \<Longrightarrow> \<not> Q r) \<Longrightarrow> (\<And>r. P r \<Longrightarrow> \<not> Q (f r))
   \<Longrightarrow> filter Q (update_rows P f rows) = filter Q rows"
  by (induction rows) auto

text \<open>Keys stay distinct under the operations a table has.\<close>

lemma distinct_keys_delete: "distinct (map k rows) \<Longrightarrow> distinct (map k (delete_rows P rows))"
  by (simp add: delete_rows_def distinct_map_filter)

lemma find_row_key:
  "distinct (map k rows) \<Longrightarrow> r \<in> set rows \<Longrightarrow> find_row (\<lambda>x. k x = k r) rows = Some r"
  by (induction rows) (auto simp: find_row_Cons)

section \<open>The last element that satisfies a condition\<close>

definition find_last :: "('r \<Rightarrow> bool) \<Rightarrow> 'r list \<Rightarrow> 'r option" where
  "find_last P rows = List.find P (rev rows)"

lemma find_last_SomeD: "find_last P rows = Some r \<Longrightarrow> r \<in> set rows \<and> P r"
  using find_row_SomeD [of P "rev rows" r] by (simp add: find_last_def find_row_def)

lemma find_last_None_iff: "find_last P rows = None \<longleftrightarrow> (\<forall>r \<in> set rows. \<not> P r)"
  by (auto simp: find_last_def find_None_iff)

end
