(* ===== verification/Go_Strings.thy ===== *)
theory Go_Strings
  imports Prelude
begin

text \<open>
  The functions of Go's \<open>strings\<close> and \<open>strconv\<close> packages that the program calls, on byte
  strings. White space and letter case are those of ASCII: the program applies
  \<open>TrimSpace\<close>, \<open>Fields\<close> and \<open>ToLower\<close> to identifiers, selectors and command output.
\<close>

section \<open>Character classes\<close>

definition is_lower :: "char \<Rightarrow> bool" where
  "is_lower c = (CHR ''a'' \<le> c \<and> c \<le> CHR ''z'')"

definition is_upper :: "char \<Rightarrow> bool" where
  "is_upper c = (CHR ''A'' \<le> c \<and> c \<le> CHR ''Z'')"

definition is_digit :: "char \<Rightarrow> bool" where
  "is_digit c = (CHR ''0'' \<le> c \<and> c \<le> CHR ''9'')"

definition is_alnum :: "char \<Rightarrow> bool" where
  "is_alnum c = (is_lower c \<or> is_upper c \<or> is_digit c)"

definition is_space :: "char \<Rightarrow> bool" where
  "is_space c = (c \<in> {CHR '' '', CHR 0x09, CHR 0x0A, CHR 0x0B, CHR 0x0C, CHR 0x0D})"

section \<open>Prefixes, suffixes and substrings\<close>

definition has_prefix :: "string \<Rightarrow> string \<Rightarrow> bool" where
  "has_prefix s p = (take (length p) s = p)"

definition has_suffix :: "string \<Rightarrow> string \<Rightarrow> bool" where
  "has_suffix s p = (length p \<le> length s \<and> drop (length s - length p) s = p)"

definition trim_prefix :: "string \<Rightarrow> string \<Rightarrow> string" where
  "trim_prefix s p = (if has_prefix s p then drop (length p) s else s)"

definition trim_suffix :: "string \<Rightarrow> string \<Rightarrow> string" where
  "trim_suffix s p = (if has_suffix s p then take (length s - length p) s else s)"

fun contains :: "string \<Rightarrow> string \<Rightarrow> bool" where
  "contains [] p = (p = [])"
| "contains (c # s) p = (has_prefix (c # s) p \<or> contains s p)"

definition contains_any :: "string \<Rightarrow> string \<Rightarrow> bool" where
  "contains_any s cs = list_ex (\<lambda>c. c \<in> set cs) s"

lemma has_prefix_iff: "has_prefix s p \<longleftrightarrow> (\<exists>t. s = p @ t)"
  by (auto simp: has_prefix_def) (metis append_take_drop_id)

lemma has_prefix_Nil [simp]: "has_prefix s []"
  by (simp add: has_prefix_def)

lemma has_prefix_append [simp]: "has_prefix (p @ t) p"
  by (simp add: has_prefix_def)

lemma contains_iff: "contains s p \<longleftrightarrow> (\<exists>a b. s = a @ p @ b)"
proof (induction s)
  case Nil
  then show ?case by auto
next
  case (Cons c s)
  show ?case
  proof
    assume "contains (c # s) p"
    then show "\<exists>a b. c # s = a @ p @ b"
      using Cons.IH by (auto simp: has_prefix_iff intro: exI [of _ "[]"]) (metis append_Cons)
  next
    assume "\<exists>a b. c # s = a @ p @ b"
    then obtain a b where ab: "c # s = a @ p @ b" by blast
    show "contains (c # s) p"
    proof (cases a)
      case Nil
      with ab have "has_prefix (c # s) p" by (simp add: has_prefix_def)
      then show ?thesis by simp
    next
      case (Cons d a')
      with ab Cons.IH have "contains s p" by auto
      then show ?thesis by simp
    qed
  qed
qed

lemma contains_any_iff: "contains_any s cs \<longleftrightarrow> (\<exists>c \<in> set s. c \<in> set cs)"
  by (auto simp: contains_any_def list_ex_iff)

section \<open>Trimming and splitting\<close>

definition trim_left :: "string \<Rightarrow> string" where
  "trim_left s = dropWhile is_space s"

definition trim_space :: "string \<Rightarrow> string" where
  "trim_space s = rev (trim_left (rev (trim_left s)))"

definition trim_right_char :: "char \<Rightarrow> string \<Rightarrow> string" where
  "trim_right_char c s = rev (dropWhile (\<lambda>x. x = c) (rev s))"

text \<open>\<open>strings.Split(s, c)\<close> for a one-byte separator: never the empty list.\<close>

fun split_on :: "char \<Rightarrow> string \<Rightarrow> string list" where
  "split_on c [] = [[]]"
| "split_on c (x # s) =
     (if x = c then [] # split_on c s
      else (case split_on c s of [] \<Rightarrow> [[x]] | w # ws \<Rightarrow> (x # w) # ws))"

text \<open>\<open>strings.SplitN(s, c, 2)\<close>: the text before the first separator, and the rest if there is one.\<close>

definition cut :: "char \<Rightarrow> string \<Rightarrow> string \<times> string option" where
  "cut c s = (takeWhile (\<lambda>x. x \<noteq> c) s,
     (case dropWhile (\<lambda>x. x \<noteq> c) s of [] \<Rightarrow> None | _ # t \<Rightarrow> Some t))"

fun join :: "string \<Rightarrow> string list \<Rightarrow> string" where
  "join sep [] = []"
| "join sep [x] = x"
| "join sep (x # y # xs) = x @ sep @ join sep (y # xs)"

definition fields :: "string \<Rightarrow> string list" where
  "fields s = filter (\<lambda>w. w \<noteq> []) (foldr (\<lambda>c acc.
     (if is_space c then [] # acc
      else (case acc of [] \<Rightarrow> [[c]] | w # ws \<Rightarrow> (c # w) # ws))) s [[]])"

lemma split_on_not_Nil [simp]: "split_on c s \<noteq> []"
  by (induction s) (auto split: list.splits)

lemma join_split_on: "join [c] (split_on c s) = s"
proof (induction s)
  case Nil
  then show ?case by simp
next
  case (Cons x s)
  obtain w ws where "split_on c s = w # ws"
    by (cases "split_on c s") auto
  with Cons show ?case by (cases ws) auto
qed

lemma split_on_no_sep: "w \<in> set (split_on c s) \<Longrightarrow> c \<notin> set w"
proof (induction s arbitrary: w)
  case Nil
  then show ?case by simp
next
  case (Cons x s)
  obtain v vs where "split_on c s = v # vs"
    by (cases "split_on c s") auto
  with Cons show ?case by (auto split: if_splits)
qed

lemma split_on_append: "c \<notin> set a \<Longrightarrow> split_on c (a @ c # s) = a # split_on c s"
  by (induction a) auto

lemma split_on_single: "c \<notin> set a \<Longrightarrow> split_on c a = [a]"
  by (induction a) auto

lemma split_on_join: "xs \<noteq> [] \<Longrightarrow> \<forall>x \<in> set xs. c \<notin> set x \<Longrightarrow> split_on c (join [c] xs) = xs"
proof (induction xs rule: induct_list012)
  case (3 x y zs)
  then show ?case by (simp add: split_on_append)
qed (simp_all add: split_on_single)

text \<open>\<open>strings.IndexByte\<close> and \<open>strings.LastIndex\<close> of one byte.\<close>

definition last_index :: "char \<Rightarrow> string \<Rightarrow> nat option" where
  "last_index c s =
     (if c \<in> set s then Some (length s - 1 - length (takeWhile (\<lambda>x. x \<noteq> c) (rev s))) else None)"

definition index_of :: "char \<Rightarrow> string \<Rightarrow> nat option" where
  "index_of c s = (if c \<in> set s then Some (length (takeWhile (\<lambda>x. x \<noteq> c) s)) else None)"

section \<open>Case\<close>

definition lower_char :: "char \<Rightarrow> char" where
  "lower_char c = (if is_upper c then char_of (of_char c + 32 :: nat) else c)"

definition to_lower :: "string \<Rightarrow> string" where
  "to_lower s = map lower_char s"

section \<open>Numbers\<close>

definition digit_val :: "char \<Rightarrow> nat" where
  "digit_val c = of_char c - 48"

definition digits_val :: "string \<Rightarrow> nat" where
  "digits_val s = foldl (\<lambda>n c. n * 10 + digit_val c) 0 s"

definition is_number :: "string \<Rightarrow> bool" where
  "is_number s = (s \<noteq> [] \<and> list_all is_digit s)"

text \<open>
  \<open>strconv.Atoi\<close>: an optional sign and decimal digits, within the range of a 64-bit
  \<open>int\<close>. Every error is \<^const>\<open>None\<close>.
\<close>

definition in_int64 :: "int \<Rightarrow> bool" where
  "in_int64 n = (- (2 ^ 63) \<le> n \<and> n < 2 ^ 63)"

definition atoi :: "string \<Rightarrow> int option" where
  "atoi s =
     (let (neg, ds) = (case s of [] \<Rightarrow> (False, [])
                       | c # t \<Rightarrow> if c = CHR ''-'' then (True, t)
                                  else if c = CHR ''+'' then (False, t) else (False, s))
      in if is_number ds
         then (let n = (if neg then - int (digits_val ds) else int (digits_val ds))
               in if in_int64 n then Some n else None)
         else None)"

fun nat_text :: "nat \<Rightarrow> string" where
  "nat_text n = (if n < 10 then [char_of (48 + n)] else nat_text (n div 10) @ [char_of (48 + n mod 10)])"

declare nat_text.simps [simp del]

definition int_text :: "int \<Rightarrow> string" where
  "int_text n = (if n < 0 then CHR ''-'' # nat_text (nat (- n)) else nat_text (nat n))"

lemma is_digit_char_of: "n < (10 :: nat) \<Longrightarrow> is_digit (char_of (48 + n))"
  by (auto simp: is_digit_def less_eq_char_def)

lemma digit_val_char_of: "n < (10 :: nat) \<Longrightarrow> digit_val (char_of (48 + n)) = n"
  by (simp add: digit_val_def)

lemma nat_text_digits: "list_all is_digit (nat_text n)"
proof (induction n rule: nat_text.induct)
  case (1 n)
  then show ?case
    by (subst nat_text.simps) (auto simp: is_digit_char_of)
qed

lemma nat_text_not_Nil [simp]: "nat_text n \<noteq> []"
  by (subst nat_text.simps) simp

lemma digits_val_nat_text: "digits_val (nat_text n) = n"
proof (induction n rule: nat_text.induct)
  case (1 n)
  show ?case
  proof (cases "n < 10")
    case True
    then show ?thesis by (subst nat_text.simps) (simp add: digits_val_def digit_val_char_of)
  next
    case False
    with 1 have "digits_val (nat_text (n div 10)) = n div 10" by simp
    with False show ?thesis
      by (subst nat_text.simps) (simp add: digits_val_def digit_val_char_of)
  qed
qed

lemma nat_text_no_sign: "nat_text n = c # t \<Longrightarrow> c \<noteq> CHR ''-'' \<and> c \<noteq> CHR ''+''"
  using nat_text_digits [of n] by (auto simp: is_digit_def less_eq_char_def)

text \<open>\<open>Atoi\<close> reads back what the number formatter prints.\<close>

lemma atoi_nat_text:
  assumes "int n < 2 ^ 63"
  shows "atoi (nat_text n) = Some (int n)"
proof -
  obtain c t where ct: "nat_text n = c # t"
    by (cases "nat_text n") auto
  have "is_number (c # t)"
    using nat_text_digits [of n] ct by (simp add: is_number_def)
  moreover have "digits_val (c # t) = n"
    using digits_val_nat_text [of n] ct by simp
  ultimately show ?thesis
    using assms ct nat_text_no_sign [OF ct] by (simp add: atoi_def in_int64_def)
qed

end
