(* ===== verification/Json.thy ===== *)
theory Json
  imports Go_Strings
begin

text \<open>
  JSON values as \<open>encoding/json\<close> decodes them, and the decoding of an object into the
  fields of a Go struct. A value that is text is \<open>jtext\<close>: either text that parses, held as
  the value it stands for, or text that does not, held as it is; the empty text is
  \<open>JInvalid []\<close>. Struct fields are matched as \<open>encoding/json\<close> matches them (ASCII letter
  case ignored, later members overriding earlier ones, \<open>null\<close> leaving the field as it is, a
  member of another type recorded as an error while the decoding goes on).
\<close>

datatype json =
    JNull
  | JBool bool
  | JInt int
  | JFrac string
  | JStr string
  | JArr "json list"
  | JObj "(string \<times> json) list"

datatype jtext = JText json | JInvalid string

definition jempty :: jtext where
  "jempty = JInvalid []"

text \<open>Decoding: a member's decoder gives the new field value, or an error.\<close>

type_synonym 'a decoder = "'a \<Rightarrow> json \<Rightarrow> 'a option"

definition dec_string :: "string decoder" where
  "dec_string old v = (case v of JNull \<Rightarrow> Some old | JStr s \<Rightarrow> Some s | _ \<Rightarrow> None)"

definition dec_int :: "int decoder" where
  "dec_int old v = (case v of JNull \<Rightarrow> Some old
                    | JInt n \<Rightarrow> (if in_int64 n then Some n else None) | _ \<Rightarrow> None)"

definition dec_bool :: "bool decoder" where
  "dec_bool old v = (case v of JNull \<Rightarrow> Some old | JBool b \<Rightarrow> Some b | _ \<Rightarrow> None)"

fun dec_items :: "'a decoder \<Rightarrow> 'a \<Rightarrow> json list \<Rightarrow> 'a list \<times> bool" where
  "dec_items d zero [] = ([], True)"
| "dec_items d zero (v # vs) =
     (let (rest, ok) = dec_items d zero vs
      in case d zero v of Some x \<Rightarrow> (x # rest, ok) | None \<Rightarrow> (zero # rest, False))"

text \<open>
  A decoder of aggregates keeps what it could decode next to the error flag: the bool is
  whether every part had the right type.
\<close>

type_synonym 'a agg_decoder = "'a \<Rightarrow> json \<Rightarrow> 'a \<times> bool"

definition leaf :: "'a decoder \<Rightarrow> 'a agg_decoder" where
  "leaf d old v = (case d old v of Some x \<Rightarrow> (x, True) | None \<Rightarrow> (old, False))"

definition dec_strings :: "string list agg_decoder" where
  "dec_strings old v =
     (case v of JNull \<Rightarrow> ([], True)
      | JArr vs \<Rightarrow> dec_items dec_string [] vs
      | _ \<Rightarrow> (old, False))"

definition map_put :: "string \<Rightarrow> 'a \<Rightarrow> (string \<times> 'a) list \<Rightarrow> (string \<times> 'a) list" where
  "map_put k x m = filter (\<lambda>p. fst p \<noteq> k) m @ [(k, x)]"

definition map_del :: "string \<Rightarrow> (string \<times> 'a) list \<Rightarrow> (string \<times> 'a) list" where
  "map_del k m = filter (\<lambda>p. fst p \<noteq> k) m"

fun dec_members :: "(string \<times> json) list \<Rightarrow> strmap \<Rightarrow> strmap \<times> bool" where
  "dec_members [] m = (m, True)"
| "dec_members ((k, v) # kvs) m =
     (case dec_string [] v of
        Some s \<Rightarrow> dec_members kvs (map_put k s m)
        | None \<Rightarrow> (fst (dec_members kvs (map_put k [] m)), False))"

definition dec_strmap :: "strmap agg_decoder" where
  "dec_strmap old v =
     (case v of JNull \<Rightarrow> ([], True)
      | JObj kvs \<Rightarrow> dec_members kvs old
      | _ \<Rightarrow> (old, False))"

text \<open>One field of a struct: every member whose name matches, in order.\<close>

definition same_field :: "string \<Rightarrow> string \<Rightarrow> bool" where
  "same_field name k = (to_lower k = to_lower name)"

fun field :: "string \<Rightarrow> 'a agg_decoder \<Rightarrow> 'a \<Rightarrow> (string \<times> json) list \<Rightarrow> 'a \<times> bool" where
  "field name d old [] = (old, True)"
| "field name d old ((k, v) # kvs) =
     (if same_field name k
      then (let (x, ok) = d old v; (y, ok') = field name d x kvs in (y, ok \<and> ok'))
      else field name d old kvs)"

text \<open>
  \<open>json.Unmarshal(text, &s)\<close> on a struct: the members of the object; \<open>null\<close> decodes to
  the zero value without an error, any other value and text that does not parse are errors.
\<close>

definition members :: "jtext \<Rightarrow> ((string \<times> json) list) option" where
  "members t = (case t of JText (JObj kvs) \<Rightarrow> Some kvs | JText JNull \<Rightarrow> Some [] | _ \<Rightarrow> None)"

text \<open>Reading one member of a decoded \<open>map[string]any\<close>: the last one of that very name.\<close>

definition lookup_member :: "string \<Rightarrow> (string \<times> json) list \<Rightarrow> json option" where
  "lookup_member k kvs = map_of (rev kvs) k"

definition strmap_json :: "strmap \<Rightarrow> json" where
  "strmap_json m = JObj (map (\<lambda>(k, v). (k, JStr v)) m)"

lemma lookup_member_append [lookup_simps]:
  "lookup_member k (kvs @ [(k', v)]) = (if k = k' then Some v else lookup_member k kvs)"
  by (simp add: lookup_member_def)

lemma map_of_filter_other: "k \<noteq> x \<Longrightarrow> map_of (filter (\<lambda>p. fst p \<noteq> x) m) k = map_of m k"
  by (induction m) auto

lemma map_of_filter_same: "map_of (filter (\<lambda>p. fst p \<noteq> x) m) x = None"
  by (induction m) auto

lemma map_put_lookup [lookup_simps]: "map_of (map_put k x m) = (map_of m)(k \<mapsto> x)"
  by (rule ext) (auto simp: map_put_def map_add_def map_of_filter_other map_of_filter_same
      split: option.splits)

lemma map_del_lookup [lookup_simps]: "map_of (map_del k m) = (map_of m)(k := None)"
  by (rule ext) (auto simp: map_del_def map_of_filter_other map_of_filter_same)

lemma set_map_del: "set (map_del k m) = {p \<in> set m. fst p \<noteq> k}"
  by (auto simp: map_del_def)

lemma set_map_put: "set (map_put k x m) = insert (k, x) {p \<in> set m. fst p \<noteq> k}"
  by (auto simp: map_put_def)

lemma map_put_distinct: "distinct (map fst m) \<Longrightarrow> distinct (map fst (map_put k x m))"
  by (auto simp: map_put_def distinct_map_filter)

lemma dec_members_distinct:
  "distinct (map fst m) \<Longrightarrow> distinct (map fst (fst (dec_members kvs m)))"
proof (induction kvs m rule: dec_members.induct)
  case (2 k v kvs m)
  then show ?case by (auto simp: map_put_distinct split: option.splits)
qed simp

text \<open>A string map survives the round trip through its JSON text.\<close>

lemma dec_members_strmap_acc:
  "distinct (map fst (acc @ m)) \<Longrightarrow>
   dec_members (map (\<lambda>(k, v). (k, JStr v)) m) acc = (acc @ m, True)"
proof (induction m arbitrary: acc)
  case Nil
  then show ?case by simp
next
  case (Cons p m)
  obtain k v where p: "p = (k, v)" by (cases p)
  have "\<forall>q \<in> set acc. fst q \<noteq> k" using Cons.prems p by (auto simp: image_iff)
  then have "map_put k v acc = acc @ [(k, v)]"
    by (simp add: map_put_def)
  with Cons p show ?case by (simp add: dec_string_def)
qed

lemma strmap_roundtrip:
  "distinct (map fst m) \<Longrightarrow> dec_strmap [] (strmap_json m) = (m, True)"
  using dec_members_strmap_acc [of "[]" m] by (simp add: dec_strmap_def strmap_json_def)

end
