(* ===== verification/State_Programs.thy ===== *)
theory State_Programs
  imports Prelude "HOL-Library.State_Monad"
begin

text \<open>
  Operations as state-passing programs: the basic steps every component is written with, and
  \<open>keeps I m\<close>, that the program \<open>m\<close> keeps the predicate \<open>I\<close> of the state, with a rule for each
  construct. Components prove one \<open>keeps\<close> lemma per primitive step and get the rest by the
  collection \<open>keeps_intros\<close>.
\<close>

section \<open>State programs\<close>

definition return :: "'a \<Rightarrow> ('s, 'a) state" where
  "return x = State_Monad.return x"

definition gets :: "('s \<Rightarrow> 'a) \<Rightarrow> ('s, 'a) state" where
  "gets f = State (\<lambda>s. (f s, s))"

definition modify :: "('s \<Rightarrow> 's) \<Rightarrow> ('s, unit) state" where
  "modify f = State (\<lambda>s. ((), f s))"

definition unless_err :: "('s, 'e + 'a) state \<Rightarrow> ('a \<Rightarrow> ('s, 'e + 'b) state) \<Rightarrow> ('s, 'e + 'b) state" where
  "unless_err m f = do { r \<leftarrow> m; (case r of Inl e \<Rightarrow> return (Inl e) | Inr x \<Rightarrow> f x) }"

definition ignore :: "('s, 'a) state \<Rightarrow> ('s, unit) state" where
  "ignore m = do { _ \<leftarrow> m; return () }"

fun for_each :: "'a list \<Rightarrow> ('a \<Rightarrow> ('s, unit) state) \<Rightarrow> ('s, unit) state" where
  "for_each [] f = return ()"
| "for_each (x # xs) f = do { _ \<leftarrow> f x; for_each xs f }"

lemma run_state_simps [simp]:
  "run_state (return x) s = (x, s)"
  "run_state (gets f) s = (f s, s)"
  "run_state (modify g) s = ((), g s)"
  "run_state (ignore m) s = ((), snd (run_state m s))"
  by (simp_all add: return_def gets_def modify_def ignore_def split: prod.splits)

lemma run_unless_err [simp]:
  "run_state (unless_err m f) s =
     (case run_state m s of (Inl e, s') \<Rightarrow> (Inl e, s') | (Inr x, s') \<Rightarrow> run_state (f x) s')"
  by (simp add: unless_err_def split: prod.splits sum.splits)

section \<open>Programs that keep an invariant\<close>

named_theorems keeps_intros

definition keeps :: "('s \<Rightarrow> bool) \<Rightarrow> ('s, 'a) state \<Rightarrow> bool" where
  "keeps I m = (\<forall>s. I s \<longrightarrow> I (snd (run_state m s)))"

lemma keepsI: "(\<And>s. I s \<Longrightarrow> I (snd (run_state m s))) \<Longrightarrow> keeps I m"
  by (simp add: keeps_def)

lemma keepsD: "keeps I m \<Longrightarrow> I s \<Longrightarrow> I (snd (run_state m s))"
  by (simp add: keeps_def)

lemma keeps_return [keeps_intros]: "keeps I (return x)"
  by (simp add: keeps_def)

lemma keeps_gets [keeps_intros]: "keeps I (gets f)"
  by (simp add: keeps_def)

lemma keeps_bind [keeps_intros]:
  "keeps I m \<Longrightarrow> (\<And>x. keeps I (f x)) \<Longrightarrow> keeps I (State_Monad.bind m f)"
  by (simp add: keeps_def split_def)

lemma keeps_unless_err [keeps_intros]:
  "keeps I m \<Longrightarrow> (\<And>x. keeps I (f x)) \<Longrightarrow> keeps I (unless_err m f)"
  unfolding unless_err_def by (rule keeps_bind) (auto simp: keeps_def split: sum.splits)

lemma keeps_ignore [keeps_intros]: "keeps I m \<Longrightarrow> keeps I (ignore m)"
  by (simp add: keeps_def)

lemma keeps_modify: "(\<And>s. I s \<Longrightarrow> I (f s)) \<Longrightarrow> keeps I (modify f)"
  by (simp add: keeps_def)

lemma keeps_for_each [keeps_intros]:
  "(\<And>x. x \<in> set xs \<Longrightarrow> keeps I (f x)) \<Longrightarrow> keeps I (for_each xs f)"
  by (induction xs) (auto intro!: keeps_intros)

lemma keeps_if [keeps_intros]:
  "keeps I m \<Longrightarrow> keeps I n \<Longrightarrow> keeps I (if b then m else n)"
  by simp

lemma keeps_option [keeps_intros]:
  "keeps I m \<Longrightarrow> (\<And>x. keeps I (f x)) \<Longrightarrow> keeps I (case r of None \<Rightarrow> m | Some x \<Rightarrow> f x)"
  by (cases r) auto

lemma keeps_sum [keeps_intros]:
  "(\<And>e. keeps I (f e)) \<Longrightarrow> (\<And>x. keeps I (g x)) \<Longrightarrow> keeps I (case r of Inl e \<Rightarrow> f e | Inr x \<Rightarrow> g x)"
  by (cases r) auto

lemma keeps_prod [keeps_intros]:
  "(\<And>a b. keeps I (f a b)) \<Longrightarrow> keeps I (case p of (a, b) \<Rightarrow> f a b)"
  by (cases p) auto

lemma keeps_prod_arg [keeps_intros]:
  "(\<And>a b. keeps I (p a b z)) \<Longrightarrow> keeps I ((case q of (a, b) \<Rightarrow> p a b) z)"
  by (cases q) auto

lemma keeps_list [keeps_intros]:
  "keeps I m \<Longrightarrow> (\<And>x xs. keeps I (f x xs)) \<Longrightarrow> keeps I (case r of [] \<Rightarrow> m | x # xs \<Rightarrow> f x xs)"
  by (cases r) auto

lemma keeps_let [keeps_intros]: "(\<And>x. keeps I (f x)) \<Longrightarrow> keeps I (let x = e in f x)"
  by simp

end
