(* ===== verification/Store_Base.thy ===== *)
theory Store_Base
  imports Json State_Programs
begin

text \<open>
  The hub's SQLite database (\<open>internal/hub/store\<close>): one record per row, with the columns of
  the migrations, and the record \<open>db\<close> of all tables. A statement or a transaction is one
  \<open>sql\<close> step: it fails as a whole when the driver fails (the schedule \<open>faults\<close> says which
  steps do), when a constraint of the schema is violated, or when the operation itself
  returns an error, and it runs with the one instant \<open>clock\<close> the code reads as
  \<open>time.Now()\<close>. The record is extensible: the runner, the agent server and the
  investigator add their own state to it, and the operations of the store run on any
  extension and leave it alone.
\<close>

section \<open>Rows\<close>

datatype host_status = HostOnline | HostOffline | HostDegraded

record host =
  h_id :: string
  h_version :: string
  h_labels :: strmap
  h_facts :: strmap
  h_fingerprint :: string
  h_first_seen :: instant
  h_last_seen :: instant
  h_status :: host_status

record manifest =
  mf_host :: string
  mf_name :: string
  mf_version :: string
  mf_json :: json

record boot_token =
  bt_hash :: string
  bt_agent :: string
  bt_issued_at :: instant
  bt_expires_at :: instant
  bt_issued_by :: string
  bt_consumed_at :: "instant option"
  bt_used_by :: "string option"

record identity =
  id_agent :: string
  id_fingerprint :: string
  id_enrolled_at :: instant
  id_via :: string
  id_revoked_at :: "instant option"
  id_reason :: "string option"

datatype run_status = RunPending | RunRunning | RunDone | RunAborted

record run =
  run_id :: string
  run_investigation :: "string option"
  run_name :: string
  run_selector :: strmap
  run_created_by :: string
  run_created_at :: instant
  run_finished_at :: "instant option"
  run_status :: run_status

datatype task_status =
  TkPending | TkSent | TkOk | TkError | TkTimeout | TkCanceled | TkUndeliverable

record task =
  tk_id :: string
  tk_run :: string
  tk_host :: string
  tk_collector :: string
  tk_params :: strmap
  tk_status :: task_status
  tk_started_at :: "instant option"
  tk_finished_at :: "instant option"
  tk_duration :: "int option"
  tk_error :: string

record task_result =
  rs_task :: string
  rs_data :: jtext
  rs_hints :: json
  rs_stderr :: string
  rs_exit :: int
  rs_artifact_dir :: string

datatype inv_status = InvActive | InvWaiting | InvPaused | InvDone | InvAborted

record investigation =
  inv_id :: string
  inv_goal :: string
  inv_status :: inv_status
  inv_created_by :: string
  inv_created_at :: instant
  inv_updated_at :: instant
  inv_model :: string
  inv_base_url :: string
  inv_prompt_tokens :: int
  inv_completion_tokens :: int
  inv_tool_calls :: int
  inv_compaction_tokens :: int
  inv_summary :: "jtext option"
  inv_allowed :: "string list"
  inv_extra_steps :: int
  inv_extra_tokens :: int
  inv_auto_approve :: bool

text \<open>A call the model asked for, as an assistant message carries it.\<close>

record call_req =
  cr_id :: string
  cr_name :: string
  cr_args :: jtext

datatype role = RoleSystem | RoleUser | RoleAssistant | RoleTool | RoleSystemNote | RoleSystemSummary

record msg =
  m_id :: int
  m_inv :: string
  m_seq :: int
  m_role :: role
  m_content :: jtext
  m_call_id :: "string option"
  m_calls :: "call_req list option"
  m_at :: instant
  m_archived :: bool

datatype call_status =
  TcPending | TcApproved | TcEdited | TcSkipped | TcExecuted | TcFailed | TcAborted

record call_row =
  tc_id :: string
  tc_inv :: string
  tc_seq :: int
  tc_tool :: string
  tc_input :: jtext
  tc_rationale :: string
  tc_status :: call_status
  tc_decided_by :: "string option"
  tc_task :: "string option"
  tc_created_at :: instant
  tc_decided_at :: "instant option"
  tc_result :: "jtext option"
  tc_broad :: bool

record finding =
  fd_id :: string
  fd_inv :: string
  fd_severity :: string
  fd_code :: string
  fd_message :: string
  fd_evidence :: jtext
  fd_pinned :: bool
  fd_ignored :: bool
  fd_created_at :: instant

record session =
  ss_sid :: string
  ss_user :: string
  ss_csrf :: string
  ss_created_at :: instant
  ss_expires_at :: instant

record pat =
  pat_id :: string
  pat_name :: string
  pat_hash :: string
  pat_prefix :: string
  pat_scope :: string
  pat_created_by :: string
  pat_created_at :: instant
  pat_last_used_at :: "instant option"
  pat_expires_at :: "instant option"
  pat_revoked_at :: "instant option"

record audit_row =
  au_id :: int
  au_at :: instant
  au_actor :: string
  au_action :: string
  au_details :: json

section \<open>The database\<close>

record db =
  hosts :: "host list"
  manifests :: "manifest list"
  tokens :: "boot_token list"
  idents :: "identity list"
  runs :: "run list"
  tasks :: "task list"
  results :: "task_result list"
  invs :: "investigation list"
  msgs :: "msg list"
  calls :: "call_row list"
  findings :: "finding list"
  sessions :: "session list"
  pats :: "pat list"
  audit :: "audit_row list"
  last_msg_id :: int
  last_audit_id :: int
  clock :: instant
  faults :: "bool list"
  rnd :: nat

text \<open>What a store operation can answer instead of a value.\<close>

datatype serr =
    DriverFault
  | Violation string
  | NotFound string
  | IdentityExists
  | IdentityNotEnrolled
  | IdentityRevoked
  | FingerprintMismatch
  | TokenInvalid
  | APITokenInvalid
  | SessionNotFound
  | Refused string

type_synonym ('z, 'a) dbm = "('z db_scheme, 'a) state"
type_synonym ('z, 'a) dbr = "('z db_scheme, serr + 'a) state"

definition empty_db :: db where
  "empty_db = \<lparr>hosts = [], manifests = [], tokens = [], idents = [], runs = [], tasks = [],
     results = [], invs = [], msgs = [], calls = [], findings = [], sessions = [], pats = [],
     audit = [], last_msg_id = 0, last_audit_id = 0, clock = 0, faults = [], rnd = 0\<rparr>"

section \<open>Statements\<close>

text \<open>
  One statement or transaction: the driver may fail; otherwise the body answers, and it
  commits its new state only when it succeeds.
\<close>

definition sql :: "('z db_scheme \<Rightarrow> serr + 'a \<times> 'z db_scheme) \<Rightarrow> ('z, 'a) dbr" where
  "sql f = State (\<lambda>s.
     (let s' = s\<lparr>faults := tl (faults s)\<rparr>
      in if faults s \<noteq> [] \<and> hd (faults s) then (Inl DriverFault, s')
         else (case f s' of Inl e \<Rightarrow> (Inl e, s') | Inr (x, t) \<Rightarrow> (Inr x, t))))"

definition sql_read :: "('z db_scheme \<Rightarrow> 'a) \<Rightarrow> ('z, 'a) dbr" where
  "sql_read f = sql (\<lambda>s. Inr (f s, s))"

definition sql_write :: "('z db_scheme \<Rightarrow> 'z db_scheme) \<Rightarrow> ('z, unit) dbr" where
  "sql_write f = sql (\<lambda>s. Inr ((), f s))"

text \<open>The random source: the \<open>n\<close>-th value drawn. What it yields is a parameter.\<close>

definition draw :: "(nat \<Rightarrow> 'a) \<Rightarrow> ('z, 'a) dbm" where
  "draw src = State (\<lambda>s. (src (rnd s), s\<lparr>rnd := rnd s + 1\<rparr>))"

lemma run_draw [simp]: "run_state (draw src) s = (src (rnd s), s\<lparr>rnd := rnd s + 1\<rparr>)"
  by (simp add: draw_def)

lemma run_sql:
  "run_state (sql f) s =
     (if faults s \<noteq> [] \<and> hd (faults s) then (Inl DriverFault, s\<lparr>faults := tl (faults s)\<rparr>)
      else (case f (s\<lparr>faults := tl (faults s)\<rparr>) of
              Inl e \<Rightarrow> (Inl e, s\<lparr>faults := tl (faults s)\<rparr>) | Inr (x, t) \<Rightarrow> (Inr x, t)))"
  by (simp add: sql_def Let_def)

lemma faults_Nil [simp]: "faults s = [] \<Longrightarrow> s\<lparr>faults := []\<rparr> = s"
  by (cases s) simp

lemma run_sql_no_fault [simp]:
  "faults s = [] \<Longrightarrow> run_state (sql f) s = (case f s of Inl e \<Rightarrow> (Inl e, s) | Inr (x, t) \<Rightarrow> (Inr x, t))"
  by (simp add: run_sql cong: sum.case_cong)

lemma sql_okD:
  assumes "run_state (sql f) s = (Inr x, t)"
  shows "f (s\<lparr>faults := tl (faults s)\<rparr>) = Inr (x, t)"
  using assms by (auto simp: run_sql split: if_splits sum.splits)

lemma sql_errD:
  assumes "run_state (sql f) s = (Inl e, t)"
  shows "t = s\<lparr>faults := tl (faults s)\<rparr> \<and> (e = DriverFault \<or> f t = Inl e)"
  using assms by (auto simp: run_sql split: if_splits sum.splits)

section \<open>Statements that keep an invariant\<close>

text \<open>An invariant that says nothing of the fault schedule is kept by a statement whose body keeps it.\<close>

definition fault_free :: "('z db_scheme \<Rightarrow> bool) \<Rightarrow> bool" where
  "fault_free I = (\<forall>s fs. I s \<longrightarrow> I (s\<lparr>faults := fs\<rparr>))"

lemma keeps_sql:
  assumes "fault_free I" and "\<And>s x t. I s \<Longrightarrow> f s = Inr (x, t) \<Longrightarrow> I t"
  shows "keeps I (sql f)"
proof (rule keepsI)
  fix s assume "I s"
  with assms(1) have s': "I (s\<lparr>faults := tl (faults s)\<rparr>)" by (simp add: fault_free_def)
  with assms(2) [OF s'] show "I (snd (run_state (sql f) s))"
    using \<open>I s\<close> by (auto simp: run_sql simp del: run_sql_no_fault faults_Nil split: sum.splits)
qed

lemma keeps_sql_read: "fault_free I \<Longrightarrow> keeps I (sql_read f)"
  unfolding sql_read_def by (rule keeps_sql) auto

lemma keeps_sql_write: "fault_free I \<Longrightarrow> (\<And>s. I s \<Longrightarrow> I (f s)) \<Longrightarrow> keeps I (sql_write f)"
  unfolding sql_write_def by (rule keeps_sql) auto

end
