(* ===== verification/Store_Inventory.thy ===== *)
theory Store_Inventory
  imports Store_Base
begin

text \<open>
  The inventory side of the store: \<open>store/hosts.go\<close> (hosts and collector manifests),
  \<open>store/identity.go\<close> (enrolled identities, deletion of a host) and \<open>store/tokens.go\<close>
  (bootstrap tokens). \<open>HashToken\<close> is SHA-256, a parameter \<open>hash\<close>.
\<close>

section \<open>Hosts\<close>

definition UpsertHost :: "host \<Rightarrow> ('z, unit) dbr" where
  "UpsertHost h = sql_write (\<lambda>s.
     if find_row (\<lambda>r. h_id r = h_id h) (hosts s) = None
     then s\<lparr>hosts := hosts s @ [h\<lparr>h_first_seen := clock s, h_last_seen := clock s\<rparr>]\<rparr>
     else s\<lparr>hosts := update_rows (\<lambda>r. h_id r = h_id h)
              (\<lambda>r. r\<lparr>h_version := h_version h, h_labels := h_labels h, h_facts := h_facts h,
                     h_fingerprint := h_fingerprint h, h_last_seen := clock s,
                     h_status := h_status h\<rparr>) (hosts s)\<rparr>)"

definition TouchHost :: "string \<Rightarrow> host_status \<Rightarrow> ('z, unit) dbr" where
  "TouchHost i st = sql (\<lambda>s.
     if find_row (\<lambda>r. h_id r = i) (hosts s) = None then Inl (NotFound i)
     else Inr ((), s\<lparr>hosts := update_rows (\<lambda>r. h_id r = i)
                       (\<lambda>r. r\<lparr>h_last_seen := clock s, h_status := st\<rparr>) (hosts s)\<rparr>))"

definition ListHosts :: "('z, host list) dbr" where
  "ListHosts = sql_read (\<lambda>s. sort_key h_id (hosts s))"

definition GetHost :: "string \<Rightarrow> ('z, host) dbr" where
  "GetHost i = sql (\<lambda>s.
     case find_row (\<lambda>r. h_id r = i) (hosts s) of None \<Rightarrow> Inl (NotFound i) | Some h \<Rightarrow> Inr (h, s))"

section \<open>Collector manifests\<close>

fun insert_manifests :: "string \<Rightarrow> manifest list \<Rightarrow> manifest list \<Rightarrow> serr + manifest list" where
  "insert_manifests hid [] tbl = Inr tbl"
| "insert_manifests hid (mf # mfs) tbl =
     (if find_row (\<lambda>r. mf_host r = hid \<and> mf_name r = mf_name mf) tbl \<noteq> None
      then Inl (Violation (mf_name mf))
      else insert_manifests hid mfs (tbl @ [mf\<lparr>mf_host := hid\<rparr>]))"

definition ReplaceCollectorManifests :: "string \<Rightarrow> manifest list \<Rightarrow> ('z, unit) dbr" where
  "ReplaceCollectorManifests hid mfs = sql (\<lambda>s.
     if mfs \<noteq> [] \<and> find_row (\<lambda>r. h_id r = hid) (hosts s) = None then Inl (Violation hid)
     else (case insert_manifests hid mfs (delete_rows (\<lambda>r. mf_host r = hid) (manifests s)) of
             Inl e \<Rightarrow> Inl e
           | Inr tbl \<Rightarrow> Inr ((), s\<lparr>manifests := tbl\<rparr>)))"

definition ListCollectorManifests :: "string \<Rightarrow> ('z, manifest list) dbr" where
  "ListCollectorManifests hid =
     sql_read (\<lambda>s. sort_key mf_name (filter (\<lambda>r. mf_host r = hid) (manifests s)))"

section \<open>Enrolled identities\<close>

definition RegisterIdentity :: "string \<Rightarrow> string \<Rightarrow> string \<Rightarrow> ('z, unit) dbr" where
  "RegisterIdentity agent fp via = sql (\<lambda>s.
     (let row = \<lparr>id_agent = agent, id_fingerprint = fp, id_enrolled_at = clock s, id_via = via,
                 id_revoked_at = None, id_reason = None\<rparr>
      in case find_row (\<lambda>r. id_agent r = agent) (idents s) of
           None \<Rightarrow> Inr ((), s\<lparr>idents := idents s @ [row]\<rparr>)
         | Some old \<Rightarrow>
             if id_revoked_at old = None then Inl IdentityExists
             else Inr ((), s\<lparr>idents := delete_rows (\<lambda>r. id_agent r = agent) (idents s) @ [row]\<rparr>)))"

definition VerifyIdentity :: "string \<Rightarrow> string \<Rightarrow> ('z, unit) dbr" where
  "VerifyIdentity agent fp = sql (\<lambda>s.
     case find_row (\<lambda>r. id_agent r = agent) (idents s) of
       None \<Rightarrow> Inl IdentityNotEnrolled
     | Some r \<Rightarrow>
         if id_revoked_at r \<noteq> None then Inl IdentityRevoked
         else if id_fingerprint r \<noteq> fp then Inl FingerprintMismatch
         else Inr ((), s))"

definition RevokeIdentity :: "string \<Rightarrow> string \<Rightarrow> ('z, unit) dbr" where
  "RevokeIdentity agent reason = sql_write (\<lambda>s.
     s\<lparr>idents := update_rows (\<lambda>r. id_agent r = agent \<and> id_revoked_at r = None)
         (\<lambda>r. r\<lparr>id_revoked_at := Some (clock s), id_reason := Some reason\<rparr>) (idents s)\<rparr>)"

text \<open>The cascades of the schema: a task takes its result along, a host its tasks and manifests.\<close>

definition delete_tasks :: "(task \<Rightarrow> bool) \<Rightarrow> 'z db_scheme \<Rightarrow> 'z db_scheme" where
  "delete_tasks P s =
     s\<lparr>tasks := delete_rows P (tasks s),
       results := delete_rows (\<lambda>r. \<exists>t \<in> set (tasks s). P t \<and> tk_id t = rs_task r) (results s)\<rparr>"

definition delete_host_row :: "string \<Rightarrow> 'z db_scheme \<Rightarrow> 'z db_scheme" where
  "delete_host_row i s =
     (delete_tasks (\<lambda>t. tk_host t = i) s)
       \<lparr>hosts := delete_rows (\<lambda>r. h_id r = i) (hosts s),
        manifests := delete_rows (\<lambda>r. mf_host r = i) (manifests s)\<rparr>"

definition DeleteHost :: "string \<Rightarrow> ('z, unit) dbr" where
  "DeleteHost agent = sql_write (\<lambda>s.
     delete_host_row agent (s\<lparr>idents := delete_rows (\<lambda>r. id_agent r = agent) (idents s)\<rparr>))"

section \<open>Bootstrap tokens\<close>

definition live_token :: "string \<Rightarrow> string \<Rightarrow> instant \<Rightarrow> boot_token \<Rightarrow> bool" where
  "live_token h agent now t =
     (bt_hash t = h \<and> bt_consumed_at t = None \<and> bt_expires_at t > now \<and> bt_agent t = agent)"

definition InsertBootstrapToken ::
  "(string \<Rightarrow> string) \<Rightarrow> string \<Rightarrow> string \<Rightarrow> string \<Rightarrow> int \<Rightarrow> ('z, unit) dbr" where
  "InsertBootstrapToken hash plaintext agent by ttl =
     (if agent = [] then return (Inl (Refused ''expected_agent_id required''))
      else sql (\<lambda>s.
        if find_row (\<lambda>t. bt_hash t = hash plaintext) (tokens s) \<noteq> None then Inl (Violation ''token_hash'')
        else Inr ((), s\<lparr>tokens := tokens s @
               [\<lparr>bt_hash = hash plaintext, bt_agent = agent, bt_issued_at = clock s,
                 bt_expires_at = clock s + ttl, bt_issued_by = by, bt_consumed_at = None,
                 bt_used_by = None\<rparr>]\<rparr>)))"

definition ListBootstrapTokens :: "int \<Rightarrow> ('z, boot_token list) dbr" where
  "ListBootstrapTokens lim =
     (let n = (if lim \<le> 0 then 50 else lim)
      in sql_read (\<lambda>s. take (nat n) (sort_key (\<lambda>t. - bt_issued_at t) (tokens s))))"

definition LookupBootstrapToken :: "(string \<Rightarrow> string) \<Rightarrow> string \<Rightarrow> string \<Rightarrow> ('z, bool) dbr" where
  "LookupBootstrapToken hash plaintext agent = sql_read (\<lambda>s.
     length (filter (live_token (hash plaintext) agent (clock s)) (tokens s)) = 1)"

definition DeleteBootstrapToken :: "string \<Rightarrow> ('z, unit) dbr" where
  "DeleteBootstrapToken h = sql_write (\<lambda>s. s\<lparr>tokens := delete_rows (\<lambda>t. bt_hash t = h) (tokens s)\<rparr>)"

text \<open>
  \<open>ConsumeBootstrapToken\<close> is one guarded \<open>UPDATE\<close>: the rows it hits are counted after it
  has run, so a count other than one is an error with the update in place.
\<close>

definition ConsumeBootstrapToken :: "(string \<Rightarrow> string) \<Rightarrow> string \<Rightarrow> string \<Rightarrow> ('z, unit) dbr" where
  "ConsumeBootstrapToken hash plaintext agent =
     unless_err
       (sql (\<lambda>s.
          (let live = live_token (hash plaintext) agent (clock s)
           in Inr (length (filter live (tokens s)),
                   s\<lparr>tokens := update_rows live
                       (\<lambda>t. t\<lparr>bt_consumed_at := Some (clock s), bt_used_by := Some agent\<rparr>)
                       (tokens s)\<rparr>))))
       (\<lambda>n. return (if n \<noteq> 1 then Inl TokenInvalid else Inr ()))"

end
