(* ===== verification/Store_Runs.thy ===== *)
theory Store_Runs
  imports Store_Base
begin

text \<open>
  \<open>store/runs.go\<close>: runs, the tasks they fan out to, and the results of the tasks. The maps
  of strings a row holds as JSON text (\<open>selector_json\<close>, \<open>params_json\<close>) are the maps
  themselves: \<open>strmap_roundtrip\<close> is the reason.
\<close>

definition InsertRun :: "run \<Rightarrow> ('z, unit) dbr" where
  "InsertRun r = sql (\<lambda>s.
     if find_row (\<lambda>x. run_id x = run_id r) (runs s) \<noteq> None then Inl (Violation ''runs.id'')
     else Inr ((), s\<lparr>runs := runs s @ [r\<lparr>run_created_at := clock s, run_finished_at := None\<rparr>]\<rparr>))"

definition FinishRun :: "string \<Rightarrow> run_status \<Rightarrow> ('z, unit) dbr" where
  "FinishRun i st = sql_write (\<lambda>s.
     s\<lparr>runs := update_rows (\<lambda>r. run_id r = i)
         (\<lambda>r. r\<lparr>run_finished_at := Some (clock s), run_status := st\<rparr>) (runs s)\<rparr>)"

definition list_limit :: "int \<Rightarrow> nat" where
  "list_limit lim = (if lim \<le> 0 \<or> lim > 1000 then 100 else nat lim)"

definition ListRuns :: "int \<Rightarrow> ('z, run list) dbr" where
  "ListRuns lim = sql_read (\<lambda>s. take (list_limit lim) (sort_key (\<lambda>r. - run_created_at r) (runs s)))"

definition GetRun :: "string \<Rightarrow> ('z, run) dbr" where
  "GetRun i = sql (\<lambda>s.
     case find_row (\<lambda>r. run_id r = i) (runs s) of None \<Rightarrow> Inl (NotFound i) | Some r \<Rightarrow> Inr (r, s))"

definition InsertTask :: "task \<Rightarrow> ('z, unit) dbr" where
  "InsertTask t = sql (\<lambda>s.
     if find_row (\<lambda>x. tk_id x = tk_id t) (tasks s) \<noteq> None then Inl (Violation ''tasks.id'')
     else if find_row (\<lambda>r. run_id r = tk_run t) (runs s) = None then Inl (Violation ''tasks.run_id'')
     else if find_row (\<lambda>h. h_id h = tk_host t) (hosts s) = None then Inl (Violation ''tasks.host_id'')
     else Inr ((), s\<lparr>tasks := tasks s @
            [t\<lparr>tk_started_at := None, tk_finished_at := None, tk_duration := None, tk_error := []\<rparr>]\<rparr>))"

definition StartTask :: "string \<Rightarrow> ('z, unit) dbr" where
  "StartTask i = sql_write (\<lambda>s.
     s\<lparr>tasks := update_rows (\<lambda>t. tk_id t = i \<and> tk_status t = TkPending)
         (\<lambda>t. t\<lparr>tk_status := TkSent, tk_started_at := Some (clock s)\<rparr>) (tasks s)\<rparr>)"

definition FinishTask :: "string \<Rightarrow> task_status \<Rightarrow> int \<Rightarrow> string \<Rightarrow> ('z, unit) dbr" where
  "FinishTask i st ms err = sql_write (\<lambda>s.
     s\<lparr>tasks := update_rows (\<lambda>t. tk_id t = i)
         (\<lambda>t. t\<lparr>tk_status := st, tk_finished_at := Some (clock s), tk_duration := Some ms,
                tk_error := err\<rparr>) (tasks s)\<rparr>)"

definition GetTask :: "string \<Rightarrow> ('z, task) dbr" where
  "GetTask i = sql (\<lambda>s.
     case find_row (\<lambda>t. tk_id t = i) (tasks s) of None \<Rightarrow> Inl (NotFound i) | Some t \<Rightarrow> Inr (t, s))"

definition ListTasks :: "string \<Rightarrow> ('z, task list) dbr" where
  "ListTasks rid = sql_read (\<lambda>s. sort_key tk_host (filter (\<lambda>t. tk_run t = rid) (tasks s)))"

definition UpsertResult :: "task_result \<Rightarrow> ('z, unit) dbr" where
  "UpsertResult r = sql (\<lambda>s.
     if find_row (\<lambda>x. rs_task x = rs_task r) (results s) \<noteq> None
     then Inr ((), s\<lparr>results := update_rows (\<lambda>x. rs_task x = rs_task r) (\<lambda>_. r) (results s)\<rparr>)
     else if find_row (\<lambda>t. tk_id t = rs_task r) (tasks s) = None then Inl (Violation ''results.task_id'')
     else Inr ((), s\<lparr>results := results s @ [r]\<rparr>))"

definition GetResult :: "string \<Rightarrow> ('z, task_result) dbr" where
  "GetResult i = sql (\<lambda>s.
     case find_row (\<lambda>r. rs_task r = i) (results s) of None \<Rightarrow> Inl (NotFound i) | Some r \<Rightarrow> Inr (r, s))"

end
