(* ===== verification/Store_Investigations.thy ===== *)
theory Store_Investigations
  imports Store_Runs
begin

text \<open>
  \<open>store/investigations.go\<close>: investigations, their messages, the tool calls the model asks
  for, and the findings.
\<close>

section \<open>Investigations\<close>

definition InsertInvestigation :: "investigation \<Rightarrow> ('z, unit) dbr" where
  "InsertInvestigation v = sql (\<lambda>s.
     if find_row (\<lambda>x. inv_id x = inv_id v) (invs s) \<noteq> None then Inl (Violation ''investigations.id'')
     else Inr ((), s\<lparr>invs := invs s @
            [v\<lparr>inv_created_at := clock s, inv_updated_at := clock s, inv_prompt_tokens := 0,
               inv_completion_tokens := 0, inv_tool_calls := 0, inv_compaction_tokens := 0,
               inv_summary := None, inv_extra_steps := 0, inv_extra_tokens := 0,
               inv_auto_approve := False\<rparr>]\<rparr>))"

definition GetInvestigation :: "string \<Rightarrow> ('z, investigation) dbr" where
  "GetInvestigation i = sql (\<lambda>s.
     case find_row (\<lambda>v. inv_id v = i) (invs s) of None \<Rightarrow> Inl (NotFound i) | Some v \<Rightarrow> Inr (v, s))"

text \<open>Every update of an investigation also stamps \<open>updated_at\<close>.\<close>

definition update_inv :: "string \<Rightarrow> (investigation \<Rightarrow> investigation) \<Rightarrow> ('z, unit) dbr" where
  "update_inv i f = sql_write (\<lambda>s.
     s\<lparr>invs := update_rows (\<lambda>v. inv_id v = i) (\<lambda>v. (f v)\<lparr>inv_updated_at := clock s\<rparr>) (invs s)\<rparr>)"

definition SetAutoApprove :: "string \<Rightarrow> bool \<Rightarrow> ('z, unit) dbr" where
  "SetAutoApprove i on = update_inv i (\<lambda>v. v\<lparr>inv_auto_approve := on\<rparr>)"

definition ExtendBudget :: "string \<Rightarrow> int \<Rightarrow> int \<Rightarrow> ('z, unit) dbr" where
  "ExtendBudget i steps toks = update_inv i (\<lambda>v.
     v\<lparr>inv_extra_steps := inv_extra_steps v + steps,
       inv_extra_tokens := inv_extra_tokens v + toks, inv_status := InvActive\<rparr>)"

definition UpdateInvestigationStatus :: "string \<Rightarrow> inv_status \<Rightarrow> ('z, unit) dbr" where
  "UpdateInvestigationStatus i st = update_inv i (\<lambda>v. v\<lparr>inv_status := st\<rparr>)"

definition AccumulateCompactionTokens :: "string \<Rightarrow> int \<Rightarrow> ('z, unit) dbr" where
  "AccumulateCompactionTokens i n =
     update_inv i (\<lambda>v. v\<lparr>inv_compaction_tokens := inv_compaction_tokens v + n\<rparr>)"

definition AccumulateTokens :: "string \<Rightarrow> int \<Rightarrow> int \<Rightarrow> ('z, unit) dbr" where
  "AccumulateTokens i p c = update_inv i (\<lambda>v.
     v\<lparr>inv_prompt_tokens := inv_prompt_tokens v + p,
       inv_completion_tokens := inv_completion_tokens v + c\<rparr>)"

definition IncrementToolCalls :: "string \<Rightarrow> ('z, unit) dbr" where
  "IncrementToolCalls i = update_inv i (\<lambda>v. v\<lparr>inv_tool_calls := inv_tool_calls v + 1\<rparr>)"

definition FinishInvestigation :: "string \<Rightarrow> inv_status \<Rightarrow> jtext \<Rightarrow> ('z, unit) dbr" where
  "FinishInvestigation i st summary =
     update_inv i (\<lambda>v. v\<lparr>inv_status := st, inv_summary := Some summary\<rparr>)"

text \<open>
  \<open>ListInvestigations\<close> does not select the allowlist, the extensions and the auto-approve
  flag: those fields of the rows it returns are zero.
\<close>

definition ListInvestigations :: "int \<Rightarrow> ('z, investigation list) dbr" where
  "ListInvestigations lim = sql_read (\<lambda>s.
     take (list_limit lim)
       (map (\<lambda>v. v\<lparr>inv_allowed := [], inv_extra_steps := 0, inv_extra_tokens := 0,
                   inv_auto_approve := False\<rparr>)
          (sort_key (\<lambda>v. - inv_created_at v) (invs s))))"

section \<open>Messages\<close>

definition msg_seqs :: "string \<Rightarrow> msg list \<Rightarrow> int list" where
  "msg_seqs i ms = map m_seq (filter (\<lambda>x. m_inv x = i) ms)"

definition next_seq :: "string \<Rightarrow> msg list \<Rightarrow> int" where
  "next_seq i ms = (case msg_seqs i ms of [] \<Rightarrow> 0 | x # xs \<Rightarrow> foldl max x xs) + 1"

definition AppendMessage :: "msg \<Rightarrow> ('z, int) dbr" where
  "AppendMessage m = sql (\<lambda>s.
     if find_row (\<lambda>v. inv_id v = m_inv m) (invs s) = None then Inl (Violation ''messages.investigation_id'')
     else (let i = last_msg_id s + 1
           in Inr (i, s\<lparr>msgs := msgs s @
                [m\<lparr>m_id := i, m_seq := next_seq (m_inv m) (msgs s), m_at := clock s,
                   m_archived := False\<rparr>],
                last_msg_id := i\<rparr>)))"

definition ListMessages :: "string \<Rightarrow> bool \<Rightarrow> ('z, msg list) dbr" where
  "ListMessages i includeArchived = sql_read (\<lambda>s.
     sort_key m_seq (filter (\<lambda>x. m_inv x = i \<and> (includeArchived \<or> \<not> m_archived x)) (msgs s)))"

definition MarkMessagesArchived :: "string \<Rightarrow> int \<Rightarrow> ('z, unit) dbr" where
  "MarkMessagesArchived i upTo = sql_write (\<lambda>s.
     s\<lparr>msgs := update_rows (\<lambda>x. m_inv x = i \<and> m_seq x \<le> upTo) (\<lambda>x. x\<lparr>m_archived := True\<rparr>) (msgs s)\<rparr>)"

section \<open>Tool calls\<close>

definition InsertToolCall :: "call_row \<Rightarrow> ('z, unit) dbr" where
  "InsertToolCall c = sql (\<lambda>s.
     if find_row (\<lambda>x. tc_id x = tc_id c) (calls s) \<noteq> None then Inl (Violation ''tool_calls.id'')
     else if find_row (\<lambda>v. inv_id v = tc_inv c) (invs s) = None
       then Inl (Violation ''tool_calls.investigation_id'')
     else Inr ((), s\<lparr>calls := calls s @
            [c\<lparr>tc_decided_by := None, tc_task := None, tc_created_at := clock s,
               tc_decided_at := None, tc_result := None, tc_broad := False\<rparr>]\<rparr>))"

definition update_call :: "string \<Rightarrow> (instant \<Rightarrow> call_row \<Rightarrow> call_row) \<Rightarrow> ('z, unit) dbr" where
  "update_call i f = sql_write (\<lambda>s. s\<lparr>calls := update_rows (\<lambda>c. tc_id c = i) (f (clock s)) (calls s)\<rparr>)"

definition SetToolCallInput :: "string \<Rightarrow> jtext \<Rightarrow> ('z, unit) dbr" where
  "SetToolCallInput i input = update_call i (\<lambda>_ c. c\<lparr>tc_input := input\<rparr>)"

definition SetToolCallRationale :: "string \<Rightarrow> string \<Rightarrow> ('z, unit) dbr" where
  "SetToolCallRationale i txt = update_call i (\<lambda>_ c. c\<lparr>tc_rationale := txt\<rparr>)"

definition SetToolCallBroadConfirmed :: "string \<Rightarrow> bool \<Rightarrow> ('z, unit) dbr" where
  "SetToolCallBroadConfirmed i v = update_call i (\<lambda>_ c. c\<lparr>tc_broad := v\<rparr>)"

definition nullable :: "string \<Rightarrow> string option" where
  "nullable t = (if t = [] then None else Some t)"

definition nullable_text :: "jtext \<Rightarrow> jtext option" where
  "nullable_text t = (if t = jempty then None else Some t)"

definition UpdateToolCall ::
  "string \<Rightarrow> call_status \<Rightarrow> string \<Rightarrow> string \<Rightarrow> jtext \<Rightarrow> ('z, unit) dbr" where
  "UpdateToolCall i st by tid res = update_call i (\<lambda>now c.
     c\<lparr>tc_status := st, tc_decided_by := nullable by, tc_task := nullable tid,
       tc_result := nullable_text res, tc_decided_at := Some now\<rparr>)"

definition GetToolCall :: "string \<Rightarrow> ('z, call_row) dbr" where
  "GetToolCall i = sql (\<lambda>s.
     case find_row (\<lambda>c. tc_id c = i) (calls s) of None \<Rightarrow> Inl (NotFound i) | Some c \<Rightarrow> Inr (c, s))"

definition calls_of :: "string \<Rightarrow> 'z db_scheme \<Rightarrow> call_row list" where
  "calls_of i s = sort_key tc_seq (filter (\<lambda>c. tc_inv c = i) (calls s))"

definition ListToolCalls :: "string \<Rightarrow> ('z, call_row list) dbr" where
  "ListToolCalls i = sql_read (calls_of i)"

text \<open>\<open>ORDER BY seq DESC LIMIT 1\<close> over the pending calls.\<close>

definition PendingToolCall :: "string \<Rightarrow> ('z, call_row option) dbr" where
  "PendingToolCall i = sql_read (\<lambda>s.
     case sort_key (\<lambda>c. - tc_seq c) (filter (\<lambda>c. tc_inv c = i \<and> tc_status c = TcPending) (calls s)) of
       [] \<Rightarrow> None | c # _ \<Rightarrow> Some c)"

section \<open>Findings\<close>

definition AddFinding :: "finding \<Rightarrow> ('z, unit) dbr" where
  "AddFinding f = sql (\<lambda>s.
     if find_row (\<lambda>x. fd_id x = fd_id f) (findings s) \<noteq> None then Inl (Violation ''findings.id'')
     else if find_row (\<lambda>v. inv_id v = fd_inv f) (invs s) = None
       then Inl (Violation ''findings.investigation_id'')
     else Inr ((), s\<lparr>findings := findings s @ [f\<lparr>fd_created_at := clock s\<rparr>]\<rparr>))"

text \<open>\<open>ORDER BY pinned DESC, ignored ASC, created_at\<close>: stable sorts from the last key to the first.\<close>

definition ListFindings :: "string \<Rightarrow> ('z, finding list) dbr" where
  "ListFindings i = sql_read (\<lambda>s.
     sort_key (\<lambda>f. \<not> fd_pinned f) (sort_key fd_ignored (sort_key fd_created_at
       (filter (\<lambda>f. fd_inv f = i) (findings s)))))"

record finding_counts =
  fc_critical :: nat
  fc_error :: nat
  fc_warn :: nat
  fc_info :: nat

definition count_severity :: "string \<Rightarrow> finding list \<Rightarrow> nat" where
  "count_severity sev fs = length (filter (\<lambda>f. fd_severity f = sev) fs)"

definition FindingCountsByInvestigation :: "('z, string \<Rightarrow> finding_counts option) dbr" where
  "FindingCountsByInvestigation = sql_read (\<lambda>s i.
     (let fs = filter (\<lambda>f. fd_inv f = i \<and> \<not> fd_ignored f) (findings s)
      in if fs = [] then None
         else Some \<lparr>fc_critical = count_severity ''critical'' fs, fc_error = count_severity ''error'' fs,
                    fc_warn = count_severity ''warn'' fs, fc_info = count_severity ''info'' fs\<rparr>))"

record snapshot =
  sn_status :: inv_status
  sn_last_call :: "call_status option"
  sn_steps :: nat
  sn_findings :: nat

definition SnapshotCounters :: "string \<Rightarrow> ('z, snapshot) dbr" where
  "SnapshotCounters i = sql (\<lambda>s.
     case find_row (\<lambda>v. inv_id v = i) (invs s) of
       None \<Rightarrow> Inl (NotFound i)
     | Some v \<Rightarrow> Inr (\<lparr>sn_status = inv_status v,
           sn_last_call = (case sort_key (\<lambda>c. - tc_seq c) (filter (\<lambda>c. tc_inv c = i) (calls s)) of
                             [] \<Rightarrow> None | c # _ \<Rightarrow> Some (tc_status c)),
           sn_steps = length (filter (\<lambda>c. tc_inv c = i) (calls s)),
           sn_findings = length (filter (\<lambda>f. fd_inv f = i) (findings s))\<rparr>, s))"

definition SetFindingPinned :: "string \<Rightarrow> bool \<Rightarrow> ('z, unit) dbr" where
  "SetFindingPinned i v = sql_write (\<lambda>s.
     s\<lparr>findings := update_rows (\<lambda>f. fd_id f = i) (\<lambda>f. f\<lparr>fd_pinned := v\<rparr>) (findings s)\<rparr>)"

definition SetFindingIgnored :: "string \<Rightarrow> bool \<Rightarrow> ('z, unit) dbr" where
  "SetFindingIgnored i v = sql_write (\<lambda>s.
     s\<lparr>findings := update_rows (\<lambda>f. fd_id f = i) (\<lambda>f. f\<lparr>fd_ignored := v\<rparr>) (findings s)\<rparr>)"

definition GetFinding :: "string \<Rightarrow> ('z, finding) dbr" where
  "GetFinding i = sql (\<lambda>s.
     case find_row (\<lambda>f. fd_id f = i) (findings s) of None \<Rightarrow> Inl (NotFound i) | Some f \<Rightarrow> Inr (f, s))"

end
