(* ===== verification/Store_Access.thy ===== *)
theory Store_Access
  imports Store_Base
begin

text \<open>
  The access side of the store: \<open>store/api_tokens.go\<close>, \<open>store/sessions.go\<close>,
  \<open>store/audit.go\<close> and \<open>store/nav.go\<close>. SHA-256 is the parameter \<open>hash\<close>; the random id of
  a token row and the base64 text of 32 random bytes are drawn from a parameter source.
\<close>

section \<open>API tokens\<close>

definition apiTokenPrefix :: string where
  "apiTokenPrefix = ''recon_pat_''"

definition ValidAPIScope :: "string \<Rightarrow> bool" where
  "ValidAPIScope s = (s = ''read'' \<or> s = ''investigate'' \<or> s = ''admin'')"

definition GenerateAPIToken ::
  "(string \<Rightarrow> string) \<Rightarrow> (nat \<Rightarrow> string) \<Rightarrow> ('z, string \<times> string \<times> string) dbm" where
  "GenerateAPIToken hash body_src = do {
     body \<leftarrow> draw body_src;
     (let raw = apiTokenPrefix @ body
      in return (raw, hash raw,
           if length raw \<ge> length apiTokenPrefix + 2 then take (length apiTokenPrefix + 2) raw else raw))
   }"

definition InsertAPIToken ::
  "(nat \<Rightarrow> string) \<Rightarrow> string \<Rightarrow> string \<Rightarrow> string \<Rightarrow> string \<Rightarrow> string \<Rightarrow> instant option
   \<Rightarrow> ('z, string) dbr" where
  "InsertAPIToken id_src name h prefix scope by expires =
     (if name = [] then return (Inl (Refused ''name required''))
      else if \<not> ValidAPIScope scope then return (Inl (Refused ''invalid scope''))
      else if h = [] \<or> prefix = [] then return (Inl (Refused ''hash and prefix required''))
      else do {
        i \<leftarrow> draw id_src;
        sql (\<lambda>s.
          if find_row (\<lambda>t. pat_id t = i \<or> pat_hash t = h) (pats s) \<noteq> None then Inl (Violation ''api_tokens'')
          else Inr (i, s\<lparr>pats := pats s @
                 [\<lparr>pat_id = i, pat_name = name, pat_hash = h, pat_prefix = prefix, pat_scope = scope,
                   pat_created_by = by, pat_created_at = clock s, pat_last_used_at = None,
                   pat_expires_at = expires, pat_revoked_at = None\<rparr>]\<rparr>))
      })"

definition LookupAPIToken :: "(string \<Rightarrow> string) \<Rightarrow> string \<Rightarrow> ('z, pat) dbr" where
  "LookupAPIToken hash raw = sql (\<lambda>s.
     case find_row (\<lambda>t. pat_hash t = hash raw) (pats s) of
       None \<Rightarrow> Inl APITokenInvalid
     | Some t \<Rightarrow>
         if pat_revoked_at t \<noteq> None then Inl APITokenInvalid
         else (case pat_expires_at t of
                 Some e \<Rightarrow> if clock s > e then Inl APITokenInvalid else Inr (t, s)
               | None \<Rightarrow> Inr (t, s)))"

definition TouchAPIToken :: "string \<Rightarrow> ('z, unit) dbr" where
  "TouchAPIToken i = sql_write (\<lambda>s.
     s\<lparr>pats := update_rows (\<lambda>t. pat_id t = i) (\<lambda>t. t\<lparr>pat_last_used_at := Some (clock s)\<rparr>) (pats s)\<rparr>)"

definition ListAPITokens :: "int \<Rightarrow> ('z, pat list) dbr" where
  "ListAPITokens lim =
     (let n = (if lim \<le> 0 then 100 else lim)
      in sql_read (\<lambda>s. take (nat n) (sort_key (\<lambda>t. - pat_created_at t) (pats s))))"

definition RevokeAPIToken :: "string \<Rightarrow> ('z, unit) dbr" where
  "RevokeAPIToken i = sql_write (\<lambda>s.
     s\<lparr>pats := update_rows (\<lambda>t. pat_id t = i \<and> pat_revoked_at t = None)
         (\<lambda>t. t\<lparr>pat_revoked_at := Some (clock s)\<rparr>) (pats s)\<rparr>)"

section \<open>Operator sessions\<close>

definition InsertSession :: "session \<Rightarrow> ('z, unit) dbr" where
  "InsertSession r = sql (\<lambda>s.
     if find_row (\<lambda>x. ss_sid x = ss_sid r) (sessions s) \<noteq> None then Inl (Violation ''web_sessions.sid'')
     else Inr ((), s\<lparr>sessions := sessions s @ [r]\<rparr>))"

definition GetSession :: "string \<Rightarrow> ('z, session) dbr" where
  "GetSession sid = sql (\<lambda>s.
     case find_row (\<lambda>x. ss_sid x = sid) (sessions s) of
       None \<Rightarrow> Inl SessionNotFound
     | Some r \<Rightarrow> if clock s > ss_expires_at r then Inl SessionNotFound else Inr (r, s))"

definition DeleteSession :: "string \<Rightarrow> ('z, unit) dbr" where
  "DeleteSession sid = sql_write (\<lambda>s. s\<lparr>sessions := delete_rows (\<lambda>x. ss_sid x = sid) (sessions s)\<rparr>)"

definition DeleteExpiredSessions :: "('z, unit) dbr" where
  "DeleteExpiredSessions =
     sql_write (\<lambda>s. s\<lparr>sessions := delete_rows (\<lambda>x. ss_expires_at x \<le> clock s) (sessions s)\<rparr>)"

section \<open>Audit log\<close>

definition AuditLog :: "string \<Rightarrow> string \<Rightarrow> json \<Rightarrow> ('z, unit) dbr" where
  "AuditLog actor action details = sql_write (\<lambda>s.
     (let i = last_audit_id s + 1
      in s\<lparr>audit := audit s @
             [\<lparr>au_id = i, au_at = clock s, au_actor = actor, au_action = action, au_details = details\<rparr>],
           last_audit_id := i\<rparr>))"

text \<open>SQLite's \<open>LIKE\<close>: \<open>%\<close> any text, \<open>_\<close> any one character, ASCII letters without case.\<close>

fun like :: "string \<Rightarrow> string \<Rightarrow> bool" where
  "like [] s = (s = [])"
| "like (p # ps) [] = (p = CHR ''%'' \<and> like ps [])"
| "like (p # ps) (c # s) =
     (if p = CHR ''%'' then like ps (c # s) \<or> like (p # ps) s
      else (p = CHR ''_'' \<or> lower_char p = lower_char c) \<and> like ps s)"

definition ListAuditFiltered :: "string \<Rightarrow> string \<Rightarrow> int \<Rightarrow> ('z, audit_row list) dbr" where
  "ListAuditFiltered actor action lim = sql_read (\<lambda>s.
     take (if lim \<le> 0 \<or> lim > 1000 then 100 else nat lim)
       (sort_key (\<lambda>e. - au_id e)
         (filter (\<lambda>e. (actor = [] \<or> like (''%'' @ actor @ ''%'') (au_actor e)) \<and>
                      (action = [] \<or> like (''%'' @ action @ ''%'') (au_action e))) (audit s))))"

definition ListAudit :: "int \<Rightarrow> ('z, audit_row list) dbr" where
  "ListAudit lim = ListAuditFiltered [] [] lim"

section \<open>Counts for the navigation\<close>

record nav_counts =
  nc_hosts :: nat
  nc_collectors :: nat
  nc_active :: nat

definition NavCounts :: "('z, nav_counts) dbr" where
  "NavCounts =
     unless_err (sql_read (\<lambda>s. length (hosts s))) (\<lambda>h. do {
       c \<leftarrow> sql_read (\<lambda>s. length (manifests s));
       a \<leftarrow> sql_read (\<lambda>s. length (filter (\<lambda>v. inv_status v \<in> {InvActive, InvWaiting}) (invs s)));
       return (Inr \<lparr>nc_hosts = h,
                    nc_collectors = (case c of Inl _ \<Rightarrow> 0 | Inr n \<Rightarrow> n),
                    nc_active = (case a of Inl _ \<Rightarrow> 0 | Inr n \<Rightarrow> n)\<rparr>)
     })"

end
