(* ===== verification/Store_Invariant.thy ===== *)
theory Store_Invariant
  imports Store_Inventory Store_Investigations Store_Access
begin

text \<open>
  What the schema promises of the database (keys, foreign keys, the order of an
  investigation's messages), that every operation of the store keeps it, and the life of a
  bootstrap token over any sequence of store operations.
\<close>

section \<open>The invariant\<close>

definition keys_ok :: "'z db_scheme \<Rightarrow> bool" where
  "keys_ok s =
     (distinct (map h_id (hosts s)) \<and> distinct (map (\<lambda>r. (mf_host r, mf_name r)) (manifests s)) \<and>
      distinct (map bt_hash (tokens s)) \<and> distinct (map id_agent (idents s)) \<and>
      distinct (map run_id (runs s)) \<and> distinct (map tk_id (tasks s)) \<and>
      distinct (map rs_task (results s)) \<and> distinct (map inv_id (invs s)) \<and>
      distinct (map tc_id (calls s)) \<and> distinct (map fd_id (findings s)) \<and>
      distinct (map ss_sid (sessions s)) \<and> distinct (map pat_id (pats s)) \<and>
      distinct (map pat_hash (pats s)))"

definition refs_ok :: "'z db_scheme \<Rightarrow> bool" where
  "refs_ok s =
     (mf_host ` set (manifests s) \<subseteq> h_id ` set (hosts s) \<and>
      tk_run ` set (tasks s) \<subseteq> run_id ` set (runs s) \<and>
      tk_host ` set (tasks s) \<subseteq> h_id ` set (hosts s) \<and>
      rs_task ` set (results s) \<subseteq> tk_id ` set (tasks s) \<and>
      m_inv ` set (msgs s) \<subseteq> inv_id ` set (invs s) \<and>
      tc_inv ` set (calls s) \<subseteq> inv_id ` set (invs s) \<and>
      fd_inv ` set (findings s) \<subseteq> inv_id ` set (invs s))"

text \<open>Message and audit ids grow with insertion, and so do the messages' numbers in an investigation.\<close>

definition seqs_ok :: "'z db_scheme \<Rightarrow> bool" where
  "seqs_ok s =
     (sorted_wrt (<) (map m_id (msgs s)) \<and> (\<forall>x \<in> set (msgs s). m_id x \<le> last_msg_id s) \<and>
      (\<forall>i. sorted_wrt (<) (msg_seqs i (msgs s))) \<and>
      sorted_wrt (<) (map au_id (audit s)) \<and> (\<forall>x \<in> set (audit s). au_id x \<le> last_audit_id s))"

definition db_ok :: "'z db_scheme \<Rightarrow> bool" where
  "db_ok s = (keys_ok s \<and> refs_ok s \<and> seqs_ok s)"

lemma db_ok_empty: "db_ok empty_db"
  by (simp add: db_ok_def keys_ok_def refs_ok_def seqs_ok_def empty_db_def msg_seqs_def)

lemma fault_free_db_ok [simp]: "fault_free db_ok"
  by (simp add: fault_free_def db_ok_def keys_ok_def refs_ok_def seqs_ok_def)

lemmas db_ok_parts = db_ok_def keys_ok_def refs_ok_def seqs_ok_def

lemmas insert_rows = find_row_None_keys

section \<open>Every operation keeps it\<close>

text \<open>
  The invariant is a conjunction of facts on single tables, so an operation on one table
  leaves most of it alone by simplification; what is left is about its own rows.
\<close>

lemma sql_read_keeps [keeps_intros]: "keeps db_ok (sql_read f)"
  by (rule keeps_sql_read) simp

lemma draw_keeps [keeps_intros]: "keeps db_ok (draw src)"
  by (simp add: keeps_def db_ok_parts)

lemma sql_keeps:
  "(\<And>s x t. db_ok s \<Longrightarrow> f s = Inr (x, t) \<Longrightarrow> db_ok t) \<Longrightarrow> keeps db_ok (sql f)"
  by (rule keeps_sql) simp

lemma sql_write_keeps: "(\<And>s. db_ok s \<Longrightarrow> db_ok (f s)) \<Longrightarrow> keeps db_ok (sql_write f)"
  by (rule keeps_sql_write) simp

lemma sql_look_keeps:
  "(\<And>s x t. f s = Inr (x, t) \<Longrightarrow> t = s) \<Longrightarrow> keeps db_ok (sql f)"
  by (rule sql_keeps) blast

lemmas reads_unfold =
  ListHosts_def ListCollectorManifests_def ListBootstrapTokens_def LookupBootstrapToken_def
  ListRuns_def ListTasks_def ListInvestigations_def ListMessages_def ListToolCalls_def
  PendingToolCall_def ListFindings_def FindingCountsByInvestigation_def ListAPITokens_def
  ListAuditFiltered_def ListAudit_def

lemma reads_keep [keeps_intros]:
  "keeps db_ok ListHosts"
  "keeps db_ok (ListCollectorManifests i)"
  "keeps db_ok (ListBootstrapTokens n)"
  "keeps db_ok (LookupBootstrapToken hash p i)"
  "keeps db_ok (ListRuns n)"
  "keeps db_ok (ListTasks i)"
  "keeps db_ok (ListInvestigations n)"
  "keeps db_ok (ListMessages i arch)"
  "keeps db_ok (ListToolCalls i)"
  "keeps db_ok (PendingToolCall i)"
  "keeps db_ok (ListFindings i)"
  "keeps db_ok FindingCountsByInvestigation"
  "keeps db_ok (ListAPITokens n)"
  "keeps db_ok (ListAudit n)"
  "keeps db_ok (ListAuditFiltered actor action n)"
  unfolding reads_unfold by (intro keeps_intros)+

lemma lookups_keep [keeps_intros]:
  "keeps db_ok (GetHost i)"
  "keeps db_ok (VerifyIdentity i fp)"
  "keeps db_ok (GetRun i)"
  "keeps db_ok (GetTask i)"
  "keeps db_ok (GetResult i)"
  "keeps db_ok (GetInvestigation i)"
  "keeps db_ok (GetToolCall i)"
  "keeps db_ok (GetFinding i)"
  "keeps db_ok (SnapshotCounters i)"
  "keeps db_ok (LookupAPIToken hash p)"
  "keeps db_ok (GetSession i)"
  unfolding GetHost_def VerifyIdentity_def GetRun_def GetTask_def GetResult_def
    GetInvestigation_def GetToolCall_def GetFinding_def SnapshotCounters_def
    LookupAPIToken_def GetSession_def
  by (rule sql_look_keeps, simp split: option.splits if_splits)+

lemma inventory_keeps [keeps_intros]:
  "keeps db_ok (RevokeIdentity i why)"
  "keeps db_ok (DeleteBootstrapToken h)"
  "keeps db_ok (UpsertHost x)"
  unfolding RevokeIdentity_def DeleteBootstrapToken_def UpsertHost_def
  by (rule sql_write_keeps, simp add: db_ok_parts distinct_keys_delete insert_rows subset_insertI2)+

lemma TouchHost_keeps [keeps_intros]: "keeps db_ok (TouchHost i st)"
  unfolding TouchHost_def
  by (rule sql_keeps) (clarsimp simp: db_ok_parts split: if_splits)

lemma RegisterIdentity_keeps [keeps_intros]: "keeps db_ok (RegisterIdentity i fp via)"
  unfolding RegisterIdentity_def
  by (rule sql_keeps)
    (clarsimp simp: db_ok_parts insert_rows distinct_keys_delete Let_def split: option.splits if_splits)

lemma InsertBootstrapToken_keeps [keeps_intros]: "keeps db_ok (InsertBootstrapToken hash p i by ttl)"
  unfolding InsertBootstrapToken_def
  by (intro keeps_intros sql_keeps) (clarsimp simp: db_ok_parts insert_rows split: if_splits)

lemma ConsumeBootstrapToken_keeps [keeps_intros]: "keeps db_ok (ConsumeBootstrapToken hash p i)"
  unfolding ConsumeBootstrapToken_def
  by (intro keeps_intros sql_keeps) (clarsimp simp: db_ok_parts Let_def)

lemma insert_manifests_ok:
  "insert_manifests i mfs tbl = Inr tbl' \<Longrightarrow> distinct (map (\<lambda>r. (mf_host r, mf_name r)) tbl)
   \<Longrightarrow> distinct (map (\<lambda>r. (mf_host r, mf_name r)) tbl')
     \<and> mf_host ` set tbl' \<subseteq> (if mfs = [] then mf_host ` set tbl else insert i (mf_host ` set tbl))"
proof (induction i mfs tbl rule: insert_manifests.induct)
  case (2 i mf mfs tbl)
  from 2(2) have new: "find_row (\<lambda>r. mf_host r = i \<and> mf_name r = mf_name mf) tbl = None"
    and rest: "insert_manifests i mfs (tbl @ [mf\<lparr>mf_host := i\<rparr>]) = Inr tbl'"
    by (auto split: if_splits)
  have "distinct (map (\<lambda>r. (mf_host r, mf_name r)) (tbl @ [mf\<lparr>mf_host := i\<rparr>]))"
    using 2(3) new by (auto simp: find_row_None_iff image_iff)
  from 2(1) [OF _ rest this] new show ?case by (auto split: if_splits)
qed simp

lemma ReplaceCollectorManifests_keeps [keeps_intros]: "keeps db_ok (ReplaceCollectorManifests i mfs)"
  unfolding ReplaceCollectorManifests_def
proof (rule sql_keeps)
  fix s :: "'z db_scheme" and x t
  assume ok: "db_ok s" and run: "(if mfs \<noteq> [] \<and> find_row (\<lambda>r. h_id r = i) (hosts s) = None then Inl (Violation i)
     else (case insert_manifests i mfs (delete_rows (\<lambda>r. mf_host r = i) (manifests s)) of
             Inl e \<Rightarrow> Inl e
           | Inr tbl \<Rightarrow> Inr ((), s\<lparr>manifests := tbl\<rparr>))) = Inr (x, t)"
  from run obtain tbl where tbl: "insert_manifests i mfs (delete_rows (\<lambda>r. mf_host r = i) (manifests s)) = Inr tbl"
    and t: "t = s\<lparr>manifests := tbl\<rparr>" and hid: "mfs \<noteq> [] \<longrightarrow> i \<in> h_id ` set (hosts s)"
    by (auto simp: insert_rows split: if_splits sum.splits)
  have "distinct (map (\<lambda>r. (mf_host r, mf_name r)) (delete_rows (\<lambda>r. mf_host r = i) (manifests s)))"
    using ok by (simp add: db_ok_parts distinct_keys_delete)
  from insert_manifests_ok [OF tbl this]
  have d: "distinct (map (\<lambda>r. (mf_host r, mf_name r)) tbl)"
    and sub: "mf_host ` set tbl \<subseteq> (if mfs = [] then mf_host ` set (delete_rows (\<lambda>r. mf_host r = i) (manifests s))
        else insert i (mf_host ` set (delete_rows (\<lambda>r. mf_host r = i) (manifests s))))" by auto
  have "mf_host ` set (manifests s) \<subseteq> h_id ` set (hosts s)" using ok by (simp add: db_ok_parts)
  moreover have "mf_host ` set (delete_rows (\<lambda>r. mf_host r = i) (manifests s)) \<subseteq> mf_host ` set (manifests s)"
    by (rule image_mono) simp
  ultimately have "mf_host ` set tbl \<subseteq> h_id ` set (hosts s)"
    using sub hid by (cases "mfs = []") (simp_all, blast+)
  with d ok show "db_ok t" unfolding t by (simp add: db_ok_parts)
qed

lemma image_delete_refs:
  assumes "f ` set xs \<subseteq> g ` set ys"
  shows "f ` set (delete_rows (\<lambda>x. f x = i) xs) \<subseteq> g ` set (delete_rows (\<lambda>y. g y = i) ys)"
    and "f ` set (delete_rows P xs) \<subseteq> g ` set ys"
proof -
  show "f ` set (delete_rows (\<lambda>x. f x = i) xs) \<subseteq> g ` set (delete_rows (\<lambda>y. g y = i) ys)"
  proof
    fix k assume "k \<in> f ` set (delete_rows (\<lambda>x. f x = i) xs)"
    then have k: "k \<in> f ` set xs" "k \<noteq> i" by auto
    have "k \<in> g ` set ys" using assms k(1) by (rule subsetD)
    then obtain y where "y \<in> set ys" "g y = k" by auto
    with k(2) show "k \<in> g ` set (delete_rows (\<lambda>y. g y = i) ys)" by auto
  qed
  show "f ` set (delete_rows P xs) \<subseteq> g ` set ys" using assms by auto
qed

lemma DeleteHost_keeps [keeps_intros]: "keeps db_ok (DeleteHost i)"
  unfolding DeleteHost_def delete_host_row_def delete_tasks_def
proof (rule sql_write_keeps)
  fix s :: "'z db_scheme"
  assume ok: "db_ok s"
  have "mf_host ` set (delete_rows (\<lambda>r. mf_host r = i) (manifests s))
          \<subseteq> h_id ` set (delete_rows (\<lambda>r. h_id r = i) (hosts s))"
    "tk_host ` set (delete_rows (\<lambda>t. tk_host t = i) (tasks s))
          \<subseteq> h_id ` set (delete_rows (\<lambda>r. h_id r = i) (hosts s))"
    "tk_run ` set (delete_rows (\<lambda>t. tk_host t = i) (tasks s)) \<subseteq> run_id ` set (runs s)"
    using ok by (simp_all add: db_ok_parts image_delete_refs del: set_delete_rows)
  moreover have "rs_task ` set (delete_rows (\<lambda>r. \<exists>t \<in> set (tasks s). tk_host t = i \<and> tk_id t = rs_task r) (results s))
      \<subseteq> tk_id ` set (delete_rows (\<lambda>t. tk_host t = i) (tasks s))"
  proof
    fix k assume "k \<in> rs_task ` set (delete_rows (\<lambda>r. \<exists>t \<in> set (tasks s). tk_host t = i \<and> tk_id t = rs_task r) (results s))"
    then obtain r where r: "r \<in> set (results s)" "k = rs_task r"
      "\<not> (\<exists>t \<in> set (tasks s). tk_host t = i \<and> tk_id t = rs_task r)" by auto
    from ok have "rs_task ` set (results s) \<subseteq> tk_id ` set (tasks s)" by (simp add: db_ok_parts)
    with r(1) obtain t where t: "t \<in> set (tasks s)" "tk_id t = rs_task r" by (metis image_subset_iff imageE)
    with r(3) have "t \<in> set (delete_rows (\<lambda>t. tk_host t = i) (tasks s))" by auto
    with r(2) t(2) show "k \<in> tk_id ` set (delete_rows (\<lambda>t. tk_host t = i) (tasks s))" by (metis imageI)
  qed
  ultimately show "db_ok ((s\<lparr>idents := delete_rows (\<lambda>r. id_agent r = i) (idents s)\<rparr>)
      \<lparr>tasks := delete_rows (\<lambda>t. tk_host t = i) (tasks (s\<lparr>idents := delete_rows (\<lambda>r. id_agent r = i) (idents s)\<rparr>)),
       results := delete_rows (\<lambda>r. \<exists>t\<in>set (tasks (s\<lparr>idents := delete_rows (\<lambda>r. id_agent r = i) (idents s)\<rparr>)).
          tk_host t = i \<and> tk_id t = rs_task r) (results (s\<lparr>idents := delete_rows (\<lambda>r. id_agent r = i) (idents s)\<rparr>)),
       hosts := delete_rows (\<lambda>r. h_id r = i) (hosts (s\<lparr>idents := delete_rows (\<lambda>r. id_agent r = i) (idents s)\<rparr>)),
       manifests := delete_rows (\<lambda>r. mf_host r = i) (manifests (s\<lparr>idents := delete_rows (\<lambda>r. id_agent r = i) (idents s)\<rparr>))\<rparr>)"
    using ok by (simp add: db_ok_parts distinct_keys_delete)
qed

lemma runs_keep [keeps_intros]:
  "keeps db_ok (FinishRun i st)"
  "keeps db_ok (StartTask i)"
  "keeps db_ok (FinishTask i tst ms err)"
  unfolding FinishRun_def StartTask_def FinishTask_def
  by (rule sql_write_keeps, simp add: db_ok_parts)+

lemma run_inserts_keep [keeps_intros]:
  "keeps db_ok (InsertRun r)"
  "keeps db_ok (InsertTask t)"
  unfolding InsertRun_def InsertTask_def
  by (rule sql_keeps, clarsimp simp: db_ok_parts insert_rows subset_insertI2 split: if_splits)+

lemma map_update_const:
  "k r = c \<Longrightarrow> map k (update_rows (\<lambda>x. k x = c) (\<lambda>_. r) rows) = map k rows"
  by (induction rows) auto

lemma image_update_const:
  "k r = c \<Longrightarrow> k ` set (update_rows (\<lambda>x. k x = c) (\<lambda>_. r) rows) = k ` set rows"
  using map_update_const [of k r c rows] by (metis set_map)

lemma UpsertResult_keeps [keeps_intros]: "keeps db_ok (UpsertResult r)"
  unfolding UpsertResult_def
  by (rule sql_keeps)
    (clarsimp simp: db_ok_parts insert_rows map_update_const image_update_const split: if_splits)

lemma update_inv_keeps:
  "(\<And>v. inv_id (f v) = inv_id v) \<Longrightarrow> keeps db_ok (update_inv i f)"
  unfolding update_inv_def by (rule sql_write_keeps) (simp add: db_ok_parts)

lemma investigations_keep [keeps_intros]:
  "keeps db_ok (SetAutoApprove i on)"
  "keeps db_ok (ExtendBudget i a b)"
  "keeps db_ok (UpdateInvestigationStatus i st)"
  "keeps db_ok (AccumulateCompactionTokens i a)"
  "keeps db_ok (AccumulateTokens i a b)"
  "keeps db_ok (IncrementToolCalls i)"
  "keeps db_ok (FinishInvestigation i st t)"
  unfolding SetAutoApprove_def ExtendBudget_def UpdateInvestigationStatus_def
    AccumulateCompactionTokens_def AccumulateTokens_def IncrementToolCalls_def FinishInvestigation_def
  by (rule update_inv_keeps, simp)+

lemma InsertInvestigation_keeps [keeps_intros]: "keeps db_ok (InsertInvestigation v)"
  unfolding InsertInvestigation_def
  by (rule sql_keeps) (clarsimp simp: db_ok_parts insert_rows subset_insertI2 split: if_splits)

lemma update_call_keeps:
  "(\<And>now c. tc_id (f now c) = tc_id c) \<Longrightarrow> (\<And>now c. tc_inv (f now c) = tc_inv c)
   \<Longrightarrow> keeps db_ok (update_call i f)"
  unfolding update_call_def by (rule sql_write_keeps) (simp add: db_ok_parts)

lemma calls_keep [keeps_intros]:
  "keeps db_ok (SetToolCallInput i t)"
  "keeps db_ok (SetToolCallRationale i txt)"
  "keeps db_ok (SetToolCallBroadConfirmed i b)"
  "keeps db_ok (UpdateToolCall i st by tid t)"
  unfolding SetToolCallInput_def SetToolCallRationale_def SetToolCallBroadConfirmed_def UpdateToolCall_def
  by (rule update_call_keeps; simp)+

lemma call_inserts_keep [keeps_intros]:
  "keeps db_ok (InsertToolCall c)"
  "keeps db_ok (AddFinding f)"
  unfolding InsertToolCall_def AddFinding_def
  by (rule sql_keeps, clarsimp simp: db_ok_parts insert_rows split: if_splits)+

lemma findings_keep [keeps_intros]:
  "keeps db_ok (SetFindingPinned i b)"
  "keeps db_ok (SetFindingIgnored i b)"
  unfolding SetFindingPinned_def SetFindingIgnored_def
  by (rule sql_write_keeps, simp add: db_ok_parts)+

lemma access_keep [keeps_intros]:
  "keeps db_ok (TouchAPIToken i)"
  "keeps db_ok (RevokeAPIToken i)"
  "keeps db_ok (DeleteSession sid)"
  "keeps db_ok DeleteExpiredSessions"
  unfolding TouchAPIToken_def RevokeAPIToken_def DeleteSession_def DeleteExpiredSessions_def
  by (rule sql_write_keeps, simp add: db_ok_parts distinct_keys_delete)+

lemma InsertSession_keeps [keeps_intros]: "keeps db_ok (InsertSession r)"
  unfolding InsertSession_def
  by (rule sql_keeps) (clarsimp simp: db_ok_parts insert_rows split: if_splits)

lemma find_pat_None:
  "find_row (\<lambda>t. pat_id t = i \<or> pat_hash t = h) rows = None \<longleftrightarrow>
     i \<notin> pat_id ` set rows \<and> h \<notin> pat_hash ` set rows"
  by (auto simp: find_row_None_iff)

lemma InsertAPIToken_keeps [keeps_intros]: "keeps db_ok (InsertAPIToken src nm h p sc by ex)"
  unfolding InsertAPIToken_def
  by (intro keeps_intros sql_keeps) (clarsimp simp: db_ok_parts find_pat_None split: if_splits)

lemma GenerateAPIToken_keeps [keeps_intros]: "keeps db_ok (GenerateAPIToken hash src)"
  unfolding GenerateAPIToken_def by (intro keeps_intros)

lemma AuditLog_keeps [keeps_intros]: "keeps db_ok (AuditLog a b d)"
  unfolding AuditLog_def
  by (rule sql_write_keeps) (force simp: db_ok_parts Let_def sorted_wrt_append)

lemma NavCounts_keeps [keeps_intros]: "keeps db_ok NavCounts"
  unfolding NavCounts_def by (intro keeps_intros)

text \<open>The next message number is above every number the investigation has.\<close>

lemma foldl_max_ge: "x \<le> foldl max x xs \<and> (\<forall>y \<in> set xs. y \<le> foldl max (x :: int) xs)"
proof (induction xs arbitrary: x)
  case Nil
  then show ?case by simp
next
  case (Cons z xs)
  from Cons [of "max x z"] show ?case by auto
qed

lemma next_seq_gt: "q \<in> set (msg_seqs i ms) \<Longrightarrow> q < next_seq i ms"
proof -
  assume q: "q \<in> set (msg_seqs i ms)"
  then obtain x xs where xs: "msg_seqs i ms = x # xs" by (cases "msg_seqs i ms") auto
  from foldl_max_ge [of x xs] q xs have "q \<le> foldl max x xs" by auto
  with xs show ?thesis by (simp add: next_seq_def)
qed

lemma msg_seqs_append:
  "msg_seqs i (ms @ [m]) = msg_seqs i ms @ (if m_inv m = i then [m_seq m] else [])"
  by (simp add: msg_seqs_def)

lemma msg_seqs_update:
  "(\<And>x. m_inv (f x) = m_inv x) \<Longrightarrow> (\<And>x. m_seq (f x) = m_seq x)
   \<Longrightarrow> msg_seqs i (update_rows P f ms) = msg_seqs i ms"
  unfolding msg_seqs_def by (induction ms) auto

lemma AppendMessage_keeps [keeps_intros]: "keeps db_ok (AppendMessage m)"
  unfolding AppendMessage_def
proof (rule sql_keeps)
  fix s :: "'z db_scheme" and i t
  assume ok: "db_ok s" and run: "(if find_row (\<lambda>v. inv_id v = m_inv m) (invs s) = None
      then Inl (Violation ''messages.investigation_id'')
      else let i = last_msg_id s + 1
           in Inr (i, s\<lparr>msgs := msgs s @
                [m\<lparr>m_id := i, m_seq := next_seq (m_inv m) (msgs s), m_at := clock s,
                   m_archived := False\<rparr>], last_msg_id := i\<rparr>)) = Inr (i, t)"
  let ?m = "m\<lparr>m_id := last_msg_id s + 1, m_seq := next_seq (m_inv m) (msgs s), m_at := clock s,
                   m_archived := False\<rparr>"
  from run have t: "t = s\<lparr>msgs := msgs s @ [?m], last_msg_id := last_msg_id s + 1\<rparr>"
    and inv: "m_inv m \<in> inv_id ` set (invs s)"
    by (auto simp: insert_rows Let_def split: if_splits)
  have "\<forall>x \<in> set (msgs s). m_id x < last_msg_id s + 1" "\<forall>x \<in> set (msgs s). m_id x \<le> last_msg_id s + 1"
    using ok by (fastforce simp: db_ok_parts)+
  moreover have "sorted_wrt (<) (msg_seqs k (msgs s @ [?m]))" for k
    using ok next_seq_gt by (auto simp: db_ok_parts msg_seqs_append sorted_wrt_append)
  ultimately show "db_ok t"
    using ok inv unfolding t by (simp add: db_ok_parts sorted_wrt_append)
qed

lemma archived_keeps: "keeps db_ok (sql_write (\<lambda>s. s\<lparr>msgs := update_rows P (\<lambda>x. x\<lparr>m_archived := b\<rparr>) (msgs s)\<rparr>))"
proof (rule sql_write_keeps)
  fix s :: "'z db_scheme"
  assume ok: "db_ok s"
  have "\<forall>x \<in> set (update_rows P (\<lambda>x. x\<lparr>m_archived := b\<rparr>) (msgs s)). m_id x \<le> last_msg_id s"
    using ok by (auto simp: db_ok_parts set_update_rows)
  then show "db_ok (s\<lparr>msgs := update_rows P (\<lambda>x. x\<lparr>m_archived := b\<rparr>) (msgs s)\<rparr>)"
    using ok by (simp add: db_ok_parts msg_seqs_update)
qed

lemma MarkMessagesArchived_keeps [keeps_intros]: "keeps db_ok (MarkMessagesArchived i n)"
  unfolding MarkMessagesArchived_def by (rule archived_keeps)

end
