(* ===== verification/Rate_Limiter.thy ===== *)
theory Rate_Limiter
  imports Complex_Main Store_Base "HOL-Library.AList"
begin

text \<open>
  \<open>hub/runner/ratelimit.go\<close>: a token bucket per key. The code's \<open>float64\<close> amounts are
  rational numbers here, so what is proved is about the arithmetic without rounding; time
  is the instant in nanoseconds.
\<close>

record bucket =
  bk_tokens :: rat
  bk_updated :: instant

record rate_limiter =
  rl_buckets :: "(string \<times> bucket) list"
  rl_capacity :: rat
  rl_refill :: rat

definition newRateLimiter :: "int \<Rightarrow> rate_limiter" where
  "newRateLimiter perMinute =
     (let n = (if perMinute \<le> 0 then 30 else perMinute)
      in \<lparr>rl_buckets = [], rl_capacity = of_int n, rl_refill = of_int n / 60\<rparr>)"

definition elapsed_seconds :: "instant \<Rightarrow> instant \<Rightarrow> rat" where
  "elapsed_seconds t0 t1 = of_int (t1 - t0) / 1000000000"

definition allow :: "string \<Rightarrow> instant \<Rightarrow> rate_limiter \<Rightarrow> bool \<times> rate_limiter" where
  "allow key now r =
     (let b = (case map_of (rl_buckets r) key of
                 None \<Rightarrow> \<lparr>bk_tokens = rl_capacity r, bk_updated = now\<rparr> | Some b \<Rightarrow> b);
          t = bk_tokens b + elapsed_seconds (bk_updated b) now * rl_refill r;
          t = (if t > rl_capacity r then rl_capacity r else t);
          put = (\<lambda>x. r\<lparr>rl_buckets := AList.update key \<lparr>bk_tokens = x, bk_updated = now\<rparr> (rl_buckets r)\<rparr>)
      in if t < 1 then (False, put t) else (True, put (t - 1)))"

text \<open>The calls for one key at the given instants: how many are let through, and the limiter after.\<close>

fun allow_all :: "string \<Rightarrow> instant list \<Rightarrow> rate_limiter \<Rightarrow> nat \<times> rate_limiter" where
  "allow_all key [] r = (0, r)"
| "allow_all key (t # ts) r =
     (let (ok, r') = allow key t r; (n, r'') = allow_all key ts r'
      in ((if ok then 1 else 0) + n, r''))"

section \<open>The bound\<close>

definition sane :: "rate_limiter \<Rightarrow> bool" where
  "sane r = (1 \<le> rl_capacity r \<and> 0 \<le> rl_refill r)"

lemma sane_new: "sane (newRateLimiter n)"
  by (auto simp: sane_def newRateLimiter_def Let_def)

lemma allow_frame [frame_simps]:
  "rl_capacity (snd (allow k now r)) = rl_capacity r"
  "rl_refill (snd (allow k now r)) = rl_refill r"
  "k' \<noteq> k \<Longrightarrow> map_of (rl_buckets (snd (allow k now r))) k' = map_of (rl_buckets r) k'"
  by (simp_all add: allow_def Let_def update_conv')

lemma allow_bucket:
  assumes "map_of (rl_buckets r) k = Some b" and "allow k now r = (ok, r')"
    and "bk_tokens b \<le> rl_capacity r" and "bk_updated b \<le> now" and "sane r"
  shows "\<exists>b'. map_of (rl_buckets r') k = Some b' \<and> bk_updated b' = now \<and> bk_tokens b' \<le> rl_capacity r'
    \<and> (if ok then 1 else 0) + bk_tokens b' \<le> bk_tokens b + rl_refill r * elapsed_seconds (bk_updated b) now"
proof -
  have "0 \<le> elapsed_seconds (bk_updated b) now"
    using assms(4) by (simp add: elapsed_seconds_def)
  then have "0 \<le> elapsed_seconds (bk_updated b) now * rl_refill r"
    using assms(5) by (simp add: sane_def)
  with assms show ?thesis
    by (auto simp: allow_def Let_def update_conv' mult.commute split: if_splits)
qed

lemma elapsed_add: "elapsed_seconds a b + elapsed_seconds b c = elapsed_seconds a c"
  by (simp add: elapsed_seconds_def add_divide_distrib [symmetric])

lemma allow_all_bucket:
  "map_of (rl_buckets r) k = Some b \<Longrightarrow> bk_tokens b \<le> rl_capacity r \<Longrightarrow> sane r
   \<Longrightarrow> 0 \<le> bk_tokens b \<Longrightarrow> sorted (bk_updated b # ts)
   \<Longrightarrow> of_nat (fst (allow_all k ts r)) \<le> bk_tokens b + rl_refill r * elapsed_seconds (bk_updated b) (last (bk_updated b # ts))"
proof (induction ts arbitrary: r b)
  case Nil
  then show ?case by (simp add: elapsed_seconds_def)
next
  case (Cons t ts)
  obtain ok r' where a: "allow k t r = (ok, r')" by (cases "allow k t r")
  have le: "bk_updated b \<le> t" using Cons.prems(5) by simp
  from allow_bucket [OF Cons.prems(1) a Cons.prems(2) le Cons.prems(3)] obtain b' where
    b': "map_of (rl_buckets r') k = Some b'" "bk_updated b' = t" "bk_tokens b' \<le> rl_capacity r'"
      "(if ok then 1 else 0) + bk_tokens b' \<le> bk_tokens b + rl_refill r * elapsed_seconds (bk_updated b) t"
    by blast
  have fr: "rl_capacity r' = rl_capacity r" "rl_refill r' = rl_refill r"
    using allow_frame(1,2) [of k t r] a by simp_all
  have nn: "0 \<le> bk_tokens b'"
    using a b'(1) Cons.prems(1-4) le
    by (auto simp: allow_def Let_def update_conv' elapsed_seconds_def sane_def split: if_splits)
  have "of_nat (fst (allow_all k ts r')) \<le> bk_tokens b' + rl_refill r' * elapsed_seconds t (last (t # ts))"
    using Cons.IH [OF b'(1,3) _ nn] Cons.prems(3,5) b'(2) fr by (simp add: sane_def)
  moreover have "fst (allow_all k (t # ts) r) = (if ok then 1 else 0) + fst (allow_all k ts r')"
    using a by (simp add: Let_def split: prod.splits)
  moreover have "rl_refill r * elapsed_seconds (bk_updated b) (last (bk_updated b # t # ts))
      = rl_refill r * elapsed_seconds (bk_updated b) t + rl_refill r * elapsed_seconds t (last (t # ts))"
    using elapsed_add [of "bk_updated b" t] by (simp add: distrib_left [symmetric])
  ultimately show ?case using b'(4) fr by (auto split: if_splits)
qed

lemma rate_limit_aux:
  assumes "sane r" and "map_of (rl_buckets r) k = None" and "sorted (t # ts)"
  shows "of_nat (fst (allow_all k (t # ts) r)) \<le> rl_capacity r + rl_refill r * elapsed_seconds t (last (t # ts))"
proof -
  let ?b = "\<lparr>bk_tokens = rl_capacity r, bk_updated = t\<rparr>"
  let ?r = "r\<lparr>rl_buckets := (k, ?b) # rl_buckets r\<rparr>"
  have up: "AList.update k x ((k, ?b) # rl_buckets r) = (k, x) # rl_buckets r" for x by simp
  obtain ok r1 where a: "allow k t r = (ok, r1)" by (cases "allow k t r")
  have ok: "ok" and r1: "map_of (rl_buckets r1) k = Some \<lparr>bk_tokens = rl_capacity r - 1, bk_updated = t\<rparr>"
    using a assms(1,2) by (auto simp: allow_def Let_def elapsed_seconds_def sane_def update_conv' split: if_splits)
  have fr: "rl_capacity r1 = rl_capacity r" "rl_refill r1 = rl_refill r"
    using allow_frame(1,2) [of k t r] a by simp_all
  have "of_nat (fst (allow_all k ts r1)) \<le> (rl_capacity r - 1) + rl_refill r * elapsed_seconds t (last (t # ts))"
    using allow_all_bucket [OF r1, of ts] assms fr by (simp add: sane_def)
  moreover have "fst (allow_all k (t # ts) r) = 1 + fst (allow_all k ts r1)"
    using a ok by (simp add: Let_def split: prod.splits)
  ultimately show ?thesis by simp
qed

text \<open>
  However a caller paces its requests for one agent (at any non-decreasing instants),
  the limiter lets through at most the per-minute cap plus the cap's share of the time
  between the first and the last request, and it lets the very first request through.
\<close>
theorem rate_limit_bound:
  assumes "0 < perMinute" and "sorted (t # ts)"
  shows "of_nat (fst (allow_all agent (t # ts) (newRateLimiter perMinute)))
      \<le> (of_int perMinute + of_int perMinute * (of_int (last (t # ts) - t) / 60000000000) :: rat)
    \<and> fst (allow agent t (newRateLimiter perMinute))"
proof
  have "map_of (rl_buckets (newRateLimiter perMinute)) agent = None"
    by (simp add: newRateLimiter_def Let_def)
  from rate_limit_aux [OF sane_new this assms(2)] assms(1)
  show "of_nat (fst (allow_all agent (t # ts) (newRateLimiter perMinute)))
      \<le> (of_int perMinute + of_int perMinute * (of_int (last (t # ts) - t) / 60000000000) :: rat)"
    by (simp add: newRateLimiter_def Let_def elapsed_seconds_def)
  show "fst (allow agent t (newRateLimiter perMinute))"
    using assms(1) by (simp add: allow_def newRateLimiter_def Let_def elapsed_seconds_def)
qed

lemma rate_limit_bound_witness:
  "fst (allow_all ''web-1'' [0, 5, 7] (newRateLimiter 2)) \<le> 2"
  using rate_limit_bound [of 2 0 "[5, 7]" "''web-1''"] by simp

text \<open>
  A per-minute cap of zero (or less) does not disable the limiter: it limits to thirty
  requests, as the default does.
\<close>
theorem rate_limit_zero_is_default:
  "perMinute \<le> 0 \<Longrightarrow> newRateLimiter perMinute = newRateLimiter 30
    \<and> of_nat (fst (allow_all agent (replicate n t) (newRateLimiter perMinute))) \<le> (30 :: rat)"
proof -
  assume le: "perMinute \<le> 0"
  then have eq: "newRateLimiter perMinute = newRateLimiter 30" by (simp add: newRateLimiter_def)
  have "of_nat (fst (allow_all agent (replicate n t) (newRateLimiter 30))) \<le> (30 :: rat)"
  proof (cases n)
    case 0
    then show ?thesis by simp
  next
    case (Suc m)
    have "map_of (rl_buckets (newRateLimiter 30)) agent = None"
      by (simp add: newRateLimiter_def)
    from rate_limit_aux [OF sane_new this, of t "replicate m t"] show ?thesis
      by (simp add: Suc newRateLimiter_def elapsed_seconds_def last_replicate sorted_replicate del: allow_all.simps split: if_splits)
  qed
  with eq show ?thesis by simp
qed

lemma rate_limit_zero_is_default_witness:
  "newRateLimiter 0 = newRateLimiter 30"
  using rate_limit_zero_is_default [of 0 "''web-1''" 1 0] by simp

end
