(* ===== verification/Hub_Runner.thy ===== *)
theory Hub_Runner
  imports Store_Invariant Rate_Limiter
begin

text \<open>
  \<open>hub/runner/runner.go\<close>: a run fans out one task per host, a result or an artifact of a
  task is taken from the agent the task was sent to, and a poller closes the run. The
  runner's own state (the limiter, the tasks awaiting a result, the artifact files being
  written and the files) extends the database. The \<open>Dispatcher\<close> interface is a pair of
  functions, arguments of \<open>CreateRun\<close>; the file system's answers are the parameter
  \<open>fs_env\<close>. Each call is one step: the code holds \<open>mu\<close> around its own maps.
\<close>

section \<open>State\<close>

record collect_req =
  rq_id :: string
  rq_collector :: string
  rq_params :: strmap
  rq_timeout :: int

record run_request =
  rr_name :: string
  rr_hosts :: "string list"
  rr_collector :: string
  rr_params :: strmap
  rr_timeout :: int
  rr_by :: string

record pending_task =
  pd_task :: string
  pd_run :: string
  pd_host :: string
  pd_collector :: string

text \<open>An open artifact file: the task it belongs to, the file (directory and name) and the write position.\<close>

record open_art =
  oa_task :: string
  oa_name :: string
  oa_mime :: string
  oa_file :: "string \<times> string"
  oa_pos :: nat

record runner = db +
  limiter :: rate_limiter
  pending :: "(string \<times> pending_task) list"
  open_arts :: "(string \<times> open_art) list"
  files :: "((string \<times> string) \<times> bytes) list"

type_synonym ('z, 'a) rm = "('z runner_scheme, 'a) state"

datatype wire_status = StUnspecified | StOk | StError | StTimeout | StCanceled

record collect_result =
  cs_id :: string
  cs_status :: wire_status
  cs_data :: jtext
  cs_error :: string
  cs_hints :: json
  cs_stderr :: string
  cs_exit :: int
  cs_duration :: int

record chunk =
  ck_id :: string
  ck_artifact :: string
  ck_name :: string
  ck_mime :: string
  ck_data :: bytes
  ck_last :: bool

text \<open>
  The file system: whether \<open>MkdirAll\<close> of a task's directory and \<open>Create\<close> of a file succeed, and
  how many bytes of a write reach the file.
\<close>

record fs_env =
  fs_mkdir :: "string \<Rightarrow> bool"
  fs_create :: "string \<times> string \<Rightarrow> bool"
  fs_write :: "string \<times> string \<Rightarrow> bytes \<Rightarrow> nat"

section \<open>Creating a run\<close>

definition newID :: "(nat \<Rightarrow> string) \<Rightarrow> string \<Rightarrow> ('z, string) dbm" where
  "newID ids prefix = do { b \<leftarrow> draw ids; return (prefix @ ''_'' @ b) }"

definition limiter_allow :: "string \<Rightarrow> ('z, bool) rm" where
  "limiter_allow key = State (\<lambda>s.
     let (ok, l) = allow key (clock s) (limiter s) in (ok, s\<lparr>limiter := l\<rparr>))"

definition register_task :: "string \<Rightarrow> string \<Rightarrow> string \<Rightarrow> string \<Rightarrow> ('z, unit) rm" where
  "register_task tid rid hid coll = modify (\<lambda>s.
     s\<lparr>pending := map_put tid \<lparr>pd_task = tid, pd_run = rid, pd_host = hid, pd_collector = coll\<rparr> (pending s)\<rparr>)"

definition unregister_task :: "string \<Rightarrow> ('z, unit) rm" where
  "unregister_task tid = modify (\<lambda>s. s\<lparr>pending := map_del tid (pending s)\<rparr>)"

definition new_task :: "string \<Rightarrow> string \<Rightarrow> string \<Rightarrow> run_request \<Rightarrow> task" where
  "new_task tid rid hid req =
     \<lparr>tk_id = tid, tk_run = rid, tk_host = hid, tk_collector = rr_collector req,
      tk_params = rr_params req, tk_status = TkPending, tk_started_at = None,
      tk_finished_at = None, tk_duration = None, tk_error = []\<rparr>"

text \<open>The body of the loop over the hosts: what follows the insertion of the task, and the whole.\<close>

definition send_task ::
  "(string \<Rightarrow> ('z, bool) rm) \<Rightarrow> (string \<Rightarrow> collect_req \<Rightarrow> ('z, bool) rm)
   \<Rightarrow> string \<Rightarrow> run_request \<Rightarrow> string \<Rightarrow> string \<Rightarrow> ('z, unit) rm" where
  "send_task isOnline sendCollect rid req hid tid = do {
     on \<leftarrow> isOnline hid;
     if \<not> on then ignore (FinishTask tid TkUndeliverable 0 ''agent offline'')
     else do {
       ok \<leftarrow> limiter_allow hid;
       if \<not> ok then ignore (FinishTask tid TkUndeliverable 0 ''rate limited (per-agent rpm cap)'')
       else do {
         _ \<leftarrow> register_task tid rid hid (rr_collector req);
         sent \<leftarrow> sendCollect hid \<lparr>rq_id = tid, rq_collector = rr_collector req,
                                 rq_params = rr_params req, rq_timeout = rr_timeout req\<rparr>;
         if \<not> sent then do {
           _ \<leftarrow> unregister_task tid;
           ignore (FinishTask tid TkUndeliverable 0 ''send queue full or stream closed'')
         }
         else ignore (StartTask tid)
       }
     }
   }"

definition dispatch_task ::
  "(nat \<Rightarrow> string) \<Rightarrow> (string \<Rightarrow> ('z, bool) rm) \<Rightarrow> (string \<Rightarrow> collect_req \<Rightarrow> ('z, bool) rm)
   \<Rightarrow> string \<Rightarrow> run_request \<Rightarrow> string \<Rightarrow> ('z, unit) rm" where
  "dispatch_task ids isOnline sendCollect rid req hid = do {
     tid \<leftarrow> newID ids ''task'';
     r \<leftarrow> InsertTask (new_task tid rid hid req);
     (case r of
        Inl _ \<Rightarrow> return ()
      | Inr _ \<Rightarrow> send_task isOnline sendCollect rid req hid tid)
   }"

definition CreateRun ::
  "(nat \<Rightarrow> string) \<Rightarrow> (string \<Rightarrow> ('z, bool) rm) \<Rightarrow> (string \<Rightarrow> collect_req \<Rightarrow> ('z, bool) rm)
   \<Rightarrow> run_request \<Rightarrow> ('z, serr + string) rm" where
  "CreateRun ids isOnline sendCollect req =
     (if rr_hosts req = [] then return (Inl (Refused ''no hosts selected''))
      else if rr_collector req = [] then return (Inl (Refused ''collector required''))
      else do {
        rid \<leftarrow> newID ids ''run'';
        unless_err
          (InsertRun \<lparr>run_id = rid, run_investigation = None, run_name = rr_name req,
             run_selector = [(''hosts'', nat_text (length (rr_hosts req)))],
             run_created_by = rr_by req, run_created_at = 0, run_finished_at = None,
             run_status = RunRunning\<rparr>)
          (\<lambda>_. do {
             _ \<leftarrow> for_each (rr_hosts req) (dispatch_task ids isOnline sendCollect rid req);
             return (Inr rid)
           })
      })"

section \<open>Results\<close>

fun mapStatus :: "wire_status \<Rightarrow> task_status" where
  "mapStatus StOk = TkOk"
| "mapStatus StError = TkError"
| "mapStatus StTimeout = TkTimeout"
| "mapStatus StCanceled = TkCanceled"
| "mapStatus StUnspecified = TkError"

definition closeOpenArtifacts :: "string \<Rightarrow> ('z, unit) rm" where
  "closeOpenArtifacts tid = modify (\<lambda>s.
     s\<lparr>open_arts := filter (\<lambda>p. oa_task (snd p) \<noteq> tid) (open_arts s)\<rparr>)"

definition OnResult :: "string \<Rightarrow> string \<Rightarrow> collect_result \<Rightarrow> ('z, unit) rm" where
  "OnResult artifactDir agent res = do {
     pt \<leftarrow> gets (\<lambda>s. map_of (pending s) (cs_id res));
     (case pt of
        None \<Rightarrow> return ()
      | Some p \<Rightarrow>
          if pd_host p \<noteq> agent then return ()
          else do {
            _ \<leftarrow> closeOpenArtifacts (cs_id res);
            _ \<leftarrow> FinishTask (cs_id res) (mapStatus (cs_status res)) (cs_duration res) (cs_error res);
            _ \<leftarrow> UpsertResult \<lparr>rs_task = cs_id res, rs_data = cs_data res, rs_hints = cs_hints res,
                   rs_stderr = cs_stderr res, rs_exit = cs_exit res,
                   rs_artifact_dir = artifactDir @ ''/'' @ cs_id res\<rparr>;
            unregister_task (cs_id res)
          })
   }"

section \<open>Artifacts\<close>

definition safe_char :: "char \<Rightarrow> bool" where
  "safe_char c = (is_lower c \<or> is_upper c \<or> is_digit c \<or> c = CHR ''.'' \<or> c = CHR ''-'' \<or> c = CHR ''_'')"

definition sanitize :: "string \<Rightarrow> string" where
  "sanitize name =
     (let out = map (\<lambda>c. if safe_char c then c else CHR ''_'') name
      in if out = [] then ''artifact'' else out)"

definition file_get :: "string \<times> string \<Rightarrow> ((string \<times> string) \<times> bytes) list \<Rightarrow> bytes" where
  "file_get p fs = (case map_of fs p of None \<Rightarrow> [] | Some c \<Rightarrow> c)"

definition file_put ::
  "string \<times> string \<Rightarrow> bytes \<Rightarrow> ((string \<times> string) \<times> bytes) list \<Rightarrow> ((string \<times> string) \<times> bytes) list" where
  "file_put p c fs = (p, c) # filter (\<lambda>q. fst q \<noteq> p) fs"

text \<open>A write at a position: bytes beyond the end are preceded by zeros.\<close>

definition write_at :: "nat \<Rightarrow> bytes \<Rightarrow> bytes \<Rightarrow> bytes" where
  "write_at pos d c =
     take pos c @ replicate (pos - length c) (CHR 0x00) @ d @ drop (pos + length d) c"

text \<open>\<open>os.Create\<close> of a name that is the directory itself or its parent fails.\<close>

definition create_ok :: "fs_env \<Rightarrow> string \<times> string \<Rightarrow> bool" where
  "create_ok fe p = (snd p \<noteq> ''.'' \<and> snd p \<noteq> ''..'' \<and> fs_create fe p)"

definition write_chunk :: "fs_env \<Rightarrow> chunk \<Rightarrow> open_art \<Rightarrow> 'z runner_scheme \<Rightarrow> 'z runner_scheme" where
  "write_chunk fe a oa s =
     (let d = take (fs_write fe (oa_file oa) (ck_data a)) (ck_data a);
          s1 = (if ck_data a \<noteq> []
                then s\<lparr>files := file_put (oa_file oa)
                          (write_at (oa_pos oa) d (file_get (oa_file oa) (files s))) (files s),
                       open_arts := map_put (ck_artifact a) (oa\<lparr>oa_pos := oa_pos oa + length d\<rparr>) (open_arts s)\<rparr>
                else s)
      in if ck_last a then s1\<lparr>open_arts := map_del (ck_artifact a) (open_arts s1)\<rparr> else s1)"

definition OnArtifact :: "fs_env \<Rightarrow> string \<Rightarrow> chunk \<Rightarrow> ('z, unit) rm" where
  "OnArtifact fe agent a = modify (\<lambda>s.
     case map_of (pending s) (ck_id a) of
       None \<Rightarrow> s
     | Some p \<Rightarrow>
         if pd_host p \<noteq> agent then s
         else (case map_of (open_arts s) (ck_artifact a) of
                 Some oa \<Rightarrow> write_chunk fe a oa s
               | None \<Rightarrow>
                   (let f = (ck_id a, sanitize (ck_name a))
                    in if \<not> fs_mkdir fe (ck_id a) then s
                       else if \<not> create_ok fe f then s
                       else (let oa = \<lparr>oa_task = ck_id a, oa_name = ck_name a, oa_mime = ck_mime a,
                                       oa_file = f, oa_pos = 0\<rparr>
                             in write_chunk fe a oa
                                  (s\<lparr>files := file_put f [] (files s),
                                     open_arts := map_put (ck_artifact a) oa (open_arts s)\<rparr>)))))"

section \<open>Closing a run\<close>

fun isTerminal :: "task_status \<Rightarrow> bool" where
  "isTerminal TkOk = True"
| "isTerminal TkError = True"
| "isTerminal TkTimeout = True"
| "isTerminal TkCanceled = True"
| "isTerminal TkUndeliverable = True"
| "isTerminal _ = False"

text \<open>
  One turn of \<open>watchRunCompletion\<close>: whether the poller returns. Between two turns it sleeps,
  and anything may happen.
\<close>

definition watch_poll :: "string \<Rightarrow> ('z, bool) dbm" where
  "watch_poll rid = do {
     r \<leftarrow> ListTasks rid;
     (case r of
        Inl _ \<Rightarrow> return True
      | Inr ts \<Rightarrow>
          if list_all (\<lambda>t. isTerminal (tk_status t)) ts then do {
            _ \<leftarrow> FinishRun rid RunDone;
            return True
          }
          else return False)
   }"


section \<open>The interface to the agent connections\<close>

text \<open>
  The runner's view of a state: everything but what an extension adds. Two states with the
  same view are the same to the store and to the runner.
\<close>

lemma runner_view:
  "runner.truncate t = runner.truncate s \<longleftrightarrow>
     hosts t = hosts s \<and> manifests t = manifests s \<and> tokens t = tokens s \<and> idents t = idents s \<and>
     runs t = runs s \<and> tasks t = tasks s \<and> results t = results s \<and> invs t = invs s \<and>
     msgs t = msgs s \<and> calls t = calls s \<and> findings t = findings s \<and> sessions t = sessions s \<and>
     pats t = pats s \<and> audit t = audit s \<and> last_msg_id t = last_msg_id s \<and>
     last_audit_id t = last_audit_id s \<and> clock t = clock s \<and> faults t = faults s \<and> rnd t = rnd s \<and>
     limiter t = limiter s \<and> pending t = pending s \<and> open_arts t = open_arts s \<and> files t = files s"
  by (simp add: runner.truncate_def)

lemma db_ok_view: "runner.truncate t = runner.truncate s \<Longrightarrow> db_ok t = db_ok s"
  by (simp add: runner_view db_ok_parts)

lemma map_put_new: "map_of m k = None \<Longrightarrow> map_put k x m = m @ [(k, x)]"
  by (auto simp: map_put_def map_of_eq_None_iff intro!: filter_True)

lemma map_del_put: "map_of m k = None \<Longrightarrow> map_del k (map_put k x m) = m"
  by (auto simp: map_put_new map_del_def map_of_eq_None_iff intro!: filter_True)

lemma update_other_tasks:
  assumes "i \<notin> tk_id ` set ts"
  shows "update_rows (\<lambda>x. tk_id x = i) f ts = ts"
    and "update_rows (\<lambda>x. tk_id x = i \<and> tk_status x = TkPending) f ts = ts"
  using assms by (auto intro!: update_rows_none)

text \<open>What one turn of the loop over the hosts leaves behind.\<close>

definition of_request :: "string \<Rightarrow> run_request \<Rightarrow> string \<Rightarrow> string \<Rightarrow> task \<Rightarrow> bool" where
  "of_request rid req h tid t =
     (tk_id t = tid \<and> tk_run t = rid \<and> tk_host t = h \<and> tk_collector t = rr_collector req \<and>
      tk_params t = rr_params req)"

definition awaiting :: "string \<Rightarrow> string \<Rightarrow> string \<Rightarrow> string \<Rightarrow> string \<times> pending_task" where
  "awaiting rid coll h tid = (tid, \<lparr>pd_task = tid, pd_run = rid, pd_host = h, pd_collector = coll\<rparr>)"

definition task_placed :: "string \<Rightarrow> run_request \<Rightarrow> string \<Rightarrow> string \<Rightarrow> 'z runner_scheme \<Rightarrow> 'z runner_scheme \<Rightarrow> bool" where
  "task_placed rid req h tid s s' =
     (\<exists>t. tasks s' = tasks s @ [t] \<and> of_request rid req h tid t
        \<and> (tk_status t = TkSent \<and> pending s' = pending s @ [awaiting rid (rr_collector req) h tid]
           \<or> tk_status t = TkUndeliverable \<and> tk_error t \<noteq> [] \<and> pending s' = pending s))"

definition same_base :: "'z runner_scheme \<Rightarrow> 'z runner_scheme \<Rightarrow> bool" where
  "same_base s s' = (faults s' = [] \<and> hosts s' = hosts s \<and> runs s' = runs s)"

definition run_outcome :: "string \<Rightarrow> run_request \<Rightarrow> string list \<Rightarrow> 'z runner_scheme \<Rightarrow> 'z runner_scheme \<Rightarrow> bool" where
  "run_outcome rid req hs s s' =
     (\<exists>ts. tasks s' = tasks s @ ts \<and> list_all2 (\<lambda>h t. of_request rid req h (tk_id t) t) hs ts
        \<and> (\<forall>t \<in> set ts. tk_status t = TkSent \<or> tk_status t = TkUndeliverable \<and> tk_error t \<noteq> [])
        \<and> pending s' = pending s @ map (\<lambda>t. awaiting rid (rr_collector req) (tk_host t) (tk_id t))
              (filter (\<lambda>t. tk_status t = TkSent) ts))"

text \<open>The ids still to be drawn are new.\<close>

definition fresh_ids :: "(nat \<Rightarrow> string) \<Rightarrow> 'z runner_scheme \<Rightarrow> bool" where
  "fresh_ids ids s =
     (inj ids \<and> (\<forall>n \<ge> rnd s. ''task_'' @ ids n \<notin> tk_id ` set (tasks s)
        \<and> ''task_'' @ ids n \<notin> fst ` set (pending s) \<and> ''run_'' @ ids n \<notin> run_id ` set (runs s)))"

text \<open>
  What the runner relies on: asking whether an agent is online changes nothing, sending
  changes nothing the store or the runner owns, and nothing is sent to an agent that is
  not online.
\<close>

locale dispatcher =
  fixes online :: "string \<Rightarrow> ('z runner_scheme, bool) state"
    and send :: "string \<Rightarrow> collect_req \<Rightarrow> ('z runner_scheme, bool) state"
  assumes online_pure: "snd (run_state (online h) s) = s"
    and send_frame: "runner.truncate (snd (run_state (send h q) s)) = runner.truncate s"
    and send_online: "fst (run_state (send h q) s) \<Longrightarrow> fst (run_state (online h) s)"
begin

lemma online_run: "run_state (online h) s = (fst (run_state (online h) s), s)"
  using online_pure [of h s] by (metis prod.collapse)

lemma send_task_placed:
  assumes "faults s = []" and "tasks s = ts @ [t]" and "tk_id t = tid" and "tk_status t = TkPending"
    and "tid \<notin> tk_id ` set ts" and "map_of (pending s) tid = None"
  shows "\<exists>s' t'. run_state (send_task online send rid req h tid) s = ((), s')
     \<and> tasks s' = ts @ [t'] \<and> (\<forall>i r h. of_request r req h i t' = of_request r req h i t)
     \<and> (tk_status t' = TkSent \<and> pending s' = pending s @ [awaiting rid (rr_collector req) h tid]
        \<or> tk_status t' = TkUndeliverable \<and> tk_error t' \<noteq> [] \<and> pending s' = pending s)
     \<and> same_base s s' \<and> rnd s' = rnd s"
proof -
  let ?q = "\<lparr>rq_id = tid, rq_collector = rr_collector req, rq_params = rr_params req,
             rq_timeout = rr_timeout req\<rparr>"
  obtain on where onl: "run_state (online h) s = (on, s)" using online_run by blast
  obtain ok l where al: "allow h (clock s) (limiter s) = (ok, l)" by fastforce
  let ?s2 = "s\<lparr>limiter := l, pending := map_put tid (snd (awaiting rid (rr_collector req) h tid)) (pending s)\<rparr>"
  obtain sent s3 where sd: "run_state (send h ?q) ?s2 = (sent, s3)" by fastforce
  have v: "tasks s3 = ts @ [t]" "faults s3 = []" "hosts s3 = hosts s" "runs s3 = runs s" "rnd s3 = rnd s"
    "pending s3 = pending s @ [awaiting rid (rr_collector req) h tid]"
    "map_del tid (pending s3) = pending s"
    using send_frame [of h ?q ?s2] assms(1,2,6) sd map_del_put [OF assms(6)]
    by (simp_all add: runner_view map_put_new awaiting_def)
  note upd = update_other_tasks [OF assms(5)] assms(3)
  note body = send_task_def onl limiter_allow_def register_task_def unregister_task_def
    FinishTask_def StartTask_def sql_write_def al same_base_def of_request_def
  consider "\<not> on" | on "\<not> ok" | on ok "\<not> sent" | on ok sent by blast
  then show ?thesis
  proof cases
    case 1
    then show ?thesis using assms(1,2) by (simp add: body upd)
  next
    case 2
    then show ?thesis using assms(1,2) by (simp add: body upd)
  next
    case 3
    then show ?thesis using assms(1,2) v sd
      by (simp add: body upd awaiting_def)
  next
    case 4
    then show ?thesis using assms(1,2,4) v sd by (simp add: body upd awaiting_def)
  qed
qed

lemma dispatch_placed:
  assumes "faults s = []" and "h \<in> h_id ` set (hosts s)" and "rid \<in> run_id ` set (runs s)"
    and fresh: "''task_'' @ ids (rnd s) \<notin> tk_id ` set (tasks s)"
      "map_of (pending s) (''task_'' @ ids (rnd s)) = None"
  shows "\<exists>s'. run_state (dispatch_task ids online send rid req h) s = ((), s')
     \<and> task_placed rid req h (''task_'' @ ids (rnd s)) s s' \<and> same_base s s' \<and> rnd s' = rnd s + 1"
proof -
  let ?tid = "''task_'' @ ids (rnd s)"
  let ?t = "new_task ?tid rid h req"
  let ?s0 = "s\<lparr>rnd := rnd s + 1\<rparr>"
  let ?s1 = "?s0\<lparr>tasks := tasks s @ [?t]\<rparr>"
  have t: "tk_id ?t = ?tid" "tk_status ?t = TkPending" "of_request rid req h ?tid ?t"
    by (simp_all add: new_task_def of_request_def)
  have "find_row (\<lambda>x. tk_id x = ?tid) (tasks s) = None"
    "find_row (\<lambda>r. run_id r = rid) (runs s) \<noteq> None" "find_row (\<lambda>x. h_id x = h) (hosts s) \<noteq> None"
    using assms(2,3) fresh(1) by (simp_all add: find_row_None_keys del: not_None_eq)
  then have ins: "run_state (InsertTask ?t) ?s0 = (Inr (), ?s1)"
    using assms(1) unfolding InsertTask_def by (simp add: new_task_def)
  have "run_state (dispatch_task ids online send rid req h) s
      = run_state (send_task online send rid req h ?tid) ?s1"
    using ins by (simp add: dispatch_task_def newID_def)
  with send_task_placed [of ?s1 "tasks s" ?t ?tid rid req h] assms(1) fresh t
  show ?thesis by (auto simp: task_placed_def same_base_def)
qed

lemma fresh_after:
  assumes "fresh_ids ids s" and "task_placed rid req h (''task_'' @ ids (rnd s)) s s'"
    and "same_base s s'" and "rnd s' = rnd s + 1"
  shows "fresh_ids ids s'"
proof -
  have neq: "ids n \<noteq> ids (rnd s)" if "n \<ge> rnd s + 1" for n
    using assms(1) that by (simp add: fresh_ids_def inj_eq)
  let ?tid = "''task_'' @ ids (rnd s)"
  from assms(2) have T: "tk_id ` set (tasks s') = insert ?tid (tk_id ` set (tasks s))"
    and P: "fst ` set (pending s') \<subseteq> insert ?tid (fst ` set (pending s))"
    by (auto simp: task_placed_def of_request_def awaiting_def)
  have old: "inj ids" "''task_'' @ ids n \<notin> tk_id ` set (tasks s)"
    "''task_'' @ ids n \<notin> fst ` set (pending s)" "''run_'' @ ids n \<notin> run_id ` set (runs s)" if "n \<ge> rnd s" for n
    using assms(1) that unfolding fresh_ids_def by blast+
  show ?thesis
    unfolding fresh_ids_def
  proof (intro conjI allI impI)
    show "inj ids" by (rule old(1)) (rule order_refl)
    fix n assume n: "rnd s' \<le> n"
    then have n': "rnd s + 1 \<le> n" "rnd s \<le> n" using assms(4) by simp_all
    have ne: "''task_'' @ ids n \<noteq> ?tid" using neq [OF n'(1)] by simp
    show "''task_'' @ ids n \<notin> tk_id ` set (tasks s')" using T ne old(2) [OF n'(2)] by blast
    show "''task_'' @ ids n \<notin> fst ` set (pending s')" using P ne old(3) [OF n'(2)] by blast
    show "''run_'' @ ids n \<notin> run_id ` set (runs s')"
      using old(4) [OF n'(2)] assms(3) by (simp add: same_base_def)
  qed
qed

lemma dispatch_all:
  assumes "faults s = []" and "set hs \<subseteq> h_id ` set (hosts s)" and "rid \<in> run_id ` set (runs s)"
    and "fresh_ids ids s"
  shows "\<exists>s'. run_state (for_each hs (dispatch_task ids online send rid req)) s = ((), s')
     \<and> run_outcome rid req hs s s' \<and> same_base s s'"
  using assms
proof (induction hs arbitrary: s)
  case Nil
  then show ?case by (auto simp: run_outcome_def same_base_def)
next
  case (Cons h hs)
  let ?tid = "''task_'' @ ids (rnd s)"
  have fr: "?tid \<notin> tk_id ` set (tasks s)" "map_of (pending s) ?tid = None"
    using Cons.prems(4) by (simp_all add: fresh_ids_def map_of_eq_None_iff)
  have hh: "h \<in> h_id ` set (hosts s)" using Cons.prems(2) by simp
  from dispatch_placed [of s h rid ids req, OF Cons.prems(1) hh Cons.prems(3) fr] obtain s1 where
    s1: "run_state (dispatch_task ids online send rid req h) s = ((), s1)"
      "task_placed rid req h ?tid s s1" "same_base s s1" "rnd s1 = rnd s + 1" by blast
  have "fresh_ids ids s1" by (rule fresh_after [OF Cons.prems(4) s1(2-4)])
  then obtain s2 where s2: "run_state (for_each hs (dispatch_task ids online send rid req)) s1 = ((), s2)"
      "run_outcome rid req hs s1 s2" "same_base s1 s2"
    using Cons.IH [of s1] Cons.prems s1(3) by (auto simp: same_base_def)
  from s1(2) obtain t where t: "tasks s1 = tasks s @ [t]" "of_request rid req h ?tid t"
    "tk_status t = TkSent \<and> pending s1 = pending s @ [awaiting rid (rr_collector req) h ?tid]
     \<or> tk_status t = TkUndeliverable \<and> tk_error t \<noteq> [] \<and> pending s1 = pending s"
    by (auto simp: task_placed_def)
  from s2(2) obtain ts where ts: "tasks s2 = tasks s1 @ ts"
    "list_all2 (\<lambda>h t. of_request rid req h (tk_id t) t) hs ts"
    "\<forall>t \<in> set ts. tk_status t = TkSent \<or> tk_status t = TkUndeliverable \<and> tk_error t \<noteq> []"
    "pending s2 = pending s1 @ map (\<lambda>t. awaiting rid (rr_collector req) (tk_host t) (tk_id t))
              (filter (\<lambda>t. tk_status t = TkSent) ts)"
    by (auto simp: run_outcome_def)
  have "run_outcome rid req (h # hs) s s2"
    unfolding run_outcome_def
    by (rule exI [of _ "t # ts"]) (use t ts in \<open>auto simp: of_request_def\<close>)
  with s1 s2 show ?case by (auto simp: same_base_def)
qed

lemma CreateRun_outcome:
  assumes "rr_hosts req \<noteq> []" and "rr_collector req \<noteq> []" and "faults s = []"
    and "set (rr_hosts req) \<subseteq> h_id ` set (hosts s)" and "fresh_ids ids s"
  shows "\<exists>s'. run_state (CreateRun ids online send req) s = (Inr (''run_'' @ ids (rnd s)), s')
     \<and> run_outcome (''run_'' @ ids (rnd s)) req (rr_hosts req) s s'
     \<and> (\<exists>r. runs s' = runs s @ [r] \<and> run_id r = ''run_'' @ ids (rnd s) \<and> run_status r = RunRunning)"
proof -
  let ?rid = "''run_'' @ ids (rnd s)"
  let ?r = "\<lparr>run_id = ?rid, run_investigation = None, run_name = rr_name req,
             run_selector = [(''hosts'', nat_text (length (rr_hosts req)))],
             run_created_by = rr_by req, run_created_at = clock s, run_finished_at = None,
             run_status = RunRunning\<rparr>"
  let ?s1 = "s\<lparr>rnd := rnd s + 1, runs := runs s @ [?r]\<rparr>"
  have new: "find_row (\<lambda>x. run_id x = ?rid) (runs s) = None"
    using assms(5) by (auto simp: fresh_ids_def find_row_None_keys)
  have ne: "ids n \<noteq> ids (rnd s)" if "n \<ge> rnd s + 1" for n
    using assms(5) that by (simp add: fresh_ids_def inj_eq)
  have "fresh_ids ids ?s1"
    using assms(5) ne by (simp add: fresh_ids_def)
  from dispatch_all [of ?s1 "rr_hosts req" ?rid ids req, OF _ _ _ this] assms(3,4)
  obtain s' where s': "run_state (for_each (rr_hosts req) (dispatch_task ids online send ?rid req)) ?s1 = ((), s')"
    "run_outcome ?rid req (rr_hosts req) ?s1 s'" "same_base ?s1 s'" by auto
  have "run_state (CreateRun ids online send req) s = (Inr ?rid, s')"
    using assms(1-3) s'(1) new by (simp add: CreateRun_def newID_def InsertRun_def)
  with s'(2,3) show ?thesis
    by (auto simp: run_outcome_def same_base_def)
qed

end

end
