(* ===== verification/Runner_Safety.thy ===== *)
theory Runner_Safety
  imports Hub_Runner
begin

text \<open>
  What the runner does with what the agents send it: results, artifact chunks, and the
  poller that closes a run.
\<close>

section \<open>Results\<close>

definition assigned :: "string \<Rightarrow> string \<Rightarrow> 'z runner_scheme \<Rightarrow> bool" where
  "assigned agent tid s = (case map_of (pending s) tid of None \<Rightarrow> False | Some p \<Rightarrow> pd_host p = agent)"

lemma OnResult_refused: "\<not> assigned agent (cs_id res) s \<Longrightarrow> run_state (OnResult dir agent res) s = ((), s)"
  by (auto simp: OnResult_def assigned_def split: option.splits)

text \<open>The state an accepted result leaves, the driver not failing.\<close>

definition result_row :: "string \<Rightarrow> collect_result \<Rightarrow> task_result" where
  "result_row dir res =
     \<lparr>rs_task = cs_id res, rs_data = cs_data res, rs_hints = cs_hints res, rs_stderr = cs_stderr res,
      rs_exit = cs_exit res, rs_artifact_dir = dir @ ''/'' @ cs_id res\<rparr>"

lemma find_row_replaced:
  "find_row (\<lambda>x. k x = k r) rows = Some x
   \<Longrightarrow> find_row (\<lambda>x. k x = k r) (update_rows (\<lambda>x. k x = k r) (\<lambda>_. r) rows) = Some r"
  by (induction rows) (auto simp: find_row_Cons split: if_splits)

lemma UpsertResult_stores:
  assumes "faults s = []"
  shows "\<exists>e rs. run_state (UpsertResult r) s = (e, s\<lparr>results := rs\<rparr>)
    \<and> (rs_task r \<in> tk_id ` set (tasks s) \<longrightarrow> find_row (\<lambda>x. rs_task x = rs_task r) rs = Some r)"
proof (cases "find_row (\<lambda>x. rs_task x = rs_task r) (results s)")
  case None
  show ?thesis
  proof (cases "find_row (\<lambda>t. tk_id t = rs_task r) (tasks s)")
    case None' : None
    then have "rs_task r \<notin> tk_id ` set (tasks s)" by (simp add: find_row_None_keys)
    with None None' assms show ?thesis
      by (intro exI [of _ "Inl (Violation ''results.task_id'')"] exI [of _ "results s"])
        (simp add: UpsertResult_def)
  next
    case (Some t)
    with None assms show ?thesis
      by (intro exI [of _ "Inr ()"] exI [of _ "results s @ [r]"])
        (simp add: UpsertResult_def find_row_append find_row_Cons)
  qed
next
  case (Some x)
  have "find_row (\<lambda>x. rs_task x = rs_task r) (update_rows (\<lambda>x. rs_task x = rs_task r) (\<lambda>_. r) (results s)) = Some r"
    using Some by (rule find_row_replaced)
  with Some assms show ?thesis
    by (intro exI [of _ "Inr ()"]
        exI [of _ "update_rows (\<lambda>x. rs_task x = rs_task r) (\<lambda>_. r) (results s)"])
      (simp add: UpsertResult_def)
qed

lemma OnResult_accepted:
  assumes "assigned agent (cs_id res) s" and "faults s = []"
  shows "\<exists>s'. run_state (OnResult dir agent res) s = ((), s')
    \<and> tasks s' = update_rows (\<lambda>t. tk_id t = cs_id res)
        (\<lambda>t. t\<lparr>tk_status := mapStatus (cs_status res), tk_finished_at := Some (clock s),
               tk_duration := Some (cs_duration res), tk_error := cs_error res\<rparr>) (tasks s)
    \<and> pending s' = map_del (cs_id res) (pending s)
    \<and> open_arts s' = filter (\<lambda>p. oa_task (snd p) \<noteq> cs_id res) (open_arts s)
    \<and> (cs_id res \<in> tk_id ` set (tasks s) \<longrightarrow> find_row (\<lambda>r. rs_task r = cs_id res) (results s') = Some (result_row dir res))
    \<and> files s' = files s \<and> faults s' = []"
proof -
  let ?u = "\<lambda>t. t\<lparr>tk_status := mapStatus (cs_status res), tk_finished_at := Some (clock s),
               tk_duration := Some (cs_duration res), tk_error := cs_error res\<rparr>"
  let ?s1 = "s\<lparr>open_arts := filter (\<lambda>p. oa_task (snd p) \<noteq> cs_id res) (open_arts s),
               tasks := update_rows (\<lambda>t. tk_id t = cs_id res) ?u (tasks s)\<rparr>"
  from assms(1) obtain p where p: "map_of (pending s) (cs_id res) = Some p" "pd_host p = agent"
    by (auto simp: assigned_def split: option.splits)
  obtain e rs where up: "run_state (UpsertResult (result_row dir res)) ?s1 = (e, ?s1\<lparr>results := rs\<rparr>)"
    "cs_id res \<in> tk_id ` set (tasks s) \<longrightarrow> find_row (\<lambda>x. rs_task x = cs_id res) rs = Some (result_row dir res)"
    using UpsertResult_stores [of ?s1 "result_row dir res"] assms(2) by (auto simp: result_row_def)
  have "run_state (OnResult dir agent res) s
      = ((), ?s1\<lparr>results := rs, pending := map_del (cs_id res) (pending s)\<rparr>)"
    using assms(2) p up(1)
    by (simp add: OnResult_def closeOpenArtifacts_def FinishTask_def sql_write_def
        unregister_task_def result_row_def)
  with up(2) assms(2) show ?thesis by simp
qed

text \<open>
  C13: A result is taken only from the agent the task was sent to, and once. A message for a
  task that is not awaited, or from another agent than the task's, changes nothing; an
  accepted one gives the task the reported status, stores the result, stops waiting and
  closes every artifact file of the task; and from then on every further result for that
  task, from any agent, changes nothing.
\<close>
theorem result_accepted_once:
  assumes "faults s = []" and "run_state (OnResult dir agent res) s = ((), s')"
  shows "(\<not> assigned agent (cs_id res) s \<longrightarrow> s' = s)
    \<and> (assigned agent (cs_id res) s \<longrightarrow>
         (\<forall>t \<in> set (tasks s'). tk_id t = cs_id res \<longrightarrow> tk_status t = mapStatus (cs_status res)
             \<and> isTerminal (tk_status t) \<and> tk_error t = cs_error res)
         \<and> (cs_id res \<in> tk_id ` set (tasks s) \<longrightarrow>
              find_row (\<lambda>r. rs_task r = cs_id res) (results s') = Some (result_row dir res))
         \<and> (\<forall>p \<in> set (open_arts s'). oa_task (snd p) \<noteq> cs_id res)
         \<and> (\<forall>agent2 res2. cs_id res2 = cs_id res \<longrightarrow>
              run_state (OnResult dir agent2 res2) s' = ((), s')))"
proof (cases "assigned agent (cs_id res) s")
  case False
  with assms(2) OnResult_refused [OF False, of dir] show ?thesis by simp
next
  case True
  have tm: "isTerminal (mapStatus st)" for st by (cases st) simp_all
  from OnResult_accepted [OF True assms(1), of dir] assms(2)
  have s': "tasks s' = update_rows (\<lambda>t. tk_id t = cs_id res)
        (\<lambda>t. t\<lparr>tk_status := mapStatus (cs_status res), tk_finished_at := Some (clock s),
               tk_duration := Some (cs_duration res), tk_error := cs_error res\<rparr>) (tasks s)"
    "pending s' = map_del (cs_id res) (pending s)"
    "open_arts s' = filter (\<lambda>p. oa_task (snd p) \<noteq> cs_id res) (open_arts s)"
    "cs_id res \<in> tk_id ` set (tasks s) \<longrightarrow> find_row (\<lambda>r. rs_task r = cs_id res) (results s') = Some (result_row dir res)"
    by auto
  have "\<not> assigned agent2 (cs_id res) s'" for agent2
    by (simp add: assigned_def s'(2) lookup_simps)
  then have again: "run_state (OnResult dir agent2 res2) s' = ((), s')" if "cs_id res2 = cs_id res" for agent2 res2
    using OnResult_refused [of agent2 res2 s' dir] that by simp
  have rows: "tk_status t = mapStatus (cs_status res) \<and> isTerminal (tk_status t) \<and> tk_error t = cs_error res"
    if "t \<in> set (tasks s')" "tk_id t = cs_id res" for t
    using that tm unfolding s'(1) set_update_rows by (auto split: if_splits)
  show ?thesis using True rows again s'(3,4) tm by auto
qed

text \<open>A runner with one task of agent \<open>a\<close> under way, and its result.\<close>

definition demo_runner :: runner where
  "demo_runner = db.extend empty_db (runner.fields (newRateLimiter 30)
      [awaiting ''run_1'' ''system_info'' ''a'' ''task_1'', awaiting ''run_2'' ''system_info'' ''b'' ''task_2''] [] [])"

definition demo_result :: collect_result where
  "demo_result = \<lparr>cs_id = ''task_1'', cs_status = StOk, cs_data = JText (JObj []), cs_error = [],
     cs_hints = JNull, cs_stderr = [], cs_exit = 0, cs_duration = 12\<rparr>"

lemma result_accepted_once_witness:
  "run_state (OnResult ''art'' ''b'' demo_result) demo_runner = ((), demo_runner)"
proof -
  obtain s' where s': "run_state (OnResult ''art'' ''b'' demo_result) demo_runner = ((), s')"
    by (cases "run_state (OnResult ''art'' ''b'' demo_result) demo_runner") auto
  have "faults demo_runner = []" by (simp add: demo_runner_def db.defs runner.defs empty_db_def)
  from result_accepted_once [OF this s'] s' show ?thesis
    by (simp add: assigned_def demo_runner_def db.defs runner.defs demo_result_def awaiting_def)
qed

section \<open>The result that overtakes the dispatch\<close>

text \<open>
  \<open>CreateRun\<close> records that a task was sent only after it has sent it, and the answer may
  arrive in between; the late \<open>StartTask\<close> then leaves the task's row as the result left it.
  In general a task whose status is terminal is never put back to \<open>sent\<close>.
\<close>
theorem late_start_keeps_result:
  assumes "\<forall>t \<in> set (tasks s). tk_id t = tid \<longrightarrow> isTerminal (tk_status t)"
  shows "tasks (snd (run_state (StartTask tid) s)) = tasks s"
proof -
  have "update_rows (\<lambda>t. tk_id t = tid \<and> tk_status t = TkPending) f (tasks s) = tasks s" for f
    using assms by (intro update_rows_none) auto
  then show ?thesis by (simp add: StartTask_def sql_write_def run_sql del: run_sql_no_fault faults_Nil)
qed

lemma late_start_keeps_result_witness:
  "tasks (snd (run_state (StartTask ''task_1'') (demo_runner\<lparr>tasks := [(new_task ''task_1'' ''run_1'' ''a''
     \<lparr>rr_name = [], rr_hosts = [''a''], rr_collector = ''system_info'', rr_params = [], rr_timeout = 30, rr_by = ''op''\<rparr>)
     \<lparr>tk_status := TkOk\<rparr>]\<rparr>))) \<noteq> []"
proof -
  let ?s = "demo_runner\<lparr>tasks := [(new_task ''task_1'' ''run_1'' ''a''
     \<lparr>rr_name = [], rr_hosts = [''a''], rr_collector = ''system_info'', rr_params = [], rr_timeout = 30, rr_by = ''op''\<rparr>)
     \<lparr>tk_status := TkOk\<rparr>]\<rparr>"
  have "\<forall>t \<in> set (tasks ?s). tk_id t = ''task_1'' \<longrightarrow> isTerminal (tk_status t)" by simp
  from late_start_keeps_result [OF this] show ?thesis by simp
qed

section \<open>Artifact files\<close>

definition safe_name :: "string \<Rightarrow> bool" where
  "safe_name n = (n \<noteq> [] \<and> n \<noteq> ''.'' \<and> n \<noteq> ''..'' \<and> list_all safe_char n)"

lemma sanitize_safe: "sanitize n \<noteq> [] \<and> list_all safe_char (sanitize n)"
proof -
  have "safe_char (CHR ''_'')" "list_all safe_char ''artifact''" by code_simp+
  then show ?thesis by (auto simp: sanitize_def Let_def list_all_iff)
qed

text \<open>Every file, open or on disk, is named safely in the directory of a task \<open>P\<close> holds of.\<close>

definition files_within :: "(string \<Rightarrow> bool) \<Rightarrow> 'z runner_scheme \<Rightarrow> bool" where
  "files_within P s =
     ((\<forall>p \<in> set (files s). P (fst (fst p)) \<and> safe_name (snd (fst p))) \<and>
      (\<forall>p \<in> set (open_arts s). P (fst (oa_file (snd p))) \<and> safe_name (snd (oa_file (snd p)))) \<and>
      (\<forall>p \<in> set (pending s). P (fst p)))"

lemma set_file_put: "set (file_put p c fs) = insert (p, c) {q \<in> set fs. fst q \<noteq> p}"
  by (auto simp: file_put_def)

lemma write_chunk_within:
  assumes "files_within P s" and "P (fst (oa_file oa))" and "safe_name (snd (oa_file oa))"
  shows "files_within P (write_chunk fe a oa s)"
  using assms
  by (auto simp: files_within_def write_chunk_def Let_def set_file_put set_map_put set_map_del)

lemma OnArtifact_within: "keeps (files_within P) (OnArtifact fe agent a)"
  unfolding OnArtifact_def
proof (rule keeps_modify)
  fix s :: "'z runner_scheme"
  assume w: "files_within P s"
  show "files_within P (case map_of (pending s) (ck_id a) of
       None \<Rightarrow> s
     | Some p \<Rightarrow>
         if pd_host p \<noteq> agent then s
         else (case map_of (open_arts s) (ck_artifact a) of
                 Some oa \<Rightarrow> write_chunk fe a oa s
               | None \<Rightarrow>
                   (let f = (ck_id a, sanitize (ck_name a))
                    in if \<not> fs_mkdir fe (ck_id a) then s
                       else if \<not> create_ok fe f then s
                       else (let oa = \<lparr>oa_task = ck_id a, oa_name = ck_name a, oa_mime = ck_mime a,
                                       oa_file = f, oa_pos = 0\<rparr>
                             in write_chunk fe a oa
                                  (s\<lparr>files := file_put f [] (files s),
                                     open_arts := map_put (ck_artifact a) oa (open_arts s)\<rparr>)))))"
  proof (cases "map_of (pending s) (ck_id a)")
    case None
    with w show ?thesis by simp
  next
    case (Some p)
    then have pd: "P (ck_id a)" using w by (auto simp: files_within_def dest!: map_of_SomeD)
    show ?thesis
    proof (cases "map_of (open_arts s) (ck_artifact a)")
      case (Some oa)
      then have "P (fst (oa_file oa)) \<and> safe_name (snd (oa_file oa))"
        using w by (auto simp: files_within_def dest!: map_of_SomeD)
      with w Some \<open>map_of (pending s) (ck_id a) = Some p\<close> show ?thesis
        by (simp add: write_chunk_within)
    next
      case None
      let ?f = "(ck_id a, sanitize (ck_name a))"
      let ?oa = "\<lparr>oa_task = ck_id a, oa_name = ck_name a, oa_mime = ck_mime a, oa_file = ?f, oa_pos = 0\<rparr>"
      let ?s = "s\<lparr>files := file_put ?f [] (files s), open_arts := map_put (ck_artifact a) ?oa (open_arts s)\<rparr>"
      have "safe_name (sanitize (ck_name a))" if "create_ok fe ?f"
        using that sanitize_safe [of "ck_name a"] by (simp add: create_ok_def safe_name_def)
      moreover from this have "files_within P ?s" if "create_ok fe ?f"
        using that w pd by (auto simp: files_within_def set_file_put set_map_put)
      ultimately show ?thesis
        using w pd None \<open>map_of (pending s) (ck_id a) = Some p\<close>
        by (simp add: Let_def write_chunk_within)
    qed
  qed
qed

lemma OnResult_within: "keeps (files_within P) (OnResult dir agent res)"
proof -
  have ff: "fault_free (files_within P)" by (simp add: fault_free_def files_within_def)
  show ?thesis
    unfolding OnResult_def closeOpenArtifacts_def FinishTask_def UpsertResult_def unregister_task_def
    by (intro keeps_intros keeps_modify keeps_sql keeps_sql_write ff)
      (auto simp: files_within_def set_map_del split: if_splits)
qed

datatype agent_msg = MsgResult collect_result | MsgChunk chunk

fun on_message :: "fs_env \<Rightarrow> string \<Rightarrow> string \<times> agent_msg \<Rightarrow> ('z, unit) rm" where
  "on_message fe dir (agent, MsgResult r) = OnResult dir agent r"
| "on_message fe dir (agent, MsgChunk c) = OnArtifact fe agent c"

lemma on_message_within: "keeps (files_within P) (on_message fe dir m)"
  by (cases "(fe, dir, m)" rule: on_message.cases) (auto intro: OnResult_within OnArtifact_within)

text \<open>
  C40: Whatever results and artifact chunks any agents send, in any order, with any names and
  ids, every file the hub ends up with is in the directory of a task the hub itself was
  awaiting, under a non-empty name of letters, digits, dots, dashes and underscores that is
  neither \<open>.\<close> nor \<open>..\<close>: no artifact escapes the artifact root.
\<close>
theorem artifacts_confined:
  assumes "files s = []" and "open_arts s = []"
    and "run_state (for_each ms (on_message fe dir)) s = ((), s')" and "((d, n), c) \<in> set (files s')"
  shows "d \<in> fst ` set (pending s) \<and> safe_name n"
proof -
  let ?P = "\<lambda>d. d \<in> fst ` set (pending s)"
  have "files_within ?P s" using assms(1,2) by (simp add: files_within_def)
  then have "files_within ?P s'"
    using keepsD [OF keeps_for_each [of ms "files_within ?P" "on_message fe dir"]] on_message_within assms(3)
    by (metis snd_conv)
  with assms(4) have "?P (fst (fst ((d, n), c))) \<and> safe_name (snd (fst ((d, n), c)))"
    unfolding files_within_def by blast
  then show ?thesis by simp
qed

definition demo_fs :: fs_env where
  "demo_fs = \<lparr>fs_mkdir = (\<lambda>_. True), fs_create = (\<lambda>_. True), fs_write = (\<lambda>_ d. length d)\<rparr>"

definition demo_chunk :: "string \<Rightarrow> string \<Rightarrow> string \<Rightarrow> bool \<Rightarrow> chunk" where
  "demo_chunk tid name d fin = \<lparr>ck_id = tid, ck_artifact = ''art-1'', ck_name = name, ck_mime = ''text/plain'',
     ck_data = d, ck_last = fin\<rparr>"

lemma artifacts_confined_witness:
  "''task_1'' \<in> fst ` set (pending demo_runner) \<and> safe_name ''.._etc_passwd''"
proof -
  let ?c = "demo_chunk ''task_1'' ''../etc/passwd'' ''x'' True"
  let ?s' = "demo_runner\<lparr>files := [((''task_1'', ''.._etc_passwd''), ''x'')]\<rparr>"
  have sn: "sanitize ''../etc/passwd'' = ''.._etc_passwd''" by code_simp
  have 1: "files demo_runner = []" "open_arts demo_runner = []"
    by (simp_all add: demo_runner_def db.defs runner.defs)
  have 2: "run_state (for_each [(''a'', MsgChunk ?c)] (on_message demo_fs ''art'')) demo_runner = ((), ?s')"
    by (simp add: OnArtifact_def demo_runner_def db.defs runner.defs demo_chunk_def awaiting_def demo_fs_def
        create_ok_def write_chunk_def sn Let_def map_put_def map_del_def file_put_def file_get_def write_at_def)
  show ?thesis
    by (rule artifacts_confined [OF 1 2]) simp
qed

text \<open>
  An open artifact is found by the id the agent chose, and only the request's agent is
  checked: agent \<open>b\<close>, which has a task of its own under way, can append to (and close) the
  file agent \<open>a\<close> is writing for another task, by sending a chunk for its own request with
  \<open>a\<close>'s artifact id.
\<close>
theorem artifact_id_crosses_agents:
  "let s1 = snd (run_state (OnArtifact demo_fs ''a'' (demo_chunk ''task_1'' ''log'' ''AA'' False)) demo_runner);
       s2 = snd (run_state (OnArtifact demo_fs ''b'' (demo_chunk ''task_2'' ''log'' ''BB'' True)) s1)
   in \<not> assigned ''b'' ''task_1'' demo_runner
      \<and> files s2 = [((''task_1'', ''log''), ''AABB'')] \<and> open_arts s2 = []"
proof -
  have sn: "sanitize ''log'' = ''log''" by code_simp
  show ?thesis
    by (simp add: OnArtifact_def demo_runner_def db.defs runner.defs demo_chunk_def awaiting_def demo_fs_def
        create_ok_def write_chunk_def sn Let_def map_put_def map_del_def file_put_def file_get_def
        write_at_def assigned_def)
qed

section \<open>A streamed artifact is put back together\<close>

definition open_at :: "string \<Rightarrow> open_art \<Rightarrow> bytes \<Rightarrow> 'z runner_scheme \<Rightarrow> bool" where
  "open_at aid oa c s =
     (map_of (open_arts s) aid = Some oa \<and> file_get (oa_file oa) (files s) = c \<and> oa_pos oa = length c)"

definition full_writes :: "fs_env \<Rightarrow> bool" where
  "full_writes fe = (\<forall>p d. fs_write fe p d = length d)"

lemma write_at_end [simp]: "write_at (length c) d c = c @ d"
  by (simp add: write_at_def)

lemma file_get_put [simp]: "file_get p (file_put p c fs) = c"
  by (simp add: file_get_def file_put_def)

lemma write_chunk_appends:
  assumes "full_writes fe" and "file_get (oa_file oa) (files s) = c" and "oa_pos oa = length c"
    and "map_of (open_arts s) (ck_artifact a) = Some oa"
  shows "file_get (oa_file oa) (files (write_chunk fe a oa s)) = c @ ck_data a
    \<and> pending (write_chunk fe a oa s) = pending s
    \<and> (ck_last a \<longrightarrow> map_of (open_arts (write_chunk fe a oa s)) (ck_artifact a) = None)
    \<and> (\<not> ck_last a \<longrightarrow> (\<exists>oa'. oa_file oa' = oa_file oa \<and> open_at (ck_artifact a) oa' (c @ ck_data a) (write_chunk fe a oa s)))"
proof -
  have "fs_write fe p d = length d" for p d using assms(1) by (cases p) (simp add: full_writes_def)
  with assms(2-4) show ?thesis
    by (cases "ck_data a = []"; cases "ck_last a") (simp_all add: write_chunk_def Let_def open_at_def lookup_simps)
qed

lemma chunks_append:
  assumes "full_writes fe" and "assigned agent tid s" and "open_at aid oa c s"
    and "list_all (\<lambda>a. ck_id a = tid \<and> ck_artifact a = aid) (cs @ [z])"
    and "list_all (\<lambda>a. \<not> ck_last a) cs" and "ck_last z"
  shows "\<exists>s'. run_state (for_each (cs @ [z]) (OnArtifact fe agent)) s = ((), s')
    \<and> file_get (oa_file oa) (files s') = c @ concat (map ck_data (cs @ [z]))
    \<and> map_of (open_arts s') aid = None"
  using assms
proof (induction cs arbitrary: s c oa)
  case Nil
  then have "run_state (OnArtifact fe agent z) s = ((), write_chunk fe z oa s)"
    by (auto simp: OnArtifact_def assigned_def open_at_def split: option.splits)
  with Nil write_chunk_appends [of fe oa s c z] show ?case by (simp add: open_at_def)
next
  case (Cons a cs)
  let ?s1 = "write_chunk fe a oa s"
  have step: "run_state (OnArtifact fe agent a) s = ((), ?s1)"
    using Cons.prems by (auto simp: OnArtifact_def assigned_def open_at_def split: option.splits)
  have w: "pending ?s1 = pending s"
    "\<exists>oa'. oa_file oa' = oa_file oa \<and> open_at aid oa' (c @ ck_data a) ?s1"
    using write_chunk_appends [of fe oa s c a] Cons.prems by (simp_all add: open_at_def)
  then obtain oa' where oa': "oa_file oa' = oa_file oa" "open_at aid oa' (c @ ck_data a) ?s1" by blast
  have "assigned agent tid ?s1" using Cons.prems(2) w(1) by (simp add: assigned_def)
  from Cons.IH [OF Cons.prems(1) this oa'(2)] Cons.prems(4-6) step oa'(1) show ?case by simp
qed

lemma chunks_reassembled:
  assumes "full_writes fe" and "fs_mkdir fe tid" and "create_ok fe (tid, sanitize name)"
    and "assigned agent tid s" and "map_of (open_arts s) aid = None"
    and "list_all (\<lambda>a. ck_id a = tid \<and> ck_artifact a = aid \<and> ck_name a = name) (cs @ [z])"
    and "list_all (\<lambda>a. \<not> ck_last a) cs" and "ck_last z"
  shows "\<exists>s'. run_state (for_each (cs @ [z]) (OnArtifact fe agent)) s = ((), s')
    \<and> file_get (tid, sanitize name) (files s') = concat (map ck_data (cs @ [z]))
    \<and> map_of (open_arts s') aid = None"
proof -
  obtain a rest where ar: "cs @ [z] = a # rest" by (cases cs) auto
  let ?f = "(tid, sanitize name)"
  let ?oa = "\<lparr>oa_task = tid, oa_name = name, oa_mime = ck_mime a, oa_file = ?f, oa_pos = 0\<rparr>"
  let ?s0 = "s\<lparr>files := file_put ?f [] (files s), open_arts := map_put aid ?oa (open_arts s)\<rparr>"
  from assms(4) obtain pt where pd: "map_of (pending s) tid = Some pt" "pd_host pt = agent"
    by (auto simp: assigned_def split: option.splits)
  have a: "ck_id a = tid" "ck_artifact a = aid" "ck_name a = name" using assms(6) ar by simp_all
  have "run_state (OnArtifact fe agent a) s = run_state (OnArtifact fe agent a) ?s0"
    using assms(2,3,5) a pd by (simp add: OnArtifact_def Let_def lookup_simps)
  then have same: "run_state (for_each (cs @ [z]) (OnArtifact fe agent)) s
      = run_state (for_each (cs @ [z]) (OnArtifact fe agent)) ?s0"
    unfolding ar by simp
  have "open_at aid ?oa [] ?s0" by (simp add: open_at_def lookup_simps)
  moreover have "assigned agent tid ?s0" using assms(4) by (simp add: assigned_def)
  moreover have "list_all (\<lambda>a. ck_id a = tid \<and> ck_artifact a = aid) (cs @ [z])"
    using assms(6) by (auto simp: list_all_iff)
  ultimately show ?thesis
    using chunks_append [OF assms(1) _ _ _ assms(7,8), of agent tid ?s0 aid ?oa "[]"] same by simp
qed

text \<open>
  The chunks an agent streams for one artifact of a task it was asked for, under an
  artifact id not in use, end up as one file, in the task's directory and under the
  sanitised name, whose content is the chunks' bytes in order; and the file is closed by
  the last chunk. (The disk takes all writes.)
\<close>
theorem artifact_reassembled:
  assumes "full_writes fe" and "fs_mkdir fe tid" and "create_ok fe (tid, sanitize name)"
    and "assigned agent tid s" and "map_of (open_arts s) aid = None"
    and "list_all (\<lambda>a. ck_id a = tid \<and> ck_artifact a = aid \<and> ck_name a = name) (cs @ [z])"
    and "list_all (\<lambda>a. \<not> ck_last a) cs" and "ck_last z"
  shows "\<exists>s'. run_state (for_each (cs @ [z]) (OnArtifact fe agent)) s = ((), s')
    \<and> file_get (tid, sanitize name) (files s') = concat (map ck_data (cs @ [z]))
    \<and> map_of (open_arts s') aid = None"
  using assms by (rule chunks_reassembled)

lemma artifact_reassembled_witness:
  "\<exists>s'. run_state (for_each [demo_chunk ''task_1'' ''log'' ''ab'' False, demo_chunk ''task_1'' ''log'' ''c'' True]
      (OnArtifact demo_fs ''a'')) demo_runner = ((), s')
    \<and> file_get (''task_1'', ''log'') (files s') = ''abc''"
proof -
  have sn: "sanitize ''log'' = ''log''" by code_simp
  have "full_writes demo_fs" "fs_mkdir demo_fs ''task_1''" "create_ok demo_fs (''task_1'', sanitize ''log'')"
    "assigned ''a'' ''task_1'' demo_runner" "map_of (open_arts demo_runner) ''art-1'' = None"
    by (simp_all add: full_writes_def demo_fs_def create_ok_def sn assigned_def demo_runner_def
        db.defs runner.defs awaiting_def)
  from artifact_reassembled [OF this, of "[demo_chunk ''task_1'' ''log'' ''ab'' False]"
      "demo_chunk ''task_1'' ''log'' ''c'' True"]
  show ?thesis by (auto simp: demo_chunk_def sn)
qed

section \<open>Closing a run\<close>

text \<open>
  A turn of the poller closes the run exactly when every task of it is in a terminal
  status; otherwise it goes on polling and changes nothing. In particular a run with no
  task at all is closed at the first turn.
\<close>
theorem watch_closes_finished_run:
  assumes "faults s = []" and "run_state (watch_poll rid) s = (stop, s')"
  shows "(stop \<longleftrightarrow> (\<forall>t \<in> set (tasks s). tk_run t = rid \<longrightarrow> isTerminal (tk_status t)))
    \<and> (\<not> stop \<longrightarrow> s' = s)
    \<and> (stop \<longrightarrow> (\<forall>r \<in> set (runs s'). run_id r = rid \<longrightarrow> run_status r = RunDone) \<and> tasks s' = tasks s)"
proof -
  let ?all = "list_all (\<lambda>t. isTerminal (tk_status t)) (sort_key tk_host (filter (\<lambda>t. tk_run t = rid) (tasks s)))"
  have iff: "?all \<longleftrightarrow> (\<forall>t \<in> set (tasks s). tk_run t = rid \<longrightarrow> isTerminal (tk_status t))"
    by (auto simp: list_all_iff)
  have run: "run_state (watch_poll rid) s = (if ?all
      then (True, s\<lparr>runs := update_rows (\<lambda>r. run_id r = rid)
              (\<lambda>r. r\<lparr>run_finished_at := Some (clock s), run_status := RunDone\<rparr>) (runs s)\<rparr>)
      else (False, s))"
    using assms(1) by (simp add: watch_poll_def ListTasks_def sql_read_def FinishRun_def sql_write_def)
  show ?thesis
  proof (cases ?all)
    case True
    with assms(2) run have "stop" and s': "s' = s\<lparr>runs := update_rows (\<lambda>r. run_id r = rid)
              (\<lambda>r. r\<lparr>run_finished_at := Some (clock s), run_status := RunDone\<rparr>) (runs s)\<rparr>" by simp_all
    have rows: "runs s' = update_rows (\<lambda>r. run_id r = rid)
        (\<lambda>r. r\<lparr>run_finished_at := Some (clock s), run_status := RunDone\<rparr>) (runs s)"
      and "tasks s' = tasks s" unfolding s' by simp_all
    moreover have "run_status r = RunDone" if "r \<in> set (runs s')" "run_id r = rid" for r
    proof -
      from that(1) obtain x where "r = (if run_id x = rid
          then x\<lparr>run_finished_at := Some (clock s), run_status := RunDone\<rparr> else x)"
        unfolding rows set_update_rows by blast
      with that(2) show ?thesis by (cases "run_id x = rid") simp_all
    qed
    ultimately show ?thesis using \<open>stop\<close> True iff by blast
  next
    case False
    with assms(2) run have "\<not> stop" "s' = s" by simp_all
    with False iff show ?thesis by simp
  qed
qed

lemma watch_closes_finished_run_witness:
  "fst (run_state (watch_poll ''run_9'') demo_runner)"
proof -
  have f: "faults demo_runner = []" by (simp add: demo_runner_def db.defs runner.defs empty_db_def)
  obtain st s' where w: "run_state (watch_poll ''run_9'') demo_runner = (st, s')" by fastforce
  from watch_closes_finished_run [OF f w] w show ?thesis
    by (simp add: demo_runner_def db.defs runner.defs empty_db_def)
qed

end
