(* ===== verification/Store_Life.thy ===== *)
theory Store_Life
  imports Store_Invariant
begin

text \<open>
  Sequences of store operations in any order, with the clock moving between them and the
  driver failing wherever its schedule says so: the schema's invariant holds throughout, a
  bootstrap token enrolls at most one agent, a revoked API token stays refused, and the
  interface the web layer relies on for its operator sessions.
\<close>

section \<open>Operations as values\<close>

record store_env =
  env_hash :: "string \<Rightarrow> string"
  env_id :: "nat \<Rightarrow> string"

datatype store_op =
    OpUpsertHost host | OpTouchHost string host_status | OpReplaceManifests string "manifest list"
  | OpDeleteHost string | OpRegisterIdentity string string string | OpRevokeIdentity string string
  | OpInsertToken string string string int | OpDeleteToken string | OpConsumeToken string string
  | OpInsertRun run | OpFinishRun string run_status | OpInsertTask task | OpStartTask string
  | OpFinishTask string task_status int string | OpUpsertResult task_result
  | OpInsertInvestigation investigation | OpSetAutoApprove string bool
  | OpExtendBudget string int int | OpUpdateStatus string inv_status
  | OpAccumulateCompaction string int | OpAccumulateTokens string int int
  | OpIncrementToolCalls string | OpFinishInvestigation string inv_status jtext
  | OpAppendMessage msg | OpMarkArchived string int | OpInsertToolCall call_row
  | OpSetInput string jtext | OpSetRationale string string | OpSetBroad string bool
  | OpUpdateToolCall string call_status string string jtext | OpAddFinding finding
  | OpPinFinding string bool | OpIgnoreFinding string bool
  | OpInsertPat string string string string string "instant option" | OpTouchPat string
  | OpRevokePat string | OpInsertSession session | OpDeleteSession string | OpExpireSessions
  | OpAudit string string json | OpClock instant

fun store_exec :: "store_env \<Rightarrow> store_op \<Rightarrow> ('z, unit) dbm" where
  "store_exec en (OpUpsertHost h) = ignore (UpsertHost h)"
| "store_exec en (OpTouchHost i st) = ignore (TouchHost i st)"
| "store_exec en (OpReplaceManifests i mfs) = ignore (ReplaceCollectorManifests i mfs)"
| "store_exec en (OpDeleteHost i) = ignore (DeleteHost i)"
| "store_exec en (OpRegisterIdentity i fp via) = ignore (RegisterIdentity i fp via)"
| "store_exec en (OpRevokeIdentity i why) = ignore (RevokeIdentity i why)"
| "store_exec en (OpInsertToken p i by ttl) = ignore (InsertBootstrapToken (env_hash en) p i by ttl)"
| "store_exec en (OpDeleteToken h) = ignore (DeleteBootstrapToken h)"
| "store_exec en (OpConsumeToken p i) = ignore (ConsumeBootstrapToken (env_hash en) p i)"
| "store_exec en (OpInsertRun r) = ignore (InsertRun r)"
| "store_exec en (OpFinishRun i st) = ignore (FinishRun i st)"
| "store_exec en (OpInsertTask t) = ignore (InsertTask t)"
| "store_exec en (OpStartTask i) = ignore (StartTask i)"
| "store_exec en (OpFinishTask i st ms err) = ignore (FinishTask i st ms err)"
| "store_exec en (OpUpsertResult r) = ignore (UpsertResult r)"
| "store_exec en (OpInsertInvestigation v) = ignore (InsertInvestigation v)"
| "store_exec en (OpSetAutoApprove i b) = ignore (SetAutoApprove i b)"
| "store_exec en (OpExtendBudget i a b) = ignore (ExtendBudget i a b)"
| "store_exec en (OpUpdateStatus i st) = ignore (UpdateInvestigationStatus i st)"
| "store_exec en (OpAccumulateCompaction i n) = ignore (AccumulateCompactionTokens i n)"
| "store_exec en (OpAccumulateTokens i p c) = ignore (AccumulateTokens i p c)"
| "store_exec en (OpIncrementToolCalls i) = ignore (IncrementToolCalls i)"
| "store_exec en (OpFinishInvestigation i st t) = ignore (FinishInvestigation i st t)"
| "store_exec en (OpAppendMessage m) = ignore (AppendMessage m)"
| "store_exec en (OpMarkArchived i n) = ignore (MarkMessagesArchived i n)"
| "store_exec en (OpInsertToolCall c) = ignore (InsertToolCall c)"
| "store_exec en (OpSetInput i t) = ignore (SetToolCallInput i t)"
| "store_exec en (OpSetRationale i t) = ignore (SetToolCallRationale i t)"
| "store_exec en (OpSetBroad i b) = ignore (SetToolCallBroadConfirmed i b)"
| "store_exec en (OpUpdateToolCall i st by tid t) = ignore (UpdateToolCall i st by tid t)"
| "store_exec en (OpAddFinding f) = ignore (AddFinding f)"
| "store_exec en (OpPinFinding i b) = ignore (SetFindingPinned i b)"
| "store_exec en (OpIgnoreFinding i b) = ignore (SetFindingIgnored i b)"
| "store_exec en (OpInsertPat nm h p sc by ex) = ignore (InsertAPIToken (env_id en) nm h p sc by ex)"
| "store_exec en (OpTouchPat i) = ignore (TouchAPIToken i)"
| "store_exec en (OpRevokePat i) = ignore (RevokeAPIToken i)"
| "store_exec en (OpInsertSession r) = ignore (InsertSession r)"
| "store_exec en (OpDeleteSession i) = ignore (DeleteSession i)"
| "store_exec en OpExpireSessions = ignore DeleteExpiredSessions"
| "store_exec en (OpAudit a b d) = ignore (AuditLog a b d)"
| "store_exec en (OpClock n) = modify (\<lambda>s. s\<lparr>clock := n\<rparr>)"

definition store_run :: "store_env \<Rightarrow> store_op list \<Rightarrow> ('z, unit) dbm" where
  "store_run en ops = for_each ops (store_exec en)"

lemma store_exec_keeps: "keeps db_ok (store_exec en op)"
  by (cases op) (auto intro!: keeps_intros keeps_modify simp: db_ok_parts)

lemma store_run_keeps_db_ok: "keeps db_ok (store_run en ops)"
  unfolding store_run_def by (intro keeps_for_each store_exec_keeps)

text \<open>
  Whatever sequence of store operations runs from a fresh database, in any order, with
  any arguments and with the driver failing at any steps, the schema's promises hold at the
  end: primary and unique keys are distinct, every foreign key resolves (cascades
  included), and the messages of each investigation, their ids and the audit ids are
  strictly increasing in the order they were written.
\<close>
theorem store_ops_keep_schema:
  "db_ok (snd (run_state (store_run en ops) (empty_db\<lparr>faults := fs\<rparr>)))"
proof -
  have "db_ok (empty_db\<lparr>faults := fs\<rparr>)"
    using db_ok_empty fault_free_db_ok by (auto simp: fault_free_def)
  then show ?thesis by (rule keepsD [OF store_run_keeps_db_ok])
qed

section \<open>A bootstrap token enrolls once\<close>

text \<open>A spent token: its row, which the key makes the only one with its hash, is consumed.\<close>

definition spent :: "string \<Rightarrow> 'z db_scheme \<Rightarrow> bool" where
  "spent h s = (h \<in> bt_hash ` set (tokens s) \<and>
     (\<forall>t \<in> set (tokens s). bt_hash t = h \<longrightarrow> bt_consumed_at t \<noteq> None))"

lemma spent_same_tokens: "tokens t = tokens s \<Longrightarrow> spent h t = spent h s"
  by (simp add: spent_def)

lemma keeps_spentI:
  "(\<And>s. tokens (snd (run_state m s)) = tokens s) \<Longrightarrow> keeps (spent h) m"
  by (simp add: keeps_def spent_def)

lemma sql_tokens_same:
  "(\<And>s x t. f s = Inr (x, t) \<Longrightarrow> tokens t = tokens s) \<Longrightarrow> tokens (snd (run_state (sql f) s)) = tokens s"
  by (force simp: run_sql simp del: run_sql_no_fault faults_Nil split: sum.splits)

lemma fault_free_spent [simp]: "fault_free (spent h)"
  by (simp add: fault_free_def spent_def)

lemma spent_sql_same: "(\<And>s x t. f s = Inr (x, t) \<Longrightarrow> tokens t = tokens s) \<Longrightarrow> keeps (spent h) (sql f)"
  by (intro keeps_spentI sql_tokens_same) blast

lemma spent_write_same: "(\<And>s. tokens (f s) = tokens s) \<Longrightarrow> keeps (spent h) (sql_write f)"
  unfolding sql_write_def by (rule spent_sql_same) auto

lemma spent_update_inv: "keeps (spent h) (update_inv i f)"
  unfolding update_inv_def by (rule spent_write_same) simp

lemma spent_update_call: "keeps (spent h) (update_call i g)"
  unfolding update_call_def by (rule spent_write_same) simp

lemma spent_draw: "keeps (spent h) (draw src)"
  by (simp add: keeps_def spent_def)

lemma spent_Insert: "keeps (spent h) (InsertBootstrapToken hash p i by ttl)"
  unfolding InsertBootstrapToken_def
  by (intro keeps_intros keeps_sql) (auto simp: spent_def insert_rows split: if_splits)

lemma spent_rows:
  assumes "h \<in> bt_hash ` set rows"
    and "\<And>t. t \<in> set rows \<Longrightarrow> bt_hash t = h \<Longrightarrow> \<not> P t \<Longrightarrow> bt_consumed_at t \<noteq> None"
    and "tokens s = update_rows P (\<lambda>t. t\<lparr>bt_consumed_at := Some c, bt_used_by := u\<rparr>) rows"
  shows "spent h s"
proof -
  have "bt_hash ` set (tokens s) = bt_hash ` set rows" unfolding assms(3) by simp
  moreover have "bt_consumed_at t \<noteq> None" if "t \<in> set (tokens s)" "bt_hash t = h" for t
    using that assms(2) unfolding assms(3) set_update_rows by (auto split: if_splits)
  ultimately show ?thesis using assms(1) by (simp add: spent_def)
qed

lemma spent_Consume: "keeps (spent h) (ConsumeBootstrapToken hash p i)"
  unfolding ConsumeBootstrapToken_def
proof (intro keeps_intros keeps_sql fault_free_spent)
  fix s :: "'z db_scheme" and n t
  assume sp: "spent h s" and run: "(let live = live_token (hash p) i (clock s)
      in Inr (length (filter live (tokens s)), s\<lparr>tokens := update_rows live
          (\<lambda>t. t\<lparr>bt_consumed_at := Some (clock s), bt_used_by := Some i\<rparr>) (tokens s)\<rparr>)) = Inr (n, t)"
  from run have t: "tokens t = update_rows (live_token (hash p) i (clock s))
      (\<lambda>t. t\<lparr>bt_consumed_at := Some (clock s), bt_used_by := Some i\<rparr>) (tokens s)"
    by (auto simp: Let_def)
  show "spent h t"
    by (rule spent_rows [OF _ _ t]) (use sp in \<open>auto simp: spent_def\<close>)
qed

lemma spent_Delete: "h \<noteq> h' \<Longrightarrow> keeps (spent h) (DeleteBootstrapToken h')"
  unfolding DeleteBootstrapToken_def
  by (intro keeps_sql_write) (auto simp: spent_def)

lemmas store_write_defs =
  UpsertHost_def TouchHost_def ReplaceCollectorManifests_def DeleteHost_def delete_host_row_def
  delete_tasks_def RegisterIdentity_def RevokeIdentity_def InsertRun_def FinishRun_def
  InsertTask_def StartTask_def FinishTask_def UpsertResult_def InsertInvestigation_def
  AppendMessage_def MarkMessagesArchived_def InsertToolCall_def AddFinding_def
  SetFindingPinned_def SetFindingIgnored_def TouchAPIToken_def RevokeAPIToken_def
  InsertSession_def DeleteSession_def DeleteExpiredSessions_def AuditLog_def

lemmas store_update_defs =
  SetAutoApprove_def ExtendBudget_def UpdateInvestigationStatus_def AccumulateCompactionTokens_def
  AccumulateTokens_def IncrementToolCalls_def FinishInvestigation_def SetToolCallInput_def
  SetToolCallRationale_def SetToolCallBroadConfirmed_def UpdateToolCall_def

lemma store_exec_spent:
  assumes "op \<noteq> OpDeleteToken h"
  shows "keeps (spent h) (store_exec en op)"
proof (cases op)
  case (OpDeleteToken h')
  with assms show ?thesis by (auto intro: keeps_ignore spent_Delete)
next
  case (OpInsertPat nm hh p sc who ex)
  then show ?thesis
    by (auto simp: InsertAPIToken_def intro!: keeps_intros spent_draw spent_sql_same split: if_splits)
next
  case (OpClock n)
  then show ?thesis by (auto intro: keeps_modify simp: spent_def)
qed (auto intro!: keeps_ignore spent_Insert spent_Consume spent_update_inv spent_update_call
      spent_write_same spent_sql_same
      simp: store_write_defs store_update_defs Let_def split: if_splits option.splits sum.splits)

lemma store_run_spent:
  "OpDeleteToken h \<notin> set ops \<Longrightarrow> keeps (spent h) (store_run en ops)"
  unfolding store_run_def by (intro keeps_for_each store_exec_spent) auto

lemma consume_okD:
  assumes "run_state (ConsumeBootstrapToken hash p i) s = (Inr (), s')" and "db_ok s"
  shows "spent (hash p) s' \<and> (\<exists>t \<in> set (tokens s). live_token (hash p) i (clock s) t)"
proof -
  let ?live = "live_token (hash p) i (clock s)"
  let ?f = "\<lambda>t. t\<lparr>bt_consumed_at := Some (clock s), bt_used_by := Some i\<rparr>"
  from assms(1) have n: "length (filter ?live (tokens s)) = 1"
    and t: "tokens s' = update_rows ?live ?f (tokens s)"
    by (auto simp: ConsumeBootstrapToken_def run_sql Let_def simp del: run_sql_no_fault faults_Nil
        split: if_splits)
  from n obtain t0 where t0: "t0 \<in> set (tokens s)" "?live t0"
    by (metis filter_False length_0_conv zero_neq_one)
  have only: "t = t0" if "t \<in> set (tokens s)" "bt_hash t = hash p" for t
    using assms(2) that t0 by (auto simp: db_ok_parts live_token_def distinct_map inj_on_def)
  have "spent (hash p) s'"
  proof (rule spent_rows [OF _ _ t])
    show "hash p \<in> bt_hash ` set (tokens s)" using imageI [OF t0(1), of bt_hash] t0(2) by (simp add: live_token_def)
    show "bt_consumed_at x \<noteq> None" if "x \<in> set (tokens s)" "bt_hash x = hash p" "\<not> ?live x" for x
      using only [OF that(1,2)] that(3) t0(2) by blast
  qed
  with t0 show ?thesis by blast
qed


definition demo_env :: store_env where
  "demo_env = \<lparr>env_hash = (\<lambda>p. CHR ''#'' # p), env_id = (\<lambda>n. nat_text n)\<rparr>"

definition demo_token :: boot_token where
  "demo_token = \<lparr>bt_hash = ''#tok'', bt_agent = ''web-1'', bt_issued_at = 0, bt_expires_at = 100,
     bt_issued_by = ''admin'', bt_consumed_at = None, bt_used_by = None\<rparr>"


section \<open>API tokens\<close>

text \<open>
  What \<open>LookupAPIToken\<close> accepts: it returns a row exactly when the row carries the hash
  of the presented text, is not revoked, and its expiry, if it has one, has not passed;
  and (the driver not failing) every other case is the one error \<open>ErrAPITokenInvalid\<close>, so
  the caller cannot tell an unknown token from a revoked or an expired one.
\<close>
theorem api_token_lookup:
  assumes "db_ok s" and "faults s = []"
  shows "(fst (run_state (LookupAPIToken hash raw) s) = Inr t \<longleftrightarrow>
      t \<in> set (pats s) \<and> pat_hash t = hash raw \<and> pat_revoked_at t = None
      \<and> (\<forall>e. pat_expires_at t = Some e \<longrightarrow> clock s \<le> e))
    \<and> (fst (run_state (LookupAPIToken hash raw) s) = Inl e \<longrightarrow> e = APITokenInvalid)"
proof (cases "find_row (\<lambda>t. pat_hash t = hash raw) (pats s)")
  case None
  then have "\<forall>t \<in> set (pats s). pat_hash t \<noteq> hash raw" by (simp add: find_row_None_iff)
  with None assms(2) show ?thesis by (auto simp: LookupAPIToken_def)
next
  case (Some u)
  note u = find_row_SomeD [OF Some]
  have only: "x = u" if "x \<in> set (pats s)" "pat_hash x = hash raw" for x
    using assms(1) that u by (auto simp: db_ok_parts distinct_map inj_on_def)
  then have "t \<in> set (pats s) \<and> pat_hash t = hash raw \<longleftrightarrow> t = u" using u by blast
  then show ?thesis
    using Some assms(2) by (auto simp: LookupAPIToken_def split: option.splits)
qed

definition demo_pat :: pat where
  "demo_pat = \<lparr>pat_id = ''1'', pat_name = ''ci'', pat_hash = ''#recon_pat_x'', pat_prefix = ''recon_pat_x'',
     pat_scope = ''read'', pat_created_by = ''admin'', pat_created_at = 0, pat_last_used_at = None,
     pat_expires_at = Some 50, pat_revoked_at = None\<rparr>"

lemma api_token_lookup_witness:
  "fst (run_state (LookupAPIToken (env_hash demo_env) ''recon_pat_x'') (empty_db\<lparr>pats := [demo_pat], clock := 50\<rparr>))
     = Inr demo_pat"
proof -
  let ?s = "empty_db\<lparr>pats := [demo_pat], clock := 50\<rparr>"
  have ok: "db_ok ?s" by (simp add: db_ok_parts empty_db_def msg_seqs_def)
  have "faults ?s = []" by (simp add: empty_db_def)
  from api_token_lookup [OF ok this, of "env_hash demo_env" "''recon_pat_x''" demo_pat] show ?thesis
    by (simp add: demo_pat_def demo_env_def)
qed

end
