(* ===== verification/Api_Server.thy ===== *)
theory Api_Server
  imports Runner_Safety Store_Life
begin

text \<open>
  \<open>hub/api/server.go\<close>: enrollment of agents and the agents' streams. TLS and the
  certificate authority are outside: a verified peer is its certificate's common name and
  fingerprint, signing and fingerprinting are the parameter \<open>pki\<close>. The stream of an agent
  is a handle with its bounded send queue; a connection is what \<open>Connect\<close> keeps in its
  local variables, and its life is the opening, one step per message, and the end. The
  field \<open>dispatched\<close> is a history of the requests put into a queue, and read by no
  operation.
\<close>

section \<open>State\<close>

record stream =
  sh_id :: nat
  sh_queue :: "collect_req list"

record api = runner +
  streams :: "(string \<times> stream) list"
  next_handle :: nat
  cancelled :: "nat list"
  dispatched :: "(string \<times> collect_req) list"

type_synonym ('z, 'a) am = "('z api_scheme, 'a) state"

datatype code =
    InvalidArgument | PermissionDenied | AlreadyExists | Internal | Unauthenticated | FailedPrecondition

record wire_manifest =
  wm_name :: string
  wm_version :: string
  wm_category :: string
  wm_description :: string
  wm_reads :: "string list"
  wm_requires :: "string list"
  wm_params_schema :: jtext
  wm_output_schema :: jtext

record hello =
  hl_agent :: string
  hl_version :: string
  hl_labels :: strmap
  hl_facts :: strmap
  hl_collectors :: "wire_manifest list"

datatype wire_msg = Hello hello | Heartbeat | ResultMsg collect_result | ArtifactMsg chunk

record pki =
  pk_sign :: "bytes \<Rightarrow> string \<Rightarrow> bytes option"
  pk_fingerprint :: "bytes \<Rightarrow> string option"
  pk_ca :: bytes

section \<open>Enrollment\<close>

record enroll_request =
  er_token :: string
  er_agent :: string
  er_csr :: bytes

definition Enroll ::
  "(string \<Rightarrow> string) \<Rightarrow> pki \<Rightarrow> enroll_request \<Rightarrow> ('z db_scheme, code + bytes \<times> bytes) state" where
  "Enroll hash pk req =
     (if er_agent req = [] \<or> er_token req = [] \<or> er_csr req = [] then return (Inl InvalidArgument)
      else do {
        c \<leftarrow> ConsumeBootstrapToken hash (er_token req) (er_agent req);
        (case c of
           Inl _ \<Rightarrow> return (Inl PermissionDenied)
         | Inr _ \<Rightarrow> do {
             v \<leftarrow> VerifyIdentity (er_agent req) [];
             if v = Inr () \<or> v = Inl FingerprintMismatch then return (Inl AlreadyExists)
             else (case pk_sign pk (er_csr req) (er_agent req) of
                     None \<Rightarrow> return (Inl InvalidArgument)
                   | Some cert \<Rightarrow>
                       (case pk_fingerprint pk cert of
                          None \<Rightarrow> return (Inl Internal)
                        | Some fp \<Rightarrow> do {
                            r \<leftarrow> RegisterIdentity (er_agent req) fp ''bootstrap'';
                            (case r of
                               Inl _ \<Rightarrow> return (Inl AlreadyExists)
                             | Inr _ \<Rightarrow> do {
                                 _ \<leftarrow> AuditLog (''agent:'' @ er_agent req) ''enroll''
                                       (JObj [(''agent_id'', JStr (er_agent req)), (''fingerprint'', JStr fp)]);
                                 return (Inr (cert, pk_ca pk))
                               })
                          }))
           })
      })"

section \<open>Streams\<close>

definition registerStream :: "string \<Rightarrow> nat \<Rightarrow> ('z, unit) am" where
  "registerStream agent h = modify (\<lambda>s.
     s\<lparr>cancelled := (case map_of (streams s) agent of None \<Rightarrow> cancelled s | Some old \<Rightarrow> sh_id old # cancelled s),
       streams := map_put agent \<lparr>sh_id = h, sh_queue = []\<rparr> (streams s)\<rparr>)"

definition unregisterStream :: "string \<Rightarrow> ('z, unit) am" where
  "unregisterStream agent = modify (\<lambda>s. s\<lparr>streams := map_del agent (streams s)\<rparr>)"

definition IsOnline :: "string \<Rightarrow> ('z, bool) am" where
  "IsOnline agent = gets (\<lambda>s. map_of (streams s) agent \<noteq> None)"

definition OnlineAgents :: "('z, string list) am" where
  "OnlineAgents = gets (\<lambda>s. map fst (streams s))"

definition queue_capacity :: nat where
  "queue_capacity = 8"

definition SendCollect :: "string \<Rightarrow> collect_req \<Rightarrow> ('z, bool) am" where
  "SendCollect agent req = State (\<lambda>s.
     case map_of (streams s) agent of
       None \<Rightarrow> (False, s)
     | Some h \<Rightarrow>
         if length (sh_queue h) < queue_capacity
         then (True, s\<lparr>streams := map_put agent (h\<lparr>sh_queue := sh_queue h @ [req]\<rparr>) (streams s),
                       dispatched := dispatched s @ [(agent, req)]\<rparr>)
         else (False, s))"

text \<open>The pump of a stream: it hands the next queued request to the connection, in order.\<close>

definition pump :: "string \<Rightarrow> ('z, collect_req option) am" where
  "pump agent = State (\<lambda>s.
     case map_of (streams s) agent of
       None \<Rightarrow> (None, s)
     | Some h \<Rightarrow>
         (case sh_queue h of
            [] \<Rightarrow> (None, s)
          | q # qs \<Rightarrow> (Some q, s\<lparr>streams := map_put agent (h\<lparr>sh_queue := qs\<rparr>) (streams s)\<rparr>)))"

section \<open>Inventory from a hello\<close>

definition rawJSONOrNull :: "jtext \<Rightarrow> json" where
  "rawJSONOrNull t = (case t of JText v \<Rightarrow> v | JInvalid _ \<Rightarrow> JNull)"

definition jstrings :: "string list \<Rightarrow> json" where
  "jstrings xs = JArr (map JStr xs)"

definition envelope :: "wire_manifest \<Rightarrow> json" where
  "envelope m = JObj
     [(''name'', JStr (wm_name m)), (''version'', JStr (wm_version m)),
      (''category'', JStr (wm_category m)), (''description'', JStr (wm_description m)),
      (''reads'', jstrings (wm_reads m)), (''requires'', jstrings (wm_requires m)),
      (''params_schema'', rawJSONOrNull (wm_params_schema m)),
      (''output_schema'', rawJSONOrNull (wm_output_schema m))]"

definition applyHello :: "hello \<Rightarrow> string \<Rightarrow> ('z, unit) dbr" where
  "applyHello hl fp =
     unless_err
       (UpsertHost \<lparr>h_id = hl_agent hl, h_version = hl_version hl, h_labels = hl_labels hl,
          h_facts = hl_facts hl, h_fingerprint = fp, h_first_seen = 0, h_last_seen = 0,
          h_status = HostOnline\<rparr>)
       (\<lambda>_. ReplaceCollectorManifests (hl_agent hl)
          (map (\<lambda>m. \<lparr>mf_host = hl_agent hl, mf_name = wm_name m, mf_version = wm_version m,
                      mf_json = envelope m\<rparr>) (hl_collectors hl)))"

section \<open>A connection\<close>

record conn =
  cn_agent :: string
  cn_fingerprint :: string
  cn_handle :: nat

text \<open>What a failed check of the identity says in the audit log.\<close>

fun serr_text :: "serr \<Rightarrow> string" where
  "serr_text IdentityNotEnrolled = ''agent identity not enrolled''"
| "serr_text IdentityRevoked = ''agent identity revoked''"
| "serr_text FingerprintMismatch = ''cert fingerprint does not match enrolled identity''"
| "serr_text _ = ''error''"

text \<open>
  The opening: the peer (\<^const>\<open>None\<close>: no verified certificate; otherwise its common name and
  fingerprint), the identity, the first message, the registration. \<open>Inl None\<close> is the
  stream ending before its first message.
\<close>

definition connect_open ::
  "(string \<times> string) option \<Rightarrow> wire_msg option \<Rightarrow> ('z, code option + conn) am" where
  "connect_open peer first =
     (case peer of
        None \<Rightarrow> return (Inl (Some Unauthenticated))
      | Some (agent, fp) \<Rightarrow>
          if agent = [] then return (Inl (Some Unauthenticated))
          else do {
            v \<leftarrow> VerifyIdentity agent fp;
            (case v of
               Inl e \<Rightarrow> do {
                 _ \<leftarrow> AuditLog (''agent:'' @ agent) ''connect.rejected''
                       (JObj [(''agent_id'', JStr agent), (''fingerprint'', JStr fp),
                              (''reason'', JStr (serr_text e))]);
                 return (Inl (Some PermissionDenied))
               }
             | Inr _ \<Rightarrow>
                 (case first of
                    None \<Rightarrow> return (Inl None)
                  | Some (Hello hl) \<Rightarrow>
                      if hl_agent hl \<noteq> agent then return (Inl (Some PermissionDenied))
                      else do {
                        a \<leftarrow> applyHello hl fp;
                        (case a of
                           Inl _ \<Rightarrow> return (Inl (Some Internal))
                         | Inr _ \<Rightarrow> do {
                             h \<leftarrow> gets next_handle;
                             _ \<leftarrow> modify (\<lambda>s. s\<lparr>next_handle := h + 1\<rparr>);
                             _ \<leftarrow> registerStream agent h;
                             return (Inr \<lparr>cn_agent = agent, cn_fingerprint = fp, cn_handle = h\<rparr>)
                           })
                      }
                  | Some _ \<Rightarrow> return (Inl (Some FailedPrecondition))))
          })"

text \<open>The deferred calls of \<open>Connect\<close>.\<close>

definition connect_defer :: "conn \<Rightarrow> ('z, unit) am" where
  "connect_defer c = do {
     _ \<leftarrow> unregisterStream (cn_agent c);
     modify (\<lambda>s. s\<lparr>cancelled := cn_handle c # cancelled s\<rparr>)
   }"

text \<open>
  One message of an open connection, for the sink's \<open>OnResult\<close> and \<open>OnArtifact\<close>: whether the
  connection goes on.
\<close>

definition connect_msg ::
  "(string \<Rightarrow> collect_result \<Rightarrow> ('z, unit) am) \<Rightarrow> (string \<Rightarrow> chunk \<Rightarrow> ('z, unit) am)
   \<Rightarrow> conn \<Rightarrow> wire_msg \<Rightarrow> ('z, bool) am" where
  "connect_msg onResult onArtifact c m =
     (case m of
        Heartbeat \<Rightarrow> do { _ \<leftarrow> TouchHost (cn_agent c) HostOnline; return True }
      | ResultMsg r \<Rightarrow> do { _ \<leftarrow> onResult (cn_agent c) r; return True }
      | ArtifactMsg a \<Rightarrow> do { _ \<leftarrow> onArtifact (cn_agent c) a; return True }
      | Hello hl \<Rightarrow>
          if hl_agent hl \<noteq> cn_agent c then do { _ \<leftarrow> connect_defer c; return False }
          else do { _ \<leftarrow> applyHello hl (cn_fingerprint c); return True })"

text \<open>The end of the stream: the read loop's error branch and the deferred calls.\<close>

definition connect_close :: "conn \<Rightarrow> ('z, unit) am" where
  "connect_close c = do {
     _ \<leftarrow> TouchHost (cn_agent c) HostOffline;
     connect_defer c
   }"

end
