(* ===== verification/Bus.thy ===== *)
theory Bus
  imports Json
begin

text \<open>
  \<open>hub/investigator/bus.go\<close>: the fan-out of an investigation's events to its subscribers.
  A subscription is the investigation, its id, and what its channel holds; a full channel
  drops its oldest event. A nil bus is \<^const>\<open>None\<close>: publishing on it does nothing.
\<close>

datatype event_type =
    EventMessageAppended | EventToolCallPending | EventToolCallUpdated | EventFindingAdded
  | EventFindingUpdated | EventStatusChanged | EventBudgetExhausted

record event =
  ev_type :: event_type
  ev_inv :: string
  ev_at :: instant
  ev_data :: json

record subscription =
  sub_inv :: string
  sub_id :: nat
  sub_queue :: "event list"

record bus =
  subs :: "subscription list"
  next_sub :: nat

definition subscriptionBufferSize :: nat where
  "subscriptionBufferSize = 256"

definition NewBus :: bus where
  "NewBus = \<lparr>subs = [], next_sub = 0\<rparr>"

definition Subscribe :: "string \<Rightarrow> bus \<Rightarrow> nat \<times> bus" where
  "Subscribe i b =
     (let n = next_sub b + 1
      in (n, b\<lparr>subs := subs b @ [\<lparr>sub_inv = i, sub_id = n, sub_queue = []\<rparr>], next_sub := n\<rparr>))"

definition Unsubscribe :: "string \<Rightarrow> nat \<Rightarrow> bus \<Rightarrow> bus" where
  "Unsubscribe i n b = b\<lparr>subs := filter (\<lambda>x. \<not> (sub_inv x = i \<and> sub_id x = n)) (subs b)\<rparr>"

text \<open>The send to one channel: with room, append; full, drop the oldest and append.\<close>

definition push_event :: "event \<Rightarrow> event list \<Rightarrow> event list" where
  "push_event ev q =
     (if length q < subscriptionBufferSize then q @ [ev]
      else (let q' = tl q in if length q' < subscriptionBufferSize then q' @ [ev] else q'))"

definition Publish :: "string \<Rightarrow> event_type \<Rightarrow> json \<Rightarrow> instant \<Rightarrow> bus option \<Rightarrow> bus option" where
  "Publish i ty d now ob =
     (case ob of
        None \<Rightarrow> None
      | Some b \<Rightarrow>
          if i = [] then Some b
          else (let ev = \<lparr>ev_type = ty, ev_inv = i, ev_at = now, ev_data = d\<rparr>
                in Some (b\<lparr>subs := map (\<lambda>x. if sub_inv x = i then x\<lparr>sub_queue := push_event ev (sub_queue x)\<rparr>
                                            else x) (subs b)\<rparr>)))"

definition SubscriberCount :: "string \<Rightarrow> bus option \<Rightarrow> nat" where
  "SubscriberCount i ob =
     (case ob of None \<Rightarrow> 0 | Some b \<Rightarrow> length (filter (\<lambda>x. sub_inv x = i) (subs b)))"

section \<open>What a subscriber sees\<close>

definition queue_of :: "nat \<Rightarrow> bus \<Rightarrow> event list option" where
  "queue_of n b = map_option sub_queue (find_row (\<lambda>x. sub_id x = n) (subs b))"

text \<open>A burst of publications, as the publishers' \<open>(investigation, type, data)\<close>.\<close>

fun publish_all :: "(string \<times> event_type \<times> json) list \<Rightarrow> instant \<Rightarrow> bus \<Rightarrow> bus" where
  "publish_all [] now b = b"
| "publish_all ((i, ty, d) # es) now b =
     publish_all es now (case Publish i ty d now (Some b) of Some b' \<Rightarrow> b' | None \<Rightarrow> b)"

definition last_n :: "nat \<Rightarrow> 'a list \<Rightarrow> 'a list" where
  "last_n n xs = drop (length xs - n) xs"

lemma last_n_snoc:
  assumes "0 < n"
  shows "last_n n (xs @ [x]) = (if length (last_n n xs) < n then last_n n xs @ [x] else tl (last_n n xs) @ [x])"
proof (cases "length xs < n")
  case True
  then show ?thesis by (simp add: last_n_def)
next
  case False
  then have "length (last_n n xs) = n" by (simp add: last_n_def)
  moreover have "drop (Suc (length xs - n)) xs = tl (drop (length xs - n) xs)"
    by (simp add: drop_Suc tl_drop)
  moreover have "Suc (length xs) - n = Suc (length xs - n)" "Suc (length xs - n) \<le> length xs"
    using False assms by auto
  ultimately show ?thesis by (simp add: last_n_def)
qed

lemma push_event_last_n: "push_event ev (last_n subscriptionBufferSize q) = last_n subscriptionBufferSize (q @ [ev])"
proof -
  have "0 < subscriptionBufferSize" by (simp add: subscriptionBufferSize_def)
  moreover have "length (tl (last_n subscriptionBufferSize q)) < subscriptionBufferSize"
    by (simp add: last_n_def subscriptionBufferSize_def)
  ultimately show ?thesis by (simp add: push_event_def last_n_snoc Let_def)
qed

definition event_of :: "instant \<Rightarrow> string \<times> event_type \<times> json \<Rightarrow> event" where
  "event_of now e = (case e of (i, ty, d) \<Rightarrow> \<lparr>ev_type = ty, ev_inv = i, ev_at = now, ev_data = d\<rparr>)"

lemma find_row_map: "(\<And>x. P (f x) = P x) \<Longrightarrow> find_row P (map f xs) = map_option f (find_row P xs)"
  by (induction xs) (auto simp: find_row_Cons)

lemma queue_of_publish:
  assumes "queue_of n b = Some q" and "\<And>x. x \<in> set (subs b) \<Longrightarrow> sub_id x = n \<Longrightarrow> sub_inv x = i" and "j \<noteq> []"
  shows "\<exists>b'. Publish j ty d now (Some b) = Some b'
    \<and> queue_of n b' = Some (if j = i then push_event (event_of now (j, ty, d)) q else q)
    \<and> (\<forall>x \<in> set (subs b'). sub_id x = n \<longrightarrow> sub_inv x = i)"
proof -
  let ?f = "\<lambda>x. if sub_inv x = j then x\<lparr>sub_queue := push_event (event_of now (j, ty, d)) (sub_queue x)\<rparr> else x"
  let ?b = "b\<lparr>subs := map ?f (subs b)\<rparr>"
  have q: "queue_of n ?b = Some (if j = i then push_event (event_of now (j, ty, d)) q else q)"
  proof -
    from assms(1) obtain x where x: "find_row (\<lambda>x. sub_id x = n) (subs b) = Some x" "sub_queue x = q"
      by (auto simp: queue_of_def)
    with find_row_SomeD [OF x(1)] assms(2) have "sub_inv x = i" by blast
    moreover have "find_row (\<lambda>x. sub_id x = n) (map ?f (subs b)) = map_option ?f (find_row (\<lambda>x. sub_id x = n) (subs b))"
      by (rule find_row_map) simp
    ultimately have "queue_of n ?b = Some (sub_queue (?f x))"
      using x(1) by (simp add: queue_of_def)
    with x(2) \<open>sub_inv x = i\<close> show ?thesis by (cases "j = i") simp_all
  qed
  have p: "Publish j ty d now (Some b) = Some ?b"
    using assms(3) by (simp add: Publish_def event_of_def Let_def)
  have inv: "\<forall>y \<in> set (subs ?b). sub_id y = n \<longrightarrow> sub_inv y = i"
  proof (intro ballI impI)
    fix y assume y: "y \<in> set (subs ?b)" "sub_id y = n"
    have "subs ?b = map ?f (subs b)" by simp
    with y(1) have "y \<in> ?f ` set (subs b)" by (simp only: set_map)
    then obtain x where x: "x \<in> set (subs b)" "y = ?f x" by (rule imageE) (rule that)
    have "sub_id y = sub_id x" unfolding x(2) by simp
    moreover have "sub_inv y = sub_inv x" unfolding x(2) by simp
    ultimately show "sub_inv y = i" using assms(2) [OF x(1)] y(2) by metis
  qed
  from p q inv show ?thesis by blast
qed

lemma publish_all_queue:
  "queue_of n b = Some (last_n subscriptionBufferSize q)
   \<Longrightarrow> (\<And>x. x \<in> set (subs b) \<Longrightarrow> sub_id x = n \<Longrightarrow> sub_inv x = i) \<Longrightarrow> \<forall>e \<in> set es. fst e \<noteq> []
   \<Longrightarrow> queue_of n (publish_all es now b)
     = Some (last_n subscriptionBufferSize (q @ map (event_of now) (filter (\<lambda>e. fst e = i) es)))"
proof (induction es arbitrary: b q)
  case Nil
  then show ?case by simp
next
  case (Cons e es)
  obtain j ty d where e: "e = (j, ty, d)" by (cases e)
  from Cons.prems(3) e have "j \<noteq> []" by simp
  from queue_of_publish [OF Cons.prems(1,2) this, of ty d now] obtain b' where
    b': "Publish j ty d now (Some b) = Some b'"
      "queue_of n b' = Some (if j = i then push_event (event_of now (j, ty, d)) (last_n subscriptionBufferSize q)
         else last_n subscriptionBufferSize q)"
      "\<forall>x \<in> set (subs b'). sub_id x = n \<longrightarrow> sub_inv x = i" by blast
  have "queue_of n b' = Some (last_n subscriptionBufferSize (q @ (if j = i then [event_of now e] else [])))"
    using b'(2) by (simp add: push_event_last_n e)
  from Cons.IH [OF this] b'(1,3) Cons.prems(3) e show ?case by auto
qed

definition fresh_bus :: "bus \<Rightarrow> bool" where
  "fresh_bus b = (\<forall>x \<in> set (subs b). sub_id x \<le> next_sub b)"

text \<open>
  A subscriber that does not read sees, of whatever is published after it subscribed,
  exactly its own investigation's events, in the order of publication, and the last 256 of
  them: a burst drops the oldest events, never the newest, and never blocks the publisher.
\<close>
theorem subscriber_sees_last_events:
  assumes "fresh_bus b" and "Subscribe i b = (n, b1)" and "\<forall>e \<in> set es. fst e \<noteq> []"
  shows "queue_of n (publish_all es now b1)
    = Some (last_n 256 (map (event_of now) (filter (\<lambda>e. fst e = i) es)))"
proof -
  from assms(2) have n: "n = next_sub b + 1"
    and b1: "subs b1 = subs b @ [\<lparr>sub_inv = i, sub_id = n, sub_queue = []\<rparr>]"
    by (auto simp: Subscribe_def Let_def)
  have old: "\<forall>x \<in> set (subs b). sub_id x \<noteq> n" using assms(1) n by (auto simp: fresh_bus_def)
  then have "find_row (\<lambda>x. sub_id x = n) (subs b) = None" by (simp add: find_row_None_iff)
  then have "queue_of n b1 = Some (last_n subscriptionBufferSize [])"
    by (simp add: queue_of_def b1 find_row_append find_row_Cons last_n_def)
  moreover have "sub_inv x = i" if "x \<in> set (subs b1)" "sub_id x = n" for x
  proof (cases "x \<in> set (subs b)")
    case True
    with old that(2) show ?thesis by blast
  next
    case False
    with that(1) b1 show ?thesis by simp
  qed
  ultimately show ?thesis
    using publish_all_queue [of n b1 "[]" i es now] assms(3) by (simp add: subscriptionBufferSize_def)
qed

lemma subscriber_sees_last_events_witness:
  "queue_of 1 (publish_all [(''i'', EventStatusChanged, JNull), (''j'', EventStatusChanged, JNull)] 5
      (snd (Subscribe ''i'' NewBus)))
   = Some [\<lparr>ev_type = EventStatusChanged, ev_inv = ''i'', ev_at = 5, ev_data = JNull\<rparr>]"
proof -
  have 1: "fresh_bus NewBus" by (simp add: fresh_bus_def NewBus_def)
  have 2: "Subscribe ''i'' NewBus = (1, snd (Subscribe ''i'' NewBus))"
    by (simp add: Subscribe_def NewBus_def Let_def)
  show ?thesis
    using subscriber_sees_last_events [OF 1 2, of "[(''i'', EventStatusChanged, JNull), (''j'', EventStatusChanged, JNull)]" 5]
    by (simp add: last_n_def event_of_def)
qed

end
