(* ===== verification/Inv_Base.thy ===== *)
theory Inv_Base
  imports Api_Server Bus
begin

text \<open>
  What the investigator's handlers and loop share: the state they add to the hub (the event
  bus, the running flags, the compaction cool-offs, the goroutines spawned and the answers
  the language model will give), the configuration and the outside functions they depend
  on, tool results as JSON, and the decoding of the arguments the model supplies.
\<close>

section \<open>State\<close>

text \<open>One answer of the model, as the chat client returns it.\<close>

record llm_reply =
  lr_content :: string
  lr_calls :: "call_req list"
  lr_prompt_tokens :: int
  lr_completion_tokens :: int

record wire =
  w_role :: string
  w_content :: string
  w_call_id :: string
  w_calls :: "call_req list"

record llm_request =
  lq_messages :: "wire list"
  lq_tools :: "string list"

text \<open>
  \<open>script\<close> holds the answers to come (an error is \<^const>\<open>None\<close>, and so is the end of the
  script); \<open>asked\<close> is the history of the requests made.
\<close>

record inv = api +
  bus :: "bus option"
  running :: "string list"
  cooldown :: "(string \<times> instant) list"
  spawned :: "string list"
  script :: "llm_reply option list"
  asked :: "llm_request list"

type_synonym ('z, 'a) im = "('z inv_scheme, 'a) state"

section \<open>Errors of the tools\<close>

datatype terr =
    TStore serr
  | TUnknownTool string
  | TDecode
  | TRequired string
  | TOutsideAllowlist string "string list"
  | TOffline string
  | TCollectorNotFound string
  | TPatternTooLong nat
  | TNoArtifacts
  | TPathTraversal
  | TOpen string
  | TRegex string
  | TScanTimeout
  | TTwoTasks
  | TNoEvidence
  | TBadSeverity
  | TBadEvidence string serr
  | TNoRootCause
  | TDedup string string string
  | TRetryCap string nat
  | TSkipped
  | TSuperseded
  | TLoop string

text \<open>
  The configuration of the loop and the functions of the world around it: the texts of
  messages and errors, JSON marshalling, random ids, times, directories and files, and
  regular expressions.
\<close>

record cfg =
  c_max_steps :: int
  c_max_tokens :: int
  c_llm :: bool
  c_model :: string
  c_ids :: "nat \<Rightarrow> string"
  c_err_text :: "terr \<Rightarrow> string"
  c_step_error :: "terr \<Rightarrow> jtext"
  c_marshal :: "json \<Rightarrow> string"
  c_system_prompt :: "string \<Rightarrow> instant \<Rightarrow> string list \<Rightarrow> string"
  c_time :: "instant \<Rightarrow> string"
  c_readdir :: "string \<Rightarrow> string list option"
  c_read_file :: "string \<Rightarrow> bytes option"
  c_regex :: "string \<Rightarrow> (string \<Rightarrow> bool) option"
  c_scan_lines :: "nat option"

section \<open>Tool results\<close>

record tool_result =
  tr_ok :: bool
  tr_error :: "terr option"
  tr_data :: "json option"

definition okResult :: "json \<Rightarrow> tool_result" where
  "okResult d = \<lparr>tr_ok = True, tr_error = None, tr_data = Some d\<rparr>"

definition errResult :: "terr \<Rightarrow> tool_result" where
  "errResult e = \<lparr>tr_ok = False, tr_error = Some e, tr_data = None\<rparr>"

text \<open>\<open>json.Marshal\<close> of a result: \<open>error\<close> and \<open>data\<close> are \<open>omitempty\<close>.\<close>

definition result_json :: "cfg \<Rightarrow> tool_result \<Rightarrow> json" where
  "result_json cf r = JObj
     ([(''ok'', JBool (tr_ok r))]
      @ (case tr_error r of None \<Rightarrow> [] | Some e \<Rightarrow> if c_err_text cf e = [] then [] else [(''error'', JStr (c_err_text cf e))])
      @ (case tr_data r of None \<Rightarrow> [] | Some d \<Rightarrow> if d = JNull then [] else [(''data'', d)]))"

section \<open>Decoding of arguments\<close>

text \<open>
  \<open>json.Unmarshal(text, &args)\<close>: the struct with whatever could be decoded, and whether the
  error is nil.
\<close>

definition decode :: "((string \<times> json) list \<Rightarrow> 'a \<times> bool) \<Rightarrow> jtext \<Rightarrow> 'a \<times> bool" where
  "decode f t =
     (case t of
        JText (JObj kvs) \<Rightarrow> f kvs
      | JText JNull \<Rightarrow> f []
      | _ \<Rightarrow> (fst (f []), False))"

definition dec_int32 :: "int decoder" where
  "dec_int32 old v = (case v of JNull \<Rightarrow> Some old
                      | JInt n \<Rightarrow> (if - (2 ^ 31) \<le> n \<and> n < 2 ^ 31 then Some n else None) | _ \<Rightarrow> None)"

definition str_field :: "string \<Rightarrow> (string \<times> json) list \<Rightarrow> string \<times> bool" where
  "str_field nm kvs = field nm (leaf dec_string) [] kvs"

definition strs_field :: "string \<Rightarrow> (string \<times> json) list \<Rightarrow> string list \<times> bool" where
  "strs_field nm kvs = field nm dec_strings [] kvs"

definition int_field :: "string \<Rightarrow> (string \<times> json) list \<Rightarrow> int \<times> bool" where
  "int_field nm kvs = field nm (leaf dec_int) 0 kvs"

record collect_args =
  ca_host :: string
  ca_collector :: string
  ca_params :: strmap
  ca_timeout :: int

definition dec_collect :: "(string \<times> json) list \<Rightarrow> collect_args \<times> bool" where
  "dec_collect kvs =
     (let (h, ok1) = str_field ''host_id'' kvs; (c, ok2) = str_field ''collector'' kvs;
          (p, ok3) = field ''params'' dec_strmap [] kvs;
          (t, ok4) = field ''timeout_seconds'' (leaf dec_int32) 0 kvs
      in (\<lparr>ca_host = h, ca_collector = c, ca_params = p, ca_timeout = t\<rparr>, ok1 \<and> ok2 \<and> ok3 \<and> ok4))"

record batch_args =
  ba_hosts :: "string list"
  ba_collector :: string
  ba_params :: strmap
  ba_timeout :: int

definition dec_batch :: "(string \<times> json) list \<Rightarrow> batch_args \<times> bool" where
  "dec_batch kvs =
     (let (h, ok1) = strs_field ''host_ids'' kvs; (c, ok2) = str_field ''collector'' kvs;
          (p, ok3) = field ''params'' dec_strmap [] kvs;
          (t, ok4) = field ''timeout_seconds'' (leaf dec_int32) 0 kvs
      in (\<lparr>ba_hosts = h, ba_collector = c, ba_params = p, ba_timeout = t\<rparr>, ok1 \<and> ok2 \<and> ok3 \<and> ok4))"

text \<open>Decoding into \<open>any\<close>, \<open>map[string]any\<close> and \<open>[]any\<close> with the error ignored: nil on failure.\<close>

definition any_of :: "jtext \<Rightarrow> json" where
  "any_of t = (case t of JText v \<Rightarrow> v | JInvalid _ \<Rightarrow> JNull)"

definition map_of_text :: "jtext \<Rightarrow> (string \<times> json) list" where
  "map_of_text t = (case t of JText (JObj kvs) \<Rightarrow> kvs | _ \<Rightarrow> [])"

definition member_str :: "string \<Rightarrow> (string \<times> json) list \<Rightarrow> string" where
  "member_str k kvs = (case lookup_member k kvs of Some (JStr s) \<Rightarrow> s | _ \<Rightarrow> [])"

section \<open>Canonical values\<close>

text \<open>
  What two values have in common when their \<open>json.Marshal\<close> texts are equal: the members of an
  object by sorted key, the last of equal keys counting.
\<close>

definition sort_members :: "(string \<times> json) list \<Rightarrow> (string \<times> json) list" where
  "sort_members kvs =
     map (\<lambda>k. (k, case lookup_member k kvs of Some v \<Rightarrow> v | None \<Rightarrow> JNull)) (sort (remdups (map fst kvs)))"

fun canon :: "json \<Rightarrow> json" where
  "canon (JArr vs) = JArr (map canon vs)"
| "canon (JObj kvs) = JObj (sort_members (map (\<lambda>p. (fst p, canon (snd p))) kvs))"
| "canon v = v"

definition jsonEqual :: "json \<Rightarrow> json \<Rightarrow> bool" where
  "jsonEqual a b = (canon a = canon b)"

section \<open>The bus, inside the state\<close>

definition publish :: "string \<Rightarrow> event_type \<Rightarrow> json \<Rightarrow> ('z, unit) im" where
  "publish i ty d = modify (\<lambda>s. s\<lparr>bus := Publish i ty d (clock s) (bus s)\<rparr>)"

fun status_text :: "inv_status \<Rightarrow> string" where
  "status_text InvActive = ''active''"
| "status_text InvWaiting = ''waiting''"
| "status_text InvPaused = ''paused''"
| "status_text InvDone = ''done''"
| "status_text InvAborted = ''aborted''"

fun call_text :: "call_status \<Rightarrow> string" where
  "call_text TcPending = ''pending''"
| "call_text TcApproved = ''approved''"
| "call_text TcEdited = ''edited''"
| "call_text TcSkipped = ''skipped''"
| "call_text TcExecuted = ''executed''"
| "call_text TcFailed = ''failed''"
| "call_text TcAborted = ''aborted''"

fun task_text :: "task_status \<Rightarrow> string" where
  "task_text TkPending = ''pending''"
| "task_text TkSent = ''sent''"
| "task_text TkOk = ''ok''"
| "task_text TkError = ''error''"
| "task_text TkTimeout = ''timeout''"
| "task_text TkCanceled = ''canceled''"
| "task_text TkUndeliverable = ''undeliverable''"

fun host_text :: "host_status \<Rightarrow> string" where
  "host_text HostOnline = ''online''"
| "host_text HostOffline = ''offline''"
| "host_text HostDegraded = ''degraded''"

fun role_text :: "role \<Rightarrow> string" where
  "role_text RoleSystem = ''system''"
| "role_text RoleUser = ''user''"
| "role_text RoleAssistant = ''assistant''"
| "role_text RoleTool = ''tool''"
| "role_text RoleSystemNote = ''system_note''"
| "role_text RoleSystemSummary = ''system_summary''"

text \<open>The text of a message's content.\<close>

definition content_text :: "cfg \<Rightarrow> jtext \<Rightarrow> string" where
  "content_text cf t = (case t of JInvalid s \<Rightarrow> s | JText v \<Rightarrow> c_marshal cf v)"

end
