(* ===== verification/Paths.thy ===== *)
theory Paths
  imports Go_Strings
begin

text \<open>
  \<open>path/filepath\<close> on a Unix system: \<open>Clean\<close> and \<open>Join\<close> of slash-separated paths.
\<close>

text \<open>The stack of kept elements, the last one first; \<open>rooted\<close> paths drop a leading \<open>..\<close>.\<close>

fun clean_push :: "bool \<Rightarrow> string list \<Rightarrow> string list \<Rightarrow> string list" where
  "clean_push rooted acc [] = acc"
| "clean_push rooted acc (e # es) =
     (if e = [] \<or> e = ''.'' then clean_push rooted acc es
      else if e = ''..'' then
        (case acc of
           [] \<Rightarrow> if rooted then clean_push rooted [] es else clean_push rooted [''..''] es
         | a # as \<Rightarrow> if a = ''..'' then clean_push rooted (''..'' # a # as) es else clean_push rooted as es)
      else clean_push rooted (e # acc) es)"

definition path_elems :: "string \<Rightarrow> bool \<times> string list" where
  "path_elems p =
     (let rooted = has_prefix p ''/''
      in (rooted, rev (clean_push rooted [] (split_on (CHR ''/'') p))))"

definition render_path :: "bool \<times> string list \<Rightarrow> string" where
  "render_path re =
     (case re of (rooted, es) \<Rightarrow>
        if es = [] then (if rooted then ''/'' else ''.'')
        else (if rooted then ''/'' else []) @ join ''/'' es)"

definition path_clean :: "string \<Rightarrow> string" where
  "path_clean p = render_path (path_elems p)"

definition path_join :: "string \<Rightarrow> string \<Rightarrow> string" where
  "path_join a b =
     (if a = [] \<and> b = [] then []
      else if a = [] then path_clean b
      else if b = [] then path_clean a
      else path_clean (a @ ''/'' @ b))"

section \<open>Clean paths\<close>

text \<open>
  The elements of a cleaned path, the last one first: no empty ones, none that is a dot or
  holds a slash, and \<open>..\<close> only at the front of a relative path.
\<close>

fun canon_elems :: "bool \<Rightarrow> string list \<Rightarrow> bool" where
  "canon_elems rooted [] = True"
| "canon_elems rooted (e # acc) =
     (e \<noteq> [] \<and> e \<noteq> ''.'' \<and> CHR ''/'' \<notin> set e \<and> (e = ''..'' \<longrightarrow> \<not> rooted \<and> set acc \<subseteq> {''..''}) \<and> canon_elems rooted acc)"

lemma canon_elems_append: "canon_elems r (xs @ ys) \<Longrightarrow> canon_elems r ys"
  by (induction xs) auto

lemma canon_elemsD: "canon_elems r es \<Longrightarrow> e \<in> set es \<Longrightarrow> e \<noteq> [] \<and> e \<noteq> ''.'' \<and> CHR ''/'' \<notin> set e"
  by (induction es) auto

lemma clean_push_canon:
  "canon_elems r acc \<Longrightarrow> \<forall>e \<in> set es. CHR ''/'' \<notin> set e \<Longrightarrow> canon_elems r (clean_push r acc es)"
proof (induction r acc es rule: clean_push.induct)
  case (2 r acc e es)
  then show ?case by (cases acc) auto
qed simp

lemma clean_push_id: "canon_elems r (rev es @ acc) \<Longrightarrow> clean_push r acc es = rev es @ acc"
proof (induction es arbitrary: acc)
  case (Cons e es)
  have c: "canon_elems r (e # acc)" by (rule canon_elems_append [of r "rev es"]) (use Cons.prems in simp)
  from Cons.IH [of "e # acc"] Cons.prems have IH: "clean_push r (e # acc) es = rev (e # es) @ acc" by simp
  show ?case
  proof (cases "e = ''..''")
    case True
    with c IH show ?thesis by (cases acc) auto
  next
    case False
    with c IH show ?thesis by simp
  qed
qed simp

lemma path_elems_canon: "path_elems p = (r, es) \<Longrightarrow> canon_elems r (rev es)"
  by (auto simp: path_elems_def Let_def dest: split_on_no_sep intro!: clean_push_canon)

lemma render_split:
  assumes "canon_elems r (rev es)" and "es \<noteq> []"
  shows "split_on (CHR ''/'') (render_path (r, es)) = (if r then [[]] else []) @ es"
    and "has_prefix (render_path (r, es)) ''/'' = r"
proof -
  have es: "\<forall>e \<in> set es. CHR ''/'' \<notin> set e" using canon_elemsD [OF assms(1)] by auto
  then show "split_on (CHR ''/'') (render_path (r, es)) = (if r then [[]] else []) @ es"
    using split_on_join [OF assms(2) es] assms(2) by (simp add: render_path_def)
  obtain e es' where e: "es = e # es'" using assms(2) by (cases es) auto
  with canon_elemsD [OF assms(1), of e] obtain x xs where "e = x # xs" "x \<noteq> CHR ''/''" by (cases e) auto
  with e show "has_prefix (render_path (r, es)) ''/'' = r"
    by (cases es') (auto simp: render_path_def has_prefix_def)
qed

text \<open>Cleaning again changes nothing.\<close>

lemma path_elems_render:
  assumes "canon_elems r (rev es)"
  shows "path_elems (render_path (r, es)) = (r, es)"
proof (cases "es = []")
  case True
  then show ?thesis by (cases r) (simp_all add: path_elems_def render_path_def has_prefix_def)
next
  case False
  from clean_push_id [of r es "[]"] assms have "clean_push r [] es = rev es" by simp
  with render_split [OF assms False] show ?thesis by (cases r) (simp_all add: path_elems_def)
qed

lemma path_elems_clean: "path_elems (path_clean p) = path_elems p"
proof -
  obtain r es where "path_elems p = (r, es)" by fastforce
  with path_elems_render [OF path_elems_canon] show ?thesis by (simp add: path_clean_def)
qed

lemma path_clean_twice: "path_clean (path_clean p) = path_clean p"
  by (simp add: path_clean_def path_elems_clean [unfolded path_clean_def])

text \<open>A clean path that starts with another clean path and a slash goes on inside it.\<close>

lemma path_inside:
  assumes "has_prefix (path_clean p) (path_clean d @ ''/'')"
    and "snd (path_elems d) \<noteq> []" and "last (snd (path_elems d)) \<noteq> ''..''"
  obtains es where "es \<noteq> []" and "''..'' \<notin> set es" and "path_elems p = (fst (path_elems d), snd (path_elems d) @ es)"
proof -
  obtain r ps where p: "path_elems p = (r, ps)" by fastforce
  obtain q ds where d: "path_elems d = (q, ds)" by fastforce
  note cp = path_elems_canon [OF p] and cd = path_elems_canon [OF d]
  have ds: "ds \<noteq> []" "last ds \<noteq> ''..''" using assms(2,3) d by simp_all
  obtain t where t: "path_clean p = path_clean d @ CHR ''/'' # t" using assms(1) by (auto simp: has_prefix_iff)
  have split: "split_on c (a @ c # b) = split_on c a @ split_on c b" for c a b
    by (induction a) (auto split: list.splits)
  have "ps \<noteq> []"
  proof
    assume "ps = []"
    then have "length (path_clean p) \<le> 1" using p by (simp add: path_clean_def render_path_def)
    with t have "path_clean d = []" by simp
    then have "[[]] = (if q then [[]] else []) @ ds"
      using render_split(1) [OF cd ds(1)] d by (simp add: path_clean_def)
    with ds(1) canon_elemsD [OF cd] show False by (cases q) (auto simp: Cons_eq_append_conv)
  qed
  have "has_prefix (path_clean p) ''/'' = r" "split_on (CHR ''/'') (path_clean p) = (if r then [[]] else []) @ ps"
    "has_prefix (path_clean d) ''/'' = q" "split_on (CHR ''/'') (path_clean d) = (if q then [[]] else []) @ ds"
    using render_split [OF cp \<open>ps \<noteq> []\<close>] render_split [OF cd ds(1)] p d by (simp_all add: path_clean_def)
  note parts = this
  have "path_clean d \<noteq> []" using parts(4) ds(1) canon_elemsD [OF cd] by (cases q) force+
  then have "r = q" using parts(1,3) t by (cases "path_clean d") (auto simp: has_prefix_def)
  with parts(2,4) t split have ps: "ps = ds @ split_on (CHR ''/'') t" by simp
  have "''..'' \<notin> set (split_on (CHR ''/'') t)"
  proof
    assume "''..'' \<in> set (split_on (CHR ''/'') t)"
    then obtain a b where ab: "split_on (CHR ''/'') t = a @ ''..'' # b" by (auto dest: split_list)
    have "canon_elems r (''..'' # rev a @ rev ds)"
      by (rule canon_elems_append [of r "rev b"]) (use cp ps ab in simp)
    then have "set ds \<subseteq> {''..''}" by auto
    with ds show False using last_in_set [OF ds(1)] by blast
  qed
  with ps p d \<open>r = q\<close> that [of "split_on (CHR ''/'') t"] show ?thesis by simp
qed

text \<open>Joining one more element to an absolute path.\<close>

lemma split_on_sep: "split_on c (a @ c # b) = split_on c a @ split_on c b"
  by (induction a) (auto split: list.splits)

lemma clean_push_append: "clean_push r acc (xs @ ys) = clean_push r (clean_push r acc xs) ys"
  by (induction r acc xs rule: clean_push.induct) (auto split: list.splits)

definition plain_elem :: "string \<Rightarrow> bool" where
  "plain_elem e = (e \<noteq> [] \<and> e \<noteq> ''.'' \<and> e \<noteq> ''..'' \<and> CHR ''/'' \<notin> set e)"

lemma path_elems_join:
  assumes "has_prefix a ''/''" and "plain_elem e"
  shows "path_elems (path_join a e) = (True, snd (path_elems a) @ [e])"
proof -
  from assms(1) obtain t where a: "a = CHR ''/'' # t" by (auto simp: has_prefix_iff)
  have "path_elems (a @ CHR ''/'' # e) = (True, snd (path_elems a) @ [e])"
    using assms(2) split_on_single [of "CHR ''/''" e] unfolding a
    by (simp add: path_elems_def plain_elem_def clean_push_append split_on_sep has_prefix_def
        split_on_sep [of "CHR ''/''" "CHR ''/'' # t" e, simplified])
  moreover have "path_join a e = path_clean (a @ CHR ''/'' # e)"
    using assms(2) a by (simp add: path_join_def plain_elem_def)
  ultimately show ?thesis by (simp add: path_elems_clean)
qed

lemma path_join_render:
  assumes "has_prefix a ''/''" and "plain_elem e"
  shows "path_join a e = ''/'' @ join ''/'' (snd (path_elems a) @ [e])"
proof -
  have "path_join a e = path_clean (path_join a e)"
    using assms by (auto simp: path_join_def plain_elem_def path_clean_twice has_prefix_def)
  then show ?thesis
    using path_elems_join [OF assms] by (simp add: path_clean_def render_path_def)
qed

end
