(* ===== verification/Inv_Handlers.thy ===== *)
theory Inv_Handlers
  imports Inv_Base Paths
begin

text \<open>
  \<open>hub/investigator/handlers.go\<close>: the tools the model can call, one definition per handler,
  each from the arguments' text to a tool result. The runner's dispatcher is the agent
  server's \<open>IsOnline\<close> and \<open>SendCollect\<close>, as the hub wires it.
\<close>

record handler_env =
  he_inv :: string
  he_allowed :: "string list"
  he_bus :: bool

definition inAllowed :: "handler_env \<Rightarrow> string \<Rightarrow> bool" where
  "inAllowed en h = (he_allowed en = [] \<or> h \<in> set (he_allowed en))"

section \<open>Selectors\<close>

definition parseSelector :: "string \<Rightarrow> strmap" where
  "parseSelector s = foldl (\<lambda>out kv.
     let kv' = trim_space kv
     in if kv' = [] then out
        else (case cut (CHR ''='') kv' of
                (k, Some v) \<Rightarrow> map_put (trim_space k) (trim_space v) out
              | (k, None) \<Rightarrow> out)) [] (split_on (CHR '','') s)"

definition matchSelector :: "strmap \<Rightarrow> strmap \<Rightarrow> bool" where
  "matchSelector labels sel =
     list_all (\<lambda>(k, v). (case map_of labels k of Some x \<Rightarrow> x | None \<Rightarrow> []) = v) sel"

section \<open>Discovery\<close>

definition manifests_of :: "string \<Rightarrow> ('z, manifest list) dbm" where
  "manifests_of h = do {
     r \<leftarrow> ListCollectorManifests h;
     return (case r of Inl _ \<Rightarrow> [] | Inr ms \<Rightarrow> ms)
   }"

definition host_view :: "cfg \<Rightarrow> host \<Rightarrow> bool \<Rightarrow> manifest list \<Rightarrow> json" where
  "host_view cf h on ms = JObj
     ([(''id'', JStr (h_id h)), (''status'', JStr (host_text (h_status h))), (''labels'', strmap_json (h_labels h))]
      @ (if h_facts h = [] then [] else [(''facts'', strmap_json (h_facts h))])
      @ [(''last_seen'', JStr (c_time cf (h_last_seen h))), (''online'', JBool on)]
      @ (if ms = [] then [] else [(''collectors'', JArr (map (JStr \<circ> mf_name) ms))]))"

fun list_hosts_loop :: "cfg \<Rightarrow> handler_env \<Rightarrow> strmap \<Rightarrow> host list \<Rightarrow> ('z, json list) im" where
  "list_hosts_loop cf en sel [] = return []"
| "list_hosts_loop cf en sel (h # hs) =
     (if \<not> inAllowed en (h_id h) then list_hosts_loop cf en sel hs
      else if \<not> matchSelector (h_labels h) sel then list_hosts_loop cf en sel hs
      else do {
        ms \<leftarrow> manifests_of (h_id h);
        on \<leftarrow> IsOnline (h_id h);
        rest \<leftarrow> list_hosts_loop cf en sel hs;
        return (host_view cf h on ms # rest)
      })"

definition handleListHosts :: "cfg \<Rightarrow> handler_env \<Rightarrow> jtext \<Rightarrow> ('z, tool_result) im" where
  "handleListHosts cf en args = do {
     r \<leftarrow> ListHosts;
     (case r of
        Inl e \<Rightarrow> return (errResult (TStore e))
      | Inr hs \<Rightarrow> do {
          out \<leftarrow> list_hosts_loop cf en (parseSelector (fst (decode (str_field ''Selector'') args))) hs;
          return (okResult (JObj [(''hosts'', JArr out), (''count'', JInt (int (length out)))]))
        })
   }"

record catalog_entry =
  ce_name :: string
  ce_category :: string
  ce_version :: string
  ce_description :: string
  ce_hosts :: "string list"

definition envelope_members :: "manifest \<Rightarrow> (string \<times> json) list" where
  "envelope_members m = (case mf_json m of JObj kvs \<Rightarrow> kvs | _ \<Rightarrow> [])"

definition catalog_add :: "string \<Rightarrow> string \<Rightarrow> catalog_entry list \<Rightarrow> manifest \<Rightarrow> catalog_entry list" where
  "catalog_add category hid out m =
     (let kvs = envelope_members m;
          cat = member_str ''category'' kvs;
          desc = member_str ''description'' kvs
      in if category \<noteq> [] \<and> cat \<noteq> category then out
         else (let out' = (if find_row (\<lambda>e. ce_name e = mf_name m) out = None
                           then out @ [\<lparr>ce_name = mf_name m, ce_category = cat, ce_version = mf_version m,
                                        ce_description = desc, ce_hosts = []\<rparr>]
                           else out)
               in update_rows (\<lambda>e. ce_name e = mf_name m) (\<lambda>e. e\<lparr>ce_hosts := ce_hosts e @ [hid]\<rparr>) out'))"

fun catalog_loop :: "string \<Rightarrow> host list \<Rightarrow> catalog_entry list \<Rightarrow> ('z, catalog_entry list) dbm" where
  "catalog_loop category [] out = return out"
| "catalog_loop category (h # hs) out = do {
     ms \<leftarrow> manifests_of (h_id h);
     catalog_loop category hs (foldl (catalog_add category (h_id h)) out ms)
   }"

definition catalog_json :: "catalog_entry \<Rightarrow> json" where
  "catalog_json e = JObj [(''name'', JStr (ce_name e)), (''category'', JStr (ce_category e)),
     (''version'', JStr (ce_version e)), (''description'', JStr (ce_description e)),
     (''hosts'', jstrings (ce_hosts e))]"

definition handleListCollectors :: "jtext \<Rightarrow> ('z, tool_result) dbm" where
  "handleListCollectors args = do {
     r \<leftarrow> ListHosts;
     (case r of
        Inl e \<Rightarrow> return (errResult (TStore e))
      | Inr hs \<Rightarrow> do {
          out \<leftarrow> catalog_loop (fst (decode (str_field ''Category'') args)) hs [];
          (let es = sort_key ce_name out
           in return (okResult (JObj [(''collectors'', JArr (map catalog_json es)),
                                      (''count'', JInt (int (length es)))])))
        })
   }"

fun describe_loop :: "string \<Rightarrow> host list \<Rightarrow> ('z, tool_result) dbm" where
  "describe_loop nm [] = return (errResult (TCollectorNotFound nm))"
| "describe_loop nm (h # hs) = do {
     ms \<leftarrow> manifests_of (h_id h);
     (case find_row (\<lambda>m. mf_name m = nm) ms of
        Some m \<Rightarrow> return (okResult (JObj (envelope_members m)))
      | None \<Rightarrow> describe_loop nm hs)
   }"

definition handleDescribeCollector :: "jtext \<Rightarrow> ('z, tool_result) dbm" where
  "handleDescribeCollector args =
     (let (nm, ok) = decode (str_field ''Name'') args
      in if \<not> ok then return (errResult TDecode)
         else if nm = [] then return (errResult (TRequired ''name required''))
         else do {
           r \<leftarrow> ListHosts;
           describe_loop nm (case r of Inl _ \<Rightarrow> [] | Inr hs \<Rightarrow> hs)
         })"

section \<open>Collecting\<close>

definition run_tasks :: "string \<Rightarrow> ('z, string list) dbm" where
  "run_tasks rid = do {
     r \<leftarrow> ListTasks rid;
     return (case r of Inl _ \<Rightarrow> [] | Inr ts \<Rightarrow> map tk_id ts)
   }"

definition inv_run_label :: "handler_env \<Rightarrow> string \<Rightarrow> string \<Rightarrow> string" where
  "inv_run_label en coll what = ''inv:'' @ he_inv en @ '' '' @ coll @ '' on '' @ what"

definition PrepareCollect :: "cfg \<Rightarrow> handler_env \<Rightarrow> jtext \<Rightarrow> ('z, terr + string list) im" where
  "PrepareCollect cf en args =
     (let (a, ok) = decode dec_collect args
      in if \<not> ok then return (Inl TDecode)
         else if ca_host a = [] \<or> ca_collector a = [] then return (Inl (TRequired ''host_id and collector required''))
         else if \<not> inAllowed en (ca_host a) then return (Inl (TOutsideAllowlist (ca_host a) (he_allowed en)))
         else do {
           r \<leftarrow> CreateRun (c_ids cf) IsOnline SendCollect
                  \<lparr>rr_name = inv_run_label en (ca_collector a) (ca_host a), rr_hosts = [ca_host a],
                   rr_collector = ca_collector a, rr_params = ca_params a, rr_timeout = ca_timeout a,
                   rr_by = ''investigator:'' @ he_inv en\<rparr>;
           (case r of
              Inl e \<Rightarrow> return (Inl (TStore e))
            | Inr rid \<Rightarrow> do { ids \<leftarrow> run_tasks rid; return (Inr ids) })
         })"

definition PrepareCollectBatch :: "cfg \<Rightarrow> handler_env \<Rightarrow> jtext \<Rightarrow> ('z, terr + string list) im" where
  "PrepareCollectBatch cf en args =
     (let (a, ok) = decode dec_batch args
      in if \<not> ok then return (Inl TDecode)
         else if ba_hosts a = [] \<or> ba_collector a = [] then return (Inl (TRequired ''host_ids and collector required''))
         else (case List.find (\<lambda>h. \<not> inAllowed en h) (ba_hosts a) of
                 Some h \<Rightarrow> return (Inl (TOutsideAllowlist h (he_allowed en)))
               | None \<Rightarrow> do {
                   r \<leftarrow> CreateRun (c_ids cf) IsOnline SendCollect
                          \<lparr>rr_name = inv_run_label en (ba_collector a) (nat_text (length (ba_hosts a)) @ '' hosts''),
                           rr_hosts = ba_hosts a, rr_collector = ba_collector a, rr_params = ba_params a,
                           rr_timeout = ba_timeout a, rr_by = ''investigator:'' @ he_inv en\<rparr>;
                   (case r of
                      Inl e \<Rightarrow> return (Inl (TStore e))
                    | Inr rid \<Rightarrow> do { ids \<leftarrow> run_tasks rid; return (Inr ids) })
                 }))"

definition topLevelKeys :: "json \<Rightarrow> json" where
  "topLevelKeys v =
     (case v of
        JObj kvs \<Rightarrow> jstrings (sort (remdups (map fst kvs)))
      | JArr vs \<Rightarrow> jstrings [''(array, len='' @ nat_text (length vs) @ '')'']
      | _ \<Rightarrow> JNull)"

definition max_inline :: nat where
  "max_inline = 1500"

definition compactDataSummary :: "cfg \<Rightarrow> jtext \<Rightarrow> json" where
  "compactDataSummary cf raw =
     (let n = length (content_text cf raw)
      in if n \<le> max_inline then any_of raw
         else JObj [(''_truncated'', JBool True), (''_size_bytes'', JInt (int n)),
                    (''_top_keys'', topLevelKeys (any_of raw)),
                    (''_hint'', JStr ''call get_full_result(task_id) for the complete object'')])"

definition listArtifactNames :: "cfg \<Rightarrow> string \<Rightarrow> string list" where
  "listArtifactNames cf dir =
     (if dir = [] then [] else (case c_readdir cf dir of None \<Rightarrow> [] | Some ns \<Rightarrow> ns))"

definition task_view :: "cfg \<Rightarrow> string \<Rightarrow> task \<Rightarrow> task_result option \<Rightarrow> json" where
  "task_view cf i t res = JObj
     ([(''task_id'', JStr i), (''host_id'', JStr (tk_host t)), (''collector'', JStr (tk_collector t)),
       (''status'', JStr (task_text (tk_status t)))]
      @ (case tk_duration t of Some n \<Rightarrow> if n = 0 then [] else [(''duration_ms'', JInt n)] | None \<Rightarrow> [])
      @ (if tk_error t = [] then [] else [(''error'', JStr (tk_error t))])
      @ (case res of
           None \<Rightarrow> []
         | Some r \<Rightarrow>
             (let sm = compactDataSummary cf (rs_data r);
                  hs = (case rs_hints r of JArr vs \<Rightarrow> vs | _ \<Rightarrow> []);
                  as = listArtifactNames cf (rs_artifact_dir r)
              in (if sm = JNull then [] else [(''summary'', sm)])
                 @ (if hs = [] then [] else [(''hints'', JArr hs)])
                 @ (if as = [] then [] else [(''artifacts'', jstrings as)]))))"

definition missing_view :: "cfg \<Rightarrow> string \<Rightarrow> serr \<Rightarrow> json" where
  "missing_view cf i e = JObj
     ([(''task_id'', JStr i), (''host_id'', JStr []), (''collector'', JStr []), (''status'', JStr ''missing'')]
      @ (if c_err_text cf (TStore e) = [] then [] else [(''error'', JStr (c_err_text cf (TStore e)))]))"

fun task_views :: "cfg \<Rightarrow> string list \<Rightarrow> ('z, json list) dbm" where
  "task_views cf [] = return []"
| "task_views cf (i # is) = do {
     t \<leftarrow> GetTask i;
     v \<leftarrow> (case t of
             Inl e \<Rightarrow> return (missing_view cf i e)
           | Inr tk \<Rightarrow> do {
               r \<leftarrow> GetResult i;
               return (task_view cf i tk (case r of Inl _ \<Rightarrow> None | Inr x \<Rightarrow> Some x))
             });
     vs \<leftarrow> task_views cf is;
     return (v # vs)
   }"

definition SummarizeTasks :: "cfg \<Rightarrow> string list \<Rightarrow> ('z, tool_result) dbm" where
  "SummarizeTasks cf ids = do {
     vs \<leftarrow> task_views cf ids;
     return (okResult (JObj [(''tasks'', JArr vs)]))
   }"

definition handleCollect :: "cfg \<Rightarrow> handler_env \<Rightarrow> jtext \<Rightarrow> ('z, tool_result) im" where
  "handleCollect cf en args = do {
     r \<leftarrow> PrepareCollect cf en args;
     (case r of Inl e \<Rightarrow> return (errResult e) | Inr ids \<Rightarrow> SummarizeTasks cf ids)
   }"

definition handleCollectBatch :: "cfg \<Rightarrow> handler_env \<Rightarrow> jtext \<Rightarrow> ('z, tool_result) im" where
  "handleCollectBatch cf en args = do {
     r \<leftarrow> PrepareCollectBatch cf en args;
     (case r of Inl e \<Rightarrow> return (errResult e) | Inr ids \<Rightarrow> SummarizeTasks cf ids)
   }"

section \<open>Results and artifacts\<close>

definition handleGetFullResult :: "jtext \<Rightarrow> ('z, tool_result) dbm" where
  "handleGetFullResult args =
     (let (i, ok) = decode (str_field ''task_id'') args
      in if \<not> ok then return (errResult TDecode)
         else if i = [] then return (errResult (TRequired ''task_id required''))
         else do {
           r \<leftarrow> GetResult i;
           return (case r of
                     Inl e \<Rightarrow> errResult (TStore e)
                   | Inr x \<Rightarrow> okResult (JObj [(''task_id'', JStr i), (''data'', any_of (rs_data x))]))
         })"

record search_args =
  sa_task :: string
  sa_artifact :: string
  sa_pattern :: string
  sa_context :: int
  sa_max :: int

definition dec_search :: "(string \<times> json) list \<Rightarrow> search_args \<times> bool" where
  "dec_search kvs =
     (let (t, ok1) = str_field ''task_id'' kvs; (n, ok2) = str_field ''artifact_name'' kvs;
          (p, ok3) = str_field ''pattern'' kvs; (c, ok4) = int_field ''context_lines'' kvs;
          (m, ok5) = int_field ''max_matches'' kvs
      in (\<lparr>sa_task = t, sa_artifact = n, sa_pattern = p, sa_context = c, sa_max = m\<rparr>,
          ok1 \<and> ok2 \<and> ok3 \<and> ok4 \<and> ok5))"

definition clamp_matches :: "int \<Rightarrow> int" where
  "clamp_matches n = (let m = (if n \<le> 0 then 50 else n) in if m > 500 then 500 else m)"

definition clamp_context :: "int \<Rightarrow> int" where
  "clamp_context n = (let m = (if n < 0 then 0 else n) in if m > 20 then 20 else m)"

text \<open>The path of an artifact: \<^const>\<open>None\<close> when it leaves the directory.\<close>

definition artifact_path :: "string \<Rightarrow> string \<Rightarrow> string option" where
  "artifact_path dir nm =
     (let clean = path_clean (path_join dir nm)
      in if has_prefix clean (path_clean dir @ ''/'') then Some clean else None)"

definition match_json :: "string list \<Rightarrow> nat \<Rightarrow> nat \<Rightarrow> json" where
  "match_json ls ctx i = JObj
     ([(''line'', JInt (int i + 1)), (''text'', JStr (ls ! i))]
      @ (if ctx = 0 then []
         else (let lo = i - ctx; hi = min (length ls) (i + ctx + 1)
               in [(''context'', jstrings (take (hi - lo) (drop lo ls)))])))"

text \<open>
  The scan of the lines: \<open>fuel\<close> is how many lines are looked at before the deadline passes
  (\<^const>\<open>None\<close>: it does not); the result is \<^const>\<open>None\<close> when it did.
\<close>

fun scan_lines ::
  "(string \<Rightarrow> bool) \<Rightarrow> string list \<Rightarrow> nat \<Rightarrow> nat \<Rightarrow> nat option \<Rightarrow> string list \<Rightarrow> nat \<Rightarrow> json list \<Rightarrow> json list option" where
  "scan_lines re ls ctx mx fuel [] i hits = Some hits"
| "scan_lines re ls ctx mx fuel (l # rest) i hits =
     (if fuel = Some i then None
      else if \<not> re l then scan_lines re ls ctx mx fuel rest (i + 1) hits
      else (let hits' = hits @ [match_json ls ctx i]
            in if length hits' \<ge> mx then Some hits'
               else scan_lines re ls ctx mx fuel rest (i + 1) hits'))"

definition artifactReadCap :: nat where
  "artifactReadCap = 4 * 1024 * 1024"

definition search_body :: "cfg \<Rightarrow> search_args \<Rightarrow> nat \<Rightarrow> nat \<Rightarrow> bytes \<Rightarrow> tool_result" where
  "search_body cf a ctx mx body =
     (let read = take (artifactReadCap + 1) body;
          trunc = length read > artifactReadCap;
          scanned = (if trunc then take artifactReadCap read else read)
      in case c_regex cf (''(?i)'' @ sa_pattern a) of
           None \<Rightarrow> errResult (TRegex (sa_pattern a))
         | Some re \<Rightarrow>
             (let ls = split_on (CHR 0x0A) scanned
              in case scan_lines re ls ctx mx (c_scan_lines cf) ls 0 [] of
                   None \<Rightarrow> errResult TScanTimeout
                 | Some hits \<Rightarrow> okResult (JObj
                     [(''task_id'', JStr (sa_task a)), (''artifact'', JStr (sa_artifact a)),
                      (''matches'', if hits = [] then JNull else JArr hits), (''count'', JInt (int (length hits))),
                      (''truncated'', JBool (length hits \<ge> mx)), (''file_truncated'', JBool trunc),
                      (''scanned_bytes'', JInt (int (length scanned)))])))"

definition handleSearchArtifact :: "cfg \<Rightarrow> jtext \<Rightarrow> ('z, tool_result) dbm" where
  "handleSearchArtifact cf args =
     (let (a, ok) = decode dec_search args
      in if \<not> ok then return (errResult TDecode)
         else if sa_task a = [] \<or> sa_artifact a = [] \<or> sa_pattern a = []
           then return (errResult (TRequired ''task_id, artifact_name, pattern required''))
         else if length (sa_pattern a) > 512 then return (errResult (TPatternTooLong (length (sa_pattern a))))
         else do {
           r \<leftarrow> GetResult (sa_task a);
           return (case r of
                     Inl e \<Rightarrow> errResult (TStore e)
                   | Inr res \<Rightarrow>
                       if rs_artifact_dir res = [] then errResult TNoArtifacts
                       else (case artifact_path (rs_artifact_dir res) (sa_artifact a) of
                               None \<Rightarrow> errResult TPathTraversal
                             | Some p \<Rightarrow>
                                 (case c_read_file cf p of
                                    None \<Rightarrow> errResult (TOpen p)
                                  | Some body \<Rightarrow> search_body cf a (nat (clamp_context (sa_context a)))
                                                   (nat (clamp_matches (sa_max a))) body)))
         })"

section \<open>Comparison\<close>

record compare_row =
  cp_task :: string
  cp_host :: string
  cp_data :: "(string \<times> json) list"

fun compare_rows :: "string list \<Rightarrow> ('z, serr + compare_row list) dbm" where
  "compare_rows [] = return (Inr [])"
| "compare_rows (i # is) =
     unless_err (GetTask i) (\<lambda>t.
     unless_err (GetResult i) (\<lambda>r.
     unless_err (compare_rows is) (\<lambda>rest.
       return (Inr (\<lparr>cp_task = i, cp_host = tk_host t, cp_data = map_of_text (rs_data r)\<rparr> # rest)))))"

definition row_value :: "string \<Rightarrow> compare_row \<Rightarrow> json" where
  "row_value k r = (case lookup_member k (cp_data r) of Some v \<Rightarrow> v | None \<Rightarrow> JNull)"

definition all_same :: "string \<Rightarrow> compare_row list \<Rightarrow> bool" where
  "all_same k rows =
     (case rows of [] \<Rightarrow> True | r # rs \<Rightarrow> list_all (\<lambda>x. jsonEqual (row_value k r) (row_value k x)) rs)"

definition field_by_host :: "string \<Rightarrow> compare_row list \<Rightarrow> json" where
  "field_by_host k rows = JObj (foldl (\<lambda>m r. map_put (cp_host r) (row_value k r) m) [] rows)"

definition compare_data :: "compare_row list \<Rightarrow> (string \<times> json) list \<times> (string \<times> json) list" where
  "compare_data rows =
     (let keys = sort (remdups (concat (map (\<lambda>r. map fst (cp_data r)) rows)))
      in (map (\<lambda>k. (k, row_value k (hd rows))) (filter (\<lambda>k. all_same k rows) keys),
          map (\<lambda>k. (k, field_by_host k rows)) (filter (\<lambda>k. \<not> all_same k rows) keys)))"

definition handleCompareAcrossHosts :: "jtext \<Rightarrow> ('z, tool_result) dbm" where
  "handleCompareAcrossHosts args =
     (let (ids, ok) = decode (strs_field ''task_ids'') args
      in if \<not> ok then return (errResult TDecode)
         else if length ids < 2 then return (errResult TTwoTasks)
         else do {
           r \<leftarrow> compare_rows ids;
           return (case r of
                     Inl e \<Rightarrow> errResult (TStore e)
                   | Inr rows \<Rightarrow> okResult (JObj [(''agree'', JObj (fst (compare_data rows))),
                       (''differ'', JObj (snd (compare_data rows))), (''task_ids'', jstrings ids)]))
         })"

section \<open>Findings and the end of an investigation\<close>

record finding_args =
  fa_severity :: string
  fa_code :: string
  fa_message :: string
  fa_refs :: "string list"

definition dec_finding :: "(string \<times> json) list \<Rightarrow> finding_args \<times> bool" where
  "dec_finding kvs =
     (let (s, ok1) = str_field ''severity'' kvs; (c, ok2) = str_field ''code'' kvs;
          (m, ok3) = str_field ''message'' kvs; (r, ok4) = strs_field ''evidence_refs'' kvs
      in (\<lparr>fa_severity = s, fa_code = c, fa_message = m, fa_refs = r\<rparr>, ok1 \<and> ok2 \<and> ok3 \<and> ok4))"

fun check_refs :: "string list \<Rightarrow> ('z, terr option) dbm" where
  "check_refs [] = return None"
| "check_refs (i # is) = do {
     r \<leftarrow> GetTask i;
     (case r of Inl e \<Rightarrow> return (Some (TBadEvidence i e)) | Inr _ \<Rightarrow> check_refs is)
   }"

definition handleAddFinding :: "cfg \<Rightarrow> handler_env \<Rightarrow> jtext \<Rightarrow> ('z, tool_result) im" where
  "handleAddFinding cf en args =
     (let (a, ok) = decode dec_finding args
      in if \<not> ok then return (errResult TDecode)
         else if fa_refs a = [] then return (errResult TNoEvidence)
         else if fa_severity a \<notin> {''info'', ''warn'', ''error''} then return (errResult TBadSeverity)
         else do {
           bad \<leftarrow> check_refs (fa_refs a);
           (case bad of
              Some e \<Rightarrow> return (errResult e)
            | None \<Rightarrow> do {
                b \<leftarrow> draw (c_ids cf);
                (let i = ''f_'' @ b in do {
                  r \<leftarrow> AddFinding \<lparr>fd_id = i, fd_inv = he_inv en, fd_severity = fa_severity a, fd_code = fa_code a,
                         fd_message = fa_message a, fd_evidence = JText (JObj [(''task_ids'', jstrings (fa_refs a))]),
                         fd_pinned = False, fd_ignored = False, fd_created_at = 0\<rparr>;
                  (case r of
                     Inl e \<Rightarrow> return (errResult (TStore e))
                   | Inr _ \<Rightarrow> do {
                       _ \<leftarrow> (if he_bus en
                             then publish (he_inv en) EventFindingAdded
                               (JObj [(''finding_id'', JStr i), (''severity'', JStr (fa_severity a)),
                                  (''code'', JStr (fa_code a)), (''message'', JStr (fa_message a)),
                                  (''evidence_refs'', jstrings (fa_refs a))])
                             else return ());
                       return (okResult (JObj [(''finding_id'', JStr i)]))
                     })
                })
              })
         })"

definition dec_question :: "(string \<times> json) list \<Rightarrow> (string \<times> string) \<times> bool" where
  "dec_question kvs =
     (let (q, ok1) = str_field ''question'' kvs; (c, ok2) = str_field ''context'' kvs in ((q, c), ok1 \<and> ok2))"

definition handleAskOperator :: "jtext \<Rightarrow> tool_result" where
  "handleAskOperator args =
     (let (a, ok) = decode dec_question args
      in if \<not> ok then errResult TDecode
         else if fst a = [] then errResult (TRequired ''question required'')
         else okResult (JObj [(''asked'', JStr (fst a)), (''operator_response_pending'', JBool True)]))"

definition dec_any_map :: "(string \<times> json) list agg_decoder" where
  "dec_any_map old v = (case v of JNull \<Rightarrow> ([], True) | JObj kvs \<Rightarrow> (old @ kvs, True) | _ \<Rightarrow> (old, False))"

definition handleMarkDone :: "jtext \<Rightarrow> tool_result" where
  "handleMarkDone args =
     (let (m, ok) = decode (field ''summary'' dec_any_map []) args
      in if \<not> ok then errResult TDecode
         else if lookup_member ''root_cause'' m = None then errResult TNoRootCause
         else okResult (JObj [(''finalized'', JBool True)]))"

section \<open>Dispatch\<close>

definition Dispatch :: "cfg \<Rightarrow> handler_env \<Rightarrow> string \<Rightarrow> jtext \<Rightarrow> ('z, tool_result) im" where
  "Dispatch cf en tool args =
     (if tool = ''list_hosts'' then handleListHosts cf en args
      else if tool = ''list_collectors'' then handleListCollectors args
      else if tool = ''describe_collector'' then handleDescribeCollector args
      else if tool = ''collect'' then handleCollect cf en args
      else if tool = ''collect_batch'' then handleCollectBatch cf en args
      else if tool = ''search_artifact'' then handleSearchArtifact cf args
      else if tool = ''compare_across_hosts'' then handleCompareAcrossHosts args
      else if tool = ''get_full_result'' then handleGetFullResult args
      else if tool = ''add_finding'' then handleAddFinding cf en args
      else if tool = ''ask_operator'' then return (handleAskOperator args)
      else if tool = ''mark_done'' then return (handleMarkDone args)
      else return (errResult (TUnknownTool tool)))"

end
