(* ===== verification/Inv_Gates.thy ===== *)
theory Inv_Gates
  imports Inv_Handlers
begin

text \<open>
  The checks the loop makes before and around a tool call: \<open>hub/investigator/restrict.go\<close>
  (the restriction after a load-bearing finding, the preflight of a collect call) and, from
  \<open>hub/investigator/loop.go\<close>, the economy of collect calls, the broad-selector gate, the
  tools that need no operator, the conversion of stored messages for the model, and the
  cleaning of operator text.
\<close>

section \<open>Tools\<close>

definition tool_names :: "string list" where
  "tool_names = [''list_hosts'', ''list_collectors'', ''describe_collector'', ''collect'', ''collect_batch'',
     ''search_artifact'', ''compare_across_hosts'', ''get_full_result'', ''add_finding'', ''ask_operator'',
     ''mark_done'']"

definition isAutoTool :: "string \<Rightarrow> bool" where
  "isAutoTool nm = (nm = ''list_hosts'' \<or> nm = ''list_collectors'' \<or> nm = ''describe_collector'')"

definition postFindingAllowedTools :: "string list" where
  "postFindingAllowedTools = [''mark_done'', ''ask_operator'', ''add_finding'']"

definition filterTools :: "string list \<Rightarrow> string list \<Rightarrow> string list" where
  "filterTools offered ok = filter (\<lambda>t. t \<in> set ok) offered"

definition dec_severity :: "(string \<times> json) list \<Rightarrow> (string \<times> string list) \<times> bool" where
  "dec_severity kvs =
     (let (s, ok1) = str_field ''severity'' kvs; (r, ok2) = strs_field ''evidence_refs'' kvs
      in ((s, r), ok1 \<and> ok2))"

definition isLoadBearingFindingInput :: "jtext \<Rightarrow> bool" where
  "isLoadBearingFindingInput input =
     (let ((s, refs), ok) = decode dec_severity input
      in if \<not> ok then False
         else if s \<noteq> ''warn'' \<and> s \<noteq> ''error'' then False
         else length refs \<ge> 2)"

definition restricts :: "call_row \<Rightarrow> bool" where
  "restricts c =
     (if tc_tool c \<noteq> ''add_finding'' then False
      else (let ((s, refs), ok) = decode dec_severity (tc_input c)
            in ok \<and> (s = ''warn'' \<or> s = ''error'' \<or> s = ''critical'') \<and> length refs \<ge> 2))"

definition postFindingRestricted :: "string \<Rightarrow> ('z, bool) dbm" where
  "postFindingRestricted i = do {
     r \<leftarrow> ListToolCalls i;
     return (case r of
               Inl _ \<Rightarrow> False
             | Inr tcs \<Rightarrow> (case find_last (\<lambda>c. tc_status c = TcExecuted) tcs of
                             None \<Rightarrow> False | Some c \<Rightarrow> restricts c))
   }"

section \<open>Preflight\<close>

definition dec_targets :: "(string \<times> json) list \<Rightarrow> (string \<times> string list) \<times> bool" where
  "dec_targets kvs =
     (let (h, ok1) = str_field ''host_id'' kvs; (hs, ok2) = strs_field ''host_ids'' kvs
      in ((h, hs), ok1 \<and> ok2))"

definition check_host :: "string \<Rightarrow> string \<Rightarrow> ('z, tool_result option) im" where
  "check_host i h =
     (if h = [] then return None
      else do {
        on \<leftarrow> IsOnline h;
        if \<not> on then return (Some (errResult (TOffline h)))
        else do {
          r \<leftarrow> GetInvestigation i;
          return (case r of
                    Inl _ \<Rightarrow> None
                  | Inr v \<Rightarrow> if inv_allowed v \<noteq> [] \<and> h \<notin> set (inv_allowed v)
                             then Some (errResult (TOutsideAllowlist h (inv_allowed v))) else None)
        }
      })"

fun check_hosts :: "string \<Rightarrow> string list \<Rightarrow> ('z, tool_result option) im" where
  "check_hosts i [] = return None"
| "check_hosts i (h # hs) = do {
     r \<leftarrow> check_host i h;
     (case r of Some x \<Rightarrow> return (Some x) | None \<Rightarrow> check_hosts i hs)
   }"

definition preflightCollect :: "string \<Rightarrow> call_row \<Rightarrow> ('z, tool_result option) im" where
  "preflightCollect i c =
     (let ((h, hs), ok) = decode dec_targets (tc_input c)
      in if \<not> ok then return None else check_hosts i (h # hs))"

section \<open>Economy\<close>

definition dedup_sorted :: "json list \<Rightarrow> json list" where
  "dedup_sorted vs =
     map JStr (sort (remdups (concat (map (\<lambda>v. case v of JStr s \<Rightarrow> [s] | _ \<Rightarrow> []) vs))))"

text \<open>The canonical form of a collect input; \<^const>\<open>None\<close> is the code's empty string.\<close>

definition canonCollectInput :: "jtext \<Rightarrow> json option" where
  "canonCollectInput t =
     (case t of
        JText JNull \<Rightarrow> Some JNull
      | JText (JObj kvs) \<Rightarrow>
          Some (canon (JObj (case lookup_member ''host_ids'' kvs of
                               Some (JArr raw) \<Rightarrow> kvs @ [(''host_ids'', JArr (dedup_sorted raw))]
                             | _ \<Rightarrow> kvs)))
      | _ \<Rightarrow> None)"

definition dec_pairs :: "(string \<times> json) list \<Rightarrow> (string \<times> string \<times> string list) \<times> bool" where
  "dec_pairs kvs =
     (let (c, ok1) = str_field ''collector'' kvs; (h, ok2) = str_field ''host_id'' kvs;
          (hs, ok3) = strs_field ''host_ids'' kvs
      in ((c, h, hs), ok1 \<and> ok2 \<and> ok3))"

definition proposedCollectPairs :: "jtext \<Rightarrow> string list" where
  "proposedCollectPairs t =
     (let ((c, h, hs), ok) = decode dec_pairs t
      in if \<not> ok then []
         else if c = [] then []
         else map (\<lambda>x. c @ ''|'' @ x) (filter (\<lambda>x. x \<noteq> []) (h # hs)))"

text \<open>What \<open>countCollectFailures\<close> reads of a stored result: \<open>data.tasks[]\<close>.\<close>

definition dec_fail_task :: "json \<Rightarrow> (string \<times> string \<times> string) \<times> bool" where
  "dec_fail_task v =
     (case v of
        JObj kvs \<Rightarrow> (let (c, ok1) = str_field ''collector'' kvs; (h, ok2) = str_field ''host_id'' kvs;
                        (s, ok3) = str_field ''status'' kvs in ((c, h, s), ok1 \<and> ok2 \<and> ok3))
      | JNull \<Rightarrow> (([], [], []), True)
      | _ \<Rightarrow> (([], [], []), False))"

definition dec_fail_tasks :: "(string \<times> string \<times> string) list agg_decoder" where
  "dec_fail_tasks old v =
     (case v of
        JArr vs \<Rightarrow> (map (fst \<circ> dec_fail_task) vs, list_all (snd \<circ> dec_fail_task) vs)
      | JNull \<Rightarrow> ([], True)
      | _ \<Rightarrow> (old, False))"

definition dec_fail_data :: "(string \<times> string \<times> string) list agg_decoder" where
  "dec_fail_data old v =
     (case v of
        JObj kvs \<Rightarrow> field ''tasks'' dec_fail_tasks old kvs
      | JNull \<Rightarrow> (old, True)
      | _ \<Rightarrow> (old, False))"

definition failed_pairs :: "call_row \<Rightarrow> string list" where
  "failed_pairs c =
     (if tc_tool c \<noteq> ''collect'' \<and> tc_tool c \<noteq> ''collect_batch'' then []
      else if tc_status c \<noteq> TcExecuted then []
      else (case tc_result c of
              None \<Rightarrow> []
            | Some t \<Rightarrow>
                (let (ts, ok) = decode (field ''data'' dec_fail_data []) t
                 in if \<not> ok then []
                    else map (\<lambda>(c, h, s). c @ ''|'' @ h)
                           (filter (\<lambda>(c, h, s). s = ''error'' \<or> s = ''timeout'') ts))))"

definition countCollectFailures :: "call_row list \<Rightarrow> string \<Rightarrow> nat" where
  "countCollectFailures tcs key = length (filter (\<lambda>k. k = key) (concat (map failed_pairs tcs)))"

definition dedup_hit :: "call_row \<Rightarrow> call_row list \<Rightarrow> call_row option" where
  "dedup_hit c tcs =
     (case canonCollectInput (tc_input c) of
        None \<Rightarrow> None
      | Some sig \<Rightarrow> List.find (\<lambda>h. tc_id h \<noteq> tc_id c \<and> tc_tool h = tc_tool c \<and> tc_status h = TcExecuted
                        \<and> canonCollectInput (tc_input h) = Some sig) tcs)"

definition preflightCollectEconomy :: "string \<Rightarrow> call_row \<Rightarrow> ('z, tool_result option) dbm" where
  "preflightCollectEconomy i c = do {
     r \<leftarrow> ListToolCalls i;
     return (case r of
               Inl _ \<Rightarrow> None
             | Inr tcs \<Rightarrow>
                 (case dedup_hit c tcs of
                    Some h \<Rightarrow> Some (errResult (TDedup (tc_tool c) (tc_id h)
                                (case tc_task h of None \<Rightarrow> [] | Some t \<Rightarrow> t)))
                  | None \<Rightarrow>
                      (case List.find (\<lambda>k. countCollectFailures tcs k \<ge> 2) (proposedCollectPairs (tc_input c)) of
                         Some k \<Rightarrow> Some (errResult (TRetryCap k (countCollectFailures tcs k)))
                       | None \<Rightarrow> None)))
   }"

section \<open>The broad-selector gate\<close>

definition broadSelectorThreshold :: nat where
  "broadSelectorThreshold = 5"

definition needsBroadConfirm :: "call_row \<Rightarrow> bool" where
  "needsBroadConfirm c =
     (if tc_tool c \<noteq> ''collect_batch'' then False
      else if tc_broad c then False
      else (let (hs, ok) = decode (strs_field ''host_ids'') (tc_input c)
            in ok \<and> length hs > broadSelectorThreshold))"

section \<open>Messages for the model\<close>

definition to_wire :: "cfg \<Rightarrow> msg \<Rightarrow> wire" where
  "to_wire cf m =
     (case m_role m of
        RoleSystem \<Rightarrow> \<lparr>w_role = ''system'', w_content = content_text cf (m_content m), w_call_id = [], w_calls = []\<rparr>
      | RoleUser \<Rightarrow> \<lparr>w_role = ''user'', w_content = content_text cf (m_content m), w_call_id = [], w_calls = []\<rparr>
      | RoleSystemSummary \<Rightarrow> \<lparr>w_role = ''system'', w_content = content_text cf (m_content m), w_call_id = [], w_calls = []\<rparr>
      | RoleAssistant \<Rightarrow> \<lparr>w_role = ''assistant'', w_content = content_text cf (m_content m), w_call_id = [],
                          w_calls = (case m_calls m of None \<Rightarrow> [] | Some cs \<Rightarrow> cs)\<rparr>
      | RoleSystemNote \<Rightarrow> \<lparr>w_role = ''user'', w_content = ''SYSTEM NOTE: '' @ content_text cf (m_content m),
                           w_call_id = [], w_calls = []\<rparr>
      | RoleTool \<Rightarrow> \<lparr>w_role = ''tool'', w_content = content_text cf (m_content m),
                     w_call_id = (case m_call_id m of None \<Rightarrow> [] | Some t \<Rightarrow> t), w_calls = []\<rparr>)"

definition appendForLLM :: "cfg \<Rightarrow> wire list \<Rightarrow> msg \<Rightarrow> wire list" where
  "appendForLLM cf out m = out @ [to_wire cf m]"

definition compactionTriggerTokens :: nat where
  "compactionTriggerTokens = 150000"

definition approxBytesPerToken :: nat where
  "approxBytesPerToken = 4"

definition wire_bytes :: "cfg \<Rightarrow> wire \<Rightarrow> nat" where
  "wire_bytes cf w = length (w_content w)
     + sum_list (map (\<lambda>c. length (content_text cf (cr_args c)) + length (cr_name c)) (w_calls w))"

definition shouldCompact :: "cfg \<Rightarrow> wire list \<Rightarrow> bool" where
  "shouldCompact cf ws = (sum_list (map (wire_bytes cf) ws) > compactionTriggerTokens * approxBytesPerToken)"

section \<open>Operator text\<close>

definition capLines :: "string \<Rightarrow> nat \<Rightarrow> string" where
  "capLines s maxBytes =
     (let s' = (if length s > maxBytes then take maxBytes s @ [CHR 0xE2, CHR 0x80, CHR 0xA6] @ ''(truncated)'' else s)
      in join [CHR 0x0A]
           (map (\<lambda>line. let l = to_lower (trim_space line)
                         in if has_prefix l ''system:'' \<or> has_prefix l ''assistant:'' \<or> has_prefix l ''tool:''
                            then ''[stripped role-label] '' @ line else line)
              (split_on (CHR 0x0A) s')))"

fun dedupe_loop :: "string list \<Rightarrow> string list \<Rightarrow> string list" where
  "dedupe_loop [] out = out"
| "dedupe_loop (s # ss) out =
     (let t = trim_space s
      in if t = [] \<or> t \<in> set out then dedupe_loop ss out else dedupe_loop ss (out @ [t]))"

definition dedupeNonEmpty :: "string list \<Rightarrow> string list" where
  "dedupeNonEmpty xs = dedupe_loop xs []"

end
