(* ===== verification/Inv_Step.thy ===== *)
theory Inv_Step
  imports Inv_Loop
begin

text \<open>
  \<open>hub/investigator/loop.go\<close>, the loop proper: one step of an investigation, cut at the two
  places where the code waits for others, the model's answer and the dispatched tasks.
  What happens there is other operations of the hub.
\<close>

section \<open>What a step stops at\<close>

datatype step_out =
    Again
  | Halt
  | AwaitModel investigation llm_request
  | AwaitTasks call_row "string list" string

definition note_msg :: "string \<Rightarrow> string \<Rightarrow> msg" where
  "note_msg i t = text_msg i RoleSystemNote t"

section \<open>Asking the model\<close>

definition wires :: "cfg \<Rightarrow> msg list \<Rightarrow> wire list" where
  "wires cf ms = foldl (appendForLLM cf) [] ms"

definition model_request :: "cfg \<Rightarrow> investigation \<Rightarrow> msg list \<Rightarrow> ('z, terr + step_out) im" where
  "model_request cf v ms = do {
     restricted \<leftarrow> postFindingRestricted (inv_id v);
     return (Inr (AwaitModel v
       \<lparr>lq_messages = wires cf ms,
        lq_tools = (if restricted then filterTools tool_names postFindingAllowedTools else tool_names)\<rparr>))
   }"

definition compactCooldownNs :: int where
  "compactCooldownNs = 600 * 10 ^ 9"

definition ask_model :: "cfg \<Rightarrow> investigation \<Rightarrow> ('z, terr + step_out) im" where
  "ask_model cf v =
     attempt (ListMessages (inv_id v) False) (\<lambda>ms. do {
       cooling \<leftarrow> inCompactCooldown (inv_id v);
       if shouldCompact cf (wires cf ms) \<and> \<not> cooling then do {
         r \<leftarrow> compact cf (inv_id v);
         (case r of
            Inl _ \<Rightarrow> do {
              _ \<leftarrow> markCompactCooldown (inv_id v) compactCooldownNs;
              model_request cf v ms
            }
          | Inr _ \<Rightarrow> attempt (ListMessages (inv_id v) False) (model_request cf v))
       }
       else model_request cf v ms
     })"

section \<open>Taking the model's answer\<close>

definition calls_json :: "cfg \<Rightarrow> call_req list \<Rightarrow> json" where
  "calls_json cf cs = JArr (map (\<lambda>c. JObj
     [(''id'', JStr (cr_id c)), (''type'', JStr ''function''),
      (''function'', JObj [(''name'', JStr (cr_name c)), (''arguments'', JStr (content_text cf (cr_args c)))])]) cs)"

definition assistant_msg :: "string \<Rightarrow> string \<Rightarrow> call_req list \<Rightarrow> msg" where
  "assistant_msg i t cs = (text_msg i RoleAssistant t)\<lparr>m_calls := (if cs = [] then None else Some cs)\<rparr>"

definition nextSeq :: "string \<Rightarrow> ('z, int) dbm" where
  "nextSeq i = do {
     r \<leftarrow> ListToolCalls i;
     return (case r of Inl _ \<Rightarrow> 1 | Inr tcs \<Rightarrow> int (length tcs) + 1)
   }"

text \<open>The proposed call becomes a row: pending, or approved when it needs no operator.\<close>

definition needs_no_operator :: "investigation \<Rightarrow> call_req \<Rightarrow> bool" where
  "needs_no_operator v c = (isAutoTool (cr_name c) \<or> inv_auto_approve v)"

definition proposal :: "investigation \<Rightarrow> call_req \<Rightarrow> string \<Rightarrow> int \<Rightarrow> call_row" where
  "proposal v c rationale q =
     \<lparr>tc_id = cr_id c, tc_inv = inv_id v, tc_seq = q, tc_tool = cr_name c, tc_input = cr_args c,
      tc_rationale = rationale,
      tc_status = (if needs_no_operator v c then TcApproved else TcPending),
      tc_decided_by = None, tc_task = None, tc_created_at = 0, tc_decided_at = None, tc_result = None,
      tc_broad = False\<rparr>"

definition propose :: "cfg \<Rightarrow> investigation \<Rightarrow> call_req \<Rightarrow> string \<Rightarrow> ('z, terr + bool) im" where
  "propose cf v c rationale = do {
     q \<leftarrow> nextSeq (inv_id v);
     attempt (InsertToolCall (proposal v c rationale q)) (\<lambda>_. do {
       _ \<leftarrow> IncrementToolCalls (inv_id v);
       _ \<leftarrow> pubToolCall cf (inv_id v) (proposal v c rationale q)
              (if needs_no_operator v c then ''approved'' else ''pending'') EventToolCallPending;
       return (Inr (needs_no_operator v c))
     })
   }"

definition no_call_note :: string where
  "no_call_note = ''Your previous response did not include a tool_call. Per the rules you MUST emit exactly one tool_call per turn. Use ask_operator if you need to ask a question.''"

definition many_calls_note :: "nat \<Rightarrow> string \<Rightarrow> string" where
  "many_calls_note n first = ''You returned '' @ nat_text n @ '' tool_calls; only the first ('' @ first
     @ '') was kept. Stick to ONE per turn.''"

definition answer_model :: "cfg \<Rightarrow> investigation \<Rightarrow> llm_reply option \<Rightarrow> ('z, terr + bool) im" where
  "answer_model cf v reply =
     (case reply of
        None \<Rightarrow> fail ''llm chat''
      | Some x \<Rightarrow> do {
          _ \<leftarrow> AccumulateTokens (inv_id v) (lr_prompt_tokens x) (lr_completion_tokens x);
          attempt (AppendMessage (assistant_msg (inv_id v) (lr_content x) (take 1 (lr_calls x)))) (\<lambda>_. do {
            _ \<leftarrow> publish (inv_id v) EventMessageAppended
                   (JObj [(''role'', JStr ''assistant''), (''content'', JStr (lr_content x)),
                          (''tool_calls'', calls_json cf (take 1 (lr_calls x)))]);
            (case lr_calls x of
               [] \<Rightarrow> do {
                 _ \<leftarrow> AppendMessage (note_msg (inv_id v) no_call_note);
                 return (Inr True)
               }
             | c # rest \<Rightarrow> do {
                 _ \<leftarrow> (if rest = [] then return ()
                       else ignore (AppendMessage (note_msg (inv_id v)
                              (many_calls_note (length (lr_calls x)) (cr_name c)))));
                 propose cf v c (lr_content x)
               })
          })
        })"

text \<open>\<open>callLLM\<close>, when nothing happens between the request and the answer.\<close>

definition callLLM :: "cfg \<Rightarrow> investigation \<Rightarrow> ('z, terr + bool) im" where
  "callLLM cf v = do {
     r \<leftarrow> ask_model cf v;
     (case r of
        Inl e \<Rightarrow> return (Inl e)
      | Inr (AwaitModel w q) \<Rightarrow> do { reply \<leftarrow> chat q; answer_model cf w reply }
      | Inr _ \<Rightarrow> return (Inr False))
   }"

section \<open>Executing an approved call\<close>

definition lastApproved :: "string \<Rightarrow> ('z, serr + call_row option) dbm" where
  "lastApproved i = unless_err (ListToolCalls i) (\<lambda>tcs.
     return (Inr (find_last (\<lambda>c. tc_status c = TcApproved \<or> tc_status c = TcEdited) tcs)))"

definition load_bearing_note :: string where
  "load_bearing_note = ''A load-bearing finding was just recorded (severity '' @ [CHR 0xE2, CHR 0x89, CHR 0xA5]
     @ '' warn, '' @ [CHR 0xE2, CHR 0x89, CHR 0xA5] @ ''2 evidence_refs). Per rule 9, your next tool_call MUST be mark_done OR ask_operator. Further probes (collect, collect_batch, get_full_result, search_artifact, compare_across_hosts, describe_collector) are disabled until you terminate or ask. If root cause is established, call mark_done now with the full summary.''"

text \<open>\<open>json.Unmarshal\<close> into a \<open>json.RawMessage\<close> field: the text of the value, or empty.\<close>

definition summary_text :: "jtext \<Rightarrow> jtext" where
  "summary_text input = fst (decode (field ''summary'' (\<lambda>_ v. (JText v, True)) jempty) input)"

definition exec_after :: "cfg \<Rightarrow> string \<Rightarrow> call_row \<Rightarrow> tool_result \<Rightarrow> ('z, unit) im" where
  "exec_after cf i c r =
     (if tc_tool c = ''mark_done'' then do {
        _ \<leftarrow> FinishInvestigation i InvDone (summary_text (tc_input c));
        pubStatus i InvDone
      }
      else if tc_tool c = ''ask_operator'' then do {
        _ \<leftarrow> UpdateInvestigationStatus i InvWaiting;
        pubStatus i InvWaiting
      }
      else if tc_tool c = ''add_finding'' then
        (if tr_ok r \<and> isLoadBearingFindingInput (tc_input c)
         then ignore (AppendMessage (note_msg i load_bearing_note)) else return ())
      else return ())"

definition exec_finish :: "cfg \<Rightarrow> string \<Rightarrow> call_row \<Rightarrow> tool_result \<Rightarrow> string \<Rightarrow> ('z, terr + bool) im" where
  "exec_finish cf i c r tid =
     attempt (UpdateToolCall (tc_id c) TcExecuted ''auto'' tid (JText (result_json cf r))) (\<lambda>_.
     attempt (AppendMessage (tool_msg i (result_json cf r) (tc_id c))) (\<lambda>_. do {
       _ \<leftarrow> publish i EventToolCallUpdated
              (JObj [(''tool_call_id'', JStr (tc_id c)), (''tool'', JStr (tc_tool c)), (''status'', JStr ''executed''),
                     (''task_id'', JStr tid), (''ok'', JBool (tr_ok r))]);
       _ \<leftarrow> publish i EventMessageAppended
              (JObj [(''role'', JStr ''tool''), (''content'', JStr (c_marshal cf (result_json cf r))),
                     (''tool_call_id'', JStr (tc_id c))]);
       _ \<leftarrow> exec_after cf i c r;
       return (Inr True)
     }))"

definition finish_now :: "cfg \<Rightarrow> string \<Rightarrow> call_row \<Rightarrow> tool_result \<Rightarrow> ('z, terr + step_out) im" where
  "finish_now cf i c r = do {
     x \<leftarrow> exec_finish cf i c r [];
     return (case x of Inl e \<Rightarrow> Inl e | Inr _ \<Rightarrow> Inr Again)
   }"

text \<open>The common course of the two collect branches: the preflights, then the dispatch.\<close>

definition guarded_collect ::
  "cfg \<Rightarrow> string \<Rightarrow> call_row \<Rightarrow> ('z, terr + string list) im \<Rightarrow> (string list \<Rightarrow> string) \<Rightarrow> ('z, terr + step_out) im" where
  "guarded_collect cf i c prepare tid = do {
     blocked \<leftarrow> preflightCollect i c;
     (case blocked of
        Some r \<Rightarrow> finish_now cf i c r
      | None \<Rightarrow> do {
          dup \<leftarrow> preflightCollectEconomy i c;
          (case dup of
             Some r \<Rightarrow> finish_now cf i c r
           | None \<Rightarrow> do {
               e \<leftarrow> prepare;
               (case e of
                  Inl err \<Rightarrow> finish_now cf i c (errResult err)
                | Inr ids \<Rightarrow> return (Inr (AwaitTasks c ids (tid ids))))
             })
        })
   }"

definition first_id :: "string list \<Rightarrow> string" where
  "first_id ids = (case ids of [] \<Rightarrow> [] | x # _ \<Rightarrow> x)"

definition broad_text :: string where
  "broad_text = ''BROAD-SELECTOR: more than '' @ nat_text broadSelectorThreshold @ '' hosts; re-approve to proceed''"

definition executeApproved :: "cfg \<Rightarrow> string \<Rightarrow> call_row \<Rightarrow> ('z, terr + step_out) im" where
  "executeApproved cf i c =
     attempt (GetInvestigation i) (\<lambda>v.
       let en = \<lparr>he_inv = i, he_allowed = inv_allowed v, he_bus = False\<rparr>
       in if tc_tool c = ''collect''
          then guarded_collect cf i c (PrepareCollect cf en (tc_input c)) first_id
          else if tc_tool c = ''collect_batch'' then
            (if needsBroadConfirm c then do {
               _ \<leftarrow> SetToolCallRationale (tc_id c) broad_text;
               attempt (UpdateToolCall (tc_id c) TcPending [] [] jempty) (\<lambda>_. return (Inr Again))
             }
             else guarded_collect cf i c (PrepareCollectBatch cf en (tc_input c)) (join '',''))
          else do {
            r \<leftarrow> Dispatch cf en (tc_tool c) (tc_input c);
            finish_now cf i c r
          })"

section \<open>Waiting for tasks\<close>

fun tasks_terminal :: "string list \<Rightarrow> ('z, bool) dbm" where
  "tasks_terminal [] = return True"
| "tasks_terminal (i # is) = do {
     r \<leftarrow> GetTask i;
     (case r of
        Inl _ \<Rightarrow> return False
      | Inr t \<Rightarrow> if isTerminal (tk_status t) then tasks_terminal is else return False)
   }"

text \<open>The step goes on, after the wait or its deadline.\<close>

definition step_resume :: "cfg \<Rightarrow> string \<Rightarrow> call_row \<Rightarrow> string list \<Rightarrow> string \<Rightarrow> ('z, terr + bool) im" where
  "step_resume cf i c ids tid = do {
     r \<leftarrow> SummarizeTasks cf ids;
     exec_finish cf i c r tid
   }"

section \<open>The step\<close>

definition steps_cap :: "cfg \<Rightarrow> investigation \<Rightarrow> int" where
  "steps_cap cf v = c_max_steps cf + inv_extra_steps v"

definition tokens_cap :: "cfg \<Rightarrow> investigation \<Rightarrow> int" where
  "tokens_cap cf v = c_max_tokens cf + inv_extra_tokens v"

definition tokens_used :: "investigation \<Rightarrow> int" where
  "tokens_used v = inv_prompt_tokens v + inv_completion_tokens v"

definition pause :: "cfg \<Rightarrow> string \<Rightarrow> string \<Rightarrow> string \<Rightarrow> int \<Rightarrow> int \<Rightarrow> ('z, terr + step_out) im" where
  "pause cf i text kind used cap = do {
     _ \<leftarrow> UpdateInvestigationStatus i InvPaused;
     _ \<leftarrow> AppendMessage (text_msg i RoleSystem text);
     _ \<leftarrow> publish i EventBudgetExhausted
            (JObj [(''kind'', JStr kind), (''used'', JInt used), (''cap'', JInt cap)]);
     _ \<leftarrow> pubStatus i InvPaused;
     return (Inr Halt)
   }"

definition steps_text :: "int \<Rightarrow> int \<Rightarrow> string" where
  "steps_text used cap = ''BUDGET PAUSE: max_steps_exceeded (used='' @ int_text used @ '', cap='' @ int_text cap
     @ ''). Operator must extend or finalize.''"

definition tokens_text :: "int \<Rightarrow> int \<Rightarrow> int \<Rightarrow> string" where
  "tokens_text used cap folded = ''BUDGET PAUSE: max_tokens_exceeded (used='' @ int_text used @ '', cap=''
     @ int_text cap @ '', compaction='' @ int_text folded @ ''). Operator must extend or finalize.''"

definition stopped :: "investigation \<Rightarrow> bool" where
  "stopped v = (inv_status v = InvDone \<or> inv_status v = InvAborted \<or> inv_status v = InvPaused)"

definition step_begin :: "cfg \<Rightarrow> string \<Rightarrow> ('z, terr + step_out) im" where
  "step_begin cf i =
     attempt (GetInvestigation i) (\<lambda>v.
       if stopped v then return (Inr Halt)
       else if inv_tool_calls v \<ge> steps_cap cf v
         then pause cf i (steps_text (inv_tool_calls v) (steps_cap cf v)) ''steps'' (inv_tool_calls v) (steps_cap cf v)
       else if tokens_used v \<ge> tokens_cap cf v
         then pause cf i (tokens_text (tokens_used v) (tokens_cap cf v) (inv_compaction_tokens v))
                ''tokens'' (tokens_used v) (tokens_cap cf v)
       else attempt (PendingToolCall i) (\<lambda>p.
         case p of
           Some _ \<Rightarrow> return (Inr Halt)
         | None \<Rightarrow> attempt (lastApproved i) (\<lambda>a.
             case a of
               Some c \<Rightarrow> executeApproved cf i c
             | None \<Rightarrow> ask_model cf v)))"

section \<open>The loop\<close>

text \<open>
  \<open>advance\<close> on an investigation that is already being advanced returns at once; otherwise
  it sets the running flag, which its deferred call clears. A step's error aborts the
  investigation.
\<close>

definition advance_enter :: "string \<Rightarrow> ('z, bool) im" where
  "advance_enter i = State (\<lambda>s.
     if i \<in> set (running s) then (False, s) else (True, s\<lparr>running := i # running s\<rparr>))"

definition advance_leave :: "string \<Rightarrow> ('z, unit) im" where
  "advance_leave i = modify (\<lambda>s. s\<lparr>running := removeAll i (running s)\<rparr>)"

definition advance_error :: "cfg \<Rightarrow> string \<Rightarrow> terr \<Rightarrow> ('z, unit) im" where
  "advance_error cf i e = ignore (FinishInvestigation i InvAborted (c_step_error cf e))"

end
