(* ===== verification/Inv_Frame.thy ===== *)
theory Inv_Frame
  imports Inv_Step
begin

text \<open>
  What the hub's operations leave alone. \<open>leaves f m\<close>: the program \<open>m\<close> never changes the view
  \<open>f\<close> of the state. A store operation leaves every view that does not read the tables it
  writes; the lemmas below say so once, for any such view.
\<close>

named_theorems leaves_intros

definition leaves :: "('s \<Rightarrow> 'v) \<Rightarrow> ('s, 'a) state \<Rightarrow> bool" where
  "leaves f m = (\<forall>s. f (snd (run_state m s)) = f s)"

definition indep :: "(('x \<Rightarrow> 'x) \<Rightarrow> 's \<Rightarrow> 's) \<Rightarrow> ('s \<Rightarrow> 'v) \<Rightarrow> bool" where
  "indep upd f = (\<forall>g s. f (upd g s) = f s)"

lemma leavesD: "leaves f m \<Longrightarrow> f (snd (run_state m s)) = f s"
  by (simp add: leaves_def)

lemma leaves_runD: "leaves f m \<Longrightarrow> run_state m s = (r, s') \<Longrightarrow> f s' = f s"
  using leavesD [of f m s] by simp

lemma leaves_return [leaves_intros]: "leaves f (return x)"
  by (simp add: leaves_def)

lemma leaves_gets [leaves_intros]: "leaves f (gets g)"
  by (simp add: leaves_def)

lemma leaves_bind [leaves_intros]:
  "leaves f m \<Longrightarrow> (\<And>x. leaves f (g x)) \<Longrightarrow> leaves f (State_Monad.bind m g)"
  by (simp add: leaves_def split_def)

lemma leaves_unless_err [leaves_intros]:
  "leaves f m \<Longrightarrow> (\<And>x. leaves f (g x)) \<Longrightarrow> leaves f (unless_err m g)"
  unfolding unless_err_def by (rule leaves_bind) (auto simp: leaves_def split: sum.splits)

lemma leaves_attempt [leaves_intros]:
  "leaves f m \<Longrightarrow> (\<And>x. leaves f (g x)) \<Longrightarrow> leaves f (attempt m g)"
  unfolding attempt_def by (rule leaves_bind) (auto simp: leaves_def split: sum.splits)

lemma leaves_fail [leaves_intros]: "leaves f (fail t)"
  by (simp add: leaves_def fail_def)

lemma leaves_ignore [leaves_intros]: "leaves f m \<Longrightarrow> leaves f (ignore m)"
  by (simp add: leaves_def)

lemma leaves_for_each [leaves_intros]: "(\<And>x. leaves f (g x)) \<Longrightarrow> leaves f (for_each xs g)"
  by (induction xs) (auto intro!: leaves_intros)

lemma leaves_cases [leaves_intros]:
  "leaves f m \<Longrightarrow> leaves f n \<Longrightarrow> leaves f (if b then m else n)"
  "leaves f m \<Longrightarrow> (\<And>x. leaves f (h x)) \<Longrightarrow> leaves f (case r of None \<Rightarrow> m | Some x \<Rightarrow> h x)"
  "(\<And>e. leaves f (k e)) \<Longrightarrow> (\<And>x. leaves f (h x)) \<Longrightarrow> leaves f (case t of Inl e \<Rightarrow> k e | Inr x \<Rightarrow> h x)"
  "(\<And>a b. leaves f (p a b)) \<Longrightarrow> leaves f (case q of (a, b) \<Rightarrow> p a b)"
  "(\<And>a b. leaves f (p2 a b z)) \<Longrightarrow> leaves f ((case q of (a, b) \<Rightarrow> p2 a b) z)"
  "leaves f m \<Longrightarrow> (\<And>x xs. leaves f (l x xs)) \<Longrightarrow> leaves f (case ys of [] \<Rightarrow> m | x # xs \<Rightarrow> l x xs)"
  "(\<And>x. leaves f (h x)) \<Longrightarrow> leaves f (let x = e in h x)"
  by (auto split: option.splits sum.splits prod.splits list.splits)

lemma leaves_modify: "(\<And>s. f (g s) = f s) \<Longrightarrow> leaves f (modify g)"
  by (simp add: leaves_def)

section \<open>Store operations\<close>

lemma leaves_sql:
  assumes "indep faults_update f" and "\<And>s x t. g s = Inr (x, t) \<Longrightarrow> f t = f s"
  shows "leaves f (sql g)"
  using assms by (auto simp: leaves_def indep_def run_sql simp del: run_sql_no_fault faults_Nil split: sum.splits)

lemma leaves_read [leaves_intros]: "indep faults_update f \<Longrightarrow> leaves f (sql_read g)"
  unfolding sql_read_def by (rule leaves_sql) auto

lemma leaves_write: "indep faults_update f \<Longrightarrow> (\<And>s. f (g s) = f s) \<Longrightarrow> leaves f (sql_write g)"
  unfolding sql_write_def by (rule leaves_sql) auto

lemma leaves_draw [leaves_intros]: "indep rnd_update f \<Longrightarrow> leaves f (draw src)"
  by (simp add: leaves_def indep_def)

lemma leaves_reads [leaves_intros]:
  assumes "indep faults_update f"
  shows "leaves f ListHosts" "leaves f (ListCollectorManifests i)" "leaves f (ListTasks i)"
    "leaves f (ListInvestigations n)" "leaves f (ListMessages i a)" "leaves f (ListToolCalls i)"
    "leaves f (PendingToolCall i)" "leaves f (GetTask i)" "leaves f (GetResult i)"
    "leaves f (GetInvestigation i)" "leaves f (VerifyIdentity i fp)"
  unfolding reads_unfold GetTask_def GetResult_def GetInvestigation_def VerifyIdentity_def
  by (auto intro!: leaves_read leaves_sql assms split: option.splits if_splits)

lemma leaves_inventory [leaves_intros]:
  assumes "indep faults_update f"
  shows "indep hosts_update f \<Longrightarrow> leaves f (UpsertHost x)"
    and "indep hosts_update f \<Longrightarrow> leaves f (TouchHost i st)"
    and "indep manifests_update f \<Longrightarrow> leaves f (ReplaceCollectorManifests i mfs)"
    and "indep tokens_update f \<Longrightarrow> leaves f (ConsumeBootstrapToken hash p i)"
    and "indep idents_update f \<Longrightarrow> leaves f (RegisterIdentity i fp via)"
    and "indep idents_update f \<Longrightarrow> leaves f (RevokeIdentity i why)"
  unfolding UpsertHost_def TouchHost_def ReplaceCollectorManifests_def ConsumeBootstrapToken_def
    RegisterIdentity_def RevokeIdentity_def
  by (intro leaves_intros leaves_write leaves_sql assms;
      auto simp: indep_def Let_def split: if_splits option.splits sum.splits)+

lemma leaves_runs [leaves_intros]:
  assumes "indep faults_update f"
  shows "indep runs_update f \<Longrightarrow> leaves f (InsertRun r)"
    and "indep runs_update f \<Longrightarrow> leaves f (FinishRun i rst)"
    and "indep tasks_update f \<Longrightarrow> leaves f (InsertTask t)"
    and "indep tasks_update f \<Longrightarrow> leaves f (StartTask i)"
    and "indep tasks_update f \<Longrightarrow> leaves f (FinishTask i tst ms err)"
    and "indep results_update f \<Longrightarrow> leaves f (UpsertResult x)"
  unfolding InsertRun_def FinishRun_def InsertTask_def StartTask_def FinishTask_def UpsertResult_def
  by (intro leaves_write leaves_sql assms; auto simp: indep_def split: if_splits)+

text \<open>
  What the investigator writes of an investigation keeps its auto-approve flag: a view may
  read the flags and still be left alone.
\<close>

definition inv_frame :: "('z db_scheme \<Rightarrow> 'v) \<Rightarrow> bool" where
  "inv_frame f =
     ((\<forall>i g. (\<forall>v. inv_id (g v) = inv_id v \<and> inv_auto_approve (g v) = inv_auto_approve v) \<longrightarrow> leaves f (update_inv i g))
      \<and> (\<forall>v. leaves f (InsertInvestigation v)))"

lemma leaves_update_inv:
  "indep faults_update f \<Longrightarrow> indep invs_update f \<Longrightarrow> leaves f (update_inv i g)"
  unfolding update_inv_def by (rule leaves_write) (auto simp: indep_def)

lemma inv_frame_indep: "indep faults_update f \<Longrightarrow> indep invs_update f \<Longrightarrow> inv_frame f"
  unfolding inv_frame_def InsertInvestigation_def
  by (auto intro!: leaves_update_inv leaves_sql simp: indep_def split: if_splits)

lemma leaves_investigations [leaves_intros]:
  assumes "inv_frame f"
  shows "leaves f (ExtendBudget i a b)" "leaves f (UpdateInvestigationStatus i st)"
    "leaves f (AccumulateCompactionTokens i a)" "leaves f (AccumulateTokens i a b)"
    "leaves f (IncrementToolCalls i)" "leaves f (FinishInvestigation i st t)" "leaves f (InsertInvestigation v)"
  using assms unfolding inv_frame_def ExtendBudget_def UpdateInvestigationStatus_def AccumulateCompactionTokens_def
    AccumulateTokens_def IncrementToolCalls_def FinishInvestigation_def
  by simp_all

lemma leaves_SetAutoApprove [leaves_intros]:
  "indep faults_update f \<Longrightarrow> indep invs_update f \<Longrightarrow> leaves f (SetAutoApprove i on)"
  unfolding SetAutoApprove_def by (rule leaves_update_inv)

lemma leaves_update_call:
  "indep faults_update f \<Longrightarrow> indep calls_update f \<Longrightarrow> leaves f (update_call i g)"
  unfolding update_call_def by (rule leaves_write) (auto simp: indep_def)

lemma leaves_calls [leaves_intros]:
  assumes "indep faults_update f" and "indep calls_update f"
  shows "leaves f (SetToolCallInput i t)" "leaves f (SetToolCallRationale i x)"
    "leaves f (SetToolCallBroadConfirmed i b)" "leaves f (UpdateToolCall i st by tid t)"
    "leaves f (InsertToolCall c)"
  unfolding SetToolCallInput_def SetToolCallRationale_def SetToolCallBroadConfirmed_def UpdateToolCall_def
    InsertToolCall_def
  using assms by (auto intro!: leaves_update_call leaves_sql simp: indep_def split: if_splits)

lemma leaves_messages [leaves_intros]:
  assumes "indep faults_update f" and "indep msgs_update f"
  shows "indep last_msg_id_update f \<Longrightarrow> leaves f (AppendMessage m)"
    and "leaves f (MarkMessagesArchived i n)" "leaves f (unarchiveSeqs i qs)"
proof -
  show "indep last_msg_id_update f \<Longrightarrow> leaves f (AppendMessage m)"
    using assms unfolding AppendMessage_def
    by (auto intro!: leaves_sql simp: indep_def Let_def split: if_splits)
  show "leaves f (MarkMessagesArchived i n)"
    using assms unfolding MarkMessagesArchived_def by (auto intro!: leaves_write simp: indep_def)
  show "leaves f (unarchiveSeqs i qs)"
    using assms unfolding unarchiveSeqs_def
    by (induction qs) (auto intro!: leaves_intros leaves_write simp: indep_def)
qed

lemma leaves_access [leaves_intros]:
  assumes "indep faults_update f"
  shows "indep findings_update f \<Longrightarrow> leaves f (AddFinding x)"
    and "indep findings_update f \<Longrightarrow> leaves f (SetFindingPinned i b)"
    and "indep findings_update f \<Longrightarrow> leaves f (SetFindingIgnored i b)"
    and "indep audit_update f \<Longrightarrow> indep last_audit_id_update f \<Longrightarrow> leaves f (AuditLog a c d)"
  unfolding AddFinding_def SetFindingPinned_def SetFindingIgnored_def AuditLog_def
  by (intro leaves_write leaves_sql assms; auto simp: indep_def Let_def split: if_splits)+

section \<open>The hub's own state\<close>

lemma leaves_hub [leaves_intros]:
  shows "indep bus_update f \<Longrightarrow> leaves f (publish i ty d)"
    and "indep spawned_update f \<Longrightarrow> leaves f (spawn i)"
    and "indep cooldown_update f \<Longrightarrow> leaves f (markCompactCooldown i n)"
    and "leaves f (inCompactCooldown i)"
    and "indep script_update f \<Longrightarrow> indep asked_update f \<Longrightarrow> leaves f (chat q)"
    and "leaves f (IsOnline h)"
    and "indep streams_update f \<Longrightarrow> indep dispatched_update f \<Longrightarrow> leaves f (SendCollect h rq)"
    and "indep limiter_update f \<Longrightarrow> leaves f (limiter_allow h)"
    and "indep pending_update f \<Longrightarrow> leaves f (register_task t1 t2 t3 t4)"
    and "indep pending_update f \<Longrightarrow> leaves f (unregister_task t1)"
    and "indep open_arts_update f \<Longrightarrow> leaves f (closeOpenArtifacts t1)"
  unfolding publish_def spawn_def markCompactCooldown_def inCompactCooldown_def chat_def IsOnline_def
    SendCollect_def limiter_allow_def register_task_def unregister_task_def closeOpenArtifacts_def
  by (auto intro!: leaves_intros leaves_modify simp: indep_def leaves_def Let_def split: option.splits prod.splits)

lemma leaves_write_chunk:
  "indep files_update f \<Longrightarrow> indep open_arts_update f \<Longrightarrow> f (write_chunk fe a oa s) = f s"
  by (simp add: write_chunk_def indep_def Let_def)

lemma leaves_OnArtifact [leaves_intros]:
  assumes "indep files_update f" and "indep open_arts_update f"
  shows "leaves f (OnArtifact fe agent a)"
  unfolding OnArtifact_def
  by (rule leaves_modify)
    (use assms leaves_write_chunk [OF assms] in \<open>auto simp: Let_def indep_def split: option.splits\<close>)

section \<open>Programs of the investigator\<close>

text \<open>
  A quiet view reads none of what the investigator's programs write, the tool calls, the
  running flags and the requests put into the queues apart.
\<close>

definition quiet :: "('z inv_scheme \<Rightarrow> 'v) \<Rightarrow> bool" where
  "quiet f =
     (indep hosts_update f \<and> indep manifests_update f \<and> indep tokens_update f \<and> indep idents_update f \<and>
      indep runs_update f \<and> indep tasks_update f \<and> indep results_update f \<and> inv_frame f \<and>
      indep msgs_update f \<and> indep findings_update f \<and> indep audit_update f \<and> indep last_msg_id_update f \<and>
      indep last_audit_id_update f \<and> indep faults_update f \<and> indep rnd_update f \<and> indep limiter_update f \<and>
      indep pending_update f \<and> indep open_arts_update f \<and> indep files_update f \<and> indep streams_update f \<and>
      indep next_handle_update f \<and> indep cancelled_update f \<and> indep bus_update f \<and> indep cooldown_update f \<and>
      indep spawned_update f \<and> indep script_update f \<and> indep asked_update f)"

lemma quiet_parts [leaves_intros]:
  "quiet f \<Longrightarrow> indep hosts_update f"
  "quiet f \<Longrightarrow> indep manifests_update f"
  "quiet f \<Longrightarrow> indep tokens_update f"
  "quiet f \<Longrightarrow> indep idents_update f"
  "quiet f \<Longrightarrow> indep runs_update f"
  "quiet f \<Longrightarrow> indep tasks_update f"
  "quiet f \<Longrightarrow> indep results_update f"
  "quiet f \<Longrightarrow> inv_frame f"
  "quiet f \<Longrightarrow> indep msgs_update f"
  "quiet f \<Longrightarrow> indep findings_update f"
  "quiet f \<Longrightarrow> indep audit_update f"
  "quiet f \<Longrightarrow> indep last_msg_id_update f"
  "quiet f \<Longrightarrow> indep last_audit_id_update f"
  "quiet f \<Longrightarrow> indep faults_update f"
  "quiet f \<Longrightarrow> indep rnd_update f"
  "quiet f \<Longrightarrow> indep limiter_update f"
  "quiet f \<Longrightarrow> indep pending_update f"
  "quiet f \<Longrightarrow> indep open_arts_update f"
  "quiet f \<Longrightarrow> indep files_update f"
  "quiet f \<Longrightarrow> indep streams_update f"
  "quiet f \<Longrightarrow> indep next_handle_update f"
  "quiet f \<Longrightarrow> indep cancelled_update f"
  "quiet f \<Longrightarrow> indep bus_update f"
  "quiet f \<Longrightarrow> indep cooldown_update f"
  "quiet f \<Longrightarrow> indep spawned_update f"
  "quiet f \<Longrightarrow> indep script_update f"
  "quiet f \<Longrightarrow> indep asked_update f"
  by (simp_all add: quiet_def)

text \<open>The investigations whose auto-approve flag is set.\<close>

definition auto_on :: "'z db_scheme \<Rightarrow> string set" where
  "auto_on s = set (map inv_id (filter inv_auto_approve (invs s)))"

lemma auto_rows_update:
  assumes "\<And>v. inv_id (h v) = inv_id v" and "\<And>v. inv_auto_approve (h v) = inv_auto_approve v"
  shows "map inv_id (filter inv_auto_approve (update_rows P h rows)) = map inv_id (filter inv_auto_approve rows)"
  by (induction rows) (simp_all add: assms)

lemma auto_on_frame: "inv_frame auto_on"
proof -
  have "leaves auto_on (update_inv i g)"
    if "\<And>v. inv_id (g v) = inv_id v \<and> inv_auto_approve (g v) = inv_auto_approve v" for i and g
    unfolding update_inv_def
    by (rule leaves_write) (simp_all only: indep_def auto_on_def, simp_all add: auto_rows_update that del: set_map)
  moreover have "leaves auto_on (InsertInvestigation v)" for v
    unfolding InsertInvestigation_def
    by (rule leaves_sql) (auto simp: indep_def auto_on_def split: if_splits)
  ultimately show ?thesis unfolding inv_frame_def by blast
qed

lemma inv_frame_views:
  "inv_frame calls" "inv_frame running" "inv_frame dispatched" "inv_frame auto_on"
  by (rule inv_frame_indep; simp add: indep_def; fail)+ (rule auto_on_frame)

lemma quiet_views [leaves_intros, simp]:
  "quiet calls" "quiet running" "quiet dispatched" "quiet auto_on"
  "indep dispatched_update calls" "indep dispatched_update running" "indep dispatched_update auto_on"
  "indep calls_update running" "indep calls_update dispatched" "indep calls_update auto_on"
  "indep running_update calls" "indep running_update auto_on"
  unfolding quiet_def by (simp_all add: inv_frame_views) (simp_all add: indep_def auto_on_def)

lemma leaves_publishing [leaves_intros]:
  assumes "quiet f"
  shows "leaves f (pubMessage cf i m)" "leaves f (pubStatus i st)" "leaves f (pubToolCall cf i c x ty)"
  unfolding pubMessage_def pubStatus_def pubToolCall_def by (intro leaves_intros assms)+

lemma leaves_list_hosts_loop: "quiet f \<Longrightarrow> leaves f (list_hosts_loop cf en sel hs)"
  by (induction hs) (auto intro!: leaves_intros simp: manifests_of_def)

lemma leaves_catalog_loop: "quiet f \<Longrightarrow> leaves f (catalog_loop cat hs out)"
  by (induction hs arbitrary: out) (auto intro!: leaves_intros simp: manifests_of_def)

lemma leaves_describe_loop: "quiet f \<Longrightarrow> leaves f (describe_loop nm hs)"
  by (induction hs) (auto intro!: leaves_intros simp: manifests_of_def)

lemma leaves_task_views: "quiet f \<Longrightarrow> leaves f (task_views cf ids)"
  by (induction ids) (auto intro!: leaves_intros)

lemma leaves_compare_rows: "quiet f \<Longrightarrow> leaves f (compare_rows ids)"
  by (induction ids) (auto intro!: leaves_intros)

lemma leaves_check_refs: "quiet f \<Longrightarrow> leaves f (check_refs ids)"
  by (induction ids) (auto intro!: leaves_intros)

lemma leaves_SummarizeTasks [leaves_intros]: "quiet f \<Longrightarrow> leaves f (SummarizeTasks cf ids)"
  unfolding SummarizeTasks_def by (intro leaves_intros leaves_task_views)

text \<open>The handlers that reach no host.\<close>

lemma leaves_handlers [leaves_intros]:
  assumes "quiet f"
  shows "leaves f (handleListHosts cf en args)" "leaves f (handleListCollectors args)"
    "leaves f (handleDescribeCollector args)" "leaves f (handleGetFullResult args)"
    "leaves f (handleSearchArtifact cf args)" "leaves f (handleCompareAcrossHosts args)"
    "leaves f (handleAddFinding cf en args)"
  unfolding handleListHosts_def handleListCollectors_def handleDescribeCollector_def handleGetFullResult_def
    handleSearchArtifact_def handleCompareAcrossHosts_def handleAddFinding_def Let_def
  by (intro leaves_intros leaves_list_hosts_loop leaves_catalog_loop leaves_describe_loop leaves_compare_rows
        leaves_check_refs assms)+

lemma leaves_CreateRun:
  assumes "quiet f" and "indep dispatched_update f"
  shows "leaves f (CreateRun ids IsOnline SendCollect req)"
  unfolding CreateRun_def dispatch_task_def send_task_def newID_def Let_def
  by (intro leaves_intros assms)

lemma leaves_collects:
  assumes "quiet f" and "indep dispatched_update f"
  shows "leaves f (PrepareCollect cf en args)" "leaves f (PrepareCollectBatch cf en args)"
    "leaves f (handleCollect cf en args)" "leaves f (handleCollectBatch cf en args)"
  unfolding handleCollect_def handleCollectBatch_def PrepareCollect_def PrepareCollectBatch_def run_tasks_def Let_def
  by (intro leaves_intros leaves_CreateRun assms)+

lemma leaves_Dispatch:
  assumes "quiet f" and "indep dispatched_update f"
  shows "leaves f (Dispatch cf en tool args)"
  unfolding Dispatch_def by (intro leaves_intros leaves_collects assms)

text \<open>Outside the two collect tools nothing is sent.\<close>

lemma Dispatch_sends_nothing:
  assumes "tool \<noteq> ''collect''" and "tool \<noteq> ''collect_batch''"
  shows "leaves dispatched (Dispatch cf en tool args)"
  unfolding Dispatch_def using assms
  by (simp only: if_False simp_thms) (intro leaves_intros)

lemma leaves_check_hosts: "quiet f \<Longrightarrow> leaves f (check_hosts i hs)"
  by (induction hs) (auto intro!: leaves_intros simp: check_host_def)

lemma leaves_gates [leaves_intros]:
  assumes "quiet f"
  shows "leaves f (postFindingRestricted i)" "leaves f (preflightCollect i c)"
    "leaves f (preflightCollectEconomy i c)"
  unfolding postFindingRestricted_def preflightCollect_def preflightCollectEconomy_def
  by (intro leaves_intros leaves_check_hosts assms)+

lemma leaves_compact [leaves_intros]: "quiet f \<Longrightarrow> leaves f (compact cf i)"
  unfolding compact_def compact_store_def by (intro leaves_intros)

lemma leaves_loop [leaves_intros]:
  assumes "quiet f"
  shows "leaves f (model_request cf v ms)" "leaves f (nextSeq i)" "leaves f (lastApproved i)"
    "leaves f (pause cf i t k a b)" "leaves f (exec_after cf i c r)" "leaves f (advance_error cf i e)"
  unfolding model_request_def nextSeq_def lastApproved_def pause_def exec_after_def advance_error_def
  by (intro leaves_intros assms)+

lemma leaves_ask_model [leaves_intros]: "quiet f \<Longrightarrow> leaves f (ask_model cf v)"
  unfolding ask_model_def by (intro leaves_intros)

text \<open>What writes tool calls.\<close>

lemma leaves_turns:
  assumes "quiet f" and "indep calls_update f"
  shows "leaves f (answer_model cf v r)" "leaves f (exec_finish cf i c tr tid)" "leaves f (finish_now cf i c tr)"
    "leaves f (step_resume cf i c ids tid)"
proof -
  show ef: "leaves f (exec_finish cf i c tr tid)" for tr tid
    unfolding exec_finish_def by (intro leaves_intros assms)
  show "leaves f (answer_model cf v r)"
    unfolding answer_model_def propose_def Let_def by (intro leaves_intros assms)
  show "leaves f (finish_now cf i c tr)" unfolding finish_now_def by (intro leaves_intros ef)
  show "leaves f (step_resume cf i c ids tid)" unfolding step_resume_def by (intro leaves_intros ef assms)
qed

lemma leaves_guarded:
  assumes "quiet f" and "indep calls_update f" and "leaves f p"
  shows "leaves f (guarded_collect cf i c p tid)"
  unfolding guarded_collect_def by (intro leaves_intros leaves_turns assms)

lemma leaves_step:
  assumes "quiet f" and "indep calls_update f" and "indep dispatched_update f"
  shows "leaves f (step_begin cf i)"
  unfolding step_begin_def executeApproved_def Let_def
  by (intro leaves_intros leaves_guarded leaves_collects leaves_Dispatch leaves_turns assms)

lemma leaves_decisions:
  assumes "quiet f" and "indep calls_update f"
  shows "leaves f (DecideWithEdit cf i d t by)" "leaves f (InjectHypothesis cf i a b c by)"
  unfolding DecideWithEdit_def decide_approve_def decide_edit_def decide_skip_def decide_end_def decide_done_def
    InjectHypothesis_def discard_pending_def Let_def
  by (intro leaves_intros assms)+

lemma leaves_operator [leaves_intros]:
  assumes "quiet f"
  shows "leaves f (Start cf g by hs)" "leaves f (Resume cf)" "leaves f (Extend cf i n m by)"
    "leaves f (Finalize cf i by)" "leaves f (InjectRestoreNote i a b)" "leaves f (InjectIgnoreNote i a b)"
  unfolding Start_def Resume_def resume_one_def Extend_def Finalize_def InjectRestoreNote_def InjectIgnoreNote_def Let_def
  by (intro leaves_intros assms)+

end
