(* ===== verification/Inv_System.thy ===== *)
theory Inv_System
  imports Inv_Frame
begin

text \<open>
  The hub as a transition system. A state is the hub's state with the goroutines that
  advance investigations; a transition is an operation of an operator, an agent or a
  poller, the start of a spawned goroutine, or a goroutine going on to where it next waits.
  Any interleaving of these is a run.
\<close>

section \<open>Operations from outside\<close>

record world =
  wo_cfg :: cfg
  wo_dir :: string
  wo_fs :: fs_env
  wo_hash :: "string \<Rightarrow> string"
  wo_pki :: pki

datatype hub_op =
    HStart string string "string list"
  | HResume
  | HDecide string string jtext string
  | HExtend string int int string
  | HFinalize string string
  | HHypothesis string string string string string
  | HAutoApprove string bool
  | HIgnoreFinding string string string string
  | HRestoreFinding string string string string
  | HRun run_request
  | HEnroll enroll_request
  | HConnect "(string \<times> string) option" "wire_msg option"
  | HMessage conn wire_msg
  | HClose conn
  | HPump string
  | HPoll string
  | HClock instant

fun hub_exec :: "world \<Rightarrow> hub_op \<Rightarrow> ('z, unit) im" where
  "hub_exec w (HStart goal by hs) = ignore (Start (wo_cfg w) goal by hs)"
| "hub_exec w HResume = ignore (Resume (wo_cfg w))"
| "hub_exec w (HDecide i d t by) = ignore (DecideWithEdit (wo_cfg w) i d t by)"
| "hub_exec w (HExtend i n m by) = ignore (Extend (wo_cfg w) i n m by)"
| "hub_exec w (HFinalize i by) = ignore (Finalize (wo_cfg w) i by)"
| "hub_exec w (HHypothesis i a b c by) = ignore (InjectHypothesis (wo_cfg w) i a b c by)"
| "hub_exec w (HAutoApprove i on) = ignore (SetAutoApprove i on)"
| "hub_exec w (HIgnoreFinding f i a b) = do { _ \<leftarrow> SetFindingIgnored f True; ignore (InjectIgnoreNote i a b) }"
| "hub_exec w (HRestoreFinding f i a b) = do { _ \<leftarrow> SetFindingIgnored f False; ignore (InjectRestoreNote i a b) }"
| "hub_exec w (HRun req) = ignore (CreateRun (c_ids (wo_cfg w)) IsOnline SendCollect req)"
| "hub_exec w (HEnroll req) = ignore (Enroll (wo_hash w) (wo_pki w) req)"
| "hub_exec w (HConnect peer first) = ignore (connect_open peer first)"
| "hub_exec w (HMessage c m) = ignore (connect_msg (OnResult (wo_dir w)) (OnArtifact (wo_fs w)) c m)"
| "hub_exec w (HClose c) = connect_close c"
| "hub_exec w (HPump h) = ignore (pump h)"
| "hub_exec w (HPoll r) = ignore (watch_poll r)"
| "hub_exec w (HClock t) = modify (\<lambda>s. s\<lparr>clock := t\<rparr>)"

section \<open>Goroutines\<close>

datatype thread =
    Turn string
  | AtModel string investigation llm_request
  | AtTasks string call_row "string list" string
  | Leaving string

fun thread_inv :: "thread \<Rightarrow> string" where
  "thread_inv (Turn i) = i"
| "thread_inv (AtModel i v q) = i"
| "thread_inv (AtTasks i c ids tid) = i"
| "thread_inv (Leaving i) = i"

definition settle :: "cfg \<Rightarrow> string \<Rightarrow> terr + bool \<Rightarrow> ('z, thread) im" where
  "settle cf i r =
     (case r of
        Inl e \<Rightarrow> do { _ \<leftarrow> advance_error cf i e; return (Leaving i) }
      | Inr again \<Rightarrow> return (if again then Turn i else Leaving i))"

fun place :: "string \<Rightarrow> step_out \<Rightarrow> thread" where
  "place i Again = Turn i"
| "place i Halt = Leaving i"
| "place i (AwaitModel v q) = AtModel i v q"
| "place i (AwaitTasks c ids tid) = AtTasks i c ids tid"

text \<open>
  A goroutine goes on: \<open>advance\<close>'s loop body up to the next wait, and after it. Waiting for
  tasks may end at any time (the code's deadline).
\<close>

fun thread_run :: "cfg \<Rightarrow> thread \<Rightarrow> ('z, thread option) im" where
  "thread_run cf (Turn i) = do {
     r \<leftarrow> step_begin cf i;
     (case r of
        Inl e \<Rightarrow> do { t \<leftarrow> settle cf i (Inl e); return (Some t) }
      | Inr x \<Rightarrow> return (Some (place i x)))
   }"
| "thread_run cf (AtModel i v q) = do {
     reply \<leftarrow> chat q;
     r \<leftarrow> answer_model cf v reply;
     t \<leftarrow> settle cf i r;
     return (Some t)
   }"
| "thread_run cf (AtTasks i c ids tid) = do {
     r \<leftarrow> step_resume cf i c ids tid;
     t \<leftarrow> settle cf i r;
     return (Some t)
   }"
| "thread_run cf (Leaving i) = do {
     _ \<leftarrow> advance_leave i;
     return None
   }"

section \<open>Transitions and runs\<close>

type_synonym 'z hub = "'z inv_scheme \<times> thread list"

datatype label = Act hub_op | Wake nat | Run nat

definition wake :: "nat \<Rightarrow> 'z hub \<Rightarrow> 'z hub" where
  "wake n h =
     (case h of (s, ts) \<Rightarrow>
        if n < length (spawned s)
        then (let i = spawned s ! n;
                  (go, s') = run_state (advance_enter i) (s\<lparr>spawned := take n (spawned s) @ drop (Suc n) (spawned s)\<rparr>)
              in (s', if go then ts @ [Turn i] else ts))
        else (s, ts))"

definition go_on :: "cfg \<Rightarrow> nat \<Rightarrow> 'z hub \<Rightarrow> 'z hub" where
  "go_on cf n h =
     (case h of (s, ts) \<Rightarrow>
        if n < length ts
        then (let (t, s') = run_state (thread_run cf (ts ! n)) s
              in (s', take n ts @ (case t of None \<Rightarrow> [] | Some x \<Rightarrow> [x]) @ drop (Suc n) ts))
        else (s, ts))"

fun hub_step :: "world \<Rightarrow> label \<Rightarrow> 'z hub \<Rightarrow> 'z hub" where
  "hub_step w (Act a) (s, ts) = (snd (run_state (hub_exec w a) s), ts)"
| "hub_step w (Wake n) h = wake n h"
| "hub_step w (Run n) h = go_on (wo_cfg w) n h"

inductive hub_run :: "world \<Rightarrow> 'z inv_scheme \<Rightarrow> label list \<Rightarrow> 'z hub \<Rightarrow> bool" for w s0 where
  start: "hub_run w s0 [] (s0, [])"
| step: "hub_run w s0 ls h \<Longrightarrow> hub_run w s0 (ls @ [l]) (hub_step w l h)"

inductive_cases hub_run_snocE: "hub_run w s0 (ls @ [l]) h"

lemma hub_run_append:
  "hub_run w s0 ls h \<Longrightarrow> hub_run w s0 (ls @ ls') (foldl (\<lambda>h l. hub_step w l h) h ls')"
proof (induction ls' arbitrary: ls h)
  case (Cons l ls')
  from hub_run.step [OF Cons.prems, of l] Cons.IH [of "ls @ [l]" "hub_step w l h"] show ?case by simp
qed simp

lemma hub_run_foldl: "hub_run w s0 ls (foldl (\<lambda>h l. hub_step w l h) (s0, []) ls)"
  using hub_run_append [OF hub_run.start, of w s0 ls] by simp

lemma hub_run_iff: "hub_run w s0 ls h \<longleftrightarrow> h = foldl (\<lambda>h l. hub_step w l h) (s0, []) ls"
proof
  show "hub_run w s0 ls h \<Longrightarrow> h = foldl (\<lambda>h l. hub_step w l h) (s0, []) ls"
    by (induction rule: hub_run.induct) simp_all
qed (simp add: hub_run_foldl)

text \<open>
  An invariant of runs, from what the three kinds of transitions keep.
\<close>

lemma hub_run_invariant:
  assumes run: "hub_run w s0 ls (s, ts)" and start: "P [] s0 []"
    and act: "\<And>ls s ts a. hub_run w s0 ls (s, ts) \<Longrightarrow> P ls s ts \<Longrightarrow> P (ls @ [Act a]) (snd (run_state (hub_exec w a) s)) ts"
    and wake: "\<And>ls s ts n. hub_run w s0 ls (s, ts) \<Longrightarrow> P ls s ts \<Longrightarrow> P (ls @ [Wake n]) (fst (wake n (s, ts))) (snd (wake n (s, ts)))"
    and go: "\<And>ls s ts n. hub_run w s0 ls (s, ts) \<Longrightarrow> P ls s ts
        \<Longrightarrow> P (ls @ [Run n]) (fst (go_on (wo_cfg w) n (s, ts))) (snd (go_on (wo_cfg w) n (s, ts)))"
  shows "P ls s ts"
proof -
  have "hub_run w s0 ls h \<Longrightarrow> P ls (fst h) (snd h)" for h
  proof (induction rule: hub_run.induct)
    case start
    then show ?case using assms(2) by simp
  next
    case (step ls h l)
    obtain s ts where h: "h = (s, ts)" by (cases h)
    show ?case using act [of ls s ts] wake [of ls s ts] go [of ls s ts] step unfolding h by (cases l) simp_all
  qed
  from this [OF run] show ?thesis by simp
qed

end
