(* ===== verification/Inv_Mutex.thy ===== *)
theory Inv_Mutex
  imports Inv_System
begin

text \<open>
  The running flag: at any time at most one goroutine advances an investigation. And what
  the flag costs: a wakeup that comes while the goroutine is leaving is lost.
\<close>

section \<open>What the transitions leave alone\<close>

lemma leaves_agents [leaves_intros]:
  assumes "quiet f"
  shows "leaves f (Enroll hash pk req)" "leaves f (connect_open peer first)"
    "leaves f (connect_defer c)" "leaves f (connect_close c)" "leaves f (pump h)" "leaves f (watch_poll r)"
    "leaves f (OnResult dir h x)"
proof -
  have upd: "indep streams_update f" "indep cancelled_update f" "indep next_handle_update f"
    using assms by (simp_all add: quiet_def)
  have st: "leaves f (registerStream h n)" "leaves f (unregisterStream h)" "leaves f (pump h)"
    "leaves f (modify (\<lambda>s. s\<lparr>cancelled := n # cancelled s\<rparr>))" "leaves f (modify (\<lambda>s. s\<lparr>next_handle := n\<rparr>))" for h n
    using upd unfolding registerStream_def unregisterStream_def pump_def
    by (auto simp: indep_def leaves_def intro!: leaves_modify split: option.splits list.splits)
  show "leaves f (pump h)" by (rule st)
  show "leaves f (Enroll hash pk req)" unfolding Enroll_def by (intro leaves_intros assms)
  show cd: "leaves f (connect_defer c)" unfolding connect_defer_def by (intro leaves_intros st)
  show "leaves f (connect_close c)" unfolding connect_close_def by (intro leaves_intros cd assms)
  show "leaves f (watch_poll r)" unfolding watch_poll_def by (intro leaves_intros assms)
  show "leaves f (OnResult dir h x)" unfolding OnResult_def by (intro leaves_intros assms)
  show "leaves f (connect_open peer first)"
    unfolding connect_open_def applyHello_def
    by (auto split: option.splits wire_msg.splits prod.splits intro!: leaves_intros st assms)
qed

lemma leaves_connect_msg [leaves_intros]:
  "quiet f \<Longrightarrow> leaves f (connect_msg (OnResult dir) (OnArtifact fe) c m)"
  unfolding connect_msg_def applyHello_def
  by (cases m) (auto intro!: leaves_intros)

lemma leaves_hub_exec:
  assumes "quiet f" and "indep dispatched_update f" and "indep clock_update f"
    and "\<And>i on. a = HAutoApprove i on \<Longrightarrow> leaves f (SetAutoApprove i on)"
    and "\<And>i d t by. a = HDecide i d t by \<Longrightarrow> leaves f (DecideWithEdit (wo_cfg w) i d t by)"
    and "\<And>i x y z by. a = HHypothesis i x y z by \<Longrightarrow> leaves f (InjectHypothesis (wo_cfg w) i x y z by)"
  shows "leaves f (hub_exec w a)"
proof (cases a)
  case (HAutoApprove i on)
  then show ?thesis using assms(4) by (simp add: leaves_def)
next
  case (HDecide i d t b)
  then show ?thesis using assms(5) by (simp add: leaves_def)
next
  case (HHypothesis i x y z b)
  then show ?thesis using assms(6) by (simp add: leaves_def)
next
  case (HClock t)
  then show ?thesis using assms(3) by (simp add: leaves_def indep_def)
qed (simp_all only: hub_exec.simps,
     (intro leaves_intros leaves_CreateRun assms(1,2))+)

lemma leaves_settle: "quiet f \<Longrightarrow> leaves f (settle cf i r)"
  unfolding settle_def by (intro leaves_intros)

lemma leaves_thread_run:
  assumes "quiet f" and "indep calls_update f" and "indep dispatched_update f" and "t \<noteq> Leaving (thread_inv t)"
  shows "leaves f (thread_run cf t)"
  using assms(4)
  by (cases t) (simp_all, (intro leaves_intros leaves_step leaves_settle leaves_turns assms(1-3))+)

lemma running_indep_clock: "indep clock_update running" "indep clock_update calls" "indep clock_update auto_on"
  by (simp_all add: indep_def auto_on_def)

section \<open>One goroutine per investigation\<close>

lemma settle_inv: "run_state (settle cf i r) s = (t, s') \<Longrightarrow> thread_inv t = i"
  by (auto simp: settle_def split: sum.splits prod.splits if_splits)

lemma place_inv: "thread_inv (place i x) = i"
  by (cases x) auto

lemma thread_run_inv:
  "run_state (thread_run cf t) s = (Some t', s') \<Longrightarrow> thread_inv t' = thread_inv t"
  by (cases t) (auto split: prod.splits sum.splits simp: place_inv dest: settle_inv)

lemma replace_same_key: "n < length ts \<Longrightarrow> k x = k (ts ! n) \<Longrightarrow> map k (take n ts @ x # drop (Suc n) ts) = map k ts"
  using upd_conv_take_nth_drop [of n ts x] by (metis list_update_id map_update)

lemma remove_at:
  assumes "distinct (map k ts)" and "n < length ts"
  shows "distinct (map k (take n ts @ drop (Suc n) ts))"
    and "k ` set (take n ts @ drop (Suc n) ts) = k ` set ts - {k (ts ! n)}"
proof -
  have ts: "ts = take n ts @ ts ! n # drop (Suc n) ts" using assms(2) by (simp add: id_take_nth_drop)
  have d: "distinct (map k (take n ts @ ts ! n # drop (Suc n) ts))" using assms(1) ts by simp
  then show "distinct (map k (take n ts @ drop (Suc n) ts))" by simp
  have "k ` set ts = insert (k (ts ! n)) (k ` set (take n ts @ drop (Suc n) ts))"
    by (subst ts) auto
  moreover have "k (ts ! n) \<notin> k ` set (take n ts @ drop (Suc n) ts)" using d by auto
  ultimately show "k ` set (take n ts @ drop (Suc n) ts) = k ` set ts - {k (ts ! n)}" by blast
qed

definition flagged :: "'z inv_scheme \<Rightarrow> thread list \<Rightarrow> bool" where
  "flagged s ts = (distinct (map thread_inv ts) \<and> set (running s) = thread_inv ` set ts)"

lemma flagged_wake: "flagged s ts \<Longrightarrow> flagged (fst (wake n (s, ts))) (snd (wake n (s, ts)))"
  by (auto simp: flagged_def wake_def advance_enter_def Let_def)

lemma flagged_go_on:
  assumes "flagged s ts"
  shows "flagged (fst (go_on cf n (s, ts))) (snd (go_on cf n (s, ts)))"
proof (cases "n < length ts")
  case True
  obtain t s' where r: "run_state (thread_run cf (ts ! n)) s = (t, s')" by fastforce
  show ?thesis
  proof (cases "ts ! n = Leaving (thread_inv (ts ! n))")
    case True
    then obtain i where i: "ts ! n = Leaving i" by metis
    with r have "t = None" "running s' = removeAll i (running s)"
      by (auto simp: advance_leave_def)
    with assms r i \<open>n < length ts\<close> show ?thesis
      using remove_at [of thread_inv ts n] by (simp add: flagged_def go_on_def)
  next
    case False
    have "running s' = running s"
      by (rule leaves_runD [OF leaves_thread_run r]) (use False in simp_all)
    moreover obtain t' where t': "t = Some t'" using r False
      by (cases "ts ! n") (auto split: prod.splits sum.splits)
    moreover have "thread_inv t' = thread_inv (ts ! n)" using thread_run_inv r t' by blast
    moreover have m: "map thread_inv (take n ts @ t' # drop (Suc n) ts) = map thread_inv ts"
      using \<open>n < length ts\<close> calculation(3) by (rule replace_same_key)
    moreover have "thread_inv ` set (take n ts @ t' # drop (Suc n) ts) = thread_inv ` set ts"
      using arg_cong [OF m, of set] by (simp only: set_map)
    ultimately show ?thesis using assms r \<open>n < length ts\<close> by (simp add: flagged_def go_on_def)
  qed
qed (use assms in \<open>simp add: go_on_def\<close>)

text \<open>
  C22: However operators, agents and goroutines interleave, at most one goroutine advances
  an investigation at any time, and the running flag is set exactly for the investigations
  one is advancing.
\<close>
theorem one_goroutine_per_investigation:
  assumes "hub_run w s0 ls (s, ts)" and "running s0 = []"
  shows "distinct (map thread_inv ts) \<and> (\<forall>i. i \<in> set (running s) \<longleftrightarrow> (\<exists>t \<in> set ts. thread_inv t = i))"
proof -
  have "flagged s ts"
  proof (rule hub_run_invariant [OF assms(1), of "\<lambda>ls s ts. flagged s ts"])
    fix ls s ts a assume "flagged s ts"
    then show "flagged (snd (run_state (hub_exec w a) s)) ts"
      using leavesD [OF leaves_hub_exec, of running a w s]
      by (simp add: flagged_def running_indep_clock leaves_SetAutoApprove leaves_decisions indep_def)
  qed (simp add: flagged_def assms(2), (erule flagged_wake flagged_go_on)+)
  then show ?thesis by (auto simp: flagged_def)
qed

end
