(* ===== verification/Inv_Calls.thy ===== *)
theory Inv_Calls
  imports Inv_Mutex
begin

text \<open>
  The life of a tool call through the interleavings of the hub: at most one call of an
  investigation is undecided or about to run, none while the model is being asked, and a
  call runs only after an operator approved it, unless it is one of the inventory tools or
  its investigation was put on auto-approve.
\<close>

section \<open>What the programs do to the tool calls\<close>

text \<open>The rows a read of the store looks at.\<close>

definition pending_row :: "string \<Rightarrow> call_row list \<Rightarrow> call_row option" where
  "pending_row i cs =
     (case sort_key (\<lambda>c. - tc_seq c) (filter (\<lambda>c. tc_inv c = i \<and> tc_status c = TcPending) cs) of
        [] \<Rightarrow> None | c # _ \<Rightarrow> Some c)"

definition approved_row :: "string \<Rightarrow> call_row list \<Rightarrow> call_row option" where
  "approved_row i cs =
     find_last (\<lambda>c. tc_status c = TcApproved \<or> tc_status c = TcEdited)
       (sort_key tc_seq (filter (\<lambda>c. tc_inv c = i) cs))"

lemma pending_rowD:
  "pending_row i cs = Some c \<Longrightarrow> c \<in> set cs \<and> tc_inv c = i \<and> tc_status c = TcPending"
proof -
  assume "pending_row i cs = Some c"
  then obtain xs where "sort_key (\<lambda>c. - tc_seq c) (filter (\<lambda>c. tc_inv c = i \<and> tc_status c = TcPending) cs) = c # xs"
    by (auto simp: pending_row_def split: list.splits)
  then have "c \<in> set (sort_key (\<lambda>c. - tc_seq c) (filter (\<lambda>c. tc_inv c = i \<and> tc_status c = TcPending) cs))"
    by simp
  then show ?thesis by simp
qed

lemma pending_row_None:
  "pending_row i cs = None \<longleftrightarrow> (\<forall>c \<in> set cs. tc_inv c = i \<longrightarrow> tc_status c \<noteq> TcPending)"
proof -
  have "pending_row i cs = None \<longleftrightarrow> set (sort_key (\<lambda>c. - tc_seq c)
      (filter (\<lambda>c. tc_inv c = i \<and> tc_status c = TcPending) cs)) = {}"
    unfolding pending_row_def set_empty by (simp split: list.splits)
  then show ?thesis by auto
qed

lemma approved_rowD:
  "approved_row i cs = Some c \<Longrightarrow> c \<in> set cs \<and> tc_inv c = i \<and> (tc_status c = TcApproved \<or> tc_status c = TcEdited)"
  unfolding approved_row_def by (drule find_last_SomeD) simp

lemma approved_row_None:
  "approved_row i cs = None \<longleftrightarrow> (\<forall>c \<in> set cs. tc_inv c = i \<longrightarrow> tc_status c \<noteq> TcApproved \<and> tc_status c \<noteq> TcEdited)"
  unfolding approved_row_def by (auto simp: find_last_None_iff)

lemma run_PendingToolCall:
  "run_state (PendingToolCall i) s = (r, s') \<Longrightarrow> calls s' = calls s \<and> (\<forall>p. r = Inr p \<longrightarrow> p = pending_row i (calls s))"
  by (auto simp: PendingToolCall_def sql_read_def pending_row_def run_sql
      simp del: run_sql_no_fault faults_Nil split: if_splits)

lemma run_lastApproved:
  "run_state (lastApproved i) s = (r, s') \<Longrightarrow> calls s' = calls s \<and> (\<forall>p. r = Inr p \<longrightarrow> p = approved_row i (calls s))"
  by (auto simp: lastApproved_def ListToolCalls_def calls_of_def sql_read_def approved_row_def run_sql
      simp del: run_sql_no_fault faults_Nil split: if_splits)

lemma leaves_lastApproved_calls [leaves_intros]:
  "indep faults_update f \<Longrightarrow> leaves f (lastApproved i)"
  unfolding lastApproved_def by (intro leaves_intros)

text \<open>
  \<open>may_set P k S\<close>: the property \<open>P\<close> of the table survives any change to the row \<open>k\<close> that keeps
  what identifies it and gives it, if it changes its status at all, one of \<open>S\<close>.
\<close>

definition same_call :: "call_row \<Rightarrow> call_row \<Rightarrow> bool" where
  "same_call a b = (tc_id a = tc_id b \<and> tc_inv a = tc_inv b \<and> tc_tool a = tc_tool b \<and> tc_seq a = tc_seq b)"

definition may_set :: "(call_row list \<Rightarrow> bool) \<Rightarrow> string \<Rightarrow> call_status set \<Rightarrow> bool" where
  "may_set P k S = (\<forall>cs g. P cs \<longrightarrow>
     (\<forall>c. same_call (g c) c \<and> (tc_status (g c) = tc_status c \<or> tc_status (g c) \<in> S)) \<longrightarrow>
     P (update_rows (\<lambda>c. tc_id c = k) g cs))"

abbreviation holds :: "(call_row list \<Rightarrow> bool) \<Rightarrow> ('z inv_scheme, 'a) state \<Rightarrow> bool" where
  "holds P m \<equiv> keeps (\<lambda>s. P (calls s)) m"

lemma indep_calls_faults [leaves_intros]: "indep faults_update calls"
  by (simp add: indep_def)

lemma holds_leaves: "leaves calls m \<Longrightarrow> holds P m"
  by (simp add: keeps_def leaves_def)

lemma fault_free_calls: "fault_free (\<lambda>s :: 'z inv_scheme. P (calls s))"
  by (simp add: fault_free_def)

lemma holds_update_call:
  assumes "may_set P k S" and "\<And>now c. same_call (f now c) c \<and> (tc_status (f now c) = tc_status c \<or> tc_status (f now c) \<in> S)"
  shows "holds P (update_call k f)"
  unfolding update_call_def
  by (rule keeps_sql_write) (use assms in \<open>auto simp: fault_free_def may_set_def\<close>)

lemma holds_sets:
  assumes "may_set P k S"
  shows "holds P (SetToolCallInput k t)" "holds P (SetToolCallRationale k x)"
    "holds P (SetToolCallBroadConfirmed k b)" "st \<in> S \<Longrightarrow> holds P (UpdateToolCall k st by tid t)"
  unfolding SetToolCallInput_def SetToolCallRationale_def SetToolCallBroadConfirmed_def UpdateToolCall_def
  by (rule holds_update_call [OF assms], simp add: same_call_def)+

lemma keeps_attempt [keeps_intros]:
  "keeps I m \<Longrightarrow> (\<And>x. keeps I (f x)) \<Longrightarrow> keeps I (attempt m f)"
  unfolding attempt_def by (rule keeps_bind) (auto simp: keeps_def split: sum.splits)

lemma keeps_fail [keeps_intros]: "keeps I (fail t)"
  by (simp add: keeps_def fail_def)

lemma holds_others [keeps_intros]:
  "holds P (pubToolCall cf i c x ty)" "holds P (pubStatus i st)" "holds P (spawn i)" "holds P (AppendMessage m)"
  "holds P (FinishInvestigation i st t)" "holds P (AuditLog a b d)" "holds P (publish i ty d)"
  "holds P (IncrementToolCalls i)" "holds P (AccumulateTokens i n1 n2)" "holds P (exec_after cf i c r)"
  "holds P (preflightCollect i c)" "holds P (preflightCollectEconomy i c)" "holds P (SummarizeTasks cf ids)"
  "holds P (PrepareCollect cf en args)" "holds P (PrepareCollectBatch cf en args)"
  "holds P (Dispatch cf en tool args)" "holds P (ask_model cf v)" "holds P (pause cf i x k a1 a2)"
  "holds P (GetInvestigation i)"
  by (rule holds_leaves, intro leaves_intros leaves_collects leaves_Dispatch)+

lemma holds_exec_finish:
  assumes "may_set P (tc_id c) S" and "TcExecuted \<in> S"
  shows "holds P (exec_finish cf i c r tid)"
  unfolding exec_finish_def by (intro keeps_intros holds_sets [OF assms(1)] assms)

lemma holds_executeApproved:
  assumes "may_set P (tc_id c) S" and "TcExecuted \<in> S" and "TcPending \<in> S"
  shows "holds P (executeApproved cf i c)"
  unfolding executeApproved_def guarded_collect_def finish_now_def Let_def
  by (intro keeps_intros holds_exec_finish [OF assms(1)] holds_sets [OF assms(1)] assms)

lemma run_attempt:
  "run_state (attempt m f) s =
     (case run_state m s of (Inl e, s') \<Rightarrow> (Inl (TStore e), s') | (Inr x, s') \<Rightarrow> run_state (f x) s')"
  by (simp add: attempt_def split: prod.splits sum.splits)

text \<open>A first part that leaves the calls alone, and what follows.\<close>

lemma attempt_calls:
  assumes "leaves calls m" and "P (calls s)"
    and "\<And>x s1. run_state m s = (Inr x, s1) \<Longrightarrow> calls s1 = calls s \<Longrightarrow> P (calls (snd (run_state (f x) s1)))"
  shows "P (calls (snd (run_state (attempt m f) s)))"
proof -
  obtain r s1 where r: "run_state m s = (r, s1)" by fastforce
  with leaves_runD [OF assms(1)] have "calls s1 = calls s" by blast
  with assms(2,3) r show ?thesis by (cases r) (simp_all add: run_attempt)
qed

lemma step_begin_calls:
  assumes may: "\<And>c. approved_row i (calls s) = Some c \<Longrightarrow> may_set P (tc_id c) {TcExecuted, TcPending}"
    and P: "P (calls s)"
  shows "P (calls (snd (run_state (step_begin cf i) (s :: 'b inv_scheme))))"
  unfolding step_begin_def
proof (rule attempt_calls)
  show "leaves calls (GetInvestigation i)" by (intro leaves_intros)
  fix v and s1 :: "'b inv_scheme" assume v: "calls s1 = calls s"
  have stop: "P (calls (snd (run_state (pause cf i x k a b) s1)))" for x k a b
    using keepsD [OF holds_others(18)] P v by fastforce
  have body: "P (calls (snd (run_state (attempt (PendingToolCall i) (\<lambda>p.
         case p of
           Some _ \<Rightarrow> return (Inr Halt)
         | None \<Rightarrow> attempt (lastApproved i) (\<lambda>a.
             case a of
               Some c \<Rightarrow> executeApproved cf i c
             | None \<Rightarrow> ask_model cf v))) s1)))"
  proof (rule attempt_calls)
    show "leaves calls (PendingToolCall i)" by (intro leaves_intros)
    fix p and s2 :: "'b inv_scheme" assume p: "calls s2 = calls s1"
    have "P (calls (snd (run_state (attempt (lastApproved i) (\<lambda>a.
             case a of Some c \<Rightarrow> executeApproved cf i c | None \<Rightarrow> ask_model cf v)) s2)))"
    proof (rule attempt_calls)
      show "leaves calls (lastApproved i)" by (intro leaves_intros)
      fix a and s3 :: "'b inv_scheme" assume a: "run_state (lastApproved i) s2 = (Inr a, s3)" "calls s3 = calls s2"
      show "P (calls (snd (run_state (case a of Some c \<Rightarrow> executeApproved cf i c | None \<Rightarrow> ask_model cf v) s3)))"
      proof (cases a)
        case None
        then show ?thesis using keepsD [OF holds_others(17)] P v p a(2) by fastforce
      next
        case (Some c)
        with run_lastApproved [OF a(1)] have "approved_row i (calls s) = Some c" using p v by simp
        note h = holds_executeApproved [OF may [OF this]]
        have "P (calls s3)" using P v p a(2) by simp
        then show ?thesis using keepsD [OF h] Some by simp
      qed
    qed (use P v p in simp)
    then show "P (calls (snd (run_state (case p of Some _ \<Rightarrow> return (Inr Halt)
         | None \<Rightarrow> attempt (lastApproved i) (\<lambda>a.
             case a of Some c \<Rightarrow> executeApproved cf i c | None \<Rightarrow> ask_model cf v)) s2)))"
      using P v p by (cases p) simp_all
  qed (use P v in simp)
  show "P (calls (snd (run_state (if stopped v then return (Inr Halt)
       else if inv_tool_calls v \<ge> steps_cap cf v
         then pause cf i (steps_text (inv_tool_calls v) (steps_cap cf v)) ''steps'' (inv_tool_calls v) (steps_cap cf v)
       else if tokens_used v \<ge> tokens_cap cf v
         then pause cf i (tokens_text (tokens_used v) (tokens_cap cf v) (inv_compaction_tokens v))
                ''tokens'' (tokens_used v) (tokens_cap cf v)
       else attempt (PendingToolCall i) (\<lambda>p.
         case p of
           Some _ \<Rightarrow> return (Inr Halt)
         | None \<Rightarrow> attempt (lastApproved i) (\<lambda>a.
             case a of
               Some c \<Rightarrow> executeApproved cf i c
             | None \<Rightarrow> ask_model cf v))) s1)))"
    using stop body P v by simp
qed (rule P)

definition decision_states :: "string \<Rightarrow> call_status set" where
  "decision_states d = (if d = ''approve'' then {TcApproved} else if d = ''edit'' then {TcEdited} else {TcSkipped, TcAborted})"

lemma holds_decisions:
  assumes "may_set P (tc_id c) S"
  shows "TcApproved \<in> S \<Longrightarrow> holds P (decide_approve cf i c by)" "TcEdited \<in> S \<Longrightarrow> holds P (decide_edit cf i c t by)"
    "TcSkipped \<in> S \<Longrightarrow> holds P (decide_skip cf i c by)" "TcAborted \<in> S \<Longrightarrow> holds P (decide_end i c by)"
    "TcAborted \<in> S \<Longrightarrow> holds P (discard_pending i (Some c) by)"
  unfolding decide_approve_def decide_edit_def decide_skip_def decide_end_def decide_done_def discard_pending_def Let_def
    option.case
  by (intro keeps_intros holds_sets [OF assms]; assumption)+

lemma decide_calls:
  assumes may: "\<And>c. pending_row i (calls s) = Some c \<Longrightarrow> may_set P (tc_id c) (decision_states d)"
    and P: "P (calls s)"
  shows "P (calls (snd (run_state (DecideWithEdit cf i d t by) s)))"
  unfolding DecideWithEdit_def
proof (rule attempt_calls)
  show "leaves calls (PendingToolCall i)" by (intro leaves_intros)
  fix p s1 assume p: "run_state (PendingToolCall i) s = (Inr p, s1)" "calls s1 = calls s"
  show "P (calls (snd (run_state (case p of
         None \<Rightarrow> fail ''no pending tool call''
       | Some c \<Rightarrow>
           if d = ''approve'' then decide_approve cf i c by
           else if d = ''edit'' then decide_edit cf i c t by
           else if d = ''skip'' then decide_skip cf i c by
           else if d = ''end'' then decide_end i c by
           else fail ''unknown decision'') s1)))"
  proof (cases p)
    case None
    then show ?thesis using P p(2) by (simp add: fail_def)
  next
    case (Some c)
    with run_PendingToolCall [OF p(1)] have "may_set P (tc_id c) (decision_states d)" using may by simp
    note h = holds_decisions [OF this]
    have P1: "P (calls s1)" using P p(2) by simp
    consider "d = ''approve''" | "d = ''edit''" | "d = ''skip''" | "d = ''end''"
      | "d \<noteq> ''approve'' \<and> d \<noteq> ''edit'' \<and> d \<noteq> ''skip'' \<and> d \<noteq> ''end''" by blast
    then show ?thesis
    proof cases
      case 1
      then show ?thesis using keepsD [OF h(1) P1] by (simp add: decision_states_def Some)
    next
      case 2
      then show ?thesis using keepsD [OF h(2) P1] by (simp add: decision_states_def Some)
    next
      case 3
      then show ?thesis using keepsD [OF h(3) P1] by (simp add: decision_states_def Some)
    next
      case 4
      then show ?thesis using keepsD [OF h(4) P1] by (simp add: decision_states_def Some)
    next
      case 5
      then show ?thesis using P1 by (simp add: fail_def Some)
    qed
  qed
qed (rule P)

lemma hypothesis_calls:
  assumes may: "\<And>c. pending_row i (calls s) = Some c \<Longrightarrow> may_set P (tc_id c) {TcAborted}"
    and P: "P (calls s)"
  shows "P (calls (snd (run_state (InjectHypothesis cf i a b c by) s)))"
proof -
  have "P (calls (snd (run_state (attempt (PendingToolCall i) (\<lambda>p.
              attempt (discard_pending i p by) (\<lambda>_.
              attempt (AppendMessage (text_msg i RoleUser body)) (\<lambda>_. do {
                _ \<leftarrow> spawn i;
                return (Inr ())
              })))) s)))" for body
  proof (rule attempt_calls)
    show "leaves calls (PendingToolCall i)" by (intro leaves_intros)
    fix p s1 assume p: "run_state (PendingToolCall i) s = (Inr p, s1)" "calls s1 = calls s"
    have "holds P (discard_pending i p by)"
    proof (cases p)
      case (Some c)
      with run_PendingToolCall [OF p(1)] have "may_set P (tc_id c) {TcAborted}" using may by simp
      from holds_decisions(5) [OF this] Some show ?thesis by simp
    qed (simp add: discard_pending_def keeps_return)
    then have "holds P (attempt (discard_pending i p by) (\<lambda>_.
              attempt (AppendMessage (text_msg i RoleUser body)) (\<lambda>_. do {
                _ \<leftarrow> spawn i;
                return (Inr ())
              })))"
      by (intro keeps_intros)
    moreover have "P (calls s1)" using P p(2) by simp
    ultimately show "P (calls (snd (run_state (attempt (discard_pending i p by) (\<lambda>_.
              attempt (AppendMessage (text_msg i RoleUser body)) (\<lambda>_. do {
                _ \<leftarrow> spawn i;
                return (Inr ())
              }))) s1)))" by (rule keepsD)
  qed (rule P)
  then show ?thesis unfolding InjectHypothesis_def Let_def using P by (simp add: fail_def)
qed

text \<open>The row a proposal becomes, and the only change an answer of the model makes.\<close>

definition proposed_row :: "investigation \<Rightarrow> call_req \<Rightarrow> string \<Rightarrow> int \<Rightarrow> instant \<Rightarrow> call_row" where
  "proposed_row v c x q t = (proposal v c x q)\<lparr>tc_created_at := t\<rparr>"

lemma run_InsertToolCall:
  assumes "run_state (InsertToolCall (proposal v c x q)) s = (r, s')"
  shows "calls s' = calls s \<or> cr_id c \<notin> tc_id ` set (calls s) \<and> calls s' = calls s @ [proposed_row v c x q (clock s)]"
  using assms
  by (auto simp: InsertToolCall_def run_sql find_row_None_keys proposal_def proposed_row_def
      simp del: run_sql_no_fault faults_Nil split: if_splits)

lemma bind_calls:
  assumes "leaves calls m"
    and "\<And>x s1. run_state m s = (x, s1) \<Longrightarrow> calls s1 = calls s \<Longrightarrow> P (calls (snd (run_state (f x) s1)))"
  shows "P (calls (snd (run_state (State_Monad.bind m f) s)))"
  using assms leaves_runD by (force split: prod.splits)

lemma propose_calls:
  assumes "P (calls s)"
    and "\<And>c x q t. cr_id c \<notin> tc_id ` set (calls s) \<Longrightarrow> P (calls s @ [proposed_row v c x q t])"
  shows "P (calls (snd (run_state (propose cf v c x) (s :: 'b inv_scheme))))"
  unfolding propose_def
proof (rule bind_calls)
  show "leaves calls (nextSeq (inv_id v) :: ('b, int) im)" by (intro leaves_intros)
  fix q and s1 :: "'b inv_scheme" assume s1: "calls s1 = calls s"
  obtain r s2 where r: "run_state (InsertToolCall (proposal v c x q)) s1 = (r, s2)" by fastforce
  have P2: "P (calls s2)" using run_InsertToolCall [OF r] assms s1 by auto
  have "holds P (do {
       _ \<leftarrow> IncrementToolCalls (inv_id v);
       _ \<leftarrow> pubToolCall cf (inv_id v) (proposal v c x q)
              (if needs_no_operator v c then ''approved'' else ''pending'') EventToolCallPending;
       return (Inr (needs_no_operator v c))
     } :: ('b, terr + bool) im)"
    by (intro keeps_intros)
  from keepsD [OF this P2] r P2
  show "P (calls (snd (run_state (attempt (InsertToolCall (proposal v c x q)) (\<lambda>_. do {
       _ \<leftarrow> IncrementToolCalls (inv_id v);
       _ \<leftarrow> pubToolCall cf (inv_id v) (proposal v c x q)
              (if needs_no_operator v c then ''approved'' else ''pending'') EventToolCallPending;
       return (Inr (needs_no_operator v c))
     })) s1)))"
    by (cases r) (simp_all add: run_attempt)
qed

lemma answer_calls:
  assumes P: "P (calls s)"
    and add: "\<And>c x q t. cr_id c \<notin> tc_id ` set (calls s) \<Longrightarrow> P (calls s @ [proposed_row v c x q t])"
  shows "P (calls (snd (run_state (answer_model cf v r) (s :: 'b inv_scheme))))"
proof (cases r)
  case None
  with P show ?thesis by (simp add: answer_model_def fail_def)
next
  case (Some y)
  have step: "P (calls (snd (run_state (case lr_calls y of
               [] \<Rightarrow> do {
                 _ \<leftarrow> AppendMessage (note_msg (inv_id v) no_call_note);
                 return (Inr True)
               }
             | c # rest \<Rightarrow> do {
                 _ \<leftarrow> (if rest = [] then return ()
                       else ignore (AppendMessage (note_msg (inv_id v)
                              (many_calls_note (length (lr_calls y)) (cr_name c)))));
                 propose cf v c (lr_content y)
               }) s1)))" if s1: "calls s1 = calls s" for s1 :: "'b inv_scheme"
  proof (cases "lr_calls y")
    case Nil
    have "P (calls s1)" using P s1 by simp
    then show ?thesis unfolding Nil list.case by (rule keepsD [rotated]) (intro keeps_intros)
  next
    case (Cons c rest)
    have "leaves calls ((if rest = [] then return ()
             else ignore (AppendMessage (note_msg (inv_id v) b))) :: ('b, unit) im)" for b
      by (intro leaves_intros)
    then show ?thesis unfolding Cons list.case
      by (rule bind_calls) (rule propose_calls; use P add s1 in simp)
  qed
  show ?thesis unfolding Some answer_model_def option.case
    by (rule bind_calls, intro leaves_intros, rule attempt_calls, intro leaves_intros, simp add: P,
        rule bind_calls, intro leaves_intros, rule step, simp)
qed

lemma holds_step_resume:
  assumes "may_set P (tc_id c) S" and "TcExecuted \<in> S"
  shows "holds P (step_resume cf i c ids tid)"
  unfolding step_resume_def by (intro keeps_intros holds_exec_finish [OF assms(1)] assms)

lemma settle_calls: "run_state (settle cf i r) s = (t, s') \<Longrightarrow> calls s' = calls s"
  by (rule leaves_runD [OF leaves_settle]) simp_all

text \<open>The calls over one transition of each kind.\<close>

lemma act_calls:
  assumes "P (calls (s :: 'b inv_scheme))"
    and "\<And>i d t by c. a = HDecide i d t by \<Longrightarrow> pending_row i (calls s) = Some c \<Longrightarrow> may_set P (tc_id c) (decision_states d)"
    and "\<And>i x y z by c. a = HHypothesis i x y z by \<Longrightarrow> pending_row i (calls s) = Some c \<Longrightarrow> may_set P (tc_id c) {TcAborted}"
  shows "P (calls (snd (run_state (hub_exec w a) s)))"
proof (cases "(\<exists>i d t by. a = HDecide i d t by) \<or> (\<exists>i x y z by. a = HHypothesis i x y z by)")
  case True
  then show ?thesis
    using decide_calls [of _ s P] hypothesis_calls [of _ s P] assms by auto
next
  case False
  then have "leaves calls (hub_exec w a :: ('b, unit) im)"
    by (intro leaves_hub_exec leaves_intros) (auto simp: indep_def)
  from leavesD [OF this] assms(1) show ?thesis by simp
qed

lemma wake_calls: "calls (fst (wake n (s, ts))) = calls s"
  by (auto simp: wake_def advance_enter_def Let_def split: prod.splits)

lemma thread_calls:
  assumes "P (calls s)"
    and "\<And>i c. t = Turn i \<Longrightarrow> approved_row i (calls s) = Some c \<Longrightarrow> may_set P (tc_id c) {TcExecuted, TcPending}"
    and "\<And>i v q c x n m. t = AtModel i v q \<Longrightarrow> cr_id c \<notin> tc_id ` set (calls s)
          \<Longrightarrow> P (calls s @ [proposed_row v c x n m])"
    and "\<And>i c ids tid. t = AtTasks i c ids tid \<Longrightarrow> may_set P (tc_id c) {TcExecuted}"
  shows "P (calls (snd (run_state (thread_run cf t) s)))"
proof (cases t)
  case (Turn i)
  have "P (calls (snd (run_state (step_begin cf i) s)))"
    by (rule step_begin_calls) (use assms(1,2) Turn in auto)
  then show ?thesis
    using Turn by (auto split: prod.splits sum.splits dest!: settle_calls)
next
  case (AtModel i v q)
  have "P (calls (snd (run_state (chat q) s)))" using assms(1) by (simp add: chat_def)
  then have "P (calls (snd (run_state (answer_model cf v r) (snd (run_state (chat q) s)))))" for r
    by (rule answer_calls) (use assms(3) [OF AtModel] in \<open>simp add: chat_def\<close>)
  then show ?thesis
    using AtModel by (auto split: prod.splits dest!: settle_calls) (metis snd_conv)
next
  case (AtTasks i c ids tid)
  have "P (calls (snd (run_state (step_resume cf i c ids tid) s)))"
    by (rule keepsD [OF holds_step_resume [OF assms(4) [OF AtTasks]]]) (simp_all add: assms(1))
  then show ?thesis
    using AtTasks by (auto split: prod.splits dest!: settle_calls)
next
  case (Leaving i)
  with assms(1) show ?thesis by (simp add: advance_leave_def)
qed

end
