(* ===== verification/Inv_Turns.thy ===== *)
theory Inv_Turns
  imports Inv_Calls
begin

text \<open>
  What holds of the tool calls of every reachable state: one open call per investigation,
  and no execution without approval.
\<close>

section \<open>What a step stops at\<close>

lemma attempt_okE:
  assumes "run_state (attempt m f) s = (Inr y, s')"
  obtains x s1 where "run_state m s = (Inr x, s1)" and "run_state (f x) s1 = (Inr y, s')"
  using assms by (auto simp: run_attempt split: prod.splits sum.splits)

lemma bind_runE:
  assumes "run_state (State_Monad.bind m f) s = (y, s')"
  obtains x s1 where "run_state m s = (x, s1)" and "run_state (f x) s1 = (y, s')"
  using assms by (auto split: prod.splits)

lemma run_GetInvestigation:
  "run_state (GetInvestigation i) s = (Inr v, s1) \<Longrightarrow> v \<in> set (invs s) \<and> inv_id v = i \<and> s1 = s\<lparr>faults := tl (faults s)\<rparr>"
  by (auto simp: GetInvestigation_def run_sql simp del: run_sql_no_fault faults_Nil
      split: if_splits option.splits dest: find_row_SomeD)

lemma model_request_result:
  "run_state (model_request cf v ms) s = (r, s') \<Longrightarrow> \<exists>q. r = Inr (AwaitModel v q)
     \<and> (lq_tools q = tool_names \<or> lq_tools q = filterTools tool_names postFindingAllowedTools)"
  by (auto simp: model_request_def split: prod.splits)

lemma ask_model_result:
  "run_state (ask_model cf v) s = (Inr x, s') \<Longrightarrow> \<exists>q. x = AwaitModel v q"
  unfolding ask_model_def
  by (auto dest!: model_request_result elim!: attempt_okE split: if_splits sum.splits prod.splits)

lemma finish_now_result: "run_state (finish_now cf i c tr) s = (Inr x, s') \<Longrightarrow> x = Again"
  unfolding finish_now_def by (auto split: prod.splits sum.splits)

lemma guarded_result:
  "run_state (guarded_collect cf i c p tid) s = (Inr x, s') \<Longrightarrow> x = Again \<or> (\<exists>ids. x = AwaitTasks c ids (tid ids))"
  unfolding guarded_collect_def
  by (auto dest!: finish_now_result split: option.splits sum.splits prod.splits)

lemma executeApproved_result:
  assumes "run_state (executeApproved cf i c) s = (Inr x, s')"
  shows "x = Again \<or> (\<exists>ids tid. x = AwaitTasks c ids tid \<and> tc_tool c \<in> {''collect'', ''collect_batch''})"
  using assms unfolding executeApproved_def Let_def
  by (elim attempt_okE)
    (auto dest!: finish_now_result guarded_result elim!: attempt_okE split: if_splits prod.splits)

lemma pause_result: "run_state (pause cf i x k a b) s = (r, s') \<Longrightarrow> r = Inr Halt"
  unfolding pause_def by (auto split: prod.splits)

text \<open>The states of a step that goes past the checks of the budget and of the open calls.\<close>

lemma step_begin_past:
  assumes "run_state (step_begin cf i) s = (Inr x, s')" and "x \<noteq> Halt"
  obtains v a s1 where "v \<in> set (invs s)" "inv_id v = i" "\<not> stopped v" "inv_tool_calls v < steps_cap cf v"
    "tokens_used v < tokens_cap cf v" "pending_row i (calls s) = None" "a = approved_row i (calls s)"
    "calls s1 = calls s" "run_state (case a of Some c \<Rightarrow> executeApproved cf i c | None \<Rightarrow> ask_model cf v) s1 = (Inr x, s')"
proof -
  from assms(1) obtain v s1 where v: "run_state (GetInvestigation i) s = (Inr v, s1)"
    and r: "run_state (if stopped v then return (Inr Halt)
       else if inv_tool_calls v \<ge> steps_cap cf v
         then pause cf i (steps_text (inv_tool_calls v) (steps_cap cf v)) ''steps'' (inv_tool_calls v) (steps_cap cf v)
       else if tokens_used v \<ge> tokens_cap cf v
         then pause cf i (tokens_text (tokens_used v) (tokens_cap cf v) (inv_compaction_tokens v))
                ''tokens'' (tokens_used v) (tokens_cap cf v)
       else attempt (PendingToolCall i) (\<lambda>p.
         case p of
           Some _ \<Rightarrow> return (Inr Halt)
         | None \<Rightarrow> attempt (lastApproved i) (\<lambda>a.
             case a of
               Some c \<Rightarrow> executeApproved cf i c
             | None \<Rightarrow> ask_model cf v))) s1 = (Inr x, s')"
    unfolding step_begin_def by (rule attempt_okE)
  from r assms(2) have ok: "\<not> stopped v" "inv_tool_calls v < steps_cap cf v" "tokens_used v < tokens_cap cf v"
    by (auto split: if_splits dest: pause_result)
  with r obtain p s2 where p: "run_state (PendingToolCall i) s1 = (Inr p, s2)"
    and r2: "run_state (case p of Some _ \<Rightarrow> return (Inr Halt)
         | None \<Rightarrow> attempt (lastApproved i) (\<lambda>a.
             case a of Some c \<Rightarrow> executeApproved cf i c | None \<Rightarrow> ask_model cf v)) s2 = (Inr x, s')"
    by (auto elim: attempt_okE)
  from r2 assms(2) have "p = None" by (auto split: option.splits)
  with r2 obtain a s3 where a: "run_state (lastApproved i) s2 = (Inr a, s3)"
    and r3: "run_state (case a of Some c \<Rightarrow> executeApproved cf i c | None \<Rightarrow> ask_model cf v) s3 = (Inr x, s')"
    by (auto elim: attempt_okE)
  have c: "calls s1 = calls s" using run_GetInvestigation [OF v] by simp
  from run_PendingToolCall [OF p] run_lastApproved [OF a] c \<open>p = None\<close>
  show ?thesis using that [of v a s3] run_GetInvestigation [OF v] ok r3 by simp
qed

lemma step_begin_asks:
  assumes "run_state (step_begin cf i) s = (Inr (AwaitModel v q), s')"
  shows "calls s' = calls s \<and> inv_id v = i \<and> v \<in> set (invs s) \<and> pending_row i (calls s) = None \<and> approved_row i (calls s) = None"
proof -
  from assms obtain w a s1 where past: "w \<in> set (invs s)" "inv_id w = i" "pending_row i (calls s) = None"
    "a = approved_row i (calls s)" "calls s1 = calls s"
    "run_state (case a of Some c \<Rightarrow> executeApproved cf i c | None \<Rightarrow> ask_model cf w) s1 = (Inr (AwaitModel v q), s')"
    by (rule step_begin_past) auto
  have a: "a = None"
  proof (cases a)
    case (Some d)
    with past(6) have "run_state (executeApproved cf i d) s1 = (Inr (AwaitModel v q), s')" by simp
    from executeApproved_result [OF this] show ?thesis by simp
  qed simp
  with past(6) have r: "run_state (ask_model cf w) s1 = (Inr (AwaitModel v q), s')" by simp
  from ask_model_result [OF r] have "v = w" by auto
  moreover have "calls s' = calls s1" by (rule leaves_runD [OF leaves_ask_model r]) simp
  ultimately show ?thesis using past a by simp
qed

lemma step_begin_awaits:
  assumes "run_state (step_begin cf i) s = (Inr (AwaitTasks c ids tid), s')"
  shows "approved_row i (calls s) = Some c \<and> tc_tool c \<in> {''collect'', ''collect_batch''}"
proof -
  from assms obtain w a s1 where past: "a = approved_row i (calls s)"
    "run_state (case a of Some c \<Rightarrow> executeApproved cf i c | None \<Rightarrow> ask_model cf w) s1 = (Inr (AwaitTasks c ids tid), s')"
    by (rule step_begin_past) auto
  show ?thesis
  proof (cases a)
    case None
    with past(2) have "run_state (ask_model cf w) s1 = (Inr (AwaitTasks c ids tid), s')" by simp
    from ask_model_result [OF this] show ?thesis by simp
  next
    case (Some d)
    with past(2) have "run_state (executeApproved cf i d) s1 = (Inr (AwaitTasks c ids tid), s')" by simp
    from executeApproved_result [OF this] past(1) Some show ?thesis by auto
  qed
qed

section \<open>One open call\<close>

definition open_call :: "call_row \<Rightarrow> bool" where
  "open_call c = (tc_status c = TcPending \<or> tc_status c = TcApproved \<or> tc_status c = TcEdited)"

definition open_within :: "(string \<Rightarrow> string set) \<Rightarrow> string \<Rightarrow> string \<Rightarrow> call_row list \<Rightarrow> bool" where
  "open_within W k j cs =
     (distinct (map tc_id cs) \<and> (\<forall>c \<in> set cs. open_call c \<longrightarrow> tc_id c \<in> W (tc_inv c)) \<and>
      (\<forall>c \<in> set cs. tc_id c = k \<longrightarrow> tc_inv c = j))"

definition open_ids :: "call_row list \<Rightarrow> string \<Rightarrow> string set" where
  "open_ids cs i = tc_id ` {c \<in> set cs. tc_inv c = i \<and> open_call c}"

lemma open_within_ids: "open_within W k j cs \<Longrightarrow> open_ids cs i \<subseteq> W i"
  by (auto simp: open_within_def open_ids_def)

lemma same_call_updates:
  assumes "\<And>c. same_call (g c) c"
  shows "map tc_id (update_rows P g cs) = map tc_id cs"
  using assms by (simp add: same_call_def)

lemma may_set_open: "k \<in> W j \<Longrightarrow> may_set (open_within W k j) k S"
  unfolding may_set_def
proof (intro allI impI)
  fix cs g
  assume k: "k \<in> W j" and P: "open_within W k j cs"
    and g: "\<forall>c. same_call (g c) c \<and> (tc_status (g c) = tc_status c \<or> tc_status (g c) \<in> S)"
  from g P have "distinct (map tc_id (update_rows (\<lambda>c. tc_id c = k) g cs))"
    by (simp add: same_call_updates open_within_def)
  moreover have "(open_call c \<longrightarrow> tc_id c \<in> W (tc_inv c)) \<and> (tc_id c = k \<longrightarrow> tc_inv c = j)"
    if c: "c \<in> set (update_rows (\<lambda>c. tc_id c = k) g cs)" for c
  proof -
    from c obtain c0 where c0: "c0 \<in> set cs" "c = (if tc_id c0 = k then g c0 else c0)"
      by (auto simp: set_update_rows)
    have "tc_id (g c0) = tc_id c0" "tc_inv (g c0) = tc_inv c0" using g by (simp_all add: same_call_def)
    with c0 P k show ?thesis by (auto simp: open_within_def)
  qed
  ultimately show "open_within W k j (update_rows (\<lambda>c. tc_id c = k) g cs)"
    by (simp add: open_within_def)
qed

lemma may_set_closed: "may_set (open_within W k j) k' {TcExecuted}"
  unfolding may_set_def
proof (intro allI impI)
  fix cs g
  assume P: "open_within W k j cs"
    and g: "\<forall>c. same_call (g c) c \<and> (tc_status (g c) = tc_status c \<or> tc_status (g c) \<in> {TcExecuted})"
  from g P have "distinct (map tc_id (update_rows (\<lambda>c. tc_id c = k') g cs))"
    by (simp add: same_call_updates open_within_def)
  moreover have "(open_call c \<longrightarrow> tc_id c \<in> W (tc_inv c)) \<and> (tc_id c = k \<longrightarrow> tc_inv c = j)"
    if c: "c \<in> set (update_rows (\<lambda>c. tc_id c = k') g cs)" for c
  proof -
    from c obtain c0 where c0: "c0 \<in> set cs" "c = (if tc_id c0 = k' then g c0 else c0)"
      by (auto simp: set_update_rows)
    have "same_call (g c0) c0" "tc_status (g c0) = tc_status c0 \<or> tc_status (g c0) = TcExecuted" using g by simp_all
    then have "tc_id (g c0) = tc_id c0" "tc_inv (g c0) = tc_inv c0" "open_call (g c0) \<Longrightarrow> open_call c0"
      by (auto simp: same_call_def open_call_def)
    with c0 P show ?thesis by (auto simp: open_within_def)
  qed
  ultimately show "open_within W k j (update_rows (\<lambda>c. tc_id c = k') g cs)"
    by (simp add: open_within_def)
qed

lemma open_within_start:
  assumes "distinct (map tc_id cs)" and "c \<in> set cs"
  shows "open_within (open_ids cs) (tc_id c) (tc_inv c) cs"
  unfolding open_within_def
proof (intro conjI ballI impI)
  fix d assume "d \<in> set cs" "tc_id d = tc_id c"
  with assms have "d = c" by (auto simp: distinct_map inj_on_def)
  then show "tc_inv d = tc_inv c" by simp
qed (use assms in \<open>auto simp: open_ids_def\<close>)

text \<open>A transition opens no call, unless it takes the model's answer.\<close>

lemma act_opens_nothing:
  assumes d: "distinct (map tc_id (calls (s :: 'b inv_scheme)))"
  shows "distinct (map tc_id (calls (snd (run_state (hub_exec w a) s))))
    \<and> open_ids (calls (snd (run_state (hub_exec w a) s))) i \<subseteq> open_ids (calls s) i"
proof -
  let ?s' = "snd (run_state (hub_exec w a) s)"
  have "\<exists>k j. open_within (open_ids (calls s)) k j (calls ?s')"
  proof (cases "\<exists>j. (\<exists>d t b. a = HDecide j d t b) \<or> (\<exists>x y z b. a = HHypothesis j x y z b)")
    case True
    then obtain j where j: "(\<exists>d t b. a = HDecide j d t b) \<or> (\<exists>x y z b. a = HHypothesis j x y z b)" by blast
    show ?thesis
    proof (cases "pending_row j (calls s)")
      case None
      have "open_within (open_ids (calls s)) k j (calls ?s')" if "k \<notin> tc_id ` set (calls s)" for k
        by (rule act_calls) (use j None that d in \<open>auto simp: open_within_def open_ids_def\<close>)
      moreover obtain k where "k \<notin> tc_id ` set (calls s)"
        using ex_new_if_finite [OF infinite_UNIV_listI, of "tc_id ` set (calls s)"] by auto
      ultimately show ?thesis by blast
    next
      case (Some c)
      note c = pending_rowD [OF Some]
      have k: "tc_id c \<in> open_ids (calls s) j" using c by (auto simp: open_ids_def open_call_def)
      have "open_within (open_ids (calls s)) (tc_id c) j (calls ?s')"
        by (rule act_calls) (use j Some c d k open_within_start [OF d, of c] in \<open>auto intro: may_set_open\<close>)
      then show ?thesis by blast
    qed
  next
    case False
    obtain k where k: "k \<notin> tc_id ` set (calls s)"
      using ex_new_if_finite [OF infinite_UNIV_listI, of "tc_id ` set (calls s)"] by auto
    have "open_within (open_ids (calls s)) k [] (calls ?s')"
      by (rule act_calls) (use False k d in \<open>auto simp: open_within_def open_ids_def\<close>)
    then show ?thesis by blast
  qed
  then show ?thesis using open_within_ids by (fastforce simp: open_within_def)
qed

lemma fresh_key: "\<exists>k. k \<notin> tc_id ` set cs"
  using ex_new_if_finite [OF infinite_UNIV_listI, of "tc_id ` set cs"] by auto

lemma thread_opens_nothing:
  assumes d: "distinct (map tc_id (calls (s :: 'b inv_scheme)))" and "\<And>i v q. t \<noteq> AtModel i v q"
  shows "distinct (map tc_id (calls (snd (run_state (thread_run cf t) s))))
    \<and> open_ids (calls (snd (run_state (thread_run cf t) s))) i \<subseteq> open_ids (calls s) i"
proof -
  let ?s' = "snd (run_state (thread_run cf t) s)"
  have "\<exists>k j. open_within (open_ids (calls s)) k j (calls ?s')"
  proof (cases "\<exists>j c. t = Turn j \<and> approved_row j (calls s) = Some c")
    case True
    then obtain j c where j: "t = Turn j" "approved_row j (calls s) = Some c" by blast
    note c = approved_rowD [OF j(2)]
    have k: "tc_id c \<in> open_ids (calls s) j" using c by (auto simp: open_ids_def open_call_def)
    have "open_within (open_ids (calls s)) (tc_id c) j (calls ?s')"
      by (rule thread_calls) (use j c d k open_within_start [OF d, of c] in \<open>auto intro: may_set_open\<close>)
    then show ?thesis by blast
  next
    case False
    obtain k where k: "k \<notin> tc_id ` set (calls s)" using fresh_key by blast
    have "open_within (open_ids (calls s)) k [] (calls ?s')"
      by (rule thread_calls)
        (use False k d assms(2) in \<open>auto simp: open_within_def open_ids_def intro: may_set_closed [unfolded open_ids_def open_within_def]\<close>)
    then show ?thesis by blast
  qed
  then show ?thesis using open_within_ids by (fastforce simp: open_within_def)
qed

text \<open>The model's answer opens at most one call, of its own investigation.\<close>

definition opened_by :: "call_row list \<Rightarrow> string \<Rightarrow> call_row list \<Rightarrow> bool" where
  "opened_by cs j cs' =
     (distinct (map tc_id cs') \<and> (\<exists>k. \<forall>i. open_ids cs' i \<subseteq> open_ids cs i \<union> (if i = j then {k} else {})))"

lemma answer_opens_one:
  assumes d: "distinct (map tc_id (calls (s :: 'b inv_scheme)))"
  shows "opened_by (calls s) (inv_id v) (calls (snd (run_state (thread_run cf (AtModel i v q)) s)))"
proof (rule thread_calls)
  show "opened_by (calls s) (inv_id v) (calls s)" using d by (auto simp: opened_by_def)
  fix i' v' q' x n m and c :: call_req
  assume "AtModel i v q = AtModel i' v' q'" and fresh: "cr_id c \<notin> tc_id ` set (calls s)"
  then have v: "v' = v" by simp
  have r: "tc_id (proposed_row v c x n m) = cr_id c" "tc_inv (proposed_row v c x n m) = inv_id v"
    by (simp_all add: proposed_row_def proposal_def)
  have "open_ids (calls s @ [proposed_row v c x n m]) k
      \<subseteq> open_ids (calls s) k \<union> (if k = inv_id v then {cr_id c} else {})" for k
    using r by (auto simp: open_ids_def)
  with d fresh r v show "opened_by (calls s) (inv_id v) (calls s @ [proposed_row v' c x n m])"
    unfolding opened_by_def v by (intro conjI exI [of _ "cr_id c"] allI) simp_all
qed simp_all

definition one_open :: "'z inv_scheme \<Rightarrow> thread list \<Rightarrow> bool" where
  "one_open s ts =
     (flagged s ts \<and> distinct (map tc_id (calls s)) \<and>
      (\<forall>i. \<forall>x \<in> open_ids (calls s) i. \<forall>y \<in> open_ids (calls s) i. x = y) \<and>
      (\<forall>i v q. AtModel i v q \<in> set ts \<longrightarrow> inv_id v = i \<and> open_ids (calls s) i = {}))"

lemma one_open_asking: "one_open s ts \<Longrightarrow> AtModel i v q \<in> set ts \<Longrightarrow> inv_id v = i \<and> open_ids (calls s) i = {}"
  unfolding one_open_def by blast

lemma one_open_parts:
  "one_open s ts \<Longrightarrow> flagged s ts \<and> distinct (map tc_id (calls s))"
  "one_open s ts \<Longrightarrow> x \<in> open_ids (calls s) i \<Longrightarrow> y \<in> open_ids (calls s) i \<Longrightarrow> x = y"
  unfolding one_open_def by blast+

lemma one_open_shrink:
  assumes "one_open s ts" and "flagged s' ts'" and "distinct (map tc_id (calls s'))"
    and "\<And>i. open_ids (calls s') i \<subseteq> open_ids (calls s) i"
    and "\<And>i v q. AtModel i v q \<in> set ts' \<Longrightarrow> AtModel i v q \<in> set ts \<or> inv_id v = i \<and> open_ids (calls s') i = {}"
  shows "one_open s' ts'"
  unfolding one_open_def
proof (intro conjI allI ballI impI)
  fix i x y assume "x \<in> open_ids (calls s') i" "y \<in> open_ids (calls s') i"
  with assms(1,4) show "x = y" unfolding one_open_def by blast
next
  fix i v q assume "AtModel i v q \<in> set ts'"
  from assms(5) [OF this] assms(1,4) show "inv_id v = i" "open_ids (calls s') i = {}"
    unfolding one_open_def by blast+
qed (use assms(2,3) in simp_all)

lemma no_open_rows:
  "pending_row i cs = None \<Longrightarrow> approved_row i cs = None \<Longrightarrow> open_ids cs i = {}"
  by (auto simp: open_ids_def open_call_def pending_row_None approved_row_None)

lemma thread_starts_asking:
  assumes "run_state (thread_run cf t) s = (Some (AtModel i v q), s')"
  shows "inv_id v = i \<and> open_ids (calls s') i = {}"
proof (cases t)
  case (Turn j)
  with assms obtain x s1 where r: "run_state (step_begin cf j) s = (Inr x, s1)" "place j x = AtModel i v q" "s' = s1"
    by (auto simp: settle_def split: prod.splits sum.splits)
  then have "x = AwaitModel v q" "j = i" by (cases x; simp)+
  with step_begin_asks r no_open_rows show ?thesis by metis
qed (use assms in \<open>auto simp: settle_def split: prod.splits sum.splits if_splits\<close>)

lemma go_on_run:
  assumes "n < length ts" and "run_state (thread_run cf (ts ! n)) s = (t, s')"
  shows "go_on cf n (s, ts) = (s', take n ts @ (case t of None \<Rightarrow> [] | Some x \<Rightarrow> [x]) @ drop (Suc n) ts)"
  using assms by (simp add: go_on_def)

lemma others_distinct:
  assumes "distinct (map k ts)" and "n < length ts" and "x \<in> set (take n ts) \<union> set (drop (Suc n) ts)"
  shows "k x \<noteq> k (ts ! n) \<and> x \<in> set ts"
proof -
  have "k x \<in> k ` set (take n ts @ drop (Suc n) ts)" using assms(3) by auto
  with remove_at(2) [OF assms(1,2)] have "k x \<noteq> k (ts ! n)" by blast
  with assms(3) show ?thesis by (auto dest: in_set_takeD in_set_dropD)
qed

lemma one_open_go_on:
  assumes "one_open s ts"
  shows "one_open (fst (go_on cf n (s, ts))) (snd (go_on cf n (s, ts)))"
proof (cases "n < length ts")
  case True
  obtain t s' where r: "run_state (thread_run cf (ts ! n)) s = (t, s')" by fastforce
  let ?ts' = "take n ts @ (case t of None \<Rightarrow> [] | Some x \<Rightarrow> [x]) @ drop (Suc n) ts"
  have fl: "flagged s' ?ts'" using flagged_go_on [of s ts cf n] assms go_on_run [OF True r] by (simp add: one_open_def)
  have d: "distinct (map tc_id (calls s))" and dt: "distinct (map thread_inv ts)"
    using assms by (simp_all add: one_open_def flagged_def)
  have old: "AtModel i v q \<in> set (take n ts) \<union> set (drop (Suc n) ts) \<or> t = Some (AtModel i v q)"
    if "AtModel i v q \<in> set ?ts'" for i v q
    using that by (auto split: option.splits)
  have "one_open s' ?ts'"
  proof (cases "\<exists>i v q. ts ! n = AtModel i v q")
    case False
    show ?thesis
    proof (rule one_open_shrink [OF assms fl])
      show "distinct (map tc_id (calls s'))" "open_ids (calls s') i \<subseteq> open_ids (calls s) i" for i
        using thread_opens_nothing [OF d, of "ts ! n" cf] False r by auto
      fix i v q assume "AtModel i v q \<in> set ?ts'"
      from old [OF this] show "AtModel i v q \<in> set ts \<or> inv_id v = i \<and> open_ids (calls s') i = {}"
        using r by (auto dest: in_set_takeD in_set_dropD thread_starts_asking)
    qed
  next
    case True
    then obtain i v q where at: "ts ! n = AtModel i v q" by blast
    have iv: "inv_id v = i" "open_ids (calls s) i = {}"
      using one_open_asking [OF assms, of i v q] at \<open>n < length ts\<close> nth_mem [of n ts] by simp_all
    have "opened_by (calls s) i (calls s')" using answer_opens_one [OF d, of v cf i q] at r iv by simp
    then obtain k where k: "distinct (map tc_id (calls s'))"
      "\<And>j. open_ids (calls s') j \<subseteq> open_ids (calls s) j \<union> (if j = i then {k} else {})"
      unfolding opened_by_def by blast
    show ?thesis unfolding one_open_def
    proof (intro conjI allI ballI impI)
      fix j x y assume xy: "x \<in> open_ids (calls s') j" "y \<in> open_ids (calls s') j"
      show "x = y"
      proof (cases "j = i")
        case True
        with xy k(2) [of j] iv(2) show ?thesis by auto
      next
        case False
        with xy k(2) [of j] have "x \<in> open_ids (calls s) j" "y \<in> open_ids (calls s) j" by auto
        then show ?thesis by (rule one_open_parts(2) [OF assms])
      qed
    next
      fix j w p assume a: "AtModel j w p \<in> set ?ts'"
      have "t \<noteq> Some (AtModel j w p)" using r at by (auto simp: settle_def split: prod.splits sum.splits if_splits)
      with old [OF a] others_distinct [OF dt \<open>n < length ts\<close>, of "AtModel j w p"] at
      have j: "j \<noteq> i" "AtModel j w p \<in> set ts" by auto
      then show "inv_id w = j" "open_ids (calls s') j = {}"
        using one_open_asking [OF assms j(2)] k(2) [of j] by auto
    qed (use fl k(1) in simp_all)
  qed
  then show ?thesis using go_on_run [OF True r] by simp
qed (use assms in \<open>simp add: go_on_def\<close>)

text \<open>
  C8: One call per turn. However operators, agents and goroutines interleave, an
  investigation has at most one tool call that is undecided or waits to be executed, and
  while the model is being asked for the next one it has none.
\<close>
theorem one_open_call:
  assumes "hub_run w s0 ls (s, ts)" and "running s0 = []" and "calls s0 = []"
  shows "(\<forall>c \<in> set (calls s). \<forall>d \<in> set (calls s). tc_inv c = tc_inv d \<longrightarrow> open_call c \<longrightarrow> open_call d \<longrightarrow> c = d)
    \<and> (\<forall>i v q. AtModel i v q \<in> set ts \<longrightarrow> (\<forall>c \<in> set (calls s). tc_inv c = i \<longrightarrow> \<not> open_call c))"
proof -
  have "one_open s ts"
  proof (rule hub_run_invariant [OF assms(1), of "\<lambda>ls s ts. one_open s ts"])
    show "one_open s0 []" using assms(2,3) by (simp add: one_open_def flagged_def open_ids_def)
  next
    fix ls s ts a assume "one_open s ts"
    moreover from this have "flagged (snd (run_state (hub_exec w a) s)) ts"
      using leavesD [OF leaves_hub_exec, of running a w s]
      by (simp add: one_open_def flagged_def running_indep_clock leaves_SetAutoApprove leaves_decisions indep_def)
    ultimately show "one_open (snd (run_state (hub_exec w a) s)) ts"
      by (rule one_open_shrink)
        (use act_opens_nothing [of s w a] \<open>one_open s ts\<close> in \<open>auto simp: one_open_def\<close>)
  next
    fix ls s ts n assume oo: "one_open s ts"
    have "AtModel i v q \<in> set ts" if "AtModel i v q \<in> set (snd (wake n (s, ts)))" for i v q
      using that by (auto simp: wake_def Let_def split: prod.splits if_splits)
    with oo flagged_wake [of s ts n] show "one_open (fst (wake n (s, ts))) (snd (wake n (s, ts)))"
      by (intro one_open_shrink [OF oo]) (auto simp: one_open_def wake_calls)
  next
    fix ls s ts n assume "one_open s ts"
    then show "one_open (fst (go_on (wo_cfg w) n (s, ts))) (snd (go_on (wo_cfg w) n (s, ts)))"
      by (rule one_open_go_on)
  qed
  note oo = one_open_parts(1) [OF this] one_open_parts(2) [OF this] one_open_asking [OF this]
  show ?thesis
  proof (intro conjI ballI allI impI notI)
    fix c d assume cd: "c \<in> set (calls s)" "d \<in> set (calls s)" "tc_inv c = tc_inv d" "open_call c" "open_call d"
    then have "tc_id c = tc_id d"
      by (intro oo(2) [of _ "tc_inv d"]) (simp_all add: open_ids_def)
    with oo(1) cd show "c = d" by (simp add: distinct_map inj_on_def)
  next
    fix i v q c assume "AtModel i v q \<in> set ts" "c \<in> set (calls s)" "tc_inv c = i" "open_call c"
    with oo(3) [of i v q] show False by (auto simp: open_ids_def)
  qed
qed

end
