(* ===== verification/Inv_Approval.thy ===== *)
theory Inv_Approval
  imports Inv_Turns
begin

text \<open>
  No call is cleared for execution without an operator's decision, unless it is one of the
  inventory tools or auto-approve was switched on; and what a cleared call may send.
\<close>

section \<open>Who cleared a call\<close>

definition cleared :: "call_row \<Rightarrow> bool" where
  "cleared c = (tc_status c = TcApproved \<or> tc_status c = TcEdited \<or> tc_status c = TcExecuted)"

text \<open>Somewhere in the run the operator approved or edited the call, when it was the pending one.\<close>

definition operator_decided :: "world \<Rightarrow> 'z inv_scheme \<Rightarrow> label list \<Rightarrow> string \<Rightarrow> string \<Rightarrow> bool" where
  "operator_decided w s0 ls i k =
     (\<exists>ls1 ls2 d t b s1 ts1 c. ls = ls1 @ Act (HDecide i d t b) # ls2 \<and> (d = ''approve'' \<or> d = ''edit'')
        \<and> hub_run w s0 ls1 (s1, ts1) \<and> pending_row i (calls s1) = Some c \<and> tc_id c = k)"

definition justified :: "world \<Rightarrow> 'z inv_scheme \<Rightarrow> label list \<Rightarrow> call_row \<Rightarrow> bool" where
  "justified w s0 ls c =
     (isAutoTool (tc_tool c) \<or> Act (HAutoApprove (tc_inv c) True) \<in> set ls
      \<or> operator_decided w s0 ls (tc_inv c) (tc_id c))"

lemma operator_decided_mono: "operator_decided w s0 ls i k \<Longrightarrow> operator_decided w s0 (ls @ ls') i k"
  unfolding operator_decided_def by (metis append_Cons append_assoc)

lemma justified_mono: "justified w s0 ls c \<Longrightarrow> justified w s0 (ls @ ls') c"
  by (auto simp: justified_def operator_decided_mono)

lemma justified_same: "same_call a b \<Longrightarrow> justified w s0 ls a = justified w s0 ls b"
  by (simp add: same_call_def justified_def)

text \<open>Of a table: the cleared calls, and those with an id in \<open>K\<close>, satisfy \<open>J\<close>.\<close>

definition cleared_ok :: "(call_row \<Rightarrow> bool) \<Rightarrow> string set \<Rightarrow> call_row list \<Rightarrow> bool" where
  "cleared_ok J K cs =
     (distinct (map tc_id cs) \<and> K \<subseteq> tc_id ` set cs \<and> (\<forall>c \<in> set cs. cleared c \<or> tc_id c \<in> K \<longrightarrow> J c))"

lemma cleared_ok_weaken: "cleared_ok J K cs \<Longrightarrow> K' \<subseteq> K \<Longrightarrow> (\<And>c. J c \<Longrightarrow> J' c) \<Longrightarrow> cleared_ok J' K' cs"
  by (auto simp: cleared_ok_def)

lemma may_set_cleared:
  assumes J: "\<And>a b. same_call a b \<Longrightarrow> J a = J b"
    and S: "k \<in> K \<or> S \<inter> {TcApproved, TcEdited, TcExecuted} = {}"
  shows "may_set (cleared_ok J K) k S"
  unfolding may_set_def
proof (intro allI impI)
  fix cs g
  assume P: "cleared_ok J K cs" and g: "\<forall>c. same_call (g c) c \<and> (tc_status (g c) = tc_status c \<or> tc_status (g c) \<in> S)"
  from g have ids: "map tc_id (update_rows (\<lambda>c. tc_id c = k) g cs) = map tc_id cs" by (simp add: same_call_updates)
  have "J c" if c: "c \<in> set (update_rows (\<lambda>c. tc_id c = k) g cs)" "cleared c \<or> tc_id c \<in> K" for c
  proof -
    from c obtain c0 where c0: "c0 \<in> set cs" "c = (if tc_id c0 = k then g c0 else c0)"
      by (auto simp: set_update_rows)
    have same: "same_call (g c0) c0" "tc_status (g c0) = tc_status c0 \<or> tc_status (g c0) \<in> S" using g by simp_all
    then have "tc_id (g c0) = tc_id c0" by (simp add: same_call_def)
    moreover have "cleared c0 \<or> tc_id c0 \<in> K" if "tc_id c0 = k"
      using c(2) c0(2) same(2) S that calculation by (auto simp: cleared_def)
    ultimately have "cleared c0 \<or> tc_id c0 \<in> K" using c(2) c0(2) by (cases "tc_id c0 = k") simp_all
    with P c0(1) have "J c0" by (auto simp: cleared_ok_def)
    with c0(2) J [OF same(1)] show ?thesis by simp
  qed
  moreover have "tc_id ` set (update_rows (\<lambda>c. tc_id c = k) g cs) = tc_id ` set cs"
    using arg_cong [OF ids, of set] by (simp only: set_map)
  ultimately show "cleared_ok J K (update_rows (\<lambda>c. tc_id c = k) g cs)"
    using P ids by (simp add: cleared_ok_def)
qed

lemmas may_set_justified = may_set_cleared [OF justified_same]

lemma cleared_ok_add:
  assumes "cleared_ok J K cs" and "J c" and "c \<in> set cs"
  shows "cleared_ok J (insert (tc_id c) K) cs"
proof -
  have "d = c" if "d \<in> set cs" "tc_id d = tc_id c" for d
    using assms that by (auto simp: cleared_ok_def distinct_map inj_on_def)
  with assms show ?thesis by (auto simp: cleared_ok_def)
qed

definition waiting_ids :: "thread list \<Rightarrow> string set" where
  "waiting_ids ts = {tc_id c | i c ids tid. AtTasks i c ids tid \<in> set ts}"

definition approvals_ok :: "world \<Rightarrow> 'z inv_scheme \<Rightarrow> label list \<Rightarrow> 'z inv_scheme \<Rightarrow> thread list \<Rightarrow> bool" where
  "approvals_ok w s0 ls s ts =
     (cleared_ok (justified w s0 ls) (waiting_ids ts) (calls s) \<and>
      (\<forall>i \<in> auto_on s. Act (HAutoApprove i True) \<in> set ls) \<and>
      (\<forall>i v q. AtModel i v q \<in> set ts \<longrightarrow> inv_auto_approve v \<longrightarrow> Act (HAutoApprove (inv_id v) True) \<in> set ls))"

lemma auto_on_set: "auto_on (snd (run_state (SetAutoApprove i on) s)) \<subseteq> auto_on s \<union> (if on then {i} else {})"
proof -
  have "set (map inv_id (filter inv_auto_approve
      (update_rows (\<lambda>v. inv_id v = i) (\<lambda>v. v\<lparr>inv_auto_approve := on, inv_updated_at := t\<rparr>) vs)))
    \<subseteq> set (map inv_id (filter inv_auto_approve vs)) \<union> (if on then {i} else {})" for vs t
    by (induction vs) (auto simp del: set_map)
  note rows = this
  show ?thesis
  proof (cases "faults s \<noteq> [] \<and> hd (faults s)")
    case True
    then show ?thesis
      by (simp add: SetAutoApprove_def update_inv_def sql_write_def run_sql auto_on_def)
  next
    case False
    then have "invs (snd (run_state (SetAutoApprove i on) s)) =
        update_rows (\<lambda>v. inv_id v = i) (\<lambda>v. v\<lparr>inv_auto_approve := on, inv_updated_at := clock s\<rparr>) (invs s)"
      by (auto simp: SetAutoApprove_def update_inv_def sql_write_def run_sql simp del: run_sql_no_fault faults_Nil)
    with rows [of "clock s" "invs s"] show ?thesis by (simp only: auto_on_def)
  qed
qed

lemma auto_on_act:
  "auto_on (snd (run_state (hub_exec w a) (s :: 'b inv_scheme))) \<subseteq> auto_on s \<union> {i. a = HAutoApprove i True}"
proof (cases "\<exists>i on. a = HAutoApprove i on")
  case True
  then obtain i on where "a = HAutoApprove i on" by blast
  with auto_on_set [of i on s] show ?thesis by (auto split: if_splits)
next
  case False
  have "leaves auto_on (hub_exec w a :: ('b, unit) im)"
    by (rule leaves_hub_exec) (use False in \<open>auto simp: running_indep_clock intro: leaves_decisions\<close>)
  from leavesD [OF this] show ?thesis by simp
qed

lemma waiting_ids_mono: "set ts \<subseteq> set ts' \<Longrightarrow> waiting_ids ts \<subseteq> waiting_ids ts'"
  unfolding waiting_ids_def by blast

lemma waiting_idsI: "AtTasks i c ids tid \<in> set ts \<Longrightarrow> tc_id c \<in> waiting_ids ts"
  unfolding waiting_ids_def by blast

lemma approvals_okD:
  assumes "approvals_ok w s0 ls s ts"
  shows "cleared_ok (justified w s0 ls) (waiting_ids ts) (calls s)"
    and "\<And>i. i \<in> auto_on s \<Longrightarrow> Act (HAutoApprove i True) \<in> set ls"
    and "\<And>i v q. AtModel i v q \<in> set ts \<Longrightarrow> inv_auto_approve v \<Longrightarrow> Act (HAutoApprove (inv_id v) True) \<in> set ls"
  using assms unfolding approvals_ok_def by blast+

lemma approvals_okI:
  assumes "cleared_ok (justified w s0 ls) (waiting_ids ts) (calls s)"
    and "\<And>i. i \<in> auto_on s \<Longrightarrow> Act (HAutoApprove i True) \<in> set ls"
    and "\<And>i v q. AtModel i v q \<in> set ts \<Longrightarrow> inv_auto_approve v \<Longrightarrow> Act (HAutoApprove (inv_id v) True) \<in> set ls"
  shows "approvals_ok w s0 ls s ts"
  using assms unfolding approvals_ok_def by blast

lemma approvals_later:
  "approvals_ok w s0 ls s ts \<Longrightarrow> cleared_ok (justified w s0 (ls @ ls')) (waiting_ids ts) (calls s)"
  by (drule approvals_okD(1)) (auto elim!: cleared_ok_weaken intro: justified_mono)

lemma act_approvals:
  assumes ok: "approvals_ok w s0 ls (s :: 'b inv_scheme) ts" and run: "hub_run w s0 ls (s, ts)"
  shows "approvals_ok w s0 (ls @ [Act a]) (snd (run_state (hub_exec w a) s)) ts"
proof -
  let ?J = "justified w s0 (ls @ [Act a])"
  have start: "cleared_ok ?J (waiting_ids ts) (calls s)" by (rule approvals_later [OF ok])
  have "\<exists>K. waiting_ids ts \<subseteq> K \<and> cleared_ok ?J K (calls (snd (run_state (hub_exec w a) s)))"
  proof (cases "\<exists>i d t b c. a = HDecide i d t b \<and> pending_row i (calls s) = Some c \<and> (d = ''approve'' \<or> d = ''edit'')")
    case True
    then obtain i d t b c where a: "a = HDecide i d t b" "pending_row i (calls s) = Some c"
      "d = ''approve'' \<or> d = ''edit''" by blast
    note c = pending_rowD [OF a(2)]
    have "operator_decided w s0 (ls @ [Act a]) i (tc_id c)"
      unfolding operator_decided_def using a run by blast
    then have "?J c" using c by (simp add: justified_def)
    then have K: "cleared_ok ?J (insert (tc_id c) (waiting_ids ts)) (calls s)"
      using cleared_ok_add [OF start] c by blast
    have "cleared_ok ?J (insert (tc_id c) (waiting_ids ts)) (calls (snd (run_state (hub_exec w a) s)))"
      by (rule act_calls [where P = "cleared_ok ?J (insert (tc_id c) (waiting_ids ts))", OF K])
        (use a in \<open>auto intro!: may_set_justified\<close>)
    then show ?thesis by blast
  next
    case False
    have "cleared_ok ?J (waiting_ids ts) (calls (snd (run_state (hub_exec w a) s)))"
      by (rule act_calls [where P = "cleared_ok ?J (waiting_ids ts)", OF start])
        (use False in \<open>auto intro!: may_set_justified simp: decision_states_def\<close>)
    then show ?thesis by blast
  qed
  then have "cleared_ok ?J (waiting_ids ts) (calls (snd (run_state (hub_exec w a) s)))"
    by (auto elim!: cleared_ok_weaken)
  with auto_on_act [of w a s] approvals_okD(2,3) [OF ok] show ?thesis
    by (intro approvals_okI) auto
qed

lemma thread_auto_on: "run_state (thread_run cf t) s = (r, s') \<Longrightarrow> auto_on s' = auto_on s"
proof (cases "t = Leaving (thread_inv t)")
  case True
  then obtain i where "t = Leaving i" by metis
  then show "run_state (thread_run cf t) s = (r, s') \<Longrightarrow> ?thesis"
    by (auto simp: advance_leave_def auto_on_def)
next
  case False
  then show "run_state (thread_run cf t) s = (r, s') \<Longrightarrow> ?thesis"
    by (intro leaves_runD [OF leaves_thread_run]) auto
qed

lemma waiting_ids_single: "waiting_ids [t] = (case t of AtTasks i c ids tid \<Rightarrow> {tc_id c} | _ \<Rightarrow> {})"
  by (cases t) (auto simp: waiting_ids_def)

lemma waiting_ids_append: "waiting_ids (xs @ ys) = waiting_ids xs \<union> waiting_ids ys"
  by (auto simp: waiting_ids_def)

text \<open>
  A goroutine that goes on clears no call, but for the answer of the model: the row it adds
  needs no operator only if the tool or the investigation says so.
\<close>

lemma thread_cleared:
  assumes K: "cleared_ok (justified w s0 ls) K (calls (s :: 'b inv_scheme))"
    and turn: "\<And>i c. t = Turn i \<Longrightarrow> approved_row i (calls s) = Some c \<Longrightarrow> tc_id c \<in> K"
    and model: "\<And>i v q. t = AtModel i v q \<Longrightarrow> inv_auto_approve v \<Longrightarrow> Act (HAutoApprove (inv_id v) True) \<in> set ls"
    and tasks: "\<And>i c ids tid. t = AtTasks i c ids tid \<Longrightarrow> tc_id c \<in> K"
  shows "cleared_ok (justified w s0 ls) K (calls (snd (run_state (thread_run cf t) s)))"
proof (rule thread_calls [where P = "cleared_ok (justified w s0 ls) K", OF K])
  fix i v q x n m and c :: call_req
  assume t: "t = AtModel i v q" and fresh: "cr_id c \<notin> tc_id ` set (calls s)"
  let ?r = "proposed_row v c x n m"
  have r: "tc_id ?r = cr_id c" "tc_inv ?r = inv_id v" "tc_tool ?r = cr_name c"
    "tc_status ?r = (if needs_no_operator v c then TcApproved else TcPending)"
    by (simp_all add: proposed_row_def proposal_def)
  have "justified w s0 ls ?r" if "cleared ?r"
    using that model [OF t] r by (auto simp: cleared_def justified_def needs_no_operator_def split: if_splits)
  with K fresh r show "cleared_ok (justified w s0 ls) K (calls s @ [?r])"
    by (auto simp: cleared_ok_def)
qed (use turn tasks in \<open>auto intro!: may_set_justified\<close>)

lemma go_on_approvals:
  assumes ok: "approvals_ok w s0 ls (s :: 'b inv_scheme) ts"
  shows "approvals_ok w s0 (ls @ [l]) (fst (go_on cf n (s, ts))) (snd (go_on cf n (s, ts)))"
proof (cases "n < length ts")
  case True
  obtain t s' where r: "run_state (thread_run cf (ts ! n)) s = (t, s')" by fastforce
  let ?ts' = "take n ts @ (case t of None \<Rightarrow> [] | Some x \<Rightarrow> [x]) @ drop (Suc n) ts"
  let ?J = "justified w s0 ls"
  have K0: "cleared_ok ?J (waiting_ids ts) (calls s)"
    and auto: "\<And>i. i \<in> auto_on s \<Longrightarrow> Act (HAutoApprove i True) \<in> set ls"
    and model: "\<And>i v q. AtModel i v q \<in> set ts \<Longrightarrow> inv_auto_approve v \<Longrightarrow> Act (HAutoApprove (inv_id v) True) \<in> set ls"
    using approvals_okD [OF ok] by blast+
  have tn: "ts ! n \<in> set ts" using True by simp
  obtain K where K: "waiting_ids ts \<subseteq> K" "cleared_ok ?J K (calls s)"
    and turn: "\<And>i c. ts ! n = Turn i \<Longrightarrow> approved_row i (calls s) = Some c \<Longrightarrow> tc_id c \<in> K"
  proof (cases "\<exists>i c. ts ! n = Turn i \<and> approved_row i (calls s) = Some c")
    case True
    then obtain i c where c: "ts ! n = Turn i" "approved_row i (calls s) = Some c" by blast
    note c' = approved_rowD [OF c(2)]
    have "?J c" using K0 c' by (auto simp: cleared_ok_def cleared_def)
    from cleared_ok_add [OF K0 this] c' have "cleared_ok ?J (insert (tc_id c) (waiting_ids ts)) (calls s)" by blast
    then show ?thesis by (rule that [rotated]) (use c in auto)
  qed (use K0 that in blast)
  have "cleared_ok ?J K (calls (snd (run_state (thread_run cf (ts ! n)) s)))"
  proof (rule thread_cleared [OF K(2)])
    fix i v q assume "ts ! n = AtModel i v q" "inv_auto_approve v"
    with model [of i v q] tn show "Act (HAutoApprove (inv_id v) True) \<in> set ls" by simp
  next
    fix i c ids tid assume "ts ! n = AtTasks i c ids tid"
    with waiting_idsI [of i c ids tid ts] tn K(1) show "tc_id c \<in> K" by auto
  qed (rule turn)
  then have "cleared_ok ?J K (calls s')" using r by simp
  moreover have "waiting_ids ?ts' \<subseteq> K"
  proof -
    have "waiting_ids (take n ts) \<subseteq> waiting_ids ts" "waiting_ids (drop (Suc n) ts) \<subseteq> waiting_ids ts"
      by (rule waiting_ids_mono, rule set_take_subset set_drop_subset)+
    moreover have "tc_id c \<in> K" if "t = Some (AtTasks i c ids tid)" for i c ids tid
    proof (cases "ts ! n")
      case (Turn j)
      with r that obtain x where "run_state (step_begin cf j) s = (Inr x, s')" "place j x = AtTasks i c ids tid"
        by (auto simp: settle_def split: prod.splits sum.splits)
      then have "approved_row j (calls s) = Some c" using step_begin_awaits by (cases x) force+
      then show ?thesis by (rule turn [OF Turn])
    qed (use r that in \<open>auto simp: settle_def split: prod.splits sum.splits if_splits\<close>)
    ultimately show ?thesis using K(1)
      by (auto simp: waiting_ids_append waiting_ids_single split: option.splits thread.splits) (auto simp: waiting_ids_def)
  qed
  ultimately have "cleared_ok (justified w s0 (ls @ [l])) (waiting_ids ?ts') (calls s')"
    by (rule cleared_ok_weaken) (rule justified_mono)
  moreover have "Act (HAutoApprove (inv_id v) True) \<in> set ls"
    if "AtModel i v q \<in> set ?ts'" "inv_auto_approve v" for i v q
  proof (cases "AtModel i v q \<in> set ts")
    case False
    with that have t: "t = Some (AtModel i v q)"
      by (auto split: option.splits dest: in_set_takeD in_set_dropD)
    have "v \<in> set (invs s)"
    proof (cases "ts ! n")
      case (Turn j)
      with r t obtain x where "run_state (step_begin cf j) s = (Inr x, s')" "place j x = AtModel i v q"
        by (auto simp: settle_def split: prod.splits sum.splits)
      then show ?thesis using step_begin_asks by (cases x) force+
    qed (use r t in \<open>auto simp: settle_def split: prod.splits sum.splits if_splits\<close>)
    with that(2) auto [of "inv_id v"] show ?thesis by (auto simp: auto_on_def)
  qed (use model that(2) in blast)
  moreover have "auto_on s' = auto_on s" by (rule thread_auto_on [OF r])
  ultimately have "approvals_ok w s0 (ls @ [l]) s' ?ts'"
    using auto by (intro approvals_okI) simp_all
  then show ?thesis using go_on_run [OF True r] by simp
next
  case False
  have "approvals_ok w s0 (ls @ [l]) s ts"
    using approvals_okD(2,3) [OF ok] approvals_later [OF ok] by (intro approvals_okI) auto
  with False show ?thesis by (simp add: go_on_def)
qed

lemma wake_approvals:
  assumes ok: "approvals_ok w s0 ls s ts"
  shows "approvals_ok w s0 (ls @ [l]) (fst (wake n (s, ts))) (snd (wake n (s, ts)))"
proof -
  have "waiting_ids (snd (wake n (s, ts))) = waiting_ids ts" "auto_on (fst (wake n (s, ts))) = auto_on s"
    by (auto simp: wake_def Let_def advance_enter_def waiting_ids_def auto_on_def split: prod.splits if_splits)
  moreover have "Act (HAutoApprove (inv_id v) True) \<in> set ls"
    if "AtModel i v q \<in> set (snd (wake n (s, ts)))" "inv_auto_approve v" for i v q
  proof -
    have "AtModel i v q \<in> set ts" using that(1) by (auto simp: wake_def Let_def split: prod.splits if_splits)
    from approvals_okD(3) [OF ok this that(2)] show ?thesis .
  qed
  ultimately show ?thesis
    using wake_calls [of n s ts] approvals_okD(2) [OF ok] approvals_later [OF ok, of "[l]"]
    by (intro approvals_okI) simp_all
qed

text \<open>
  C3: Approval. Take any interleaving of operators, agents and goroutines from a hub without
  tool calls, with any answers of the model and any driver faults. A call that is approved,
  edited or executed is one of the three inventory tools, or belongs to an investigation
  whose auto-approve an operator switched on, or an operator decided \<open>approve\<close> or \<open>edit\<close> on
  the investigation when this very call was the one pending.
\<close>
theorem cleared_needs_operator:
  assumes "hub_run w s0 ls (s, ts)" and "calls s0 = []" and "auto_on s0 = {}"
    and "c \<in> set (calls s)" and "tc_status c \<in> {TcApproved, TcEdited, TcExecuted}"
  shows "isAutoTool (tc_tool c) \<or> Act (HAutoApprove (tc_inv c) True) \<in> set ls
    \<or> operator_decided w s0 ls (tc_inv c) (tc_id c)"
proof -
  have "approvals_ok w s0 ls s ts"
  proof (rule hub_run_invariant [OF assms(1), of "\<lambda>ls s ts. approvals_ok w s0 ls s ts"])
    show "approvals_ok w s0 [] s0 []"
      using assms(2,3) by (simp add: approvals_ok_def cleared_ok_def waiting_ids_def)
  qed (auto intro: act_approvals wake_approvals go_on_approvals)
  then have "cleared_ok (justified w s0 ls) (waiting_ids ts) (calls s)" by (simp add: approvals_ok_def)
  with assms(4,5) have "justified w s0 ls c" by (auto simp: cleared_ok_def cleared_def)
  then show ?thesis by (simp add: justified_def)
qed

end
