(* ===== verification/Api_Safety.thy ===== *)
theory Api_Safety
  imports Api_Server
begin

text \<open>
  What the agent server guarantees: who may enroll and connect, what a run does with every
  host when its requests go through the server's streams (the runner's \<open>dispatcher\<close>
  interface, interpreted here), the bound of a send queue, and what a reconnection does.
\<close>

section \<open>The server as the runner's dispatcher\<close>

interpretation agents: dispatcher IsOnline SendCollect
  by unfold_locales
    (auto simp: IsOnline_def SendCollect_def runner_view split: option.splits)

text \<open>
  A run accounts for every host it was asked for. When the driver does not fail, the
  hosts are known and the ids drawn are new, \<open>CreateRun\<close> over the server's streams returns
  the new run, adds exactly one task per requested host, in order and with the request's
  collector and parameters, and each of these is either sent, and then awaited from that
  very host, or undeliverable with a reason; none is left pending, and nothing else is
  awaited.
\<close>
theorem create_run_accounts_for_hosts:
  assumes "rr_hosts req \<noteq> []" and "rr_collector req \<noteq> []" and "faults s = []"
    and "set (rr_hosts req) \<subseteq> h_id ` set (hosts s)" and "fresh_ids ids s"
  shows "\<exists>s' ts. run_state (CreateRun ids IsOnline SendCollect req) s = (Inr (''run_'' @ ids (rnd s)), s')
     \<and> tasks s' = tasks s @ ts
     \<and> list_all2 (\<lambda>h t. tk_host t = h \<and> tk_run t = ''run_'' @ ids (rnd s)
          \<and> tk_collector t = rr_collector req \<and> tk_params t = rr_params req) (rr_hosts req) ts
     \<and> (\<forall>t \<in> set ts. tk_status t = TkSent \<or> tk_status t = TkUndeliverable \<and> tk_error t \<noteq> [])
     \<and> pending s' = pending s @ map (\<lambda>t. awaiting (''run_'' @ ids (rnd s)) (rr_collector req) (tk_host t) (tk_id t))
              (filter (\<lambda>t. tk_status t = TkSent) ts)"
proof -
  from agents.CreateRun_outcome [OF assms] obtain s' where
    s': "run_state (CreateRun ids IsOnline SendCollect req) s = (Inr (''run_'' @ ids (rnd s)), s')"
    "run_outcome (''run_'' @ ids (rnd s)) req (rr_hosts req) s s'" by blast
  then obtain ts where ts: "tasks s' = tasks s @ ts"
    "list_all2 (\<lambda>h t. of_request (''run_'' @ ids (rnd s)) req h (tk_id t) t) (rr_hosts req) ts"
    "\<forall>t \<in> set ts. tk_status t = TkSent \<or> tk_status t = TkUndeliverable \<and> tk_error t \<noteq> []"
    "pending s' = pending s @ map (\<lambda>t. awaiting (''run_'' @ ids (rnd s)) (rr_collector req) (tk_host t) (tk_id t))
              (filter (\<lambda>t. tk_status t = TkSent) ts)"
    unfolding run_outcome_def by blast
  from ts(2) have "list_all2 (\<lambda>h t. tk_host t = h \<and> tk_run t = ''run_'' @ ids (rnd s)
          \<and> tk_collector t = rr_collector req \<and> tk_params t = rr_params req) (rr_hosts req) ts"
    by (rule list_all2_mono) (simp add: of_request_def)
  with s'(1) ts show ?thesis by blast
qed

definition demo_host :: "string \<Rightarrow> host" where
  "demo_host i = \<lparr>h_id = i, h_version = [], h_labels = [], h_facts = [], h_fingerprint = ''fp'',
     h_first_seen = 0, h_last_seen = 0, h_status = HostOnline\<rparr>"

definition demo_api :: api where
  "demo_api = runner.extend (demo_runner\<lparr>hosts := [demo_host ''a'', demo_host ''b''], pending := []\<rparr>)
     (api.fields [(''a'', \<lparr>sh_id = 0, sh_queue = []\<rparr>)] 1 [] [])"

definition demo_request :: run_request where
  "demo_request = \<lparr>rr_name = ''r'', rr_hosts = [''a'', ''b''], rr_collector = ''system_info'',
     rr_params = [], rr_timeout = 30, rr_by = ''op''\<rparr>"

lemmas demo_api_simps =
  demo_api_def demo_runner_def db.defs runner.defs api.defs empty_db_def demo_host_def

lemma nat_text_inj: "inj nat_text"
  by (rule injI) (metis digits_val_nat_text)

lemma create_run_accounts_for_hosts_witness:
  "\<exists>s' ts. run_state (CreateRun nat_text IsOnline SendCollect demo_request) demo_api = (Inr (''run_'' @ nat_text 0), s')
     \<and> tasks s' = ts \<and> length ts = 2"
proof -
  have "rr_hosts demo_request \<noteq> []" "rr_collector demo_request \<noteq> []" "faults demo_api = []"
    "set (rr_hosts demo_request) \<subseteq> h_id ` set (hosts demo_api)" "fresh_ids nat_text demo_api"
    by (simp_all add: demo_request_def demo_api_simps fresh_ids_def nat_text_inj)
  from create_run_accounts_for_hosts [OF this] show ?thesis
    by (auto simp: demo_request_def demo_api_simps dest!: list_all2_lengthD)
qed

section \<open>Enrollment\<close>

definition active_identity :: "string \<Rightarrow> string \<Rightarrow> 'z db_scheme \<Rightarrow> bool" where
  "active_identity agent fp s =
     (\<exists>r \<in> set (idents s). id_agent r = agent \<and> id_revoked_at r = None \<and> id_fingerprint r = fp)"

lemma RegisterIdentity_okD:
  assumes "run_state (RegisterIdentity agent fp via) s = (Inr (), s')" and "distinct (map id_agent (idents s))"
  shows "active_identity agent fp s' \<and> (\<forall>fp'. \<not> active_identity agent fp' s)"
proof -
  from assms(1) consider "find_row (\<lambda>r. id_agent r = agent) (idents s) = None"
    | old where "find_row (\<lambda>r. id_agent r = agent) (idents s) = Some old" "id_revoked_at old \<noteq> None"
    by (auto simp: RegisterIdentity_def run_sql Let_def simp del: run_sql_no_fault faults_Nil
        split: if_splits option.splits)
  then have "\<not> active_identity agent fp' s" for fp'
  proof cases
    case 1
    then show ?thesis by (auto simp: active_identity_def find_row_None_iff)
  next
    case 2
    note o = find_row_SomeD [OF 2(1)]
    have "r = old" if "r \<in> set (idents s)" "id_agent r = agent" for r
      using assms(2) that o by (auto simp: distinct_map inj_on_def)
    with 2(2) show ?thesis by (auto simp: active_identity_def)
  qed
  moreover have "active_identity agent fp s'"
    using assms(1)
    by (auto simp: RegisterIdentity_def run_sql Let_def active_identity_def
        simp del: run_sql_no_fault faults_Nil split: if_splits option.splits)
  ultimately show ?thesis by blast
qed

lemma Consume_frame:
  "idents (snd (run_state (ConsumeBootstrapToken hash p i) s)) = idents s"
  "clock (snd (run_state (ConsumeBootstrapToken hash p i) s)) = clock s"
  by (simp_all add: ConsumeBootstrapToken_def run_sql Let_def del: run_sql_no_fault faults_Nil split: prod.splits)

lemma Verify_frame:
  "idents (snd (run_state (VerifyIdentity i fp) s)) = idents s \<and> tokens (snd (run_state (VerifyIdentity i fp) s)) = tokens s"
  by (auto simp: VerifyIdentity_def run_sql simp del: run_sql_no_fault faults_Nil split: option.splits)

lemma Register_frame:
  "tokens (snd (run_state (RegisterIdentity i fp via) s)) = tokens s"
  by (auto simp: RegisterIdentity_def run_sql Let_def simp del: run_sql_no_fault faults_Nil split: option.splits)

lemma Audit_frame:
  "idents (snd (run_state (AuditLog a b d) s)) = idents s \<and> tokens (snd (run_state (AuditLog a b d) s)) = tokens s"
  by (auto simp: AuditLog_def sql_write_def run_sql Let_def simp del: run_sql_no_fault faults_Nil)

text \<open>The steps a successful enrollment went through.\<close>

lemma Enroll_okD:
  assumes "run_state (Enroll hash pk req) s = (Inr (cert, ca), s')"
  obtains s1 s2 s3 fp v where "run_state (ConsumeBootstrapToken hash (er_token req) (er_agent req)) s = (Inr (), s1)"
    and "run_state (VerifyIdentity (er_agent req) []) s1 = (v, s2)" and "v \<noteq> Inr ()" and "v \<noteq> Inl FingerprintMismatch"
    and "pk_sign pk (er_csr req) (er_agent req) = Some cert" and "pk_fingerprint pk cert = Some fp"
    and "run_state (RegisterIdentity (er_agent req) fp ''bootstrap'') s2 = (Inr (), s3)"
    and "idents s' = idents s3" and "tokens s' = tokens s3"
proof -
  have g: "\<not> (er_agent req = [] \<or> er_token req = [] \<or> er_csr req = [])"
    using assms by (auto simp: Enroll_def)
  obtain c s1 where c: "run_state (ConsumeBootstrapToken hash (er_token req) (er_agent req)) s = (c, s1)"
    by fastforce
  have c': "c = Inr ()" using assms g c by (cases c) (simp_all add: Enroll_def)
  obtain v s2 where v: "run_state (VerifyIdentity (er_agent req) []) s1 = (v, s2)" by fastforce
  have v': "\<not> (v = Inr () \<or> v = Inl FingerprintMismatch)"
    using assms g c c' v by (auto simp: Enroll_def)
  obtain ct where ct: "pk_sign pk (er_csr req) (er_agent req) = Some ct"
    using assms g c c' v v' by (cases "pk_sign pk (er_csr req) (er_agent req)") (auto simp: Enroll_def)
  obtain fp where fp: "pk_fingerprint pk ct = Some fp"
    using assms g c c' v v' ct by (cases "pk_fingerprint pk ct") (auto simp: Enroll_def)
  obtain r s3 where r: "run_state (RegisterIdentity (er_agent req) fp ''bootstrap'') s2 = (r, s3)" by fastforce
  have r': "r = Inr ()"
    using assms g c c' v v' ct fp r by (cases r) (auto simp: Enroll_def)
  have s': "ct = cert \<and> s' = snd (run_state (AuditLog (''agent:'' @ er_agent req) ''enroll''
      (JObj [(''agent_id'', JStr (er_agent req)), (''fingerprint'', JStr fp)])) s3)"
    using assms g c c' v v' ct fp r r' by (auto simp: Enroll_def split: prod.splits)
  with Audit_frame [of "''agent:'' @ er_agent req" "''enroll''"
      "JObj [(''agent_id'', JStr (er_agent req)), (''fingerprint'', JStr fp)]" s3]
  have "idents s' = idents s3" "tokens s' = tokens s3" by simp_all
  with that c c' v v' ct fp r r' s' show ?thesis by blast
qed

lemma enroll_bound:
  assumes "db_ok s" and "run_state (Enroll hash pk req) s = (Inr (cert, ca), s')"
  shows "(\<exists>t \<in> set (tokens s). live_token (hash (er_token req)) (er_agent req) (clock s) t)
    \<and> (\<forall>fp. \<not> active_identity (er_agent req) fp s)
    \<and> pk_sign pk (er_csr req) (er_agent req) = Some cert
    \<and> (\<exists>fp. pk_fingerprint pk cert = Some fp \<and> active_identity (er_agent req) fp s')
    \<and> spent (hash (er_token req)) s'"
proof -
  from assms(2) obtain s1 s2 s3 fp v where
    c: "run_state (ConsumeBootstrapToken hash (er_token req) (er_agent req)) s = (Inr (), s1)"
    and v: "run_state (VerifyIdentity (er_agent req) []) s1 = (v, s2)"
    and p: "pk_sign pk (er_csr req) (er_agent req) = Some cert" "pk_fingerprint pk cert = Some fp"
    and r: "run_state (RegisterIdentity (er_agent req) fp ''bootstrap'') s2 = (Inr (), s3)"
    and e: "idents s' = idents s3" "tokens s' = tokens s3"
    by (rule Enroll_okD)
  have ids: "idents s2 = idents s" "tokens s2 = tokens s1" "tokens s3 = tokens s2"
    using Consume_frame [of hash "er_token req" "er_agent req" s] Verify_frame [of "er_agent req" "[]" s1]
      Register_frame [of "er_agent req" fp "''bootstrap''" s2] c v r by simp_all
  have "distinct (map id_agent (idents s2))" using assms(1) ids by (simp add: db_ok_parts)
  from RegisterIdentity_okD [OF r this] ids(1) e(1)
  have "active_identity (er_agent req) fp s'" "\<forall>fp'. \<not> active_identity (er_agent req) fp' s"
    by (simp_all add: active_identity_def)
  moreover from consume_okD [OF c assms(1)] ids e(2)
  have "spent (hash (er_token req)) s'" "\<exists>t \<in> set (tokens s). live_token (hash (er_token req)) (er_agent req) (clock s) t"
    by (simp_all add: spent_def)
  ultimately show ?thesis using p by blast
qed

lemma Enroll_answer: "run_state (Enroll hash pk req) s = (Inr ans, s') \<Longrightarrow> snd ans = pk_ca pk"
  by (auto simp: Enroll_def split: if_splits sum.splits option.splits prod.splits)

text \<open>
  Enrollment hands out a certificate only for a live token bound to the very agent that
  asks, and only when that agent has no active identity; on success exactly the signed
  certificate's fingerprint is the agent's active identity, and the token is spent.
\<close>
theorem enroll_binds_identity:
  assumes "db_ok s" and "run_state (Enroll hash pk req) s = (Inr (cert, ca), s')"
  shows "(\<exists>t \<in> set (tokens s). live_token (hash (er_token req)) (er_agent req) (clock s) t)
    \<and> (\<forall>fp. \<not> active_identity (er_agent req) fp s)
    \<and> pk_sign pk (er_csr req) (er_agent req) = Some cert
    \<and> (\<exists>fp. pk_fingerprint pk cert = Some fp \<and> active_identity (er_agent req) fp s')
    \<and> spent (hash (er_token req)) s'"
  using assms by (rule enroll_bound)

definition demo_pki :: pki where
  "demo_pki = \<lparr>pk_sign = (\<lambda>csr agent. Some (''cert:'' @ agent)), pk_fingerprint = (\<lambda>c. Some (''fp:'' @ c)), pk_ca = ''ca''\<rparr>"

lemma enroll_binds_identity_witness:
  "\<exists>s'. run_state (Enroll (env_hash demo_env) demo_pki \<lparr>er_token = ''tok'', er_agent = ''web-1'', er_csr = ''csr''\<rparr>)
       (empty_db\<lparr>tokens := [demo_token]\<rparr>) = (Inr (''cert:web-1'', ''ca''), s')
     \<and> active_identity ''web-1'' ''fp:cert:web-1'' s'"
proof -
  let ?req = "\<lparr>er_token = ''tok'', er_agent = ''web-1'', er_csr = ''csr''\<rparr>"
  let ?s = "empty_db\<lparr>tokens := [demo_token]\<rparr>"
  have ok: "db_ok ?s" by (simp add: db_ok_parts empty_db_def msg_seqs_def)
  have "\<exists>s'. run_state (Enroll (env_hash demo_env) demo_pki ?req) ?s = (Inr (''cert:web-1'', ''ca''), s')"
    by (simp add: Enroll_def ConsumeBootstrapToken_def VerifyIdentity_def RegisterIdentity_def AuditLog_def
        sql_write_def demo_env_def demo_pki_def demo_token_def empty_db_def Let_def live_token_def)
  then obtain s' where s': "run_state (Enroll (env_hash demo_env) demo_pki ?req) ?s = (Inr (''cert:web-1'', ''ca''), s')" ..
  from enroll_binds_identity [OF ok s'] s' show ?thesis by (auto simp: demo_pki_def)
qed

section \<open>Connections\<close>

lemma Verify_okD:
  assumes "run_state (VerifyIdentity agent fp) s = (Inr (), s')"
  shows "active_identity agent fp s \<and> s' = s\<lparr>faults := tl (faults s)\<rparr>"
  using assms
  by (auto simp: VerifyIdentity_def run_sql active_identity_def simp del: run_sql_no_fault faults_Nil
      split: if_splits option.splits dest!: find_row_SomeD)

lemma registerStream_online [lookup_simps]:
  "map_of (streams (snd (run_state (registerStream agent h) s))) agent = Some \<lparr>sh_id = h, sh_queue = []\<rparr>"
  by (simp add: registerStream_def lookup_simps)

lemma streams_frame [simp]:
  "streams (snd (run_state (VerifyIdentity agent fp) s)) = streams s"
  "streams (snd (run_state (AuditLog a b d) s)) = streams s"
  "streams (snd (run_state (applyHello hl fp) s)) = streams s" for s :: "'a api_scheme"
  by (auto simp: VerifyIdentity_def AuditLog_def applyHello_def UpsertHost_def ReplaceCollectorManifests_def
      sql_write_def run_sql Let_def simp del: run_sql_no_fault faults_Nil
      split: option.splits prod.splits sum.splits if_splits)

lemma connect_hello:
  assumes "run_state (VerifyIdentity agent fp) s = (Inr (), s1)" and "agent \<noteq> []" and "hl_agent hl = agent"
    and "run_state (connect_open (Some (agent, fp)) (Some (Hello hl))) s = (r, s')"
  shows "case r of Inr c \<Rightarrow> c = \<lparr>cn_agent = agent, cn_fingerprint = fp, cn_handle = cn_handle c\<rparr>
                  \<and> map_of (streams s') agent = Some \<lparr>sh_id = cn_handle c, sh_queue = []\<rparr>
     | Inl _ \<Rightarrow> streams s' = streams s"
proof -
  obtain a s2 where a: "run_state (applyHello hl fp) s1 = (a, s2)" by fastforce
  have "streams s2 = streams s" using streams_frame(1) [of agent fp s] streams_frame(3) [of hl fp s1] a assms(1) by simp
  with assms a show ?thesis
    by (cases a) (auto simp: connect_open_def registerStream_def lookup_simps)
qed

text \<open>
  C17: A connection is opened only for a verified peer whose common name is an enrolled
  agent with that very certificate fingerprint, active (not revoked) at that moment, and
  whose first message is a hello under the same name; the agent is then online with an
  empty queue of its own. In every other case no stream is registered.
\<close>
theorem connect_requires_active_identity:
  assumes "run_state (connect_open peer first) s = (r, s')"
  shows "case r of
       Inr c \<Rightarrow> (\<exists>agent fp hl. peer = Some (agent, fp) \<and> agent \<noteq> [] \<and> active_identity agent fp s
                  \<and> first = Some (Hello hl) \<and> hl_agent hl = agent
                  \<and> c = \<lparr>cn_agent = agent, cn_fingerprint = fp, cn_handle = cn_handle c\<rparr>
                  \<and> map_of (streams s') agent = Some \<lparr>sh_id = cn_handle c, sh_queue = []\<rparr>)
     | Inl _ \<Rightarrow> streams s' = streams s"
proof (cases peer)
  case None
  with assms show ?thesis by (auto simp: connect_open_def)
next
  case (Some p)
  obtain agent fp where p: "peer = Some (agent, fp)" using Some by (cases p) auto
  obtain v s1 where v: "run_state (VerifyIdentity agent fp) s = (v, s1)" by fastforce
  have str: "streams s1 = streams s" using streams_frame(1) [of agent fp s] v by simp
  consider "agent = []" | e where "agent \<noteq> []" "v = Inl e"
    | "agent \<noteq> []" "v = Inr ()" "\<not> (\<exists>hl. first = Some (Hello hl) \<and> hl_agent hl = agent)"
    | hl where "agent \<noteq> []" "v = Inr ()" "first = Some (Hello hl)" "hl_agent hl = agent"
    by (cases v) auto
  then show ?thesis
  proof cases
    case 1
    with assms p show ?thesis by (auto simp: connect_open_def)
  next
    case 2
    with assms p v str show ?thesis
      by (auto simp: connect_open_def split: prod.splits) (metis snd_conv streams_frame(2))
  next
    case 3
    then have "r \<in> range Inl \<and> s' = s1"
      using assms p v by (auto simp: connect_open_def split: option.splits wire_msg.splits if_splits)
    with str show ?thesis by auto
  next
    case 4
    then have act: "active_identity agent fp s" using v Verify_okD [of agent fp s s1] by simp
    from connect_hello [of agent fp s s1 hl r s'] 4 v p assms show ?thesis
      using act by (cases r) auto
  qed
qed

lemma connect_requires_active_identity_witness:
  "\<exists>r s'. run_state (connect_open (Some (''a'', ''stolen'')) (Some Heartbeat)) demo_api = (r, s')
     \<and> (case r of Inr c \<Rightarrow> active_identity ''a'' ''stolen'' demo_api | Inl _ \<Rightarrow> streams s' = streams demo_api)"
proof -
  obtain r s' where r: "run_state (connect_open (Some (''a'', ''stolen'')) (Some Heartbeat)) demo_api = (r, s')"
    by (cases "run_state (connect_open (Some (''a'', ''stolen'')) (Some Heartbeat)) demo_api") auto
  from connect_requires_active_identity [OF r] r show ?thesis by (auto split: sum.splits)
qed

section \<open>Queues\<close>

definition queues_ok :: "'z api_scheme \<Rightarrow> bool" where
  "queues_ok s = (\<forall>p \<in> set (streams s). length (sh_queue (snd p)) \<le> queue_capacity)"

text \<open>
  A request is queued only while the agent has a stream, the queue of a stream never
  exceeds its capacity of eight, a full queue refuses the request at once and changes
  nothing, and an accepted request is at the end of the agent's queue: the pump hands the
  requests over in the order they were accepted.
\<close>
theorem send_queue_bounded:
  assumes "queues_ok s" and "run_state (SendCollect agent q) s = (ok, s')"
  shows "queues_ok s' \<and> (\<not> ok \<longrightarrow> s' = s)
    \<and> (ok \<longleftrightarrow> (\<exists>h. map_of (streams s) agent = Some h \<and> length (sh_queue h) < queue_capacity))
    \<and> (ok \<longrightarrow> dispatched s' = dispatched s @ [(agent, q)]
         \<and> (\<exists>h h'. map_of (streams s) agent = Some h \<and> map_of (streams s') agent = Some h'
              \<and> sh_id h' = sh_id h \<and> sh_queue h' = sh_queue h @ [q]))"
  using assms
  by (auto simp: SendCollect_def queues_ok_def set_map_put lookup_simps split: option.splits if_splits)

lemma send_queue_bounded_witness:
  "fst (run_state (SendCollect ''a'' \<lparr>rq_id = ''t'', rq_collector = ''c'', rq_params = [], rq_timeout = 1\<rparr>) demo_api)
   \<and> \<not> fst (run_state (SendCollect ''zz'' \<lparr>rq_id = ''t'', rq_collector = ''c'', rq_params = [], rq_timeout = 1\<rparr>) demo_api)"
proof -
  let ?q = "\<lparr>rq_id = ''t'', rq_collector = ''c'', rq_params = [], rq_timeout = 1\<rparr>"
  have ok: "queues_ok demo_api" by (simp add: queues_ok_def demo_api_simps)
  obtain a s1 where a: "run_state (SendCollect ''a'' ?q) demo_api = (a, s1)" by fastforce
  obtain b s2 where b: "run_state (SendCollect ''zz'' ?q) demo_api = (b, s2)" by fastforce
  from send_queue_bounded [OF ok a] send_queue_bounded [OF ok b] a b show ?thesis
    by (auto simp: demo_api_simps queue_capacity_def)
qed

section \<open>A reconnection\<close>

text \<open>
  When an agent reconnects before its old stream has ended, the end of the old stream
  takes the new one down: the deferred \<open>unregisterStream\<close> deletes the agent's entry
  whichever handle it holds, and the host is marked offline. The agent whose new
  connection is open is then not online to the runner, and nothing can be sent to it.
\<close>
theorem reconnect_loses_stream:
  assumes "run_state (connect_open peer first) s = (Inr old, s1)"
    and "run_state (connect_open peer2 first2) s1 = (Inr new, s2)" and "cn_agent new = cn_agent old"
    and "run_state (connect_close old) s2 = ((), s3)"
  shows "\<not> fst (run_state (IsOnline (cn_agent new)) s3)
    \<and> \<not> fst (run_state (SendCollect (cn_agent new) q) s3)"
proof -
  have "map_of (streams s3) (cn_agent old) = None"
    using assms(4) by (auto simp: connect_close_def connect_defer_def unregisterStream_def lookup_simps
        split: prod.splits)
  with assms(3) show ?thesis by (simp add: IsOnline_def SendCollect_def)
qed

definition demo_hello :: wire_msg where
  "demo_hello = Hello \<lparr>hl_agent = ''a'', hl_version = ''1.0.0'', hl_labels = [], hl_facts = [], hl_collectors = []\<rparr>"

definition demo_enrolled :: api where
  "demo_enrolled = demo_api\<lparr>idents := [\<lparr>id_agent = ''a'', id_fingerprint = ''fp'', id_enrolled_at = 0,
      id_via = ''bootstrap'', id_revoked_at = None, id_reason = None\<rparr>], streams := []\<rparr>"

lemma demo_connects:
  assumes "faults s = []" and "idents s = idents demo_enrolled"
  shows "\<exists>c s'. run_state (connect_open (Some (''a'', ''fp'')) (Some demo_hello)) s = (Inr c, s')
    \<and> cn_agent c = ''a'' \<and> faults s' = [] \<and> idents s' = idents demo_enrolled"
  using assms
  by (simp add: connect_open_def demo_hello_def VerifyIdentity_def demo_enrolled_def find_row_Cons
      applyHello_def UpsertHost_def ReplaceCollectorManifests_def sql_write_def registerStream_def)

lemma reconnect_loses_stream_witness:
  "\<exists>s3. \<not> fst (run_state (IsOnline ''a'') s3)
     \<and> (\<exists>old new s1 s2. run_state (connect_open (Some (''a'', ''fp'')) (Some demo_hello)) demo_enrolled = (Inr old, s1)
          \<and> run_state (connect_open (Some (''a'', ''fp'')) (Some demo_hello)) s1 = (Inr new, s2)
          \<and> run_state (connect_close old) s2 = ((), s3))"
proof -
  have "faults demo_enrolled = []" by (simp add: demo_enrolled_def demo_api_simps)
  from demo_connects [OF this refl] obtain old s1 where
    o: "run_state (connect_open (Some (''a'', ''fp'')) (Some demo_hello)) demo_enrolled = (Inr old, s1)"
    "cn_agent old = ''a''" "faults s1 = []" "idents s1 = idents demo_enrolled" by blast
  from demo_connects [OF o(3,4)] obtain new s2 where
    n: "run_state (connect_open (Some (''a'', ''fp'')) (Some demo_hello)) s1 = (Inr new, s2)" "cn_agent new = ''a''" by blast
  obtain s3 where c: "run_state (connect_close old) s2 = ((), s3)"
    by (cases "run_state (connect_close old) s2") auto
  have "cn_agent new = cn_agent old" using o n by simp
  from reconnect_loses_stream [OF o(1) n(1) this c] n o c show ?thesis by auto
qed

end
