(* ===== verification/Inv_Demo.thy ===== *)
theory Inv_Demo
  imports Inv_Approval Api_Safety
begin

text \<open>
  A small hub to try the model on: one agent online, an operator, and a scripted model that
  asks for one collection and then declares the investigation done.
\<close>

lemma shouldCompact_code [code]:
  "shouldCompact cf ws = (int (sum_list (map (wire_bytes cf) ws)) > 600000)"
  by (simp add: shouldCompact_def compactionTriggerTokens_def approxBytesPerToken_def)

definition demo_cfg :: cfg where
  "demo_cfg = \<lparr>c_max_steps = 40, c_max_tokens = 500000, c_llm = True, c_model = ''m'', c_ids = nat_text,
     c_err_text = (\<lambda>_. ''error''), c_step_error = (\<lambda>_. JInvalid ''step error''), c_marshal = (\<lambda>_. ''json''),
     c_system_prompt = (\<lambda>goal now allowed. ''prompt''), c_time = (\<lambda>_. ''now''),
     c_readdir = (\<lambda>_. None), c_read_file = (\<lambda>_. None), c_regex = (\<lambda>_. None), c_scan_lines = None\<rparr>"

definition demo_world :: world where
  "demo_world = \<lparr>wo_cfg = demo_cfg, wo_dir = ''/data'',
     wo_fs = \<lparr>fs_mkdir = (\<lambda>_. True), fs_create = (\<lambda>_. True), fs_write = (\<lambda>_ d. length d)\<rparr>,
     wo_hash = (\<lambda>t. t), wo_pki = demo_pki\<rparr>"

definition demo_reply :: "string \<Rightarrow> string \<Rightarrow> json \<Rightarrow> llm_reply option" where
  "demo_reply k tool args = Some \<lparr>lr_content = ''why'', lr_calls = [\<lparr>cr_id = k, cr_name = tool, cr_args = JText args\<rparr>],
     lr_prompt_tokens = 100, lr_completion_tokens = 10\<rparr>"

definition demo_collect :: json where
  "demo_collect = JObj [(''host_id'', JStr ''a''), (''collector'', JStr ''system_info'')]"

definition demo_hub :: "llm_reply option list \<Rightarrow> inv" where
  "demo_hub replies = api.extend demo_api (inv.fields (Some NewBus) [] [] [] replies [])"

definition after :: "llm_reply option list \<Rightarrow> label list \<Rightarrow> unit hub" where
  "after replies ls = foldl (\<lambda>h l. hub_step demo_world l h) (demo_hub replies, []) ls"

text \<open>Start; the model asks for a collection; the operator's turn.\<close>

definition ask_trace :: "label list" where
  "ask_trace = [Act (HStart ''goal'' ''op'' []), Wake 0, Run 0, Run 0, Run 0]"

definition approve_trace :: "label list" where
  "approve_trace = ask_trace @ [Act (HDecide ''inv_0'' ''approve'' jempty ''op'')]"

end
