(* ===== verification/Inv_Sends.thy ===== *)
theory Inv_Sends
  imports Inv_Demo
begin

text \<open>
  What reaches the agents: a request enters a send queue only for an operator's run or for
  a turn that executes an approved collection, and then only what that call says, to hosts
  inside the investigation's scope. And what holds a turn back: the budget and the
  confirmation of broad batches.
\<close>

section \<open>What a run sends\<close>

definition sent_within :: "(string \<times> collect_req) list \<Rightarrow> (string \<times> collect_req \<Rightarrow> bool) \<Rightarrow> 'z inv_scheme \<Rightarrow> bool" where
  "sent_within D R s = (\<exists>new. dispatched s = D @ new \<and> (\<forall>x \<in> set new. R x))"

lemma sent_leaves: "leaves dispatched m \<Longrightarrow> keeps (sent_within D R) m"
  by (simp add: keeps_def sent_within_def leaves_def)

lemma sent_SendCollect: "R (h, q) \<Longrightarrow> keeps (sent_within D R) (SendCollect h q)"
proof (rule keepsI)
  fix s :: "'z inv_scheme"
  assume R: "R (h, q)" and "sent_within D R s"
  then obtain new where new: "dispatched s = D @ new" "\<forall>x \<in> set new. R x" by (auto simp: sent_within_def)
  have "dispatched (snd (run_state (SendCollect h q) s)) \<in> {dispatched s, dispatched s @ [(h, q)]}"
    by (auto simp: SendCollect_def split: option.splits)
  then show "sent_within D R (snd (run_state (SendCollect h q) s))"
    unfolding sent_within_def using new R by (auto intro: exI [of _ new] exI [of _ "new @ [(h, q)]"])
qed

lemma sent_others:
  "keeps (sent_within D R) (limiter_allow h)" "keeps (sent_within D R) (register_task t1 t2 t3 t4)"
  "keeps (sent_within D R) (unregister_task t1)" "keeps (sent_within D R) (IsOnline h)"
  "keeps (sent_within D R) (FinishTask t1 st n e)" "keeps (sent_within D R) (StartTask t1)"
  "keeps (sent_within D R) (InsertTask tk)" "keeps (sent_within D R) (InsertRun rn)" "keeps (sent_within D R) (draw src)"
  "keeps (sent_within D R) (ListTasks t1)"
  by (rule sent_leaves, intro leaves_intros)+

text \<open>\<open>for_request req R\<close>: \<open>R\<close> holds of every request a run of \<open>req\<close> may send.\<close>

definition for_request :: "run_request \<Rightarrow> (string \<times> collect_req \<Rightarrow> bool) \<Rightarrow> bool" where
  "for_request req R = (\<forall>h q. h \<in> set (rr_hosts req) \<longrightarrow> rq_collector q = rr_collector req \<longrightarrow>
     rq_params q = rr_params req \<longrightarrow> rq_timeout q = rr_timeout req \<longrightarrow> R (h, q))"

lemma sent_CreateRun:
  assumes "for_request req R"
  shows "keeps (sent_within D R) (CreateRun ids IsOnline SendCollect req)"
proof -
  have task: "keeps (sent_within D R) (send_task IsOnline SendCollect rid req h tid)" if "h \<in> set (rr_hosts req)" for rid h tid
  proof -
    have "R (h, \<lparr>rq_id = tid, rq_collector = rr_collector req, rq_params = rr_params req, rq_timeout = rr_timeout req\<rparr>)"
      using assms that by (simp add: for_request_def)
    then show ?thesis unfolding send_task_def
      by (intro keeps_intros sent_SendCollect sent_others)
  qed
  have host: "keeps (sent_within D R) (dispatch_task ids IsOnline SendCollect rid req h)" if "h \<in> set (rr_hosts req)" for rid h
    unfolding dispatch_task_def newID_def
    by (intro keeps_intros task sent_others that)
  show ?thesis unfolding CreateRun_def newID_def
    by (intro keeps_intros host sent_others)
qed

section \<open>What a call may send\<close>

definition in_scope :: "string list \<Rightarrow> string \<Rightarrow> bool" where
  "in_scope allowed h = (allowed = [] \<or> h \<in> set allowed)"

definition call_may_send :: "string list \<Rightarrow> call_row \<Rightarrow> string \<times> collect_req \<Rightarrow> bool" where
  "call_may_send allowed c x =
     (in_scope allowed (fst x) \<and>
      (if tc_tool c = ''collect''
       then (let a = fst (decode dec_collect (tc_input c))
             in fst x = ca_host a \<and> rq_collector (snd x) = ca_collector a \<and> rq_params (snd x) = ca_params a)
       else (let b = fst (decode dec_batch (tc_input c))
             in tc_tool c = ''collect_batch'' \<and> \<not> needsBroadConfirm c \<and> fst x \<in> set (ba_hosts b) \<and>
                rq_collector (snd x) = ba_collector b \<and> rq_params (snd x) = ba_params b)))"

lemma inAllowed_scope: "inAllowed en h = in_scope (he_allowed en) h"
  by (simp add: inAllowed_def in_scope_def)

lemma sent_PrepareCollect:
  assumes "tc_tool c = ''collect''"
  shows "keeps (sent_within D (call_may_send (he_allowed en) c)) (PrepareCollect cf en (tc_input c))"
proof -
  obtain a ok where a: "decode dec_collect (tc_input c) = (a, ok)" by (cases "decode dec_collect (tc_input c)")
  have r: "for_request \<lparr>rr_name = nm, rr_hosts = [ca_host a], rr_collector = ca_collector a, rr_params = ca_params a,
      rr_timeout = ca_timeout a, rr_by = who\<rparr> (call_may_send (he_allowed en) c)" if "inAllowed en (ca_host a)" for nm who
    using that assms a by (auto simp: for_request_def call_may_send_def inAllowed_scope)
  show ?thesis
  proof (cases "inAllowed en (ca_host a)")
    case True
    show ?thesis unfolding PrepareCollect_def a Let_def prod.case run_tasks_def
      by (intro keeps_intros sent_CreateRun r True sent_others)
  next
    case False
    then show ?thesis unfolding PrepareCollect_def a Let_def prod.case
      by (auto intro!: keeps_intros)
  qed
qed

lemma sent_PrepareCollectBatch:
  assumes "tc_tool c = ''collect_batch''" and "\<not> needsBroadConfirm c"
  shows "keeps (sent_within D (call_may_send (he_allowed en) c)) (PrepareCollectBatch cf en (tc_input c))"
proof -
  obtain b ok where b: "decode dec_batch (tc_input c) = (b, ok)" by (cases "decode dec_batch (tc_input c)")
  show ?thesis
  proof (cases "List.find (\<lambda>h. \<not> inAllowed en h) (ba_hosts b)")
    case None
    then have all: "\<forall>h \<in> set (ba_hosts b). inAllowed en h" by (auto simp: find_None_iff)
    have r: "for_request \<lparr>rr_name = nm, rr_hosts = ba_hosts b, rr_collector = ba_collector b, rr_params = ba_params b,
        rr_timeout = ba_timeout b, rr_by = who\<rparr> (call_may_send (he_allowed en) c)" for nm who
      using all assms b by (auto simp: for_request_def call_may_send_def inAllowed_scope)
    show ?thesis unfolding PrepareCollectBatch_def b None Let_def prod.case run_tasks_def option.case
      by (intro keeps_intros sent_CreateRun r sent_others)
  next
    case (Some h)
    then show ?thesis unfolding PrepareCollectBatch_def b Let_def prod.case
      by (auto intro!: keeps_intros)
  qed
qed

lemma leaves_finish: "leaves dispatched (finish_now cf i c r)" "leaves dispatched (exec_finish cf i c r tid)"
  by (intro leaves_turns; simp)+

lemma sent_guarded:
  assumes "keeps (sent_within D R) p"
  shows "keeps (sent_within D R) (guarded_collect cf i c p tid)"
  unfolding guarded_collect_def
  by (intro keeps_intros assms; rule sent_leaves; intro leaves_intros leaves_finish)

lemma sent_executeApproved:
  assumes "run_state (executeApproved cf i c) s = (r, s')"
  shows "dispatched s' = dispatched s \<or>
    (\<exists>v \<in> set (invs s). inv_id v = i \<and> sent_within (dispatched s) (call_may_send (inv_allowed v) c) s')"
proof -
  obtain g s1 where g: "run_state (GetInvestigation i) s = (g, s1)" by fastforce
  show ?thesis
  proof (cases g)
    case (Inl e)
    have "leaves dispatched (GetInvestigation i)" by (intro leaves_intros) (simp add: indep_def)
    from leaves_runD [OF this g] Inl g assms show ?thesis by (simp add: executeApproved_def run_attempt)
  next
    case (Inr v)
    note v = run_GetInvestigation [OF g [unfolded Inr]]
    let ?en = "\<lparr>he_inv = i, he_allowed = inv_allowed v, he_bus = False\<rparr>"
    let ?K = "sent_within (dispatched s) (call_may_send (inv_allowed v) c)"
    let ?body = "if tc_tool c = ''collect''
          then guarded_collect cf i c (PrepareCollect cf ?en (tc_input c)) first_id
          else if tc_tool c = ''collect_batch'' then
            (if needsBroadConfirm c then do {
               _ \<leftarrow> SetToolCallRationale (tc_id c) broad_text;
               attempt (UpdateToolCall (tc_id c) TcPending [] [] jempty) (\<lambda>_. return (Inr Again))
             }
             else guarded_collect cf i c (PrepareCollectBatch cf ?en (tc_input c)) (join '',''))
          else do {
            r \<leftarrow> Dispatch cf ?en (tc_tool c) (tc_input c);
            finish_now cf i c r
          }"
    have body: "keeps ?K (?body :: ('a, terr + step_out) im)"
    proof (cases "tc_tool c = ''collect''")
      case True
      then show ?thesis using sent_guarded [OF sent_PrepareCollect [OF True, of _ ?en]] by simp
    next
      case nc: False
      show ?thesis
      proof (cases "tc_tool c = ''collect_batch''")
        case b: True
        show ?thesis
        proof (cases "needsBroadConfirm c")
          case True
          have "keeps ?K ((do {
               _ \<leftarrow> SetToolCallRationale (tc_id c) broad_text;
               attempt (UpdateToolCall (tc_id c) TcPending [] [] jempty) (\<lambda>_. return (Inr Again))
             }) :: ('a, terr + step_out) im)"
            by (rule sent_leaves) (intro leaves_intros)
          with nc b True show ?thesis by simp
        next
          case False
          with nc b sent_guarded [OF sent_PrepareCollectBatch [OF b False, of _ ?en]] show ?thesis by simp
        qed
      next
        case False
        have "keeps ?K ((do {
            r \<leftarrow> Dispatch cf ?en (tc_tool c) (tc_input c);
            finish_now cf i c r
          }) :: ('a, terr + step_out) im)"
          by (intro sent_leaves leaves_bind Dispatch_sends_nothing leaves_finish nc False)
        with nc False show ?thesis by simp
      qed
    qed
    have "?K s1" using v by (simp add: sent_within_def)
    moreover have "run_state ?body s1 = (r, s')"
      using assms g Inr by (simp add: executeApproved_def run_attempt Let_def)
    ultimately have "?K s'" using keepsD [OF body, of s1] by simp
    with v show ?thesis by blast
  qed
qed

section \<open>What a transition sends\<close>

definition read_view :: "'z inv_scheme \<Rightarrow> call_row list \<times> investigation list \<times> (string \<times> collect_req) list" where
  "read_view s = (calls s, invs s, dispatched s)"

lemma indep_read_view [leaves_intros]: "indep faults_update read_view"
  by (simp add: indep_def read_view_def)

lemma attempt_view:
  assumes "leaves read_view m" and "Q s"
    and "\<And>s1. read_view s1 = read_view s \<Longrightarrow> Q s \<Longrightarrow> Q s1"
    and "\<And>x s1. run_state m s = (Inr x, s1) \<Longrightarrow> read_view s1 = read_view s \<Longrightarrow> Q (snd (run_state (f x) s1))"
  shows "Q (snd (run_state (attempt m f) s))"
proof -
  obtain r s1 where r: "run_state m s = (r, s1)" by fastforce
  with leaves_runD [OF assms(1)] have "read_view s1 = read_view s" by blast
  with assms(2-) r show ?thesis by (cases r) (simp_all add: run_attempt)
qed

definition sends_of_approved :: "string \<Rightarrow> 'z inv_scheme \<Rightarrow> 'z inv_scheme \<Rightarrow> bool" where
  "sends_of_approved i s s' =
     (dispatched s' = dispatched s \<or>
      (\<exists>c v. approved_row i (calls s) = Some c \<and> v \<in> set (invs s) \<and> inv_id v = i
         \<and> sent_within (dispatched s) (call_may_send (inv_allowed v) c) s'))"

lemma step_begin_sends: "sends_of_approved i s (snd (run_state (step_begin cf i) (s :: 'b inv_scheme)))"
  unfolding step_begin_def
proof (rule attempt_view [where Q = "sends_of_approved i s"])
  show "leaves read_view (GetInvestigation i :: ('b, _) im)" by (intro leaves_intros)
  show start: "sends_of_approved i s s" by (simp add: sends_of_approved_def)
  show same: "sends_of_approved i s s1" if "read_view s1 = read_view s" for s1
    using that by (simp add: sends_of_approved_def read_view_def)
  fix v and s1 :: "'b inv_scheme" assume v: "read_view s1 = read_view s"
  have stop: "sends_of_approved i s (snd (run_state (pause cf i x k a b) s1))" for x k a b
  proof -
    have "dispatched (snd (run_state (pause cf i x k a b) s1)) = dispatched s1"
      by (rule leavesD) (intro leaves_intros)
    with v show ?thesis by (simp add: sends_of_approved_def read_view_def)
  qed
  have body: "sends_of_approved i s (snd (run_state (attempt (PendingToolCall i) (\<lambda>p.
         case p of
           Some _ \<Rightarrow> return (Inr Halt)
         | None \<Rightarrow> attempt (lastApproved i) (\<lambda>a.
             case a of
               Some c \<Rightarrow> executeApproved cf i c
             | None \<Rightarrow> ask_model cf v))) s1))"
  proof (rule attempt_view)
    show "leaves read_view (PendingToolCall i :: ('b, _) im)" by (intro leaves_intros)
    show "sends_of_approved i s s1" by (rule same [OF v])
    show "sends_of_approved i s s2" if "read_view s2 = read_view s1" for s2 by (rule same) (use that v in simp)
    fix p and s2 :: "'b inv_scheme" assume p: "read_view s2 = read_view s1"
    have "sends_of_approved i s (snd (run_state (attempt (lastApproved i) (\<lambda>a.
             case a of Some c \<Rightarrow> executeApproved cf i c | None \<Rightarrow> ask_model cf v)) s2))"
    proof (rule attempt_view)
      show "leaves read_view (lastApproved i :: ('b, _) im)" by (intro leaves_intros)
      show "sends_of_approved i s s2" by (rule same) (use p v in simp)
      show "sends_of_approved i s s3" if "read_view s3 = read_view s2" for s3 by (rule same) (use that p v in simp)
      fix a and s3 :: "'b inv_scheme"
      assume a: "run_state (lastApproved i) s2 = (Inr a, s3)" "read_view s3 = read_view s2"
      then have views: "calls s2 = calls s" "invs s3 = invs s" "dispatched s3 = dispatched s"
        using p v by (simp_all add: read_view_def)
      show "sends_of_approved i s (snd (run_state (case a of Some c \<Rightarrow> executeApproved cf i c | None \<Rightarrow> ask_model cf v) s3))"
      proof (cases a)
        case None
        have "dispatched (snd (run_state (ask_model cf v) s3)) = dispatched s3"
          by (rule leavesD) (intro leaves_intros)
        then show ?thesis unfolding None option.case sends_of_approved_def views ..
      next
        case (Some c)
        obtain r s4 where r: "run_state (executeApproved cf i c) s3 = (r, s4)" by fastforce
        from run_lastApproved [OF a(1)] Some views have "approved_row i (calls s) = Some c" by simp
        with sent_executeApproved [OF r] r Some views show ?thesis by (auto simp: sends_of_approved_def)
      qed
    qed
    then show "sends_of_approved i s (snd (run_state (case p of Some _ \<Rightarrow> return (Inr Halt)
         | None \<Rightarrow> attempt (lastApproved i) (\<lambda>a.
             case a of Some c \<Rightarrow> executeApproved cf i c | None \<Rightarrow> ask_model cf v)) s2))"
      using same [of s2] p v by (cases p) simp_all
  qed
  show "sends_of_approved i s (snd (run_state (if stopped v then return (Inr Halt)
       else if inv_tool_calls v \<ge> steps_cap cf v
         then pause cf i (steps_text (inv_tool_calls v) (steps_cap cf v)) ''steps'' (inv_tool_calls v) (steps_cap cf v)
       else if tokens_used v \<ge> tokens_cap cf v
         then pause cf i (tokens_text (tokens_used v) (tokens_cap cf v) (inv_compaction_tokens v))
                ''tokens'' (tokens_used v) (tokens_cap cf v)
       else attempt (PendingToolCall i) (\<lambda>p.
         case p of
           Some _ \<Rightarrow> return (Inr Halt)
         | None \<Rightarrow> attempt (lastApproved i) (\<lambda>a.
             case a of
               Some c \<Rightarrow> executeApproved cf i c
             | None \<Rightarrow> ask_model cf v))) s1))"
    using stop body same [OF v] by simp
qed

lemma other_threads_send_nothing:
  assumes "\<And>i. t \<noteq> Turn i"
  shows "dispatched (snd (run_state (thread_run cf t) s)) = dispatched s"
proof (rule leavesD)
  show "leaves dispatched (thread_run cf t)"
  proof (cases t)
    case (Leaving i)
    then show ?thesis by (simp add: leaves_def advance_leave_def)
  next
    case (Turn i)
    with assms show ?thesis by blast
  qed (simp_all only: thread_run.simps,
       (intro leaves_intros leaves_turns leaves_settle)+)
qed

lemma act_sends_nothing:
  assumes "\<And>req. a \<noteq> HRun req"
  shows "dispatched (snd (run_state (hub_exec w a) s)) = dispatched s"
proof (rule leavesD)
  show "leaves dispatched (hub_exec w a)"
  proof (cases a)
    case (HRun req)
    with assms show ?thesis by blast
  next
    case (HAutoApprove i on)
    have "leaves dispatched (SetAutoApprove i on)" by (intro leaves_intros; simp add: indep_def)
    with HAutoApprove show ?thesis by (simp add: leaves_def)
  next
    case (HClock t)
    then show ?thesis by (simp add: leaves_def)
  qed (simp_all only: hub_exec.simps, (intro leaves_intros leaves_decisions)+)
qed

text \<open>
  C4: A request enters a send queue only because an operator started a run, or in the turn
  of a goroutine whose investigation has an approved or edited collection; then every
  request goes to a host inside the investigation's scope and named by that call, and
  carries the call's collector and parameters, and a batch of more than five hosts has been
  confirmed. No other operation and no other point of the loop sends anything.
\<close>
theorem sends_need_approved_call:
  assumes "hub_step w l (s, ts) = (s', ts')" and "dispatched s' \<noteq> dispatched s"
  shows "(\<exists>req. l = Act (HRun req)) \<or>
    (\<exists>n i c v. l = Run n \<and> n < length ts \<and> ts ! n = Turn i
       \<and> c \<in> set (calls s) \<and> tc_inv c = i \<and> (tc_status c = TcApproved \<or> tc_status c = TcEdited)
       \<and> v \<in> set (invs s) \<and> inv_id v = i
       \<and> (\<exists>new. dispatched s' = dispatched s @ new \<and> (\<forall>x \<in> set new. call_may_send (inv_allowed v) c x)))"
proof (cases l)
  case (Act a)
  with assms act_sends_nothing [of a w s] show ?thesis by auto
next
  case (Wake n)
  with assms show ?thesis
    by (auto simp: wake_def Let_def advance_enter_def split: prod.splits if_splits)
next
  case (Run n)
  with assms have n: "n < length ts" by (auto simp: go_on_def split: if_splits)
  obtain t s1 where t: "run_state (thread_run (wo_cfg w) (ts ! n)) s = (t, s1)" by fastforce
  with Run assms n have s': "s1 = s'" by (simp add: go_on_def)
  have "\<exists>i. ts ! n = Turn i"
    using other_threads_send_nothing [of "ts ! n" "wo_cfg w" s] t s' assms(2) by auto
  then obtain i where i: "ts ! n = Turn i" by blast
  have "dispatched s' = dispatched (snd (run_state (step_begin (wo_cfg w) i) s))"
  proof -
    obtain r s2 where r: "run_state (step_begin (wo_cfg w) i) s = (r, s2)" by fastforce
    have "leaves dispatched (settle (wo_cfg w) i q)" for q by (rule leaves_settle) simp
    from leaves_runD [OF this] show ?thesis
      using t s' i r by (auto split: sum.splits prod.splits)
  qed
  then have "\<exists>c v. approved_row i (calls s) = Some c \<and> v \<in> set (invs s) \<and> inv_id v = i
         \<and> sent_within (dispatched s) (call_may_send (inv_allowed v) c) s'"
    using step_begin_sends [of i s "wo_cfg w"] assms(2) by (auto simp: sends_of_approved_def sent_within_def)
  then obtain c v where "approved_row i (calls s) = Some c" "v \<in> set (invs s)" "inv_id v = i"
    "sent_within (dispatched s) (call_may_send (inv_allowed v) c) s'" by blast
  with approved_rowD [of i "calls s" c] Run n i show ?thesis
    unfolding sent_within_def by blast
qed

end
