(* ===== verification/Inv_Safety.thy ===== *)
theory Inv_Safety
  imports Inv_Sends
begin

text \<open>
  The theorems on the hub's interleavings applied to concrete runs, and the behaviour of
  single operations of the loop: the budget, the operator's decisions, the gate of broad
  batches, the restriction after a finding, and the ends of an investigation.
\<close>

section \<open>The demonstration runs\<close>

abbreviation demo_replies :: "llm_reply option list" where
  "demo_replies \<equiv> [demo_reply ''c1'' ''collect'' demo_collect]"

lemma after_run: "hub_run demo_world (demo_hub rs) ls (after rs ls)"
  by (simp add: after_def hub_run_foldl)

definition calls_brief :: "'z db_scheme \<Rightarrow> (string \<times> string \<times> string \<times> call_status) list" where
  "calls_brief s = map (\<lambda>c. (tc_id c, tc_inv c, tc_tool c, tc_status c)) (calls s)"

lemma calls_briefD:
  assumes "calls_brief s = [(k, i, t, st)]"
  obtains c where "calls s = [c]" and "tc_id c = k" and "tc_inv c = i" and "tc_tool c = t" and "tc_status c = st"
  using assms by (auto simp: calls_brief_def)

lemma demo_start:
  "running (demo_hub rs) = [] \<and> calls (demo_hub rs) = [] \<and> auto_on (demo_hub rs) = {}"
  by (simp add: demo_hub_def auto_on_def demo_api_simps inv.defs)

lemma approve_calls: "calls_brief (fst (after demo_replies approve_trace)) = [(''c1'', ''inv_0'', ''collect'', TcApproved)]"
  by code_simp

lemma cleared_needs_operator_witness:
  "\<exists>s ts c. hub_run demo_world (demo_hub demo_replies) approve_trace (s, ts) \<and> c \<in> set (calls s)
     \<and> tc_status c = TcApproved
     \<and> operator_decided demo_world (demo_hub demo_replies) approve_trace (tc_inv c) (tc_id c)"
proof -
  obtain s ts where a: "after demo_replies approve_trace = (s, ts)" by fastforce
  have run: "hub_run demo_world (demo_hub demo_replies) approve_trace (s, ts)"
    using after_run [of demo_replies approve_trace] a by simp
  from approve_calls a obtain c where c: "calls s = [c]" "tc_tool c = ''collect''" "tc_status c = TcApproved"
    by (auto elim: calls_briefD)
  have "Act (HAutoApprove (tc_inv c) True) \<notin> set approve_trace"
    by (simp add: approve_trace_def ask_trace_def)
  moreover have "\<not> isAutoTool (tc_tool c)" using c(2) by (simp add: isAutoTool_def)
  ultimately show ?thesis
    using cleared_needs_operator [OF run, of c] demo_start [of demo_replies] c run by auto
qed

lemma one_open_call_witness:
  "\<exists>s ts c. hub_run demo_world (demo_hub demo_replies) approve_trace (s, ts) \<and> c \<in> set (calls s) \<and> open_call c
     \<and> (\<forall>d \<in> set (calls s). tc_inv c = tc_inv d \<longrightarrow> open_call d \<longrightarrow> c = d)"
proof -
  obtain s ts where a: "after demo_replies approve_trace = (s, ts)" by fastforce
  have run: "hub_run demo_world (demo_hub demo_replies) approve_trace (s, ts)"
    using after_run [of demo_replies approve_trace] a by simp
  from approve_calls a obtain c where c: "calls s = [c]" "tc_status c = TcApproved"
    by (auto elim: calls_briefD)
  with one_open_call [OF run] demo_start [of demo_replies] run show ?thesis
    by (auto simp: open_call_def)
qed

lemma running_turn: "snd (after demo_replies (take 2 ask_trace)) = [Turn ''inv_0'']"
  by code_simp

lemma one_goroutine_per_investigation_witness:
  "\<exists>s. hub_run demo_world (demo_hub demo_replies) (take 2 ask_trace) (s, [Turn ''inv_0''])
     \<and> ''inv_0'' \<in> set (running s)"
proof -
  obtain s where "after demo_replies (take 2 ask_trace) = (s, [Turn ''inv_0''])"
    using running_turn by (metis prod.collapse)
  then have run: "hub_run demo_world (demo_hub demo_replies) (take 2 ask_trace) (s, [Turn ''inv_0''])"
    using after_run [of demo_replies "take 2 ask_trace"] by simp
  from one_goroutine_per_investigation [OF run] demo_start [of demo_replies] run show ?thesis by auto
qed

definition turn_trace :: "label list" where
  "turn_trace = approve_trace @ [Wake 0]"

lemma turn_sends:
  "snd (after demo_replies turn_trace) = [Turn ''inv_0'']"
  "map fst (dispatched (fst (after demo_replies turn_trace))) = []"
  "map fst (dispatched (fst (after demo_replies (turn_trace @ [Run 0])))) = [''a'']"
  by code_simp+

lemma sends_need_approved_call_witness:
  "\<exists>(s :: inv) s' ts' c. hub_step demo_world (Run 0) (s, [Turn ''inv_0'']) = (s', ts') \<and> map fst (dispatched s') = [''a'']
     \<and> c \<in> set (calls s) \<and> (tc_status c = TcApproved \<or> tc_status c = TcEdited)"
proof -
  obtain s where a: "after demo_replies turn_trace = (s, [Turn ''inv_0''])"
    using turn_sends(1) by (metis prod.collapse)
  obtain s' ts' where b: "hub_step demo_world (Run 0) (s, [Turn ''inv_0'']) = (s', ts')" by fastforce
  have "after demo_replies (turn_trace @ [Run 0]) = (s', ts')"
    using a b by (simp add: after_def)
  with turn_sends(2,3) a have d: "map fst (dispatched s') = [''a'']" "dispatched s = []" by simp_all
  then have "dispatched s' \<noteq> dispatched s" by auto
  from sends_need_approved_call [OF b this] obtain c where
    "c \<in> set (calls s)" "tc_status c = TcApproved \<or> tc_status c = TcEdited" by blast
  with b d(1) have "hub_step demo_world (Run 0) (s, [Turn ''inv_0'']) = (s', ts') \<and> map fst (dispatched s') = [''a'']
     \<and> c \<in> set (calls s) \<and> (tc_status c = TcApproved \<or> tc_status c = TcEdited)" by blast
  then show ?thesis by (intro exI)
qed

text \<open>
  A wakeup can be lost. A goroutine that has left its loop but not yet cleared the
  running flag makes the goroutine of an operator's decision return at once: there is a run
  after which the operator's approval is recorded, no goroutine advances the investigation,
  none is spawned, and the operator cannot decide again, since no call is pending.
\<close>
theorem approval_wakeup_lost:
  "\<exists>ls s c. hub_run demo_world (demo_hub demo_replies) ls (s, []) \<and> spawned s = []
     \<and> Act (HDecide ''inv_0'' ''approve'' jempty ''op'') \<in> set ls
     \<and> approved_row ''inv_0'' (calls s) = Some c \<and> pending_row ''inv_0'' (calls s) = None"
proof -
  let ?ls = "take 4 ask_trace @ [Act (HDecide ''inv_0'' ''approve'' jempty ''op''), Wake 0, Run 0]"
  have e: "snd (after demo_replies ?ls) = []" "spawned (fst (after demo_replies ?ls)) = []"
    "calls_brief (fst (after demo_replies ?ls)) = [(''c1'', ''inv_0'', ''collect'', TcApproved)]"
    by code_simp+
  obtain s where s: "after demo_replies ?ls = (s, [])" using e(1) by (metis prod.collapse)
  with e obtain c where c: "calls s = [c]" "tc_inv c = ''inv_0''" "tc_status c = TcApproved" "spawned s = []"
    by (auto elim: calls_briefD)
  have "hub_run demo_world (demo_hub demo_replies) ?ls (s, [])"
    using after_run [of demo_replies ?ls] s by simp
  moreover have "approved_row ''inv_0'' (calls s) = Some c" "pending_row ''inv_0'' (calls s) = None"
    using c by (simp_all add: approved_row_def pending_row_def find_last_def)
  ultimately show ?thesis using c by fastforce
qed

end
