(* ===== verification/Inv_Schema.thy ===== *)
theory Inv_Schema
  imports Inv_Turns
begin

text \<open>
  Invariants of the hub from invariants of its primitive operations. Enrollment, connections,
  results, artifacts, runs, the investigator's operations and its goroutines are compositions
  of store operations and of updates of the hub's own state; a property that each of these
  keeps holds in every reachable state. The first such property is that the database is well
  formed.
\<close>

section \<open>The interface: what keeps an invariant\<close>

locale hub_invariant =
  fixes I :: "'z inv_scheme \<Rightarrow> bool"
  assumes reads: "keeps I ListHosts" "keeps I (ListCollectorManifests i)" "keeps I (ListTasks i)"
      "keeps I (ListInvestigations n0)" "keeps I (ListMessages i arch)" "keeps I (ListToolCalls i)"
      "keeps I (PendingToolCall i)" "keeps I (GetTask i)" "keeps I (GetResult i)" "keeps I (GetInvestigation i)"
      "keeps I (VerifyIdentity i fp)"
    and inventory: "keeps I (UpsertHost x)" "keeps I (TouchHost i hst)" "keeps I (ReplaceCollectorManifests i mfs)"
      "keeps I (ConsumeBootstrapToken hash p i)" "keeps I (RegisterIdentity i fp via)" "keeps I (AuditLog t1 t2 d)"
    and runs: "keeps I (InsertRun rn)" "keeps I (FinishRun i rst)" "keeps I (InsertTask tk)" "keeps I (StartTask i)"
      "keeps I (FinishTask i tst dur t1)" "keeps I (UpsertResult res)" "keeps I (draw (src :: nat \<Rightarrow> string))"
    and investigations: "keeps I (SetAutoApprove i on)" "keeps I (ExtendBudget i n1 n2)"
      "keeps I (UpdateInvestigationStatus i ist)" "keeps I (AccumulateCompactionTokens i n1)"
      "keeps I (AccumulateTokens i n1 n2)" "keeps I (IncrementToolCalls i)" "keeps I (FinishInvestigation i ist txt)"
      "keeps I (InsertInvestigation iv)"
    and calls: "keeps I (SetToolCallInput i txt)" "keeps I (SetToolCallRationale i t1)"
      "keeps I (SetToolCallBroadConfirmed i on)" "keeps I (UpdateToolCall i cst t1 t2 txt)" "keeps I (InsertToolCall cr)"
    and messages: "keeps I (AppendMessage ms)" "keeps I (MarkMessagesArchived i n1)" "keeps I (unarchiveSeqs i qs)"
      "keeps I (AddFinding fd)" "keeps I (SetFindingIgnored i on)"
    and loop: "keeps I (publish i ty d)" "keeps I (spawn i)" "keeps I (markCompactCooldown i n1)" "keeps I (chat q)"
      "keeps I (advance_enter i)" "keeps I (advance_leave i)" "keeps I (modify (\<lambda>s. s\<lparr>spawned := sp\<rparr>))"
      "keeps I (modify (\<lambda>s. s\<lparr>clock := now\<rparr>))"
    and streams: "keeps I (IsOnline i)" "keeps I (SendCollect i rq)" "keeps I (pump i)" "keeps I (registerStream i hn)"
      "keeps I (unregisterStream i)" "keeps I (modify (\<lambda>s. s\<lparr>next_handle := hn\<rparr>))"
      "keeps I (modify (\<lambda>s. s\<lparr>cancelled := hn # cancelled s\<rparr>))"
    and runner: "keeps I (limiter_allow i)" "keeps I (register_task t1 t2 t3 t4)" "keeps I (unregister_task t1)"
      "keeps I (closeOpenArtifacts t1)" "keeps I (OnArtifact fe i ch)"
begin

lemmas primitives = reads inventory runs investigations calls messages loop streams runner

lemma keeps_cooldown: "keeps I (inCompactCooldown i)"
  by (simp add: inCompactCooldown_def keeps_def)

lemmas prims = primitives keeps_cooldown keeps_attempt keeps_fail

lemma CreateRun_kept: "keeps I (CreateRun ids IsOnline SendCollect req)"
  unfolding CreateRun_def dispatch_task_def send_task_def newID_def Let_def
  by (intro keeps_intros prims)

lemma OnResult_kept: "keeps I (OnResult dir a r)"
  unfolding OnResult_def Let_def by (intro keeps_intros prims)

lemma message_kept:
  "(\<And>hl. keeps I (f hl)) \<Longrightarrow> keeps I g \<Longrightarrow> (\<And>r. keeps I (h r)) \<Longrightarrow> (\<And>a. keeps I (k a))
   \<Longrightarrow> keeps I (case m of Hello hl \<Rightarrow> f hl | Heartbeat \<Rightarrow> g | ResultMsg r \<Rightarrow> h r | ArtifactMsg a \<Rightarrow> k a)"
  by (cases m) auto

lemma server_kept:
  "keeps I (watch_poll i)" "keeps I (Enroll hash p req)" "keeps I (connect_open peer first)"
  "keeps I (connect_close c)" "keeps I (connect_msg (OnResult dir) (OnArtifact fe) c m)"
  unfolding watch_poll_def Enroll_def connect_open_def connect_close_def connect_msg_def connect_defer_def
    applyHello_def Let_def
  by (intro keeps_intros prims message_kept OnResult_kept)+

lemma loops_kept:
  "keeps I (list_hosts_loop cf en sel hs)" "keeps I (catalog_loop cat hs out)" "keeps I (describe_loop nm hs)"
  "keeps I (task_views cf ids)" "keeps I (compare_rows ids)" "keeps I (check_refs ids)"
  "keeps I (check_hosts i ids)" "keeps I (tasks_terminal ids)"
proof -
  show "keeps I (catalog_loop cat hs out)"
    by (induction hs arbitrary: out) (auto intro!: keeps_intros prims simp: manifests_of_def)
  show "keeps I (list_hosts_loop cf en sel hs)" "keeps I (describe_loop nm hs)"
    by (induction hs) (auto intro!: keeps_intros prims simp: manifests_of_def)
  show "keeps I (task_views cf ids)" "keeps I (compare_rows ids)" "keeps I (check_refs ids)"
    "keeps I (check_hosts i ids)" "keeps I (tasks_terminal ids)"
    by (induction ids) (auto intro!: keeps_intros prims simp: check_host_def)
qed

lemma tools_kept:
  "keeps I (PrepareCollect cf en args)" "keeps I (PrepareCollectBatch cf en args)"
  "keeps I (SummarizeTasks cf ids)" "keeps I (Dispatch cf en tool args)"
  unfolding Dispatch_def handleListHosts_def handleListCollectors_def handleDescribeCollector_def handleGetFullResult_def
    handleSearchArtifact_def handleCompareAcrossHosts_def handleAddFinding_def handleCollect_def handleCollectBatch_def
    PrepareCollect_def PrepareCollectBatch_def run_tasks_def SummarizeTasks_def Let_def
  by (intro keeps_intros prims loops_kept CreateRun_kept)+

lemma publishing_kept:
  "keeps I (pubMessage cf i m)" "keeps I (pubStatus i st)" "keeps I (pubToolCall cf i c x ty)"
  unfolding pubMessage_def pubStatus_def pubToolCall_def by (intro keeps_intros prims)+

lemma gates_kept:
  "keeps I (postFindingRestricted i)" "keeps I (preflightCollect i c)" "keeps I (preflightCollectEconomy i c)"
  unfolding postFindingRestricted_def preflightCollect_def preflightCollectEconomy_def
  by (intro keeps_intros prims loops_kept)+

lemma turns_kept:
  "keeps I (step_begin cf i)" "keeps I (answer_model cf v r)" "keeps I (step_resume cf i c ids tid)"
  "keeps I (settle cf i x)"
  unfolding step_begin_def executeApproved_def guarded_collect_def finish_now_def exec_finish_def exec_after_def
    answer_model_def propose_def step_resume_def settle_def advance_error_def pause_def lastApproved_def ask_model_def
    model_request_def nextSeq_def compact_def compact_store_def Let_def
  by (intro keeps_intros prims tools_kept publishing_kept gates_kept)+

lemma operator_kept:
  "keeps I (Start cf g who hs)" "keeps I (Resume cf)" "keeps I (Extend cf i n m who)"
  "keeps I (Finalize cf i who)" "keeps I (InjectRestoreNote i a b)" "keeps I (InjectIgnoreNote i a b)"
  "keeps I (DecideWithEdit cf i d t who)" "keeps I (InjectHypothesis cf i a b c who)"
  unfolding Start_def Resume_def resume_one_def Extend_def Finalize_def InjectRestoreNote_def InjectIgnoreNote_def
    DecideWithEdit_def decide_approve_def decide_edit_def decide_skip_def decide_end_def decide_done_def
    InjectHypothesis_def discard_pending_def Let_def
  by (intro keeps_intros prims publishing_kept)+

lemma exec_kept: "keeps I (hub_exec w a)"
  by (cases a) (auto intro!: keeps_intros prims operator_kept server_kept CreateRun_kept)

lemma thread_kept: "keeps I (thread_run cf t)"
  by (cases t) (auto intro!: keeps_intros prims turns_kept)

lemma go_on_kept: "I s \<Longrightarrow> I (fst (go_on cf n (s, ts)))"
  using keepsD [OF thread_kept, of s cf "ts ! n"] by (auto simp: go_on_def Let_def split: prod.splits)

lemma wake_kept: "I s \<Longrightarrow> I (fst (wake n (s, ts)))"
  using keepsD [OF loop(7), of s "take n (spawned s) @ drop (Suc n) (spawned s)"]
    keepsD [OF loop(5), of "s\<lparr>spawned := take n (spawned s) @ drop (Suc n) (spawned s)\<rparr>" "spawned s ! n"]
  by (auto simp: wake_def Let_def split: prod.splits)

lemma run_kept:
  assumes "hub_run w s0 ls (s, ts)" and "I s0"
  shows "I s"
  by (rule hub_run_invariant [OF assms(1), of "\<lambda>ls s ts. I s"])
    (use assms(2) keepsD [OF exec_kept] go_on_kept wake_kept in auto)

end

section \<open>The schema\<close>

lemma db_ok_hub [simp]:
  "db_ok (s\<lparr>bus := x1\<rparr>) = db_ok s" "db_ok (s\<lparr>running := x2\<rparr>) = db_ok s" "db_ok (s\<lparr>cooldown := x3\<rparr>) = db_ok s"
  "db_ok (s\<lparr>spawned := x4\<rparr>) = db_ok s" "db_ok (s\<lparr>script := x5\<rparr>) = db_ok s" "db_ok (s\<lparr>asked := x6\<rparr>) = db_ok s"
  by (simp_all add: db_ok_parts)

lemma db_ok_server [simp]:
  "db_ok (s\<lparr>streams := x1\<rparr>) = db_ok s" "db_ok (s\<lparr>next_handle := x2\<rparr>) = db_ok s"
  "db_ok (s\<lparr>cancelled := x3\<rparr>) = db_ok s" "db_ok (s\<lparr>dispatched := x4\<rparr>) = db_ok s"
  by (simp_all add: db_ok_parts)

lemma db_ok_runner [simp]:
  "db_ok (r\<lparr>limiter := x1\<rparr>) = db_ok r" "db_ok (r\<lparr>pending := x2\<rparr>) = db_ok r"
  "db_ok (r\<lparr>open_arts := x3\<rparr>) = db_ok r" "db_ok (r\<lparr>files := x4\<rparr>) = db_ok r"
  "db_ok (d\<lparr>clock := x5\<rparr>) = db_ok d"
  by (simp_all add: db_ok_parts)

lemma db_ok_write_chunk [simp]: "db_ok (write_chunk fe a oa s) = db_ok s"
  by (simp add: write_chunk_def Let_def)

lemma schema_small:
  "keeps db_ok (publish i ty d)" "keeps db_ok (spawn i)" "keeps db_ok (inCompactCooldown i)"
  "keeps db_ok (markCompactCooldown i n)" "keeps db_ok (chat q)" "keeps db_ok (advance_enter i)"
  "keeps db_ok (advance_leave i)"
  "keeps db_ok (modify (\<lambda>s. s\<lparr>spawned := sp\<rparr>))" "keeps db_ok (modify (\<lambda>s. s\<lparr>clock := now\<rparr>))"
  "keeps db_ok (modify (\<lambda>s. s\<lparr>next_handle := hn\<rparr>))" "keeps db_ok (modify (\<lambda>s. s\<lparr>cancelled := hn # cancelled s\<rparr>))"
  "keeps db_ok (registerStream a h)" "keeps db_ok (unregisterStream a)" "keeps db_ok (IsOnline a)"
  "keeps db_ok (SendCollect a rq)" "keeps db_ok (pump a)"
  "keeps db_ok (limiter_allow a)" "keeps db_ok (register_task t1 t2 t3 t4)" "keeps db_ok (unregister_task t1)"
  "keeps db_ok (closeOpenArtifacts t1)" "keeps db_ok (OnArtifact fe a ch)"
  unfolding publish_def spawn_def inCompactCooldown_def markCompactCooldown_def chat_def advance_enter_def
    advance_leave_def registerStream_def unregisterStream_def IsOnline_def SendCollect_def pump_def
    limiter_allow_def register_task_def unregister_task_def closeOpenArtifacts_def OnArtifact_def
  by (auto simp: keeps_def Let_def split: option.splits prod.splits list.splits)

lemma schema_unarchive: "keeps db_ok (unarchiveSeqs i qs)"
  unfolding unarchiveSeqs_def
  by (induction qs) (auto intro!: keeps_intros archived_keeps)

interpretation schema: hub_invariant db_ok
  by unfold_locales (intro keeps_intros schema_small schema_unarchive)+

lemma hub_db_ok: "hub_run w s0 ls (s, ts) \<Longrightarrow> db_ok s0 \<Longrightarrow> db_ok s"
  by (rule schema.run_kept)


end
