(* ===== verification/Inv_Life.thy ===== *)
theory Inv_Life
  imports Inv_Turns
begin

text \<open>
  The life of a tool call as an abstract state machine on the statuses of the calls, and the
  refinement: every transition of the hub is a step of it, whatever else the hub does.
\<close>

section \<open>The abstract machine\<close>

fun next_statuses :: "call_status \<Rightarrow> call_status set" where
  "next_statuses TcPending = {TcApproved, TcEdited, TcSkipped, TcAborted}"
| "next_statuses TcApproved = {TcExecuted, TcPending}"
| "next_statuses TcEdited = {TcExecuted, TcPending}"
| "next_statuses _ = {}"

inductive life_step :: "(string \<times> call_status) list \<Rightarrow> (string \<times> call_status) list \<Rightarrow> bool" where
  idle: "life_step cs cs"
| proposed: "k \<notin> fst ` set cs \<Longrightarrow> st \<in> {TcPending, TcApproved} \<Longrightarrow> life_step cs (cs @ [(k, st)])"
| moved: "st' \<in> next_statuses st \<Longrightarrow> life_step (xs @ (k, st) # ys) (xs @ (k, st') # ys)"

definition life_of :: "call_row list \<Rightarrow> (string \<times> call_status) list" where
  "life_of cs = map (\<lambda>c. (tc_id c, tc_status c)) cs"

text \<open>What a status that nothing follows means: the row stays as it is for good.\<close>

lemma life_step_final:
  "life_step cs cs' \<Longrightarrow> (k, st) \<in> set cs \<Longrightarrow> next_statuses st = {} \<Longrightarrow> (k, st) \<in> set cs'"
  by (induction rule: life_step.induct) auto

section \<open>One row changed\<close>

definition moved_row :: "string \<Rightarrow> call_status set \<Rightarrow> call_row list \<Rightarrow> call_row list \<Rightarrow> bool" where
  "moved_row k S cs0 cs =
     list_all2 (\<lambda>a b. same_call b a \<and> (tc_status b = tc_status a \<or> tc_id a = k \<and> tc_status b \<in> S)) cs0 cs"

lemma moved_row_refl: "moved_row k S cs cs"
  by (simp add: moved_row_def list_all2_refl same_call_def)

lemma moved_row_ids: "moved_row k S cs0 cs \<Longrightarrow> map tc_id cs = map tc_id cs0"
  unfolding moved_row_def by (induction rule: list_all2_induct) (auto simp: same_call_def)

lemma may_set_moved: "may_set (moved_row k S cs0) k S"
  unfolding may_set_def moved_row_def update_rows_def
proof (intro allI impI)
  fix cs g
  assume m: "list_all2 (\<lambda>a b. same_call b a \<and> (tc_status b = tc_status a \<or> tc_id a = k \<and> tc_status b \<in> S)) cs0 cs"
    and g: "\<forall>c. same_call (g c) c \<and> (tc_status (g c) = tc_status c \<or> tc_status (g c) \<in> S)"
  show "list_all2 (\<lambda>a b. same_call b a \<and> (tc_status b = tc_status a \<or> tc_id a = k \<and> tc_status b \<in> S)) cs0
     (map (\<lambda>r. if tc_id r = k then g r else r) cs)"
    unfolding list_all2_map2
  proof (rule list_all2_mono [OF m])
    fix a b assume ab: "same_call b a \<and> (tc_status b = tc_status a \<or> tc_id a = k \<and> tc_status b \<in> S)"
    moreover have "same_call (g b) b" "tc_status (g b) = tc_status b \<or> tc_status (g b) \<in> S" using g by simp_all
    ultimately show "same_call (if tc_id b = k then g b else b) a \<and>
        (tc_status (if tc_id b = k then g b else b) = tc_status a
         \<or> tc_id a = k \<and> tc_status (if tc_id b = k then g b else b) \<in> S)"
      by (auto simp: same_call_def)
  qed
qed

lemma moved_row_others:
  assumes "moved_row k S cs0 cs" and "k \<notin> tc_id ` set cs0"
  shows "life_of cs = life_of cs0"
  using assms unfolding moved_row_def life_of_def
  by (induction rule: list_all2_induct) (auto simp: same_call_def)

lemma moved_row_life:
  assumes m: "moved_row k S cs0 cs" and d: "distinct (map tc_id cs0)"
    and S: "\<And>c. c \<in> set cs0 \<Longrightarrow> tc_id c = k \<Longrightarrow> S \<subseteq> next_statuses (tc_status c)"
  shows "life_step (life_of cs0) (life_of cs)"
proof (cases "k \<in> tc_id ` set cs0")
  case False
  from moved_row_others [OF m False] show ?thesis by (simp add: life_step.idle)
next
  case True
  then obtain c xs ys where c: "cs0 = xs @ c # ys" "tc_id c = k" by (auto dest: split_list)
  with m obtain xs' b ys' where cs: "cs = xs' @ b # ys'" "moved_row k S xs xs'" "moved_row k S ys ys'"
    "same_call b c" "tc_status b = tc_status c \<or> tc_status b \<in> S"
    unfolding moved_row_def by (auto simp: list_all2_append1 list_all2_Cons1)
  from c d have "k \<notin> tc_id ` set xs" "k \<notin> tc_id ` set ys" by auto
  then have rest: "life_of xs' = life_of xs" "life_of ys' = life_of ys"
    using moved_row_others cs(2,3) by blast+
  have b: "tc_id b = k" using cs(4) c(2) by (simp add: same_call_def)
  have split: "life_of cs0 = life_of xs @ (k, tc_status c) # life_of ys"
    "life_of cs = life_of xs @ (k, tc_status b) # life_of ys"
    using c cs(1) b rest by (simp_all add: life_of_def)
  from cs(5) S [of c] c consider "tc_status b = tc_status c" | "tc_status b \<in> next_statuses (tc_status c)" by auto
  then show ?thesis unfolding split by cases (simp_all add: life_step.idle life_step.moved)
qed

lemma moved_row_keeps:
  assumes "moved_row k S cs0 cs" and "d \<in> set cs0" and "tc_id d \<noteq> k"
  shows "\<exists>b \<in> set cs. same_call b d \<and> tc_status b = tc_status d"
  using assms unfolding moved_row_def
  by (induction rule: list_all2_induct) auto

section \<open>The rows that goroutines wait with\<close>

definition ready :: "call_row \<Rightarrow> bool" where
  "ready c = (tc_status c = TcApproved \<or> tc_status c = TcEdited)"

definition waiting_ok :: "call_row list \<Rightarrow> thread list \<Rightarrow> bool" where
  "waiting_ok cs ts =
     (\<forall>i c ids tid. AtTasks i c ids tid \<in> set ts \<longrightarrow> (\<exists>d \<in> set cs. tc_id d = tc_id c \<and> tc_inv d = i \<and> ready d))"

lemma waiting_okD:
  "waiting_ok cs ts \<Longrightarrow> AtTasks i c ids tid \<in> set ts \<Longrightarrow> \<exists>d \<in> set cs. tc_id d = tc_id c \<and> tc_inv d = i \<and> ready d"
  unfolding waiting_ok_def by blast

definition life_ok :: "'z inv_scheme \<Rightarrow> thread list \<Rightarrow> bool" where
  "life_ok s ts = (flagged s ts \<and> distinct (map tc_id (calls s)) \<and> waiting_ok (calls s) ts)"

text \<open>
  What one transition does to the table: nothing but to the row \<open>k\<close>, which may only go on in
  its life.
\<close>

definition one_moves :: "call_row list \<Rightarrow> string \<Rightarrow> call_row list \<Rightarrow> bool" where
  "one_moves cs0 k cs =
     (\<exists>S. moved_row k S cs0 cs \<and> (\<forall>c \<in> set cs0. tc_id c = k \<longrightarrow> S \<subseteq> next_statuses (tc_status c)))"

lemma one_movesI:
  assumes "moved_row (tc_id c) S cs0 cs" and "distinct (map tc_id cs0)" and "c \<in> set cs0" and "S \<subseteq> next_statuses (tc_status c)"
  shows "one_moves cs0 (tc_id c) cs"
proof -
  have "d = c" if "d \<in> set cs0" "tc_id d = tc_id c" for d
    using assms(2,3) that by (auto simp: distinct_map inj_on_def)
  with assms(1,4) show ?thesis unfolding one_moves_def by blast
qed

lemma one_moves_life: "one_moves cs0 k cs \<Longrightarrow> distinct (map tc_id cs0) \<Longrightarrow> life_step (life_of cs0) (life_of cs)"
  unfolding one_moves_def by (auto intro: moved_row_life)

lemma one_moves_ids: "one_moves cs0 k cs \<Longrightarrow> map tc_id cs = map tc_id cs0"
  unfolding one_moves_def by (auto dest: moved_row_ids)

lemma one_moves_refl: "k \<notin> tc_id ` set cs \<Longrightarrow> one_moves cs k cs"
  unfolding one_moves_def by (rule exI [of _ "{}"]) (simp add: moved_row_refl)

lemma one_moves_keeps:
  "one_moves cs0 k cs \<Longrightarrow> d \<in> set cs0 \<Longrightarrow> tc_id d \<noteq> k \<Longrightarrow> \<exists>b \<in> set cs. same_call b d \<and> tc_status b = tc_status d"
  unfolding one_moves_def by (auto dest: moved_row_keeps)

section \<open>Every transition is a step of the machine\<close>

lemma fresh_id: "\<exists>k. k \<notin> tc_id ` set cs \<and> k \<notin> K" if "finite K" for cs :: "call_row list"
  using that ex_new_if_finite [of "tc_id ` set cs \<union> K"] infinite_UNIV_listI by auto

lemma act_moves:
  assumes d: "distinct (map tc_id (calls (s :: 'b inv_scheme)))"
  shows "\<exists>k. one_moves (calls s) k (calls (snd (run_state (hub_exec w a) s)))
     \<and> (\<forall>c \<in> set (calls s). tc_id c = k \<longrightarrow> tc_status c = TcPending)"
proof (cases "\<exists>i c. pending_row i (calls s) = Some c \<and> ((\<exists>d t b. a = HDecide i d t b) \<or> (\<exists>x y z b. a = HHypothesis i x y z b))")
  case True
  then obtain i c where c: "pending_row i (calls s) = Some c"
    and a: "(\<exists>d t b. a = HDecide i d t b) \<or> (\<exists>x y z b. a = HHypothesis i x y z b)" by blast
  let ?S = "next_statuses TcPending"
  note row = pending_rowD [OF c]
  have "moved_row (tc_id c) ?S (calls s) (calls (snd (run_state (hub_exec w a) s)))"
  proof (rule act_calls [where P = "moved_row (tc_id c) ?S (calls s)", OF moved_row_refl])
    fix j e t b x assume j: "a = HDecide j e t b" "pending_row j (calls s) = Some x"
    with a c have "x = c" by auto
    moreover have "may_set (moved_row (tc_id c) ?S (calls s)) (tc_id c) ?S" by (rule may_set_moved)
    ultimately show "may_set (moved_row (tc_id c) ?S (calls s)) (tc_id x) (decision_states e)"
      unfolding may_set_def decision_states_def by (auto split: if_splits)
  next
    fix j x y z b d assume j: "a = HHypothesis j x y z b" "pending_row j (calls s) = Some d"
    with a c have "d = c" by auto
    moreover have "may_set (moved_row (tc_id c) ?S (calls s)) (tc_id c) ?S" by (rule may_set_moved)
    ultimately show "may_set (moved_row (tc_id c) ?S (calls s)) (tc_id d) {TcAborted}"
      unfolding may_set_def by auto
  qed
  then have "one_moves (calls s) (tc_id c) (calls (snd (run_state (hub_exec w a) s)))"
    by (rule one_movesI) (use d row in simp_all)
  moreover have "tc_status e = TcPending" if "e \<in> set (calls s)" "tc_id e = tc_id c" for e
    using d row that by (auto simp: distinct_map inj_on_def)
  ultimately show ?thesis by blast
next
  case False
  obtain k where k: "k \<notin> tc_id ` set (calls s)" using fresh_id [of "{}"] by auto
  have "calls (snd (run_state (hub_exec w a) s)) = calls s"
    by (rule act_calls [where P = "\<lambda>cs. cs = calls s"]) (use False in auto)
  with one_moves_refl [OF k] k show ?thesis by auto
qed

text \<open>The row a goroutine may change, and the investigation it belongs to.\<close>

lemma thread_moves_row:
  assumes no_model: "\<And>i v q. t \<noteq> AtModel i v q"
    and turn: "\<And>i e. t = Turn i \<Longrightarrow> approved_row i (calls s) = Some e \<Longrightarrow> tc_id e = k"
    and wait: "\<And>i e ids tid. t = AtTasks i e ids tid \<Longrightarrow> tc_id e = k"
  shows "moved_row k {TcExecuted, TcPending} (calls s) (calls (snd (run_state (thread_run cf t) (s :: 'b inv_scheme))))"
proof -
  let ?S = "{TcExecuted, TcPending}"
  have may: "may_set (moved_row k ?S (calls s)) k ?S" by (rule may_set_moved)
  then have may': "may_set (moved_row k ?S (calls s)) k {TcExecuted}"
    unfolding may_set_def by auto
  show ?thesis
  proof (rule thread_calls [where P = "moved_row k ?S (calls s)", OF moved_row_refl])
    show "may_set (moved_row k ?S (calls s)) (tc_id e) ?S"
      if "t = Turn i" "approved_row i (calls s) = Some e" for i e
      using turn [OF that] may by simp
    show "may_set (moved_row k ?S (calls s)) (tc_id e) {TcExecuted}"
      if "t = AtTasks i e ids tid" for i e ids tid
      using wait [OF that] may' by simp
  qed (use no_model in blast)
qed

lemma thread_moves:
  assumes d: "distinct (map tc_id (calls (s :: 'b inv_scheme)))" and no_model: "\<And>i v q. t \<noteq> AtModel i v q"
    and tasks: "\<And>i c ids tid. t = AtTasks i c ids tid \<Longrightarrow> \<exists>e \<in> set (calls s). tc_id e = tc_id c \<and> tc_inv e = i \<and> ready e"
  shows "\<exists>k. one_moves (calls s) k (calls (snd (run_state (thread_run cf t) s)))
     \<and> (\<forall>c \<in> set (calls s). tc_id c = k \<longrightarrow> tc_inv c = thread_inv t)"
proof -
  have one: ?thesis if c: "c \<in> set (calls s)" "tc_inv c = thread_inv t" "ready c"
    and turn: "\<And>i e. t = Turn i \<Longrightarrow> approved_row i (calls s) = Some e \<Longrightarrow> tc_id e = tc_id c"
    and wait: "\<And>i e ids tid. t = AtTasks i e ids tid \<Longrightarrow> tc_id e = tc_id c" for c
  proof -
    have "one_moves (calls s) (tc_id c) (calls (snd (run_state (thread_run cf t) s)))"
      by (rule one_movesI [OF thread_moves_row [OF no_model turn wait]]) (use d c in \<open>auto simp: ready_def\<close>)
    moreover have "tc_inv e = thread_inv t" if "e \<in> set (calls s)" "tc_id e = tc_id c" for e
    proof -
      have "e = c" using d c(1) that by (auto simp: distinct_map inj_on_def)
      with c(2) show ?thesis by simp
    qed
    ultimately show ?thesis by blast
  qed
  have none: ?thesis if no_turn: "\<And>i e. t = Turn i \<Longrightarrow> approved_row i (calls s) \<noteq> Some e"
    and no_wait: "\<And>i e ids tid. t \<noteq> AtTasks i e ids tid"
  proof -
    obtain k where k: "k \<notin> tc_id ` set (calls s)" using fresh_id [of "{}"] by auto
    have "calls (snd (run_state (thread_run cf t) s)) = calls s"
      by (rule thread_calls [where P = "\<lambda>cs. cs = calls s"]) (use no_turn no_wait no_model in auto)
    with one_moves_refl [OF k] k show ?thesis by auto
  qed
  show ?thesis
  proof (cases t)
    case (Turn i)
    show ?thesis
    proof (cases "approved_row i (calls s)")
      case None
      then show ?thesis by (intro none) (use Turn in auto)
    next
      case (Some c)
      with approved_rowD [OF Some] Turn show ?thesis by (intro one [of c]) (auto simp: ready_def)
    qed
  next
    case (AtTasks i c ids tid)
    from tasks [OF AtTasks] obtain e where "e \<in> set (calls s)" "tc_id e = tc_id c" "tc_inv e = i" "ready e" by blast
    then show ?thesis using AtTasks by (intro one [of e]) auto
  next
    case (AtModel i v q)
    with no_model show ?thesis by blast
  next
    case (Leaving i)
    then show ?thesis by (intro none) auto
  qed
qed

lemma answer_life:
  "life_step (life_of (calls (s :: 'b inv_scheme))) (life_of (calls (snd (run_state (thread_run cf (AtModel i v q)) s))))
   \<and> set (calls s) \<subseteq> set (calls (snd (run_state (thread_run cf (AtModel i v q)) s)))"
proof
  have add: "life_step (life_of (calls s)) (life_of (calls s @ [proposed_row v' c x n m]))"
    if "cr_id c \<notin> tc_id ` set (calls s)" for v' c x n m
  proof -
    have "cr_id c \<notin> fst ` set (life_of (calls s))" using that by (auto simp: life_of_def)
    then have "life_step (life_of (calls s)) (life_of (calls s) @ [(cr_id c, if needs_no_operator v' c then TcApproved else TcPending)])"
      by (rule life_step.proposed) simp
    then show ?thesis by (simp add: life_of_def proposed_row_def proposal_def)
  qed
  show "life_step (life_of (calls s)) (life_of (calls (snd (run_state (thread_run cf (AtModel i v q)) s))))"
    by (rule thread_calls [where P = "\<lambda>cs. life_step (life_of (calls s)) (life_of cs)", OF life_step.idle])
      (use add in auto)
  show "set (calls s) \<subseteq> set (calls (snd (run_state (thread_run cf (AtModel i v q)) s)))"
    by (rule thread_calls [where P = "\<lambda>cs. set (calls s) \<subseteq> set cs"]) auto
qed

lemma guarded_awaits_calls:
  assumes "run_state (guarded_collect cf i d p g) s = (Inr (AwaitTasks c ids tid), s')" and "leaves calls p"
  shows "calls s' = calls s"
  using assms(1) unfolding guarded_collect_def
  by (auto dest!: finish_now_result leaves_runD [OF leaves_gates(2) [OF quiet_views(1)]]
      leaves_runD [OF leaves_gates(3) [OF quiet_views(1)]] leaves_runD [OF assms(2)] split: option.splits sum.splits prod.splits)

lemma awaits_keeps_calls:
  assumes "run_state (step_begin cf i) s = (Inr (AwaitTasks c ids tid), s')"
  shows "calls s' = calls s"
proof -
  note collects = leaves_collects(1,2) [OF quiet_views(1) quiet_views(5)]
  from assms obtain w a s1 where past: "calls s1 = calls s"
    "run_state (case a of Some c \<Rightarrow> executeApproved cf i c | None \<Rightarrow> ask_model cf w) s1 = (Inr (AwaitTasks c ids tid), s')"
    by (rule step_begin_past) auto
  from past(2) obtain d where d: "run_state (executeApproved cf i d) s1 = (Inr (AwaitTasks c ids tid), s')"
    by (cases a) (auto dest: ask_model_result)
  obtain v s2 where v: "run_state (GetInvestigation i) s1 = (Inr v, s2)"
    and r: "run_state (let en = \<lparr>he_inv = i, he_allowed = inv_allowed v, he_bus = False\<rparr>
       in if tc_tool d = ''collect''
          then guarded_collect cf i d (PrepareCollect cf en (tc_input d)) first_id
          else if tc_tool d = ''collect_batch'' then
            (if needsBroadConfirm d then do {
               _ \<leftarrow> SetToolCallRationale (tc_id d) broad_text;
               attempt (UpdateToolCall (tc_id d) TcPending [] [] jempty) (\<lambda>_. return (Inr Again))
             }
             else guarded_collect cf i d (PrepareCollectBatch cf en (tc_input d)) (join '',''))
          else do {
            r \<leftarrow> Dispatch cf en (tc_tool d) (tc_input d);
            finish_now cf i d r
          }) s2 = (Inr (AwaitTasks c ids tid), s')"
    using d unfolding executeApproved_def by (rule attempt_okE)
  have "calls s' = calls s2"
    using r unfolding Let_def
    by (auto dest!: finish_now_result guarded_awaits_calls [OF _ collects(1)] guarded_awaits_calls [OF _ collects(2)]
        elim!: attempt_okE split: if_splits prod.splits)
  with run_GetInvestigation [OF v] past(1) show ?thesis by simp
qed

lemma waiting_ok_keeps:
  assumes "waiting_ok cs ts" and "set ts' \<subseteq> set ts"
    and "\<And>i c ids tid d. AtTasks i c ids tid \<in> set ts' \<Longrightarrow> d \<in> set cs \<Longrightarrow> tc_id d = tc_id c \<Longrightarrow> tc_inv d = i \<Longrightarrow> ready d
        \<Longrightarrow> \<exists>b \<in> set cs'. same_call b d \<and> tc_status b = tc_status d"
  shows "waiting_ok cs' ts'"
  unfolding waiting_ok_def
proof (intro allI impI)
  fix i c ids tid assume a: "AtTasks i c ids tid \<in> set ts'"
  with assms(2) waiting_okD [OF assms(1), of i c ids tid] obtain d where
    d: "d \<in> set cs" "tc_id d = tc_id c" "tc_inv d = i" "ready d" by blast
  from assms(3) [OF a d] obtain b where "b \<in> set cs'" "same_call b d" "tc_status b = tc_status d" by blast
  with d show "\<exists>b \<in> set cs'. tc_id b = tc_id c \<and> tc_inv b = i \<and> ready b"
    by (auto simp: same_call_def ready_def)
qed

definition hub_moves :: "'z inv_scheme \<Rightarrow> thread list \<Rightarrow> 'z inv_scheme \<Rightarrow> thread list \<Rightarrow> bool" where
  "hub_moves s ts s' ts' = (life_ok s' ts' \<and> life_step (life_of (calls s)) (life_of (calls s')))"

lemma hub_movesI:
  assumes "flagged s' ts'" and "one_moves (calls s) k (calls s')" and "distinct (map tc_id (calls s))"
    and "waiting_ok (calls s') ts'"
  shows "hub_moves s ts s' ts'"
  using assms one_moves_ids [OF assms(2)] one_moves_life [OF assms(2,3)]
  by (simp add: hub_moves_def life_ok_def)

lemma act_life:
  assumes ok: "life_ok (s :: 'b inv_scheme) ts"
  shows "hub_moves s ts (snd (run_state (hub_exec w a) s)) ts"
proof -
  have d: "distinct (map tc_id (calls s))" using ok by (simp add: life_ok_def)
  obtain k where k: "one_moves (calls s) k (calls (snd (run_state (hub_exec w a) s)))"
    "\<forall>c \<in> set (calls s). tc_id c = k \<longrightarrow> tc_status c = TcPending"
    using act_moves [OF d, of w a] by blast
  have "flagged (snd (run_state (hub_exec w a) s)) ts"
    using ok leavesD [OF leaves_hub_exec, of running a w s]
    by (simp add: life_ok_def flagged_def running_indep_clock leaves_SetAutoApprove leaves_decisions indep_def)
  moreover have "waiting_ok (calls (snd (run_state (hub_exec w a) s))) ts"
  proof (rule waiting_ok_keeps [of "calls s" ts])
    fix i c ids tid d assume "d \<in> set (calls s)" "ready d"
    with k(2) have "tc_id d \<noteq> k" by (auto simp: ready_def)
    with one_moves_keeps [OF k(1) \<open>d \<in> set (calls s)\<close>]
    show "\<exists>b \<in> set (calls (snd (run_state (hub_exec w a) s))). same_call b d \<and> tc_status b = tc_status d" .
  qed (use ok in \<open>simp_all add: life_ok_def\<close>)
  ultimately show ?thesis by (intro hub_movesI [OF _ k(1) d])
qed

lemma wake_life:
  assumes ok: "life_ok s ts"
  shows "hub_moves s ts (fst (wake n (s, ts))) (snd (wake n (s, ts)))"
proof -
  have "set (snd (wake n (s, ts))) \<subseteq> set ts \<union> range Turn"
    by (auto simp: wake_def Let_def split: prod.splits if_splits)
  then have "AtTasks i c ids tid \<in> set ts" if "AtTasks i c ids tid \<in> set (snd (wake n (s, ts)))" for i c ids tid
    using that by auto
  then have "waiting_ok (calls s) (snd (wake n (s, ts)))"
    using ok unfolding life_ok_def waiting_ok_def by blast
  then show ?thesis
    using ok flagged_wake [of s ts n] wake_calls [of n s ts] by (simp add: hub_moves_def life_ok_def life_step.idle)
qed

lemma thread_awaits:
  assumes "run_state (thread_run cf t) s = (Some (AtTasks i c ids tid), s')"
  shows "t = Turn i \<and> approved_row i (calls s) = Some c \<and> calls s' = calls s"
proof (cases t)
  case (Turn j)
  with assms obtain x where x: "run_state (step_begin cf j) s = (Inr x, s')" "place j x = AtTasks i c ids tid"
    by (auto simp: settle_def split: prod.splits sum.splits)
  then have "x = AwaitTasks c ids tid" "j = i" by (cases x; simp)+
  with x(1) step_begin_awaits awaits_keeps_calls Turn show ?thesis by blast
qed (use assms in \<open>auto simp: settle_def split: prod.splits sum.splits if_splits\<close>)

lemma go_on_life:
  assumes ok: "life_ok (s :: 'b inv_scheme) ts"
  shows "hub_moves s ts (fst (go_on cf n (s, ts))) (snd (go_on cf n (s, ts)))"
proof (cases "n < length ts")
  case True
  obtain t s' where r: "run_state (thread_run cf (ts ! n)) s = (t, s')" by fastforce
  let ?ts' = "take n ts @ (case t of None \<Rightarrow> [] | Some x \<Rightarrow> [x]) @ drop (Suc n) ts"
  let ?rest = "take n ts @ drop (Suc n) ts"
  have fl: "flagged s' ?ts'" using flagged_go_on [of s ts cf n] ok go_on_run [OF True r] by (simp add: life_ok_def)
  have d: "distinct (map tc_id (calls s))" and dt: "distinct (map thread_inv ts)" and w: "waiting_ok (calls s) ts"
    using ok by (simp_all add: life_ok_def flagged_def)
  have tn: "ts ! n \<in> set ts" using True by simp
  have rest: "set ?rest \<subseteq> set ts" by (auto dest: in_set_takeD in_set_dropD)
  have other: "thread_inv x \<noteq> thread_inv (ts ! n)" if "x \<in> set ?rest" for x
    using others_distinct [OF dt True, of x] that by simp
  have new: "waiting_ok (calls s') ?ts'" if w': "waiting_ok (calls s') ?rest"
    unfolding waiting_ok_def
  proof (intro allI impI)
    fix i c ids tid assume a: "AtTasks i c ids tid \<in> set ?ts'"
    show "\<exists>d \<in> set (calls s'). tc_id d = tc_id c \<and> tc_inv d = i \<and> ready d"
    proof (cases "AtTasks i c ids tid \<in> set ?rest")
      case True
      then show ?thesis by (rule waiting_okD [OF w'])
    next
      case False
      with a have "t = Some (AtTasks i c ids tid)" by (auto split: option.splits)
      with thread_awaits r have "approved_row i (calls s) = Some c" "calls s' = calls s" by blast+
      with approved_rowD show ?thesis by (fastforce simp: ready_def)
    qed
  qed
  have "hub_moves s ts s' ?ts'"
  proof (cases "\<exists>i v q. ts ! n = AtModel i v q")
    case True
    then obtain i v q where at: "ts ! n = AtModel i v q" by blast
    from answer_life [of s cf i v q] r at
    have l: "life_step (life_of (calls s)) (life_of (calls s'))" "set (calls s) \<subseteq> set (calls s')" by simp_all
    have "waiting_ok (calls s') ?rest"
      by (rule waiting_ok_keeps [OF w rest]) (use l(2) in \<open>auto simp: same_call_def\<close>)
    moreover have "distinct (map tc_id (calls s'))"
      using answer_opens_one [OF d, of v cf i q] r at by (auto simp: opened_by_def)
    ultimately show ?thesis using fl new l(1) by (simp add: hub_moves_def life_ok_def)
  next
    case False
    have tasks: "\<exists>e \<in> set (calls s). tc_id e = tc_id c \<and> tc_inv e = i \<and> ready e"
      if "ts ! n = AtTasks i c ids tid" for i c ids tid
      using waiting_okD [OF w, of i c ids tid] tn that by simp
    have "\<And>i v q. ts ! n \<noteq> AtModel i v q" using False by blast
    then have "\<exists>k. one_moves (calls s) k (calls (snd (run_state (thread_run cf (ts ! n)) s)))
        \<and> (\<forall>c \<in> set (calls s). tc_id c = k \<longrightarrow> tc_inv c = thread_inv (ts ! n))"
      by (rule thread_moves [OF d _ tasks])
    then obtain k where k: "one_moves (calls s) k (calls s')"
      "\<forall>c \<in> set (calls s). tc_id c = k \<longrightarrow> tc_inv c = thread_inv (ts ! n)" using r by auto
    have "waiting_ok (calls s') ?rest"
    proof (rule waiting_ok_keeps [OF w rest])
      fix i c ids tid e assume a: "AtTasks i c ids tid \<in> set ?rest" "e \<in> set (calls s)" "tc_inv e = i"
      from other [OF a(1)] have "tc_id e \<noteq> k" using k(2) a(2,3) by auto
      with one_moves_keeps [OF k(1) a(2)] show "\<exists>b \<in> set (calls s'). same_call b e \<and> tc_status b = tc_status e" .
    qed
    with fl k(1) d new show ?thesis by (intro hub_movesI)
  qed
  then show ?thesis using go_on_run [OF True r] by simp
next
  case False
  with ok show ?thesis by (simp add: go_on_def hub_moves_def life_step.idle)
qed

lemma hub_movesD: "hub_moves s ts s' ts' \<Longrightarrow> life_ok s' ts'" "hub_moves s ts s' ts' \<Longrightarrow> life_step (life_of (calls s)) (life_of (calls s'))"
  by (simp_all add: hub_moves_def)

lemma run_life_ok:
  assumes "hub_run w s0 ls (s, ts)" and "running s0 = []" and "distinct (map tc_id (calls s0))"
  shows "life_ok s ts"
proof (rule hub_run_invariant [OF assms(1), of "\<lambda>ls s ts. life_ok s ts"])
  show "life_ok s0 []" using assms(2,3) by (simp add: life_ok_def flagged_def waiting_ok_def)
qed (erule hub_movesD(1) [OF act_life] hub_movesD(1) [OF wake_life] hub_movesD(1) [OF go_on_life])+

text \<open>
  C25: Refinement. Seen through the ids and statuses of its tool calls, the hub is the abstract
  machine of a call's life: every transition of any reachable state, an operator's, an
  agent's or a goroutine's, leaves the calls as they are, adds one new call that is pending
  or approved, or moves one call on: from pending to approved, edited, skipped or aborted,
  and from approved or edited to executed, or back to pending for a confirmation. Executed,
  skipped and aborted calls never change again.
\<close>
theorem hub_refines_call_life:
  assumes "hub_run w s0 ls (s, ts)" and "running s0 = []" and "distinct (map tc_id (calls s0))"
  shows "life_step (life_of (calls s)) (life_of (calls (fst (hub_step w l (s, ts)))))"
proof -
  note ok = run_life_ok [OF assms]
  show ?thesis
    using hub_movesD(2) [OF act_life [OF ok]] hub_movesD(2) [OF wake_life [OF ok]] hub_movesD(2) [OF go_on_life [OF ok]]
    by (cases l) simp_all
qed

end
