(* ===== verification/Inv_Rest.thy ===== *)
theory Inv_Rest
  imports Inv_Schema Inv_Life
begin

text \<open>
  A goroutine comes to rest: left to itself it leaves its loop after finitely many steps. The
  measure: the answers the model still gives, then the calls of the investigation that wait
  to be executed, then where in the loop body it is.
\<close>

section \<open>The answers to come\<close>

lemma keeps_leaves: "leaves f m \<Longrightarrow> keeps (\<lambda>s. P (f s)) m"
  by (simp add: keeps_def leaves_def)

lemma inv_frame_script: "inv_frame script"
  by (rule inv_frame_indep) (simp_all add: indep_def)

interpretation script_bound: hub_invariant "\<lambda>s. length (script s) \<le> n" for n
proof unfold_locales
  show "keeps (\<lambda>s. length (script s) \<le> n) (chat q)" for q
    by (auto simp: keeps_def chat_def)
qed (rule keeps_leaves [where f = script and P = "\<lambda>x. length x \<le> n"];
     (intro leaves_reads leaves_draw leaves_inventory leaves_runs leaves_investigations leaves_SetAutoApprove leaves_calls
       leaves_messages leaves_access leaves_hub leaves_OnArtifact inv_frame_script leaves_modify)?;
     simp add: indep_def leaves_def registerStream_def unregisterStream_def advance_enter_def advance_leave_def pump_def
       split: option.splits list.splits; fail)+

lemma script_shrinks: "length (script (snd (run_state (thread_run cf t) s))) \<le> length (script s)"
  by (rule keepsD [OF script_bound.thread_kept]) simp

section \<open>The calls that wait to be executed\<close>

definition ready_calls :: "string \<Rightarrow> call_row list \<Rightarrow> nat" where
  "ready_calls i cs = length (filter (\<lambda>c. tc_inv c = i \<and> ready c) cs)"

definition settled_call :: "string \<Rightarrow> call_row list \<Rightarrow> bool" where
  "settled_call k cs = (\<forall>c \<in> set cs. tc_id c = k \<longrightarrow> \<not> ready c)"

lemma moved_ready_le:
  assumes "moved_row k {TcExecuted, TcPending} cs0 cs"
  shows "ready_calls i cs \<le> ready_calls i cs0"
  using assms unfolding moved_row_def ready_calls_def
  by (induction rule: list_all2_induct) (auto simp: same_call_def ready_def)

lemma moved_ready_less:
  assumes "moved_row k {TcExecuted, TcPending} cs0 cs" and "settled_call k cs"
    and "c \<in> set cs0" "tc_id c = k" "tc_inv c = i" "ready c"
  shows "ready_calls i cs < ready_calls i cs0"
proof -
  obtain xs ys where cs0: "cs0 = xs @ c # ys" using assms(3) by (auto dest: split_list)
  with assms(1) obtain xs' b ys' where cs: "cs = xs' @ b # ys'"
    "moved_row k {TcExecuted, TcPending} xs xs'" "moved_row k {TcExecuted, TcPending} ys ys'" "same_call b c"
    unfolding moved_row_def by (auto simp: list_all2_append1 list_all2_Cons1)
  have "\<not> ready b" using assms(2,4) cs(1,4) by (simp add: settled_call_def same_call_def)
  moreover have "ready_calls i xs' \<le> ready_calls i xs" "ready_calls i ys' \<le> ready_calls i ys"
    using moved_ready_le cs(2,3) by blast+
  ultimately show ?thesis using assms(5,6) unfolding cs0 cs(1) by (simp add: ready_calls_def)
qed

lemma run_update_callD:
  "run_state (update_call k f) s = (Inr u, s1) \<Longrightarrow> calls s1 = update_rows (\<lambda>c. tc_id c = k) (f (clock s)) (calls s)"
  unfolding update_call_def sql_write_def by (drule sql_okD) auto

lemma settled_update:
  "(\<And>c. tc_id (g c) = tc_id c \<and> \<not> ready (g c)) \<Longrightarrow> settled_call k (update_rows (\<lambda>c. tc_id c = k) g cs)"
  by (induction cs) (auto simp: settled_call_def)

lemma UpdateToolCall_settles:
  assumes "run_state (UpdateToolCall k st who tid txt) s = (Inr u, s1)" and "st \<in> {TcExecuted, TcPending}"
  shows "settled_call k (calls s1)"
  unfolding run_update_callD [OF assms(1) [unfolded UpdateToolCall_def]]
  by (rule settled_update) (use assms(2) in \<open>auto simp: ready_def\<close>)

lemma exec_finish_settles:
  assumes "run_state (exec_finish cf i c r tid) (s :: 'b inv_scheme) = (Inr x, s')"
  shows "settled_call (tc_id c) (calls s')"
proof -
  from assms obtain u s1 where u: "run_state (UpdateToolCall (tc_id c) TcExecuted ''auto'' tid (JText (result_json cf r))) s = (Inr u, s1)"
    and rest: "run_state (attempt (AppendMessage (tool_msg i (result_json cf r) (tc_id c))) (\<lambda>_. do {
       _ \<leftarrow> publish i EventToolCallUpdated
              (JObj [(''tool_call_id'', JStr (tc_id c)), (''tool'', JStr (tc_tool c)), (''status'', JStr ''executed''),
                     (''task_id'', JStr tid), (''ok'', JBool (tr_ok r))]);
       _ \<leftarrow> publish i EventMessageAppended
              (JObj [(''role'', JStr ''tool''), (''content'', JStr (c_marshal cf (result_json cf r))),
                     (''tool_call_id'', JStr (tc_id c))]);
       _ \<leftarrow> exec_after cf i c r;
       return (Inr True)
     })) s1 = (Inr x, s')" (is "run_state ?rest s1 = _")
    unfolding exec_finish_def by (rule attempt_okE)
  have "settled_call (tc_id c) (calls s1)"
    using UpdateToolCall_settles [OF u] by simp
  moreover have "leaves calls (?rest :: ('b, terr + bool) im)" by (intro leaves_intros)
  from leaves_runD [OF this rest] have "calls s' = calls s1" .
  ultimately show ?thesis by simp
qed

lemma finish_now_settles:
  "run_state (finish_now cf i c r) s = (Inr x, s') \<Longrightarrow> settled_call (tc_id c) (calls s')"
  unfolding finish_now_def by (auto split: prod.splits sum.splits dest: exec_finish_settles)

lemma guarded_settles:
  "run_state (guarded_collect cf i c p tid) s = (Inr Again, s') \<Longrightarrow> settled_call (tc_id c) (calls s')"
  unfolding guarded_collect_def
  by (auto dest!: finish_now_settles split: option.splits sum.splits prod.splits)

lemma broad_settles:
  "run_state (attempt (UpdateToolCall k TcPending who t txt) (\<lambda>_. return (Inr Again))) s = (Inr x, s') \<Longrightarrow> settled_call k (calls s')"
  by (erule attempt_okE) (simp add: UpdateToolCall_settles)

lemma executeApproved_settles:
  assumes "run_state (executeApproved cf i c) s = (Inr Again, s')"
  shows "settled_call (tc_id c) (calls s')"
proof -
  obtain v s1 where "run_state (GetInvestigation i) s = (Inr v, s1)" and r: "run_state (let en = \<lparr>he_inv = i, he_allowed = inv_allowed v, he_bus = False\<rparr>
       in if tc_tool c = ''collect''
          then guarded_collect cf i c (PrepareCollect cf en (tc_input c)) first_id
          else if tc_tool c = ''collect_batch'' then
            (if needsBroadConfirm c then do {
               _ \<leftarrow> SetToolCallRationale (tc_id c) broad_text;
               attempt (UpdateToolCall (tc_id c) TcPending [] [] jempty) (\<lambda>_. return (Inr Again))
             }
             else guarded_collect cf i c (PrepareCollectBatch cf en (tc_input c)) (join '',''))
          else do {
            r \<leftarrow> Dispatch cf en (tc_tool c) (tc_input c);
            finish_now cf i c r
          }) s1 = (Inr Again, s')"
    using assms unfolding executeApproved_def by (rule attempt_okE)
  let ?en = "\<lparr>he_inv = i, he_allowed = inv_allowed v, he_bus = False\<rparr>"
  consider "tc_tool c = ''collect''" | "tc_tool c = ''collect_batch''" "needsBroadConfirm c"
    | "tc_tool c = ''collect_batch''" "\<not> needsBroadConfirm c" | "tc_tool c \<noteq> ''collect''" "tc_tool c \<noteq> ''collect_batch''"
    by blast
  then show ?thesis
  proof cases
    case 1
    with r have "run_state (guarded_collect cf i c (PrepareCollect cf ?en (tc_input c)) first_id) s1 = (Inr Again, s')" by simp
    then show ?thesis by (rule guarded_settles)
  next
    case 2
    with r have "run_state (do {
        _ \<leftarrow> SetToolCallRationale (tc_id c) broad_text;
        attempt (UpdateToolCall (tc_id c) TcPending [] [] jempty) (\<lambda>_. return (Inr Again)) }) s1 = (Inr Again, s')" by simp
    then show ?thesis by (rule bind_runE) (rule broad_settles)
  next
    case 3
    with r have "run_state (guarded_collect cf i c (PrepareCollectBatch cf ?en (tc_input c)) (join '','')) s1 = (Inr Again, s')" by simp
    then show ?thesis by (rule guarded_settles)
  next
    case 4
    with r have "run_state (do { r \<leftarrow> Dispatch cf ?en (tc_tool c) (tc_input c); finish_now cf i c r }) s1 = (Inr Again, s')" by simp
    then show ?thesis by (rule bind_runE) (rule finish_now_settles)
  qed
qed

lemma step_again_settles:
  assumes "run_state (step_begin cf i) s = (Inr Again, s')"
  obtains c where "approved_row i (calls s) = Some c" and "settled_call (tc_id c) (calls s')"
proof -
  from assms obtain w a s1 where past: "a = approved_row i (calls s)"
    "run_state (case a of Some c \<Rightarrow> executeApproved cf i c | None \<Rightarrow> ask_model cf w) s1 = (Inr Again, s')"
    by (rule step_begin_past) auto
  show ?thesis
  proof (cases a)
    case None
    with past(2) show ?thesis by (auto dest: ask_model_result)
  next
    case (Some c)
    with past(2) have "run_state (executeApproved cf i c) s1 = (Inr Again, s')" by simp
    from executeApproved_settles [OF this] past(1) Some that [of c] show ?thesis by simp
  qed
qed

section \<open>The measure\<close>

fun phase :: "thread \<Rightarrow> nat" where
  "phase (Turn i) = 3"
| "phase (AtModel i v q) = 2"
| "phase (AtTasks i c ids tid) = 2"
| "phase (Leaving i) = 1"

definition to_go :: "(('z inv_scheme \<times> thread) \<times> ('z inv_scheme \<times> thread)) set" where
  "to_go = measures [\<lambda>(s, t). length (script s), \<lambda>(s, t). ready_calls (thread_inv t) (calls s), \<lambda>(s, t). phase t]"

lemma to_goI:
  assumes "length (script s') \<le> length (script s)"
    and "length (script s') = length (script s) \<Longrightarrow> ready_calls (thread_inv t') (calls s') \<le> ready_calls (thread_inv t) (calls s)"
    and "length (script s') = length (script s) \<Longrightarrow> phase t' < phase t \<or> ready_calls (thread_inv t') (calls s') < ready_calls (thread_inv t) (calls s)"
  shows "((s', t'), (s, t)) \<in> to_go"
  using assms unfolding to_go_def by (cases "length (script s') = length (script s)") auto

lemma settle_thread: "run_state (settle cf i r) s = (t, s') \<Longrightarrow> t = Leaving i \<or> t = Turn i \<and> (\<exists>x. r = Inr x)"
  by (auto simp: settle_def split: sum.splits prod.splits if_splits)

lemma turn_decreases:
  assumes r: "run_state (thread_run cf (Turn i)) (s :: 'b inv_scheme) = (Some t, s')"
  shows "((s', t), (s, Turn i)) \<in> to_go"
proof -
  obtain k where k: "\<And>e. approved_row i (calls s) = Some e \<Longrightarrow> tc_id e = k" by (cases "approved_row i (calls s)") auto
  have m: "moved_row k {TcExecuted, TcPending} (calls s) (calls s')"
    using thread_moves_row [of "Turn i" s k cf] k r by simp
  have "length (script s') \<le> length (script s)" using script_shrinks [of cf "Turn i" s] r by simp
  moreover have i: "thread_inv t = i"
    and "phase t < 3 \<or> ready_calls i (calls s') < ready_calls i (calls s)"
  proof -
    obtain y s1 where y: "run_state (step_begin cf i) s = (y, s1)" by fastforce
    have "thread_inv t = i \<and> (phase t < 3 \<or> y = Inr Again \<and> s' = s1)"
    proof (cases y)
      case (Inl e)
      with r y have "run_state (settle cf i (Inl e)) s1 = (t, s')" by (auto split: prod.splits)
      from settle_thread [OF this] show ?thesis by auto
    next
      case (Inr x)
      with r y have "t = place i x" "s' = s1" by simp_all
      with Inr show ?thesis by (cases x) simp_all
    qed
    then show "thread_inv t = i" "phase t < 3 \<or> ready_calls i (calls s') < ready_calls i (calls s)"
    proof -
      assume a: "thread_inv t = i \<and> (phase t < 3 \<or> y = Inr Again \<and> s' = s1)"
      show "phase t < 3 \<or> ready_calls i (calls s') < ready_calls i (calls s)"
      proof (cases "phase t < 3")
        case False
        with a y have "run_state (step_begin cf i) s = (Inr Again, s')" by simp
        then obtain c where c: "approved_row i (calls s) = Some c" "settled_call (tc_id c) (calls s')"
          by (rule step_again_settles)
        note row = approved_rowD [OF c(1)]
        from k [OF c(1)] c(2) have "settled_call k (calls s')" by simp
        from moved_ready_less [OF m this, of c i] row k [OF c(1)] show ?thesis by (simp add: ready_def)
      qed simp
    qed simp
  qed
  ultimately show ?thesis using moved_ready_le [OF m, of i] by (intro to_goI) auto
qed

lemma model_decreases:
  assumes r: "run_state (thread_run cf (AtModel i v q)) (s :: 'b inv_scheme) = (Some t, s')"
  shows "((s', t), (s, AtModel i v q)) \<in> to_go"
proof -
  obtain x s1 where x: "run_state (chat q) s = (x, s1)" by fastforce
  obtain y s2 where y: "run_state (answer_model cf v x) s1 = (y, s2)" by fastforce
  have st: "run_state (settle cf i y) s2 = (t, s')" using r x y by (auto split: prod.splits)
  show ?thesis
  proof (cases "script s")
    case Nil
    with x have "x = None" "calls s1 = calls s" by (auto simp: chat_def)
    with y have y': "y = Inl (TLoop ''llm chat'')" "s2 = s1" by (simp_all add: answer_model_def fail_def)
    with st have "t = Leaving i" using settle_thread by blast
    moreover have "calls s' = calls s" using settle_calls [OF st] y'(2) \<open>calls s1 = calls s\<close> by simp
    ultimately show ?thesis using script_shrinks [of cf "AtModel i v q" s] r by (intro to_goI) simp_all
  next
    case (Cons a rest)
    with x have "length (script s1) \<le> length rest" by (auto simp: chat_def)
    then have "length (script (snd (run_state (answer_model cf v x) s1))) \<le> length rest"
      by (rule keepsD [OF script_bound.turns_kept(2)])
    then have "length (script (snd (run_state (settle cf i y) s2))) \<le> length rest"
      unfolding y snd_conv by (rule keepsD [OF script_bound.turns_kept(4)])
    then have "length (script s') \<le> length rest" unfolding st by simp
    with Cons show ?thesis by (intro to_goI) simp_all
  qed
qed

lemma tasks_decreases:
  assumes r: "run_state (thread_run cf (AtTasks i c ids tid)) (s :: 'b inv_scheme) = (Some t, s')"
    and e: "e \<in> set (calls s)" "tc_id e = tc_id c" "tc_inv e = i" "ready e"
  shows "((s', t), (s, AtTasks i c ids tid)) \<in> to_go"
proof -
  have "moved_row (tc_id c) {TcExecuted, TcPending} (calls s) (calls (snd (run_state (thread_run cf (AtTasks i c ids tid)) s)))"
    by (rule thread_moves_row) auto
  then have m: "moved_row (tc_id c) {TcExecuted, TcPending} (calls s) (calls s')" unfolding r snd_conv .
  obtain y s1 where y: "run_state (step_resume cf i c ids tid) s = (y, s1)" by fastforce
  have st: "run_state (settle cf i y) s1 = (t, s')" using r y by (auto split: prod.splits)
  have "thread_inv t = i \<and> (phase t < 2 \<or> ready_calls i (calls s') < ready_calls i (calls s))"
    using settle_thread [OF st]
  proof
    assume "t = Turn i \<and> (\<exists>x. y = Inr x)"
    then obtain x where x: "t = Turn i" "y = Inr x" by blast
    with y obtain tr s0 where "run_state (exec_finish cf i c tr tid) s0 = (Inr x, s1)"
      unfolding step_resume_def by (auto split: prod.splits)
    from exec_finish_settles [OF this] settle_calls [OF st] have "settled_call (tc_id c) (calls s')" by simp
    from moved_ready_less [OF m this e] x(1) show ?thesis by simp
  qed simp
  then show ?thesis
    using script_shrinks [of cf "AtTasks i c ids tid" s] r moved_ready_le [OF m, of i] by (intro to_goI) auto
qed

section \<open>Rest\<close>

lemma go_on_decreases:
  assumes ok: "life_ok (s :: 'b inv_scheme) (t # ts)" and r: "run_state (thread_run cf t) s = (Some t', s')"
  shows "((s', t'), (s, t)) \<in> to_go"
proof (cases t)
  case (Turn i)
  with r turn_decreases show ?thesis by blast
next
  case (AtModel i v q)
  with r model_decreases show ?thesis by blast
next
  case (AtTasks i c ids tid)
  from ok AtTasks obtain e where "e \<in> set (calls s)" "tc_id e = tc_id c" "tc_inv e = i" "ready e"
    using waiting_okD [of "calls s" "t # ts" i c ids tid] by (auto simp: life_ok_def)
  with r tasks_decreases show ?thesis unfolding AtTasks by blast
next
  case (Leaving i)
  with r show ?thesis by (simp split: prod.splits)
qed

lemma comes_to_rest:
  "life_ok s (t # ts) \<Longrightarrow> \<exists>k s'. (go_on cf 0 ^^ k) (s, t # ts) = (s', ts)"
proof (induction "(s, t)" arbitrary: s t rule: wf_induct [of to_go])
  case 1
  show ?case by (simp add: to_go_def)
next
  case (2 s t)
  obtain x s' where r: "run_state (thread_run cf t) s = (x, s')" by fastforce
  then have go: "go_on cf 0 (s, t # ts) = (s', (case x of None \<Rightarrow> [] | Some y \<Rightarrow> [y]) @ ts)" by (simp add: go_on_def)
  show ?case
  proof (cases x)
    case None
    with go have "(go_on cf 0 ^^ 1) (s, t # ts) = (s', ts)" by simp
    then show ?thesis by blast
  next
    case (Some y)
    have "life_ok s' (y # ts)"
      using hub_movesD(1) [OF go_on_life [OF 2(2), of cf 0]] go Some by simp
    with 2(1) go_on_decreases [OF 2(2)] r Some obtain k s'' where "(go_on cf 0 ^^ k) (s', y # ts) = (s'', ts)" by blast
    with go Some have "(go_on cf 0 ^^ Suc k) (s, t # ts) = (s'', ts)" by (simp add: funpow_swap1 o_def)
    then show ?thesis by blast
  qed
qed

lemma hub_step_first: "hub_step w (Run 0) = go_on (wo_cfg w) 0"
  by (rule ext) simp


end
