(* ===== verification/Inv_Effects.thy ===== *)
theory Inv_Effects
  imports Inv_Calls
begin

text \<open>
  What single operations of the loop do on every branch, when the database answers: a step,
  an operator's decision, the gates of a collection, and the ends of an investigation.
\<close>

section \<open>A step\<close>

lemma run_GetInvestigation_ok:
  "faults s = [] \<Longrightarrow> find_row (\<lambda>v. inv_id v = i) (invs s) = Some v \<Longrightarrow> run_state (GetInvestigation i) s = (Inr v, s)"
  by (simp add: GetInvestigation_def)

lemma run_PendingToolCall_ok:
  "faults s = [] \<Longrightarrow> run_state (PendingToolCall i) s = (Inr (pending_row i (calls s)), s)"
  by (simp add: PendingToolCall_def sql_read_def pending_row_def)

lemma run_lastApproved_ok:
  "faults s = [] \<Longrightarrow> run_state (lastApproved i) s = (Inr (approved_row i (calls s)), s)"
  by (simp add: lastApproved_def ListToolCalls_def calls_of_def sql_read_def approved_row_def)

lemma run_update_inv:
  "faults s = [] \<Longrightarrow> run_state (update_inv i f) s =
     (Inr (), s\<lparr>invs := update_rows (\<lambda>v. inv_id v = i) (\<lambda>v. (f v)\<lparr>inv_updated_at := clock s\<rparr>) (invs s)\<rparr>)"
  by (simp add: update_inv_def sql_write_def)

lemma run_AppendMessage_ok:
  "faults s = [] \<Longrightarrow> find_row (\<lambda>v. inv_id v = m_inv m) (invs s) \<noteq> None \<Longrightarrow>
   run_state (AppendMessage m) s = (Inr (last_msg_id s + 1), s\<lparr>msgs := msgs s @
      [m\<lparr>m_id := last_msg_id s + 1, m_seq := next_seq (m_inv m) (msgs s), m_at := clock s, m_archived := False\<rparr>],
      last_msg_id := last_msg_id s + 1\<rparr>)"
  by (simp add: AppendMessage_def Let_def)

lemma run_publish: "run_state (publish i ty d) s = ((), s\<lparr>bus := Publish i ty d (clock s) (bus s)\<rparr>)"
  by (simp add: publish_def)

lemma run_pubStatus:
  "run_state (pubStatus i st) s = ((), s\<lparr>bus := Publish i EventStatusChanged (JObj [(''status'', JStr (status_text st))]) (clock s) (bus s)\<rparr>)"
  by (simp add: pubStatus_def run_publish)

text \<open>
  The investigation paused: its status, one message more, and the events of it; nothing is
  asked, sent or proposed.
\<close>

definition paused_by :: "string \<Rightarrow> 'z inv_scheme \<Rightarrow> 'z inv_scheme \<Rightarrow> bool" where
  "paused_by i s s' =
     (map_option inv_status (find_row (\<lambda>v. inv_id v = i) (invs s')) = Some InvPaused \<and>
      length (msgs s') = length (msgs s) + 1 \<and> take (length (msgs s)) (msgs s') = msgs s \<and>
      m_inv (last (msgs s')) = i \<and> m_role (last (msgs s')) = RoleSystem \<and>
      calls s' = calls s \<and> dispatched s' = dispatched s \<and> asked s' = asked s \<and> tasks s' = tasks s)"

lemma pause_pauses:
  assumes "faults s = []" and "find_row (\<lambda>v. inv_id v = i) (invs s) = Some v"
  obtains s' where "run_state (pause cf i x k a b) s = (Inr Halt, s')" and "paused_by i s s'"
proof -
  let ?s1 = "s\<lparr>invs := update_rows (\<lambda>v. inv_id v = i) (\<lambda>v. v\<lparr>inv_status := InvPaused, inv_updated_at := clock s\<rparr>) (invs s)\<rparr>"
  have f: "find_row (\<lambda>v. inv_id v = i) (invs ?s1) = Some (v\<lparr>inv_status := InvPaused, inv_updated_at := clock s\<rparr>)"
    using assms(2) by (simp add: find_row_update_same)
  then have m: "find_row (\<lambda>v. inv_id v = m_inv (text_msg i RoleSystem x)) (invs ?s1) \<noteq> None" by (simp add: text_msg_def)
  have r: "\<exists>s'. run_state (pause cf i x k a b) s = (Inr Halt, s') \<and>
      s' = ?s1\<lparr>msgs := msgs s @ [(text_msg i RoleSystem x)\<lparr>m_id := last_msg_id s + 1, m_seq := next_seq i (msgs s),
          m_at := clock s, m_archived := False\<rparr>], last_msg_id := last_msg_id s + 1, bus := bus s'\<rparr>"
    using run_AppendMessage_ok [OF _ m] assms(1)
    by (simp add: pause_def UpdateInvestigationStatus_def run_update_inv run_publish run_pubStatus text_msg_def)
  then obtain s' where s': "run_state (pause cf i x k a b) s = (Inr Halt, s')"
    "s' = ?s1\<lparr>msgs := msgs s @ [(text_msg i RoleSystem x)\<lparr>m_id := last_msg_id s + 1, m_seq := next_seq i (msgs s),
          m_at := clock s, m_archived := False\<rparr>], last_msg_id := last_msg_id s + 1, bus := bus s'\<rparr>" by blast
  have fields: "invs s' = invs ?s1" "calls s' = calls s" "dispatched s' = dispatched s" "asked s' = asked s" "tasks s' = tasks s"
    "msgs s' = msgs s @ [(text_msg i RoleSystem x)\<lparr>m_id := last_msg_id s + 1, m_seq := next_seq i (msgs s),
          m_at := clock s, m_archived := False\<rparr>]"
    by (subst s'(2), simp)+
  have "paused_by i s s'"
    using f unfolding paused_by_def fields by (simp add: text_msg_def)
  with s'(1) that show ?thesis by blast
qed

definition over_budget :: "cfg \<Rightarrow> investigation \<Rightarrow> bool" where
  "over_budget cf v = (inv_tool_calls v \<ge> steps_cap cf v \<or> tokens_used v \<ge> tokens_cap cf v)"

text \<open>
  C24: A step, on every branch. A finished or paused investigation is left alone. One whose
  steps or tokens are used up, extensions included, is paused with a message, and nothing
  is asked of the model, proposed or sent. A pending call ends the step without effect;
  otherwise the last approved call is executed; and only with neither is the model asked.
\<close>
theorem step_branches:
  assumes "faults s = []" and "find_row (\<lambda>v. inv_id v = i) (invs s) = Some v"
  shows "(stopped v \<longrightarrow> run_state (step_begin cf i) s = (Inr Halt, s)) \<and>
    (\<not> stopped v \<and> over_budget cf v \<longrightarrow> (\<exists>s'. run_state (step_begin cf i) s = (Inr Halt, s') \<and> paused_by i s s')) \<and>
    (\<not> stopped v \<and> \<not> over_budget cf v \<longrightarrow>
       run_state (step_begin cf i) s =
         (case pending_row i (calls s) of
            Some _ \<Rightarrow> (Inr Halt, s)
          | None \<Rightarrow> (case approved_row i (calls s) of
                       Some c \<Rightarrow> run_state (executeApproved cf i c) s
                     | None \<Rightarrow> run_state (ask_model cf v) s)))"
proof (intro conjI impI)
  note start = run_GetInvestigation_ok [OF assms]
  show "run_state (step_begin cf i) s = (Inr Halt, s)" if "stopped v"
    using that by (simp add: step_begin_def run_attempt start)
  show "\<exists>s'. run_state (step_begin cf i) s = (Inr Halt, s') \<and> paused_by i s s'" if "\<not> stopped v \<and> over_budget cf v"
  proof (cases "inv_tool_calls v \<ge> steps_cap cf v")
    case True
    then show ?thesis using that
      by (simp add: step_begin_def run_attempt start) (metis pause_pauses [OF assms])
  next
    case False
    then show ?thesis using that
      by (simp add: step_begin_def run_attempt start over_budget_def) (metis pause_pauses [OF assms])
  qed
  show "run_state (step_begin cf i) s =
         (case pending_row i (calls s) of
            Some _ \<Rightarrow> (Inr Halt, s)
          | None \<Rightarrow> (case approved_row i (calls s) of
                       Some c \<Rightarrow> run_state (executeApproved cf i c) s
                     | None \<Rightarrow> run_state (ask_model cf v) s))" if "\<not> stopped v \<and> \<not> over_budget cf v"
    using that assms(1)
    by (simp add: step_begin_def run_attempt start over_budget_def run_PendingToolCall_ok run_lastApproved_ok
        split: option.splits)
qed

section \<open>The operator's decisions\<close>

text \<open>A decision's status, and the row it makes of the pending one.\<close>

fun decided_status :: "string \<Rightarrow> call_status" where
  "decided_status d = (if d = ''approve'' then TcApproved else if d = ''edit'' then TcEdited
                       else if d = ''skip'' then TcSkipped else TcAborted)"

definition decided_row :: "cfg \<Rightarrow> string \<Rightarrow> jtext \<Rightarrow> string \<Rightarrow> instant \<Rightarrow> call_row \<Rightarrow> call_row" where
  "decided_row cf d input who now c =
     c\<lparr>tc_status := decided_status d, tc_decided_by := nullable who, tc_task := None, tc_decided_at := Some now,
       tc_result := (if d = ''skip'' then Some (JText (result_json cf (errResult TSkipped))) else None),
       tc_input := (if d = ''edit'' then input else tc_input c),
       tc_broad := (tc_broad c \<or> d = ''approve'' \<and> needsBroadConfirm c)\<rparr>"

lemma run_update_call:
  "faults s = [] \<Longrightarrow> run_state (update_call k f) s = (Inr (), s\<lparr>calls := update_rows (\<lambda>c. tc_id c = k) (f (clock s)) (calls s)\<rparr>)"
  by (simp add: update_call_def sql_write_def)

lemma update_rows_twice:
  "(\<And>r. P (f r) = P r) \<Longrightarrow> update_rows P g (update_rows P f rows) = update_rows P (\<lambda>r. g (f r)) rows"
  by (induction rows) auto

lemma update_rows_only:
  assumes "distinct (map k rows)" and "r \<in> set rows" and "f r = g r"
  shows "update_rows (\<lambda>x. k x = k r) f rows = update_rows (\<lambda>x. k x = k r) g rows"
proof -
  have "x = r" if "x \<in> set rows" "k x = k r" for x
    using assms(1,2) that by (auto simp: distinct_map inj_on_def)
  with assms(3) show ?thesis by (auto simp: update_rows_def)
qed

lemma done_frame:
  "run_state (decide_done cf i c d) s = (Inr (), s\<lparr>bus := Publish i EventToolCallUpdated
     (JObj [(''tool_call_id'', JStr (tc_id c)), (''tool'', JStr (tc_tool c)), (''status'', JStr d),
            (''input_json'', JStr (content_text cf (tc_input c)))]) (clock s) (bus s), spawned := spawned s @ [i]\<rparr>)"
  by (simp add: decide_done_def pubToolCall_def publish_def spawn_def)

text \<open>What a decision leaves, and the row updates each branch makes.\<close>

definition decided :: "cfg \<Rightarrow> string \<Rightarrow> call_row \<Rightarrow> string \<Rightarrow> jtext \<Rightarrow> string \<Rightarrow> ('z, terr + unit) im \<Rightarrow> 'z inv_scheme \<Rightarrow> bool" where
  "decided cf i c d input who m s = (\<exists>s'. run_state m s = (Inr (), s')
     \<and> calls s' = update_rows (\<lambda>x. tc_id x = tc_id c) (decided_row cf d input who (clock s)) (calls s)
     \<and> spawned s' = spawned s @ (if d = ''end'' then [] else [i])
     \<and> (if d = ''end'' then map_option inv_status (find_row (\<lambda>v. inv_id v = i) (invs s')) = Some InvAborted
        else invs s' = invs s))"

definition set_row :: "call_status \<Rightarrow> string \<Rightarrow> jtext \<Rightarrow> instant \<Rightarrow> call_row \<Rightarrow> call_row" where
  "set_row st who t now c = c\<lparr>tc_status := st, tc_decided_by := nullable who, tc_task := nullable [],
     tc_result := nullable_text t, tc_decided_at := Some now\<rparr>"

lemma run_set_row:
  "faults s = [] \<Longrightarrow> run_state (UpdateToolCall k st who [] t) s
     = (Inr (), s\<lparr>calls := update_rows (\<lambda>x. tc_id x = k) (set_row st who t (clock s)) (calls s)\<rparr>)"
  by (simp add: UpdateToolCall_def run_update_call set_row_def [abs_def])

lemmas row_simps = set_row_def decided_row_def nullable_text_def nullable_def jempty_def

lemma rows_decided:
  assumes "distinct (map tc_id rows)" and "c \<in> set rows" and "set_row st who t now c = decided_row cf d input who now c"
  shows "update_rows (\<lambda>x. tc_id x = tc_id c) (set_row st who t now) rows
       = update_rows (\<lambda>x. tc_id x = tc_id c) (decided_row cf d input who now) rows"
  by (rule update_rows_only [where k = tc_id, OF assms(1,2)]) (rule assms(3))

lemma rows_decided_twice:
  assumes "distinct (map tc_id rows)" and "c \<in> set rows" and "\<And>x. tc_id (h x) = tc_id x"
    and "set_row st who t now (h c) = decided_row cf d input who now c"
  shows "update_rows (\<lambda>x. tc_id x = tc_id c) (set_row st who t now) (update_rows (\<lambda>x. tc_id x = tc_id c) h rows)
       = update_rows (\<lambda>x. tc_id x = tc_id c) (decided_row cf d input who now) rows"
  by (subst update_rows_twice, simp add: assms(3),
      rule update_rows_only [where k = tc_id, OF assms(1,2)], rule assms(4))

lemma approve_decided:
  assumes "faults s = []" and "distinct (map tc_id (calls s))" and "c \<in> set (calls s)"
  shows "decided cf i c ''approve'' input who (decide_approve cf i c who) s"
proof (cases "needsBroadConfirm c")
  case True
  have "set_row TcApproved who jempty (clock s) (c\<lparr>tc_broad := True\<rparr>) = decided_row cf ''approve'' input who (clock s) c"
    using True by (simp add: row_simps)
  from rows_decided_twice [of _ _ "\<lambda>c. c\<lparr>tc_broad := True\<rparr>", OF assms(2,3) _ this] assms(1) True show ?thesis
    by (simp add: decided_def decide_approve_def run_attempt SetToolCallBroadConfirmed_def run_update_call run_set_row done_frame)
next
  case False
  have "set_row TcApproved who jempty (clock s) c = decided_row cf ''approve'' input who (clock s) c"
    using False by (simp add: row_simps)
  from rows_decided [OF assms(2,3) this] assms(1) False show ?thesis
    by (simp add: decided_def decide_approve_def run_attempt run_set_row done_frame)
qed

lemma edit_decided:
  assumes "faults s = []" and "distinct (map tc_id (calls s))" and "c \<in> set (calls s)" and "input \<noteq> jempty" and "is_object_text input"
  shows "decided cf i c ''edit'' input who (decide_edit cf i c input who) s"
proof -
  have "set_row TcEdited who jempty (clock s) (c\<lparr>tc_input := input\<rparr>) = decided_row cf ''edit'' input who (clock s) c"
    by (simp add: row_simps)
  from rows_decided_twice [of _ _ "\<lambda>c. c\<lparr>tc_input := input\<rparr>", OF assms(2,3) _ this] assms(1,4,5) show ?thesis
    by (simp add: decided_def decide_edit_def run_attempt SetToolCallInput_def run_update_call run_set_row done_frame)
qed

lemma skip_decided:
  assumes "faults s = []" and "distinct (map tc_id (calls s))" and "c \<in> set (calls s)"
    and "find_row (\<lambda>v. inv_id v = i) (invs s) \<noteq> None"
  shows "decided cf i c ''skip'' input who (decide_skip cf i c who) s"
proof -
  have m: "m_inv (tool_msg i b k) = i" for b k by (simp add: tool_msg_def)
  have "set_row TcSkipped who (JText (result_json cf (errResult TSkipped))) (clock s) c
      = decided_row cf ''skip'' input who (clock s) c"
    by (simp add: row_simps)
  from rows_decided [OF assms(2,3) this] assms(1,4) show ?thesis
    by (simp add: decided_def decide_skip_def Let_def run_attempt run_set_row done_frame run_AppendMessage_ok m)
qed

lemma end_decided:
  assumes "faults s = []" and "distinct (map tc_id (calls s))" and "c \<in> set (calls s)"
    and "find_row (\<lambda>v. inv_id v = i) (invs s) \<noteq> None"
  shows "decided cf i c ''end'' input who (decide_end i c who) s"
proof -
  have "set_row TcAborted who jempty (clock s) c = decided_row cf ''end'' input who (clock s) c"
    by (simp add: row_simps)
  from rows_decided [OF assms(2,3) this] assms(1,4) show ?thesis
    by (auto simp: decided_def decide_end_def run_attempt run_set_row FinishInvestigation_def run_update_inv run_pubStatus
        find_row_update_same)
qed

text \<open>
  C23: An operator's decision changes the pending call and nothing else of the calls:
  \<open>approve\<close>, \<open>edit\<close> with a JSON object, \<open>skip\<close> and \<open>end\<close> give it their status and who decided,
  an edit its new input, a skip its synthetic result; all but \<open>end\<close> wake the loop, and \<open>end\<close>
  aborts the investigation instead.
\<close>
theorem decision_settles_pending:
  assumes "faults s = []" and "distinct (map tc_id (calls s))" and "pending_row i (calls s) = Some c"
    and "d \<in> {''approve'', ''edit'', ''skip'', ''end''}" and "d = ''edit'' \<longrightarrow> input \<noteq> jempty \<and> is_object_text input"
    and "find_row (\<lambda>v. inv_id v = i) (invs s) \<noteq> None"
  shows "\<exists>s'. run_state (DecideWithEdit cf i d input who) s = (Inr (), s')
    \<and> calls s' = update_rows (\<lambda>x. tc_id x = tc_id c) (decided_row cf d input who (clock s)) (calls s)
    \<and> spawned s' = spawned s @ (if d = ''end'' then [] else [i])
    \<and> (if d = ''end'' then map_option inv_status (find_row (\<lambda>v. inv_id v = i) (invs s')) = Some InvAborted
       else invs s' = invs s)"
proof -
  have c: "c \<in> set (calls s)" using pending_rowD [OF assms(3)] by simp
  have start: "run_state (DecideWithEdit cf i d input who) s = run_state (
           if d = ''approve'' then decide_approve cf i c who
           else if d = ''edit'' then decide_edit cf i c input who
           else if d = ''skip'' then decide_skip cf i c who
           else if d = ''end'' then decide_end i c who
           else fail ''unknown decision'') s"
    using assms(1,3) by (simp add: DecideWithEdit_def run_attempt run_PendingToolCall_ok)
  note each = approve_decided [OF assms(1,2) c] edit_decided [OF assms(1,2) c] skip_decided [OF assms(1,2) c assms(6)]
    end_decided [OF assms(1,2) c assms(6)]
  from assms(4,5) show ?thesis
    unfolding start using each by (auto simp: decided_def)
qed

end
