(* ===== verification/Inv_Execute.thy ===== *)
theory Inv_Execute
  imports Inv_Effects
begin

text \<open>
  The execution of an approved call. What the loop relies on of a tool is an interface: it
  leaves the calls, the investigations and the messages alone and causes no driver fault.
  Under it an approved call is always executed, its result stored and told to the model; the
  hub's own tools provide the interface.
\<close>

section \<open>What executing leaves behind\<close>

definition executed_row :: "cfg \<Rightarrow> tool_result \<Rightarrow> string \<Rightarrow> instant \<Rightarrow> call_row \<Rightarrow> call_row" where
  "executed_row cf r tid now c =
     c\<lparr>tc_status := TcExecuted, tc_decided_by := Some ''auto'', tc_task := nullable tid,
       tc_result := Some (JText (result_json cf r)), tc_decided_at := Some now\<rparr>"

text \<open>The status of an investigation, and what a tool makes of it.\<close>

definition status_of :: "string \<Rightarrow> 'z db_scheme \<Rightarrow> inv_status option" where
  "status_of i s = map_option inv_status (find_row (\<lambda>v. inv_id v = i) (invs s))"

definition status_after :: "string \<Rightarrow> inv_status option \<Rightarrow> inv_status option" where
  "status_after tool st = (if tool = ''mark_done'' then Some InvDone else if tool = ''ask_operator'' then Some InvWaiting else st)"

definition told :: "cfg \<Rightarrow> string \<Rightarrow> call_row \<Rightarrow> tool_result \<Rightarrow> msg \<Rightarrow> bool" where
  "told cf i c r m = (m_inv m = i \<and> m_role m = RoleTool \<and> m_call_id m = Some (tc_id c)
     \<and> m_content m = JText (result_json cf r))"

definition exec_effect :: "cfg \<Rightarrow> string \<Rightarrow> call_row \<Rightarrow> tool_result \<Rightarrow> string \<Rightarrow> 'z inv_scheme \<Rightarrow> 'z inv_scheme \<Rightarrow> bool" where
  "exec_effect cf i c r tid s s' =
     (calls s' = update_rows (\<lambda>x. tc_id x = tc_id c) (executed_row cf r tid (clock s)) (calls s) \<and>
      (\<exists>m rest. msgs s' = msgs s @ m # rest \<and> told cf i c r m) \<and>
      status_of i s' = status_after (tc_tool c) (status_of i s))"

lemma exec_after_effect:
  assumes "faults s = []" and "find_row (\<lambda>v. inv_id v = i) (invs s) \<noteq> None"
  obtains s' where "run_state (exec_after cf i c r) s = ((), s')" and "calls s' = calls s"
    and "\<exists>rest. msgs s' = msgs s @ rest" and "status_of i s' = status_after (tc_tool c) (status_of i s)"
proof -
  obtain v where v: "find_row (\<lambda>v. inv_id v = i) (invs s) = Some v" using assms(2) by blast
  have m: "find_row (\<lambda>v. inv_id v = m_inv (note_msg i t)) (invs s) \<noteq> None" for t
    using v by (simp add: note_msg_def text_msg_def)
  let ?r = "run_state (exec_after cf i c r) s"
  consider "tc_tool c = ''mark_done''" | "tc_tool c = ''ask_operator''" | "tc_tool c \<noteq> ''mark_done''" "tc_tool c \<noteq> ''ask_operator''"
    by blast
  then have "calls (snd ?r) = calls s \<and> (\<exists>rest. msgs (snd ?r) = msgs s @ rest)
      \<and> status_of i (snd ?r) = status_after (tc_tool c) (status_of i s)"
  proof cases
    case 1
    then show ?thesis using assms(1) v
      by (simp add: exec_after_def FinishInvestigation_def run_update_inv run_pubStatus status_of_def status_after_def
          find_row_update_same)
  next
    case 2
    then show ?thesis using assms(1) v
      by (simp add: exec_after_def UpdateInvestigationStatus_def run_update_inv run_pubStatus status_of_def status_after_def
          find_row_update_same)
  next
    case 3
    then show ?thesis using assms(1) run_AppendMessage_ok [OF assms(1) m]
      by (simp add: exec_after_def status_of_def status_after_def)
  qed
  moreover have "?r = ((), snd ?r)" by (cases ?r) simp
  ultimately show ?thesis using that [of "snd ?r"] by blast
qed

lemma exec_finish_effect:
  assumes "faults s = []" and "find_row (\<lambda>v. inv_id v = i) (invs s) \<noteq> None"
  obtains s' where "run_state (exec_finish cf i c r tid) s = (Inr True, s')" and "exec_effect cf i c r tid s s'"
proof -
  let ?s1 = "s\<lparr>calls := update_rows (\<lambda>x. tc_id x = tc_id c) (executed_row cf r tid (clock s)) (calls s)\<rparr>"
  let ?body = "result_json cf r"
  have "nullable ''auto'' = Some ''auto''" by (simp add: nullable_def)
  then have u: "run_state (UpdateToolCall (tc_id c) TcExecuted ''auto'' tid (JText ?body)) s = (Inr (), ?s1)"
    using assms(1) by (simp add: UpdateToolCall_def run_update_call nullable_text_def jempty_def executed_row_def [abs_def])
  have m: "find_row (\<lambda>v. inv_id v = m_inv (tool_msg i ?body (tc_id c))) (invs ?s1) \<noteq> None" "faults ?s1 = []"
    using assms by (simp_all add: tool_msg_def)
  let ?m = "(tool_msg i ?body (tc_id c))\<lparr>m_id := last_msg_id s + 1, m_seq := next_seq i (msgs s), m_at := clock s, m_archived := False\<rparr>"
  have a: "run_state (AppendMessage (tool_msg i ?body (tc_id c))) ?s1 = (Inr (last_msg_id s + 1),
      ?s1\<lparr>msgs := msgs s @ [?m], last_msg_id := last_msg_id s + 1\<rparr>)"
    using run_AppendMessage_ok [OF m(2,1)] by (simp add: tool_msg_def)
  let ?s2 = "\<lambda>b. ?s1\<lparr>msgs := msgs s @ [?m], last_msg_id := last_msg_id s + 1, bus := b\<rparr>"
  obtain b where b: "run_state (exec_finish cf i c r tid) s = run_state (do { _ \<leftarrow> exec_after cf i c r; return (Inr True) }) (?s2 b)"
    by (simp add: exec_finish_def run_attempt u a run_publish)
  have ok: "faults (?s2 b) = []" "find_row (\<lambda>v. inv_id v = i) (invs (?s2 b)) \<noteq> None" using assms by simp_all
  obtain s' where s': "run_state (exec_after cf i c r) (?s2 b) = ((), s')" "calls s' = calls (?s2 b)"
    "\<exists>rest. msgs s' = msgs (?s2 b) @ rest" "status_of i s' = status_after (tc_tool c) (status_of i (?s2 b))"
    by (rule exec_after_effect [OF ok])
  have "told cf i c r ?m" by (simp add: told_def tool_msg_def)
  moreover have "status_of i (?s2 b) = status_of i s" by (simp add: status_of_def)
  ultimately have "exec_effect cf i c r tid s s'"
    using s'(2,3,4) by (auto simp: exec_effect_def)
  with b s'(1) that show ?thesis by simp
qed

section \<open>The interface of the tools\<close>

definition still :: "'z inv_scheme \<Rightarrow> 'z inv_scheme \<Rightarrow> bool" where
  "still s0 s = (faults s = [] \<and> calls s = calls s0 \<and> invs s = invs s0 \<and> msgs s = msgs s0 \<and> clock s = clock s0)"

text \<open>The branch of \<open>executeApproved\<close> that serves a tool at once.\<close>

definition serve_now ::
  "(handler_env \<Rightarrow> string \<Rightarrow> jtext \<Rightarrow> ('z, tool_result) im) \<Rightarrow> cfg \<Rightarrow> handler_env \<Rightarrow> string \<Rightarrow> call_row
   \<Rightarrow> ('z, terr + step_out) im" where
  "serve_now serve cf en i c = do { r \<leftarrow> serve en (tc_tool c) (tc_input c); finish_now cf i c r }"

locale tool_service =
  fixes serve :: "handler_env \<Rightarrow> string \<Rightarrow> jtext \<Rightarrow> ('z, tool_result) im"
  assumes serve_still: "tool \<noteq> ''collect'' \<Longrightarrow> tool \<noteq> ''collect_batch'' \<Longrightarrow> keeps (still s0) (serve en tool args)"
begin

lemma served:
  assumes "faults s = []" and "find_row (\<lambda>v. inv_id v = i) (invs s) \<noteq> None"
    and "tc_tool c \<noteq> ''collect''" and "tc_tool c \<noteq> ''collect_batch''"
  shows "\<exists>r s'. run_state (serve_now serve cf en i c) s = (Inr Again, s') \<and> exec_effect cf i c r [] s s'"
proof -
  obtain r s1 where r: "run_state (serve en (tc_tool c) (tc_input c)) s = (r, s1)" by fastforce
  have "still s s" using assms(1) by (simp add: still_def)
  from keepsD [OF serve_still this, of "tc_tool c" en "tc_input c"] r assms(3,4)
  have s1: "still s s1" by simp
  then have "faults s1 = []" "find_row (\<lambda>v. inv_id v = i) (invs s1) \<noteq> None" using assms(2) by (simp_all add: still_def)
  then obtain s' where s': "run_state (exec_finish cf i c r []) s1 = (Inr True, s')" "exec_effect cf i c r [] s1 s'"
    by (rule exec_finish_effect)
  have "exec_effect cf i c r [] s s'" using s'(2) s1 by (simp add: exec_effect_def still_def status_of_def)
  with r s'(1) show ?thesis by (auto simp: serve_now_def finish_now_def)
qed

end

section \<open>The hub's tools provide it\<close>

lemma still_sql:
  assumes "\<And>s x t. still s0 s \<Longrightarrow> f s = Inr (x, t) \<Longrightarrow> still s0 t"
  shows "keeps (still s0) (sql f)"
proof (rule keepsI)
  fix s assume s: "still s0 s"
  then have "faults s = []" by (simp add: still_def)
  note run = run_sql_no_fault [OF this, of f]
  show "still s0 (snd (run_state (sql f) s))"
  proof (cases "f s")
    case (Inl e)
    with s show ?thesis unfolding run by simp
  next
    case (Inr p)
    obtain x t where "p = (x, t)" by (cases p)
    with Inr assms [OF s] show ?thesis unfolding run by simp
  qed
qed

lemma still_read [keeps_intros]: "keeps (still s0) (sql_read f)"
  unfolding sql_read_def by (rule still_sql) auto

lemma still_lookups [keeps_intros]:
  "keeps (still s0) (GetTask k)" "keeps (still s0) (GetResult k)" "keeps (still s0) (AddFinding x)"
  unfolding GetTask_def GetResult_def AddFinding_def
  by (rule still_sql, auto simp: still_def split: option.splits if_splits)+

lemma still_small [keeps_intros]:
  "keeps (still s0) (ListCollectorManifests i)" "keeps (still s0) ListHosts"
  "keeps (still s0) (draw g)" "keeps (still s0) (IsOnline h)" "keeps (still s0) (publish i ty d)"
  unfolding ListCollectorManifests_def ListHosts_def
  by (rule still_read)+ (simp_all add: keeps_def still_def IsOnline_def publish_def)

lemma still_loops [keeps_intros]:
  "keeps (still s0) (list_hosts_loop cf en sel hs)" "keeps (still s0) (catalog_loop cat hs out)"
  "keeps (still s0) (describe_loop nm hs)" "keeps (still s0) (compare_rows ids)" "keeps (still s0) (check_refs ids)"
proof -
  show "keeps (still s0) (catalog_loop cat hs out)"
    by (induction hs arbitrary: out) (auto intro!: keeps_intros simp: manifests_of_def)
  show "keeps (still s0) (list_hosts_loop cf en sel hs)" "keeps (still s0) (describe_loop nm hs)"
    by (induction hs) (auto intro!: keeps_intros simp: manifests_of_def)
  show "keeps (still s0) (compare_rows ids)" "keeps (still s0) (check_refs ids)"
    by (induction ids) (auto intro!: keeps_intros)
qed

lemma still_Dispatch:
  assumes "tool \<noteq> ''collect''" and "tool \<noteq> ''collect_batch''"
  shows "keeps (still s0) (Dispatch cf en tool args)"
  unfolding Dispatch_def handleListHosts_def handleListCollectors_def handleDescribeCollector_def handleGetFullResult_def
    handleSearchArtifact_def handleCompareAcrossHosts_def handleAddFinding_def Let_def
  using assms by (simp only: if_False simp_thms) (intro keeps_intros)

interpretation tools: tool_service "Dispatch cf" for cf
  by unfold_locales (rule still_Dispatch)


end
