(* ===== verification/Inv_Compact.thy ===== *)
theory Inv_Compact
  imports Inv_Effects
begin

text \<open>
  Compaction: what the model will see of an investigation after its old messages were folded
  into a summary.
\<close>

section \<open>The messages in force\<close>

definition in_force :: "string \<Rightarrow> msg \<Rightarrow> bool" where
  "in_force i m = (m_inv m = i \<and> \<not> m_archived m)"

definition active_msgs :: "string \<Rightarrow> 'z db_scheme \<Rightarrow> msg list" where
  "active_msgs i s = filter (in_force i) (msgs s)"

lemma sorted_active: "seqs_ok s \<Longrightarrow> sorted_wrt (<) (map m_seq (active_msgs i s))"
proof -
  assume "seqs_ok s"
  then have "sorted_wrt (<) (map m_seq (filter (\<lambda>x. m_inv x = i) (msgs s)))"
    by (simp add: seqs_ok_def msg_seqs_def)
  moreover have "active_msgs i s = filter (\<lambda>x. \<not> m_archived x) (filter (\<lambda>x. m_inv x = i) (msgs s))"
    unfolding active_msgs_def filter_filter by (rule filter_cong) (auto simp: in_force_def)
  ultimately show ?thesis by (simp only: sorted_wrt_map sorted_wrt_filter)
qed

lemma run_ListMessages_ok:
  assumes "faults s = []" and "seqs_ok s"
  shows "run_state (ListMessages i False) s = (Inr (active_msgs i s), s)"
proof -
  have "sorted (map m_seq (active_msgs i s))"
    using sorted_active [OF assms(2), of i] strict_sorted_imp_sorted by blast
  then have "sort_key m_seq (active_msgs i s) = active_msgs i s" by (rule sort_key_id_if_sorted)
  moreover have "active_msgs i s = filter (\<lambda>x. m_inv x = i \<and> (False \<or> \<not> m_archived x)) (msgs s)"
    unfolding active_msgs_def by (rule filter_cong) (auto simp: in_force_def)
  ultimately show ?thesis
    using assms(1) by (simp add: ListMessages_def sql_read_def)
qed

section \<open>Folding\<close>

text \<open>
  The effect of the three updates on one message: archived up to the last folded one, the
  first two taken back.
\<close>

definition fold_msg :: "string \<Rightarrow> int \<Rightarrow> int \<Rightarrow> int \<Rightarrow> msg \<Rightarrow> msg" where
  "fold_msg i a b q m =
     (if m_inv m = i \<and> (m_seq m = a \<or> m_seq m = b) then m\<lparr>m_archived := False\<rparr>
      else if m_inv m = i \<and> m_seq m \<le> q then m\<lparr>m_archived := True\<rparr> else m)"

lemma fold_updates:
  "update_rows (\<lambda>m. m_inv m = i \<and> m_seq m = b) (\<lambda>m. m\<lparr>m_archived := False\<rparr>)
     (update_rows (\<lambda>m. m_inv m = i \<and> m_seq m = a) (\<lambda>m. m\<lparr>m_archived := False\<rparr>)
       (update_rows (\<lambda>m. m_inv m = i \<and> m_seq m \<le> q) (\<lambda>m. m\<lparr>m_archived := True\<rparr>) ms)) = map (fold_msg i a b q) ms"
  by (induction ms) (auto simp: fold_msg_def)

lemma in_force_fold:
  "in_force i (fold_msg i a b q m) \<longleftrightarrow> m_inv m = i \<and> (m_seq m = a \<or> m_seq m = b \<or> \<not> m_archived m \<and> m_seq m > q)"
  by (auto simp: in_force_def fold_msg_def)

lemma fold_msg_id: "in_force i m \<Longrightarrow> m_seq m = a \<or> m_seq m = b \<or> m_seq m > q \<Longrightarrow> fold_msg i a b q m = m"
  by (auto simp: in_force_def fold_msg_def)

lemma folded_split:
  assumes "sorted_wrt (<) (map m_seq (x # y # mid @ recent))" and "mid \<noteq> []"
  shows "filter (\<lambda>m. m_seq m = m_seq x \<or> m_seq m = m_seq y \<or> m_seq m > m_seq (last mid)) (x # y # mid @ recent)
    = x # y # recent"
proof -
  have "m_seq m \<le> m_seq (last mid)" "m_seq x < m_seq m" "m_seq y < m_seq m" if "m \<in> set mid" for m
  proof -
    obtain ms z where mid: "mid = ms @ [z]" using assms(2) by (cases mid rule: rev_cases) auto
    with assms(1) that show "m_seq m \<le> m_seq (last mid)" "m_seq x < m_seq m" "m_seq y < m_seq m"
      by (auto simp: sorted_wrt_append)
  qed
  then have "filter (\<lambda>m. m_seq m = m_seq x \<or> m_seq m = m_seq y \<or> m_seq m > m_seq (last mid)) mid = []"
    by (fastforce simp: filter_empty_conv)
  moreover have "\<forall>m \<in> set recent. m_seq (last mid) < m_seq m"
    using assms by (auto simp: sorted_wrt_append)
  then have "filter (\<lambda>m. m_seq m = m_seq x \<or> m_seq m = m_seq y \<or> m_seq m > m_seq (last mid)) recent = recent"
    by (simp add: filter_id_conv)
  ultimately show ?thesis by simp
qed

lemma active_folded:
  assumes "seqs_ok s" and ms: "active_msgs i s = x # y # mid @ recent" and "mid \<noteq> []"
  shows "filter (in_force i) (map (fold_msg i (m_seq x) (m_seq y) (m_seq (last mid))) (msgs s)) = x # y # recent"
proof -
  let ?f = "fold_msg i (m_seq x) (m_seq y) (m_seq (last mid))"
  let ?k = "\<lambda>m. m_seq m = m_seq x \<or> m_seq m = m_seq y \<or> m_seq m > m_seq (last mid)"
  have xy: "x \<in> set (msgs s)" "y \<in> set (msgs s)" "in_force i x" "in_force i y"
    using arg_cong [OF ms, of set] by (auto simp: active_msgs_def)
  have uniq: "m = m'" if "m \<in> set (msgs s)" "m' \<in> set (msgs s)" "m_inv m = i" "m_inv m' = i" "m_seq m = m_seq m'" for m m'
  proof -
    have "distinct (map m_seq (filter (\<lambda>x. m_inv x = i) (msgs s)))"
      using assms(1) by (simp add: seqs_ok_def msg_seqs_def strict_sorted_iff)
    with that show ?thesis by (auto simp: distinct_map inj_on_def)
  qed
  have "(in_force i (?f m)) = (in_force i m \<and> ?k m)" if "m \<in> set (msgs s)" for m
    using uniq [OF that xy(1)] uniq [OF that xy(2)] xy(3,4)
    unfolding in_force_fold by (auto simp: in_force_def)
  then have "filter (in_force i) (map ?f (msgs s)) = map ?f (filter ?k (active_msgs i s))"
    unfolding active_msgs_def filter_map filter_filter o_def by (auto intro!: arg_cong [of _ _ "map ?f"] filter_cong)
  also have "\<dots> = filter ?k (active_msgs i s)"
    by (rule map_idI) (auto simp: active_msgs_def intro: fold_msg_id)
  also have "\<dots> = x # y # recent"
    unfolding ms by (rule folded_split) (use sorted_active [OF assms(1), of i] ms assms(3) in simp_all)
  finally show ?thesis .
qed

section \<open>Compaction as a whole\<close>

lemma drop_take_append: "n \<le> k \<Longrightarrow> k \<le> length xs \<Longrightarrow> drop n (take k xs) @ drop k xs = drop n xs"
  using drop_append [of n "take k xs" "drop k xs"] by simp

lemma run_write_ok: "faults s = [] \<Longrightarrow> run_state (sql_write f) s = (Inr (), f s)"
  by (simp add: sql_write_def)

lemma run_unarchive:
  "faults s = [] \<Longrightarrow> run_state (unarchiveSeqs i [a, b]) s = (Inr (), s\<lparr>msgs :=
     update_rows (\<lambda>m. m_inv m = i \<and> m_seq m = b) (\<lambda>m. m\<lparr>m_archived := False\<rparr>)
       (update_rows (\<lambda>m. m_inv m = i \<and> m_seq m = a) (\<lambda>m. m\<lparr>m_archived := False\<rparr>) (msgs s))\<rparr>)"
  by (simp add: unarchiveSeqs_def run_write_ok)

definition summary_msg :: "string \<Rightarrow> string \<Rightarrow> 'z db_scheme \<Rightarrow> msg" where
  "summary_msg i t s = (text_msg i RoleSystemSummary (''COMPACT_STATE:'' @ [CHR 0x0A] @ t))
     \<lparr>m_id := last_msg_id s + 1, m_seq := next_seq i (msgs s), m_at := clock s\<rparr>"

lemma run_compact_store:
  assumes "faults s = []" and "find_row (\<lambda>v. inv_id v = i) (invs s) \<noteq> None"
    and ms: "ms = x # y # mid @ recent" "length recent = compactionKeepRecent" "mid \<noteq> []"
  shows "run_state (compact_store i ms t) s = (Inr (), s\<lparr>msgs :=
      map (fold_msg i (m_seq x) (m_seq y) (m_seq (last mid))) (msgs s @ [summary_msg i t s]), last_msg_id := last_msg_id s + 1\<rparr>)"
proof -
  define all where "all = msgs s @ [summary_msg i t s]"
  let ?s1 = "s\<lparr>msgs := all, last_msg_id := last_msg_id s + 1\<rparr>"
  have m: "middle_of ms = mid" "ms ! 0 = x" "ms ! 1 = y" using ms by (simp_all add: middle_of_def)
  have f: "find_row (\<lambda>v. inv_id v = m_inv (text_msg i RoleSystemSummary (''COMPACT_STATE:'' @ [CHR 0x0A] @ t))) (invs s) \<noteq> None"
    using assms(2) by (simp add: text_msg_def)
  have a: "run_state (AppendMessage (text_msg i RoleSystemSummary (''COMPACT_STATE:'' @ [CHR 0x0A] @ t))) s = (Inr (last_msg_id s + 1), ?s1)"
    using run_AppendMessage_ok [OF assms(1) f] by (simp add: all_def summary_msg_def text_msg_def)
  show ?thesis
    unfolding all_def [symmetric] compact_store_def run_attempt a m MarkMessagesArchived_def
    using assms(1) by (simp add: run_write_ok run_unarchive fold_updates)
qed

text \<open>
  C33: Compaction loses nothing the model needs. When the model answers with a summary,
  compaction of an investigation with twelve messages or more keeps in force exactly the
  system prompt, the operator's goal, the last eight messages and, after them, the summary;
  the rest stays stored, archived.
\<close>
theorem compaction_keeps_bootstrap_and_recent:
  assumes "faults s = []" and "seqs_ok s" and "find_row (\<lambda>v. inv_id v = i) (invs s) \<noteq> None"
    and "length (active_msgs i s) \<ge> 12" and "script s = Some reply # rest" and "trim_space (lr_content reply) \<noteq> []"
    and "m_role (active_msgs i s ! 0) = RoleSystem" and "m_role (active_msgs i s ! 1) = RoleUser"
  shows "\<exists>s' m. run_state (compact cf i) s = (Inr (), s') \<and> m_role m = RoleSystemSummary
     \<and> m_content m = JInvalid (''COMPACT_STATE:'' @ [CHR 0x0A] @ lr_content reply)
     \<and> active_msgs i s' = take 2 (active_msgs i s) @ drop (length (active_msgs i s) - 8) (active_msgs i s) @ [m]
     \<and> map m_content (msgs s') = map m_content (msgs s @ [m])"
proof -
  let ?ms = "active_msgs i s"
  let ?mid = "middle_of ?ms" and ?recent = "drop (length ?ms - compactionKeepRecent) ?ms"
  obtain x y zs where xy: "?ms = x # y # zs" using assms(4) by (cases ?ms; cases "tl ?ms") auto
  have split: "?ms = x # y # ?mid @ ?recent"
  proof -
    have "drop 2 (take (length ?ms - compactionKeepRecent) ?ms) @ drop (length ?ms - compactionKeepRecent) ?ms = drop 2 ?ms"
      using assms(4) by (intro drop_take_append) (simp_all add: compactionKeepRecent_def)
    then show ?thesis by (simp add: middle_of_def xy)
  qed
  have recent: "length ?recent = compactionKeepRecent" and mid: "?mid \<noteq> []"
    using assms(4) by (simp_all add: middle_of_def compactionKeepRecent_def)
  let ?tok = "lr_prompt_tokens reply + lr_completion_tokens reply"
  let ?q = "\<lparr>lq_messages = compact_prompt cf compactionPrompt (take 2 ?ms) ?mid, lq_tools = []\<rparr>"
  let ?s1 = "s\<lparr>script := rest, asked := asked s @ [?q],
     invs := update_rows (\<lambda>v. inv_id v = i) (\<lambda>v. v\<lparr>inv_compaction_tokens := inv_compaction_tokens v + ?tok, inv_updated_at := clock s\<rparr>) (invs s)\<rparr>"
  let ?m = "summary_msg i (lr_content reply) ?s1"
  let ?f = "fold_msg i (m_seq x) (m_seq y) (m_seq (last ?mid))"
  have row: "find_row (\<lambda>v. inv_id v = i) (invs ?s1) \<noteq> None" "faults ?s1 = []"
    using assms(1,3) by (auto simp: find_row_update_same)
  have run: "run_state (compact cf i) s = run_state (compact_store i ?ms (lr_content reply)) ?s1"
    using assms(1,4-8) mid
    by (simp add: compact_def run_attempt run_ListMessages_ok [OF assms(1,2)] compactionKeepRecent_def chat_def
        AccumulateCompactionTokens_def run_update_inv)
  also have "\<dots> = (Inr (), ?s1\<lparr>msgs := map ?f (msgs ?s1 @ [?m]), last_msg_id := last_msg_id ?s1 + 1\<rparr>)"
    by (rule run_compact_store [OF row(2,1) split recent mid])
  finally obtain s' where s': "run_state (compact cf i) s = (Inr (), s')" "msgs s' = map ?f (msgs s @ [?m])" by simp
  have new: "m_seq r < m_seq ?m" if "r \<in> set (msgs s)" "m_inv r = i" for r
    using that next_seq_gt [of "m_seq r" i "msgs s"] by (simp add: summary_msg_def msg_seqs_def)
  have old: "x \<in> set (msgs s)" "y \<in> set (msgs s)" "last ?mid \<in> set (msgs s)" "m_inv x = i" "m_inv y = i" "m_inv (last ?mid) = i"
    using arg_cong [OF split, of set] last_in_set [OF mid] by (auto simp: active_msgs_def in_force_def)
  have "?f ?m = ?m" "in_force i ?m"
    using new [OF old(1,4)] new [OF old(2,5)] new [OF old(3,6)]
    by (auto simp: fold_msg_def in_force_def summary_msg_def text_msg_def)
  then have "active_msgs i s' = x # y # ?recent @ [?m]"
    using active_folded [OF assms(2) split mid] s'(2) by (simp add: active_msgs_def)
  moreover have "map m_content (map ?f (msgs s)) = map m_content (msgs s)" by (simp add: fold_msg_def)
  ultimately show ?thesis
    using s' \<open>?f ?m = ?m\<close> xy
    by (intro exI [of _ s'] exI [of _ ?m]) (simp add: summary_msg_def text_msg_def compactionKeepRecent_def)
qed

end
