(* ===== verification/Inv_Ask.thy ===== *)
theory Inv_Ask
  imports Inv_Compact Inv_Turns
begin

text \<open>
  The request to the model: when it is made, which messages it carries and which tools it
  offers.
\<close>

lemma wires_map: "wires cf ms = map (to_wire cf) ms"
proof -
  have "foldl (appendForLLM cf) out ms = out @ map (to_wire cf) ms" for out
    by (induction ms arbitrary: out) (simp_all add: appendForLLM_def)
  then show ?thesis by (simp add: wires_def)
qed

text \<open>What \<open>ListMessages\<close> reads, and the call that the restriction looks at.\<close>

definition listed_msgs :: "string \<Rightarrow> msg list \<Rightarrow> msg list" where
  "listed_msgs i ms = sort_key m_seq (filter (\<lambda>x. m_inv x = i \<and> (False \<or> \<not> m_archived x)) ms)"

definition restricted_by :: "string \<Rightarrow> call_row list \<Rightarrow> bool" where
  "restricted_by i cs =
     (case find_last (\<lambda>c. tc_status c = TcExecuted) (sort_key tc_seq (filter (\<lambda>c. tc_inv c = i) cs)) of
        None \<Rightarrow> False | Some c \<Rightarrow> restricts c)"

definition offered_tools :: "bool \<Rightarrow> string list" where
  "offered_tools restricted = (if restricted then [''add_finding'', ''ask_operator'', ''mark_done''] else tool_names)"

definition request_of :: "cfg \<Rightarrow> string \<Rightarrow> 'z db_scheme \<Rightarrow> llm_request" where
  "request_of cf i s = \<lparr>lq_messages = map (to_wire cf) (listed_msgs i (msgs s)),
     lq_tools = offered_tools (restricted_by i (calls s))\<rparr>"

lemma run_ListMessages_all:
  "faults s = [] \<Longrightarrow> run_state (ListMessages i False) s = (Inr (listed_msgs i (msgs s)), s)"
  by (simp add: ListMessages_def sql_read_def listed_msgs_def)

lemma run_model_request:
  assumes "faults s = []" and "ms = listed_msgs (inv_id v) (msgs s)"
  shows "run_state (model_request cf v ms) s = (Inr (AwaitModel v (request_of cf (inv_id v) s)), s)"
proof -
  have "run_state (postFindingRestricted (inv_id v)) s = (restricted_by (inv_id v) (calls s), s)"
    using assms(1) by (simp add: postFindingRestricted_def ListToolCalls_def calls_of_def sql_read_def restricted_by_def)
  moreover have "filterTools tool_names postFindingAllowedTools = [''add_finding'', ''ask_operator'', ''mark_done'']"
    by (simp add: filterTools_def tool_names_def postFindingAllowedTools_def)
  ultimately show ?thesis
    using assms(2) by (simp add: model_request_def request_of_def offered_tools_def wires_map)
qed

text \<open>
  Compaction with the database answering: it succeeds, or it leaves the messages alone.
\<close>

lemma compact_store_succeeds:
  assumes "faults s = []" and "find_row (\<lambda>v. inv_id v = i) (invs s) \<noteq> None"
  shows "\<exists>s'. run_state (compact_store i ms t) s = (Inr (), s') \<and> faults s' = []"
proof -
  let ?m = "text_msg i RoleSystemSummary (''COMPACT_STATE:'' @ [CHR 0x0A] @ t)"
  have "find_row (\<lambda>v. inv_id v = m_inv ?m) (invs s) \<noteq> None" using assms(2) by (simp add: text_msg_def)
  from run_AppendMessage_ok [OF assms(1) this] obtain k s1 where
    "run_state (AppendMessage ?m) s = (Inr k, s1)" "faults s1 = []" using assms(1) by simp
  then show ?thesis
    by (simp add: compact_store_def run_attempt MarkMessagesArchived_def run_write_ok run_unarchive)
qed

lemma compact_outcome:
  assumes "faults s = []" and "find_row (\<lambda>v. inv_id v = i) (invs s) \<noteq> None"
  obtains r s' where "run_state (compact cf i) s = (r, s')" and "faults s' = []" and "r \<noteq> Inr () \<longrightarrow> msgs s' = msgs s"
proof -
  let ?ms = "listed_msgs i (msgs s)"
  have acc: "run_state (AccumulateCompactionTokens i n) t = (Inr (), t\<lparr>invs := update_rows (\<lambda>v. inv_id v = i)
      (\<lambda>v. v\<lparr>inv_compaction_tokens := inv_compaction_tokens v + n, inv_updated_at := clock t\<rparr>) (invs t)\<rparr>)"
    if "faults t = []" for n and t :: "'a inv_scheme"
    using that by (simp add: AccumulateCompactionTokens_def run_update_inv)
  have store: "\<exists>r s'. run_state (compact_store i ?ms t) (s\<lparr>script := z, asked := q, invs := update_rows (\<lambda>v. inv_id v = i)
      (\<lambda>v. v\<lparr>inv_compaction_tokens := inv_compaction_tokens v + n, inv_updated_at := clock s\<rparr>) (invs s)\<rparr>) = (r, s') \<and> faults s' = []
      \<and> (r \<noteq> Inr () \<longrightarrow> msgs s' = msgs s)" (is "\<exists>r s'. run_state _ ?s = _ \<and> _") for t z q n
  proof -
    have "faults ?s = []" "find_row (\<lambda>v. inv_id v = i) (invs ?s) \<noteq> None" using assms by (auto simp: find_row_update_same)
    from compact_store_succeeds [OF this, of ?ms t] show ?thesis by auto
  qed
  have "\<exists>r s'. run_state (compact cf i) s = (r, s') \<and> faults s' = [] \<and> (r \<noteq> Inr () \<longrightarrow> msgs s' = msgs s)"
  proof (cases "script s")
    case Nil
    then show ?thesis using assms(1)
      by (auto simp: compact_def run_attempt run_ListMessages_all chat_def fail_def Let_def)
  next
    case (Cons x xs)
    show ?thesis
    proof (cases x)
      case None
      then show ?thesis using assms(1) Cons
        by (auto simp: compact_def run_attempt run_ListMessages_all chat_def fail_def Let_def)
    next
      case (Some y)
      then show ?thesis using assms(1) Cons store
        by (auto simp: compact_def run_attempt run_ListMessages_all chat_def fail_def Let_def acc)
    qed
  qed
  with that show ?thesis by blast
qed

lemma ask_model_request:
  assumes "faults s = []" and "find_row (\<lambda>w. inv_id w = inv_id v) (invs s) \<noteq> None"
  shows "\<exists>s'. run_state (ask_model cf v) s = (Inr (AwaitModel v (request_of cf (inv_id v) s')), s')"
proof -
  obtain r s1 where c: "run_state (compact cf (inv_id v)) s = (r, s1)" "faults s1 = []" "r \<noteq> Inr () \<longrightarrow> msgs s1 = msgs s"
    by (rule compact_outcome [OF assms, where cf = cf])
  let ?ms = "listed_msgs (inv_id v) (msgs s)"
  have plain: ?thesis if "run_state (ask_model cf v) s = run_state (model_request cf v ?ms) s"
    using run_model_request [OF assms(1) refl, of cf v] that by auto
  show ?thesis
  proof (cases "shouldCompact cf (wires cf ?ms) \<and> \<not> fst (run_state (inCompactCooldown (inv_id v)) s)")
    case False
    then show ?thesis
      by (intro plain) (auto simp: ask_model_def run_attempt run_ListMessages_all [OF assms(1)] inCompactCooldown_def)
  next
    case True
    then have ask: "run_state (ask_model cf v) s = run_state (case r of
            Inl _ \<Rightarrow> do {
              _ \<leftarrow> markCompactCooldown (inv_id v) compactCooldownNs;
              model_request cf v ?ms
            }
          | Inr _ \<Rightarrow> attempt (ListMessages (inv_id v) False) (model_request cf v)) s1"
      by (auto simp: ask_model_def run_attempt run_ListMessages_all [OF assms(1)] inCompactCooldown_def c(1))
    show ?thesis
    proof (cases r)
      case (Inr u)
      with ask run_model_request [OF c(2) refl, of cf v] show ?thesis
        by (auto simp: run_attempt run_ListMessages_all [OF c(2)])
    next
      case (Inl e)
      with c(3) have "msgs s1 = msgs s" by simp
      with run_model_request [of "s1\<lparr>cooldown := x\<rparr>" ?ms v cf for x] c(2) ask Inl show ?thesis
        by (auto simp: markCompactCooldown_def)
    qed
  qed
qed

text \<open>
  C32: The model is asked only within the budget, with no call undecided or waiting to be
  executed, and sees exactly the messages in force, in order; after a load-bearing finding
  it is offered no probe, only to record findings, ask the operator or finish.
\<close>
theorem model_request_contents:
  assumes "faults s = []" and "run_state (step_begin cf i) s = (Inr (AwaitModel v q), s')"
  shows "v \<in> set (invs s) \<and> inv_id v = i \<and> \<not> stopped v \<and> \<not> over_budget cf v
    \<and> (\<forall>c \<in> set (calls s). tc_inv c = i \<longrightarrow> tc_status c \<notin> {TcPending, TcApproved, TcEdited})
    \<and> lq_messages q = map (to_wire cf) (listed_msgs i (msgs s'))
    \<and> lq_tools q = (if restricted_by i (calls s) then [''add_finding'', ''ask_operator'', ''mark_done''] else tool_names)"
proof -
  from step_begin_asks [OF assms(2)] have a: "calls s' = calls s" "inv_id v = i" "v \<in> set (invs s)"
    "pending_row i (calls s) = None" "approved_row i (calls s) = None" by blast+
  obtain w where w: "find_row (\<lambda>v. inv_id v = i) (invs s) = Some w"
    using a(2,3) by (cases "find_row (\<lambda>v. inv_id v = i) (invs s)") (auto simp: find_row_None_iff)
  from assms a w have ok: "\<not> stopped w" "\<not> over_budget cf w"
    and run: "run_state (ask_model cf w) s = (Inr (AwaitModel v q), s')"
    by (auto simp: step_begin_def run_attempt run_GetInvestigation_ok over_budget_def run_PendingToolCall_ok
        run_lastApproved_ok split: if_splits dest: pause_result)
  have iw: "inv_id w = i" using find_row_SomeD [OF w] by simp
  have "find_row (\<lambda>u. inv_id u = inv_id w) (invs s) \<noteq> None" using w iw by simp
  from ask_model_request [OF assms(1) this, of cf] run have "v = w" "q = request_of cf (inv_id w) s'" by auto
  with a ok iw show ?thesis
    by (auto simp: request_of_def offered_tools_def pending_row_None approved_row_None)
qed

end
