(* ===== verification/Inv_Inputs.thy ===== *)
theory Inv_Inputs
  imports Inv_Gates
begin

text \<open>
  What comes from operators and from the model as text: the hypotheses an operator injects,
  the host lists, the artifact an agent stored and the model asks to search.
\<close>

section \<open>Operator text\<close>

definition labelled :: "string \<Rightarrow> bool" where
  "labelled line = (\<exists>r \<in> {''system:'', ''assistant:'', ''tool:''}. has_prefix (to_lower (trim_space line)) r)"

lemma dropWhile_last: "\<not> P c \<Longrightarrow> \<exists>u. dropWhile P (xs @ [c]) = u @ [c]"
  by (induction xs) auto

lemma trim_space_Cons: "\<not> is_space c \<Longrightarrow> \<exists>u. trim_space (c # t) = c # u"
  using dropWhile_last [of is_space c "rev t"] by (auto simp: trim_space_def trim_left_def) (metis rev_rev_ident)

lemma stripped_not_labelled: "\<not> labelled (CHR ''['' # t)"
proof -
  have "\<not> is_space (CHR ''['')" by (simp add: is_space_def)
  then obtain u where "trim_space (CHR ''['' # t) = CHR ''['' # u" using trim_space_Cons by blast
  then show ?thesis by (simp add: labelled_def to_lower_def has_prefix_def lower_char_def is_upper_def)
qed

text \<open>
  Text an operator injects cannot pose as another role: whatever it is, no line of what
  \<open>capLines\<close> makes of it begins, up to space and case, with \<open>system:\<close>, \<open>assistant:\<close> or \<open>tool:\<close>.
\<close>
theorem operator_text_has_no_role_label:
  "filter (\<lambda>line. has_prefix (to_lower (trim_space line)) ''system:'' \<or> has_prefix (to_lower (trim_space line)) ''assistant:''
     \<or> has_prefix (to_lower (trim_space line)) ''tool:'') (split_on (CHR 0x0A) (capLines s n)) = []"
proof -
  let ?mark = "\<lambda>line. if labelled line then ''[stripped role-label] '' @ line else line"
  obtain t where t: "capLines s n = join [CHR 0x0A] (map ?mark (split_on (CHR 0x0A) t))"
    by (auto simp: capLines_def Let_def labelled_def)
  have "split_on (CHR 0x0A) (capLines s n) = map ?mark (split_on (CHR 0x0A) t)"
    unfolding t by (rule split_on_join) (auto dest: split_on_no_sep)
  then have "\<forall>line \<in> set (split_on (CHR 0x0A) (capLines s n)). \<not> labelled line"
    by (auto simp: stripped_not_labelled)
  then show ?thesis by (simp add: labelled_def filter_empty_conv)
qed

section \<open>Host lists\<close>

text \<open>The first occurrences of a list's elements, in order.\<close>

fun firsts :: "'a list \<Rightarrow> 'a list" where
  "firsts [] = []"
| "firsts (x # xs) = x # filter (\<lambda>y. y \<noteq> x) (firsts xs)"

lemma set_firsts [simp]: "set (firsts xs) = set xs"
  by (induction xs) auto

lemma distinct_firsts [simp]: "distinct (firsts xs)"
  by (induction xs) auto

lemma dedupe_loop_firsts:
  "dedupe_loop xs out = out @ filter (\<lambda>y. y \<notin> set out) (firsts (filter (\<lambda>t. t \<noteq> []) (map trim_space xs)))"
proof (induction xs arbitrary: out)
  case (Cons s ss)
  let ?t = "trim_space s"
  show ?case
  proof (cases "?t = [] \<or> ?t \<in> set out")
    case True
    then show ?thesis using Cons by (auto simp: Let_def filter_filter intro: filter_cong)
  next
    case False
    then show ?thesis using Cons [of "out @ [?t]"] by (simp add: Let_def filter_filter conj_commute)
  qed
qed simp

text \<open>
  The hosts of an investigation are the trimmed, nonempty ones the operator gave, each
  once and in the order of its first occurrence.
\<close>
theorem dedupeNonEmpty_reference:
  "dedupeNonEmpty xs = firsts (filter (\<lambda>t. t \<noteq> []) (map trim_space xs))
   \<and> distinct (dedupeNonEmpty xs) \<and> set (dedupeNonEmpty xs) = trim_space ` set xs - {[]}"
  by (auto simp: dedupeNonEmpty_def dedupe_loop_firsts)

section \<open>The artifact that is searched\<close>

text \<open>A path inside a directory: its elements are the directory's and more, none of them \<open>..\<close>.\<close>

definition inside :: "string \<Rightarrow> string \<Rightarrow> bool" where
  "inside dir p = (\<exists>es. es \<noteq> [] \<and> ''..'' \<notin> set es \<and> path_elems p = (fst (path_elems dir), snd (path_elems dir) @ es))"

definition proper_dir :: "string \<Rightarrow> bool" where
  "proper_dir dir = (snd (path_elems dir) \<noteq> [] \<and> last (snd (path_elems dir)) \<noteq> ''..'')"

lemma artifact_path_inside:
  assumes "artifact_path dir nm = Some p" and "proper_dir dir"
  shows "inside dir p"
proof -
  let ?q = "path_clean (path_join dir nm)"
  have p: "p = ?q" "has_prefix ?q (path_clean dir @ ''/'')"
    using assms(1) by (auto simp: artifact_path_def Let_def split: if_splits)
  from assms(2) have "snd (path_elems dir) \<noteq> []" "last (snd (path_elems dir)) \<noteq> ''..''" by (simp_all add: proper_dir_def)
  from path_inside [OF p(2) this] obtain es where "es \<noteq> []" "''..'' \<notin> set es"
    "path_elems (path_join dir nm) = (fst (path_elems dir), snd (path_elems dir) @ es)" by blast
  then show ?thesis unfolding p(1) inside_def by (auto simp: path_elems_clean)
qed

text \<open>
  C34: A search reads nothing outside the artifacts of the task it names: whatever artifact
  name the model gives, two file systems that agree on the files inside the stored artifact
  directories give the same result.
\<close>
theorem search_stays_in_artifact_dir:
  assumes "\<forall>r \<in> set (results s). rs_artifact_dir r \<noteq> [] \<longrightarrow> proper_dir (rs_artifact_dir r)"
    and "\<forall>r \<in> set (results s). \<forall>p. inside (rs_artifact_dir r) p \<longrightarrow> f p = g p"
  shows "run_state (handleSearchArtifact (cf\<lparr>c_read_file := f\<rparr>) args) s
       = run_state (handleSearchArtifact (cf\<lparr>c_read_file := g\<rparr>) args) s"
proof -
  have body: "search_body (cf\<lparr>c_read_file := f\<rparr>) a n m b = search_body (cf\<lparr>c_read_file := g\<rparr>) a n m b" for a n m b
    by (simp add: search_body_def Let_def cong: option.case_cong)
  have found: "res \<in> set (results s)" if "run_state (GetResult k) s = (Inr res, s')" for k res s'
    using that by (auto simp: GetResult_def run_sql simp del: run_sql_no_fault faults_Nil
        split: if_splits option.splits dest: find_row_SomeD)
  have agree: "f p = g p" if "run_state (GetResult k) s = (Inr res, s')" "rs_artifact_dir res \<noteq> []"
    "artifact_path (rs_artifact_dir res) nm = Some p" for k res s' nm p
    using assms that found [OF that(1)] artifact_path_inside by blast
  show ?thesis
    by (auto simp: handleSearchArtifact_def Let_def body split: prod.splits sum.splits option.splits;
        drule (2) agree; simp)
qed

end
