(* ===== verification/Inv_Examples.thy ===== *)
theory Inv_Examples
  imports Inv_Rest Inv_Execute Inv_Ask Inv_Inputs Inv_Demo
begin

text \<open>
  The theorems on single operations of the loop applied at concrete states: an investigation
  just started, one whose model has proposed a collection, and what becomes of them.
\<close>

definition demo_started :: inv where
  "demo_started = fst (after [] (take 1 ask_trace))"

definition demo_asked :: inv where
  "demo_asked = fst (after [demo_reply ''c1'' ''collect'' demo_collect] ask_trace)"

lemma demo_started_facts:
  "faults demo_started = []"
  "map_option (\<lambda>v. (inv_status v, inv_tool_calls v, inv_extra_steps v)) (find_row (\<lambda>v. inv_id v = ''inv_0'') (invs demo_started))
     = Some (InvActive, 0, 0)"
  by code_simp+

lemma step_branches_witness:
  "\<exists>s'. run_state (step_begin (demo_cfg\<lparr>c_max_steps := 0\<rparr>) ''inv_0'') demo_started = (Inr Halt, s')
     \<and> paused_by ''inv_0'' demo_started s'"
proof -
  obtain v where v: "find_row (\<lambda>v. inv_id v = ''inv_0'') (invs demo_started) = Some v"
    "inv_status v = InvActive" "inv_tool_calls v = 0" "inv_extra_steps v = 0"
    using demo_started_facts(2) by auto
  have "\<not> stopped v \<and> over_budget (demo_cfg\<lparr>c_max_steps := 0\<rparr>) v"
    using v by (simp add: stopped_def over_budget_def steps_cap_def)
  with step_branches [OF demo_started_facts(1) v(1), of "demo_cfg\<lparr>c_max_steps := 0\<rparr>"] show ?thesis by blast
qed

lemma demo_asked_facts:
  "faults demo_asked = []"
  "map (\<lambda>c. (tc_id c, tc_inv c, tc_status c)) (calls demo_asked) = [(''c1'', ''inv_0'', TcPending)]"
  "find_row (\<lambda>v. inv_id v = ''inv_0'') (invs demo_asked) \<noteq> None"
  by code_simp+

lemma decision_settles_pending_witness:
  "\<exists>s' c. run_state (DecideWithEdit demo_cfg ''inv_0'' ''skip'' jempty ''op'') demo_asked = (Inr (), s')
     \<and> calls s' = [c] \<and> tc_id c = ''c1'' \<and> tc_status c = TcSkipped"
proof -
  obtain c where c: "calls demo_asked = [c]" "tc_id c = ''c1''" "tc_inv c = ''inv_0''" "tc_status c = TcPending"
    using demo_asked_facts(2) by auto
  have p: "pending_row ''inv_0'' (calls demo_asked) = Some c"
    using c by (simp add: pending_row_def)
  have d: "distinct (map tc_id (calls demo_asked))" using c by simp
  from decision_settles_pending [OF demo_asked_facts(1) d p, of "''skip''" jempty demo_cfg "''op''"] demo_asked_facts(3)
  obtain s' where s': "run_state (DecideWithEdit demo_cfg ''inv_0'' ''skip'' jempty ''op'') demo_asked = (Inr (), s')"
    "calls s' = update_rows (\<lambda>x. tc_id x = tc_id c) (decided_row demo_cfg ''skip'' jempty ''op'' (clock demo_asked)) (calls demo_asked)"
    by auto
  from c s'(2) have "calls s' = [decided_row demo_cfg ''skip'' jempty ''op'' (clock demo_asked) c]"
    by (simp add: update_rows_def)
  with s'(1) c(2) show ?thesis by (simp add: decided_row_def)
qed

section \<open>Runs\<close>

abbreviation demo_asks :: "llm_reply option list" where
  "demo_asks \<equiv> [demo_reply ''c1'' ''collect'' demo_collect]"

lemma demo_run: "hub_run demo_world (demo_hub rs) ls (after rs ls)"
  by (simp add: after_def hub_run_foldl)

lemma demo_hub_ok: "db_ok (demo_hub rs)" "running (demo_hub rs) = []" "distinct (map tc_id (calls (demo_hub rs)))"
  by (simp_all add: demo_hub_def demo_api_simps inv.defs db_ok_parts msg_seqs_def)


lemma approve_statuses:
  "life_of (calls (fst (after demo_asks ask_trace))) = [(''c1'', TcPending)]"
  "life_of (calls (fst (after demo_asks approve_trace))) = [(''c1'', TcApproved)]"
  by code_simp+

lemma hub_refines_call_life_witness:
  "life_step [(''c1'', TcPending)] [(''c1'', TcApproved)]"
proof -
  obtain s ts where a: "after demo_asks ask_trace = (s, ts)" by fastforce
  have run: "hub_run demo_world (demo_hub demo_asks) ask_trace (s, ts)" using demo_run [of demo_asks ask_trace] a by simp
  let ?l = "Act (HDecide ''inv_0'' ''approve'' jempty ''op'')"
  have "after demo_asks approve_trace = hub_step demo_world ?l (s, ts)"
    using a by (simp add: after_def approve_trace_def)
  with hub_refines_call_life [OF run demo_hub_ok(2,3), of ?l] approve_statuses a show ?thesis by simp
qed

lemma started_turn: "snd (after demo_asks (take 2 ask_trace)) = [Turn ''inv_0'']"
  by code_simp


section \<open>Steps\<close>

definition list_asked :: inv where
  "list_asked = fst (after [demo_reply ''c1'' ''list_hosts'' (JObj [])] (take 4 ask_trace))"

lemma list_asked_facts:
  "faults list_asked = []"
  "map (\<lambda>c. (tc_id c, tc_inv c, tc_tool c, tc_status c)) (calls list_asked) = [(''c1'', ''inv_0'', ''list_hosts'', TcApproved)]"
  "map_option (\<lambda>v. (inv_status v, inv_tool_calls v, inv_extra_steps v, tokens_used v, inv_extra_tokens v))
     (find_row (\<lambda>v. inv_id v = ''inv_0'') (invs list_asked)) = Some (InvActive, 1, 0, 110, 0)"
  by code_simp+


lemma started_asks:
  "map_option (\<lambda>x. case x of AwaitModel v q \<Rightarrow> length (lq_messages q) | _ \<Rightarrow> 0)
     (case fst (run_state (step_begin demo_cfg ''inv_0'') demo_started) of Inl _ \<Rightarrow> None | Inr x \<Rightarrow> Some x) = Some 2"
  by code_simp

lemma model_request_contents_witness:
  "\<exists>v q s'. run_state (step_begin demo_cfg ''inv_0'') demo_started = (Inr (AwaitModel v q), s')
     \<and> length (lq_messages q) = 2 \<and> \<not> stopped v \<and> (\<forall>c \<in> set (calls demo_started). tc_inv c = ''inv_0'' \<longrightarrow> tc_status c \<noteq> TcPending)"
proof -
  obtain r s' where r: "run_state (step_begin demo_cfg ''inv_0'') demo_started = (r, s')" by fastforce
  with started_asks obtain v q where q: "r = Inr (AwaitModel v q)" "length (lq_messages q) = 2"
    by (auto split: sum.splits step_out.splits)
  from model_request_contents [OF demo_started_facts(1), of demo_cfg "''inv_0''" v q s'] r q show ?thesis by auto
qed

section \<open>Compaction\<close>

definition talk_trace :: "label list" where
  "talk_trace = take 1 ask_trace @ replicate 10 (Act (HHypothesis ''inv_0'' ''claim'' [] [] ''op''))"

definition talked :: inv where
  "talked = fst (after [demo_reply ''c1'' ''collect'' demo_collect] talk_trace)"

definition talk_brief :: "inv \<Rightarrow> bool list \<times> bool \<times> role list \<times> string option list" where
  "talk_brief s = (faults s, find_row (\<lambda>v. inv_id v = ''inv_0'') (invs s) = None, map m_role (active_msgs ''inv_0'' s),
     map (map_option lr_content) (script s))"

lemma talk_brief: "talk_brief talked = ([], False, RoleSystem # replicate 11 RoleUser, [Some ''why''])"
  by code_simp

lemma talked_facts:
  "faults talked = []"
  "find_row (\<lambda>v. inv_id v = ''inv_0'') (invs talked) \<noteq> None"
  "map m_role (active_msgs ''inv_0'' talked) = RoleSystem # replicate 11 RoleUser"
  "map (map_option lr_content) (script talked) = [Some ''why'']"
  "trim_space ''why'' \<noteq> []"
  using talk_brief by (simp_all add: talk_brief_def trim_space_def trim_left_def is_space_def)

lemma compaction_keeps_bootstrap_and_recent_witness:
  "\<exists>s'. run_state (compact demo_cfg ''inv_0'') talked = (Inr (), s') \<and> length (active_msgs ''inv_0'' s') = 11"
proof -
  obtain s ts where a: "after [demo_reply ''c1'' ''collect'' demo_collect] talk_trace = (s, ts)" by fastforce
  have "hub_run demo_world (demo_hub [demo_reply ''c1'' ''collect'' demo_collect]) talk_trace (s, ts)"
    using demo_run [of "[demo_reply ''c1'' ''collect'' demo_collect]" talk_trace] a by simp
  from hub_db_ok [OF this demo_hub_ok(1)] a have "db_ok talked" by (simp add: talked_def)
  then have seqs: "seqs_ok talked" by (simp add: db_ok_def)
  have len: "length (active_msgs ''inv_0'' talked) = 12" using arg_cong [OF talked_facts(3), of length] by simp
  have roles: "m_role (active_msgs ''inv_0'' talked ! 0) = RoleSystem" "m_role (active_msgs ''inv_0'' talked ! 1) = RoleUser"
    using arg_cong [OF talked_facts(3), of "\<lambda>xs. xs ! 0"] arg_cong [OF talked_facts(3), of "\<lambda>xs. xs ! 1"] len by simp_all
  obtain y where y: "script talked = [Some y]" "lr_content y = ''why''" using talked_facts(4) by auto
  have "trim_space (lr_content y) \<noteq> []" using y(2) talked_facts(5) by simp
  from compaction_keeps_bootstrap_and_recent [OF talked_facts(1) seqs talked_facts(2) _ y(1) this roles, of demo_cfg] len
  show ?thesis by (auto simp: exI)
qed

section \<open>Searching\<close>

definition stored_demo :: inv where
  "stored_demo = (demo_hub [])\<lparr>results := [\<lparr>rs_task = ''t'', rs_data = jempty, rs_hints = JNull, rs_stderr = [], rs_exit = 0, rs_artifact_dir = ''/data/t''\<rparr>]\<rparr>"

text \<open>A search for a file outside of the task's directory.\<close>

definition escape_args :: jtext where
  "escape_args = JText (JObj [(''task_id'', JStr ''t''), (''artifact_name'', JStr ''../../etc/shadow''), (''pattern'', JStr ''root'')])"

lemma search_stays_in_artifact_dir_witness:
  "run_state (handleSearchArtifact (demo_cfg\<lparr>c_read_file := \<lambda>p. if p = ''/etc/shadow'' then Some ''x'' else None\<rparr>) escape_args) stored_demo
   = run_state (handleSearchArtifact (demo_cfg\<lparr>c_read_file := \<lambda>p. None\<rparr>) escape_args) stored_demo"
proof (rule search_stays_in_artifact_dir)
  show "\<forall>r \<in> set (results stored_demo). rs_artifact_dir r \<noteq> [] \<longrightarrow> proper_dir (rs_artifact_dir r)"
    by code_simp
  have "path_elems ''/etc/shadow'' = (True, [''etc'', ''shadow''])" "path_elems ''/data/t'' = (True, [''data'', ''t''])"
    by code_simp+
  then have "\<not> inside ''/data/t'' ''/etc/shadow''" by (simp add: inside_def)
  then show "\<forall>r \<in> set (results stored_demo). \<forall>p. inside (rs_artifact_dir r) p \<longrightarrow>
      (if p = ''/etc/shadow'' then Some ''x'' else None) = None"
    by (auto simp: stored_demo_def)
qed

end
