(* ===== verification/Inv_Tools.thy ===== *)
theory Inv_Tools
  imports Inv_Gates
begin

text \<open>
  \<open>hub/investigator/tools.go\<close>: the catalogue of tools offered to the model, with the
  descriptions and parameter schemas it reads, and that it names exactly the tools the
  handlers serve; and how \<open>prompt.go\<close> fills in the system prompt.
\<close>

section \<open>Schemas\<close>

record tool =
  tl_name :: string
  tl_description :: string
  tl_parameters :: json

text \<open>\<open>json.Marshal\<close> of a map: its members by sorted key.\<close>

definition marshal_map :: "(string \<times> json) list \<Rightarrow> json" where
  "marshal_map kvs = JObj (sort_members kvs)"

definition fn :: "string \<Rightarrow> string \<Rightarrow> json \<Rightarrow> tool" where
  "fn nm desc params = \<lparr>tl_name = nm, tl_description = desc, tl_parameters = params\<rparr>"

definition object :: "(string \<times> json) list \<Rightarrow> string list \<Rightarrow> json" where
  "object p required = JObj
     ([(''type'', JStr ''object''), (''properties'', marshal_map p)]
      @ (if required = [] then [] else [(''required'', jstrings required)])
      @ [(''additionalProperties'', JBool False)])"

definition str :: "string \<Rightarrow> json" where
  "str desc = marshal_map [(''type'', JStr ''string''), (''description'', JStr desc)]"

definition obj :: "string \<Rightarrow> json" where
  "obj desc = marshal_map
     [(''type'', JStr ''object''), (''description'', JStr desc),
      (''additionalProperties'', marshal_map [(''type'', JStr ''string'')])]"

definition enumStr :: "string list \<Rightarrow> string \<Rightarrow> json" where
  "enumStr vals desc = marshal_map [(''type'', JStr ''string''), (''enum'', jstrings vals), (''description'', JStr desc)]"

definition intRange :: "string \<Rightarrow> int \<Rightarrow> int \<Rightarrow> json" where
  "intRange desc lo hi = marshal_map
     [(''type'', JStr ''integer''), (''minimum'', JInt lo), (''maximum'', JInt hi), (''description'', JStr desc)]"

definition intRangeDefault :: "string \<Rightarrow> int \<Rightarrow> int \<Rightarrow> int \<Rightarrow> json" where
  "intRangeDefault desc lo hi dflt = marshal_map
     [(''type'', JStr ''integer''), (''minimum'', JInt lo), (''maximum'', JInt hi),
      (''default'', JInt dflt), (''description'', JStr desc)]"

definition arrayStr :: "string \<Rightarrow> int \<Rightarrow> int \<Rightarrow> json" where
  "arrayStr desc lo hi = marshal_map
     [(''type'', JStr ''array''), (''items'', marshal_map [(''type'', JStr ''string'')]),
      (''minItems'', JInt lo), (''maxItems'', JInt hi), (''description'', JStr desc)]"

section \<open>The catalogue\<close>

definition tool_list_hosts :: tool where
  "tool_list_hosts = fn ''list_hosts''
     ''Get inventory of agents currently registered with the hub. Returns each host with: id, labels, auto-discovered facts (os, kernel, hostname, primary_ip, cpu_count, ram_gb), status (online|offline|degraded), last_seen timestamp, and the list of collectors available on that host. Use this early in an investigation to ground yourself in the fleet.'' (object
     [(''selector'', str ''Optional label selector of the form 'key=value,key2=value2'. Matches hosts having ALL listed labels. Example: 'env=prod,role=k8s-master'. Omit to list every host.'')] [])"

definition tool_list_collectors :: tool where
  "tool_list_collectors = fn ''list_collectors''
     (''Get the catalog of collectors implemented by agents. Each entry: { name, category, version, description, reads, requires }. Use to discover what observations are possible. Not every collector is available on every host '' @ [CHR 0xE2, CHR 0x80, CHR 0x94] @ '' cross-check with host.collectors.'') (object
     [(''category'', enumStr [''system'', ''systemd'', ''network'', ''process'', ''files''] ''Optional filter. Omit for all categories.'')] [])"

definition tool_describe_collector :: tool where
  "tool_describe_collector = fn ''describe_collector''
     ''Get the full manifest of a collector: parameter schema with per-field descriptions, output schema, requirements (privileges, binaries), and an example output. Use when you need exact call signature before invoking.'' (object
     [(''name'', str ''Collector name, e.g. 'journal_tail'.'')] [''name''])"

definition tool_collect :: tool where
  "tool_collect = fn ''collect''
     ''Execute ONE collector on ONE host. Returns a compact result summary, hints emitted by the collector, and references to any large artifacts. Use for targeted single-host probes.'' (object
     [(''host_id'', str ''Target host id as returned by list_hosts.''),
      (''collector'', str ''Collector name (from list_collectors).''),
      (''params'', obj ''Key-value parameters per the collector's params_schema. Omit for collectors with no parameters.''),
      (''timeout_seconds'', intRange ''Max execution time. Default 30.'' 1 300)] [''host_id'', ''collector''])"

definition tool_collect_batch :: tool where
  "tool_collect_batch = fn ''collect_batch''
     ''Execute the SAME collector with the SAME params on MULTIPLE hosts in parallel. Prefer this over multiple `collect` calls when surveying a fleet. Returns an array of per-host results.'' (object
     [(''host_ids'', arrayStr ''Target hosts. Min 1, max 50.'' 1 50),
      (''collector'', str ''Collector name.''),
      (''params'', obj ''Per-collector parameters; same shape as collect.params.''),
      (''timeout_seconds'', intRange ''Max execution time per host.'' 1 300)] [''host_ids'', ''collector''])"

definition tool_search_artifact :: tool where
  "tool_search_artifact = fn ''search_artifact''
     ''Search for a regex pattern inside a large artifact file produced by a previous collector. Returns matching lines with surrounding context. Use this INSTEAD of loading raw logs into context.'' (object
     [(''task_id'', str ''Task id that produced the artifact.''),
      (''artifact_name'', str ''Artifact filename from the task's artifact list.''),
      (''pattern'', str ''RE2-compatible regex. Case-insensitive by default.''),
      (''context_lines'', intRangeDefault ''Lines of context per match. Default 3.'' 0 20 3),
      (''max_matches'', intRangeDefault ''Cap on returned matches. Default 50.'' 1 500 50)] [''task_id'', ''artifact_name'', ''pattern''])"

definition tool_compare_across_hosts :: tool where
  "tool_compare_across_hosts = fn ''compare_across_hosts''
     ''Given task_ids that ran the SAME collector on different hosts, produce a structured diff: per-field values that agree across all hosts vs values that differ. Use to spot outliers.'' (object
     [(''task_ids'', arrayStr ''Tasks to compare. Min 2, max 20.'' 2 20)] [''task_ids''])"

definition tool_get_full_result :: tool where
  "tool_get_full_result = fn ''get_full_result''
     ''Retrieve the FULL structured output of a previous collector (not the summary). Use when the summary is insufficient and you need every field.'' (object
     [(''task_id'', str ''Task id.'')] [''task_id''])"

definition tool_add_finding :: tool where
  "tool_add_finding = fn ''add_finding''
     ''Pin a structured diagnostic finding to the investigation memo. MUST cite at least one task_id in evidence_refs.'' (object
     [(''severity'', enumStr [''info'', ''warn'', ''error''] ''Finding severity.''),
      (''code'', str ''Short stable code, e.g. 'etcd.cert_near_expiry'.''),
      (''message'', str ''One-line human-readable summary.''),
      (''evidence_refs'', arrayStr ''Task ids backing this finding (minItems 1).'' 1 50)] [''severity'', ''code'', ''message'', ''evidence_refs''])"

definition tool_ask_operator :: tool where
  "tool_ask_operator = fn ''ask_operator''
     ''Pause the investigation and ask the operator a question. Use for domain knowledge only the human has.'' (object
     [(''question'', str ''The question to put to the operator.''),
      (''context'', str ''Optional context summarizing what is known so far.'')] [''question''])"

definition tool_mark_done :: tool where
  "tool_mark_done = fn ''mark_done''
     ''Finalize the investigation with a structured post-mortem. After this call no further tool calls are allowed.'' (object
     [(''summary'', object
     [(''symptoms'', arrayStr ''Observed user-facing symptoms.'' 0 50),
      (''hosts_examined'', arrayStr ''host_ids touched during the investigation.'' 0 200),
      (''root_cause'', str ''Root-cause paragraph or 'inconclusive'.''),
      (''evidence_refs'', arrayStr ''task_ids underpinning the conclusion.'' 0 200),
      (''recommended_remediation'', str ''Plain-text remediation instructions for the operator.'')] [''root_cause'', ''recommended_remediation''])] [''summary''])"

definition Tools :: "tool list" where
  "Tools = [tool_list_hosts, tool_list_collectors, tool_describe_collector, tool_collect, tool_collect_batch,
     tool_search_artifact, tool_compare_across_hosts, tool_get_full_result, tool_add_finding, tool_ask_operator,
     tool_mark_done]"

lemmas tool_defs =
  tool_list_hosts_def tool_list_collectors_def tool_describe_collector_def tool_collect_def tool_collect_batch_def
  tool_search_artifact_def tool_compare_across_hosts_def tool_get_full_result_def tool_add_finding_def
  tool_ask_operator_def tool_mark_done_def

lemma tool_name_fn [simp]: "tl_name (fn nm desc params) = nm"
  by (simp add: fn_def)

lemma Tools_names: "map tl_name Tools = tool_names"
  unfolding Tools_def tool_defs tool_names_def list.map tool_name_fn ..

section \<open>The catalogue and the handlers\<close>

text \<open>Every result of a program has a property.\<close>

definition answers :: "('a \<Rightarrow> bool) \<Rightarrow> ('s, 'a) state \<Rightarrow> bool" where
  "answers P m = (\<forall>s. P (fst (run_state m s)))"

lemma answers_return: "P x \<Longrightarrow> answers P (return x)"
  by (simp add: answers_def)

lemma answers_bind: "(\<And>x. answers P (f x)) \<Longrightarrow> answers P (State_Monad.bind m f)"
  by (simp add: answers_def split_def)

lemma answers_cases:
  "(b \<Longrightarrow> answers P m) \<Longrightarrow> (\<not> b \<Longrightarrow> answers P n) \<Longrightarrow> answers P (if b then m else n)"
  "answers P m \<Longrightarrow> (\<And>x. r = Some x \<Longrightarrow> answers P (h x)) \<Longrightarrow> answers P (case r of None \<Rightarrow> m | Some x \<Rightarrow> h x)"
  "(\<And>e. t = Inl e \<Longrightarrow> answers P (k e)) \<Longrightarrow> (\<And>x. t = Inr x \<Longrightarrow> answers P (g x)) \<Longrightarrow> answers P (case t of Inl e \<Rightarrow> k e | Inr x \<Rightarrow> g x)"
  "(\<And>a b. answers P (p a b)) \<Longrightarrow> answers P (case q of (a, b) \<Rightarrow> p a b)"
  "(\<And>a b. answers P (p2 a b z)) \<Longrightarrow> answers P ((case q of (a, b) \<Rightarrow> p2 a b) z)"
  by (auto split: option.splits sum.splits prod.splits)

definition known :: "tool_result \<Rightarrow> bool" where
  "known r = (\<forall>t. tr_error r \<noteq> Some (TUnknownTool t))"

lemma known_results [simp]: "known (okResult d)" "known (errResult e) = (\<forall>t. e \<noteq> TUnknownTool t)"
  by (simp_all add: known_def okResult_def errResult_def)

lemmas answers_intros = answers_bind answers_cases answers_return

lemma PrepareCollect_known: "answers (\<lambda>r. \<forall>e t. r = Inl e \<longrightarrow> e \<noteq> TUnknownTool t) (PrepareCollect cf en args)"
  unfolding PrepareCollect_def Let_def by (intro answers_intros) simp_all

lemma PrepareCollectBatch_known:
  "answers (\<lambda>r. \<forall>e t. r = Inl e \<longrightarrow> e \<noteq> TUnknownTool t) (PrepareCollectBatch cf en args)"
  unfolding PrepareCollectBatch_def Let_def by (intro answers_intros) simp_all

lemma answers_bind_by:
  "answers Q m \<Longrightarrow> (\<And>x. Q x \<Longrightarrow> answers P (f x)) \<Longrightarrow> answers P (State_Monad.bind m f)"
  by (simp add: answers_def split_def)

lemma collect_known: "answers known (handleCollect cf en args)" "answers known (handleCollectBatch cf en args)"
  unfolding handleCollect_def handleCollectBatch_def SummarizeTasks_def
  by (rule answers_bind_by [OF PrepareCollect_known], intro answers_intros, auto)
    (rule answers_bind_by [OF PrepareCollectBatch_known], intro answers_intros, auto)

lemma describe_known: "answers known (describe_loop nm hs)"
  by (induction hs) (auto intro!: answers_intros split: option.splits)

lemma inventory_known:
  "answers known (handleListHosts cf en args)" "answers known (handleListCollectors args)"
  "answers known (handleDescribeCollector args)" "answers known (handleGetFullResult args)"
  unfolding handleListHosts_def handleListCollectors_def handleDescribeCollector_def handleGetFullResult_def Let_def
  by (intro answers_intros describe_known, auto split: option.splits sum.splits)+

lemma results_known: "answers known (handleSearchArtifact cf args)" "answers known (handleCompareAcrossHosts args)"
  unfolding handleSearchArtifact_def search_body_def handleCompareAcrossHosts_def Let_def
  by (intro answers_intros, auto split: option.splits sum.splits)+

lemma check_refs_known: "answers (\<lambda>r. \<forall>e t. r = Some e \<longrightarrow> e \<noteq> TUnknownTool t) (check_refs ids)"
  by (induction ids) (auto intro!: answers_intros)

lemma answersD: "answers P m \<Longrightarrow> P (fst (run_state m s))"
  by (simp add: answers_def)

lemma finding_known: "answers known (handleAddFinding cf en args)"
  unfolding handleAddFinding_def Let_def
  by (intro answers_cases answers_return answers_bind_by [OF check_refs_known];
      (intro answers_intros)?; auto)

lemma ends_known: "known (handleAskOperator args)" "known (handleMarkDone args)"
  unfolding handleAskOperator_def handleMarkDone_def Let_def by (auto split: prod.splits)

lemma Dispatch_known:
  assumes "tool \<in> set tool_names"
  shows "answers known (Dispatch cf en tool args)"
  unfolding Dispatch_def
  by (intro answers_cases(1) answers_return collect_known inventory_known results_known finding_known ends_known)
    (use assms in \<open>auto simp: tool_names_def\<close>)

text \<open>
  The catalogue offered to the model and the handlers agree: a tool of the catalogue is
  always served by a handler, and any other name is refused as unknown, without effect.
\<close>
theorem catalogue_matches_dispatch:
  "if tool \<in> set (map tl_name Tools)
   then \<forall>t. tr_error (fst (run_state (Dispatch cf en tool args) s)) \<noteq> Some (TUnknownTool t)
   else run_state (Dispatch cf en tool args) s = (errResult (TUnknownTool tool), s)"
proof -
  have "run_state (Dispatch cf en tool args) s = (errResult (TUnknownTool tool), s)" if "tool \<notin> set tool_names"
    using that unfolding Dispatch_def tool_names_def by simp
  moreover have "\<forall>t. tr_error (fst (run_state (Dispatch cf en tool args) s)) \<noteq> Some (TUnknownTool t)" if "tool \<in> set tool_names"
    using answersD [OF Dispatch_known [OF that], of cf en args s] by (simp add: known_def)
  ultimately show ?thesis
    unfolding Tools_names by (cases "tool \<in> set tool_names") simp_all
qed

section \<open>The system prompt\<close>

text \<open>
  \<open>investigator/prompt.go\<close>: the prompt is made from the template's text (a parameter: five
  kilobytes of English) by one pass of \<open>strings.NewReplacer\<close>. What is substituted is not read
  again, so placeholders inside the operator's goal stay as they are. At each position the first
  key that fits is taken; no key of the code is a prefix of another.
\<close>

definition key_here :: "(string \<times> string) list \<Rightarrow> string \<Rightarrow> (string \<times> string) option" where
  "key_here ps s = find_row (\<lambda>(k, v). k \<noteq> [] \<and> has_prefix s k) ps"

function NewReplacer :: "(string \<times> string) list \<Rightarrow> string \<Rightarrow> string" where
  "NewReplacer ps [] = []"
| "NewReplacer ps (c # s) =
     (case key_here ps (c # s) of
        None \<Rightarrow> c # NewReplacer ps s
      | Some (k, v) \<Rightarrow> v @ NewReplacer ps (drop (length k - 1) s))"
  by pat_completeness auto
termination by (relation "measure (\<lambda>(ps, s). length s)") auto

definition scope_note :: "string list \<Rightarrow> string" where
  "scope_note allowed =
     (let nl = [CHR 0x0A] in if allowed = [] then []
      else nl @ nl @ ''## Scope constraint (operator)'' @ nl
        @ ''This investigation is restricted to the following agent_ids. ''
        @ ''`list_hosts` returns only these; `collect` / `collect_batch` ''
        @ ''will be rejected by the hub for any other host_id. Do not ''
        @ ''propose actions against hosts outside this list:'' @ nl
        @ ''- '' @ join (nl @ ''- '') allowed @ nl)"

definition placeholders :: "string \<Rightarrow> string \<Rightarrow> string \<Rightarrow> int \<Rightarrow> int \<Rightarrow> (string \<times> string) list" where
  "placeholders goal model started maxSteps maxTokens =
     [(''{{goal}}'', goal), (''{{started_at}}'', started), (''{{model}}'', model),
      (''{{max_steps}}'', int_text maxSteps), (''{{max_tokens}}'', int_text maxTokens)]"

text \<open>The start's text is RFC 3339 of the instant.\<close>

definition BuildSystemPrompt ::
  "string \<Rightarrow> string \<Rightarrow> string \<Rightarrow> string \<Rightarrow> int \<Rightarrow> int \<Rightarrow> string list \<Rightarrow> string" where
  "BuildSystemPrompt template goal model started maxSteps maxTokens allowed =
     NewReplacer (placeholders goal model started maxSteps maxTokens) template @ scope_note allowed"

text \<open>A template is text without braces, and placeholders.\<close>

datatype piece = Prose string | Hole string

fun piece_text :: "piece \<Rightarrow> string" where
  "piece_text (Prose t) = t"
| "piece_text (Hole k) = k"

fun piece_filled :: "(string \<times> string) list \<Rightarrow> piece \<Rightarrow> string" where
  "piece_filled ps (Prose t) = t"
| "piece_filled ps (Hole k) = the (map_of ps k)"

definition holes_ok :: "(string \<times> string) list \<Rightarrow> piece list \<Rightarrow> bool" where
  "holes_ok ps = list_all (\<lambda>p. case p of Prose t \<Rightarrow> CHR ''{'' \<notin> set t | Hole k \<Rightarrow> k \<in> fst ` set ps)"

lemma prose_copied:
  assumes "\<forall>(k, v) \<in> set ps. \<exists>r. k = CHR ''{'' # r" and "CHR ''{'' \<notin> set t"
  shows "NewReplacer ps (t @ s) = t @ NewReplacer ps s"
  using assms(2)
proof (induction t)
  case (Cons c t)
  have "key_here ps (c # t @ s) = None"
    using assms(1) Cons.prems by (fastforce simp: key_here_def find_row_def find_None_iff has_prefix_def)
  with Cons show ?case by simp
qed simp

lemma hole_filled:
  assumes "\<forall>(k, v) \<in> set ps. k \<noteq> [] \<and> (\<forall>(k', v') \<in> set ps. has_prefix (k @ s) k' \<longrightarrow> k' = k)" and "(k, v) \<in> set ps"
    and "distinct (map fst ps)"
  shows "NewReplacer ps (k @ s) = v @ NewReplacer ps s"
proof -
  have "key_here ps (k @ s) = Some (k, v)"
  proof -
    obtain q where q: "key_here ps (k @ s) = Some q"
      using assms(1,2) by (cases "key_here ps (k @ s)") (auto simp: key_here_def find_row_def find_None_iff has_prefix_def)
    then have "q \<in> set ps \<and> has_prefix (k @ s) (fst q)"
      by (auto simp: key_here_def find_row_def find_Some_iff) (metis nth_mem)
    moreover from this assms(1,2) have "fst q = k" by (cases q) auto
    ultimately have "q = (k, v)" using assms(2) eq_key_imp_eq_value [OF assms(3)] by (cases q) auto
    with q show ?thesis by simp
  qed
  moreover obtain c r where "k = c # r" using assms(1,2) by (cases k) auto
  ultimately show ?thesis by simp
qed

lemma holes_filled:
  assumes "\<forall>(k, v) \<in> set ps. (\<exists>r. k = CHR ''{'' # r) \<and> (\<forall>s. \<forall>(k', v') \<in> set ps. has_prefix (k @ s) k' \<longrightarrow> k' = k)"
    and "distinct (map fst ps)"
  shows "holes_ok ps tp \<Longrightarrow> NewReplacer ps (concat (map piece_text tp)) = concat (map (piece_filled ps) tp)"
proof (induction tp)
  case (Cons p tp)
  show ?case
  proof (cases p)
    case (Prose t)
    with Cons prose_copied [of ps t] assms(1) show ?thesis by (fastforce simp: holes_ok_def)
  next
    case (Hole k)
    with Cons.prems obtain v where v: "(k, v) \<in> set ps" by (auto simp: holes_ok_def)
    with assms(2) have "map_of ps k = Some v" by simp
    with Cons Hole hole_filled [OF _ v assms(2), of "concat (map piece_text tp)"] assms(1) show ?thesis
      by (fastforce simp: holes_ok_def)
  qed
qed simp

text \<open>
  The prompt is the template with each placeholder replaced by its value, literally and once,
  whatever the operator's goal contains, and the note on the scope at the end.
\<close>

lemma prompt_is_template_filled:
  fixes tp :: "piece list"
  assumes "holes_ok (placeholders goal model started maxSteps maxTokens) tp"
  shows "BuildSystemPrompt (concat (map piece_text tp)) goal model started maxSteps maxTokens allowed
    = concat (map (piece_filled (placeholders goal model started maxSteps maxTokens)) tp) @ scope_note allowed"
proof -
  let ?ps = "placeholders goal model started maxSteps maxTokens"
  have "\<forall>(k, v) \<in> set ?ps. (\<exists>r. k = CHR ''{'' # r) \<and> (\<forall>s. \<forall>(k', v') \<in> set ?ps. has_prefix (k @ s) k' \<longrightarrow> k' = k)"
    by (simp add: placeholders_def has_prefix_def)
  moreover have "distinct (map fst ?ps)" by (simp add: placeholders_def)
  ultimately show ?thesis using holes_filled assms by (simp add: BuildSystemPrompt_def)
qed

lemma goal_is_not_rescanned:
  "BuildSystemPrompt ''Goal: {{goal}} by {{model}}.'' ''fix {{model}}'' ''m1'' [] 12 500 []
    = ''Goal: fix {{model}} by m1.''"
  by code_simp

end
