(* ===== verification/Exec_Gateway.thy ===== *)
theory Exec_Gateway
  imports Go_Strings
begin

text \<open>
  The agent's exec gateway: \<open>internal/agent/exec/readonly.go\<close> (the whitelist, the match of
  an argument vector against an entry's patterns, \<open>Run\<close>) and
  \<open>internal/agent/exec/whitelist.go\<close> (the argument validators and the default table).
  The file system is a parameter \<open>st\<close> (\<open>os.Stat\<close>: \<^const>\<open>None\<close> is an error, otherwise
  whether the path is a directory) and so is the child process \<open>proc\<close>.
\<close>

section \<open>Argument validators\<close>

datatype verr =
    ShellMeta
  | PathTraversal
  | BadUnit string
  | NotAnInt string
  | OutOfRange int int
  | BadSince string
  | BadHostPort string
  | NotLiteral string string

type_synonym validator = "string \<Rightarrow> verr option"

definition shell_meta :: string where
  "shell_meta = [CHR '';'', CHR ''|'', CHR ''&'', CHR 0x60, CHR ''$'', CHR ''<'', CHR ''>'',
     CHR 0x0A, CHR 0x0D, CHR 0x09, CHR 0x00, CHR ''*'', CHR ''?'']"

definition NoShellMeta :: validator where
  "NoShellMeta s =
     (if contains_any s shell_meta then Some ShellMeta
      else if contains s ''..'' then Some PathTraversal
      else None)"

definition unit_char :: "char \<Rightarrow> bool" where
  "unit_char c = (is_alnum c \<or> c \<in> set ''@:._-'')"

definition SystemdUnitName :: validator where
  "SystemdUnitName s =
     (if list_all unit_char s \<and> 1 \<le> length s \<and> length s \<le> 256 then None else Some (BadUnit s))"

definition PosInt :: "int \<Rightarrow> validator" where
  "PosInt mx s =
     (case atoi s of
        None \<Rightarrow> Some (NotAnInt s)
      | Some n \<Rightarrow> if n < 1 \<or> n > mx then Some (OutOfRange mx n) else None)"

definition since_char :: "char \<Rightarrow> bool" where
  "since_char c = (is_alnum c \<or> c \<in> set '' :.-+_'')"

definition JournalSince :: validator where
  "JournalSince s =
     (if list_all since_char s \<and> 1 \<le> length s \<and> length s \<le> 64 then None else Some (BadSince s))"

definition host_char :: "char \<Rightarrow> bool" where
  "host_char c = (is_alnum c \<or> c \<in> set ''._-'')"

definition HostPort :: validator where
  "HostPort s =
     (case cut (CHR '':'') s of
        (h, None) \<Rightarrow> Some (BadHostPort s)
      | (h, Some p) \<Rightarrow>
          if list_all host_char h \<and> 1 \<le> length h \<and> length h \<le> 253 \<and>
             list_all is_digit p \<and> 1 \<le> length p \<and> length p \<le> 5
          then None else Some (BadHostPort s))"

definition literal :: "string \<Rightarrow> validator" where
  "literal v s = (if s \<noteq> v then Some (NotLiteral v s) else None)"

section \<open>Entries and patterns\<close>

record arg_spec =
  as_flag :: string
  as_value :: "validator option"

record entry =
  e_bin :: string
  e_candidates :: "string list"
  e_patterns :: "arg_spec list list"
  e_timeout :: int
  e_max_stdout :: int
  e_resolved :: string

type_synonym whitelist = "string \<Rightarrow> entry option"
type_synonym stat = "string \<Rightarrow> bool option"

datatype match_err =
    ExpectedFlag string nat
  | ExpectedValue nat
  | ValueRejected nat verr
  | Trailing nat

text \<open>The loop of \<open>matchPattern\<close>: \<open>i\<close> is the position in \<open>args\<close>.\<close>

fun match_loop :: "arg_spec list \<Rightarrow> nat \<Rightarrow> string list \<Rightarrow> match_err option" where
  "match_loop [] i args = (if i \<noteq> length args then Some (Trailing (length args - i)) else None)"
| "match_loop (spec # specs) i args =
     (if as_flag spec \<noteq> [] \<and> (i \<ge> length args \<or> args ! i \<noteq> as_flag spec)
      then Some (ExpectedFlag (as_flag spec) i)
      else (let j = (if as_flag spec \<noteq> [] then i + 1 else i)
            in case as_value spec of
                 None \<Rightarrow> match_loop specs j args
               | Some v \<Rightarrow>
                   if j \<ge> length args then Some (ExpectedValue j)
                   else (case v (args ! j) of
                           Some e \<Rightarrow> Some (ValueRejected j e)
                         | None \<Rightarrow> match_loop specs (j + 1) args)))"

definition matchPattern :: "arg_spec list \<Rightarrow> string list \<Rightarrow> match_err option" where
  "matchPattern pat args = match_loop pat 0 args"

datatype args_err = NoArgsAllowed string nat | NoMatchingPattern match_err

fun validate_loop :: "arg_spec list list \<Rightarrow> match_err option \<Rightarrow> string list \<Rightarrow> match_err option" where
  "validate_loop [] lastErr args = lastErr"
| "validate_loop (p # ps) lastErr args =
     (case matchPattern p args of
        None \<Rightarrow> None
      | Some e \<Rightarrow> validate_loop ps (Some e) args)"

definition validateArgs :: "entry \<Rightarrow> string list \<Rightarrow> args_err option" where
  "validateArgs e args =
     (if e_patterns e = [] then
        (if args \<noteq> [] then Some (NoArgsAllowed (e_bin e) (length args)) else None)
      else map_option NoMatchingPattern (validate_loop (e_patterns e) None args))"

section \<open>Registration\<close>

datatype gw_panic =
    EmptyBin
  | DuplicateEntry string
  | NotWhitelisted string
  | ArgsRejected string args_err

definition first_existing :: "stat \<Rightarrow> string list \<Rightarrow> string option" where
  "first_existing st ps = List.find (\<lambda>p. st p = Some False) ps"

definition Register :: "stat \<Rightarrow> entry \<Rightarrow> whitelist \<Rightarrow> gw_panic + whitelist" where
  "Register st e wl =
     (if e_bin e = [] then Inl EmptyBin
      else (let e' = (case first_existing st (e_candidates e) of
                        None \<Rightarrow> e | Some p \<Rightarrow> e\<lparr>e_resolved := p\<rparr>)
            in if wl (e_bin e) \<noteq> None then Inl (DuplicateEntry (e_bin e))
               else Inr (wl(e_bin e \<mapsto> e'))))"

definition BinaryAvailable :: "stat \<Rightarrow> whitelist \<Rightarrow> string \<Rightarrow> bool" where
  "BinaryAvailable st wl bin =
     (case wl bin of
        None \<Rightarrow> False
      | Some e \<Rightarrow> if e_candidates e = [] then True
                  else first_existing st (e_candidates e) \<noteq> None)"

section \<open>Run\<close>

datatype exec_err =
    StdoutTruncated
  | BinaryNotFound string "string list"
  | OsError string

datatype wait_outcome = WaitOk | WaitExit | WaitError string

text \<open>What the child process does: the pipe or the start fails, or it runs.\<close>

datatype proc_outcome =
    PipeError string
  | StartError string
  | Ran bytes bytes int wait_outcome int

record exec_result =
  x_stdout :: bytes
  x_stderr :: bytes
  x_exit :: int
  x_duration :: int

definition empty_result :: exec_result where
  "empty_result = \<lparr>x_stdout = [], x_stderr = [], x_exit = 0, x_duration = 0\<rparr>"

record spawn =
  sp_path :: string
  sp_args :: "string list"
  sp_timeout :: int

definition defaultMaxStdoutBytes :: int where
  "defaultMaxStdoutBytes = 16 * 1024 * 1024"

definition max_stdout :: "entry \<Rightarrow> int" where
  "max_stdout e = (if e_max_stdout e \<le> 0 then defaultMaxStdoutBytes else e_max_stdout e)"

text \<open>
  The first half of \<open>Run\<close>: the whitelist lookup, the argument check and the resolution of
  the path, up to the command handed to the operating system.
\<close>

definition run_plan ::
  "stat \<Rightarrow> whitelist \<Rightarrow> string \<Rightarrow> string list \<Rightarrow> gw_panic + (exec_err + spawn \<times> entry)" where
  "run_plan st wl bin args =
     (case wl bin of
        None \<Rightarrow> Inl (NotWhitelisted bin)
      | Some e \<Rightarrow>
         (case validateArgs e args of
            Some err \<Rightarrow> Inl (ArgsRejected bin err)
          | None \<Rightarrow>
             (if e_candidates e \<noteq> [] then
                (case first_existing st (e_candidates e) of
                   None \<Rightarrow> Inr (Inl (BinaryNotFound bin (e_candidates e)))
                 | Some p \<Rightarrow> Inr (Inr (\<lparr>sp_path = p, sp_args = args, sp_timeout = e_timeout e\<rparr>, e)))
              else
                Inr (Inr (\<lparr>sp_path = (if e_resolved e = [] then e_bin e else e_resolved e),
                           sp_args = args, sp_timeout = e_timeout e\<rparr>, e)))))"

text \<open>The second half: what is read from the process, cut at the cap.\<close>

fun run_finish :: "entry \<Rightarrow> proc_outcome \<Rightarrow> exec_result \<times> exec_err option" where
  "run_finish e (PipeError m) = (empty_result, Some (OsError m))"
| "run_finish e (StartError m) = (empty_result, Some (OsError m))"
| "run_finish e (Ran out err code w dur) =
     (let mx = nat (max_stdout e);
          truncated = length (take (mx + 1) out) > mx;
          stdout = (if truncated then take mx (take (mx + 1) out) else take (mx + 1) out);
          res = \<lparr>x_stdout = stdout, x_stderr = err, x_exit = code, x_duration = dur\<rparr>
      in if truncated then (res, Some StdoutTruncated)
         else (case w of WaitExit \<Rightarrow> (res, None)
                       | WaitOk \<Rightarrow> (res, None)
                       | WaitError m \<Rightarrow> (res, Some (OsError m))))"

definition Run ::
  "stat \<Rightarrow> (spawn \<Rightarrow> proc_outcome) \<Rightarrow> whitelist \<Rightarrow> string \<Rightarrow> string list
   \<Rightarrow> gw_panic + exec_result \<times> exec_err option" where
  "Run st proc wl bin args =
     (case run_plan st wl bin args of
        Inl p \<Rightarrow> Inl p
      | Inr (Inl e) \<Rightarrow> Inr (empty_result, Some e)
      | Inr (Inr (sp, e)) \<Rightarrow> Inr (run_finish e (proc sp)))"

section \<open>The default table\<close>

definition val :: "validator \<Rightarrow> arg_spec" where
  "val v = \<lparr>as_flag = [], as_value = Some v\<rparr>"

definition lit :: "string \<Rightarrow> arg_spec" where
  "lit s = val (literal s)"

definition flag :: "string \<Rightarrow> arg_spec" where
  "flag f = \<lparr>as_flag = f, as_value = None\<rparr>"

definition systemctl_entry :: entry where
  "systemctl_entry =
    \<lparr>e_bin = ''systemctl'',
      e_candidates = [''/bin/systemctl'', ''/usr/bin/systemctl'', ''/usr/sbin/systemctl''],
      e_patterns =
        [[lit ''list-units'', lit ''--all'', lit ''--no-pager'', lit ''--no-legend'', lit ''-o'', lit ''json''],
         [lit ''status'', val SystemdUnitName, lit ''--no-pager'']],
      e_timeout = 10 * 10 ^ 9, e_max_stdout = 0, e_resolved = []\<rparr>"

definition journalctl_entry :: entry where
  "journalctl_entry =
    \<lparr>e_bin = ''journalctl'',
      e_candidates = [''/bin/journalctl'', ''/usr/bin/journalctl'', ''/usr/sbin/journalctl''],
      e_patterns =
        [[flag ''-u'', val SystemdUnitName, flag ''--since'', val JournalSince,
          flag ''-n'', val (PosInt 100000), flag ''-o'', lit ''json'', lit ''--no-pager'']],
      e_timeout = 30 * 10 ^ 9, e_max_stdout = 16 * 1024 * 1024, e_resolved = []\<rparr>"

definition ss_entry :: entry where
  "ss_entry =
    \<lparr>e_bin = ''ss'',
      e_candidates = [''/usr/sbin/ss'', ''/usr/bin/ss'', ''/sbin/ss'', ''/bin/ss''],
      e_patterns = [[lit ''-tulpn''], [lit ''-tan''], [lit ''-uan'']],
      e_timeout = 5 * 10 ^ 9, e_max_stdout = 0, e_resolved = []\<rparr>"

definition ip_entry :: entry where
  "ip_entry =
    \<lparr>e_bin = ''ip'',
      e_candidates = [''/sbin/ip'', ''/usr/sbin/ip'', ''/usr/bin/ip'', ''/bin/ip''],
      e_patterns =
        [[lit ''-json'', lit ''addr''], [lit ''-json'', lit ''link''],
         [lit ''-json'', lit ''route''], [lit ''-json'', lit ''neigh'']],
      e_timeout = 5 * 10 ^ 9, e_max_stdout = 0, e_resolved = []\<rparr>"

definition iptables_entry :: entry where
  "iptables_entry =
    \<lparr>e_bin = ''iptables'',
      e_candidates = [''/sbin/iptables'', ''/usr/sbin/iptables'', ''/usr/bin/iptables'', ''/bin/iptables''],
      e_patterns = [[lit ''-L'', lit ''-n'', lit ''-v'']],
      e_timeout = 10 * 10 ^ 9, e_max_stdout = 0, e_resolved = []\<rparr>"

definition docker_entry :: entry where
  "docker_entry =
    \<lparr>e_bin = ''docker'',
      e_candidates = [''/usr/bin/docker'', ''/usr/local/bin/docker'', ''/snap/bin/docker''],
      e_patterns =
        [[lit ''ps'', lit ''-a'', lit ''--no-trunc'', lit ''--format'', lit ''{{json .}}''],
         [lit ''inspect'', val NoShellMeta],
         [lit ''logs'', lit ''--tail'', val (PosInt 10000), lit ''--timestamps'', val NoShellMeta]],
      e_timeout = 15 * 10 ^ 9, e_max_stdout = 8 * 1024 * 1024, e_resolved = []\<rparr>"

definition kubectl_entry :: entry where
  "kubectl_entry =
    \<lparr>e_bin = ''kubectl'',
      e_candidates = [''/usr/bin/kubectl'', ''/usr/local/bin/kubectl'', ''/snap/bin/kubectl''],
      e_patterns =
        [[lit ''get'', val NoShellMeta, lit ''-A'', lit ''-o'', lit ''json''],
         [lit ''get'', val NoShellMeta, lit ''-n'', val NoShellMeta, lit ''-o'', lit ''json''],
         [lit ''describe'', val NoShellMeta, val NoShellMeta, lit ''-n'', val NoShellMeta],
         [lit ''logs'', val NoShellMeta, lit ''-n'', val NoShellMeta,
          lit ''--tail'', val (PosInt 10000), lit ''--timestamps'']],
      e_timeout = 20 * 10 ^ 9, e_max_stdout = 16 * 1024 * 1024, e_resolved = []\<rparr>"

definition default_entries :: "entry list" where
  "default_entries =
    [systemctl_entry, journalctl_entry, ss_entry, ip_entry,
     iptables_entry, docker_entry, kubectl_entry]"

lemmas entry_defs =
  systemctl_entry_def journalctl_entry_def ss_entry_def ip_entry_def iptables_entry_def docker_entry_def kubectl_entry_def

fun register_all :: "stat \<Rightarrow> entry list \<Rightarrow> whitelist \<Rightarrow> gw_panic + whitelist" where
  "register_all st [] wl = Inr wl"
| "register_all st (e # es) wl =
     (case Register st e wl of Inl p \<Rightarrow> Inl p | Inr wl' \<Rightarrow> register_all st es wl')"

definition RegisterDefaults :: "stat \<Rightarrow> whitelist \<Rightarrow> gw_panic + whitelist" where
  "RegisterDefaults st wl = register_all st default_entries wl"

section \<open>What a pattern accepts\<close>

text \<open>
  The reference reading of a pattern: the sequence of validators an argument vector must
  meet position by position. A flag is a literal slot in front of the value's slot.
\<close>

definition slots :: "arg_spec \<Rightarrow> validator list" where
  "slots s = (if as_flag s \<noteq> [] then [literal (as_flag s)] else [])
             @ (case as_value s of None \<Rightarrow> [] | Some v \<Rightarrow> [v])"

definition accepts :: "validator \<Rightarrow> string \<Rightarrow> bool" where
  "accepts v a = (v a = None)"

definition pattern_slots :: "arg_spec list \<Rightarrow> validator list" where
  "pattern_slots pat = concat (map slots pat)"

lemma slots_simps [simp]:
  "slots (val v) = [v]"
  "slots (lit s) = [literal s]"
  "f \<noteq> [] \<Longrightarrow> slots (flag f) = [literal f]"
  by (simp_all add: slots_def val_def lit_def flag_def)

lemma pattern_slots_simps [simp]:
  "pattern_slots [] = []"
  "pattern_slots (s # ss) = slots s @ pattern_slots ss"
  by (simp_all add: pattern_slots_def)

lemma accepts_literal [simp]: "accepts (literal v) s \<longleftrightarrow> s = v"
  by (simp add: accepts_def literal_def)

lemma drop_step: "i < length xs \<Longrightarrow> drop i xs = xs ! i # drop (Suc i) xs"
  by (simp add: Cons_nth_drop_Suc)

lemma list_all2_slot:
  "list_all2 accepts (v # vs) (drop i args) \<longleftrightarrow>
     i < length args \<and> v (args ! i) = None \<and> list_all2 accepts vs (drop (Suc i) args)"
proof (cases "i < length args")
  case True
  then show ?thesis by (simp add: drop_step accepts_def)
next
  case False
  then show ?thesis by simp
qed

lemma match_loop_iff:
  "i \<le> length args \<Longrightarrow>
   match_loop pat i args = None \<longleftrightarrow> list_all2 accepts (pattern_slots pat) (drop i args)"
proof (induction pat i args rule: match_loop.induct)
  case (1 i args)
  then show ?case by (auto simp: list_all2_conv_all_nth)
next
  case (2 spec specs i args)
  show ?case
  proof (cases "as_flag spec = []")
    case True
    then show ?thesis
      using 2 by (auto simp: slots_def list_all2_slot split: option.splits)
  next
    case flag: False
    show ?thesis
    proof (cases "i < length args \<and> args ! i = as_flag spec")
      case True
      then have "list_all2 accepts (pattern_slots (spec # specs)) (drop i args) \<longleftrightarrow>
          list_all2 accepts ((case as_value spec of None \<Rightarrow> [] | Some v \<Rightarrow> [v]) @ pattern_slots specs)
            (drop (Suc i) args)"
        using flag by (simp add: slots_def list_all2_slot literal_def)
      with flag True 2 show ?thesis
        by (auto simp: list_all2_slot split: option.splits)
    next
      case False
      with flag 2(3) show ?thesis
        by (auto simp: slots_def list_all2_slot literal_def)
    qed
  qed
qed

lemma matchPattern_slots: "matchPattern pat args = None \<longleftrightarrow> list_all2 accepts (pattern_slots pat) args"
  using match_loop_iff [of 0 args pat] by (simp add: matchPattern_def)

lemma validate_loop_iff:
  "validate_loop ps err args = None \<longleftrightarrow>
     (\<exists>p \<in> set ps. matchPattern p args = None) \<or> (ps = [] \<and> err = None)"
  by (induction ps err args rule: validate_loop.induct) (auto split: option.splits)

lemma validateArgs_iff:
  "validateArgs e args = None \<longleftrightarrow>
     (if e_patterns e = [] then args = []
      else \<exists>p \<in> set (e_patterns e). list_all2 accepts (pattern_slots p) args)"
  by (simp add: validateArgs_def validate_loop_iff matchPattern_slots)

section \<open>What the validators let through\<close>

definition clean :: "string \<Rightarrow> bool" where
  "clean a = (\<forall>c \<in> set a. c \<notin> set shell_meta)"

lemma cleanI: "(\<And>c. c \<in> set a \<Longrightarrow> c \<notin> set shell_meta) \<Longrightarrow> clean a"
  by (simp add: clean_def)

lemma meta_classes:
  "list_all (\<lambda>c. \<not> is_alnum c \<and> \<not> is_digit c \<and> \<not> unit_char c \<and> \<not> since_char c
       \<and> c \<noteq> CHR ''-'' \<and> c \<noteq> CHR ''+'') shell_meta"
  by code_simp

lemma meta_not_class:
  "is_digit c \<Longrightarrow> c \<notin> set shell_meta"
  "unit_char c \<Longrightarrow> c \<notin> set shell_meta"
  "since_char c \<Longrightarrow> c \<notin> set shell_meta"
  "c = CHR ''-'' \<or> c = CHR ''+'' \<Longrightarrow> c \<notin> set shell_meta"
  using meta_classes by (auto simp only: list_all_iff)

lemma NoShellMeta_clean: "accepts NoShellMeta a \<Longrightarrow> clean a"
  by (auto simp: accepts_def NoShellMeta_def clean_def contains_any_iff split: if_splits)

lemma SystemdUnitName_clean: "accepts SystemdUnitName a \<Longrightarrow> clean a"
  by (auto simp: accepts_def SystemdUnitName_def list_all_iff meta_not_class(2)
      intro!: cleanI split: if_splits)

lemma JournalSince_clean: "accepts JournalSince a \<Longrightarrow> clean a"
  by (auto simp: accepts_def JournalSince_def list_all_iff meta_not_class(3)
      intro!: cleanI split: if_splits)

lemma atoi_chars:
  assumes "atoi s = Some n" and "c \<in> set s"
  shows "is_digit c \<or> c = CHR ''-'' \<or> c = CHR ''+''"
  using assms
  by (cases s) (auto simp: atoi_def is_number_def list_all_iff Let_def split: if_splits)

lemma PosInt_clean:
  assumes "accepts (PosInt mx) a"
  shows "clean a"
proof (rule cleanI)
  fix c assume c: "c \<in> set a"
  from assms obtain n where "atoi a = Some n"
    by (auto simp: accepts_def PosInt_def split: option.splits)
  from atoi_chars [OF this c] show "c \<notin> set shell_meta"
    using meta_not_class(1,4) by blast
qed

lemmas validators_clean =
  NoShellMeta_clean SystemdUnitName_clean JournalSince_clean PosInt_clean

section \<open>Registration of the default table\<close>

lemma Register_ok:
  "Register st e wl = Inr wl' \<longleftrightarrow>
     e_bin e \<noteq> [] \<and> wl (e_bin e) = None \<and>
     wl' = wl(e_bin e \<mapsto> (case first_existing st (e_candidates e) of
                               None \<Rightarrow> e | Some p \<Rightarrow> e\<lparr>e_resolved := p\<rparr>))"
  by (auto simp: Register_def Let_def)

definition resolved_of :: "entry \<Rightarrow> entry \<Rightarrow> bool" where
  "resolved_of d e = (e_bin e = e_bin d \<and> e_candidates e = e_candidates d \<and>
     e_patterns e = e_patterns d \<and> e_timeout e = e_timeout d \<and> e_max_stdout e = e_max_stdout d)"

lemma register_all_entries:
  "register_all st es wl = Inr wl' \<Longrightarrow> wl' b = Some e \<Longrightarrow>
     wl b = Some e \<or> (\<exists>d \<in> set es. e_bin d = b \<and> resolved_of d e)"
proof (induction es arbitrary: wl)
  case Nil
  then show ?case by simp
next
  case (Cons d es)
  from Cons.prems(1) obtain w where w: "Register st d wl = Inr w" "register_all st es w = Inr wl'"
    by (auto split: sum.splits)
  from Cons.IH [OF w(2) Cons.prems(2)] consider "w b = Some e"
    | "\<exists>d \<in> set es. e_bin d = b \<and> resolved_of d e" by blast
  then show ?case
    using w(1) by cases (auto simp: Register_ok resolved_of_def split: if_splits option.splits)
qed

lemma register_all_ok:
  "distinct (map e_bin es) \<Longrightarrow> (\<forall>e \<in> set es. e_bin e \<noteq> [] \<and> wl (e_bin e) = None)
   \<Longrightarrow> \<exists>wl'. register_all st es wl = Inr wl' \<and> (\<forall>b. wl' b \<noteq> None \<longleftrightarrow> wl b \<noteq> None \<or> b \<in> e_bin ` set es)"
proof (induction es arbitrary: wl)
  case Nil
  then show ?case by simp
next
  case (Cons d es)
  let ?w = "wl(e_bin d \<mapsto> (case first_existing st (e_candidates d) of
                               None \<Rightarrow> d | Some p \<Rightarrow> d\<lparr>e_resolved := p\<rparr>))"
  have "Register st d wl = Inr ?w"
    using Cons.prems by (simp add: Register_ok)
  moreover have "\<forall>e \<in> set es. e_bin e \<noteq> [] \<and> ?w (e_bin e) = None"
    using Cons.prems by (auto simp: image_iff)
  moreover obtain wl' where "register_all st es ?w = Inr wl'"
      "\<forall>b. wl' b \<noteq> None \<longleftrightarrow> ?w b \<noteq> None \<or> b \<in> e_bin ` set es"
    using Cons.IH [of ?w] Cons.prems(1) calculation(2) by (auto simp del: fun_upd_apply)
  ultimately show ?case
    by (intro exI [of _ wl']) auto
qed

lemma default_bins:
  "map e_bin default_entries =
     [''systemctl'', ''journalctl'', ''ss'', ''ip'', ''iptables'', ''docker'', ''kubectl'']"
  by (simp add: default_entries_def entry_defs)

lemma RegisterDefaults_entry:
  assumes "RegisterDefaults st Map.empty = Inr wl" and "wl b = Some e"
  shows "\<exists>d \<in> set default_entries. e_bin d = b \<and> resolved_of d e"
  using register_all_entries [of st default_entries Map.empty wl b e] assms
  by (simp add: RegisterDefaults_def)

text \<open>
  The calls the agent means to allow: for each binary, the sub-commands (or the flags) that
  only read.
\<close>

fun read_only_call :: "string \<Rightarrow> string list \<Rightarrow> bool" where
  "read_only_call bin args =
     (if bin = ''systemctl'' then args \<noteq> [] \<and> hd args \<in> {''list-units'', ''status''}
      else if bin = ''journalctl'' then
        length args = 9 \<and> args ! 0 = ''-u'' \<and> args ! 2 = ''--since'' \<and> args ! 4 = ''-n'' \<and>
        drop 6 args = [''-o'', ''json'', ''--no-pager'']
      else if bin = ''ss'' then args \<in> {[''-tulpn''], [''-tan''], [''-uan'']}
      else if bin = ''ip'' then
        args \<in> {[''-json'', ''addr''], [''-json'', ''link''], [''-json'', ''route''], [''-json'', ''neigh'']}
      else if bin = ''iptables'' then args = [''-L'', ''-n'', ''-v'']
      else if bin = ''docker'' then args \<noteq> [] \<and> hd args \<in> {''ps'', ''inspect'', ''logs''}
      else if bin = ''kubectl'' then args \<noteq> [] \<and> hd args \<in> {''get'', ''describe'', ''logs''}
      else False)"

declare read_only_call.simps [simp del]

text \<open>Every slot of the default table lets clean arguments through only.\<close>

definition slot_clean :: "validator \<Rightarrow> bool" where
  "slot_clean v = (\<forall>a. accepts v a \<longrightarrow> clean a)"

lemma slot_clean_validators [simp]:
  "slot_clean NoShellMeta"
  "slot_clean SystemdUnitName"
  "slot_clean JournalSince"
  "slot_clean (PosInt mx)"
  by (simp_all add: slot_clean_def validators_clean)

lemma slot_clean_literal: "slot_clean (literal s) \<longleftrightarrow> list_all (\<lambda>c. c \<notin> set shell_meta) s"
  by (simp add: slot_clean_def clean_def list_all_iff)

lemma slots_clean:
  assumes "list_all2 accepts vs args" and "list_all slot_clean vs"
  shows "list_all clean args"
  using assms by (induction rule: list_all2_induct) (auto simp: slot_clean_def)

lemma default_slots_clean:
  "list_all (\<lambda>d. list_all (\<lambda>p. list_all slot_clean (pattern_slots p)) (e_patterns d)) default_entries"
  by (simp add: default_entries_def entry_defs slot_clean_literal shell_meta_def)

lemmas pattern_cases = list_all2_Cons1 read_only_call.simps

lemma pattern_read_only:
  "p \<in> set (e_patterns systemctl_entry) \<Longrightarrow> list_all2 accepts (pattern_slots p) args
   \<Longrightarrow> read_only_call ''systemctl'' args"
  "p \<in> set (e_patterns journalctl_entry) \<Longrightarrow> list_all2 accepts (pattern_slots p) args
   \<Longrightarrow> read_only_call ''journalctl'' args"
  "p \<in> set (e_patterns ss_entry) \<Longrightarrow> list_all2 accepts (pattern_slots p) args
   \<Longrightarrow> read_only_call ''ss'' args"
  "p \<in> set (e_patterns ip_entry) \<Longrightarrow> list_all2 accepts (pattern_slots p) args
   \<Longrightarrow> read_only_call ''ip'' args"
  "p \<in> set (e_patterns iptables_entry) \<Longrightarrow> list_all2 accepts (pattern_slots p) args
   \<Longrightarrow> read_only_call ''iptables'' args"
  "p \<in> set (e_patterns docker_entry) \<Longrightarrow> list_all2 accepts (pattern_slots p) args
   \<Longrightarrow> read_only_call ''docker'' args"
  "p \<in> set (e_patterns kubectl_entry) \<Longrightarrow> list_all2 accepts (pattern_slots p) args
   \<Longrightarrow> read_only_call ''kubectl'' args"
  by (auto simp: entry_defs pattern_cases)

text \<open>Every pattern of the default table admits read-only calls without metacharacters only.\<close>

lemma default_pattern_safe:
  assumes "d \<in> set default_entries" and "p \<in> set (e_patterns d)"
    and "list_all2 accepts (pattern_slots p) args"
  shows "read_only_call (e_bin d) args \<and> list_all clean args"
proof
  have "list_all slot_clean (pattern_slots p)"
    using default_slots_clean assms(1,2) unfolding list_all_iff by blast
  with assms(3) show "list_all clean args" by (rule slots_clean)
  have "e_bin systemctl_entry = ''systemctl''" "e_bin journalctl_entry = ''journalctl''"
    "e_bin ss_entry = ''ss''" "e_bin ip_entry = ''ip''" "e_bin iptables_entry = ''iptables''"
    "e_bin docker_entry = ''docker''" "e_bin kubectl_entry = ''kubectl''"
    by (simp_all add: entry_defs)
  then show "read_only_call (e_bin d) args"
    using assms pattern_read_only [of p args] by (auto simp: default_entries_def)
qed

lemma default_entries_shape:
  "list_all (\<lambda>d. e_patterns d \<noteq> [] \<and> e_candidates d \<noteq> [] \<and> 0 < e_timeout d
       \<and> e_timeout d \<le> 30 * 10 ^ 9) default_entries"
  by (simp add: default_entries_def entry_defs)

section \<open>Properties\<close>

lemma run_plan_spawn:
  assumes "run_plan st wl bin args = Inr (Inr (sp, e))"
  shows "wl bin = Some e \<and> validateArgs e args = None \<and> sp_args sp = args \<and> sp_timeout sp = e_timeout e
    \<and> (e_candidates e \<noteq> [] \<longrightarrow> sp_path sp \<in> set (e_candidates e) \<and> st (sp_path sp) = Some False)"
  using assms
  by (auto simp: run_plan_def first_existing_def find_Some_iff split: option.splits if_splits)

lemma spawn_read_only:
  assumes "RegisterDefaults st0 Map.empty = Inr wl"
    and "run_plan st wl bin args = Inr (Inr (sp, e))"
  shows "(\<exists>d \<in> set default_entries. e_bin d = bin \<and> e_candidates d = e_candidates e) \<and> read_only_call bin (sp_args sp) \<and> sp_args sp = args \<and> list_all clean args
    \<and> sp_path sp \<in> set (e_candidates e) \<and> st (sp_path sp) = Some False
    \<and> 0 < sp_timeout sp \<and> sp_timeout sp \<le> 30 * 10 ^ 9"
proof -
  note sp = run_plan_spawn [OF assms(2)]
  then obtain d where d: "d \<in> set default_entries" "e_bin d = bin" "resolved_of d e"
    using RegisterDefaults_entry [OF assms(1)] by blast
  have shape: "e_patterns d \<noteq> []" "e_candidates d \<noteq> []" "0 < e_timeout d" "e_timeout d \<le> 30 * 10 ^ 9"
    using default_entries_shape d(1) unfolding list_all_iff by blast+
  then obtain p where "p \<in> set (e_patterns d)" "list_all2 accepts (pattern_slots p) args"
    using sp d(3) by (auto simp: validateArgs_iff resolved_of_def)
  with default_pattern_safe [OF d(1)] d(2) have "read_only_call bin args \<and> list_all clean args" by blast
  with sp shape d show ?thesis by (auto simp: resolved_of_def)
qed

text \<open>
  C1: Once the default table is registered, every process the gateway starts is a call of
  the read-only repertoire (listing units, reading the journal, listing sockets, addresses,
  rules, containers or cluster objects), with the very arguments asked for, none of which
  holds a shell metacharacter, from one of the fixed absolute paths and with a deadline of
  at most 30 seconds; whatever the file system holds.
\<close>
theorem exec_spawns_read_only:
  assumes "RegisterDefaults st0 Map.empty = Inr wl"
    and "run_plan st wl bin args = Inr (Inr (sp, e))"
  shows "read_only_call bin (sp_args sp) \<and> sp_args sp = args \<and> list_all clean args
    \<and> sp_path sp \<in> set (e_candidates e) \<and> st (sp_path sp) = Some False
    \<and> 0 < sp_timeout sp \<and> sp_timeout sp \<le> 30 * 10 ^ 9"
  using spawn_read_only [OF assms] by blast

text \<open>The default table, as it is registered on a host that has no binary at all.\<close>

definition bare_stat :: stat where
  "bare_stat p = None"

definition usr_bin_stat :: stat where
  "usr_bin_stat p = (if has_prefix p ''/usr/bin/'' then Some False else None)"

definition default_whitelist :: whitelist where
  "default_whitelist = map_of (map (\<lambda>d. (e_bin d, d)) default_entries)"

lemma RegisterDefaults_bare: "RegisterDefaults bare_stat Map.empty = Inr default_whitelist"
proof -
  have none: "first_existing bare_stat ps = None" for ps
    by (induction ps) (simp_all add: first_existing_def bare_stat_def)
  show ?thesis
    by (simp add: RegisterDefaults_def default_entries_def Register_def none entry_defs
        default_whitelist_def fun_eq_iff)
qed

lemma plan_docker_ps:
  "run_plan usr_bin_stat default_whitelist ''docker''
     [''logs'', ''--tail'', ''50'', ''--timestamps'', ''web-1''] =
   Inr (Inr (\<lparr>sp_path = ''/usr/bin/docker'',
              sp_args = [''logs'', ''--tail'', ''50'', ''--timestamps'', ''web-1''],
              sp_timeout = 15 * 10 ^ 9\<rparr>, docker_entry))"
proof -
  have "accepts (PosInt 10000) ''50''" by code_simp
  moreover have "accepts NoShellMeta ''web-1''" by code_simp
  ultimately have v: "validateArgs docker_entry [''logs'', ''--tail'', ''50'', ''--timestamps'', ''web-1''] = None"
    unfolding validateArgs_iff by (simp add: docker_entry_def)
  have "default_whitelist ''docker'' = Some docker_entry"
    by (simp add: default_whitelist_def default_entries_def entry_defs)
  then show ?thesis
    by (simp add: run_plan_def v) (simp add: docker_entry_def first_existing_def usr_bin_stat_def has_prefix_def)
qed

lemma exec_spawns_read_only_witness:
  "read_only_call ''docker'' [''logs'', ''--tail'', ''50'', ''--timestamps'', ''web-1'']
   \<and> usr_bin_stat ''/usr/bin/docker'' = Some False"
  using exec_spawns_read_only [OF RegisterDefaults_bare plan_docker_ps] by simp

text \<open>
  \<open>validateArgs\<close> accepts an argument vector exactly when it matches, position by
  position and in full length, the slots of one of the entry's patterns (and no argument at
  all when the entry has none): the cursor loop of \<open>matchPattern\<close> and its early returns
  decide the same relation as the element-wise reference.
\<close>
theorem validateArgs_reference:
  "validateArgs e args = None \<longleftrightarrow>
     (if e_patterns e = [] then args = []
      else \<exists>p \<in> set (e_patterns e). list_all2 accepts (pattern_slots p) args)"
  by (rule validateArgs_iff)

lemma has_prefix_take: "has_prefix s (take n s)"
  unfolding has_prefix_iff by (metis append_take_drop_id)

lemma run_finish_over:
  assumes "max_stdout e < int (length out)" and "0 < max_stdout e"
  shows "run_finish e (Ran out err code w dur) =
    (\<lparr>x_stdout = take (nat (max_stdout e)) out, x_stderr = err, x_exit = code, x_duration = dur\<rparr>,
     Some StdoutTruncated)"
proof -
  have "nat (max_stdout e) < length (take (nat (max_stdout e) + 1) out)" using assms by simp
  then show ?thesis by (simp add: Let_def min_def)
qed

lemma run_finish_under:
  assumes "\<not> max_stdout e < int (length out)"
  shows "run_finish e (Ran out err code w dur) =
    (\<lparr>x_stdout = out, x_stderr = err, x_exit = code, x_duration = dur\<rparr>,
     case w of WaitError m \<Rightarrow> Some (OsError m) | _ \<Rightarrow> None)"
proof -
  have l: "length out \<le> nat (max_stdout e)" using assms by linarith
  then have "take (nat (max_stdout e) + 1) out = out" "\<not> nat (max_stdout e) < length out" by simp_all
  then show ?thesis by (simp add: Let_def split: wait_outcome.splits)
qed

text \<open>
  Whatever the child process prints, \<open>Run\<close> returns at most the entry's cap of bytes of
  its standard output, a prefix of it; the truncation error is reported exactly when bytes
  were dropped, and then it takes precedence over the outcome of \<open>Wait\<close>; a non-zero exit
  code alone is no error.
\<close>
theorem run_stdout_bounded:
  "run_finish e (Ran out err code w dur) = (res, me) \<Longrightarrow>
   int (length (x_stdout res)) \<le> max_stdout e \<and> has_prefix out (x_stdout res)
   \<and> (me = Some StdoutTruncated \<longleftrightarrow> max_stdout e < int (length out))
   \<and> (int (length out) \<le> max_stdout e \<longrightarrow> x_stdout res = out
        \<and> (me = None \<longleftrightarrow> w = WaitOk \<or> w = WaitExit)) \<and> x_exit res = code"
proof -
  assume h: "run_finish e (Ran out err code w dur) = (res, me)"
  have pos: "0 < max_stdout e" by (simp add: max_stdout_def defaultMaxStdoutBytes_def)
  show ?thesis
  proof (cases "max_stdout e < int (length out)")
    case True
    with h run_finish_over [OF True pos] pos show ?thesis
      by (auto simp: has_prefix_take)
  next
    case False
    with h run_finish_under [of e out] show ?thesis
      by (auto simp: has_prefix_def split: wait_outcome.splits)
  qed
qed

lemma run_stdout_bounded_witness:
  "x_stdout (fst (run_finish (\<lparr>e_bin = ''ss'', e_candidates = [], e_patterns = [], e_timeout = 0,
       e_max_stdout = 3, e_resolved = []\<rparr>) (Ran ''abcde'' [] 0 WaitOk 7))) = ''abc''
   \<and> int (length ''abc'') \<le> 3"
proof -
  let ?e = "\<lparr>e_bin = ''ss'', e_candidates = [], e_patterns = [], e_timeout = 0,
       e_max_stdout = 3, e_resolved = []\<rparr> :: entry"
  let ?r = "\<lparr>x_stdout = ''abc'', x_stderr = [], x_exit = 0, x_duration = 7\<rparr> :: exec_result"
  have eq: "run_finish ?e (Ran ''abcde'' [] 0 WaitOk 7) = (?r, Some StdoutTruncated)"
    by (simp add: max_stdout_def)
  from run_stdout_bounded [OF eq] eq show ?thesis by simp
qed

text \<open>
  The default table registers from an empty whitelist on every host, whichever binaries
  exist, it then holds exactly the seven binaries of the table, and registering it a second
  time panics: the table cannot be overwritten at run time.
\<close>
theorem register_defaults_once:
  "\<exists>wl. RegisterDefaults st Map.empty = Inr wl
     \<and> dom wl = {''systemctl'', ''journalctl'', ''ss'', ''ip'', ''iptables'', ''docker'', ''kubectl''}
     \<and> RegisterDefaults st' wl = Inl (DuplicateEntry ''systemctl'')"
proof -
  have "distinct (map e_bin default_entries)" "\<forall>e \<in> set default_entries. e_bin e \<noteq> []"
    by (simp_all add: default_entries_def entry_defs)
  then obtain wl where wl: "register_all st default_entries Map.empty = Inr wl"
    "\<forall>b. wl b \<noteq> None \<longleftrightarrow> b \<in> e_bin ` set default_entries"
    using register_all_ok [of default_entries Map.empty st] by auto
  have bins: "e_bin ` set default_entries =
      {''systemctl'', ''journalctl'', ''ss'', ''ip'', ''iptables'', ''docker'', ''kubectl''}"
    using arg_cong [OF default_bins, of set] by simp
  have "''systemctl'' \<in> e_bin ` set default_entries" unfolding bins by simp
  with wl(2) have "wl ''systemctl'' \<noteq> None" by simp
  then have "Register st' systemctl_entry wl = Inl (DuplicateEntry ''systemctl'')"
    by (simp add: Register_def systemctl_entry_def)
  then have "register_all st' default_entries wl = Inl (DuplicateEntry ''systemctl'')"
    by (simp add: default_entries_def)
  moreover have "dom wl = e_bin ` set default_entries" using wl(2) by (simp add: dom_def)
  ultimately show ?thesis using wl(1) unfolding RegisterDefaults_def bins by blast
qed

end
