(* ===== verification/Json_Text.thy ===== *)
theory Json_Text
  imports Json
begin

text \<open>
  \<open>encoding/json\<close> on bytes: the values a text denotes. The text is cut into tokens by an
  automaton that reads one byte at a time, and the tokens are read by an automaton with a
  stack, as the package's own scanner does, so both recursions are structural and no fuel is
  needed. Integers keep their value and other numbers their text; escapes are decoded, and
  bytes beyond ASCII are taken as they are (the package replaces those that are not UTF-8).
  The package's limit of ten thousand nested values is not modelled.
\<close>

section \<open>Strings\<close>

text \<open>A string literal is a sequence of bytes and of 16-bit units written \<open>\uXXXX\<close>.\<close>

datatype str_item = SByte char | SUnit int

definition byte :: "int \<Rightarrow> char" where
  "byte n = char_of n"

definition utf8 :: "int \<Rightarrow> string" where
  "utf8 n =
     (if n < 0x80 then [byte n]
      else if n < 0x800 then [byte (0xC0 + n div 64), byte (0x80 + n mod 64)]
      else if n < 0x10000 then
        [byte (0xE0 + n div 4096), byte (0x80 + n div 64 mod 64), byte (0x80 + n mod 64)]
      else
        [byte (0xF0 + n div 262144), byte (0x80 + n div 4096 mod 64),
         byte (0x80 + n div 64 mod 64), byte (0x80 + n mod 64)])"

definition high_surrogate :: "int \<Rightarrow> bool" where
  "high_surrogate n = (0xD800 \<le> n \<and> n < 0xDC00)"

definition low_surrogate :: "int \<Rightarrow> bool" where
  "low_surrogate n = (0xDC00 \<le> n \<and> n < 0xE000)"

fun str_bytes :: "str_item list \<Rightarrow> string" where
  "str_bytes [] = []"
| "str_bytes (SByte c # xs) = c # str_bytes xs"
| "str_bytes (SUnit h # SUnit l # xs) =
     (if high_surrogate h \<and> low_surrogate l
      then utf8 (0x10000 + (h - 0xD800) * 0x400 + (l - 0xDC00)) @ str_bytes xs
      else utf8 (if high_surrogate h \<or> low_surrogate h then 0xFFFD else h) @ str_bytes (SUnit l # xs))"
| "str_bytes (SUnit h # xs) =
     utf8 (if high_surrogate h \<or> low_surrogate h then 0xFFFD else h) @ str_bytes xs"

definition hex_code :: "char \<Rightarrow> int option" where
  "hex_code c =
     (if is_digit c then Some (of_char c - 48)
      else if CHR ''a'' \<le> c \<and> c \<le> CHR ''f'' then Some (of_char c - 87)
      else if CHR ''A'' \<le> c \<and> c \<le> CHR ''F'' then Some (of_char c - 55)
      else None)"

fun escape_byte :: "char \<Rightarrow> char option" where
  "escape_byte c =
     (if c \<in> {CHR 0x22, CHR 0x5C, CHR ''/''} then Some c
      else if c = CHR ''b'' then Some (CHR 0x08)
      else if c = CHR ''f'' then Some (CHR 0x0C)
      else if c = CHR ''n'' then Some (CHR 0x0A)
      else if c = CHR ''r'' then Some (CHR 0x0D)
      else if c = CHR ''t'' then Some (CHR 0x09)
      else None)"

section \<open>Numbers and words\<close>

definition number_char :: "char \<Rightarrow> bool" where
  "number_char c = (is_digit c \<or> c \<in> set ''+-.eE'')"

definition valid_exponent :: "string \<Rightarrow> bool" where
  "valid_exponent s =
     (case s of
        [] \<Rightarrow> True
      | c # t \<Rightarrow> c \<in> set ''eE'' \<and>
          is_number (case t of [] \<Rightarrow> [] | d # u \<Rightarrow> if d \<in> set ''+-'' then u else t))"

definition valid_fraction :: "string \<Rightarrow> bool" where
  "valid_fraction s =
     (case s of
        [] \<Rightarrow> True
      | c # t \<Rightarrow> if c = CHR ''.'' then takeWhile is_digit t \<noteq> [] \<and> valid_exponent (dropWhile is_digit t)
                 else valid_exponent s)"

definition number_json :: "string \<Rightarrow> json option" where
  "number_json s =
     (let r = trim_prefix s ''-''; ip = takeWhile is_digit r; rest = dropWhile is_digit r
      in if ip = [] \<or> (1 < length ip \<and> ip ! 0 = CHR ''0'') \<or> \<not> valid_fraction rest then None
         else if rest = [] then
           Some (JInt (if has_prefix s ''-'' then - int (digits_val ip) else int (digits_val ip)))
         else Some (JFrac s))"

definition word_json :: "string \<Rightarrow> json option" where
  "word_json s =
     (if s = ''null'' then Some JNull else if s = ''true'' then Some (JBool True)
      else if s = ''false'' then Some (JBool False) else None)"

section \<open>Tokens\<close>

datatype token = TObj | TObjEnd | TArr | TArrEnd | TColon | TComma | TVal json

datatype lex_mode =
    Plain
  | InStr "str_item list"
  | InEsc "str_item list"
  | InHex "str_item list" int nat
  | InNum string
  | InWord string

definition json_space :: "char \<Rightarrow> bool" where
  "json_space c = (c \<in> {CHR '' '', CHR 0x09, CHR 0x0A, CHR 0x0D})"

definition lex_start :: "char \<Rightarrow> (lex_mode \<times> token list) option" where
  "lex_start c =
     (if json_space c then Some (Plain, [])
      else if c = CHR ''{'' then Some (Plain, [TObj])
      else if c = CHR ''}'' then Some (Plain, [TObjEnd])
      else if c = CHR ''['' then Some (Plain, [TArr])
      else if c = CHR '']'' then Some (Plain, [TArrEnd])
      else if c = CHR '':'' then Some (Plain, [TColon])
      else if c = CHR '','' then Some (Plain, [TComma])
      else if c = CHR 0x22 then Some (InStr [], [])
      else if is_digit c \<or> c = CHR ''-'' then Some (InNum [c], [])
      else if is_lower c then Some (InWord [c], [])
      else None)"

text \<open>The tokens of a text; string items are gathered last first.\<close>

fun lex :: "lex_mode \<Rightarrow> string \<Rightarrow> token list option" where
  "lex Plain [] = Some []"
| "lex (InNum a) [] = map_option (\<lambda>v. [TVal v]) (number_json a)"
| "lex (InWord a) [] = map_option (\<lambda>v. [TVal v]) (word_json a)"
| "lex (InStr its) [] = None"
| "lex (InEsc its) [] = None"
| "lex (InHex its n k) [] = None"
| "lex Plain (c # cs) =
     (case lex_start c of None \<Rightarrow> None | Some (m, ts) \<Rightarrow> map_option (\<lambda>r. ts @ r) (lex m cs))"
| "lex (InNum a) (c # cs) =
     (if number_char c then lex (InNum (a @ [c])) cs
      else (case (number_json a, lex_start c) of
              (Some v, Some (m, ts)) \<Rightarrow> map_option (\<lambda>r. TVal v # ts @ r) (lex m cs)
            | _ \<Rightarrow> None))"
| "lex (InWord a) (c # cs) =
     (if is_lower c then lex (InWord (a @ [c])) cs
      else (case (word_json a, lex_start c) of
              (Some v, Some (m, ts)) \<Rightarrow> map_option (\<lambda>r. TVal v # ts @ r) (lex m cs)
            | _ \<Rightarrow> None))"
| "lex (InStr its) (c # cs) =
     (if c = CHR 0x22 then map_option (\<lambda>r. TVal (JStr (str_bytes (rev its))) # r) (lex Plain cs)
      else if c = CHR 0x5C then lex (InEsc its) cs
      else if of_char c < (0x20 :: int) then None
      else lex (InStr (SByte c # its)) cs)"
| "lex (InEsc its) (c # cs) =
     (if c = CHR ''u'' then lex (InHex its 0 4) cs
      else (case escape_byte c of None \<Rightarrow> None | Some b \<Rightarrow> lex (InStr (SByte b # its)) cs))"
| "lex (InHex its n k) (c # cs) =
     (case hex_code c of
        None \<Rightarrow> None
      | Some d \<Rightarrow> if k \<le> 1 then lex (InStr (SUnit (n * 16 + d) # its)) cs
                  else lex (InHex its (n * 16 + d) (k - 1)) cs)"

section \<open>Values\<close>

datatype frame = FArr "json list" | FObj "(string \<times> json) list" string

datatype parse_mode =
    WantValue
  | WantItem
  | WantMember
  | WantKey "(string \<times> json) list"
  | WantColon "(string \<times> json) list" string
  | HaveValue json

text \<open>\<open>WantItem\<close> and \<open>WantMember\<close> follow an opening bracket, which may close at once.\<close>

definition begin_value :: "frame list \<Rightarrow> token \<Rightarrow> (parse_mode \<times> frame list) option" where
  "begin_value st t =
     (case t of
        TVal v \<Rightarrow> Some (HaveValue v, st)
      | TArr \<Rightarrow> Some (WantItem, st)
      | TObj \<Rightarrow> Some (WantMember, st)
      | _ \<Rightarrow> None)"

fun parse_step :: "parse_mode \<Rightarrow> frame list \<Rightarrow> token \<Rightarrow> (parse_mode \<times> frame list) option" where
  "parse_step WantValue st t = begin_value st t"
| "parse_step WantItem st t =
     (if t = TArrEnd then Some (HaveValue (JArr []), st) else begin_value (FArr [] # st) t)"
| "parse_step WantMember st t =
     (case t of
        TObjEnd \<Rightarrow> Some (HaveValue (JObj []), st)
      | TVal (JStr k) \<Rightarrow> Some (WantColon [] k, st)
      | _ \<Rightarrow> None)"
| "parse_step (WantKey kvs) st t =
     (case t of TVal (JStr k) \<Rightarrow> Some (WantColon kvs k, st) | _ \<Rightarrow> None)"
| "parse_step (WantColon kvs k) st t =
     (if t = TColon then Some (WantValue, FObj kvs k # st) else None)"
| "parse_step (HaveValue v) st t =
     (case st of
        [] \<Rightarrow> None
      | FArr vs # st' \<Rightarrow>
          if t = TComma then Some (WantValue, FArr (vs @ [v]) # st')
          else if t = TArrEnd then Some (HaveValue (JArr (vs @ [v])), st')
          else None
      | FObj kvs k # st' \<Rightarrow>
          if t = TComma then Some (WantKey (kvs @ [(k, v)]), st')
          else if t = TObjEnd then Some (HaveValue (JObj (kvs @ [(k, v)])), st')
          else None)"

fun parse_tokens :: "parse_mode \<Rightarrow> frame list \<Rightarrow> token list \<Rightarrow> json option" where
  "parse_tokens m st [] = (case (m, st) of (HaveValue v, []) \<Rightarrow> Some v | _ \<Rightarrow> None)"
| "parse_tokens m st (t # ts) =
     (case parse_step m st t of None \<Rightarrow> None | Some (m', st') \<Rightarrow> parse_tokens m' st' ts)"

definition parse_json :: "bytes \<Rightarrow> json option" where
  "parse_json s = (case lex Plain s of None \<Rightarrow> None | Some ts \<Rightarrow> parse_tokens WantValue [] ts)"

definition text_json :: "bytes \<Rightarrow> jtext" where
  "text_json s = (case parse_json s of None \<Rightarrow> JInvalid s | Some v \<Rightarrow> JText v)"

section \<open>Decoding into structs and slices\<close>

text \<open>A struct is decoded by the members of an object, in the order of its fields.\<close>

definition dec_struct :: "('a \<Rightarrow> (string \<times> json) list \<Rightarrow> 'a \<times> bool) \<Rightarrow> 'a agg_decoder" where
  "dec_struct d old v =
     (case v of JNull \<Rightarrow> (old, True) | JObj kvs \<Rightarrow> d old kvs | _ \<Rightarrow> (old, False))"

fun dec_each :: "'a agg_decoder \<Rightarrow> 'a \<Rightarrow> json list \<Rightarrow> 'a list \<times> bool" where
  "dec_each d zero [] = ([], True)"
| "dec_each d zero (v # vs) =
     (let (x, ok) = d zero v; (rest, ok') = dec_each d zero vs in (x # rest, ok \<and> ok'))"

definition dec_slice :: "'a agg_decoder \<Rightarrow> 'a \<Rightarrow> 'a list agg_decoder" where
  "dec_slice d zero old v =
     (case v of JNull \<Rightarrow> ([], True) | JArr vs \<Rightarrow> dec_each d zero vs | _ \<Rightarrow> (old, False))"

text \<open>\<open>json.Unmarshal\<close> of bytes: the value decoded as far as possible, and whether it went well.\<close>

definition unmarshal :: "'a agg_decoder \<Rightarrow> 'a \<Rightarrow> bytes \<Rightarrow> 'a \<times> bool" where
  "unmarshal d zero s = (case parse_json s of None \<Rightarrow> (zero, False) | Some v \<Rightarrow> d zero v)"

lemma length_dec_each [simp]: "length (fst (dec_each d zero vs)) = length vs"
  by (induction vs) (auto split: prod.splits)

section \<open>Examples of texts\<close>

lemma parse_json_examples:
  "parse_json ''{ \"a\" : [1, -2.5e3 ,true], \"b\":null}'' =
     Some (JObj [(''a'', JArr [JInt 1, JFrac ''-2.5e3'', JBool True]), (''b'', JNull)])"
  "parse_json ''[01]'' = None"
  "parse_json ''[1,]'' = None"
  "parse_json ''{\"a\":1} {}'' = None"
  "parse_json ([CHR 0x22, CHR 0x5C] @ ''u0041'' @ [CHR 0x5C] @ ''n'' @ [CHR 0x22]) = Some (JStr [CHR ''A'', CHR 0x0A])"
  by code_simp+

end
