(* ===== verification/Agent_Probe.thy ===== *)
theory Agent_Probe
  imports Exec_Gateway Json_Text State_Programs "HOL-Library.Word"
begin

text \<open>
  What a collector of the agent sees and does. The host is a parameter that answers each
  call of the operating system; it may answer differently from one call to the next, so the
  state holds the sequence of its answers and the number of calls made so far. The calls a
  collector makes are recorded in the order it makes them: \<open>pr_log\<close> is a history that no
  operation reads. A collector's \<open>Run\<close> ends with a result, with an error, or with the panic
  of the exec gateway.
\<close>

section \<open>The host\<close>

text \<open>
  A file as a reader sees it: the size \<open>Stat\<close> reports (or its error), the bytes, and the
  error that ends them early, if one does.
\<close>

record opened =
  op_size :: "string + int"
  op_bytes :: bytes
  op_fail :: "string option"

record fs_usage =
  fu_bsize :: "64 word"
  fu_blocks :: "64 word"
  fu_bfree :: "64 word"
  fu_bavail :: "64 word"
  fu_files :: "64 word"
  fu_ffree :: "64 word"

record machine =
  w_stat :: stat
  w_proc :: "spawn \<Rightarrow> proc_outcome"
  w_lstat :: "string \<Rightarrow> string + bool"
  w_real :: "string \<Rightarrow> string + string"
  w_open :: "string \<Rightarrow> string + opened"
  w_dir :: "string \<Rightarrow> string + string list"
  w_statfs :: "string \<Rightarrow> fs_usage option"
  w_dial :: "string \<Rightarrow> int \<Rightarrow> string option \<times> int"
  w_addrs :: "string \<Rightarrow> int \<Rightarrow> (string + string list) \<times> int"
  w_cname :: "string \<Rightarrow> int \<Rightarrow> string option"
  w_hostname :: string
  w_uname :: "string option"
  w_cpus :: int

text \<open>The calls that reach out of the process.\<close>

datatype touch =
    Spawned spawn
  | Opened string
  | Listed string
  | Linked string
  | Measured string
  | Dialled string
  | Resolved string

record probe =
  pr_world :: "nat \<Rightarrow> machine"
  pr_now :: nat
  pr_wl :: whitelist
  pr_log :: "touch list"

type_synonym 'a pm = "(probe, 'a) state"

definition call_host :: "touch list \<Rightarrow> (machine \<Rightarrow> 'a) \<Rightarrow> 'a pm" where
  "call_host ts f = State (\<lambda>s.
     (f (pr_world s (pr_now s)), s\<lparr>pr_now := pr_now s + 1, pr_log := pr_log s @ ts\<rparr>))"

section \<open>Outcomes\<close>

text \<open>
  An error value: a text of its own, a text in front of another error (\<open>%w\<close>), an error of the
  gateway, what \<open>json.Unmarshal\<close> says of some bytes, a text with quoted names, or the panic a recovery turned into an error. Errors of the standard library are
  their texts.
\<close>

datatype cerr =
    Msg string
  | Wrap string cerr
  | GatewayErr exec_err
  | JsonErr bytes
  | Quoting "(string \<times> string) list" string
  | PanicErr gw_panic

datatype 'a outcome = Got 'a | Failed cerr | Panicked gw_panic

definition chain :: "'a outcome pm \<Rightarrow> ('a \<Rightarrow> 'b outcome pm) \<Rightarrow> 'b outcome pm" where
  "chain m f = do {
     r \<leftarrow> m;
     (case r of Got x \<Rightarrow> f x | Failed e \<Rightarrow> return (Failed e) | Panicked p \<Rightarrow> return (Panicked p))
   }"

text \<open>\<open>errors.Is\<close> with a sentinel of the \<open>context\<close> package, which its text identifies.\<close>

fun root_cause :: "cerr \<Rightarrow> cerr" where
  "root_cause (Wrap m e) = root_cause e"
| "root_cause e = e"

definition deadline_exceeded :: cerr where
  "deadline_exceeded = GatewayErr (OsError ''context deadline exceeded'')"

definition context_canceled :: cerr where
  "context_canceled = GatewayErr (OsError ''context canceled'')"

section \<open>The gateway as a collector calls it\<close>

definition spawned :: "machine \<Rightarrow> whitelist \<Rightarrow> string \<Rightarrow> string list \<Rightarrow> touch list" where
  "spawned w wl bin args =
     (case run_plan (w_stat w) wl bin args of Inr (Inr (sp, _)) \<Rightarrow> [Spawned sp] | _ \<Rightarrow> [])"

text \<open>\<open>exec.Run\<close>: the result and the error are both returned, or the call panics.\<close>

definition exec_run :: "string \<Rightarrow> string list \<Rightarrow> (exec_result \<times> exec_err option) outcome pm" where
  "exec_run bin args = State (\<lambda>s.
     let w = pr_world s (pr_now s)
     in (case Run (w_stat w) (w_proc w) (pr_wl s) bin args of Inl p \<Rightarrow> Panicked p | Inr r \<Rightarrow> Got r,
         s\<lparr>pr_now := pr_now s + 1, pr_log := pr_log s @ spawned w (pr_wl s) bin args\<rparr>))"

text \<open>The common use: any error ends the collector, with a text in front of it.\<close>

definition command :: "string \<Rightarrow> string \<Rightarrow> string list \<Rightarrow> exec_result outcome pm" where
  "command what bin args = chain (exec_run bin args) (\<lambda>(res, e).
     case e of None \<Rightarrow> return (Got res) | Some x \<Rightarrow> return (Failed (Wrap what (GatewayErr x))))"

definition ReadFile :: "string \<Rightarrow> (string + bytes) pm" where
  "ReadFile path = call_host [Opened path] (\<lambda>w.
     case w_open w path of
       Inl e \<Rightarrow> Inl e
     | Inr f \<Rightarrow> (case op_fail f of None \<Rightarrow> Inr (op_bytes f) | Some e \<Rightarrow> Inl e))"

section \<open>Lines of a reader\<close>

text \<open>
  \<open>bufio.Scanner\<close> with a buffer of \<open>mx\<close> bytes: the lines without their end, a final empty line
  dropped; it stops before the first line that does not fit the buffer, which is its error.
\<close>

definition drop_cr :: "string \<Rightarrow> string" where
  "drop_cr l = (if has_suffix l [CHR 0x0D] then take (length l - 1) l else l)"

fun token_lines :: "int \<Rightarrow> string list \<Rightarrow> string list \<times> bool" where
  "token_lines mx [] = ([], True)"
| "token_lines mx (l # ls) =
     (if ls = [] \<and> l = [] then ([], True)
      else if mx \<le> int (length l) then ([], False)
      else (case token_lines mx ls of (rest, ok) \<Rightarrow> (drop_cr l # rest, ok)))"

definition second :: int where
  "second = 10 ^ 9"

definition newline :: char where
  "newline = CHR 0x0A"

definition max_token :: int where
  "max_token = 64 * 1024"

definition scanner :: "int \<Rightarrow> bytes \<Rightarrow> string list \<times> bool" where
  "scanner mx b = token_lines mx (split_on newline b)"

section \<open>Collectors\<close>

datatype capability =
    CapSudoJournalctl | CapSudoSS | CapSudoIptables | CapDACReadSearch | CapNetRaw

record param_spec =
  ps_name :: string
  ps_type :: string
  ps_required :: bool
  ps_default :: string
  ps_description :: string

record probe_manifest =
  pm_name :: string
  pm_version :: string
  pm_category :: string
  pm_description :: string
  pm_reads :: "string list"
  pm_requires :: "capability list"
  pm_params :: "param_spec list"

record probe_hint =
  hn_severity :: string
  hn_code :: string
  hn_message :: string
  hn_evidence :: json

record probe_artifact =
  at_name :: string
  at_mime :: string
  at_body :: bytes

record probe_result =
  cr_data :: json
  cr_artifacts :: "probe_artifact list"
  cr_hints :: "probe_hint list"
  cr_stderr :: string
  cr_exit :: int

definition no_result :: probe_result where
  "no_result = \<lparr>cr_data = JNull, cr_artifacts = [], cr_hints = [], cr_stderr = [], cr_exit = 0\<rparr>"

text \<open>A collector: its manifest, its \<open>Available\<close> if it has one, and its \<open>Run\<close>.\<close>

record collector =
  co_manifest :: probe_manifest
  co_available :: "(stat \<Rightarrow> whitelist \<Rightarrow> bool) option"
  co_run :: "strmap \<Rightarrow> probe_result outcome pm"

abbreviation co_name :: "collector \<Rightarrow> string" where
  "co_name c \<equiv> pm_name (co_manifest c)"

definition param :: "strmap \<Rightarrow> string \<Rightarrow> string" where
  "param p k = (case map_of p k of None \<Rightarrow> [] | Some v \<Rightarrow> v)"

text \<open>An integer parameter: the fallback when it is missing, not a number or out of \<open>[1, mx]\<close>.\<close>

definition paramInt :: "strmap \<Rightarrow> string \<Rightarrow> int \<Rightarrow> int \<Rightarrow> int" where
  "paramInt p key fallback mx =
     (case map_of p key of
        None \<Rightarrow> fallback
      | Some v \<Rightarrow>
          if v = [] then fallback
          else (case atoi v of
                  None \<Rightarrow> fallback
                | Some n \<Rightarrow> if n \<le> 0 \<or> n > mx then fallback else n))"

text \<open>\<open>strconv.ParseUint(s, 10, 64)\<close> with the error dropped: 0 for a text that is no number, the
  largest value for one that is too large.\<close>

definition parse_uint :: "string \<Rightarrow> 64 word" where
  "parse_uint t =
     (if is_number t then (if digits_val t < 2 ^ 64 then of_nat (digits_val t) else - 1) else 0)"

text \<open>The second field of a line such as \<open>VmRSS: 12 kB\<close>.\<close>

definition parseKB :: "string \<Rightarrow> 64 word" where
  "parseKB line = (let fs = Go_Strings.fields line in if length fs < 2 then 0 else parse_uint (fs ! 1))"

definition mk_result :: "json \<Rightarrow> probe_hint list \<Rightarrow> probe_artifact list \<Rightarrow> probe_result" where
  "mk_result d hs arts =
     \<lparr>cr_data = d, cr_artifacts = arts, cr_hints = hs, cr_stderr = [], cr_exit = 0\<rparr>"

text \<open>A member with \<open>omitempty\<close>.\<close>

definition omit_str :: "string \<Rightarrow> string \<Rightarrow> (string \<times> json) list" where
  "omit_str k s = (if s = [] then [] else [(k, JStr s)])"

definition omit_int :: "string \<Rightarrow> int \<Rightarrow> (string \<times> json) list" where
  "omit_int k n = (if n = 0 then [] else [(k, JInt n)])"

definition slice_json :: "('a \<Rightarrow> json) \<Rightarrow> 'a list \<Rightarrow> json" where
  "slice_json f xs = (if xs = [] then JNull else JArr (map f xs))"

definition em_dash :: string where
  "em_dash = [CHR 0xE2, CHR 0x80, CHR 0x94]"

definition ellipsis :: string where
  "ellipsis = [CHR 0xE2, CHR 0x80, CHR 0xA6]"

section \<open>What a collector may touch\<close>

text \<open>
  \<open>touches_only P wl ts\<close> holds of the states of a computation that began with the history \<open>ts\<close> and made
  since then only calls that satisfy \<open>P\<close>, with the whitelist \<open>wl\<close> unchanged. A collector that
  keeps it for every \<open>ts\<close> never makes another call, whatever the host answers.
\<close>

definition touches_only :: "(touch \<Rightarrow> bool) \<Rightarrow> whitelist \<Rightarrow> touch list \<Rightarrow> probe \<Rightarrow> bool" where
  "touches_only P wl ts s = (pr_wl s = wl \<and> (\<exists>new. pr_log s = ts @ new \<and> list_all P new))"

abbreviation confined :: "(touch \<Rightarrow> bool) \<Rightarrow> whitelist \<Rightarrow> 'a pm \<Rightarrow> bool" where
  "confined P wl m \<equiv> (\<forall>ts. keeps (touches_only P wl ts) m)"

lemma inside_refl: "touches_only P (pr_wl s) (pr_log s) s"
  by (simp add: touches_only_def)

lemma inside_touch: "touches_only P wl ts s \<Longrightarrow> list_all P xs \<Longrightarrow> touches_only P wl ts (s\<lparr>pr_now := n, pr_log := pr_log s @ xs\<rparr>)"
  by (auto simp: touches_only_def)

lemma keeps_outcome [keeps_intros]:
  "(\<And>x. keeps I (f x)) \<Longrightarrow> (\<And>e. keeps I (g e)) \<Longrightarrow> (\<And>p. keeps I (h p))
   \<Longrightarrow> keeps I (case r of Got x \<Rightarrow> f x | Failed e \<Rightarrow> g e | Panicked p \<Rightarrow> h p)"
  by (cases r) auto

lemma keeps_chain [keeps_intros]:
  "keeps I m \<Longrightarrow> (\<And>x. keeps I (f x)) \<Longrightarrow> keeps I (chain m f)"
  unfolding chain_def by (intro keeps_intros)

lemma keeps_chain_when:
  assumes "keeps I m" and "\<And>s x s'. run_state m s = (Got x, s') \<Longrightarrow> Q x" and "\<And>x. Q x \<Longrightarrow> keeps I (f x)"
  shows "keeps I (chain m f)"
proof (rule keepsI)
  fix s assume "I s"
  obtain r s1 where m: "run_state m s = (r, s1)" by fastforce
  with keepsD [OF assms(1) \<open>I s\<close>] have "I s1" by simp
  with m assms(2,3) show "I (snd (run_state (chain m f) s))"
    by (cases r) (auto simp: chain_def intro: keepsD)
qed

lemma inside_call: "list_all P xs \<Longrightarrow> keeps (touches_only P wl ts) (call_host xs f)"
  by (rule keepsI) (simp add: call_host_def inside_touch)

lemma inside_ReadFile: "P (Opened path) \<Longrightarrow> keeps (touches_only P wl ts) (ReadFile path)"
  unfolding ReadFile_def by (rule inside_call) simp

lemma inside_exec:
  assumes "\<And>st sp e. run_plan st wl bin args = Inr (Inr (sp, e)) \<Longrightarrow> P (Spawned sp)"
  shows "keeps (touches_only P wl ts) (exec_run bin args)"
proof (rule keepsI)
  fix s assume s: "touches_only P wl ts s"
  then have "pr_wl s = wl" by (simp add: touches_only_def)
  then have "list_all P (spawned (pr_world s (pr_now s)) (pr_wl s) bin args)"
    using assms by (auto simp: spawned_def split: sum.splits)
  with s show "touches_only P wl ts (snd (run_state (exec_run bin args) s))"
    by (simp add: exec_run_def Let_def inside_touch)
qed

lemma inside_command:
  assumes "\<And>st sp e. run_plan st wl bin args = Inr (Inr (sp, e)) \<Longrightarrow> P (Spawned sp)"
  shows "keeps (touches_only P wl ts) (command what bin args)"
  unfolding command_def by (intro keeps_intros inside_exec assms)

end
