(* ===== verification/Disk.thy ===== *)
theory Disk
  imports Agent_Probe Paths
begin

text \<open>
  The files of a machine as its program sees them: a map from paths to bytes, and operations
  that may fail by a schedule (the k-th operation's error, or none). File modes and directories
  are not modelled. \<open>keeps (stored p c)\<close> says that an operation leaves the content of \<open>p\<close> alone.
\<close>

section \<open>Operations\<close>

record disk =
  ds_calls :: nat
  ds_files :: "(string \<times> bytes) list"

type_synonym disk_faults = "nat \<Rightarrow> string option"
type_synonym ('z, 'a) fm = "('z disk_scheme, 'a) state"

text \<open>An operation of the disk that fails or changes the files.\<close>

definition disk_op :: "disk_faults \<Rightarrow> ((string \<times> bytes) list \<Rightarrow> (string \<times> bytes) list) \<Rightarrow> ('z, cerr + unit) fm" where
  "disk_op F f = State (\<lambda>s.
     case F (ds_calls s) of
       Some e \<Rightarrow> (Inl (Msg e), s\<lparr>ds_calls := ds_calls s + 1\<rparr>)
     | None \<Rightarrow> (Inr (), s\<lparr>ds_calls := ds_calls s + 1, ds_files := f (ds_files s)\<rparr>))"

definition write_file :: "disk_faults \<Rightarrow> string \<Rightarrow> bytes \<Rightarrow> ('z, cerr + unit) fm" where
  "write_file F n b = disk_op F (map_put n b)"

definition remove_file :: "disk_faults \<Rightarrow> string \<Rightarrow> ('z, unit) fm" where
  "remove_file F n = ignore (disk_op F (map_del n))"

text \<open>\<open>Chmod\<close>, \<open>Close\<close>, \<open>Seek\<close> and \<open>MkdirAll\<close> change no bytes.\<close>

definition touch_file :: "disk_faults \<Rightarrow> ('z, cerr + unit) fm" where
  "touch_file F = disk_op F (\<lambda>fs. fs)"

definition rename_file :: "disk_faults \<Rightarrow> string \<Rightarrow> string \<Rightarrow> ('z, cerr + unit) fm" where
  "rename_file F a b = disk_op F (\<lambda>fs.
     case map_of fs a of None \<Rightarrow> fs | Some c \<Rightarrow> map_put b c (map_del a fs))"

definition read_file :: "disk_faults \<Rightarrow> string \<Rightarrow> ('z, cerr + bytes) fm" where
  "read_file F p = State (\<lambda>s.
     (case (F (ds_calls s), map_of (ds_files s) p) of
        (Some e, _) \<Rightarrow> Inl (Msg e)
      | (None, None) \<Rightarrow> Inl (Msg (''open '' @ p @ '': no such file or directory''))
      | (None, Some b) \<Rightarrow> Inr b,
      s\<lparr>ds_calls := ds_calls s + 1\<rparr>))"

text \<open>\<open>writeFile\<close> of \<open>agent/conn/enroll.go\<close> and of \<open>hub/auth/ca.go\<close>: a new file, renamed over the old.\<close>

definition writeFile :: "disk_faults \<Rightarrow> string \<Rightarrow> bytes \<Rightarrow> ('z, cerr + unit) fm" where
  "writeFile F p b = unless_err (write_file F (p @ ''.tmp'') b) (\<lambda>_. rename_file F (p @ ''.tmp'') p)"

definition fileExists :: "string \<Rightarrow> ('z, bool) fm" where
  "fileExists p = gets (\<lambda>s. p \<noteq> [] \<and> map_of (ds_files s) p \<noteq> None)"

definition wrapped :: "string \<Rightarrow> ('s, cerr + 'a) state \<Rightarrow> ('s, cerr + 'a) state" where
  "wrapped what m = do { r \<leftarrow> m; return (case r of Inl e \<Rightarrow> Inl (Wrap what e) | Inr x \<Rightarrow> Inr x) }"

section \<open>Programs that succeed\<close>

lemma unless_err_okD:
  assumes "run_state (unless_err m f) s = (Inr y, s')"
  obtains x t where "run_state m s = (Inr x, t)" and "run_state (f x) t = (Inr y, s')"
  using assms by (auto split: prod.splits sum.splits)

lemma unless_err_unitD:
  assumes "run_state (unless_err m f) s = (Inr y, s')"
  obtains t where "run_state m s = (Inr (), t)" and "run_state (f ()) t = (Inr y, s')"
  using assms by (auto split: prod.splits sum.splits)

section \<open>What they leave alone\<close>

abbreviation stored :: "string \<Rightarrow> bytes \<Rightarrow> 'z disk_scheme \<Rightarrow> bool" where
  "stored p c s \<equiv> map_of (ds_files s) p = Some c"

lemma run_disk_op:
  "run_state (disk_op F f) s =
     (case F (ds_calls s) of
        Some e \<Rightarrow> (Inl (Msg e), s\<lparr>ds_calls := ds_calls s + 1\<rparr>)
      | None \<Rightarrow> (Inr (), s\<lparr>ds_calls := ds_calls s + 1, ds_files := f (ds_files s)\<rparr>))"
  by (simp add: disk_op_def)

lemma run_read_file:
  "run_state (read_file F p) s =
     (case (F (ds_calls s), map_of (ds_files s) p) of
        (Some e, _) \<Rightarrow> Inl (Msg e)
      | (None, None) \<Rightarrow> Inl (Msg (''open '' @ p @ '': no such file or directory''))
      | (None, Some b) \<Rightarrow> Inr b,
      s\<lparr>ds_calls := ds_calls s + 1\<rparr>)"
  by (simp add: read_file_def)

lemma run_fileExists [simp]: "run_state (fileExists p) s = (p \<noteq> [] \<and> map_of (ds_files s) p \<noteq> None, s)"
  by (simp add: fileExists_def)

lemma run_wrapped [simp]:
  "run_state (wrapped what m) s = (case run_state m s of (Inl e, t) \<Rightarrow> (Inl (Wrap what e), t) | (Inr x, t) \<Rightarrow> (Inr x, t))"
  by (auto simp: wrapped_def split: prod.splits sum.splits)

lemma keeps_disk_op: "(\<And>fs. map_of fs p = Some c \<Longrightarrow> map_of (f fs) p = Some c) \<Longrightarrow> keeps (stored p c) (disk_op F f)"
  by (rule keepsI) (simp add: run_disk_op split: option.split)

lemma keeps_write: "n \<noteq> p \<Longrightarrow> keeps (stored p c) (write_file F n b)"
  unfolding write_file_def by (rule keeps_disk_op) (simp add: lookup_simps)

lemma keeps_remove: "n \<noteq> p \<Longrightarrow> keeps (stored p c) (remove_file F n)"
  unfolding remove_file_def by (intro keeps_intros keeps_disk_op) (simp add: lookup_simps)

lemma keeps_touch: "keeps (stored p c) (touch_file F)"
  unfolding touch_file_def by (rule keeps_disk_op)

lemma keeps_rename: "a \<noteq> p \<Longrightarrow> b \<noteq> p \<Longrightarrow> keeps (stored p c) (rename_file F a b)"
  unfolding rename_file_def by (rule keeps_disk_op) (simp add: lookup_simps split: option.split)

lemma keeps_read: "keeps (stored p c) (read_file F n)"
  by (rule keepsI) (simp add: run_read_file)

lemma keeps_exists: "keeps (stored p c) (fileExists n)"
  by (rule keepsI) simp

lemma keeps_writeFile: "p \<noteq> n \<Longrightarrow> p \<noteq> n @ ''.tmp'' \<Longrightarrow> keeps (stored p c) (writeFile F n b)"
  unfolding writeFile_def by (intro keeps_intros keeps_write keeps_rename) auto

lemma writeFile_done:
  assumes "run_state (writeFile F n b) s = (Inr (), s')"
  shows "stored n b s'"
  using assms
  by (auto simp: writeFile_def write_file_def rename_file_def run_disk_op lookup_simps split: option.splits)

end
