(* ===== verification/Store_Open.thy ===== *)
theory Store_Open
  imports Disk "HOL-Library.List_Lexorder" "HOL-Library.Char_ord"
begin

text \<open>
  \<open>hub/store/store.go\<close>: opening the database and applying the embedded migrations. The SQL
  engine is a parameter (what a script makes of a schema, or its error), and each call of the
  driver may fail by a schedule. A transaction takes effect when it commits.
\<close>

section \<open>Opening\<close>

record embedded =
  em_name :: string
  em_dir :: bool
  em_body :: string

text \<open>The calls made, the table of applied migrations once it exists, and the schema.\<close>

record 'd database =
  md_calls :: nat
  md_applied :: "string list option"
  md_schema :: 'd

type_synonym ('d, 'a) mm = "('d database, cerr + 'a) state"
type_synonym 'd engine = "string \<Rightarrow> 'd \<Rightarrow> string + 'd"

definition driver_call :: "disk_faults \<Rightarrow> ('d database \<Rightarrow> (cerr + 'a) \<times> 'd database) \<Rightarrow> ('d, 'a) mm" where
  "driver_call F f = State (\<lambda>s.
     (let t = s\<lparr>md_calls := md_calls s + 1\<rparr>
      in case F (md_calls s) of Some e \<Rightarrow> (Inl (Msg e), t) | None \<Rightarrow> f t))"

definition answer_call :: "disk_faults \<Rightarrow> ('d database \<Rightarrow> cerr + 'a) \<Rightarrow> ('d, 'a) mm" where
  "answer_call F f = driver_call F (\<lambda>s. (f s, s))"

definition applied_names :: "'d database \<Rightarrow> string list" where
  "applied_names s = (case md_applied s of None \<Rightarrow> [] | Some ns \<Rightarrow> ns)"

definition migration_names :: "embedded list \<Rightarrow> string list" where
  "migration_names fs = sort (map em_name (filter (\<lambda>e. \<not> em_dir e \<and> has_suffix (em_name e) ''.sql'') fs))"

definition body_of :: "embedded list \<Rightarrow> string \<Rightarrow> cerr + string" where
  "body_of fs n =
     (case find_row (\<lambda>e. em_name e = n) fs of
        None \<Rightarrow> Inl (Msg ''file does not exist'') | Some e \<Rightarrow> Inr (em_body e))"

definition apply_migration :: "disk_faults \<Rightarrow> 'd engine \<Rightarrow> string \<Rightarrow> string \<Rightarrow> ('d, unit) mm" where
  "apply_migration F run n body =
     unless_err (wrapped (''begin tx for '' @ n) (answer_call F (\<lambda>_. Inr ()))) (\<lambda>_.
     unless_err (wrapped (''exec migration '' @ n) (answer_call F (\<lambda>s.
         case run body (md_schema s) of Inl e \<Rightarrow> Inl (Msg e) | Inr d \<Rightarrow> Inr d))) (\<lambda>d.
     unless_err (wrapped (''record migration '' @ n) (answer_call F (\<lambda>_. Inr ()))) (\<lambda>_.
     wrapped (''commit migration '' @ n) (driver_call F (\<lambda>s.
         (Inr (), s\<lparr>md_schema := d, md_applied := Some (applied_names s @ [n])\<rparr>))))))"

fun migrate_each :: "disk_faults \<Rightarrow> 'd engine \<Rightarrow> embedded list \<Rightarrow> string list \<Rightarrow> ('d, unit) mm" where
  "migrate_each F run fs [] = return (Inr ())"
| "migrate_each F run fs (n # ns) =
     unless_err (wrapped (''check migration '' @ n) (answer_call F (\<lambda>s. Inr (n \<in> set (applied_names s))))) (\<lambda>known.
     if known then migrate_each F run fs ns
     else unless_err (wrapped (''read migration '' @ n) (return (body_of fs n))) (\<lambda>body.
          unless_err (apply_migration F run n body) (\<lambda>_. migrate_each F run fs ns)))"

definition migrate :: "disk_faults \<Rightarrow> 'd engine \<Rightarrow> embedded list \<Rightarrow> ('d, unit) mm" where
  "migrate F run fs =
     unless_err (wrapped ''create schema_migrations'' (driver_call F (\<lambda>s.
         (Inr (), s\<lparr>md_applied := Some (applied_names s)\<rparr>)))) (\<lambda>_.
     migrate_each F run fs (migration_names fs))"

text \<open>\<open>fk\<close> is what the driver answers for the foreign-key pragma.\<close>

definition Open_store :: "disk_faults \<Rightarrow> 'd engine \<Rightarrow> int \<Rightarrow> embedded list \<Rightarrow> ('d, unit) mm" where
  "Open_store F run fk fs =
     unless_err (wrapped ''open sqlite'' (answer_call F (\<lambda>_. Inr ()))) (\<lambda>_.
     unless_err (wrapped ''ping sqlite'' (answer_call F (\<lambda>_. Inr ()))) (\<lambda>_.
     unless_err (wrapped ''check foreign_keys pragma'' (answer_call F (\<lambda>_. Inr fk))) (\<lambda>v.
     if v \<noteq> 1
     then return (Inl (Msg (''foreign_keys pragma is '' @ int_text v @ '', want 1 (cascade-delete won'' @ [CHR 0x27] @ ''t work)'')))
     else migrate F run fs)))"

text \<open>Any number of attempts to open, each with its own faults.\<close>

definition attempts :: "'d engine \<Rightarrow> int \<Rightarrow> embedded list \<Rightarrow> disk_faults list \<Rightarrow> 'd database \<Rightarrow> 'd database" where
  "attempts run fk fs Fs s = fold (\<lambda>F s. snd (run_state (Open_store F run fk fs) s)) Fs s"

section \<open>Every migration once\<close>

fun run_scripts :: "'d engine \<Rightarrow> embedded list \<Rightarrow> string list \<Rightarrow> 'd \<Rightarrow> cerr + 'd" where
  "run_scripts run fs [] d = Inr d"
| "run_scripts run fs (n # ns) d =
     (case body_of fs n of
        Inl e \<Rightarrow> Inl e
      | Inr b \<Rightarrow> (case run b d of Inl e \<Rightarrow> Inl (Msg e) | Inr d' \<Rightarrow> run_scripts run fs ns d'))"

lemma run_scripts_append:
  "run_scripts run fs (ms @ ns) d = (case run_scripts run fs ms d of Inl e \<Rightarrow> Inl e | Inr d' \<Rightarrow> run_scripts run fs ns d')"
  by (induction ms arbitrary: d) (auto split: sum.split)

text \<open>A start of the sorted names is recorded, and the schema is what those scripts made.\<close>

definition migrated :: "'d engine \<Rightarrow> embedded list \<Rightarrow> 'd \<Rightarrow> string list \<Rightarrow> 'd database \<Rightarrow> bool" where
  "migrated run fs d0 done s =
     ((\<exists>rest. migration_names fs = done @ rest) \<and> applied_names s = done
      \<and> run_scripts run fs done d0 = Inr (md_schema s))"

lemma run_driver [simp]:
  "run_state (driver_call F f) s =
     (case F (md_calls s) of
        Some e \<Rightarrow> (Inl (Msg e), s\<lparr>md_calls := md_calls s + 1\<rparr>) | None \<Rightarrow> f (s\<lparr>md_calls := md_calls s + 1\<rparr>))"
  "run_state (answer_call F g) s =
     (case F (md_calls s) of
        Some e \<Rightarrow> Inl (Msg e) | None \<Rightarrow> g (s\<lparr>md_calls := md_calls s + 1\<rparr>), s\<lparr>md_calls := md_calls s + 1\<rparr>)"
  by (auto simp: driver_call_def answer_call_def Let_def split: option.split)

lemma applied_names_calls [simp]:
  "applied_names (s\<lparr>md_calls := n\<rparr>) = applied_names s"
  "applied_names (s\<lparr>md_applied := Some ns\<rparr>) = ns"
  "applied_names (s\<lparr>md_schema := d\<rparr>) = applied_names s"
  by (simp_all add: applied_names_def)

lemma migrated_calls [simp]: "migrated run fs d0 ms (s\<lparr>md_calls := n\<rparr>) = migrated run fs d0 ms s"
  by (simp add: migrated_def)

lemma apply_migration_result:
  assumes "run_state (apply_migration F run n b) s = (r, s')"
  shows "(r = Inr () \<and> (\<exists>d. run b (md_schema s) = Inr d \<and> md_schema s' = d \<and> applied_names s' = applied_names s @ [n]))
    \<or> (\<exists>e. r = Inl e \<and> md_schema s' = md_schema s \<and> applied_names s' = applied_names s)"
  using assms by (auto simp: apply_migration_def split: option.splits sum.splits prod.splits)

lemma migrate_each_known:
  "set ns \<subseteq> set (applied_names s) \<Longrightarrow> run_state (migrate_each F run fs (ns @ rest)) s = (r, s')
   \<Longrightarrow> (\<exists>k. run_state (migrate_each F run fs rest) (s\<lparr>md_calls := k\<rparr>) = (r, s'))
     \<or> (\<exists>e k. r = Inl e \<and> s' = s\<lparr>md_calls := k\<rparr>)"
proof (induction ns arbitrary: s)
  case Nil
  then have "run_state (migrate_each F run fs rest) (s\<lparr>md_calls := md_calls s\<rparr>) = (r, s')" by simp
  then show ?case by blast
next
  case (Cons n ns)
  show ?case
  proof (cases "F (md_calls s)")
    case None
    with Cons.prems have "run_state (migrate_each F run fs (ns @ rest)) (s\<lparr>md_calls := md_calls s + 1\<rparr>) = (r, s')"
      by simp
    with Cons.IH [of "s\<lparr>md_calls := md_calls s + 1\<rparr>"] Cons.prems(1) show ?thesis by simp
  next
    case (Some e)
    with Cons.prems(2) have "r = Inl (Wrap (''check migration '' @ n) (Msg e)) \<and> s' = s\<lparr>md_calls := md_calls s + 1\<rparr>"
      by auto
    then show ?thesis by blast
  qed
qed

lemma migrate_each_result:
  assumes "migrated run fs d0 done s" and "migration_names fs = done @ rest" and "distinct (done @ rest)"
    and "run_state (migrate_each F run fs rest) s = (r, s')"
  shows "\<exists>done'. migrated run fs d0 done' s' \<and> (r = Inr () \<longrightarrow> done' = migration_names fs)"
  using assms
proof (induction rest arbitrary: "done" s)
  case (Cons n rest)
  let ?s1 = "s\<lparr>md_calls := md_calls s + 1\<rparr>"
  have new: "n \<notin> set (applied_names s)" using Cons.prems(1,3) by (auto simp: migrated_def)
  show ?case
  proof (cases "F (md_calls s) = None \<and> (\<exists>b. body_of fs n = Inr b)")
    case True
    then obtain b where b: "F (md_calls s) = None" "body_of fs n = Inr b" by blast
    obtain r1 t where a: "run_state (apply_migration F run n b) ?s1 = (r1, t)" by fastforce
    from apply_migration_result [OF a] show ?thesis
    proof (elim disjE exE conjE)
      fix d assume r1: "r1 = Inr ()" and d: "run b (md_schema ?s1) = Inr d" "md_schema t = d"
        "applied_names t = applied_names ?s1 @ [n]"
      have m: "migrated run fs d0 (done @ [n]) t"
        using Cons.prems(1,2) d b(2) by (auto simp: migrated_def run_scripts_append)
      have "run_state (migrate_each F run fs rest) t = (r, s')"
        using Cons.prems(4) b new a r1 by simp
      from Cons.IH [OF m _ _ this] Cons.prems(2,3) show ?thesis by simp
    next
      fix e assume r1: "r1 = Inl e" and t: "md_schema t = md_schema ?s1" "applied_names t = applied_names ?s1"
      have "r = Inl e" "s' = t" using Cons.prems(4) b new a r1 by simp_all
      moreover have "migrated run fs d0 done t" using Cons.prems(1) t by (simp add: migrated_def)
      ultimately show ?thesis by blast
    qed
  next
    case False
    then have "(\<exists>e. r = Inl e) \<and> s' = ?s1"
      using Cons.prems(4) new by (cases "body_of fs n") (auto split: option.splits)
    with Cons.prems(1) show ?thesis by auto
  qed
qed auto

lemma migrate_result:
  assumes "migrated run fs d0 ms s" and "distinct (migration_names fs)" and "run_state (migrate F run fs) s = (r, s')"
  shows "\<exists>ms'. migrated run fs d0 ms' s' \<and> (r = Inr () \<longrightarrow> ms' = migration_names fs)"
proof (cases "F (md_calls s)")
  case (Some e)
  with assms(3) have "(\<exists>x. r = Inl x) \<and> s' = s\<lparr>md_calls := md_calls s + 1\<rparr>" by (auto simp: migrate_def)
  with assms(1) show ?thesis by auto
next
  case None
  let ?s1 = "s\<lparr>md_calls := md_calls s + 1, md_applied := Some (applied_names s)\<rparr>"
  have names: "applied_names ?s1 = ms" and m: "migrated run fs d0 ms ?s1"
    using assms(1) by (simp_all add: migrated_def applied_names_def)
  obtain rest where rest: "migration_names fs = ms @ rest" using assms(1) by (auto simp: migrated_def)
  have run: "run_state (migrate_each F run fs (ms @ rest)) ?s1 = (r, s')"
    using assms(3) None rest by (simp add: migrate_def applied_names_def)
  have "set ms \<subseteq> set (applied_names ?s1)" using names by simp
  from migrate_each_known [OF this run] show ?thesis
  proof (elim disjE exE conjE)
    fix k assume k: "run_state (migrate_each F run fs rest) (?s1\<lparr>md_calls := k\<rparr>) = (r, s')"
    have "migrated run fs d0 ms (?s1\<lparr>md_calls := k\<rparr>)" using m by (simp add: migrated_def applied_names_def)
    from migrate_each_result [OF this rest assms(2) [unfolded rest] k] show ?thesis .
  next
    fix e k assume "r = Inl e" "s' = ?s1\<lparr>md_calls := k\<rparr>"
    with m show ?thesis by (auto simp: migrated_def applied_names_def)
  qed
qed

lemma Open_result:
  assumes "migrated run fs d0 ms s" and "distinct (migration_names fs)" and "run_state (Open_store F run fk fs) s = (r, s')"
  shows "\<exists>ms'. migrated run fs d0 ms' s' \<and> (r = Inr () \<longrightarrow> ms' = migration_names fs)"
proof (cases "\<exists>k. run_state (migrate F run fs) (s\<lparr>md_calls := k\<rparr>) = (r, s')")
  case True
  then obtain k where k: "run_state (migrate F run fs) (s\<lparr>md_calls := k\<rparr>) = (r, s')" by blast
  from migrate_result [OF _ assms(2) k] assms(1) show ?thesis by simp
next
  case False
  have "(\<exists>e. r = Inl e) \<and> (\<exists>k. s' = s\<lparr>md_calls := k\<rparr>)"
    using assms(3) False by (auto simp: Open_store_def split: option.splits if_splits)
  with assms(1) show ?thesis by auto
qed

lemma attempts_result:
  assumes "distinct (migration_names fs)"
  shows "migrated run fs d0 ms s \<Longrightarrow> \<exists>ms'. migrated run fs d0 ms' (attempts run fk fs Fs s)"
proof (induction Fs arbitrary: s ms)
  case (Cons F Fs)
  from Open_result [OF Cons.prems assms, of F fk] obtain ms' where
    "migrated run fs d0 ms' (snd (run_state (Open_store F run fk fs) s))" by (metis prod.collapse)
  from Cons.IH [OF this] show ?case by (simp add: attempts_def)
qed (auto simp: attempts_def)

section \<open>An undisturbed start succeeds\<close>

lemma migrate_each_succeeds:
  assumes "migrated run fs d0 ms s" and "migration_names fs = ms @ rest" and "distinct (ms @ rest)"
    and "is_ok (run_scripts run fs (ms @ rest) d0)"
  shows "\<exists>s'. run_state (migrate_each (\<lambda>_. None) run fs rest) s = (Inr (), s')"
  using assms
proof (induction rest arbitrary: ms s)
  case (Cons n rest)
  let ?s1 = "s\<lparr>md_calls := md_calls s + 1\<rparr>"
  have new: "n \<notin> set (applied_names s)" using Cons.prems(1,3) by (auto simp: migrated_def)
  have "run_scripts run fs ms d0 = Inr (md_schema s)" using Cons.prems(1) by (simp add: migrated_def)
  with Cons.prems(4) obtain b d where b: "body_of fs n = Inr b" "run b (md_schema s) = Inr d"
    by (auto simp: run_scripts_append is_ok_iff split: sum.splits)
  obtain t where a: "run_state (apply_migration (\<lambda>_. None) run n b) ?s1 = (Inr (), t)"
    using b(2) by (simp add: apply_migration_def)
  with apply_migration_result [OF a] b(2) have t: "md_schema t = d" "applied_names t = applied_names s @ [n]" by auto
  have "migrated run fs d0 (ms @ [n]) t"
    using Cons.prems(1,2) t b by (auto simp: migrated_def run_scripts_append)
  from Cons.IH [OF this] Cons.prems(2-4) obtain s' where "run_state (migrate_each (\<lambda>_. None) run fs rest) t = (Inr (), s')"
    by auto
  with a new b show ?case by simp
qed simp

lemma migrate_each_skips:
  "set ns \<subseteq> set (applied_names s)
   \<Longrightarrow> \<exists>k. run_state (migrate_each (\<lambda>_. None) run fs (ns @ rest)) s
        = run_state (migrate_each (\<lambda>_. None) run fs rest) (s\<lparr>md_calls := k\<rparr>)"
proof (induction ns arbitrary: s)
  case Nil
  have "s = s\<lparr>md_calls := md_calls s\<rparr>" by simp
  then show ?case by (metis append_Nil)
next
  case (Cons n ns)
  from Cons.IH [of "s\<lparr>md_calls := md_calls s + 1\<rparr>"] Cons.prems show ?case by simp
qed

text \<open>
  C28: However often opening the database failed and wherever its driver did, every migration
  takes effect at most once and in the order of the names: the recorded names are a start of the
  sorted list and the schema is what exactly those scripts make of the empty one. An open that
  succeeds has run them all, and an open that no fault disturbs succeeds if the scripts do.
\<close>
theorem migrations_run_once:
  assumes "distinct (migration_names fs)" and "md_applied s0 = None"
    and "run_state (Open_store F run 1 fs) (attempts run 1 fs Fs s0) = (r, s')"
  shows "(\<exists>ms rest. migration_names fs = ms @ rest \<and> applied_names s' = ms
      \<and> run_scripts run fs ms (md_schema s0) = Inr (md_schema s') \<and> (r = Inr () \<longrightarrow> rest = []))
    \<and> (F = (\<lambda>_. None) \<and> is_ok (run_scripts run fs (migration_names fs) (md_schema s0)) \<longrightarrow> r = Inr ())"
proof -
  have "migrated run fs (md_schema s0) [] s0" using assms(2) by (simp add: migrated_def applied_names_def)
  from attempts_result [OF assms(1) this, of 1 Fs] obtain ms where
    m: "migrated run fs (md_schema s0) ms (attempts run 1 fs Fs s0)" by blast
  let ?s = "attempts run 1 fs Fs s0"
  have "r = Inr ()" if F: "F = (\<lambda>_. None)" and ok: "is_ok (run_scripts run fs (migration_names fs) (md_schema s0))"
  proof -
    let ?t = "?s\<lparr>md_calls := md_calls ?s + 4, md_applied := Some (applied_names ?s)\<rparr>"
    obtain rest where rest: "migration_names fs = ms @ rest" using m by (auto simp: migrated_def)
    have run: "run_state (migrate_each F run fs (ms @ rest)) ?t = (r, s')"
      using assms(3) F rest by (simp add: Open_store_def migrate_def applied_names_def numeral_eq_Suc)
    have mt: "migrated run fs (md_schema s0) ms (?t\<lparr>md_calls := k\<rparr>)" for k
      using m by (simp add: migrated_def applied_names_def)
    have "set ms \<subseteq> set (applied_names ?t)" using m by (simp add: migrated_def applied_names_def)
    from migrate_each_skips [OF this] run F obtain k where
      k: "run_state (migrate_each (\<lambda>_. None) run fs rest) (?t\<lparr>md_calls := k\<rparr>) = (r, s')" by metis
    from migrate_each_succeeds [OF mt rest assms(1) [unfolded rest] ok [unfolded rest], of k] k show ?thesis by simp
  qed
  moreover from Open_result [OF m assms(1,3)] obtain ms' where
    "migrated run fs (md_schema s0) ms' s'" "r = Inr () \<longrightarrow> ms' = migration_names fs" by blast
  ultimately show ?thesis by (fastforce simp: migrated_def)
qed

section \<open>An example\<close>

text \<open>Two scripts that write their letter, out of order in the listing; the first open is cut off.\<close>

definition demo_scripts :: "embedded list" where
  "demo_scripts =
     [\<lparr>em_name = ''0002_b.sql'', em_dir = False, em_body = ''b''\<rparr>, \<lparr>em_name = ''README.md'', em_dir = False, em_body = ''x''\<rparr>,
      \<lparr>em_name = ''0001_a.sql'', em_dir = False, em_body = ''a''\<rparr>]"

definition demo_engine :: "string engine" where
  "demo_engine b d = Inr (d @ b)"

definition cut_off :: disk_faults where
  "cut_off n = (if n = 11 then Some ''disk full'' else None)"

definition demo_database :: "string database" where
  "demo_database = \<lparr>md_calls = 0, md_applied = None, md_schema = []\<rparr>"

lemma demo_names: "migration_names demo_scripts = [''0001_a.sql'', ''0002_b.sql'']"
  by code_simp

lemma migrations_run_once_witness:
  "md_schema (attempts demo_engine 1 demo_scripts [cut_off] demo_database) = ''a''
   \<and> (\<exists>s'. run_state (Open_store (\<lambda>_. None) demo_engine 1 demo_scripts)
            (attempts demo_engine 1 demo_scripts [cut_off] demo_database) = (Inr (), s') \<and> md_schema s' = ''ab'')"
proof -
  let ?s = "attempts demo_engine 1 demo_scripts [cut_off] demo_database"
  obtain r s' where run: "run_state (Open_store (\<lambda>_. None) demo_engine 1 demo_scripts) ?s = (r, s')" by fastforce
  have first: "md_schema ?s = ''a''" by code_simp
  have d: "distinct (migration_names demo_scripts)" "md_applied demo_database = None" "md_schema demo_database = []"
    by (simp_all add: demo_names demo_database_def)
  have all: "run_scripts demo_engine demo_scripts (migration_names demo_scripts) [] = Inr ''ab''" by code_simp
  from migrations_run_once [OF d(1,2) run] all have "r = Inr ()" "md_schema s' = ''ab''" by (auto simp: d(3))
  with first run show ?thesis by blast
qed

end
