(* ===== verification/Agent_Registry.thy ===== *)
theory Agent_Registry
  imports Agent_Probe
begin

text \<open>
  \<open>agent/collect/collector.go\<close>: the registry of the collectors compiled into the agent and the
  cached answers of their \<open>Available\<close>. The two package variables are one record; a Go map is
  the list of its entries in the order of their insertion, and what the code returns does not
  depend on that order. \<open>Available\<close> of a collector is asked of the file system \<open>st\<close> and the
  gateway's whitelist.
\<close>

record registry =
  rg_collectors :: "(string \<times> collector) list"
  rg_available :: "(string \<times> bool) list"

definition empty_registry :: registry where
  "empty_registry = \<lparr>rg_collectors = [], rg_available = []\<rparr>"

section \<open>Registration\<close>

datatype registry_panic = EmptyManifestName | DuplicateCollector string

definition Register_collector :: "collector \<Rightarrow> registry \<Rightarrow> registry_panic + registry" where
  "Register_collector c g =
     (if co_name c = [] then Inl EmptyManifestName
      else if map_of (rg_collectors g) (co_name c) \<noteq> None then Inl (DuplicateCollector (co_name c))
      else Inr (g\<lparr>rg_collectors := map_put (co_name c) c (rg_collectors g)\<rparr>))"

fun register_each :: "collector list \<Rightarrow> registry \<Rightarrow> registry_panic + registry" where
  "register_each [] g = Inr g"
| "register_each (c # cs) g =
     (case Register_collector c g of Inl p \<Rightarrow> Inl p | Inr g' \<Rightarrow> register_each cs g')"

definition UnregisterForTest :: "string \<Rightarrow> registry \<Rightarrow> registry" where
  "UnregisterForTest name g = g\<lparr>rg_collectors := map_del name (rg_collectors g)\<rparr>"

section \<open>Availability\<close>

record availability_diff =
  av_now :: "string list"
  av_gone :: "string list"

definition Changed :: "availability_diff \<Rightarrow> bool" where
  "Changed d = (length (av_now d) > 0 \<or> length (av_gone d) > 0)"

text \<open>
  The body of the loop: the cached answer is replaced, and the name goes to the added or the
  removed ones. At the first refresh only what is missing is reported.
\<close>

definition refresh_one ::
  "stat \<Rightarrow> whitelist \<Rightarrow> bool \<Rightarrow> string \<times> collector
   \<Rightarrow> string list \<times> string list \<times> (string \<times> bool) list
   \<Rightarrow> string list \<times> string list \<times> (string \<times> bool) list" where
  "refresh_one st wl first nc acc =
     (case (nc, acc) of ((name, c), (added, removed, av)) \<Rightarrow>
        (case co_available c of
           None \<Rightarrow> acc
         | Some f \<Rightarrow>
             (let now = f st wl; av' = map_put name now av
              in if first then (added, if now then removed else removed @ [name], av')
                 else (case map_of av name of
                         Some prev \<Rightarrow>
                           if prev \<noteq> now
                           then (if now then (added @ [name], removed, av') else (added, removed @ [name], av'))
                           else (added, removed, av')
                       | None \<Rightarrow> (added, removed, av')))))"

definition RefreshAvailability :: "stat \<Rightarrow> whitelist \<Rightarrow> registry \<Rightarrow> availability_diff \<times> registry" where
  "RefreshAvailability st wl g =
     (case fold (refresh_one st wl (rg_available g = [])) (rg_collectors g) ([], [], rg_available g) of
        (added, removed, av) \<Rightarrow>
          (\<lparr>av_now = sort added, av_gone = sort removed\<rparr>, g\<lparr>rg_available := av\<rparr>))"

section \<open>Lookup\<close>

definition hidden :: "registry \<Rightarrow> string \<Rightarrow> bool" where
  "hidden g name = (map_of (rg_available g) name = Some False)"

definition Get_collector :: "string \<Rightarrow> registry \<Rightarrow> collector option" where
  "Get_collector name g =
     (case map_of (rg_collectors g) name of
        None \<Rightarrow> None
      | Some c \<Rightarrow> if hidden g name then None else Some c)"

definition All_collectors :: "registry \<Rightarrow> collector list" where
  "All_collectors g = map snd (filter (\<lambda>(name, c). \<not> hidden g name) (rg_collectors g))"

definition Manifests :: "registry \<Rightarrow> probe_manifest list" where
  "Manifests g = sort_key pm_name (map co_manifest (All_collectors g))"

section \<open>The registry's invariant\<close>

text \<open>Entries are stored under their own, non-empty and distinct names.\<close>

definition registry_ok :: "registry \<Rightarrow> bool" where
  "registry_ok g =
     (distinct (map fst (rg_collectors g))
      \<and> list_all (\<lambda>(n, c). n \<noteq> [] \<and> co_name c = n) (rg_collectors g))"

definition visible :: "registry \<Rightarrow> string set" where
  "visible g = {n \<in> fst ` set (rg_collectors g). \<not> hidden g n}"

lemma registry_ok_empty [simp]: "registry_ok empty_registry"
  by (simp add: registry_ok_def empty_registry_def)

lemma Register_collector_ok:
  "registry_ok g \<Longrightarrow> Register_collector c g = Inr g' \<Longrightarrow> registry_ok g'"
  by (auto simp: Register_collector_def registry_ok_def map_put_distinct list_all_iff set_map_put
      split: if_splits)

lemma register_each_ok:
  "registry_ok g \<Longrightarrow> register_each cs g = Inr g' \<Longrightarrow> registry_ok g'"
  by (induction cs g rule: register_each.induct)
    (auto split: sum.splits dest: Register_collector_ok)

lemma put_fresh: "k \<notin> fst ` set m \<Longrightarrow> map_put k x m = m @ [(k, x)]"
  by (auto simp: map_put_def intro!: filter_True)

lemma register_each_distinct:
  assumes "distinct (map co_name cs)" and "\<forall>c \<in> set cs. co_name c \<noteq> []"
    and "\<forall>c \<in> set cs. co_name c \<notin> fst ` set (rg_collectors g)"
  shows "register_each cs g =
    Inr (g\<lparr>rg_collectors := rg_collectors g @ map (\<lambda>c. (co_name c, c)) cs\<rparr>)"
  using assms
proof (induction cs arbitrary: g)
  case (Cons c cs)
  let ?g = "g\<lparr>rg_collectors := rg_collectors g @ [(co_name c, c)]\<rparr>"
  have "Register_collector c g = Inr ?g"
    using Cons.prems by (simp add: Register_collector_def map_of_eq_None_iff put_fresh)
  moreover have "register_each cs ?g =
      Inr (?g\<lparr>rg_collectors := rg_collectors ?g @ map (\<lambda>c. (co_name c, c)) cs\<rparr>)"
    by (rule Cons.IH) (use Cons.prems in \<open>auto simp: image_iff\<close>)
  ultimately show ?case by simp
qed simp

lemma All_collectors_names:
  "registry_ok g \<Longrightarrow> map co_name (All_collectors g) = map fst (filter (\<lambda>p. \<not> hidden g (fst p)) (rg_collectors g))"
  by (auto simp: All_collectors_def registry_ok_def list_all_iff split_def)

lemma visible_names: "registry_ok g \<Longrightarrow> co_name ` set (All_collectors g) = visible g"
  using arg_cong [OF All_collectors_names, of g set] by (auto simp: visible_def)

lemma visible_found: "Get_collector n g \<noteq> None \<longleftrightarrow> n \<in> visible g"
  by (auto simp: Get_collector_def visible_def map_of_eq_None_iff split: option.splits)
    (metis map_of_eq_None_iff option.distinct(1))

lemma map_insort_key: "map f (insort_key f x xs) = insort (f x) (map f xs)"
  by (induction xs) auto

lemma map_sort_key: "map f (sort_key f xs) = sort (map f xs)"
  by (induction xs) (simp_all add: map_insort_key)

lemma Manifests_names: "map pm_name (Manifests g) = sort (map co_name (All_collectors g))"
  by (simp add: Manifests_def map_sort_key comp_def)

section \<open>What a refresh does\<close>

definition asked :: "stat \<Rightarrow> whitelist \<Rightarrow> collector \<Rightarrow> bool option" where
  "asked st wl c = map_option (\<lambda>f. f st wl) (co_available c)"

definition comes :: "stat \<Rightarrow> whitelist \<Rightarrow> bool \<Rightarrow> (string \<times> bool) list \<Rightarrow> string \<times> collector \<Rightarrow> bool" where
  "comes st wl first av p =
     (\<not> first \<and> asked st wl (snd p) = Some True \<and> map_of av (fst p) = Some False)"

definition goes :: "stat \<Rightarrow> whitelist \<Rightarrow> bool \<Rightarrow> (string \<times> bool) list \<Rightarrow> string \<times> collector \<Rightarrow> bool" where
  "goes st wl first av p =
     (asked st wl (snd p) = Some False \<and> (first \<or> map_of av (fst p) = Some True))"

lemma refresh_one_result:
  "refresh_one st wl first p (a, r, av) =
     (a @ (if comes st wl first av p then [fst p] else []),
      r @ (if goes st wl first av p then [fst p] else []),
      case asked st wl (snd p) of None \<Rightarrow> av | Some now \<Rightarrow> map_put (fst p) now av)"
  by (cases p; cases "co_available (snd p)"; cases "map_of av (fst p)")
    (auto simp: refresh_one_def comes_def goes_def asked_def Let_def)

lemma refresh_fold:
  assumes "distinct (map fst ps)"
  shows "\<exists>av'. fold (refresh_one st wl first) ps (a, r, av) =
      (a @ map fst (filter (comes st wl first av) ps), r @ map fst (filter (goes st wl first av) ps), av')
    \<and> (\<forall>n. map_of av' n = (case map_of ps n of
           None \<Rightarrow> map_of av n
         | Some c \<Rightarrow> (case asked st wl c of None \<Rightarrow> map_of av n | Some now \<Rightarrow> Some now)))"
  using assms
proof (induction ps arbitrary: a r av)
  case (Cons p ps)
  let ?av = "case asked st wl (snd p) of None \<Rightarrow> av | Some now \<Rightarrow> map_put (fst p) now av"
  have look: "map_of ?av n = map_of av n" if "n \<noteq> fst p" for n
    using that by (auto simp: lookup_simps split: option.splits)
  have other: "fst q \<noteq> fst p" if "q \<in> set ps" for q
    using Cons.prems that by (metis distinct.simps(2) image_eqI list.simps(9) set_map)
  have eq: "filter (comes st wl first ?av) ps = filter (comes st wl first av) ps"
    "filter (goes st wl first ?av) ps = filter (goes st wl first av) ps"
    by (rule filter_cong [OF refl], simp add: comes_def goes_def look [OF other])+
  from Cons.IH [of "a @ (if comes st wl first av p then [fst p] else [])"
      "r @ (if goes st wl first av p then [fst p] else [])" ?av] Cons.prems
  obtain av' where av': "fold (refresh_one st wl first) (p # ps) (a, r, av) =
      (a @ map fst (filter (comes st wl first av) (p # ps)), r @ map fst (filter (goes st wl first av) (p # ps)), av')"
    "\<forall>n. map_of av' n = (case map_of ps n of
           None \<Rightarrow> map_of ?av n
         | Some c \<Rightarrow> (case asked st wl c of None \<Rightarrow> map_of ?av n | Some now \<Rightarrow> Some now))"
    by (auto simp: refresh_one_result eq)
  have "map_of ps (fst p) = None" using Cons.prems by (simp add: map_of_eq_None_iff)
  with av'(2) look have "\<forall>n. map_of av' n = (case map_of (p # ps) n of
           None \<Rightarrow> map_of av n
         | Some c \<Rightarrow> (case asked st wl c of None \<Rightarrow> map_of av n | Some now \<Rightarrow> Some now))"
    by (cases p) (auto simp: lookup_simps split: option.splits)
  with av'(1) show ?case by blast
qed simp

text \<open>What is visible after a refresh: the collectors that do not say they are unavailable.\<close>

lemma refresh_result:
  assumes "registry_ok g"
  shows "\<exists>av'. RefreshAvailability st wl g =
      (\<lparr>av_now = sort (map fst (filter (comes st wl (rg_available g = []) (rg_available g)) (rg_collectors g))),
        av_gone = sort (map fst (filter (goes st wl (rg_available g = []) (rg_available g)) (rg_collectors g)))\<rparr>,
       g\<lparr>rg_available := av'\<rparr>)
    \<and> (\<forall>n. map_of av' n = (case map_of (rg_collectors g) n of
           None \<Rightarrow> map_of (rg_available g) n
         | Some c \<Rightarrow> (case asked st wl c of None \<Rightarrow> map_of (rg_available g) n | Some now \<Rightarrow> Some now)))"
  using refresh_fold [of "rg_collectors g" st wl "rg_available g = []" "[]" "[]" "rg_available g"] assms
  by (auto simp: RefreshAvailability_def registry_ok_def)

text \<open>
  Only gated collectors have a cached answer, and after the first refresh all of them do:
  the state the program keeps between two refreshes.
\<close>

definition cache_ok :: "registry \<Rightarrow> bool" where
  "cache_ok g = (\<forall>n. map_of (rg_available g) n \<noteq> None \<longleftrightarrow>
     (\<exists>c. map_of (rg_collectors g) n = Some c \<and> co_available c \<noteq> None))"

lemma refresh_keeps:
  assumes "registry_ok g" and "cache_ok g \<or> rg_available g = []"
  shows "registry_ok (snd (RefreshAvailability st wl g)) \<and> cache_ok (snd (RefreshAvailability st wl g))
    \<and> rg_collectors (snd (RefreshAvailability st wl g)) = rg_collectors g"
proof -
  from refresh_result [OF assms(1), of st wl] obtain d av' where
    r: "RefreshAvailability st wl g = (d, g\<lparr>rg_available := av'\<rparr>)"
    "\<forall>n. map_of av' n = (case map_of (rg_collectors g) n of
           None \<Rightarrow> map_of (rg_available g) n
         | Some c \<Rightarrow> (case asked st wl c of None \<Rightarrow> map_of (rg_available g) n | Some now \<Rightarrow> Some now))"
    by blast
  have "map_of av' n \<noteq> None \<longleftrightarrow> (\<exists>c. map_of (rg_collectors g) n = Some c \<and> co_available c \<noteq> None)" for n
  proof (cases "map_of (rg_collectors g) n")
    case None
    with assms(2) spec [OF r(2), of n] show ?thesis by (auto simp: cache_ok_def dest: spec [of _ n])
  next
    case (Some c)
    with assms(2) spec [OF r(2), of n] show ?thesis
      by (cases "co_available c") (auto simp: cache_ok_def asked_def dest: spec [of _ n])
  qed
  then show ?thesis using r(1) assms(1) by (simp add: cache_ok_def registry_ok_def)
qed

text \<open>The names a refresh makes visible, gate by gate.\<close>

lemma refresh_visible:
  assumes "registry_ok g" and "cache_ok g \<or> rg_available g = []"
    and "RefreshAvailability st wl g = (d, g')"
  shows "visible g' = {n. \<exists>c. map_of (rg_collectors g) n = Some c \<and> asked st wl c \<noteq> Some False}"
proof -
  from refresh_result [OF assms(1), of st wl] assms(3) obtain av' where
    r: "g' = g\<lparr>rg_available := av'\<rparr>"
    "\<forall>n. map_of av' n = (case map_of (rg_collectors g) n of
           None \<Rightarrow> map_of (rg_available g) n
         | Some c \<Rightarrow> (case asked st wl c of None \<Rightarrow> map_of (rg_available g) n | Some now \<Rightarrow> Some now))"
    by auto
  have "n \<in> visible g' \<longleftrightarrow> (\<exists>c. map_of (rg_collectors g) n = Some c \<and> asked st wl c \<noteq> Some False)" for n
  proof (cases "map_of (rg_collectors g) n")
    case None
    then have "n \<notin> fst ` set (rg_collectors g)" by (simp only: map_of_eq_None_iff not_False_eq_True)
    with None show ?thesis by (simp add: visible_def r(1))
  next
    case (Some c)
    then have "n \<in> fst ` set (rg_collectors g)" by (metis map_of_eq_None_iff option.distinct(1))
    then show ?thesis
      using Some spec [OF r(2), of n] assms(2)
      by (cases "co_available c")
        (auto simp: visible_def hidden_def r(1) asked_def cache_ok_def dest: spec [of _ n])
  qed
  then show ?thesis by blast
qed

lemma cached_visible:
  assumes "registry_ok g" and "cache_ok g" and "map_of (rg_collectors g) n = Some c"
  shows "n \<in> visible g \<longleftrightarrow> co_available c = None \<or> map_of (rg_available g) n = Some True"
proof -
  have "n \<in> fst ` set (rg_collectors g)" using assms(3) by (metis map_of_eq_None_iff option.distinct(1))
  then show ?thesis
    using assms(2,3) by (cases "co_available c")
      (auto simp: visible_def hidden_def cache_ok_def dest: spec [of _ n])
qed

lemma Manifests_visible:
  assumes "registry_ok g"
  shows "map pm_name (Manifests g) = sorted_list_of_set (visible g)"
proof -
  have "distinct (map co_name (All_collectors g))"
    using assms by (simp add: All_collectors_names registry_ok_def distinct_map_filter)
  moreover have "set (map co_name (All_collectors g)) = visible g"
    using visible_names [OF assms] by simp
  ultimately show ?thesis
    unfolding Manifests_names by (metis sorted_list_of_set_sort_remdups distinct_remdups_id)
qed

text \<open>
  A refresh of the availability reports exactly what it changes: the names that became
  visible and those that were hidden, sorted, once each; it says so by \<open>Changed\<close> exactly when
  the set of visible collectors changed; and what the agent then advertises are the manifests
  of the visible collectors in the order of their names, whatever the order of the map.
\<close>
theorem refresh_reports_changes:
  assumes "registry_ok g" and "cache_ok g" and "rg_available g \<noteq> []"
    and "RefreshAvailability st wl g = (d, g')"
  shows "av_now d = sorted_list_of_set (visible g' - visible g)
    \<and> av_gone d = sorted_list_of_set (visible g - visible g')
    \<and> (Changed d \<longleftrightarrow> visible g' \<noteq> visible g)
    \<and> map pm_name (Manifests g') = sorted_list_of_set (visible g')
    \<and> (Get_collector n g' \<noteq> None \<longleftrightarrow> n \<in> visible g')"
proof -
  let ?C = "rg_collectors g"
  have dist: "distinct (map fst ?C)" using assms(1) by (simp add: registry_ok_def)
  note vis = refresh_visible [OF assms(1) disjI1 [OF assms(2)] assms(4)]
  from refresh_result [OF assms(1), of st wl] assms(3,4) obtain av' where
    d: "d = \<lparr>av_now = sort (map fst (filter (comes st wl False (rg_available g)) ?C)),
             av_gone = sort (map fst (filter (goes st wl False (rg_available g)) ?C))\<rparr>"
    and g': "g' = g\<lparr>rg_available := av'\<rparr>" by auto
  have at: "map_of ?C n = Some c \<longleftrightarrow> (n, c) \<in> set ?C" for n c using dist by simp
  have none: "n \<notin> visible g" if "map_of ?C n = None" for n
    using that by (auto simp only: visible_def map_of_eq_None_iff)
  have new: "n \<in> visible g' \<longleftrightarrow> asked st wl c \<noteq> Some False" if "map_of ?C n = Some c" for n c
    using that by (simp add: vis)
  have img: "n \<in> fst ` set (filter P ?C) \<longleftrightarrow> (\<exists>c. map_of ?C n = Some c \<and> P (n, c))" for P n
    by (force simp: at)
  have now: "fst ` set (filter (comes st wl False (rg_available g)) ?C) = visible g' - visible g"
  proof (rule set_eqI)
    fix n show "n \<in> fst ` set (filter (comes st wl False (rg_available g)) ?C) \<longleftrightarrow> n \<in> visible g' - visible g"
    proof (cases "map_of ?C n")
      case None
      then show ?thesis unfolding img using vis by auto
    next
      case (Some c)
      with new [OF Some] cached_visible [OF assms(1,2) Some] assms(2) show ?thesis
        unfolding img by (cases "co_available c")
          (auto simp: comes_def asked_def cache_ok_def dest: spec [of _ n])
    qed
  qed
  have gone: "fst ` set (filter (goes st wl False (rg_available g)) ?C) = visible g - visible g'"
  proof (rule set_eqI)
    fix n show "n \<in> fst ` set (filter (goes st wl False (rg_available g)) ?C) \<longleftrightarrow> n \<in> visible g - visible g'"
    proof (cases "map_of ?C n")
      case None
      then show ?thesis unfolding img using none [OF None] by simp
    next
      case (Some c)
      with new [OF Some] cached_visible [OF assms(1,2) Some] show ?thesis
        unfolding img by (cases "co_available c") (auto simp: goes_def asked_def)
    qed
  qed
  have sort: "sort (map fst (filter P ?C)) = sorted_list_of_set (fst ` set (filter P ?C))" for P
    using dist by (metis distinct_map_filter distinct_remdups_id set_map sorted_list_of_set_sort_remdups)
  have fin: "finite (visible h)" for h by (simp add: visible_def)
  have "av_now d = sorted_list_of_set (visible g' - visible g)"
    "av_gone d = sorted_list_of_set (visible g - visible g')"
    unfolding d by (simp_all only: availability_diff.simps sort now gone)
  moreover from this have "Changed d \<longleftrightarrow> visible g' \<noteq> visible g"
    using fin by (simp add: Changed_def card_gt_0_iff) blast
  moreover have ok': "registry_ok g'" using assms(1) by (simp add: g' registry_ok_def)
  moreover have "Get_collector n g' \<noteq> None \<longleftrightarrow> n \<in> visible g'" by (rule visible_found)
  ultimately show ?thesis using Manifests_visible [OF ok'] by blast
qed

end
