(* ===== verification/Col_Container.thy ===== *)
theory Col_Container
  imports Agent_Probe
begin

text \<open>
  \<open>agent/collectors/container/docker_ps.go\<close>: listing containers, inspecting one, and the tail
  of its log, each by one call of the exec gateway.
\<close>

section \<open>Listing\<close>

record docker_container =
  dk_ID :: string
  dk_Image :: string
  dk_Names :: string
  dk_State :: string
  dk_Status :: string
  dk_Ports :: string

definition no_container :: docker_container where
  "no_container = \<lparr>dk_ID = [], dk_Image = [], dk_Names = [], dk_State = [], dk_Status = [], dk_Ports = []\<rparr>"

definition dec_container :: "docker_container agg_decoder" where
  "dec_container = dec_struct (\<lambda>c kvs.
     let (i, ok1) = field ''ID'' (leaf dec_string) (dk_ID c) kvs;
         (im, ok2) = field ''Image'' (leaf dec_string) (dk_Image c) kvs;
         (n, ok3) = field ''Names'' (leaf dec_string) (dk_Names c) kvs;
         (st, ok4) = field ''State'' (leaf dec_string) (dk_State c) kvs;
         (su, ok5) = field ''Status'' (leaf dec_string) (dk_Status c) kvs;
         (p, ok6) = field ''Ports'' (leaf dec_string) (dk_Ports c) kvs
     in (\<lparr>dk_ID = i, dk_Image = im, dk_Names = n, dk_State = st, dk_Status = su, dk_Ports = p\<rparr>,
         ok1 \<and> ok2 \<and> ok3 \<and> ok4 \<and> ok5 \<and> ok6))"

record docker_ps_result =
  dp_containers :: "docker_container list"
  dp_total :: nat
  dp_running :: nat
  dp_exited :: nat
  dp_restarting :: nat

definition restarting_hint :: "docker_container \<Rightarrow> probe_hint" where
  "restarting_hint c =
     \<lparr>hn_severity = ''warn'', hn_code = ''container.restarting'',
      hn_message = ''container '' @ dk_Names c @ '' ('' @ dk_Image c @ '') is restarting: '' @ dk_Status c,
      hn_evidence = JObj [(''container'', JStr (dk_Names c)), (''id'', JStr (dk_ID c)),
                          (''image'', JStr (dk_Image c)), (''status'', JStr (dk_Status c))]\<rparr>"

text \<open>The body of the loop over the lines.\<close>

definition ps_line :: "string \<Rightarrow> docker_ps_result \<times> probe_hint list \<Rightarrow> docker_ps_result \<times> probe_hint list" where
  "ps_line raw acc =
     (case acc of (out, hints) \<Rightarrow>
        let line = trim_space raw
        in if line = [] then acc
           else (case unmarshal dec_container no_container line of
                   (_, False) \<Rightarrow> acc
                 | (c, True) \<Rightarrow>
                    (let out' = out\<lparr>dp_containers := dp_containers out @ [c]\<rparr>; st = to_lower (dk_State c)
                     in if st = ''running'' then (out'\<lparr>dp_running := dp_running out + 1\<rparr>, hints)
                        else if st = ''exited'' \<or> st = ''dead'' then (out'\<lparr>dp_exited := dp_exited out + 1\<rparr>, hints)
                        else if st = ''restarting'' then
                          (out'\<lparr>dp_restarting := dp_restarting out + 1\<rparr>, hints @ [restarting_hint c])
                        else (out', hints))))"

definition parsePS :: "bytes \<Rightarrow> docker_ps_result \<times> probe_hint list" where
  "parsePS body =
     (case fold ps_line (fst (scanner (4 * 1024 * 1024) body))
             (\<lparr>dp_containers = [], dp_total = 0, dp_running = 0, dp_exited = 0, dp_restarting = 0\<rparr>, [])
      of (out, hints) \<Rightarrow> (out\<lparr>dp_total := length (dp_containers out)\<rparr>, hints))"

definition container_json :: "docker_container \<Rightarrow> json" where
  "container_json c = JObj
     [(''ID'', JStr (dk_ID c)), (''Image'', JStr (dk_Image c)), (''Names'', JStr (dk_Names c)),
      (''State'', JStr (dk_State c)), (''Status'', JStr (dk_Status c)), (''Ports'', JStr (dk_Ports c))]"

definition docker_ps_json :: "docker_ps_result \<Rightarrow> json" where
  "docker_ps_json r = JObj
     [(''containers'', slice_json container_json (dp_containers r)), (''total'', JInt (int (dp_total r))),
      (''running'', JInt (int (dp_running r))), (''exited'', JInt (int (dp_exited r))),
      (''restarting'', JInt (int (dp_restarting r)))]"

definition docker_ps_run :: "strmap \<Rightarrow> probe_result outcome pm" where
  "docker_ps_run p =
     chain (command ''docker ps'' ''docker'' [''ps'', ''-a'', ''--no-trunc'', ''--format'', ''{{json .}}''])
       (\<lambda>res. case parsePS (x_stdout res) of (out, hints) \<Rightarrow>
          return (Got (mk_result (docker_ps_json out) hints [])))"

definition dockerAvailable :: "stat \<Rightarrow> whitelist \<Rightarrow> bool" where
  "dockerAvailable st wl = BinaryAvailable st wl ''docker''"

definition docker_ps_manifest :: probe_manifest where
  "docker_ps_manifest =
     \<lparr>pm_name = ''docker_ps'', pm_version = ''1.0.0'', pm_category = ''container'',
      pm_description = ''List all docker containers (running + stopped) with state, image, names, ports. Emits hints for restarting/exited containers.'',
      pm_reads = [(''docker ps -a --no-trunc --format '' @ [CHR 0x27] @ ''{{json .}}'' @ [CHR 0x27])], pm_requires = [], pm_params = []\<rparr>"

definition docker_ps :: collector where
  "docker_ps = \<lparr>co_manifest = docker_ps_manifest, co_available = Some dockerAvailable, co_run = docker_ps_run\<rparr>"

section \<open>Inspecting\<close>

definition docker_inspect_run :: "strmap \<Rightarrow> probe_result outcome pm" where
  "docker_inspect_run p =
     (let c = trim_space (param p ''container'')
      in if c = [] then return (Failed (Msg (''param '' @ [CHR 0x27] @ ''container'' @ [CHR 0x27] @ '' (id or name) required'')))
         else chain (command ''docker inspect'' ''docker'' [''inspect'', c])
           (\<lambda>res. case parse_json (x_stdout res) of
               Some (JArr (v # _)) \<Rightarrow> return (Got (mk_result v [] []))
             | Some (JArr []) \<Rightarrow> return (Failed (Quoting [(''container '', c)] '' not found''))
             | Some JNull \<Rightarrow> return (Failed (Quoting [(''container '', c)] '' not found''))
             | _ \<Rightarrow> return (Failed (Wrap ''inspect parse'' (JsonErr (x_stdout res))))))"

definition docker_inspect_manifest :: probe_manifest where
  "docker_inspect_manifest =
     \<lparr>pm_name = ''docker_inspect'', pm_version = ''1.0.0'', pm_category = ''container'',
      pm_description = (''docker inspect <container> '' @ em_dash @ '' full state + config + mounts + network. params: {container: string}''),
      pm_reads = [''docker inspect <container>''], pm_requires = [], pm_params = []\<rparr>"

definition docker_inspect :: collector where
  "docker_inspect =
     \<lparr>co_manifest = docker_inspect_manifest, co_available = Some dockerAvailable, co_run = docker_inspect_run\<rparr>"

section \<open>Logs\<close>

definition docker_logs_run :: "strmap \<Rightarrow> probe_result outcome pm" where
  "docker_logs_run p =
     (let c = trim_space (param p ''container'')
      in if c = [] then return (Failed (Msg (''param '' @ [CHR 0x27] @ ''container'' @ [CHR 0x27] @ '' required'')))
         else (let lines = paramInt p ''lines'' 200 10000
               in chain (command ''docker logs'' ''docker''
                           [''logs'', ''--tail'', int_text lines, ''--timestamps'', c])
                    (\<lambda>res. return (Got (mk_result
                       (JObj [(''bytes'', JInt (int (length (x_stdout res)))), (''container'', JStr c),
                              (''lines'', JInt lines)])
                       [] [\<lparr>at_name = ''docker_logs.txt'', at_mime = [], at_body = x_stdout res\<rparr>])))))"

definition docker_logs_manifest :: probe_manifest where
  "docker_logs_manifest =
     \<lparr>pm_name = ''docker_logs'', pm_version = ''1.0.0'', pm_category = ''container'',
      pm_description = ''Tail container logs with timestamps. params: {container: string, lines?: int (default 200, max 10000)}'',
      pm_reads = [''docker logs --tail <N> --timestamps <container>''], pm_requires = [], pm_params = []\<rparr>"

definition docker_logs :: collector where
  "docker_logs =
     \<lparr>co_manifest = docker_logs_manifest, co_available = Some dockerAvailable, co_run = docker_logs_run\<rparr>"

end
