(* ===== verification/Col_Kube.thy ===== *)
theory Col_Kube
  imports Agent_Probe
begin

text \<open>
  \<open>agent/collectors/k8s/kubectl_get.go\<close>: listing objects of a cluster, describing one, and the
  tail of a pod's log, each by one call of the exec gateway. \<open>jerr\<close> is the text of the error
  that \<open>json.Unmarshal\<close> gives for some bytes.
\<close>

section \<open>The list's items\<close>

record k8s_object =
  ko_name :: string
  ko_namespace :: string
  ko_kind :: string
  ko_phase :: string
  ko_containers :: "(bool \<times> int) list"
  ko_conditions :: "(string \<times> string) list"

definition no_object :: k8s_object where
  "no_object = \<lparr>ko_name = [], ko_namespace = [], ko_kind = [], ko_phase = [], ko_containers = [], ko_conditions = []\<rparr>"

definition dec_container_status :: "(bool \<times> int) agg_decoder" where
  "dec_container_status = dec_struct (\<lambda>old kvs.
     let (r, ok1) = field ''ready'' (leaf dec_bool) (fst old) kvs;
         (n, ok2) = field ''restartCount'' (leaf dec_int) (snd old) kvs
     in ((r, n), ok1 \<and> ok2))"

definition dec_condition :: "(string \<times> string) agg_decoder" where
  "dec_condition = dec_struct (\<lambda>old kvs.
     let (t, ok1) = field ''type'' (leaf dec_string) (fst old) kvs;
         (st, ok2) = field ''status'' (leaf dec_string) (snd old) kvs
     in ((t, st), ok1 \<and> ok2))"

definition dec_metadata :: "k8s_object agg_decoder" where
  "dec_metadata = dec_struct (\<lambda>x kvs.
     let (n, ok1) = field ''name'' (leaf dec_string) (ko_name x) kvs;
         (ns, ok2) = field ''namespace'' (leaf dec_string) (ko_namespace x) kvs
     in (x\<lparr>ko_name := n, ko_namespace := ns\<rparr>, ok1 \<and> ok2))"

definition dec_object_status :: "k8s_object agg_decoder" where
  "dec_object_status = dec_struct (\<lambda>x kvs.
     let (ph, ok1) = field ''phase'' (leaf dec_string) (ko_phase x) kvs;
         (cs, ok2) = field ''containerStatuses'' (dec_slice dec_container_status (False, 0)) (ko_containers x) kvs;
         (cn, ok3) = field ''conditions'' (dec_slice dec_condition ([], [])) (ko_conditions x) kvs
     in (x\<lparr>ko_phase := ph, ko_containers := cs, ko_conditions := cn\<rparr>, ok1 \<and> ok2 \<and> ok3))"

definition dec_object :: "k8s_object agg_decoder" where
  "dec_object = dec_struct (\<lambda>x kvs.
     let (x1, ok1) = field ''metadata'' dec_metadata x kvs;
         (k, ok2) = field ''kind'' (leaf dec_string) (ko_kind x1) kvs;
         (x2, ok3) = field ''status'' dec_object_status (x1\<lparr>ko_kind := k\<rparr>) kvs
     in (x2, ok1 \<and> ok2 \<and> ok3))"

definition dec_k8s_list :: "(string \<times> k8s_object list) agg_decoder" where
  "dec_k8s_list = dec_struct (\<lambda>old kvs.
     let (k, ok1) = field ''kind'' (leaf dec_string) (fst old) kvs;
         (its, ok2) = field ''items'' (dec_slice dec_object no_object) (snd old) kvs
     in ((k, its), ok1 \<and> ok2))"

section \<open>Summarising a list\<close>

record k8s_item =
  ki_name :: string
  ki_namespace :: string
  ki_kind :: string
  ki_status :: string
  ki_ready :: string
  ki_restarts :: int

record k8s_list_result =
  kl_resource :: string
  kl_namespace :: string
  kl_total :: int
  kl_not_ready :: int
  kl_items :: "k8s_item list"
  kl_error :: string

definition ratio :: "nat \<Rightarrow> nat \<Rightarrow> string" where
  "ratio a b = nat_text a @ ''/'' @ nat_text b"

definition object_row :: "k8s_object \<Rightarrow> k8s_item" where
  "object_row it =
     \<lparr>ki_name = ko_name it, ki_namespace = ko_namespace it, ki_kind = ko_kind it, ki_status = ko_phase it,
      ki_ready = (if ko_containers it = [] then []
                  else ratio (length (filter fst (ko_containers it))) (length (ko_containers it))),
      ki_restarts = sum_list (map snd (ko_containers it))\<rparr>"

text \<open>The hint of a pod some of whose containers are not ready.\<close>

definition pod_hints :: "k8s_object \<Rightarrow> probe_hint list" where
  "pod_hints it =
     (let row = object_row it; ready = length (filter fst (ko_containers it)); total = length (ko_containers it)
      in if ready < total then
           [\<lparr>hn_severity = ''warn'', hn_code = ''pod.not_ready'',
             hn_message = ko_namespace it @ ''/'' @ ko_name it @ '' ready '' @ ratio ready total
               @ '' (status='' @ ko_phase it @ '', restarts='' @ int_text (ki_restarts row) @ '')'',
             hn_evidence = JObj [(''name'', JStr (ko_name it)), (''namespace'', JStr (ko_namespace it)),
               (''ready'', JStr (ki_ready row)), (''restarts'', JInt (ki_restarts row)),
               (''status'', JStr (ko_phase it))]\<rparr>]
         else [])"

text \<open>The hints of a node whose condition \<open>Ready\<close> is not \<open>True\<close>.\<close>

definition node_hints :: "k8s_object \<Rightarrow> probe_hint list" where
  "node_hints it =
     map (\<lambda>c. \<lparr>hn_severity = ''warn'', hn_code = ''node.not_ready'',
                hn_message = ''node '' @ ko_name it @ '' Ready='' @ snd c,
                hn_evidence = JObj [(''node'', JStr (ko_name it)), (''ready'', JStr (snd c))]\<rparr>)
       (filter (\<lambda>c. fst c = ''Ready'' \<and> snd c \<noteq> ''True'') (ko_conditions it))"

definition list_object ::
  "k8s_object \<Rightarrow> k8s_list_result \<times> probe_hint list \<Rightarrow> k8s_list_result \<times> probe_hint list" where
  "list_object it acc =
     (case acc of (out, hints) \<Rightarrow>
        let new = pod_hints it @ node_hints it
        in (out\<lparr>kl_not_ready := kl_not_ready out + int (length new), kl_items := kl_items out @ [object_row it]\<rparr>,
            hints @ new))"

definition parseList ::
  "(bytes \<Rightarrow> string) \<Rightarrow> string \<Rightarrow> string \<Rightarrow> bytes \<Rightarrow> k8s_list_result \<times> probe_hint list" where
  "parseList jerr resource ns body =
     (let out = \<lparr>kl_resource = resource, kl_namespace = ns, kl_total = 0, kl_not_ready = 0, kl_items = [], kl_error = []\<rparr>
      in case unmarshal dec_k8s_list ([], []) body of
           (_, False) \<Rightarrow> (out\<lparr>kl_error := jerr body\<rparr>, [])
         | ((_, its), True) \<Rightarrow> fold list_object its (out\<lparr>kl_total := int (length its)\<rparr>, []))"

definition k8s_item_json :: "k8s_item \<Rightarrow> json" where
  "k8s_item_json r = JObj
     ([(''name'', JStr (ki_name r))] @ omit_str ''namespace'' (ki_namespace r) @ omit_str ''kind'' (ki_kind r)
      @ omit_str ''status'' (ki_status r) @ omit_str ''ready'' (ki_ready r) @ omit_int ''restarts'' (ki_restarts r))"

definition k8s_list_json :: "k8s_list_result \<Rightarrow> json" where
  "k8s_list_json r = JObj
     ([(''resource'', JStr (kl_resource r))] @ omit_str ''namespace'' (kl_namespace r)
      @ [(''total'', JInt (kl_total r))] @ omit_int ''not_ready'' (kl_not_ready r)
      @ [(''items'', slice_json k8s_item_json (kl_items r))] @ omit_str ''apiserver_error'' (kl_error r))"

section \<open>The collectors\<close>

definition safe_name_char :: "char \<Rightarrow> bool" where
  "safe_name_char c = (is_alnum c \<or> c = CHR ''-'' \<or> c = CHR ''_'')"

text \<open>
  \<open>strings.Map\<close> goes over the runes: a well-formed UTF-8 sequence is one rune, any other byte is one
  of its own.
\<close>

definition in_range :: "nat \<Rightarrow> nat \<Rightarrow> string \<Rightarrow> nat \<Rightarrow> bool" where
  "in_range lo hi s i = (i < length s \<and> lo \<le> of_char (s ! i) \<and> of_char (s ! i) \<le> (hi :: nat))"

definition rune_width :: "string \<Rightarrow> nat" where
  "rune_width s =
     (let b = (\<lambda>lo hi. in_range lo hi s); tails = (\<lambda>n. list_all (b 0x80 0xBF) [2..<n])
      in if b 0xC2 0xDF 0 \<and> b 0x80 0xBF 1 then 2
         else if (b 0xE0 0xE0 0 \<and> b 0xA0 0xBF 1 \<or> b 0xED 0xED 0 \<and> b 0x80 0x9F 1
                  \<or> (b 0xE1 0xEC 0 \<or> b 0xEE 0xEF 0) \<and> b 0x80 0xBF 1) \<and> tails 3 then 3
         else if (b 0xF0 0xF0 0 \<and> b 0x90 0xBF 1 \<or> b 0xF1 0xF3 0 \<and> b 0x80 0xBF 1
                  \<or> b 0xF4 0xF4 0 \<and> b 0x80 0x8F 1) \<and> tails 4 then 4
         else 1)"

lemma rune_width_pos: "0 < rune_width s"
  by (simp add: rune_width_def Let_def)

function map_runes :: "(char \<Rightarrow> char) \<Rightarrow> char \<Rightarrow> string \<Rightarrow> string" where
  "map_runes f wide s =
     (if s = [] then []
      else (if of_char (hd s) < (0x80 :: nat) then f (hd s) else wide) # map_runes f wide (drop (rune_width s) s))"
  by pat_completeness auto

termination
  by (relation "measure (\<lambda>(f, wide, s). length s)") (auto simp: rune_width_pos)

declare map_runes.simps [simp del]

definition safeName :: "string \<Rightarrow> string" where
  "safeName s = map_runes (\<lambda>c. if safe_name_char c then c else CHR ''_'') (CHR ''_'') s"

definition kubectl_get_args :: "string \<Rightarrow> string \<Rightarrow> string list" where
  "kubectl_get_args resource ns =
     [''get'', resource] @ (if ns = [] then [''-A''] else [''-n'', ns]) @ [''-o'', ''json'']"

definition kubectl_get_run :: "(bytes \<Rightarrow> string) \<Rightarrow> strmap \<Rightarrow> probe_result outcome pm" where
  "kubectl_get_run jerr p =
     (let resource = trim_space (param p ''resource'')
      in if resource = [] then return (Failed (Msg (''param '' @ [CHR 0x27] @ ''resource'' @ [CHR 0x27] @ '' required (e.g. pods, nodes, deployments)'')))
         else (let ns = trim_space (param p ''namespace'')
               in chain (command (''kubectl get '' @ resource) ''kubectl'' (kubectl_get_args resource ns))
                    (\<lambda>res. case parseList jerr resource ns (x_stdout res) of (out, hints) \<Rightarrow>
                       return (Got (mk_result (k8s_list_json out) hints
                         [\<lparr>at_name = ''kubectl_get_'' @ safeName resource @ ''.json'', at_mime = [],
                           at_body = x_stdout res\<rparr>])))))"

definition kubectlAvailable :: "stat \<Rightarrow> whitelist \<Rightarrow> bool" where
  "kubectlAvailable st wl = BinaryAvailable st wl ''kubectl''"

definition kubectl_get_manifest :: probe_manifest where
  "kubectl_get_manifest =
     \<lparr>pm_name = ''kubectl_get'', pm_version = ''1.0.0'', pm_category = ''k8s'',
      pm_description = (''kubectl get <resource> -o json '' @ em_dash @ '' list any resource (pods, nodes, deployments, services, ...). params: {resource: string (required), namespace: string ('' @ [CHR 0x27] @ [CHR 0x27] @ '' = all namespaces)}''),
      pm_reads = [''kubectl get <resource> [-A | -n <ns>] -o json''], pm_requires = [], pm_params = []\<rparr>"

definition kubectl_get :: "(bytes \<Rightarrow> string) \<Rightarrow> collector" where
  "kubectl_get jerr =
     \<lparr>co_manifest = kubectl_get_manifest, co_available = Some kubectlAvailable, co_run = kubectl_get_run jerr\<rparr>"

definition kubectl_describe_run :: "strmap \<Rightarrow> probe_result outcome pm" where
  "kubectl_describe_run p =
     (let resource = trim_space (param p ''resource''); name = trim_space (param p ''name'');
          ns = trim_space (param p ''namespace'')
      in if resource = [] \<or> name = [] \<or> ns = []
         then return (Failed (Msg (''params '' @ [CHR 0x27] @ ''resource'' @ [CHR 0x27] @ '', '' @ [CHR 0x27] @ ''name'' @ [CHR 0x27] @ '', '' @ [CHR 0x27] @ ''namespace'' @ [CHR 0x27] @ '' all required'')))
         else chain (command ''kubectl describe'' ''kubectl'' [''describe'', resource, name, ''-n'', ns])
           (\<lambda>res. return (Got (mk_result
              (JObj [(''bytes'', JInt (int (length (x_stdout res)))), (''name'', JStr name),
                     (''namespace'', JStr ns), (''resource'', JStr resource)])
              [] [\<lparr>at_name = ''kubectl_describe.txt'', at_mime = [], at_body = x_stdout res\<rparr>]))))"

definition kubectl_describe_manifest :: probe_manifest where
  "kubectl_describe_manifest =
     \<lparr>pm_name = ''kubectl_describe'', pm_version = ''1.0.0'', pm_category = ''k8s'',
      pm_description = (''kubectl describe <resource> <name> -n <ns> '' @ em_dash @ '' full event/condition log for one object. params: {resource, name, namespace} (all required).''),
      pm_reads = [''kubectl describe <resource> <name> -n <ns>''], pm_requires = [], pm_params = []\<rparr>"

definition kubectl_describe :: collector where
  "kubectl_describe =
     \<lparr>co_manifest = kubectl_describe_manifest, co_available = Some kubectlAvailable, co_run = kubectl_describe_run\<rparr>"

definition kubectl_logs_run :: "strmap \<Rightarrow> probe_result outcome pm" where
  "kubectl_logs_run p =
     (let pod = trim_space (param p ''pod''); ns = trim_space (param p ''namespace'')
      in if pod = [] \<or> ns = [] then return (Failed (Msg (''params '' @ [CHR 0x27] @ ''pod'' @ [CHR 0x27] @ '' and '' @ [CHR 0x27] @ ''namespace'' @ [CHR 0x27] @ '' required'')))
         else (let lines = paramInt p ''lines'' 200 10000
               in chain (command ''kubectl logs'' ''kubectl''
                           [''logs'', pod, ''-n'', ns, ''--tail'', int_text lines, ''--timestamps''])
                    (\<lambda>res. return (Got (mk_result
                       (JObj [(''bytes'', JInt (int (length (x_stdout res)))), (''lines'', JInt lines),
                              (''namespace'', JStr ns), (''pod'', JStr pod)])
                       [] [\<lparr>at_name = ''kubectl_logs.txt'', at_mime = [], at_body = x_stdout res\<rparr>])))))"

definition kubectl_logs_manifest :: probe_manifest where
  "kubectl_logs_manifest =
     \<lparr>pm_name = ''kubectl_logs'', pm_version = ''1.0.0'', pm_category = ''k8s'',
      pm_description = ''kubectl logs <pod> -n <ns> --tail <N> --timestamps. params: {pod, namespace, lines? (default 200, max 10000)}.'',
      pm_reads = [''kubectl logs <pod> -n <ns> --tail <N> --timestamps''], pm_requires = [], pm_params = []\<rparr>"

definition kubectl_logs :: collector where
  "kubectl_logs =
     \<lparr>co_manifest = kubectl_logs_manifest, co_available = Some kubectlAvailable, co_run = kubectl_logs_run\<rparr>"

end
