(* ===== verification/Col_Systemd.thy ===== *)
theory Col_Systemd
  imports Agent_Probe
begin

text \<open>
  \<open>agent/collectors/systemd/*.go\<close>: the snapshot of the units and the tail of a unit's journal,
  each by one call of the exec gateway. \<open>jerr\<close> is the text of the error that
  \<open>json.Unmarshal\<close> gives for some bytes.
\<close>

section \<open>Units\<close>

record sd_unit =
  su_unit :: string
  su_load :: string
  su_active :: string
  su_sub :: string
  su_description :: string

definition no_unit :: sd_unit where
  "no_unit = \<lparr>su_unit = [], su_load = [], su_active = [], su_sub = [], su_description = []\<rparr>"

definition dec_unit :: "sd_unit agg_decoder" where
  "dec_unit = dec_struct (\<lambda>u kvs.
     let (n, ok1) = field ''unit'' (leaf dec_string) (su_unit u) kvs;
         (l, ok2) = field ''load'' (leaf dec_string) (su_load u) kvs;
         (a, ok3) = field ''active'' (leaf dec_string) (su_active u) kvs;
         (sb, ok4) = field ''sub'' (leaf dec_string) (su_sub u) kvs;
         (d, ok5) = field ''description'' (leaf dec_string) (su_description u) kvs
     in (\<lparr>su_unit = n, su_load = l, su_active = a, su_sub = sb, su_description = d\<rparr>,
         ok1 \<and> ok2 \<and> ok3 \<and> ok4 \<and> ok5))"

record units_result =
  ur_units :: "sd_unit list"
  ur_total :: nat
  ur_inactive :: nat
  ur_failed :: nat

definition failed_hint :: "sd_unit \<Rightarrow> probe_hint" where
  "failed_hint u =
     \<lparr>hn_severity = ''error'', hn_code = ''service.failed'',
      hn_message = ''unit '' @ su_unit u @ '' is failed ('' @ su_sub u @ '')'',
      hn_evidence = JObj [(''sub'', JStr (su_sub u)), (''unit'', JStr (su_unit u))]\<rparr>"

text \<open>The body of the loop over the units.\<close>

definition count_unit :: "sd_unit \<Rightarrow> units_result \<times> probe_hint list \<Rightarrow> units_result \<times> probe_hint list" where
  "count_unit u acc =
     (case acc of (out, hints) \<Rightarrow>
        if su_active u = ''failed'' then (out\<lparr>ur_failed := ur_failed out + 1\<rparr>, hints @ [failed_hint u])
        else if su_active u = ''inactive'' then (out\<lparr>ur_inactive := ur_inactive out + 1\<rparr>, hints)
        else acc)"

definition parseUnits :: "(bytes \<Rightarrow> string) \<Rightarrow> bytes \<Rightarrow> units_result \<times> probe_hint list" where
  "parseUnits jerr body =
     (case unmarshal (dec_slice dec_unit no_unit) [] body of
        (us, False) \<Rightarrow>
          (\<lparr>ur_units = us, ur_total = 0, ur_inactive = 0, ur_failed = 0\<rparr>,
           [\<lparr>hn_severity = ''error'', hn_code = ''systemd.parse_failed'', hn_message = jerr body, hn_evidence = JNull\<rparr>])
      | (us, True) \<Rightarrow>
          fold count_unit us (\<lparr>ur_units = us, ur_total = length us, ur_inactive = 0, ur_failed = 0\<rparr>, []))"

definition unit_json :: "sd_unit \<Rightarrow> json" where
  "unit_json u = JObj
     [(''unit'', JStr (su_unit u)), (''load'', JStr (su_load u)), (''active'', JStr (su_active u)),
      (''sub'', JStr (su_sub u)), (''description'', JStr (su_description u))]"

definition units_json :: "units_result \<Rightarrow> json" where
  "units_json r = JObj
     [(''units'', slice_json unit_json (ur_units r)), (''total'', JInt (int (ur_total r))),
      (''inactive'', JInt (int (ur_inactive r))), (''failed'', JInt (int (ur_failed r)))]"

definition systemd_units_run :: "(bytes \<Rightarrow> string) \<Rightarrow> strmap \<Rightarrow> probe_result outcome pm" where
  "systemd_units_run jerr p =
     chain (command ''systemctl'' ''systemctl''
              [''list-units'', ''--all'', ''--no-pager'', ''--no-legend'', ''-o'', ''json''])
       (\<lambda>res. case parseUnits jerr (x_stdout res) of (out, hints) \<Rightarrow>
          return (Got (mk_result (units_json out) hints [])))"

definition systemd_units_manifest :: probe_manifest where
  "systemd_units_manifest =
     \<lparr>pm_name = ''systemd_units'', pm_version = ''1.0.0'', pm_category = ''systemd'',
      pm_description = ''Snapshot of all systemd units (load/active/sub state). Emits hints for failed and inactive critical units.'',
      pm_reads = [''systemctl list-units --all -o json''], pm_requires = [], pm_params = []\<rparr>"

definition systemd_available :: "stat \<Rightarrow> whitelist \<Rightarrow> bool" where
  "systemd_available st wl = BinaryAvailable st wl ''systemctl''"

definition systemd_units :: "(bytes \<Rightarrow> string) \<Rightarrow> collector" where
  "systemd_units jerr =
     \<lparr>co_manifest = systemd_units_manifest, co_available = Some systemd_available, co_run = systemd_units_run jerr\<rparr>"

section \<open>The journal\<close>

text \<open>Of an entry only the priority and the message are read; the other two fields must be text too.\<close>

record journal_entry =
  je_timestamp :: string
  je_unit :: string
  je_priority :: string
  je_message :: string

definition no_entry :: journal_entry where
  "no_entry = \<lparr>je_timestamp = [], je_unit = [], je_priority = [], je_message = []\<rparr>"

definition dec_entry :: "journal_entry agg_decoder" where
  "dec_entry = dec_struct (\<lambda>e kvs.
     let (t, ok1) = field ''__REALTIME_TIMESTAMP'' (leaf dec_string) (je_timestamp e) kvs;
         (u, ok2) = field ''_SYSTEMD_UNIT'' (leaf dec_string) (je_unit e) kvs;
         (p, ok3) = field ''PRIORITY'' (leaf dec_string) (je_priority e) kvs;
         (ms, ok4) = field ''MESSAGE'' (leaf dec_string) (je_message e) kvs
     in (\<lparr>je_timestamp = t, je_unit = u, je_priority = p, je_message = ms\<rparr>, ok1 \<and> ok2 \<and> ok3 \<and> ok4))"

record journal_summary =
  js_unit :: string
  js_since :: string
  js_lines :: nat
  js_errors :: nat
  js_warnings :: nat
  js_levels :: "(string \<times> nat) list"
  js_artifact :: string

definition truncate_text :: "string \<Rightarrow> nat \<Rightarrow> string" where
  "truncate_text s n = (if length s \<le> n then s else take n s @ ellipsis)"

definition bump :: "string \<Rightarrow> (string \<times> nat) list \<Rightarrow> (string \<times> nat) list" where
  "bump k m = map_put k ((case map_of m k of None \<Rightarrow> 0 | Some n \<Rightarrow> n) + 1) m"

text \<open>The body of the loop over the lines; at most five error lines become hints.\<close>

definition journal_line ::
  "string \<Rightarrow> journal_summary \<times> probe_hint list \<Rightarrow> journal_summary \<times> probe_hint list" where
  "journal_line raw0 acc =
     (case acc of (out0, hints) \<Rightarrow>
        let raw = trim_space raw0
        in if raw = [] then acc
           else (let out = out0\<lparr>js_lines := js_lines out0 + 1\<rparr>
                 in case unmarshal dec_entry no_entry raw of
                      (_, False) \<Rightarrow> (out, hints)
                    | (e, True) \<Rightarrow>
                       (let out1 = out\<lparr>js_levels := bump (je_priority e) (js_levels out)\<rparr>
                        in if je_priority e \<in> {''0'', ''1'', ''2'', ''3''} then
                             (out1\<lparr>js_errors := js_errors out1 + 1\<rparr>,
                              if length hints < 5
                              then hints @ [\<lparr>hn_severity = ''error'', hn_code = ''journal.error_line'',
                                             hn_message = truncate_text (je_message e) 240, hn_evidence = JNull\<rparr>]
                              else hints)
                           else if je_priority e = ''4'' then (out1\<lparr>js_warnings := js_warnings out1 + 1\<rparr>, hints)
                           else (out1, hints))))"

definition summarizeJournal :: "string \<Rightarrow> string \<Rightarrow> bytes \<Rightarrow> journal_summary \<times> probe_hint list" where
  "summarizeJournal u since body =
     fold journal_line (split_on newline body)
       (\<lparr>js_unit = u, js_since = since, js_lines = 0, js_errors = 0, js_warnings = 0, js_levels = [], js_artifact = []\<rparr>, [])"

definition unit_name_char :: "char \<Rightarrow> bool" where
  "unit_name_char c = (is_alnum c \<or> c = CHR ''.'' \<or> c = CHR ''-'' \<or> c = CHR ''_'')"

definition sanitizeUnit :: "string \<Rightarrow> string" where
  "sanitizeUnit u = map (\<lambda>c. if unit_name_char c then c else CHR ''_'') u"

definition journal_json :: "journal_summary \<Rightarrow> json" where
  "journal_json r = JObj
     [(''unit'', JStr (js_unit r)), (''since'', JStr (js_since r)), (''lines'', JInt (int (js_lines r))),
      (''errors'', JInt (int (js_errors r))), (''warnings'', JInt (int (js_warnings r))),
      (''by_level'', JObj (map (\<lambda>(k, n). (k, JInt (int n))) (sort_key fst (js_levels r)))),
      (''artifact'', JStr (js_artifact r))]"

text \<open>The bound of the parameter \<open>lines\<close>: the default when it is missing or out of range.\<close>

definition journal_lines :: "strmap \<Rightarrow> int" where
  "journal_lines p = paramInt p ''lines'' 1000 100000"

definition journal_since :: "strmap \<Rightarrow> string" where
  "journal_since p = (let since = trim_space (param p ''since'') in if since = [] then ''1 hour ago'' else since)"

definition truncated_hint :: probe_hint where
  "truncated_hint =
     \<lparr>hn_severity = ''warn'', hn_code = ''journal.truncated'',
      hn_message = ''journal output exceeded 16 MiB cap and was truncated; reduce --lines or narrow --since'',
      hn_evidence = JNull\<rparr>"

text \<open>Output cut at the gateway's cap is summarised as far as it goes; any other error ends the collection.\<close>

definition journal_tail_run :: "strmap \<Rightarrow> probe_result outcome pm" where
  "journal_tail_run p =
     (let u = trim_space (param p ''unit'')
      in if u = [] then return (Failed (Msg ''unit parameter required''))
         else (let since = journal_since p; lines = journal_lines p
               in chain (exec_run ''journalctl''
                          [''-u'', u, ''--since'', since, ''-n'', int_text lines, ''-o'', ''json'', ''--no-pager''])
                    (\<lambda>(res, e).
                       if e \<noteq> None \<and> e \<noteq> Some StdoutTruncated
                       then return (Failed (Wrap ''journalctl'' (GatewayErr (the e))))
                       else (case summarizeJournal u since (x_stdout res) of (summary, hints) \<Rightarrow>
                          let art = ''journal_'' @ sanitizeUnit u @ ''.jsonl''
                          in return (Got (mk_result (journal_json (summary\<lparr>js_artifact := art\<rparr>))
                               (if e = Some StdoutTruncated then hints @ [truncated_hint] else hints)
                               [\<lparr>at_name = art, at_mime = ''application/x-ndjson'', at_body = x_stdout res\<rparr>]))))))"

definition journal_available :: "stat \<Rightarrow> whitelist \<Rightarrow> bool" where
  "journal_available st wl = BinaryAvailable st wl ''journalctl''"

definition journal_tail_manifest :: probe_manifest where
  "journal_tail_manifest =
     \<lparr>pm_name = ''journal_tail'', pm_version = ''1.0.0'', pm_category = ''systemd'',
      pm_description = ''Tail of journalctl for one unit. Returns a compact summary in data; full line-delimited JSON goes into an artifact for grep via search_artifact.'',
      pm_reads = [''journalctl -u {unit} --since {since} -n {lines} -o json --no-pager''],
      pm_requires = [CapSudoJournalctl],
      pm_params =
        [\<lparr>ps_name = ''unit'', ps_type = ''string'', ps_required = True, ps_default = [],
          ps_description = ''systemd unit name (e.g. kubelet.service)''\<rparr>,
         \<lparr>ps_name = ''since'', ps_type = ''string'', ps_required = False, ps_default = ''1 hour ago'',
          ps_description = ''journalctl --since value''\<rparr>,
         \<lparr>ps_name = ''lines'', ps_type = ''int'', ps_required = False, ps_default = ''1000'',
          ps_description = ''max lines to return (caps at 100000)''\<rparr>]\<rparr>"

definition journal_tail :: collector where
  "journal_tail =
     \<lparr>co_manifest = journal_tail_manifest, co_available = Some journal_available, co_run = journal_tail_run\<rparr>"

end
