(* ===== verification/Net_Addr.thy ===== *)
theory Net_Addr
  imports Go_Strings
begin

text \<open>
  The parts of Go's \<open>net\<close> package that decide where the program may connect: \<open>ParseIP\<close>, the
  classes of addresses, and \<open>SplitHostPort\<close>. An address is its eight groups of 16 bits; an
  IPv4 address is held in its mapped form, as the package holds it.
\<close>

type_synonym ip = "int list"

section \<open>Parsing addresses\<close>

definition hexadecimal :: "char \<Rightarrow> bool" where
  "hexadecimal c = (is_digit c \<or> (CHR ''a'' \<le> c \<and> c \<le> CHR ''f'') \<or> (CHR ''A'' \<le> c \<and> c \<le> CHR ''F''))"

definition hexadecimal_val :: "char \<Rightarrow> int" where
  "hexadecimal_val c =
     (if is_digit c then of_char c - 48 else if CHR ''a'' \<le> c then of_char c - 87 else of_char c - 55)"

definition octet :: "string \<Rightarrow> int option" where
  "octet s =
     (if is_number s \<and> length s \<le> 3 \<and> (length s = 1 \<or> s ! 0 \<noteq> CHR ''0'') \<and> int (digits_val s) \<le> 255
      then Some (int (digits_val s)) else None)"

definition parse_ipv4 :: "string \<Rightarrow> (int \<times> int \<times> int \<times> int) option" where
  "parse_ipv4 s =
     (case map octet (split_on (CHR ''.'') s) of
        [Some a, Some b, Some c, Some d] \<Rightarrow> Some (a, b, c, d)
      | _ \<Rightarrow> None)"

definition ip_group :: "string \<Rightarrow> int option" where
  "ip_group s =
     (if s \<noteq> [] \<and> length s \<le> 4 \<and> list_all hexadecimal s
      then Some (foldl (\<lambda>n c. n * 16 + hexadecimal_val c) 0 s) else None)"

text \<open>The groups of one side of a \<open>::\<close>; the last field may be a dotted IPv4 address.\<close>

fun ip_fields :: "string list \<Rightarrow> ip option" where
  "ip_fields [] = Some []"
| "ip_fields (f # fs) =
     (if fs = [] \<and> CHR ''.'' \<in> set f then
        (case parse_ipv4 f of None \<Rightarrow> None | Some (a, b, c, d) \<Rightarrow> Some [a * 256 + b, c * 256 + d])
      else (case (ip_group f, ip_fields fs) of (Some g, Some gs) \<Rightarrow> Some (g # gs) | _ \<Rightarrow> None))"

definition ip_side :: "string \<Rightarrow> ip option" where
  "ip_side s = (if s = [] then Some [] else ip_fields (split_on (CHR '':'') s))"

text \<open>The text before and after the first \<open>::\<close>.\<close>

fun split_ellipsis :: "string \<Rightarrow> string \<times> string option" where
  "split_ellipsis [] = ([], None)"
| "split_ellipsis [c] = ([c], None)"
| "split_ellipsis (c # d # s) =
     (if c = CHR '':'' \<and> d = CHR '':'' then ([], Some s)
      else (case split_ellipsis (d # s) of (a, b) \<Rightarrow> (c # a, b)))"

definition parse_ipv6 :: "string \<Rightarrow> ip option" where
  "parse_ipv6 s =
     (case split_ellipsis s of
        (l, None) \<Rightarrow>
          (case ip_side l of Some gs \<Rightarrow> if length gs = 8 then Some gs else None | None \<Rightarrow> None)
      | (l, Some r) \<Rightarrow>
          if CHR ''.'' \<in> set l then None
          else (case (ip_side l, ip_side r) of
             (Some gs, Some hs) \<Rightarrow>
               if length gs + length hs < 8
               then Some (gs @ replicate (8 - length gs - length hs) 0 @ hs) else None
           | _ \<Rightarrow> None))"

definition v4_mapped :: "int \<times> int \<times> int \<times> int \<Rightarrow> ip" where
  "v4_mapped q = (case q of (a, b, c, d) \<Rightarrow> [0, 0, 0, 0, 0, 0xFFFF, a * 256 + b, c * 256 + d])"

text \<open>
  The first of a dot, a colon or a percent sign decides the family. An address with a zone
  (\<open>fe80::1%eth0\<close>) is not an address for \<open>ParseIP\<close>.
\<close>

definition ParseIP :: "string \<Rightarrow> ip option" where
  "ParseIP s =
     (case filter (\<lambda>c. c \<in> set ''.:%'') s of
        [] \<Rightarrow> None
      | c # _ \<Rightarrow>
          if c = CHR ''.'' then map_option v4_mapped (parse_ipv4 s)
          else if c = CHR '':'' \<and> CHR ''%'' \<notin> set s then parse_ipv6 s
          else None)"

section \<open>Classes of addresses\<close>

definition To4 :: "ip \<Rightarrow> (int \<times> int \<times> int \<times> int) option" where
  "To4 p =
     (if take 6 p = [0, 0, 0, 0, 0, 0xFFFF]
      then Some (p ! 6 div 256, p ! 6 mod 256, p ! 7 div 256, p ! 7 mod 256) else None)"

definition IsUnspecified :: "ip \<Rightarrow> bool" where
  "IsUnspecified p = (To4 p = Some (0, 0, 0, 0) \<or> p = replicate 8 0)"

definition IsLoopback :: "ip \<Rightarrow> bool" where
  "IsLoopback p =
     (case To4 p of Some (a, _) \<Rightarrow> a = 127 | None \<Rightarrow> p = replicate 7 0 @ [1])"

definition IsMulticast :: "ip \<Rightarrow> bool" where
  "IsMulticast p =
     (case To4 p of Some (a, _) \<Rightarrow> a div 16 = 14 | None \<Rightarrow> p ! 0 div 256 = 0xFF)"

definition IsLinkLocalMulticast :: "ip \<Rightarrow> bool" where
  "IsLinkLocalMulticast p =
     (case To4 p of Some (a, b, c, _) \<Rightarrow> a = 224 \<and> b = 0 \<and> c = 0
      | None \<Rightarrow> p ! 0 div 256 = 0xFF \<and> p ! 0 mod 16 = 2)"

definition IsLinkLocalUnicast :: "ip \<Rightarrow> bool" where
  "IsLinkLocalUnicast p =
     (case To4 p of Some (a, b, _) \<Rightarrow> a = 169 \<and> b = 254
      | None \<Rightarrow> p ! 0 div 256 = 0xFE \<and> p ! 0 mod 256 div 64 = 2)"

section \<open>Host and port\<close>

datatype addr_err = MissingPort | TooManyColons | UnexpectedBracket

text \<open>\<open>host\<close>, the offsets from which no further bracket may come, and the host's error.\<close>

definition split_host :: "string \<Rightarrow> nat \<Rightarrow> addr_err + string \<times> nat \<times> nat" where
  "split_host s i =
     (if has_prefix s ''['' then
        (case index_of (CHR '']'') s of
           None \<Rightarrow> Inl UnexpectedBracket
         | Some e \<Rightarrow>
             if e + 1 = length s then Inl MissingPort
             else if e + 1 = i then Inr (take (e - 1) (drop 1 s), 1, e + 1)
             else if s ! (e + 1) = CHR '':'' then Inl TooManyColons
             else Inl MissingPort)
      else if CHR '':'' \<in> set (take i s) then Inl TooManyColons
      else Inr (take i s, 0, 0))"

definition SplitHostPort :: "string \<Rightarrow> addr_err + string \<times> string" where
  "SplitHostPort s =
     (case last_index (CHR '':'') s of
        None \<Rightarrow> Inl MissingPort
      | Some i \<Rightarrow>
          (case split_host s i of
             Inl e \<Rightarrow> Inl e
           | Inr (host, j, k) \<Rightarrow>
               if CHR ''['' \<in> set (drop j s) then Inl UnexpectedBracket
               else if CHR '']'' \<in> set (drop k s) then Inl UnexpectedBracket
               else Inr (host, drop (i + 1) s)))"

section \<open>Examples\<close>

lemma ParseIP_examples:
  "ParseIP ''169.254.169.254'' = Some [0, 0, 0, 0, 0, 0xFFFF, 0xA9FE, 0xA9FE]"
  "ParseIP ''::1'' = Some [0, 0, 0, 0, 0, 0, 0, 1]"
  "ParseIP ''::'' = Some [0, 0, 0, 0, 0, 0, 0, 0]"
  "ParseIP ''fd00:0ec2::254'' = ParseIP ''fd00:ec2::254''"
  "ParseIP ''::ffff:10.0.0.1'' = ParseIP ''10.0.0.1''"
  "ParseIP ''fe80::1%eth0'' = None"
  "ParseIP ''010.0.0.1'' = None"
  "ParseIP '':::1'' = None"
  "ParseIP ''1:2:3:4:5:6:7:8::'' = None"
  "ParseIP ''db-1.local'' = None"
  by code_simp+

lemma SplitHostPort_examples:
  "SplitHostPort ''db-1:5432'' = Inr (''db-1'', ''5432'')"
  "SplitHostPort ''[fe80::1]:22'' = Inr (''fe80::1'', ''22'')"
  "SplitHostPort ''fe80::1:22'' = Inl TooManyColons"
  "SplitHostPort ''db-1'' = Inl MissingPort"
  by code_simp+

end
