(* ===== verification/Col_Net.thy ===== *)
theory Col_Net
  imports Agent_Probe Net_Addr
begin

text \<open>
  \<open>agent/collectors/net/*.go\<close>: the listening sockets and the interfaces (by calls of the exec
  gateway), connections to given targets, and the resolution of a name. \<open>pdur\<close> is
  \<open>time.ParseDuration\<close>, in nanoseconds.
\<close>

section \<open>Listening sockets\<close>

record listen_socket =
  ls_proto :: string
  ls_state :: string
  ls_local :: string
  ls_peer :: string
  ls_process :: string

text \<open>
  The submatch of the regular expression for \<open>users:(\<close>, any text, \<open>)\<close>: from the first \<open>users:(\<close> to
  the last closing parenthesis after it.
\<close>

fun after_users :: "string \<Rightarrow> string option" where
  "after_users [] = None"
| "after_users (c # s) =
     (if has_prefix (c # s) ''users:('' then Some (drop 7 (c # s)) else after_users s)"

definition users_match :: "string \<Rightarrow> string option" where
  "users_match s =
     (case after_users s of
        None \<Rightarrow> None
      | Some t \<Rightarrow> (case last_index (CHR '')'') t of None \<Rightarrow> None | Some i \<Rightarrow> Some (take i t)))"

definition socket_row :: "string list \<Rightarrow> listen_socket" where
  "socket_row fs =
     \<lparr>ls_proto = fs ! 0, ls_state = fs ! 1, ls_local = fs ! 4, ls_peer = fs ! 5,
      ls_process =
        (if 7 \<le> length fs
         then (let rest = join '' '' (drop 6 fs) in case users_match rest of Some m \<Rightarrow> m | None \<Rightarrow> rest)
         else [])\<rparr>"

definition parseSS :: "string \<Rightarrow> listen_socket list" where
  "parseSS body =
     map socket_row (filter (\<lambda>fs. 6 \<le> length fs)
       (map Go_Strings.fields (filter (\<lambda>l. trim_space l \<noteq> []) (drop 1 (split_on newline body)))))"

definition socket_json :: "listen_socket \<Rightarrow> json" where
  "socket_json x = JObj
     ([(''proto'', JStr (ls_proto x)), (''state'', JStr (ls_state x)), (''local'', JStr (ls_local x)),
       (''peer'', JStr (ls_peer x))] @ omit_str ''process'' (ls_process x))"

definition net_listen_run :: "strmap \<Rightarrow> probe_result outcome pm" where
  "net_listen_run p =
     chain (command ''ss'' ''ss'' [''-tulpn''])
       (\<lambda>res. return (Got (mk_result
          (JObj [(''sockets'', slice_json socket_json (parseSS (x_stdout res)))]) [] [])))"

definition net_listen_manifest :: probe_manifest where
  "net_listen_manifest =
     \<lparr>pm_name = ''net_listen'', pm_version = ''1.0.0'', pm_category = ''network'',
      pm_description = (''Listening TCP/UDP sockets via '' @ [CHR 0x60] @ ''ss -tulpn'' @ [CHR 0x60] @ ''. Parsed into per-socket records with binding process where available.''),
      pm_reads = [''ss -tulpn''], pm_requires = [CapSudoSS], pm_params = []\<rparr>"

definition net_listen :: collector where
  "net_listen = \<lparr>co_manifest = net_listen_manifest, co_available = None, co_run = net_listen_run\<rparr>"

section \<open>Interfaces\<close>

record iface_addr =
  ia_family :: string
  ia_local :: string
  ia_prefixlen :: int

record iface =
  if_index :: int
  if_name :: string
  if_operstate :: string
  if_mtu :: int
  if_address :: string
  if_addrs :: "iface_addr list"

record ip_route =
  rt_dst :: string
  rt_gateway :: string
  rt_dev :: string
  rt_proto :: string

record neighbour =
  ng_dst :: string
  ng_dev :: string
  ng_lladdr :: string
  ng_state :: "string list"

definition dec_iface_addr :: "iface_addr agg_decoder" where
  "dec_iface_addr = dec_struct (\<lambda>a kvs.
     let (f, ok1) = field ''family'' (leaf dec_string) (ia_family a) kvs;
         (l, ok2) = field ''local'' (leaf dec_string) (ia_local a) kvs;
         (n, ok3) = field ''prefixlen'' (leaf dec_int) (ia_prefixlen a) kvs
     in (\<lparr>ia_family = f, ia_local = l, ia_prefixlen = n\<rparr>, ok1 \<and> ok2 \<and> ok3))"

definition dec_iface :: "iface agg_decoder" where
  "dec_iface = dec_struct (\<lambda>x kvs.
     let (i, ok1) = field ''ifindex'' (leaf dec_int) (if_index x) kvs;
         (n, ok2) = field ''ifname'' (leaf dec_string) (if_name x) kvs;
         (st, ok3) = field ''operstate'' (leaf dec_string) (if_operstate x) kvs;
         (mt, ok4) = field ''mtu'' (leaf dec_int) (if_mtu x) kvs;
         (ad, ok5) = field ''address'' (leaf dec_string) (if_address x) kvs;
         (ais, ok6) = field ''addr_info'' (dec_slice dec_iface_addr \<lparr>ia_family = [], ia_local = [], ia_prefixlen = 0\<rparr>)
                        (if_addrs x) kvs
     in (\<lparr>if_index = i, if_name = n, if_operstate = st, if_mtu = mt, if_address = ad, if_addrs = ais\<rparr>,
         ok1 \<and> ok2 \<and> ok3 \<and> ok4 \<and> ok5 \<and> ok6))"

definition dec_route :: "ip_route agg_decoder" where
  "dec_route = dec_struct (\<lambda>r kvs.
     let (d, ok1) = field ''dst'' (leaf dec_string) (rt_dst r) kvs;
         (g, ok2) = field ''gateway'' (leaf dec_string) (rt_gateway r) kvs;
         (dv, ok3) = field ''dev'' (leaf dec_string) (rt_dev r) kvs;
         (pr, ok4) = field ''protocol'' (leaf dec_string) (rt_proto r) kvs
     in (\<lparr>rt_dst = d, rt_gateway = g, rt_dev = dv, rt_proto = pr\<rparr>, ok1 \<and> ok2 \<and> ok3 \<and> ok4))"

definition dec_neighbour :: "neighbour agg_decoder" where
  "dec_neighbour = dec_struct (\<lambda>n kvs.
     let (d, ok1) = field ''dst'' (leaf dec_string) (ng_dst n) kvs;
         (dv, ok2) = field ''dev'' (leaf dec_string) (ng_dev n) kvs;
         (ll, ok3) = field ''lladdr'' (leaf dec_string) (ng_lladdr n) kvs;
         (st, ok4) = field ''state'' dec_strings (ng_state n) kvs
     in (\<lparr>ng_dst = d, ng_dev = dv, ng_lladdr = ll, ng_state = st\<rparr>, ok1 \<and> ok2 \<and> ok3 \<and> ok4))"

definition iface_addr_json :: "iface_addr \<Rightarrow> json" where
  "iface_addr_json a = JObj
     [(''family'', JStr (ia_family a)), (''local'', JStr (ia_local a)), (''prefixlen'', JInt (ia_prefixlen a))]"

definition iface_json :: "iface \<Rightarrow> json" where
  "iface_json x = JObj
     [(''ifindex'', JInt (if_index x)), (''ifname'', JStr (if_name x)), (''operstate'', JStr (if_operstate x)),
      (''mtu'', JInt (if_mtu x)), (''address'', JStr (if_address x)),
      (''addr_info'', slice_json iface_addr_json (if_addrs x))]"

definition route_json :: "ip_route \<Rightarrow> json" where
  "route_json r = JObj
     ([(''dst'', JStr (rt_dst r))] @ omit_str ''gateway'' (rt_gateway r) @ [(''dev'', JStr (rt_dev r))]
      @ omit_str ''protocol'' (rt_proto r))"

definition neighbour_json :: "neighbour \<Rightarrow> json" where
  "neighbour_json n = JObj
     ([(''dst'', JStr (ng_dst n)), (''dev'', JStr (ng_dev n))] @ omit_str ''lladdr'' (ng_lladdr n)
      @ (if ng_state n = [] then [] else [(''state'', JArr (map JStr (ng_state n)))]))"

definition runIP :: "string \<Rightarrow> bytes outcome pm" where
  "runIP sub = chain (command (''ip '' @ sub) ''ip'' [''-json'', sub]) (\<lambda>res. return (Got (x_stdout res)))"

text \<open>A decoding whose error ends the collection.\<close>

definition decoded :: "string \<Rightarrow> 'a agg_decoder \<Rightarrow> 'a \<Rightarrow> bytes \<Rightarrow> 'a outcome pm" where
  "decoded what d zero body =
     (case unmarshal d zero body of
        (x, True) \<Rightarrow> return (Got x) | (_, False) \<Rightarrow> return (Failed (Wrap what (JsonErr body))))"

definition iface_hints :: "iface list \<Rightarrow> probe_hint list" where
  "iface_hints xs =
     map (\<lambda>x. \<lparr>hn_severity = ''warn'', hn_code = ''net.iface_down'',
                hn_message = ''interface '' @ if_name x @ '' is DOWN'',
                hn_evidence = JObj [(''iface'', JStr (if_name x))]\<rparr>)
       (filter (\<lambda>x. if_operstate x = ''DOWN'' \<and> if_name x \<noteq> ''lo'') xs)"

definition net_ifaces_run :: "strmap \<Rightarrow> probe_result outcome pm" where
  "net_ifaces_run p =
     chain (runIP ''addr'') (\<lambda>a.
     chain (runIP ''route'') (\<lambda>r.
     chain (runIP ''neigh'') (\<lambda>n.
     chain (decoded ''parse addr'' (dec_slice dec_iface
              \<lparr>if_index = 0, if_name = [], if_operstate = [], if_mtu = 0, if_address = [], if_addrs = []\<rparr>) [] a) (\<lambda>ifs.
     chain (decoded ''parse route'' (dec_slice dec_route
              \<lparr>rt_dst = [], rt_gateway = [], rt_dev = [], rt_proto = []\<rparr>) [] r) (\<lambda>rts.
     chain (decoded ''parse neigh'' (dec_slice dec_neighbour
              \<lparr>ng_dst = [], ng_dev = [], ng_lladdr = [], ng_state = []\<rparr>) [] n) (\<lambda>ngs.
       return (Got (mk_result
         (JObj [(''interfaces'', slice_json iface_json ifs), (''routes'', slice_json route_json rts),
                (''neighbours'', slice_json neighbour_json ngs)])
         (iface_hints ifs) []))))))))"

definition net_ifaces_manifest :: probe_manifest where
  "net_ifaces_manifest =
     \<lparr>pm_name = ''net_ifaces'', pm_version = ''1.0.0'', pm_category = ''network'',
      pm_description = (''Network interfaces (link + addresses), routing table, and ARP/NDP neighbour cache. Uses '' @ [CHR 0x60] @ ''ip -json'' @ [CHR 0x60] @ '' (read-only).''),
      pm_reads = [''ip -json addr'', ''ip -json link'', ''ip -json route'', ''ip -json neigh''],
      pm_requires = [], pm_params = []\<rparr>"

definition net_ifaces :: collector where
  "net_ifaces = \<lparr>co_manifest = net_ifaces_manifest, co_available = None, co_run = net_ifaces_run\<rparr>"

section \<open>Connections\<close>

definition metadata_hosts :: "string list" where
  "metadata_hosts = [''169.254.169.254'', ''fd00:ec2::254'', ''metadata.google.internal'']"

text \<open>The reason why a target is refused; empty when it is not.\<close>

definition disallowedTarget :: "string \<Rightarrow> string" where
  "disallowedTarget target =
     (case SplitHostPort target of
        Inl _ \<Rightarrow> ''invalid host:port''
      | Inr (host, _) \<Rightarrow>
          if host \<in> set metadata_hosts then ''cloud metadata endpoint''
          else (case ParseIP host of
             None \<Rightarrow> []
           | Some a \<Rightarrow>
               if IsLinkLocalUnicast a \<or> IsLinkLocalMulticast a then ''link-local address''
               else if IsMulticast a then ''multicast address''
               else if IsUnspecified a then ''unspecified address (0.0.0.0 / ::)''
               else []))"

definition timeout_param :: "(string \<Rightarrow> int option) \<Rightarrow> strmap \<Rightarrow> int \<Rightarrow> int" where
  "timeout_param pdur p dflt =
     (let t = param p ''timeout''
      in if t = [] then dflt
         else (case pdur t of
                 Some d \<Rightarrow> if 0 < d \<and> d \<le> 30 * second then d else dflt
               | None \<Rightarrow> dflt))"

record net_probe =
  np_target :: string
  np_ok :: bool
  np_latency :: int
  np_error :: string

definition probe_target :: "int \<Rightarrow> string \<Rightarrow> (net_probe \<times> probe_hint list) pm" where
  "probe_target timeout target =
     (let reason = disallowedTarget target
      in if reason \<noteq> [] then
           return (\<lparr>np_target = target, np_ok = False, np_latency = 0, np_error = ''blocked: '' @ reason\<rparr>,
             [\<lparr>hn_severity = ''warn'', hn_code = ''net.target_blocked'',
               hn_message = target @ '' blocked: '' @ reason, hn_evidence = JNull\<rparr>])
         else do {
           a \<leftarrow> call_host [Dialled target] (\<lambda>w. w_dial w target timeout);
           return (case a of
               (None, t) \<Rightarrow> (\<lparr>np_target = target, np_ok = True, np_latency = t, np_error = []\<rparr>, [])
             | (Some e, t) \<Rightarrow>
                 (\<lparr>np_target = target, np_ok = False, np_latency = t, np_error = e\<rparr>,
                  [\<lparr>hn_severity = ''warn'', hn_code = ''net.connect_failed'', hn_message = target @ '': '' @ e,
                    hn_evidence = JObj [(''error'', JStr e), (''target'', JStr target)]\<rparr>]))
         })"

fun probe_targets :: "int \<Rightarrow> string list \<Rightarrow> (net_probe list \<times> probe_hint list) pm" where
  "probe_targets timeout [] = return ([], [])"
| "probe_targets timeout (t # ts) = do {
     a \<leftarrow> probe_target timeout t;
     b \<leftarrow> probe_targets timeout ts;
     return (fst a # fst b, snd a @ snd b)
   }"

definition net_probe_json :: "net_probe \<Rightarrow> json" where
  "net_probe_json x = JObj
     ([(''target'', JStr (np_target x)), (''ok'', JBool (np_ok x))] @ omit_int ''latency_ns'' (np_latency x)
      @ omit_str ''error'' (np_error x))"

definition maxTargets :: nat where
  "maxTargets = 16"

definition net_connect_run :: "(string \<Rightarrow> int option) \<Rightarrow> strmap \<Rightarrow> probe_result outcome pm" where
  "net_connect_run pdur p =
     (let raw = trim_space (param p ''targets'')
      in if raw = [] then return (Failed (Msg ''targets parameter required (comma-separated host:port)''))
         else (let timeout = timeout_param pdur p (2 * second);
                   targets = filter (\<lambda>t. t \<noteq> []) (map trim_space (split_on (CHR '','') raw))
               in if length targets > maxTargets
                  then return (Failed (Msg (''too many targets ('' @ nat_text (length targets) @ ''); max '' @ nat_text maxTargets)))
                  else do {
                    r \<leftarrow> probe_targets timeout targets;
                    return (Got (mk_result (JObj [(''probes'', JArr (map net_probe_json (fst r)))]) (snd r) []))
                  }))"

definition net_connect_manifest :: probe_manifest where
  "net_connect_manifest =
     \<lparr>pm_name = ''net_connect'', pm_version = ''1.0.0'', pm_category = ''network'',
      pm_description = (''TCP-connect probes to a comma-separated list of host:port targets. Pure Go '' @ em_dash @ '' no exec, no raw sockets.''),
      pm_reads = [(''network '' @ em_dash @ '' outbound TCP connect'')], pm_requires = [],
      pm_params =
        [\<lparr>ps_name = ''targets'', ps_type = ''string'', ps_required = True, ps_default = [],
          ps_description = ''comma-separated host:port list''\<rparr>,
         \<lparr>ps_name = ''timeout'', ps_type = ''duration'', ps_required = False, ps_default = ''2s'',
          ps_description = ''per-target connect timeout''\<rparr>]\<rparr>"

definition net_connect :: "(string \<Rightarrow> int option) \<Rightarrow> collector" where
  "net_connect pdur = \<lparr>co_manifest = net_connect_manifest, co_available = None, co_run = net_connect_run pdur\<rparr>"

section \<open>Names\<close>

definition dns_hints :: "string + string list \<Rightarrow> probe_hint list" where
  "dns_hints r =
     (case r of
        Inl e \<Rightarrow> [\<lparr>hn_severity = ''warn'', hn_code = ''dns.resolve_failed'', hn_message = e, hn_evidence = JNull\<rparr>]
      | Inr as \<Rightarrow>
          if as = [] then [\<lparr>hn_severity = ''warn'', hn_code = ''dns.empty_result'',
                            hn_message = ''resolver returned no addresses'', hn_evidence = JNull\<rparr>]
          else [])"

definition dns_resolve_run :: "(string \<Rightarrow> int option) \<Rightarrow> strmap \<Rightarrow> probe_result outcome pm" where
  "dns_resolve_run pdur p =
     (let host = trim_space (param p ''host'')
      in if host = [] then return (Failed (Msg ''host parameter required''))
         else (let timeout = timeout_param pdur p (3 * second)
               in do {
                 a \<leftarrow> call_host [Resolved host] (\<lambda>w. w_addrs w host timeout);
                 cn \<leftarrow> call_host [Resolved host] (\<lambda>w. w_cname w host timeout);
                 let cname = (case cn of
                        Some c \<Rightarrow> if c \<noteq> host @ ''.'' then trim_suffix c ''.'' else []
                      | None \<Rightarrow> []);
                 return (Got (mk_result
                   (JObj ([(''query'', JStr host),
                           (''addresses'', case fst a of Inl _ \<Rightarrow> JNull | Inr as \<Rightarrow> slice_json JStr as)]
                          @ omit_str ''cname'' cname @ [(''latency_ns'', JInt (snd a))]
                          @ (case fst a of Inl e \<Rightarrow> omit_str ''error'' e | Inr _ \<Rightarrow> [])))
                   (dns_hints (fst a)) []))
               }))"

definition dns_resolve_manifest :: probe_manifest where
  "dns_resolve_manifest =
     \<lparr>pm_name = ''dns_resolve'', pm_version = ''1.0.0'', pm_category = ''network'',
      pm_description = (''Resolve a hostname using the system resolver. Returns A/AAAA addresses, CNAME, and latency. Pure Go '' @ em_dash @ '' no exec.''),
      pm_reads = [''system resolver (/etc/resolv.conf, nss)''], pm_requires = [],
      pm_params =
        [\<lparr>ps_name = ''host'', ps_type = ''string'', ps_required = True, ps_default = [],
          ps_description = ''FQDN to resolve''\<rparr>,
         \<lparr>ps_name = ''timeout'', ps_type = ''duration'', ps_required = False, ps_default = ''3s'',
          ps_description = ''Resolver timeout''\<rparr>]\<rparr>"

definition dns_resolve :: "(string \<Rightarrow> int option) \<Rightarrow> collector" where
  "dns_resolve pdur = \<lparr>co_manifest = dns_resolve_manifest, co_available = None, co_run = dns_resolve_run pdur\<rparr>"

end
