(* ===== verification/Col_Files.thy ===== *)
theory Col_Files
  imports Complex_Main Agent_Probe Paths
begin

text \<open>
  \<open>agent/collectors/files/*.go\<close>: the use of the local file systems, and reading one file of an
  allowlist. \<open>ftext\<close> is the text of a floating-point number, \<open>sha\<close> the hexadecimal SHA-256 of
  some bytes. Percentages are rational numbers where the code has \<open>float64\<close>.
\<close>

section \<open>Disk usage\<close>

record mount =
  mo_source :: string
  mo_point :: string
  mo_fstype :: string
  mo_total :: "64 word"
  mo_free :: "64 word"
  mo_avail :: "64 word"
  mo_used_pct :: rat
  mo_inodes_total :: "64 word"
  mo_inodes_free :: "64 word"

definition bare_mount :: "string list \<Rightarrow> mount" where
  "bare_mount fs =
     \<lparr>mo_source = fs ! 0, mo_point = fs ! 1, mo_fstype = fs ! 2, mo_total = 0, mo_free = 0, mo_avail = 0,
      mo_used_pct = 0, mo_inodes_total = 0, mo_inodes_free = 0\<rparr>"

definition fsTypesOfInterest :: "string list" where
  "fsTypesOfInterest =
     [''ext2'', ''ext3'', ''ext4'', ''xfs'', ''btrfs'', ''zfs'', ''f2fs'', ''reiserfs'', ''jfs'', ''vfat'', ''exfat'', ''ntfs'']"

definition mount_rows :: "string list \<Rightarrow> mount list" where
  "mount_rows ls = map bare_mount (filter (\<lambda>fs. 3 \<le> length fs) (map Go_Strings.fields ls))"

definition parseMounts :: "string \<Rightarrow> mount list outcome pm" where
  "parseMounts path = call_host [Opened path] (\<lambda>w.
     case w_open w path of
       Inl e \<Rightarrow> Failed (Msg e)
     | Inr f \<Rightarrow>
         (case scanner max_token (op_bytes f) of
            (ls, False) \<Rightarrow> Failed (Msg ''bufio.Scanner: token too long'')
          | (ls, True) \<Rightarrow> (case op_fail f of Some e \<Rightarrow> Failed (Msg e) | None \<Rightarrow> Got (mount_rows ls))))"

definition fill_mount :: "mount \<Rightarrow> fs_usage \<Rightarrow> mount" where
  "fill_mount m u =
     (let tot = fu_blocks u * fu_bsize u; free = fu_bfree u * fu_bsize u;
          used = tot - free
      in m\<lparr>mo_total := tot, mo_free := free, mo_avail := fu_bavail u * fu_bsize u,
           mo_used_pct := (if tot = 0 then mo_used_pct m
                           else rat_of_int (uint used) * 100 / rat_of_int (uint tot)),
           mo_inodes_total := fu_files u, mo_inodes_free := fu_ffree u\<rparr>)"

definition statMount :: "mount \<Rightarrow> mount option pm" where
  "statMount m = call_host [Measured (mo_point m)] (\<lambda>w. map_option (fill_mount m) (w_statfs w (mo_point m)))"

text \<open>The digits of a number, as the code writes them.\<close>

fun itoa_loop :: "nat \<Rightarrow> string \<Rightarrow> string" where
  "itoa_loop v out = (if v = 0 then out else itoa_loop (v div 10) (char_of (48 + v mod 10) # out))"

declare itoa_loop.simps [simp del]

definition itoa :: "int \<Rightarrow> string" where
  "itoa v =
     (if v = 0 then ''0'' else (if v < 0 then [CHR ''-''] else []) @ itoa_loop (nat (abs v)) [])"

definition strconvF :: "rat \<Rightarrow> nat \<Rightarrow> string" where
  "strconvF v n =
     (let mult = 10 ^ n; x = v * of_int mult + 1 / 2;
          rounded = (if 0 \<le> x then floor x else ceiling x);
          whole = rounded div mult; frac = rounded mod mult
      in if n = 0 then itoa whole
         else (let fs = itoa frac in itoa whole @ ''.'' @ replicate (n - length fs) (CHR ''0'') @ fs))"

definition formatPct :: "rat \<Rightarrow> string" where
  "formatPct p = strconvF p 1 @ ''% used''"

definition full_hint :: "(rat \<Rightarrow> string) \<Rightarrow> mount \<Rightarrow> probe_hint" where
  "full_hint ftext m =
     \<lparr>hn_severity = ''warn'', hn_code = ''disk.almost_full'',
      hn_message = mo_point m @ '' is '' @ formatPct (mo_used_pct m),
      hn_evidence = JObj [(''mount'', JStr (mo_point m)), (''used_pct'', JFrac (ftext (mo_used_pct m)))]\<rparr>"

definition word64_json :: "64 word \<Rightarrow> json" where
  "word64_json x = JInt (uint x)"

definition mount_json :: "(rat \<Rightarrow> string) \<Rightarrow> mount \<Rightarrow> json" where
  "mount_json ftext m = JObj
     [(''source'', JStr (mo_source m)), (''mount_point'', JStr (mo_point m)), (''fstype'', JStr (mo_fstype m)),
      (''total_bytes'', word64_json (mo_total m)), (''free_bytes'', word64_json (mo_free m)),
      (''avail_bytes'', word64_json (mo_avail m)), (''used_pct'', JFrac (ftext (mo_used_pct m))),
      (''inodes_total'', word64_json (mo_inodes_total m)), (''inodes_free'', word64_json (mo_inodes_free m))]"

text \<open>The loop over the mounts: those of interest whose usage can be read, and their hints.\<close>

fun measure_mounts :: "(rat \<Rightarrow> string) \<Rightarrow> mount list \<Rightarrow> (mount list \<times> probe_hint list) pm" where
  "measure_mounts ftext [] = return ([], [])"
| "measure_mounts ftext (m # ms) =
     (if mo_fstype m \<notin> set fsTypesOfInterest then measure_mounts ftext ms
      else do {
        f \<leftarrow> statMount m;
        rest \<leftarrow> measure_mounts ftext ms;
        return (case f of
            None \<Rightarrow> rest
          | Some x \<Rightarrow> (x # fst rest, (if 90 \<le> mo_used_pct x then [full_hint ftext x] else []) @ snd rest))
      })"

definition disk_usage_run :: "(rat \<Rightarrow> string) \<Rightarrow> strmap \<Rightarrow> probe_result outcome pm" where
  "disk_usage_run ftext p =
     chain (parseMounts ''/proc/mounts'') (\<lambda>ms. do {
       r \<leftarrow> measure_mounts ftext ms;
       return (Got (mk_result (JObj [(''mounts'', slice_json (mount_json ftext) (fst r))]) (snd r) []))
     })"

definition disk_usage_manifest :: probe_manifest where
  "disk_usage_manifest =
     \<lparr>pm_name = ''disk_usage'', pm_version = ''1.0.0'', pm_category = ''system'',
      pm_description = ''Per-mount disk usage (bytes + inodes) for local filesystems. Reads /proc/mounts and statfs(2). Hints when free space < 10%.'',
      pm_reads = [''/proc/mounts'', ''statfs(2)''], pm_requires = [], pm_params = []\<rparr>"

definition disk_usage :: "(rat \<Rightarrow> string) \<Rightarrow> collector" where
  "disk_usage ftext = \<lparr>co_manifest = disk_usage_manifest, co_available = None, co_run = disk_usage_run ftext\<rparr>"

section \<open>Reading a file\<close>

definition allowlistDirs :: "string list" where
  "allowlistDirs = [''/etc/'', ''/proc/'', ''/sys/'', ''/var/log/'', ''/run/'']"

definition denylistPrefixes :: "string list" where
  "denylistPrefixes =
     [''/etc/shadow'', ''/etc/gshadow'', ''/etc/sudoers'', ''/etc/ssh/ssh_host_'', ''/etc/ssl/private/'', ''/etc/recon/'']"

definition pathAllowed :: "string \<Rightarrow> bool" where
  "pathAllowed p =
     (if list_ex (has_prefix p) denylistPrefixes then False else list_ex (has_prefix p) allowlistDirs)"

text \<open>The path that is read, when the request passes every check.\<close>

definition check_path :: "string \<Rightarrow> string outcome pm" where
  "check_path raw =
     (let cl = path_clean raw
      in if \<not> has_prefix cl ''/'' then return (Failed (Msg ''path must be absolute''))
         else if \<not> pathAllowed cl then return (Failed (Quoting [(''path '', cl)] '' not in allowlist''))
         else do {
           li \<leftarrow> call_host [Linked cl] (\<lambda>w. w_lstat w cl);
           (case li of
              Inl e \<Rightarrow> return (Failed (Wrap ''lstat'' (Msg e)))
            | Inr True \<Rightarrow> return (Failed (Quoting [(''path '', cl)] ('' is a symlink '' @ em_dash @ '' refusing to follow'')))
            | Inr False \<Rightarrow> do {
                re \<leftarrow> call_host [Linked cl] (\<lambda>w. w_real w cl);
                (case re of
                   Inl e \<Rightarrow> return (Failed (Wrap ''eval symlinks'' (Msg e)))
                 | Inr resolved \<Rightarrow>
                     if resolved \<noteq> cl
                     then return (Failed (Quoting [(''path '', cl), ('' resolves to '', resolved)]
                                            ('' via symlinks '' @ em_dash @ '' refusing'')))
                     else return (Got cl))
              })
         })"

text \<open>What is read of an opened file: at most \<open>mx\<close> bytes, and the rest for the hash.\<close>

definition read_result :: "(bytes \<Rightarrow> string) \<Rightarrow> string \<Rightarrow> nat \<Rightarrow> opened \<Rightarrow> probe_result outcome" where
  "read_result sha path mx f =
     (case op_size f of
        Inl e \<Rightarrow> Failed (Wrap ''stat'' (Msg e))
      | Inr sz \<Rightarrow>
          (let n = min mx (length (op_bytes f))
           in if n < mx \<and> op_fail f \<noteq> None then Failed (Wrap ''read'' (Msg (the (op_fail f))))
              else if n = mx \<and> op_fail f \<noteq> None then Failed (Wrap ''read tail for hash'' (Msg (the (op_fail f))))
              else Got (mk_result
                (JObj [(''path'', JStr path), (''size_bytes'', JInt sz), (''bytes_returned'', JInt (int n)),
                       (''sha256'', JStr (sha (op_bytes f))), (''content'', JStr (take n (op_bytes f)))])
                [] [])))"

definition max_bytes_param :: "strmap \<Rightarrow> int" where
  "max_bytes_param p = paramInt p ''max_bytes'' 65536 (1024 * 1024)"

definition file_read_run :: "(bytes \<Rightarrow> string) \<Rightarrow> strmap \<Rightarrow> probe_result outcome pm" where
  "file_read_run sha p =
     (let raw = trim_space (param p ''path'')
      in if raw = [] then return (Failed (Msg ''path parameter required''))
         else chain (check_path raw) (\<lambda>cl.
           call_host [Opened cl] (\<lambda>w.
             case w_open w cl of
               Inl e \<Rightarrow> Failed (Wrap ''open'' (Msg e))
             | Inr f \<Rightarrow> read_result sha cl (nat (max_bytes_param p)) f)))"

definition file_read_manifest :: probe_manifest where
  "file_read_manifest =
     \<lparr>pm_name = ''file_read'', pm_version = ''1.0.0'', pm_category = ''files'',
      pm_description = ''Read a file from a small, hard-coded allowlist (/etc, /proc, /sys, /var/log, /run) with explicit denylist for secrets. Returns size, sha256 of full file, and the first N bytes (default 64 KiB, max 1 MiB).'',
      pm_reads = [''allowlisted file paths only''], pm_requires = [],
      pm_params =
        [\<lparr>ps_name = ''path'', ps_type = ''string'', ps_required = True, ps_default = [],
          ps_description = ''absolute path within the allowlist''\<rparr>,
         \<lparr>ps_name = ''max_bytes'', ps_type = ''int'', ps_required = False, ps_default = ''65536'',
          ps_description = ''max bytes to return (cap 1048576)''\<rparr>]\<rparr>"

definition file_read :: "(bytes \<Rightarrow> string) \<Rightarrow> collector" where
  "file_read sha = \<lparr>co_manifest = file_read_manifest, co_available = None, co_run = file_read_run sha\<rparr>"

end
