(* ===== verification/Col_Process.thy ===== *)
theory Col_Process
  imports Agent_Probe Paths
begin

text \<open>
  \<open>agent/collectors/process/*.go\<close> and \<open>agent/collectors/system/*.go\<close>, as they are built for
  Linux: the processes of \<open>/proc\<close>, and the facts of the host. \<open>pfloat\<close> is \<open>strconv.ParseFloat\<close>,
  giving the JSON number that is printed for the value. \<open>sort.Slice\<close> may order equal elements
  in any way; the model keeps them in the order of the process numbers' names.
\<close>

section \<open>Processes\<close>

record proc =
  pc_pid :: int
  pc_ppid :: int
  pc_comm :: string
  pc_state :: string
  pc_cpu :: "64 word"
  pc_rss :: "64 word"
  pc_vm :: "64 word"
  pc_uid :: int

definition new_proc :: "int \<Rightarrow> proc" where
  "new_proc pid =
     \<lparr>pc_pid = pid, pc_ppid = 0, pc_comm = [], pc_state = [], pc_cpu = 0, pc_rss = 0, pc_vm = 0, pc_uid = 0\<rparr>"

text \<open>The fields after the command's name.\<close>

definition stat_fields :: "string list \<Rightarrow> proc \<Rightarrow> proc" where
  "stat_fields rest p =
     (let p1 = (if 1 \<le> length rest then p\<lparr>pc_state := rest ! 0\<rparr> else p);
          p2 = (if 2 \<le> length rest
                then (case atoi (rest ! 1) of Some v \<Rightarrow> p1\<lparr>pc_ppid := v\<rparr> | None \<Rightarrow> p1) else p1)
      in if 13 \<le> length rest
         then p2\<lparr>pc_cpu := parse_uint (rest ! 11) + parse_uint (rest ! 12)\<rparr> else p2)"

definition parseStat :: "bytes \<Rightarrow> proc \<Rightarrow> proc" where
  "parseStat s p =
     (case last_index (CHR '')'') s of
        None \<Rightarrow> p
      | Some e \<Rightarrow>
          (case index_of (CHR ''('') s of
             None \<Rightarrow> p
           | Some b \<Rightarrow>
               if e \<le> b then p
               else stat_fields (Go_Strings.fields (trim_space (drop (e + 1) s)))
                      (p\<lparr>pc_comm := take (e - (b + 1)) (drop (b + 1) s)\<rparr>)))"

definition status_line :: "string \<Rightarrow> proc \<Rightarrow> proc" where
  "status_line line p =
     (if has_prefix line ''VmRSS:'' then p\<lparr>pc_rss := parseKB line\<rparr>
      else if has_prefix line ''VmSize:'' then p\<lparr>pc_vm := parseKB line\<rparr>
      else if has_prefix line ''Uid:'' then
        (let fs = Go_Strings.fields line
         in if 2 \<le> length fs then (case atoi (fs ! 1) of Some v \<Rightarrow> p\<lparr>pc_uid := v\<rparr> | None \<Rightarrow> p) else p)
      else p)"

definition parseStatus :: "bytes \<Rightarrow> proc \<Rightarrow> proc" where
  "parseStatus body p = fold status_line (fst (scanner max_token body)) p"

definition readOne :: "string \<Rightarrow> int \<Rightarrow> proc option pm" where
  "readOne dir pid = do {
     st \<leftarrow> ReadFile (path_join dir ''stat'');
     (case st of
        Inl _ \<Rightarrow> return None
      | Inr body \<Rightarrow> do {
          su \<leftarrow> ReadFile (path_join dir ''status'');
          return (Some (case su of
              Inl _ \<Rightarrow> parseStat body (new_proc pid)
            | Inr b \<Rightarrow> parseStatus b (parseStat body (new_proc pid))))
        })
   }"

fun read_each :: "string \<Rightarrow> string list \<Rightarrow> proc list pm" where
  "read_each root [] = return []"
| "read_each root (n # ns) =
     (case atoi n of
        None \<Rightarrow> read_each root ns
      | Some pid \<Rightarrow> do {
          p \<leftarrow> readOne (path_join root n) pid;
          rest \<leftarrow> read_each root ns;
          return (case p of None \<Rightarrow> rest | Some x \<Rightarrow> x # rest)
        })"

definition readProcesses :: "string \<Rightarrow> proc list outcome pm" where
  "readProcesses root = do {
     d \<leftarrow> call_host [Listed root] (\<lambda>w. w_dir w root);
     (case d of
        Inl e \<Rightarrow> return (Failed (Msg e))
      | Inr ns \<Rightarrow> do { ps \<leftarrow> read_each root ns; return (Got ps) })
   }"

definition takeN :: "'a list \<Rightarrow> int \<Rightarrow> 'a list" where
  "takeN p n = (let k = (if n > int (length p) then int (length p) else n) in take (nat k) p)"

definition top_by :: "(proc \<Rightarrow> 64 word) \<Rightarrow> int \<Rightarrow> proc list \<Rightarrow> proc list" where
  "top_by k n ps = takeN (sort_key (\<lambda>p. - uint (k p)) ps) n"

definition proc_json :: "proc \<Rightarrow> json" where
  "proc_json p = JObj
     [(''pid'', JInt (pc_pid p)), (''ppid'', JInt (pc_ppid p)), (''comm'', JStr (pc_comm p)),
      (''state'', JStr (pc_state p)), (''cpu_ticks'', JInt (uint (pc_cpu p))), (''rss_kb'', JInt (uint (pc_rss p))),
      (''vm_kb'', JInt (uint (pc_vm p))), (''uid'', JInt (pc_uid p))]"

definition process_list_run :: "strmap \<Rightarrow> probe_result outcome pm" where
  "process_list_run p =
     (let topN = paramInt p ''top_n'' 10 200
      in chain (readProcesses ''/proc'') (\<lambda>ps.
           let zs = filter (\<lambda>x. pc_state x = ''Z'') ps
           in return (Got (mk_result
             (JObj ([(''total'', JInt (int (length ps))),
                     (''top_by_cpu'', slice_json proc_json (top_by pc_cpu topN ps)),
                     (''top_by_rss'', slice_json proc_json (top_by pc_rss topN ps))]
                    @ (if zs = [] then [] else [(''zombies'', JArr (map proc_json zs))])))
             (if 5 \<le> length zs
              then [\<lparr>hn_severity = ''warn'', hn_code = ''process.zombies'',
                     hn_message = ''more than 5 zombie processes'',
                     hn_evidence = JObj [(''count'', JInt (int (length zs)))]\<rparr>]
              else [])
             []))))"

definition process_list_manifest :: probe_manifest where
  "process_list_manifest =
     \<lparr>pm_name = ''process_list'', pm_version = ''1.0.0'', pm_category = ''process'',
      pm_description = ''Process snapshot from /proc/*/stat + /proc/*/status. Returns total count and top-N by CPU and RSS, plus zombies.'',
      pm_reads = [''/proc/*/stat'', ''/proc/*/status''], pm_requires = [],
      pm_params = [\<lparr>ps_name = ''top_n'', ps_type = ''int'', ps_required = False, ps_default = ''10'',
                    ps_description = ''how many entries in top_by_cpu/top_by_rss''\<rparr>]\<rparr>"

definition process_list :: collector where
  "process_list = \<lparr>co_manifest = process_list_manifest, co_available = None, co_run = process_list_run\<rparr>"

section \<open>The host's facts\<close>

definition unquote :: "string \<Rightarrow> string" where
  "unquote s0 =
     (let s = trim_space s0
      in if 2 \<le> length s \<and> (s ! 0 = CHR 0x22 \<or> s ! 0 = CHR 0x27) \<and> s ! (length s - 1) = s ! 0
         then take (length s - 2) (drop 1 s) else s)"

definition os_line :: "string \<Rightarrow> string \<times> string \<Rightarrow> string \<times> string" where
  "os_line line dv =
     (let d = (if has_prefix line ''ID='' then unquote (trim_prefix line ''ID='') else fst dv);
          v = (if has_prefix line ''VERSION_ID='' then unquote (trim_prefix line ''VERSION_ID='') else snd dv)
      in (d, v))"

text \<open>The lines of a file, or its error; a reader that fails ends the lines early.\<close>

definition file_lines :: "string \<Rightarrow> (string + string list) pm" where
  "file_lines path = call_host [Opened path] (\<lambda>w.
     case w_open w path of Inl e \<Rightarrow> Inl e | Inr f \<Rightarrow> Inr (fst (scanner max_token (op_bytes f))))"

definition parseOSRelease :: "string \<Rightarrow> (string \<times> string) pm" where
  "parseOSRelease path = do {
     r \<leftarrow> file_lines path;
     return (case r of Inl _ \<Rightarrow> ([], []) | Inr ls \<Rightarrow> fold os_line ls ([], []))
   }"

definition readUptime :: "(string \<Rightarrow> json option) \<Rightarrow> string \<Rightarrow> json option pm" where
  "readUptime pfloat path = do {
     r \<leftarrow> ReadFile path;
     return (case r of
         Inl _ \<Rightarrow> None
       | Inr body \<Rightarrow> (case Go_Strings.fields body of [] \<Rightarrow> Some (JInt 0) | x # _ \<Rightarrow> pfloat x))
   }"

definition float_or_zero :: "(string \<Rightarrow> json option) \<Rightarrow> string \<Rightarrow> json" where
  "float_or_zero pfloat x = (case pfloat x of Some v \<Rightarrow> v | None \<Rightarrow> JInt 0)"

definition readLoadavg :: "(string \<Rightarrow> json option) \<Rightarrow> string \<Rightarrow> (json \<times> json \<times> json) option pm" where
  "readLoadavg pfloat path = do {
     r \<leftarrow> ReadFile path;
     return (case r of
         Inl _ \<Rightarrow> None
       | Inr body \<Rightarrow>
           (case Go_Strings.fields body of
              x # y # z # _ \<Rightarrow> Some (float_or_zero pfloat x, float_or_zero pfloat y, float_or_zero pfloat z)
            | _ \<Rightarrow> Some (JInt 0, JInt 0, JInt 0)))
   }"

definition mem_line :: "string \<Rightarrow> 64 word \<times> 64 word \<Rightarrow> 64 word \<times> 64 word" where
  "mem_line line ta =
     (if has_prefix line ''MemTotal:'' then (parseKB line, snd ta)
      else if has_prefix line ''MemAvailable:'' then (fst ta, parseKB line)
      else ta)"

definition readMeminfo :: "string \<Rightarrow> (64 word \<times> 64 word) option pm" where
  "readMeminfo path = do {
     r \<leftarrow> file_lines path;
     return (case r of Inl _ \<Rightarrow> None | Inr ls \<Rightarrow> Some (fold mem_line ls (0, 0)))
   }"

text \<open>Less than a tenth of the memory is available; the product is that of 64-bit words.\<close>

definition memory_pressure :: "64 word \<Rightarrow> 64 word \<Rightarrow> bool" where
  "memory_pressure tot avail = (0 < tot \<and> avail * 10 < tot)"

definition system_info_run :: "(string \<Rightarrow> json option) \<Rightarrow> strmap \<Rightarrow> probe_result outcome pm" where
  "system_info_run pfloat p = do {
     cpus \<leftarrow> call_host [] w_cpus;
     hostname \<leftarrow> call_host [] w_hostname;
     dv \<leftarrow> parseOSRelease ''/etc/os-release'';
     kernel \<leftarrow> call_host [] w_uname;
     up \<leftarrow> readUptime pfloat ''/proc/uptime'';
     load \<leftarrow> readLoadavg pfloat ''/proc/loadavg'';
     mem \<leftarrow> readMeminfo ''/proc/meminfo'';
     let (l1, l5, l15) = (case load of Some x \<Rightarrow> x | None \<Rightarrow> (JInt 0, JInt 0, JInt 0));
     let (tot, avail) = (case mem of Some x \<Rightarrow> x | None \<Rightarrow> (0, 0));
     return (Got (mk_result
       (JObj [(''distro'', JStr (fst dv)), (''os_version'', JStr (if fst dv = [] then [] else snd dv)),
              (''kernel'', JStr (case kernel of Some k \<Rightarrow> k | None \<Rightarrow> [])), (''hostname'', JStr hostname),
              (''uptime_sec'', case up of Some u \<Rightarrow> u | None \<Rightarrow> JInt 0),
              (''load1'', l1), (''load5'', l5), (''load15'', l15), (''cpu_count'', JInt cpus),
              (''mem_total_kb'', JInt (uint tot)), (''mem_avail_kb'', JInt (uint avail))])
       (if memory_pressure tot avail
        then [\<lparr>hn_severity = ''warn'', hn_code = ''memory.pressure'',
               hn_message = ''less than 10% memory available'',
               hn_evidence = JObj [(''avail_kb'', JInt (uint avail)), (''total_kb'', JInt (uint tot))]\<rparr>]
        else [])
       []))
   }"

definition system_info_manifest :: probe_manifest where
  "system_info_manifest =
     \<lparr>pm_name = ''system_info'', pm_version = ''1.0.0'', pm_category = ''system'',
      pm_description = (''OS distribution, kernel, hostname, uptime, load averages, CPU count, memory totals '' @ em_dash @ '' read from /proc and /etc/os-release with no exec.''),
      pm_reads = [''/etc/os-release'', ''/proc/uptime'', ''/proc/loadavg'', ''/proc/meminfo'', ''/proc/cpuinfo'', ''uname(2)''],
      pm_requires = [], pm_params = []\<rparr>"

definition system_info :: "(string \<Rightarrow> json option) \<Rightarrow> collector" where
  "system_info pfloat =
     \<lparr>co_manifest = system_info_manifest, co_available = None, co_run = system_info_run pfloat\<rparr>"

end
