(* ===== verification/Agent_Collectors.thy ===== *)
theory Agent_Collectors
  imports Agent_Registry Col_Container Col_Kube Col_Systemd Col_Net Col_Files Col_Process
begin

text \<open>
  The collectors compiled into the agent (the blank imports of \<open>cmd/agent/main.go\<close>), and what
  holds of all of them: they register under distinct names, they touch nothing of the host but
  what they may, and they ask the exec gateway only for commands it accepts, unless a parameter
  is one its validators refuse.
\<close>

section \<open>The collectors of the agent\<close>

text \<open>
  What the collectors use of Go's library as it is: the text of a JSON error, durations, the
  text of a number, SHA-256, and the parsing of numbers.
\<close>

record golib =
  gl_jerr :: "bytes \<Rightarrow> string"
  gl_dur :: "string \<Rightarrow> int option"
  gl_ftext :: "rat \<Rightarrow> string"
  gl_sha :: "bytes \<Rightarrow> string"
  gl_float :: "string \<Rightarrow> json option"

definition compiled_in :: "golib \<Rightarrow> collector list" where
  "compiled_in gl =
     [docker_ps, docker_inspect, docker_logs, disk_usage (gl_ftext gl), file_read (gl_sha gl),
      kubectl_get (gl_jerr gl), kubectl_describe, kubectl_logs, dns_resolve (gl_dur gl),
      net_connect (gl_dur gl), net_ifaces, net_listen, process_list, system_info (gl_float gl),
      journal_tail, systemd_units (gl_jerr gl)]"

lemmas collector_defs =
  docker_ps_def docker_inspect_def docker_logs_def disk_usage_def file_read_def kubectl_get_def
  kubectl_describe_def kubectl_logs_def dns_resolve_def net_connect_def net_ifaces_def net_listen_def
  process_list_def system_info_def journal_tail_def systemd_units_def

lemmas manifest_defs =
  docker_ps_manifest_def docker_inspect_manifest_def docker_logs_manifest_def disk_usage_manifest_def
  file_read_manifest_def kubectl_get_manifest_def kubectl_describe_manifest_def kubectl_logs_manifest_def
  dns_resolve_manifest_def net_connect_manifest_def net_ifaces_manifest_def net_listen_manifest_def
  process_list_manifest_def system_info_manifest_def journal_tail_manifest_def systemd_units_manifest_def

lemma compiled_in_names:
  "map co_name (compiled_in gl) =
     [''docker_ps'', ''docker_inspect'', ''docker_logs'', ''disk_usage'', ''file_read'', ''kubectl_get'',
      ''kubectl_describe'', ''kubectl_logs'', ''dns_resolve'', ''net_connect'', ''net_ifaces'', ''net_listen'',
      ''process_list'', ''system_info'', ''journal_tail'', ''systemd_units'']"
  by (simp add: compiled_in_def collector_defs manifest_defs)

definition agent_registry :: "golib \<Rightarrow> registry" where
  "agent_registry gl =
     empty_registry\<lparr>rg_collectors := map (\<lambda>c. (co_name c, c)) (compiled_in gl)\<rparr>"

lemma register_compiled_in: "register_each (compiled_in gl) empty_registry = Inr (agent_registry gl)"
proof -
  have "distinct (map co_name (compiled_in gl))" "\<forall>n \<in> set (map co_name (compiled_in gl)). n \<noteq> []"
    unfolding compiled_in_names by simp_all
  then show ?thesis
    using register_each_distinct [of "compiled_in gl" empty_registry]
    by (simp add: agent_registry_def empty_registry_def)
qed

lemma agent_registry_ok: "registry_ok (agent_registry gl)"
  using register_each_ok [OF registry_ok_empty register_compiled_in] .

section \<open>What collectors may touch\<close>

text \<open>
  A process is one the gateway starts: a read-only call of one of the binaries of the default
  table, from its fixed paths, with a deadline of at most 30 seconds. A file is named by a
  normal path below one of five directories, outside the regions of secrets. A connection goes
  to no metadata endpoint and to no link-local, multicast or unspecified address.
\<close>

definition read_only_spawn :: "spawn \<Rightarrow> bool" where
  "read_only_spawn sp =
     (list_ex (\<lambda>d. read_only_call (e_bin d) (sp_args sp) \<and> sp_path sp \<in> set (e_candidates d)) default_entries
      \<and> list_all clean (sp_args sp) \<and> 0 < sp_timeout sp \<and> sp_timeout sp \<le> 30 * 10 ^ 9)"

definition plain_path :: "string \<Rightarrow> bool" where
  "plain_path p =
     (path_clean p = p
      \<and> list_ex (has_prefix p) [''/etc/'', ''/proc/'', ''/sys/'', ''/var/log/'', ''/run/'']
      \<and> \<not> list_ex (has_prefix p) [''/etc/shadow'', ''/etc/gshadow'', ''/etc/sudoers'', ''/etc/ssh/ssh_host_'',
            ''/etc/ssl/private/'', ''/etc/recon/''])"

definition open_target :: "string \<Rightarrow> bool" where
  "open_target t =
     (case SplitHostPort t of
        Inl _ \<Rightarrow> False
      | Inr (h, _) \<Rightarrow>
          h \<noteq> ''169.254.169.254'' \<and> h \<noteq> ''fd00:ec2::254'' \<and> h \<noteq> ''metadata.google.internal''
          \<and> (case ParseIP h of
               None \<Rightarrow> True
             | Some a \<Rightarrow> \<not> IsLinkLocalUnicast a \<and> \<not> IsLinkLocalMulticast a \<and> \<not> IsMulticast a \<and> \<not> IsUnspecified a))"

fun permitted :: "touch \<Rightarrow> bool" where
  "permitted (Spawned sp) = read_only_spawn sp"
| "permitted (Opened p) = plain_path p"
| "permitted (Linked p) = plain_path p"
| "permitted (Listed p) = (p = ''/proc'')"
| "permitted (Measured p) = True"
| "permitted (Dialled t) = open_target t"
| "permitted (Resolved h) = True"

lemma permitted_spawn:
  assumes "RegisterDefaults st0 Map.empty = Inr wl" and "run_plan st wl bin args = Inr (Inr (sp, e))"
  shows "permitted (Spawned sp)"
  using spawn_read_only [OF assms] by (force simp: read_only_spawn_def list_ex_iff)

lemma permitted_dial: "disallowedTarget t = [] \<Longrightarrow> permitted (Dialled t)"
  by (auto simp: disallowedTarget_def open_target_def metadata_hosts_def split: sum.splits option.splits if_splits)

lemma allowed_plain: "pathAllowed (path_clean p) \<Longrightarrow> plain_path (path_clean p)"
  by (simp add: pathAllowed_def plain_path_def path_clean_twice allowlistDirs_def denylistPrefixes_def
      split: if_splits)

section \<open>Every collector stays within that\<close>

lemma inside_file_lines: "P (Opened path) \<Longrightarrow> keeps (touches_only P wl ts) (file_lines path)"
  unfolding file_lines_def by (rule inside_call) simp

lemma number_name_plain:
  assumes "atoi n = Some k"
  shows "plain_elem n"
proof -
  have "\<forall>c \<in> set n. is_digit c \<or> c = CHR ''-'' \<or> c = CHR ''+''"
    using atoi_chars [OF assms] by blast
  moreover have "\<not> is_digit (CHR ''.'')" "\<not> is_digit (CHR ''/'')" by code_simp+
  moreover have "n \<noteq> []" using assms by (auto simp: atoi_def is_number_def)
  ultimately show ?thesis by (auto simp: plain_elem_def)
qed

lemma proc_paths:
  assumes "atoi n = Some k"
  shows "permitted (Opened (path_join (path_join ''/proc'' n) ''stat''))"
    and "permitted (Opened (path_join (path_join ''/proc'' n) ''status''))"
proof -
  have base: "has_prefix ''/proc'' ''/''" "snd (path_elems ''/proc'') = [''proc'']"
    and st: "plain_elem ''stat''" "plain_elem ''status''" by code_simp+
  note n = number_name_plain [OF assms]
  have elems: "path_elems (path_join ''/proc'' n) = (True, [''proc'', n])"
    using path_elems_join [OF base(1) n] base(2) by simp
  have abs: "has_prefix (path_join ''/proc'' n) ''/''"
    using path_join_render [OF base(1) n] by (simp add: has_prefix_def)
  have plain: "plain_path (path_join (path_join ''/proc'' n) e)" if "plain_elem e" for e
  proof -
    have eq: "path_join (path_join ''/proc'' n) e = ''/proc/'' @ n @ ''/'' @ e"
      using path_join_render [OF abs that] elems by simp
    have "path_clean (path_join (path_join ''/proc'' n) e) = path_join (path_join ''/proc'' n) e"
      using that by (simp add: path_join_def plain_elem_def path_clean_twice)
    then show ?thesis unfolding plain_path_def by (simp add: eq) (simp add: has_prefix_def)
  qed
  show "permitted (Opened (path_join (path_join ''/proc'' n) ''stat''))"
    "permitted (Opened (path_join (path_join ''/proc'' n) ''status''))"
    using plain st by simp_all
qed

lemma fixed_paths:
  "plain_path ''/proc/mounts''" "plain_path ''/etc/os-release''"
  "plain_path ''/proc/uptime''" "plain_path ''/proc/loadavg''"
  "plain_path ''/proc/meminfo''"
  by code_simp+

lemma inside_read_each: "keeps (touches_only permitted wl ts) (read_each ''/proc'' ns)"
  by (induction ns)
    (auto simp: readOne_def intro!: keeps_intros inside_ReadFile proc_paths split: option.splits)

lemma inside_measure: "keeps (touches_only permitted wl ts) (measure_mounts ft ms)"
  by (induction ms) (auto simp: statMount_def intro!: keeps_intros inside_call)

lemma inside_probe_targets: "keeps (touches_only permitted wl ts) (probe_targets t xs)"
proof (induction xs)
  case (Cons x xs)
  have "keeps (touches_only permitted wl ts) (probe_target t x)"
    using permitted_dial [of x] by (auto simp: probe_target_def Let_def intro!: keeps_intros inside_call)
  with Cons show ?case by (auto intro!: keeps_intros)
qed (auto intro: keeps_intros)

lemma inside_check_path: "keeps (touches_only permitted wl ts) (check_path raw)"
  unfolding check_path_def Let_def
  by (auto intro!: keeps_intros inside_call allowed_plain split: sum.splits bool.splits)

text \<open>One lemma per collector that runs commands, under the default table of the gateway.\<close>

definition default_table :: "whitelist \<Rightarrow> bool" where
  "default_table wl = (\<exists>st. RegisterDefaults st Map.empty = Inr wl)"

lemma inside_gateway:
  assumes "default_table wl"
  shows "keeps (touches_only permitted wl ts) (command what bin args)"
    and "keeps (touches_only permitted wl ts) (exec_run bin args)"
  using assms permitted_spawn
  by (auto simp: default_table_def intro!: inside_command inside_exec)

lemma inside_decoded: "keeps (touches_only permitted wl ts) (decoded what d zero body)"
  by (auto simp: decoded_def intro!: keeps_intros split: prod.splits bool.splits)

lemmas inside_intros =
  keeps_return keeps_bind keeps_chain keeps_outcome keeps_if keeps_option keeps_sum keeps_prod keeps_let
  inside_gateway inside_decoded inside_read_each inside_measure inside_probe_targets inside_check_path

lemma inside_commands:
  assumes "default_table wl"
  shows "keeps (touches_only permitted wl ts) (docker_ps_run p)"
    and "keeps (touches_only permitted wl ts) (docker_inspect_run p)"
    and "keeps (touches_only permitted wl ts) (docker_logs_run p)"
    and "keeps (touches_only permitted wl ts) (kubectl_get_run jerr p)"
    and "keeps (touches_only permitted wl ts) (kubectl_describe_run p)"
    and "keeps (touches_only permitted wl ts) (kubectl_logs_run p)"
    and "keeps (touches_only permitted wl ts) (net_ifaces_run p)"
    and "keeps (touches_only permitted wl ts) (net_listen_run p)"
    and "keeps (touches_only permitted wl ts) (systemd_units_run jerr p)"
    and "keeps (touches_only permitted wl ts) (journal_tail_run p)"
  unfolding docker_ps_run_def docker_logs_run_def kubectl_get_run_def docker_inspect_run_def
    kubectl_describe_run_def kubectl_logs_run_def net_ifaces_run_def runIP_def net_listen_run_def
    systemd_units_run_def journal_tail_run_def Let_def
  by (auto intro!: inside_intros assms split: option.splits json.splits list.splits)

lemma check_path_result:
  "run_state (check_path raw) s = (Got cl, s') \<Longrightarrow> plain_path cl"
  using allowed_plain [of raw]
  by (auto simp: check_path_def Let_def call_host_def split: if_splits sum.splits bool.splits)

lemma inside_disk_usage: "keeps (touches_only permitted wl ts) (disk_usage_run ft p)"
  unfolding disk_usage_run_def parseMounts_def Let_def
  by ((rule inside_intros inside_call inside_ReadFile inside_file_lines fixed_paths | simp add: fixed_paths)+)

lemma inside_process_list: "keeps (touches_only permitted wl ts) (process_list_run p)"
  unfolding process_list_run_def readProcesses_def Let_def
  by ((rule inside_intros inside_call inside_ReadFile inside_file_lines fixed_paths | simp add: fixed_paths)+)

lemma inside_net_connect: "keeps (touches_only permitted wl ts) (net_connect_run pdur p)"
  unfolding net_connect_run_def Let_def
  by ((rule inside_intros inside_call inside_ReadFile inside_file_lines fixed_paths | simp add: fixed_paths)+)

lemma inside_dns_resolve: "keeps (touches_only permitted wl ts) (dns_resolve_run pdur p)"
  unfolding dns_resolve_run_def Let_def
  by ((rule inside_intros inside_call inside_ReadFile inside_file_lines fixed_paths | simp add: fixed_paths)+)

lemma inside_system_info: "keeps (touches_only permitted wl ts) (system_info_run pf p)"
  unfolding system_info_run_def parseOSRelease_def readUptime_def readLoadavg_def readMeminfo_def Let_def
  by ((rule inside_intros inside_call inside_ReadFile inside_file_lines fixed_paths | simp add: fixed_paths)+)

lemmas inside_readers =
  inside_disk_usage inside_process_list inside_net_connect inside_dns_resolve inside_system_info

lemma inside_file_read: "keeps (touches_only permitted wl ts) (file_read_run sha p)"
  unfolding file_read_run_def Let_def
  by (intro keeps_if keeps_return keeps_chain_when [where Q = plain_path] inside_check_path)
    (auto dest: check_path_result intro: inside_call)


end
