(* ===== verification/Agent_Commands.thy ===== *)
theory Agent_Commands
  imports Agent_Collectors
begin

text \<open>
  The collectors and the gateway's table agree: every command line a collector builds is one
  the table accepts, unless a parameter of the request is refused by a validator. So the
  gateway's panic, which the agent's runner turns into an error, needs a bad parameter.
\<close>

section \<open>Command lines the table accepts\<close>

lemma atoi_int_text: "0 \<le> n \<Longrightarrow> n < 2 ^ 63 \<Longrightarrow> atoi (int_text n) = Some n"
  using atoi_nat_text [of "nat n"] by (simp add: int_text_def)

lemma accepts_PosInt: "1 \<le> n \<Longrightarrow> n \<le> mx \<Longrightarrow> mx < 2 ^ 63 \<Longrightarrow> accepts (PosInt mx) (int_text n)"
  by (simp add: accepts_def PosInt_def atoi_int_text)

lemma paramInt_range: "1 \<le> dflt \<Longrightarrow> dflt \<le> mx \<Longrightarrow> 1 \<le> paramInt p k dflt mx \<and> paramInt p k dflt mx \<le> mx"
  by (auto simp: paramInt_def split: option.splits)

lemma accepts_paramInt:
  "1 \<le> dflt \<Longrightarrow> dflt \<le> mx \<Longrightarrow> mx < 2 ^ 63 \<Longrightarrow> accepts (PosInt mx) (int_text (paramInt p k dflt mx))"
  using paramInt_range [of dflt mx p k] by (blast intro: accepts_PosInt)

definition table_accepts :: "string \<Rightarrow> string list \<Rightarrow> bool" where
  "table_accepts bin args =
     (\<exists>d \<in> set default_entries. e_bin d = bin \<and> (\<exists>q \<in> set (e_patterns d). list_all2 accepts (pattern_slots q) args))"

lemma default_table_entry:
  assumes "default_table wl" and "d \<in> set default_entries"
  shows "\<exists>e. wl (e_bin d) = Some e \<and> e_patterns e = e_patterns d"
proof -
  from assms(1) obtain st where st: "RegisterDefaults st Map.empty = Inr wl" by (auto simp: default_table_def)
  have dist: "distinct (map e_bin default_entries)" and ne: "\<forall>e \<in> set default_entries. e_bin e \<noteq> []"
    by (simp_all add: default_entries_def entry_defs)
  then obtain wl' where "register_all st default_entries Map.empty = Inr wl'"
    "\<forall>b. wl' b \<noteq> None \<longleftrightarrow> b \<in> e_bin ` set default_entries"
    using register_all_ok [of default_entries Map.empty st] by auto
  with st assms(2) obtain e where e: "wl (e_bin d) = Some e" by (auto simp: RegisterDefaults_def)
  from RegisterDefaults_entry [OF st e] obtain d' where
    d': "d' \<in> set default_entries" "e_bin d' = e_bin d" "resolved_of d' e" by blast
  with dist assms(2) have "d' = d" by (metis distinct_map inj_onD)
  with e d'(3) show ?thesis by (auto simp: resolved_of_def)
qed

lemma table_plan:
  assumes "default_table wl" and "table_accepts bin args"
  shows "\<exists>r. run_plan st wl bin args = Inr r"
proof -
  from assms(2) obtain d q where d: "d \<in> set default_entries" "e_bin d = bin" "q \<in> set (e_patterns d)"
    "list_all2 accepts (pattern_slots q) args" by (auto simp: table_accepts_def)
  with default_table_entry [OF assms(1) d(1)] obtain e where e: "wl bin = Some e" "e_patterns e = e_patterns d"
    by auto
  with d have "validateArgs e args = None" by (auto simp: validateArgs_iff)
  with e(1) show ?thesis by (auto simp: run_plan_def split: option.splits)
qed

section \<open>Programs that do not panic\<close>

definition calm :: "whitelist \<Rightarrow> 'a outcome pm \<Rightarrow> bool" where
  "calm wl m = (\<forall>s r s'. pr_wl s = wl \<longrightarrow> run_state m s = (r, s') \<longrightarrow> pr_wl s' = wl \<and> (\<forall>e. r \<noteq> Panicked e))"

named_theorems calm_intros

lemma calm_return [calm_intros]: "(\<And>e. r \<noteq> Panicked e) \<Longrightarrow> calm wl (return r)"
  by (simp add: calm_def)

lemma calmD:
  "calm wl m \<Longrightarrow> pr_wl s = wl \<Longrightarrow> run_state m s = (r, s') \<Longrightarrow> pr_wl s' = wl \<and> r \<noteq> Panicked e"
  unfolding calm_def by blast

lemma calm_chain [calm_intros]:
  assumes "calm wl m" and "\<And>x. calm wl (f x)"
  shows "calm wl (chain m f)"
  unfolding calm_def
proof (intro allI impI)
  fix s r s'
  assume s: "pr_wl s = wl" and run: "run_state (chain m f) s = (r, s')"
  obtain x s1 where m: "run_state m s = (x, s1)" by fastforce
  note m' = calmD [OF assms(1) s m]
  show "pr_wl s' = wl \<and> (\<forall>e. r \<noteq> Panicked e)"
  proof (cases x)
    case (Got y)
    with run m have "run_state (f y) s1 = (r, s')" by (simp add: chain_def)
    with calmD [OF assms(2)] m' show ?thesis by blast
  next
    case (Failed e)
    with run m m' show ?thesis by (auto simp: chain_def)
  next
    case (Panicked e)
    with m' show ?thesis by blast
  qed
qed

lemma calm_bind [calm_intros]:
  assumes "\<And>ts. keeps (touches_only P wl ts) m" and "\<And>x. calm wl (f x)"
  shows "calm wl (State_Monad.bind m f)"
  unfolding calm_def
proof (intro allI impI)
  fix s r s'
  assume s: "pr_wl s = wl" and run: "run_state (State_Monad.bind m f) s = (r, s')"
  obtain x s1 where m: "run_state m s = (x, s1)" by fastforce
  have "touches_only P wl (pr_log s) s" using inside_refl [of P s] s by simp
  from keepsD [OF assms(1) this] m have "pr_wl s1 = wl" by (simp add: touches_only_def)
  with assms(2) m run show "pr_wl s' = wl \<and> (\<forall>e. r \<noteq> Panicked e)" by (auto simp: calm_def)
qed

lemma calm_call [calm_intros]: "(\<And>w e. f w \<noteq> Panicked e) \<Longrightarrow> calm wl (call_host ts f)"
  by (auto simp: calm_def call_host_def)

lemma calm_exec:
  assumes "default_table wl" and "table_accepts bin args"
  shows "calm wl (exec_run bin args)"
  unfolding calm_def
proof (intro allI impI)
  fix s r s'
  assume "pr_wl s = wl" and "run_state (exec_run bin args) s = (r, s')"
  with table_plan [OF assms, of "w_stat (pr_world s (pr_now s))"]
  show "pr_wl s' = wl \<and> (\<forall>e. r \<noteq> Panicked e)"
    by (auto simp: exec_run_def Let_def Run_def split: sum.splits prod.splits)
qed

lemma calm_command: "default_table wl \<Longrightarrow> table_accepts bin args \<Longrightarrow> calm wl (command what bin args)"
  unfolding command_def
  by (rule calm_chain [OF calm_exec]) (auto intro: calm_intros split: prod.splits option.splits)

section \<open>The command lines of the collectors\<close>

lemma table_acceptsI:
  "d \<in> set default_entries \<Longrightarrow> e_bin d = bin \<Longrightarrow> q \<in> set (e_patterns d)
   \<Longrightarrow> list_all2 accepts (pattern_slots q) args \<Longrightarrow> table_accepts bin args"
  by (auto simp: table_accepts_def)

lemma fixed_commands:
  "table_accepts ''docker'' [''ps'', ''-a'', ''--no-trunc'', ''--format'', ''{{json .}}'']"
  "table_accepts ''systemctl'' [''list-units'', ''--all'', ''--no-pager'', ''--no-legend'', ''-o'', ''json'']"
  "table_accepts ''ss'' [''-tulpn'']"
  "table_accepts ''ip'' [''-json'', ''addr'']"
  "table_accepts ''ip'' [''-json'', ''route'']"
  "table_accepts ''ip'' [''-json'', ''neigh'']"
  by (simp_all add: table_accepts_def default_entries_def entry_defs)

lemma named_commands:
  "accepts NoShellMeta c \<Longrightarrow> table_accepts ''docker'' [''inspect'', c]"
  "accepts NoShellMeta c \<Longrightarrow>
     table_accepts ''docker'' [''logs'', ''--tail'', int_text (paramInt p ''lines'' 200 10000), ''--timestamps'', c]"
  "accepts NoShellMeta r \<Longrightarrow> ns \<noteq> [] \<longrightarrow> accepts NoShellMeta ns \<Longrightarrow> table_accepts ''kubectl'' (kubectl_get_args r ns)"
  "accepts NoShellMeta r \<Longrightarrow> accepts NoShellMeta n \<Longrightarrow> accepts NoShellMeta ns
     \<Longrightarrow> table_accepts ''kubectl'' [''describe'', r, n, ''-n'', ns]"
  "accepts NoShellMeta n \<Longrightarrow> accepts NoShellMeta ns \<Longrightarrow> table_accepts ''kubectl''
     [''logs'', n, ''-n'', ns, ''--tail'', int_text (paramInt p ''lines'' 200 10000), ''--timestamps'']"
  "accepts SystemdUnitName u \<Longrightarrow> accepts JournalSince since \<Longrightarrow> table_accepts ''journalctl''
     [''-u'', u, ''--since'', since, ''-n'', int_text (journal_lines p), ''-o'', ''json'', ''--no-pager'']"
  by (auto simp: table_accepts_def default_entries_def entry_defs kubectl_get_args_def journal_lines_def
      accepts_paramInt)

lemmas calm_run_intros =
  calm_return calm_chain calm_call calm_command calm_exec fixed_commands

section \<open>Which parameters make the gateway panic\<close>

text \<open>What the collectors hand to the gateway's validators is acceptable to them.\<close>

definition gateway_params_ok :: "strmap \<Rightarrow> bool" where
  "gateway_params_ok p =
     (list_all (\<lambda>k. NoShellMeta (trim_space (param p k)) = None)
        [''container'', ''resource'', ''name'', ''namespace'', ''pod'']
      \<and> (trim_space (param p ''unit'') = [] \<or> SystemdUnitName (trim_space (param p ''unit'')) = None)
      \<and> JournalSince (journal_since p) = None)"

lemma gateway_params:
  assumes "gateway_params_ok p"
  shows "accepts NoShellMeta (trim_space (param p ''container''))"
    and "accepts NoShellMeta (trim_space (param p ''resource''))"
    and "accepts NoShellMeta (trim_space (param p ''name''))"
    and "accepts NoShellMeta (trim_space (param p ''namespace''))"
    and "accepts NoShellMeta (trim_space (param p ''pod''))"
    and "trim_space (param p ''unit'') \<noteq> [] \<Longrightarrow> accepts SystemdUnitName (trim_space (param p ''unit''))"
    and "accepts JournalSince (journal_since p)"
  using assms by (auto simp: gateway_params_ok_def accepts_def)

lemma calm_container:
  assumes "default_table wl" and "gateway_params_ok p"
  shows "calm wl (docker_ps_run p)" and "calm wl (docker_inspect_run p)" and "calm wl (docker_logs_run p)"
  unfolding docker_ps_run_def docker_logs_run_def docker_inspect_run_def Let_def
  by (auto intro!: calm_run_intros assms named_commands gateway_params [OF assms(2)]
      split: option.splits json.splits list.splits prod.splits)

lemma calm_k8s:
  assumes "default_table wl" and "gateway_params_ok p"
  shows "calm wl (kubectl_get_run jerr p)" and "calm wl (kubectl_describe_run p)" and "calm wl (kubectl_logs_run p)"
  unfolding kubectl_get_run_def kubectl_describe_run_def kubectl_logs_run_def Let_def
  by (auto intro!: calm_run_intros assms named_commands gateway_params [OF assms(2)] split: prod.splits)

lemma calm_systemd:
  assumes "default_table wl" and "gateway_params_ok p"
  shows "calm wl (systemd_units_run jerr p)" and "calm wl (journal_tail_run p)"
  unfolding systemd_units_run_def journal_tail_run_def Let_def
  by (auto intro!: calm_run_intros assms named_commands gateway_params [OF assms(2)] split: prod.splits)

lemma calm_net_listen: "default_table wl \<Longrightarrow> calm wl (net_listen_run p)"
  unfolding net_listen_run_def by (auto intro!: calm_run_intros)

lemma calm_decoded: "calm wl (decoded what d zero body)"
  unfolding decoded_def by (auto intro!: calm_return split: prod.splits bool.splits)

lemma calm_net_ifaces: "default_table wl \<Longrightarrow> calm wl (net_ifaces_run p)"
  unfolding net_ifaces_run_def runIP_def
  by (intro calm_run_intros calm_decoded) auto

text \<open>The collectors that run no command never panic.\<close>

lemma calm_check_path: "calm wl (check_path raw)"
  unfolding check_path_def Let_def
  by (auto intro!: calm_return calm_bind [where P = permitted] inside_call allowed_plain
      split: sum.splits bool.splits)

lemma calm_file_read: "calm wl (file_read_run sha p)"
  unfolding file_read_run_def Let_def read_result_def
  by (auto intro!: calm_return calm_chain calm_check_path calm_call split: sum.splits if_splits)

lemma calm_disk_usage: "calm wl (disk_usage_run ft p)"
  unfolding disk_usage_run_def parseMounts_def
  by (auto intro!: calm_return calm_chain calm_call calm_bind [where P = permitted] inside_measure
      split: sum.splits prod.splits bool.splits option.splits)

lemma calm_process_list: "calm wl (process_list_run p)"
  unfolding process_list_run_def readProcesses_def Let_def
  by (auto intro!: calm_return calm_chain calm_bind [where P = permitted] inside_read_each inside_call
      split: sum.splits)

lemma calm_net_connect: "calm wl (net_connect_run pdur p)"
  unfolding net_connect_run_def Let_def
  by (auto intro!: calm_return calm_bind [where P = permitted] inside_probe_targets)

lemma calm_dns_resolve: "calm wl (dns_resolve_run pdur p)"
  unfolding dns_resolve_run_def Let_def
  by (auto intro!: calm_return calm_bind [where P = permitted] inside_call)

lemma inside_facts:
  "keeps (touches_only permitted wl ts) (parseOSRelease ''/etc/os-release'')"
  "keeps (touches_only permitted wl ts) (readUptime pf ''/proc/uptime'')"
  "keeps (touches_only permitted wl ts) (readLoadavg pf ''/proc/loadavg'')"
  "keeps (touches_only permitted wl ts) (readMeminfo ''/proc/meminfo'')"
  unfolding parseOSRelease_def readUptime_def readLoadavg_def readMeminfo_def
  by (auto intro!: keeps_bind keeps_return inside_file_lines inside_ReadFile simp: fixed_paths)

lemma calm_system_info: "calm wl (system_info_run pf p)"
  unfolding system_info_run_def Let_def
  by (auto intro!: calm_return calm_bind [where P = permitted] inside_facts inside_call split: prod.splits)

text \<open>
  A collector of the agent makes the exec gateway panic only when a parameter of the request
  is one that the gateway's validators refuse: with acceptable names (or the defaults) every
  command line a collector builds matches the default table, so the table and the collectors
  agree, and the collectors that run no command never panic at all.
\<close>
theorem collector_panics_need_bad_parameter:
  assumes "RegisterDefaults st Map.empty = Inr (pr_wl s)" and "c \<in> set (compiled_in gl)"
    and "run_state (co_run c p) s = (Panicked e, s')"
  shows "\<not> gateway_params_ok p \<and> c \<in> {docker_inspect, docker_logs, kubectl_get (gl_jerr gl),
    kubectl_describe, kubectl_logs, journal_tail}"
proof
  have wl: "default_table (pr_wl s)" using assms(1) by (auto simp: default_table_def)
  note calm = calmD [OF _ refl assms(3)]
  show "\<not> gateway_params_ok p"
  proof
    assume ok: "gateway_params_ok p"
    have "calm (pr_wl s) (co_run c p)"
      using assms(2) calm_container [OF wl ok] calm_k8s [OF wl ok] calm_systemd [OF wl ok]
        calm_net_listen [OF wl] calm_net_ifaces [OF wl] calm_file_read calm_disk_usage
        calm_process_list calm_net_connect calm_dns_resolve calm_system_info
      by (auto simp: compiled_in_def collector_defs)
    with calm show False by blast
  qed
  have fixed: "calm (pr_wl s) (docker_ps_run p)" "calm (pr_wl s) (systemd_units_run (gl_jerr gl) p)"
    unfolding docker_ps_run_def systemd_units_run_def
    using wl by (auto intro!: calm_run_intros split: prod.splits)
  show "c \<in> {docker_inspect, docker_logs, kubectl_get (gl_jerr gl), kubectl_describe, kubectl_logs, journal_tail}"
  proof (rule ccontr)
    assume "\<not> ?thesis"
    then have "calm (pr_wl s) (co_run c p)"
      using assms(2) fixed calm_net_listen [OF wl] calm_net_ifaces [OF wl] calm_file_read calm_disk_usage
        calm_process_list calm_net_connect calm_dns_resolve calm_system_info
      by (auto simp: compiled_in_def docker_ps_def disk_usage_def file_read_def dns_resolve_def
          net_connect_def net_ifaces_def net_listen_def process_list_def system_info_def systemd_units_def)
    with calm show False by blast
  qed
qed

end
