(* ===== verification/Agent_Runner.thy ===== *)
theory Agent_Runner
  imports Agent_Registry Hub_Runner
begin

text \<open>
  \<open>agent/runner/runner.go\<close>: a request of the hub is taken by a goroutine that waits for a place
  among the bounded number of running collectors, claims its request id, calls the collector
  with a recovery around it, and sends the artifacts in chunks and then one result. The state
  is that of the goroutines, so their steps can interleave: waiting for a place, claiming the
  id under the lock, and finishing are separate steps. \<open>ar_sent\<close> is the history of what was
  handed to the stream, with the goroutine that did it; no operation reads it.
\<close>

section \<open>Messages\<close>

record wire_hint =
  wh_severity :: string
  wh_code :: string
  wh_message :: string
  wh_evidence :: bytes

record wire_result =
  wr_id :: string
  wr_status :: wire_status
  wr_data :: jtext
  wr_error :: string
  wr_refs :: "string list"
  wr_hints :: "wire_hint list"
  wr_stderr :: string
  wr_exit :: int
  wr_duration :: int

record sent_chunk = chunk +
  ck_offset :: int

datatype probe_msg = AgentResult wire_result | AgentChunk sent_chunk

text \<open>
  What is used of the library as it is: the text of an error, of a duration and of a JSON
  value, and base64.
\<close>

record textlib =
  tl_error :: "cerr \<Rightarrow> string"
  tl_duration :: "int \<Rightarrow> string"
  tl_json :: "json \<Rightarrow> bytes"
  tl_base64 :: "bytes \<Rightarrow> string"

section \<open>Calling the collector\<close>

definition invoke :: "registry \<Rightarrow> collect_req \<Rightarrow> (probe_result \<times> cerr option) pm" where
  "invoke g req =
     (case Get_collector (rq_collector req) g of
        None \<Rightarrow> return (no_result, Some (Quoting [(''collector '', rq_collector req)] '' not registered''))
      | Some c \<Rightarrow> do {
          r \<leftarrow> co_run c (rq_params req);
          return (case r of
              Got x \<Rightarrow> (x, None)
            | Failed e \<Rightarrow> (no_result, Some e)
            | Panicked p \<Rightarrow> (no_result, Some (Wrap ''collector panic'' (PanicErr p))))
        })"

definition hintsToProto :: "textlib \<Rightarrow> probe_hint list \<Rightarrow> wire_hint list" where
  "hintsToProto lib hs =
     map (\<lambda>h. \<lparr>wh_severity = hn_severity h, wh_code = hn_code h, wh_message = hn_message h,
                wh_evidence = tl_json lib (hn_evidence h)\<rparr>) hs"

definition request_timeout :: "int \<Rightarrow> collect_req \<Rightarrow> int" where
  "request_timeout dflt req = (let t = rq_timeout req * 10 ^ 9 in if t \<le> 0 then dflt else t)"

text \<open>The result message, before the names of the artifacts are known.\<close>

definition result_msg :: "textlib \<Rightarrow> int \<Rightarrow> collect_req \<Rightarrow> int \<Rightarrow> probe_result \<times> cerr option \<Rightarrow> wire_result" where
  "result_msg lib timeout req dur out =
     (case out of (res, err) \<Rightarrow>
        let pb = \<lparr>wr_id = rq_id req, wr_status = StUnspecified, wr_data = jempty, wr_error = [], wr_refs = [],
                  wr_hints = [], wr_stderr = [], wr_exit = 0, wr_duration = dur\<rparr>
        in case err of
             None \<Rightarrow> pb\<lparr>wr_status := StOk, wr_data := JText (cr_data res), wr_hints := hintsToProto lib (cr_hints res),
                        wr_stderr := cr_stderr res, wr_exit := cr_exit res\<rparr>
           | Some e \<Rightarrow>
               if root_cause e = deadline_exceeded
               then pb\<lparr>wr_status := StTimeout, wr_error := ''timeout after '' @ tl_duration lib timeout\<rparr>
               else if root_cause e = context_canceled
               then pb\<lparr>wr_status := StCanceled, wr_error := ''canceled''\<rparr>
               else pb\<lparr>wr_status := StError, wr_error := tl_error lib e\<rparr>)"

section \<open>Artifacts in chunks\<close>

definition artifactChunkSize :: nat where
  "artifactChunkSize = 64 * 1024"

definition artifact_id :: "string \<Rightarrow> probe_artifact \<Rightarrow> string" where
  "artifact_id rid art = rid @ ''/'' @ at_name art"

definition chunk_of :: "string \<Rightarrow> probe_artifact \<Rightarrow> int \<Rightarrow> bytes \<Rightarrow> bool \<Rightarrow> sent_chunk" where
  "chunk_of rid art off d lst =
     \<lparr>ck_id = rid, ck_artifact = artifact_id rid art, ck_name = at_name art, ck_mime = at_mime art,
      ck_data = d, ck_last = lst, ck_offset = off\<rparr>"

function chunk_loop :: "string \<Rightarrow> probe_artifact \<Rightarrow> int \<Rightarrow> bytes \<Rightarrow> sent_chunk list" where
  "chunk_loop rid art off body =
     (if body = [] then []
      else (let n = min artifactChunkSize (length body)
            in chunk_of rid art off (take n body) (n = length body)
               # chunk_loop rid art (off + int n) (drop n body)))"
  by pat_completeness auto

termination
  by (relation "measure (\<lambda>(rid, art, off, body). length body)") (auto simp: artifactChunkSize_def min_def)

declare chunk_loop.simps [simp del]

definition streamArtifact :: "string \<Rightarrow> probe_artifact \<Rightarrow> sent_chunk list" where
  "streamArtifact rid art =
     (if at_body art = [] then [chunk_of rid art 0 [] True] else chunk_loop rid art 0 (at_body art))"

text \<open>
  Sending, by a schedule of the stream's answers (a missing answer is success): what was handed
  over up to the first failure, whether all went well, and the answers left.
\<close>

fun send_each :: "bool list \<Rightarrow> 'm list \<Rightarrow> 'm list \<times> bool \<times> bool list" where
  "send_each oks [] = ([], True, oks)"
| "send_each oks (m # ms) =
     (if oks \<noteq> [] \<and> \<not> hd oks then ([m], False, tl oks)
      else (case send_each (tl oks) ms of (sent, ok, rest) \<Rightarrow> (m # sent, ok, rest)))"

fun send_artifacts ::
  "string \<Rightarrow> bool list \<Rightarrow> probe_artifact list \<Rightarrow> sent_chunk list \<times> string list \<times> bool list" where
  "send_artifacts rid oks [] = ([], [], oks)"
| "send_artifacts rid oks (art # arts) =
     (case send_each oks (streamArtifact rid art) of (sent, ok, oks1) \<Rightarrow>
      case send_artifacts rid oks1 arts of (rest, refs, oks2) \<Rightarrow>
        (sent @ rest, (if ok then [at_name art] else []) @ refs, oks2))"

text \<open>Everything the goroutine hands to the stream once the collector has returned.\<close>

definition finish_msgs ::
  "textlib \<Rightarrow> int \<Rightarrow> collect_req \<Rightarrow> int \<Rightarrow> bool list \<Rightarrow> probe_result \<times> cerr option \<Rightarrow> probe_msg list" where
  "finish_msgs lib timeout req dur oks out =
     (case send_artifacts (rq_id req) oks (cr_artifacts (fst out)) of (sent, refs, _) \<Rightarrow>
        map AgentChunk sent @ [AgentResult ((result_msg lib timeout req dur out)\<lparr>wr_refs := refs\<rparr>)])"

definition duplicate_msg :: "collect_req \<Rightarrow> probe_msg" where
  "duplicate_msg req = AgentResult
     \<lparr>wr_id = rq_id req, wr_status = StError, wr_data = jempty,
      wr_error = ''duplicate request_id '' @ em_dash @ '' already in flight'', wr_refs = [], wr_hints = [],
      wr_stderr = [], wr_exit = 0, wr_duration = 0\<rparr>"

section \<open>The goroutines\<close>

text \<open>
  Waiting for a place, holding one before the claim, running the collector, having answered
  (the place and the id are still taken until the deferred calls), done, or gone with the
  session before it got a place.
\<close>

datatype job_phase = Queued | Holding | Running | Answered | Over | Abandoned

record job =
  jb_req :: collect_req
  jb_phase :: job_phase

record agent_runner =
  ar_cap :: nat
  ar_default :: int
  ar_jobs :: "job list"
  ar_running :: "(string \<times> nat) list"
  ar_cancelled :: "nat list"
  ar_sent :: "(nat \<times> probe_msg) list"

definition New_runner :: "int \<Rightarrow> int \<Rightarrow> agent_runner" where
  "New_runner maxConcurrent dflt =
     \<lparr>ar_cap = (if maxConcurrent < 1 then 1 else nat maxConcurrent), ar_default = dflt, ar_jobs = [],
      ar_running = [], ar_cancelled = [], ar_sent = []\<rparr>"

definition in_phase :: "agent_runner \<Rightarrow> nat \<Rightarrow> job_phase \<Rightarrow> bool" where
  "in_phase r n ph = (n < length (ar_jobs r) \<and> jb_phase (ar_jobs r ! n) = ph)"

definition set_phase :: "nat \<Rightarrow> job_phase \<Rightarrow> agent_runner \<Rightarrow> agent_runner" where
  "set_phase n ph r = r\<lparr>ar_jobs := (ar_jobs r)[n := (ar_jobs r ! n)\<lparr>jb_phase := ph\<rparr>]\<rparr>"

text \<open>The places taken in the semaphore's channel.\<close>

definition has_place :: "job_phase \<Rightarrow> bool" where
  "has_place ph = (ph = Holding \<or> ph = Running \<or> ph = Answered)"

definition in_flight :: "agent_runner \<Rightarrow> nat" where
  "in_flight r = length (filter (\<lambda>j. has_place (jb_phase j)) (ar_jobs r))"

definition Handle_collect :: "collect_req \<Rightarrow> agent_runner \<Rightarrow> agent_runner" where
  "Handle_collect req r = r\<lparr>ar_jobs := ar_jobs r @ [\<lparr>jb_req = req, jb_phase = Queued\<rparr>]\<rparr>"

definition acquire_place :: "nat \<Rightarrow> agent_runner \<Rightarrow> agent_runner option" where
  "acquire_place n r =
     (if in_phase r n Queued \<and> in_flight r < ar_cap r then Some (set_phase n Holding r) else None)"

text \<open>The other branch of the \<open>select\<close>: the session ended while the goroutine waited.\<close>

definition abandon :: "nat \<Rightarrow> agent_runner \<Rightarrow> agent_runner option" where
  "abandon n r = (if in_phase r n Queued then Some (set_phase n Abandoned r) else None)"

text \<open>
  The part of \<open>run\<close> under the lock: a request id that is in flight is answered at once, and
  that goroutine is done.
\<close>

definition claim :: "nat \<Rightarrow> agent_runner \<Rightarrow> agent_runner option" where
  "claim n r =
     (if \<not> in_phase r n Holding then None
      else (let req = jb_req (ar_jobs r ! n)
            in if map_of (ar_running r) (rq_id req) \<noteq> None
               then Some ((set_phase n Over r)\<lparr>ar_sent := ar_sent r @ [(n, duplicate_msg req)]\<rparr>)
               else Some ((set_phase n Running r)\<lparr>ar_running := map_put (rq_id req) n (ar_running r)\<rparr>)))"

text \<open>The collector has returned \<open>out\<close> after \<open>dur\<close> milliseconds: everything is sent.\<close>

definition respond ::
  "textlib \<Rightarrow> int \<Rightarrow> bool list \<Rightarrow> probe_result \<times> cerr option \<Rightarrow> nat \<Rightarrow> agent_runner \<Rightarrow> agent_runner option" where
  "respond lib dur oks out n r =
     (if \<not> in_phase r n Running then None
      else (let req = jb_req (ar_jobs r ! n)
            in Some ((set_phase n Answered r)
                 \<lparr>ar_sent := ar_sent r
                    @ map (Pair n) (finish_msgs lib (request_timeout (ar_default r) req) req dur oks out)\<rparr>)))"

text \<open>The deferred calls: the id is free again, then the place.\<close>

definition leave :: "nat \<Rightarrow> agent_runner \<Rightarrow> agent_runner option" where
  "leave n r =
     (if \<not> in_phase r n Answered then None
      else Some ((set_phase n Over r)
             \<lparr>ar_running := map_del (rq_id (jb_req (ar_jobs r ! n))) (ar_running r)\<rparr>))"

definition Cancel_request :: "string \<Rightarrow> agent_runner \<Rightarrow> bool \<times> agent_runner" where
  "Cancel_request rid r =
     (case map_of (ar_running r) rid of
        None \<Rightarrow> (False, r)
      | Some n \<Rightarrow> (True, r\<lparr>ar_cancelled := n # ar_cancelled r\<rparr>))"

text \<open>Any interleaving of the goroutines, with whatever the collectors return and the stream answers.\<close>

inductive runner_step :: "textlib \<Rightarrow> agent_runner \<Rightarrow> agent_runner \<Rightarrow> bool" for lib where
  arrive: "runner_step lib r (Handle_collect req r)"
| acquire: "acquire_place n r = Some r' \<Longrightarrow> runner_step lib r r'"
| give_up: "abandon n r = Some r' \<Longrightarrow> runner_step lib r r'"
| take_id: "claim n r = Some r' \<Longrightarrow> runner_step lib r r'"
| reply: "respond lib dur oks out n r = Some r' \<Longrightarrow> runner_step lib r r'"
| depart: "leave n r = Some r' \<Longrightarrow> runner_step lib r r'"
| stop: "Cancel_request rid r = (ok, r') \<Longrightarrow> runner_step lib r r'"


section \<open>The invariant of the goroutines\<close>

fun is_reply :: "probe_msg \<Rightarrow> bool" where
  "is_reply (AgentResult w) = True"
| "is_reply (AgentChunk c) = False"

fun msg_request :: "probe_msg \<Rightarrow> string" where
  "msg_request (AgentResult w) = wr_id w"
| "msg_request (AgentChunk c) = ck_id c"

definition replies :: "(nat \<times> probe_msg) list \<Rightarrow> nat \<Rightarrow> probe_msg list" where
  "replies sent n = filter is_reply (map snd (filter (\<lambda>p. fst p = n) sent))"

definition busy :: "job \<Rightarrow> bool" where
  "busy j = (jb_phase j = Running \<or> jb_phase j = Answered)"

definition answered :: "job \<Rightarrow> bool" where
  "answered j = (jb_phase j = Answered \<or> jb_phase j = Over)"

definition places_ok :: "agent_runner \<Rightarrow> bool" where
  "places_ok r = (in_flight r \<le> ar_cap r \<and> 0 < ar_cap r)"

text \<open>The table of running requests holds exactly the goroutines past their claim, by request id.\<close>

definition table_ok :: "agent_runner \<Rightarrow> bool" where
  "table_ok r =
     (distinct (map fst (ar_running r))
      \<and> (\<forall>rid n. (rid, n) \<in> set (ar_running r) \<longleftrightarrow>
            n < length (ar_jobs r) \<and> busy (ar_jobs r ! n) \<and> rq_id (jb_req (ar_jobs r ! n)) = rid))"

definition replies_ok :: "agent_runner \<Rightarrow> bool" where
  "replies_ok r =
     (\<forall>n. map msg_request (replies (ar_sent r) n) =
            (if n < length (ar_jobs r) \<and> answered (ar_jobs r ! n) then [rq_id (jb_req (ar_jobs r ! n))] else []))"

definition runner_ok :: "agent_runner \<Rightarrow> bool" where
  "runner_ok r = (places_ok r \<and> table_ok r \<and> replies_ok r)"

lemma replies_append [simp]: "replies (xs @ ys) n = replies xs n @ replies ys n"
  by (simp add: replies_def)

lemma replies_Nil [simp]: "replies [] n = []"
  by (simp add: replies_def)

lemma replies_same: "replies (map (Pair k) ms) n = (if k = n then filter is_reply ms else [])"
  by (induction ms) (auto simp: replies_def)

lemma replies_finish:
  "filter is_reply (finish_msgs lib t req dur oks out) =
     [AgentResult ((result_msg lib t req dur out)\<lparr>wr_refs := fst (snd (send_artifacts (rq_id req) oks (cr_artifacts (fst out))))\<rparr>)]"
  by (simp add: finish_msgs_def split_def filter_map comp_def)

lemma wr_id_result_msg [simp]: "wr_id (result_msg lib t req dur out) = rq_id req"
  by (simp add: result_msg_def Let_def split: prod.splits option.splits)

lemma set_phase_simps [simp]:
  "ar_cap (set_phase n ph r) = ar_cap r" "ar_default (set_phase n ph r) = ar_default r"
  "ar_running (set_phase n ph r) = ar_running r" "ar_sent (set_phase n ph r) = ar_sent r"
  "ar_cancelled (set_phase n ph r) = ar_cancelled r"
  "length (ar_jobs (set_phase n ph r)) = length (ar_jobs r)"
  by (simp_all add: set_phase_def)

lemma jobs_set_phase [simp]:
  "n < length (ar_jobs r) \<Longrightarrow>
     ar_jobs (set_phase n ph r) ! k = (if k = n then (ar_jobs r ! n)\<lparr>jb_phase := ph\<rparr> else ar_jobs r ! k)"
  by (simp add: set_phase_def nth_list_update)

lemma count_update:
  "n < length xs \<Longrightarrow> length (filter P (xs[n := y])) + (if P (xs ! n) then 1 else 0)
     = length (filter P xs) + (if P y then 1 else 0)"
proof (induction xs arbitrary: n)
  case (Cons x xs)
  show ?case
  proof (cases n)
    case (Suc k)
    with Cons.prems Cons.IH [of k] show ?thesis by simp
  qed simp
qed simp

lemma in_flight_set_phase:
  "in_phase r n ph0 \<Longrightarrow> in_flight (set_phase n ph r) + (if has_place ph0 then 1 else 0)
     = in_flight r + (if has_place ph then 1 else 0)"
  using count_update [of n "ar_jobs r" "\<lambda>j. has_place (jb_phase j)"]
  by (auto simp: in_flight_def set_phase_def in_phase_def)

lemmas phase_simps = in_phase_def has_place_def busy_def answered_def


lemma runner_ok_new: "runner_ok (New_runner m d)"
  by (simp add: runner_ok_def places_ok_def table_ok_def replies_ok_def New_runner_def in_flight_def)

lemma runner_ok_arrive: "runner_ok r \<Longrightarrow> runner_ok (Handle_collect req r)"
  unfolding runner_ok_def
proof (intro conjI; (elim conjE)?)
  assume "table_ok r"
  then show "table_ok (Handle_collect req r)"
    by (auto simp: table_ok_def Handle_collect_def nth_append busy_def)
next
  assume "replies_ok r"
  then show "replies_ok (Handle_collect req r)"
    by (auto simp: replies_ok_def Handle_collect_def nth_append answered_def)
qed (simp add: places_ok_def Handle_collect_def in_flight_def has_place_def)

lemma in_phase_length: "in_phase r n ph \<Longrightarrow> n < length (ar_jobs r)"
  by (simp add: in_phase_def)

lemma table_keep:
  assumes "table_ok r" and "in_phase r n ph0"
    and "(ph0 = Running \<or> ph0 = Answered) = (ph = Running \<or> ph = Answered)"
  shows "table_ok (set_phase n ph r)"
  using assms by (auto simp: table_ok_def phase_simps)

lemma replies_keep:
  assumes "replies_ok r" and "in_phase r n ph0"
    and "(ph0 = Answered \<or> ph0 = Over) = (ph = Answered \<or> ph = Over)"
  shows "replies_ok (set_phase n ph r)"
  using assms by (auto simp: replies_ok_def phase_simps)

lemma runner_ok_acquire: "runner_ok r \<Longrightarrow> acquire_place n r = Some r' \<Longrightarrow> runner_ok r'"
  using in_flight_set_phase [of r n Queued Holding]
  by (auto simp: runner_ok_def acquire_place_def places_ok_def has_place_def split: if_splits
      intro: table_keep replies_keep)

lemma runner_ok_abandon: "runner_ok r \<Longrightarrow> abandon n r = Some r' \<Longrightarrow> runner_ok r'"
  using in_flight_set_phase [of r n Queued Abandoned]
  by (auto simp: runner_ok_def abandon_def places_ok_def has_place_def split: if_splits
      intro: table_keep replies_keep)

lemma places_le:
  assumes "places_ok r" and "in_phase r n ph0" and "has_place ph0"
  shows "places_ok (set_phase n ph r)"
  using assms in_flight_set_phase [OF assms(2), of ph] by (auto simp: places_ok_def split: if_splits)

lemma replies_add:
  assumes "replies_ok r" and "in_phase r n ph0" and "ph0 \<noteq> Answered" and "ph0 \<noteq> Over"
    and "ph = Answered \<or> ph = Over"
    and "map msg_request (filter is_reply ms) = [rq_id (jb_req (ar_jobs r ! n))]"
  shows "replies_ok ((set_phase n ph r)\<lparr>ar_sent := ar_sent r @ map (Pair n) ms\<rparr>)"
  using assms by (auto simp: replies_ok_def phase_simps replies_same)

lemma runner_ok_claim:
  assumes "runner_ok r" and "claim n r = Some r'"
  shows "runner_ok r'"
proof -
  let ?req = "jb_req (ar_jobs r ! n)"
  have h: "in_phase r n Holding" using assms(2) by (simp add: claim_def split: if_splits)
  have ok: "places_ok r" "table_ok r" "replies_ok r" using assms(1) by (simp_all add: runner_ok_def)
  show ?thesis
  proof (cases "map_of (ar_running r) (rq_id ?req)")
    case None
    then have r': "r' = (set_phase n Running r)\<lparr>ar_running := map_put (rq_id ?req) n (ar_running r)\<rparr>"
      using assms(2) h by (simp add: claim_def Let_def)
    have "places_ok r'" using places_le [OF ok(1) h, of Running]
      by (simp add: r' places_ok_def in_flight_def has_place_def)
    moreover have "replies_ok r'" using replies_keep [OF ok(3) h, of Running]
      by (simp add: r' replies_ok_def)
    moreover have "table_ok r'"
      using ok(2) h None by (auto simp: r' table_ok_def phase_simps map_put_new map_of_eq_None_iff)
    ultimately show ?thesis by (simp add: runner_ok_def)
  next
    case (Some m)
    then have r': "r' = (set_phase n Over r)\<lparr>ar_sent := ar_sent r @ map (Pair n) [duplicate_msg ?req]\<rparr>"
      using assms(2) h by (simp add: claim_def Let_def)
    have "places_ok r'" using places_le [OF ok(1) h, of Over]
      by (simp add: r' places_ok_def in_flight_def has_place_def)
    moreover have "table_ok r'" using table_keep [OF ok(2) h, of Over] by (simp add: r' table_ok_def)
    moreover have "replies_ok r'" unfolding r'
      by (rule replies_add [OF ok(3) h]) (simp_all add: duplicate_msg_def)
    ultimately show ?thesis by (simp add: runner_ok_def)
  qed
qed

lemma runner_ok_respond:
  assumes "runner_ok r" and "respond lib dur oks out n r = Some r'"
  shows "runner_ok r'"
proof -
  have h: "in_phase r n Running" using assms(2) by (simp add: respond_def split: if_splits)
  have ok: "places_ok r" "table_ok r" "replies_ok r" using assms(1) by (simp_all add: runner_ok_def)
  let ?req = "jb_req (ar_jobs r ! n)"
  let ?ms = "finish_msgs lib (request_timeout (ar_default r) ?req) ?req dur oks out"
  have r': "r' = (set_phase n Answered r)\<lparr>ar_sent := ar_sent r @ map (Pair n) ?ms\<rparr>"
    using assms(2) h by (simp add: respond_def Let_def)
  have "places_ok r'" using places_le [OF ok(1) h, of Answered]
    by (simp add: r' places_ok_def in_flight_def has_place_def)
  moreover have "table_ok r'" using table_keep [OF ok(2) h, of Answered] by (simp add: r' table_ok_def)
  moreover have "replies_ok r'" unfolding r'
    by (rule replies_add [OF ok(3) h]) (simp_all add: replies_finish)
  ultimately show ?thesis by (simp add: runner_ok_def)
qed

lemma runner_ok_leave:
  assumes "runner_ok r" and "leave n r = Some r'"
  shows "runner_ok r'"
proof -
  have h: "in_phase r n Answered" using assms(2) by (simp add: leave_def split: if_splits)
  have ok: "places_ok r" "table_ok r" "replies_ok r" using assms(1) by (simp_all add: runner_ok_def)
  have r': "r' = (set_phase n Over r)\<lparr>ar_running := map_del (rq_id (jb_req (ar_jobs r ! n))) (ar_running r)\<rparr>"
    using assms(2) h by (simp add: leave_def)
  have "places_ok r'" using places_le [OF ok(1) h, of Over]
    by (simp add: r' places_ok_def in_flight_def has_place_def)
  moreover have "replies_ok r'" using replies_keep [OF ok(3) h, of Over] by (simp add: r' replies_ok_def)
  moreover have "table_ok r'"
  proof -
    have u: "k = n" if "(rq_id (jb_req (ar_jobs r ! n)), k) \<in> set (ar_running r)" for k
    proof -
      have "(rq_id (jb_req (ar_jobs r ! n)), n) \<in> set (ar_running r)"
        using ok(2) h by (simp add: table_ok_def phase_simps)
      with that ok(2) show ?thesis by (auto simp: table_ok_def dest: eq_key_imp_eq_value)
    qed
    show ?thesis using ok(2) h u
      by (auto simp: r' table_ok_def phase_simps set_map_del map_del_def distinct_map_filter)
  qed
  ultimately show ?thesis by (simp add: runner_ok_def)
qed

lemma runner_ok_cancel: "runner_ok r \<Longrightarrow> Cancel_request rid r = (ok, r') \<Longrightarrow> runner_ok r'"
proof -
  assume "runner_ok r" and "Cancel_request rid r = (ok, r')"
  then have "r' = r \<or> (\<exists>x. r' = r\<lparr>ar_cancelled := x\<rparr>)"
    by (auto simp: Cancel_request_def split: option.splits)
  then show ?thesis
  proof (elim disjE exE)
    fix x assume "r' = r\<lparr>ar_cancelled := x\<rparr>"
    with \<open>runner_ok r\<close> show ?thesis
      by (simp add: runner_ok_def places_ok_def table_ok_def replies_ok_def in_flight_def)
  qed (use \<open>runner_ok r\<close> in simp)
qed

lemma runner_ok_step: "runner_step lib r r' \<Longrightarrow> runner_ok r \<Longrightarrow> runner_ok r'"
  by (induction rule: runner_step.induct)
    (auto intro: runner_ok_arrive runner_ok_acquire runner_ok_abandon runner_ok_claim runner_ok_respond
      runner_ok_leave runner_ok_cancel)

lemma runner_ok_steps: "(runner_step lib)\<^sup>*\<^sup>* r r' \<Longrightarrow> runner_ok r \<Longrightarrow> runner_ok r'"
  by (induction rule: rtranclp_induct) (auto intro: runner_ok_step)

section \<open>What the invariant gives\<close>

lemma claim_cap: "claim n r = Some r' \<Longrightarrow> ar_cap r' = ar_cap r"
  by (cases "in_phase r n Holding"; cases "map_of (ar_running r) (rq_id (jb_req (ar_jobs r ! n)))")
    (auto simp: claim_def Let_def)

lemma respond_cap: "respond lib dur oks out n r = Some r' \<Longrightarrow> ar_cap r' = ar_cap r"
  by (cases "in_phase r n Running") (auto simp: respond_def Let_def)

lemma runner_cap_step: "runner_step lib r r' \<Longrightarrow> ar_cap r' = ar_cap r"
proof (erule runner_step.cases)
  fix r1 rid ok r1' assume "r = r1" "r' = r1'" "Cancel_request rid r1 = (ok, r1')"
  then show ?thesis by (cases "map_of (ar_running r1) rid") (auto simp: Cancel_request_def)
qed (auto simp: Handle_collect_def acquire_place_def abandon_def leave_def claim_cap respond_cap split: if_splits)

lemma runner_cap_steps: "(runner_step lib)\<^sup>*\<^sup>* r r' \<Longrightarrow> ar_cap r' = ar_cap r"
  by (induction rule: rtranclp_induct) (auto dest: runner_cap_step)

lemma busy_in_flight: "length (filter busy (ar_jobs r)) \<le> in_flight r"
proof -
  have "length (filter busy js) \<le> length (filter (\<lambda>j. has_place (jb_phase j)) js)" for js
    by (induction js) (auto simp: busy_def has_place_def)
  then show ?thesis by (simp add: in_flight_def)
qed

lemma distinct_filter_map_nth:
  assumes "\<And>i k. i < length xs \<Longrightarrow> k < length xs \<Longrightarrow> P (xs ! i) \<Longrightarrow> P (xs ! k) \<Longrightarrow> f (xs ! i) = f (xs ! k) \<Longrightarrow> i = k"
  shows "distinct (map f (filter P xs))"
  using assms
proof (induction xs)
  case (Cons x xs)
  have "f x \<notin> f ` {y \<in> set xs. P y}" if "P x"
  proof
    assume "f x \<in> f ` {y \<in> set xs. P y}"
    then obtain k where "k < length xs" "P (xs ! k)" "f x = f (xs ! k)" by (auto simp: in_set_conv_nth)
    with Cons.prems [of 0 "Suc k"] that show False by simp
  qed
  moreover have "distinct (map f (filter P xs))"
    by (rule Cons.IH) (use Cons.prems [of "Suc _" "Suc _"] in auto)
  ultimately show ?case by simp
qed simp

lemma busy_distinct: "table_ok r \<Longrightarrow> distinct (map (\<lambda>j. rq_id (jb_req j)) (filter busy (ar_jobs r)))"
proof (rule distinct_filter_map_nth)
  fix i k assume t: "table_ok r" and "i < length (ar_jobs r)" "k < length (ar_jobs r)"
    "busy (ar_jobs r ! i)" "busy (ar_jobs r ! k)" and e: "rq_id (jb_req (ar_jobs r ! i)) = rq_id (jb_req (ar_jobs r ! k))"
  then have "(rq_id (jb_req (ar_jobs r ! i)), i) \<in> set (ar_running r)"
    "(rq_id (jb_req (ar_jobs r ! i)), k) \<in> set (ar_running r)" by (auto simp: table_ok_def)
  with t show "i = k" by (auto simp: table_ok_def dest: eq_key_imp_eq_value)
qed

lemma busy_table:
  assumes "table_ok r"
  shows "fst ` set (ar_running r) = (\<lambda>j. rq_id (jb_req j)) ` set (filter busy (ar_jobs r))" (is "?L = ?R")
proof (rule set_eqI)
  fix k
  have "k \<in> ?L \<longleftrightarrow> (\<exists>n. (k, n) \<in> set (ar_running r))" by force
  also have "\<dots> \<longleftrightarrow> (\<exists>n < length (ar_jobs r). busy (ar_jobs r ! n) \<and> rq_id (jb_req (ar_jobs r ! n)) = k)"
    using assms by (simp add: table_ok_def)
  also have "\<dots> \<longleftrightarrow> k \<in> ?R" by (auto simp: in_set_conv_nth image_iff)
  finally show "k \<in> ?L \<longleftrightarrow> k \<in> ?R" .
qed

text \<open>
  C21: Whatever requests arrive, however their goroutines interleave and whatever the collectors
  return or the stream refuses, at most the configured number of collectors run at once, two
  collectors that run at the same time never have the same request id, the table that \<open>Cancel\<close>
  reads names exactly the running ones, and a goroutine that is through has sent one result,
  for its own request; one that is not has sent none.
\<close>
theorem agent_runner_invariant:
  assumes "(runner_step lib)\<^sup>*\<^sup>* (New_runner maxc dflt) r"
  shows "length (filter busy (ar_jobs r)) \<le> nat (max 1 maxc)
    \<and> distinct (map (\<lambda>j. rq_id (jb_req j)) (filter busy (ar_jobs r)))
    \<and> fst ` set (ar_running r) = (\<lambda>j. rq_id (jb_req j)) ` set (filter busy (ar_jobs r))
    \<and> map msg_request (replies (ar_sent r) n) =
        (if n < length (ar_jobs r) \<and> answered (ar_jobs r ! n) then [rq_id (jb_req (ar_jobs r ! n))] else [])"
proof -
  have ok: "runner_ok r" using runner_ok_steps [OF assms runner_ok_new] .
  have "ar_cap r = nat (max 1 maxc)" using runner_cap_steps [OF assms] by (simp add: New_runner_def)
  then have "length (filter busy (ar_jobs r)) \<le> nat (max 1 maxc)"
    using ok busy_in_flight [of r] by (simp add: runner_ok_def places_ok_def)
  with ok show ?thesis using busy_distinct [of r] busy_table [of r]
    by (simp add: runner_ok_def replies_ok_def)
qed

section \<open>Progress\<close>

text \<open>The steps a goroutine has left, and the step it is ready for.\<close>

fun steps_left :: "job_phase \<Rightarrow> nat" where
  "steps_left Queued = 4"
| "steps_left Holding = 3"
| "steps_left Running = 2"
| "steps_left Answered = 1"
| "steps_left Over = 0"
| "steps_left Abandoned = 0"

definition advance ::
  "textlib \<Rightarrow> (collect_req \<Rightarrow> probe_result \<times> cerr option) \<Rightarrow> nat \<Rightarrow> agent_runner \<Rightarrow> agent_runner option" where
  "advance lib out n r =
     (if length (ar_jobs r) \<le> n then None
      else (case jb_phase (ar_jobs r ! n) of
              Queued \<Rightarrow> acquire_place n r
            | Holding \<Rightarrow> claim n r
            | Running \<Rightarrow> respond lib 0 [] (out (jb_req (ar_jobs r ! n))) n r
            | Answered \<Rightarrow> leave n r
            | _ \<Rightarrow> None))"

definition work_left :: "agent_runner \<Rightarrow> nat" where
  "work_left r = sum_list (map (\<lambda>j. steps_left (jb_phase j)) (ar_jobs r))"

lemma advance_is_step: "advance lib out n r = Some r' \<Longrightarrow> runner_step lib r r'"
  by (auto simp: advance_def split: if_splits job_phase.splits intro: runner_step.intros)

lemma sum_update:
  "n < length xs \<Longrightarrow> sum_list (map f (xs[n := y])) + f (xs ! n) = sum_list (map f xs) + (f y :: nat)"
proof (induction xs arbitrary: n)
  case (Cons x xs)
  show ?case
  proof (cases n)
    case (Suc k)
    with Cons.prems Cons.IH [of k] show ?thesis by simp
  qed simp
qed simp

lemma work_set_phase:
  "n < length (ar_jobs r) \<Longrightarrow>
     work_left (set_phase n ph r) + steps_left (jb_phase (ar_jobs r ! n)) = work_left r + steps_left ph"
  using sum_update [of n "ar_jobs r" "\<lambda>j. steps_left (jb_phase j)"]
  by (simp add: work_left_def set_phase_def)

lemma work_left_upd [simp]:
  "work_left (r\<lparr>ar_sent := x\<rparr>) = work_left r" "work_left (r\<lparr>ar_running := y\<rparr>) = work_left r"
  by (simp_all add: work_left_def)

lemma advance_parts:
  assumes "advance lib out n r = Some r'"
  obtains ph where "n < length (ar_jobs r)" and "steps_left ph < steps_left (jb_phase (ar_jobs r ! n))"
    and "ar_jobs r' = ar_jobs (set_phase n ph r)"
proof -
  from assms have "n < length (ar_jobs r)" by (simp add: advance_def split: if_splits)
  with assms show thesis
    by (cases "jb_phase (ar_jobs r ! n)")
      (auto simp: advance_def acquire_place_def claim_def respond_def leave_def Let_def in_phase_def
        split: if_splits intro!: that)
qed

lemma advance_less: "advance lib out n r = Some r' \<Longrightarrow> work_left r' < work_left r"
proof (erule advance_parts)
  fix ph assume "n < length (ar_jobs r)" "steps_left ph < steps_left (jb_phase (ar_jobs r ! n))"
    and e: "ar_jobs r' = ar_jobs (set_phase n ph r)"
  moreover have "work_left r' = work_left (set_phase n ph r)" by (simp add: work_left_def e)
  ultimately show ?thesis using work_set_phase [of n r ph] by simp
qed

lemma advance_enabled:
  assumes "runner_ok r" and "0 < work_left r"
  shows "\<exists>n r'. advance lib out n r = Some r'"
proof (cases "in_flight r = 0")
  case True
  have "\<not> (\<forall>j \<in> set (ar_jobs r). steps_left (jb_phase j) = 0)"
  proof
    assume "\<forall>j \<in> set (ar_jobs r). steps_left (jb_phase j) = 0"
    then have "work_left r = 0" by (simp add: work_left_def)
    with assms(2) show False by simp
  qed
  then obtain n where n: "n < length (ar_jobs r)" "0 < steps_left (jb_phase (ar_jobs r ! n))"
    by (auto simp: in_set_conv_nth)
  with True have "jb_phase (ar_jobs r ! n) = Queued"
    by (cases "jb_phase (ar_jobs r ! n)") (auto simp: in_flight_def filter_empty_conv has_place_def)
  moreover have "0 < ar_cap r" using assms(1) by (simp add: runner_ok_def places_ok_def)
  ultimately have "advance lib out n r = Some (set_phase n Holding r)"
    using n(1) True by (simp add: advance_def acquire_place_def in_phase_def)
  then show ?thesis by blast
next
  case False
  then obtain n where "n < length (ar_jobs r)" "has_place (jb_phase (ar_jobs r ! n))"
    by (auto simp: in_flight_def filter_empty_conv in_set_conv_nth)
  then have "\<exists>r'. advance lib out n r = Some r'"
    by (auto simp: advance_def has_place_def claim_def respond_def leave_def in_phase_def Let_def)
  then show ?thesis by blast
qed

lemma requests_set_phase [simp]:
  "n < length (ar_jobs r) \<Longrightarrow> map jb_req (ar_jobs (set_phase n ph r)) = map jb_req (ar_jobs r)"
  by (simp add: set_phase_def map_update list_update_same_conv)

lemma advance_requests: "advance lib out n r = Some r' \<Longrightarrow> map jb_req (ar_jobs r') = map jb_req (ar_jobs r)"
  by (erule advance_parts) simp

lemma drained:
  assumes "runner_ok r" and "work_left r = 0"
  shows "in_flight r = 0" and "ar_running r = []"
proof -
  have "\<not> has_place (jb_phase j)" if "j \<in> set (ar_jobs r)" for j
    using assms(2) that by (cases "jb_phase j") (auto simp: work_left_def has_place_def)
  then show f: "in_flight r = 0" by (simp add: in_flight_def filter_empty_conv)
  then have "filter busy (ar_jobs r) = []" using busy_in_flight [of r] by simp
  then show "ar_running r = []" using busy_table [of r] assms(1) by (simp add: runner_ok_def)
qed


end
