(* ===== verification/Agent_Delivery.thy ===== *)
theory Agent_Delivery
  imports Agent_Runner Runner_Safety
begin

text \<open>
  From a collector's result to the hub's files: the chunks \<open>streamArtifact\<close> sends for an
  artifact, and what the hub's \<open>OnArtifact\<close> and \<open>OnResult\<close> make of what the agent's runner sends.
  A chunk or a result on the wire is the hub's view of the record (the hub reads no offset).
\<close>

section \<open>Chunks\<close>

lemma chunk_loop_Nil [simp]: "chunk_loop rid art off [] = []"
  by (subst chunk_loop.simps) simp

lemma chunk_loop_step:
  "body \<noteq> [] \<Longrightarrow> chunk_loop rid art off body =
     (let n = min artifactChunkSize (length body)
      in chunk_of rid art off (take n body) (n = length body) # chunk_loop rid art (off + int n) (drop n body))"
  by (subst chunk_loop.simps) simp

lemma chunk_of_simps [simp]:
  "ck_id (chunk_of rid art off d l) = rid" "ck_artifact (chunk_of rid art off d l) = artifact_id rid art"
  "ck_name (chunk_of rid art off d l) = at_name art" "ck_mime (chunk_of rid art off d l) = at_mime art"
  "ck_data (chunk_of rid art off d l) = d" "ck_last (chunk_of rid art off d l) = l"
  "ck_offset (chunk_of rid art off d l) = off"
  by (simp_all add: chunk_of_def)

lemma chunk_loop_parts:
  "concat (map ck_data (chunk_loop rid art off body)) = body
   \<and> list_all (\<lambda>c. ck_id c = rid \<and> ck_artifact c = artifact_id rid art \<and> ck_name c = at_name art
        \<and> ck_mime c = at_mime art \<and> ck_data c \<noteq> [] \<and> length (ck_data c) \<le> artifactChunkSize)
      (chunk_loop rid art off body)"
proof (induction rid art off body rule: chunk_loop.induct)
  case (1 rid art off body)
  show ?case
  proof (cases "body = []")
    case False
    let ?n = "min artifactChunkSize (length body)"
    have "take ?n body @ drop ?n body = body" by simp
    moreover have "take ?n body \<noteq> []" using False by (simp add: artifactChunkSize_def)
    moreover have "length (take ?n body) \<le> artifactChunkSize" by simp
    ultimately show ?thesis using "1.IH" [OF False refl] False
      by (simp add: chunk_loop_step Let_def del: append_take_drop_id take_eq_Nil length_take)
  qed simp
qed

lemma chunk_loop_last:
  "body \<noteq> [] \<Longrightarrow> \<exists>cs z. chunk_loop rid art off body = cs @ [z] \<and> list_all (\<lambda>c. \<not> ck_last c) cs \<and> ck_last z"
proof (induction rid art off body rule: chunk_loop.induct)
  case (1 rid art off body)
  let ?n = "min artifactChunkSize (length body)"
  show ?case
  proof (cases "?n = length body")
    case True
    with "1.prems" have "chunk_loop rid art off body = [] @ [chunk_of rid art off body True]"
      by (simp add: chunk_loop_step)
    then show ?thesis by fastforce
  next
    case False
    then have "drop ?n body \<noteq> []" by simp
    with "1.IH" [OF 1(2) refl] obtain cs z where
      "chunk_loop rid art (off + int ?n) (drop ?n body) = cs @ [z]" "list_all (\<lambda>c. \<not> ck_last c) cs" "ck_last z"
      by blast
    with False "1.prems" have "chunk_loop rid art off body = (chunk_of rid art off (take ?n body) False # cs) @ [z]"
      "list_all (\<lambda>c. \<not> ck_last c) (chunk_of rid art off (take ?n body) False # cs)"
      by (simp_all add: chunk_loop_step Let_def)
    with \<open>ck_last z\<close> show ?thesis by blast
  qed
qed

text \<open>The offset of a chunk is the number of bytes sent before it.\<close>

fun offsets_from :: "int \<Rightarrow> sent_chunk list \<Rightarrow> bool" where
  "offsets_from off [] = True"
| "offsets_from off (c # cs) = (ck_offset c = off \<and> offsets_from (off + int (length (ck_data c))) cs)"

lemma chunk_loop_offsets: "offsets_from off (chunk_loop rid art off body)"
proof (induction rid art off body rule: chunk_loop.induct)
  case (1 rid art off body)
  show ?case
  proof (cases "body = []")
    case False
    with "1.IH" [OF False refl] show ?thesis by (simp add: chunk_loop_step Let_def min.commute)
  qed simp
qed

lemma only_last_flagged:
  assumes "map p (cs @ [z]) = replicate n False @ [True]"
  shows "list_all (\<lambda>a. \<not> p a) cs" and "p z"
proof -
  have "map p cs = replicate n False" and "p z" using assms by auto
  then show "list_all (\<lambda>a. \<not> p a) cs"
    by (induction cs arbitrary: n) (auto simp: Cons_replicate_eq)
  show "p z" by fact
qed

lemma chunks_shape:
  "let cs = streamArtifact rid art
   in concat (map ck_data cs) = at_body art \<and> offsets_from 0 cs
      \<and> map ck_last cs = replicate (length cs - 1) False @ [True]
      \<and> list_all (\<lambda>c. ck_id c = rid \<and> ck_artifact c = artifact_id rid art \<and> ck_name c = at_name art
           \<and> length (ck_data c) \<le> artifactChunkSize) cs"
proof (cases "at_body art = []")
  case False
  obtain cs z where c: "chunk_loop rid art 0 (at_body art) = cs @ [z]" "list_all (\<lambda>c. \<not> ck_last c) cs" "ck_last z"
    using chunk_loop_last [OF False] by blast
  have "map ck_last cs = replicate (length cs) False" using c(2) by (induction cs) auto
  with c(3) have "map ck_last (cs @ [z]) = replicate (length (cs @ [z]) - 1) False @ [True]" by simp
  with False c(1) chunk_loop_parts [of rid art 0 "at_body art"] chunk_loop_offsets [of 0 rid art "at_body art"]
  show ?thesis by (auto simp: streamArtifact_def Let_def list_all_iff)
qed (simp add: streamArtifact_def Let_def)

text \<open>
  C38: An artifact of any size is sent as at least one chunk, of at most 64 KiB each, all naming
  the request and the artifact; their bytes in order are the artifact, each offset is the
  number of bytes sent before, and exactly the final chunk is flagged as the last.
\<close>
theorem artifact_chunks:
  "let cs = streamArtifact rid art
   in concat (map ck_data cs) = at_body art \<and> offsets_from 0 cs
      \<and> map ck_last cs = replicate (length cs - 1) False @ [True]
      \<and> list_all (\<lambda>c. ck_id c = rid \<and> ck_artifact c = artifact_id rid art \<and> ck_name c = at_name art
           \<and> length (ck_data c) \<le> artifactChunkSize) cs"
  by (rule chunks_shape)

section \<open>The hub's files\<close>

definition on_the_wire :: "sent_chunk \<Rightarrow> chunk" where
  "on_the_wire c = chunk.truncate c"

lemma on_the_wire_simps [simp]:
  "ck_id (on_the_wire c) = ck_id c" "ck_artifact (on_the_wire c) = ck_artifact c"
  "ck_name (on_the_wire c) = ck_name c" "ck_data (on_the_wire c) = ck_data c"
  "ck_last (on_the_wire c) = ck_last c"
  by (simp_all add: on_the_wire_def chunk.defs)

text \<open>What the chunks of one artifact leave alone: all but its file and its entry among the open ones.\<close>

definition art_frame ::
  "string \<Rightarrow> string \<times> string \<Rightarrow> 'z runner_scheme \<Rightarrow> 'z runner_scheme \<Rightarrow> bool" where
  "art_frame aid f s0 s =
     (s = s0\<lparr>files := files s, open_arts := open_arts s\<rparr>
      \<and> (\<forall>p. p \<noteq> f \<longrightarrow> file_get p (files s) = file_get p (files s0))
      \<and> (\<forall>a. a \<noteq> aid \<longrightarrow> map_of (open_arts s) a = map_of (open_arts s0) a)
      \<and> (\<forall>oa. map_of (open_arts s) aid = Some oa \<longrightarrow> oa_file oa = f))"

lemma file_get_put_other: "p \<noteq> q \<Longrightarrow> file_get p (file_put q c fs) = file_get p fs"
proof -
  assume "p \<noteq> q"
  then have "map_of (filter (\<lambda>x. fst x \<noteq> q) fs) p = map_of fs p" by (induction fs) auto
  with \<open>p \<noteq> q\<close> show ?thesis by (simp add: file_get_def file_put_def)
qed

lemma art_frame_refl:
  "map_of (open_arts s) aid = None \<Longrightarrow> art_frame aid f s s"
  by (simp add: art_frame_def)

lemma write_chunk_frame:
  assumes "art_frame (ck_artifact a) (oa_file oa) s0 s"
  shows "art_frame (ck_artifact a) (oa_file oa) s0 (write_chunk fe a oa s)"
proof -
  let ?t = "write_chunk fe a oa s"
  have s: "s = s0\<lparr>files := files s, open_arts := open_arts s\<rparr>"
    and k: "\<forall>p. p \<noteq> oa_file oa \<longrightarrow> file_get p (files s) = file_get p (files s0)"
      "\<forall>x. x \<noteq> ck_artifact a \<longrightarrow> map_of (open_arts s) x = map_of (open_arts s0) x"
      "\<forall>x. map_of (open_arts s) (ck_artifact a) = Some x \<longrightarrow> oa_file x = oa_file oa"
    using assms by (simp_all add: art_frame_def)
  have "?t = s0\<lparr>files := files ?t, open_arts := open_arts ?t\<rparr>"
    by (subst (1) s) (simp add: write_chunk_def Let_def)
  moreover have "\<forall>p. p \<noteq> oa_file oa \<longrightarrow> file_get p (files ?t) = file_get p (files s0)"
    using k(1) by (simp add: write_chunk_def Let_def file_get_put_other)
  moreover have "\<forall>x. x \<noteq> ck_artifact a \<longrightarrow> map_of (open_arts ?t) x = map_of (open_arts s0) x"
    using k(2) by (simp add: write_chunk_def Let_def lookup_simps)
  moreover have "\<forall>x. map_of (open_arts ?t) (ck_artifact a) = Some x \<longrightarrow> oa_file x = oa_file oa"
    using k(3) by (auto simp: write_chunk_def Let_def lookup_simps)
  ultimately show ?thesis unfolding art_frame_def by blast
qed

lemma OnArtifact_frame:
  assumes "(ck_id a, sanitize (ck_name a)) = f"
  shows "keeps (art_frame (ck_artifact a) f s0) (OnArtifact fe agent a)"
  unfolding OnArtifact_def
proof (rule keeps_modify)
  fix s assume fr: "art_frame (ck_artifact a) f s0 s"
  let ?oa = "\<lparr>oa_task = ck_id a, oa_name = ck_name a, oa_mime = ck_mime a, oa_file = f, oa_pos = 0\<rparr>"
  have new: "art_frame (ck_artifact a) f s0
      (s\<lparr>files := file_put f [] (files s), open_arts := map_put (ck_artifact a) ?oa (open_arts s)\<rparr>)"
  proof -
    have s: "s = s0\<lparr>files := files s, open_arts := open_arts s\<rparr>" using fr by (simp add: art_frame_def)
    have "s\<lparr>files := x, open_arts := y\<rparr> = s0\<lparr>files := x, open_arts := y\<rparr>" for x y
      by (subst s) simp
    then show ?thesis using fr by (simp add: art_frame_def file_get_put_other lookup_simps)
  qed
  show "art_frame (ck_artifact a) f s0
     (case map_of (pending s) (ck_id a) of
       None \<Rightarrow> s
     | Some p \<Rightarrow>
         if pd_host p \<noteq> agent then s
         else (case map_of (open_arts s) (ck_artifact a) of
                 Some oa \<Rightarrow> write_chunk fe a oa s
               | None \<Rightarrow>
                   (let f = (ck_id a, sanitize (ck_name a))
                    in if \<not> fs_mkdir fe (ck_id a) then s
                       else if \<not> create_ok fe f then s
                       else (let oa = \<lparr>oa_task = ck_id a, oa_name = ck_name a, oa_mime = ck_mime a,
                                       oa_file = f, oa_pos = 0\<rparr>
                             in write_chunk fe a oa
                                  (s\<lparr>files := file_put f [] (files s),
                                     open_arts := map_put (ck_artifact a) oa (open_arts s)\<rparr>)))))"
  proof (cases "map_of (open_arts s) (ck_artifact a)")
    case None
    with fr write_chunk_frame [of a ?oa s0 _ fe] new assms show ?thesis
      by (simp add: Let_def split: option.split)
  next
    case (Some oa)
    with fr have "oa_file oa = f" by (auto simp: art_frame_def)
    with Some fr write_chunk_frame [of a oa s0 s fe] show ?thesis by (simp split: option.split)
  qed
qed

lemma artifact_stored:
  assumes fe: "full_writes fe" "fs_mkdir fe tid" "create_ok fe (tid, sanitize (at_name art))"
    and s: "assigned agent tid s" "map_of (open_arts s) (artifact_id tid art) = None"
  shows "\<exists>s'. run_state (for_each (map on_the_wire (streamArtifact tid art)) (OnArtifact fe agent)) s = ((), s')
    \<and> file_get (tid, sanitize (at_name art)) (files s') = at_body art
    \<and> art_frame (artifact_id tid art) (tid, sanitize (at_name art)) s s'
    \<and> map_of (open_arts s') (artifact_id tid art) = None"
proof -
  let ?aid = "artifact_id tid art" and ?ws = "map on_the_wire (streamArtifact tid art)"
  have c: "concat (map ck_data ?ws) = at_body art"
    "map ck_last ?ws = replicate (length (streamArtifact tid art) - 1) False @ [True]"
    "list_all (\<lambda>a. ck_id a = tid \<and> ck_artifact a = ?aid \<and> ck_name a = at_name art) ?ws"
    using chunks_shape [of tid art] by (auto simp: Let_def comp_def list_all_iff)
  then have "?ws \<noteq> []" by auto
  then obtain cs z where w: "?ws = cs @ [z]" by (metis rev_exhaust)
  note l = only_last_flagged [OF c(2) [unfolded w]]
  from chunks_reassembled [OF fe s c(3) [unfolded w] l] obtain s' where
    s': "run_state (for_each ?ws (OnArtifact fe agent)) s = ((), s')"
      "file_get (tid, sanitize (at_name art)) (files s') = at_body art"
      "map_of (open_arts s') ?aid = None"
    using c(1) unfolding w by auto
  have "keeps (art_frame ?aid (tid, sanitize (at_name art)) s) (for_each ?ws (OnArtifact fe agent))"
  proof (rule keeps_for_each)
    fix a assume "a \<in> set ?ws"
    with c(3) have "ck_artifact a = ?aid" "(ck_id a, sanitize (ck_name a)) = (tid, sanitize (at_name art))"
      by (auto simp: list_all_iff)
    with OnArtifact_frame [OF this(2)] show "keeps (art_frame ?aid (tid, sanitize (at_name art)) s) (OnArtifact fe agent a)"
      by simp
  qed
  from keepsD [OF this art_frame_refl [OF s(2)]] s' show ?thesis by auto
qed

section \<open>A whole answer\<close>

text \<open>
  What the hub receives of a result: its hints, which the hub marshals as it stores them, so
  that the evidence bytes become a base64 string.
\<close>

definition hint_json :: "textlib \<Rightarrow> wire_hint \<Rightarrow> json" where
  "hint_json lib h = JObj
     (omit_str ''severity'' (wh_severity h) @ omit_str ''code'' (wh_code h) @ omit_str ''message'' (wh_message h)
      @ omit_str ''evidence_json'' (if wh_evidence h = [] then [] else tl_base64 lib (wh_evidence h)))"

definition received :: "textlib \<Rightarrow> wire_result \<Rightarrow> collect_result" where
  "received lib w =
     \<lparr>cs_id = wr_id w, cs_status = wr_status w, cs_data = wr_data w, cs_error = wr_error w,
      cs_hints = slice_json (hint_json lib) (wr_hints w), cs_stderr = wr_stderr w, cs_exit = wr_exit w,
      cs_duration = wr_duration w\<rparr>"

definition hub_receives :: "textlib \<Rightarrow> fs_env \<Rightarrow> string \<Rightarrow> string \<Rightarrow> probe_msg \<Rightarrow> ('z, unit) rm" where
  "hub_receives lib fe dir agent m =
     (case m of AgentResult w \<Rightarrow> OnResult dir agent (received lib w)
              | AgentChunk c \<Rightarrow> OnArtifact fe agent (on_the_wire c))"

lemma send_each_ok [simp]: "send_each [] ms = (ms, True, [])"
  by (induction ms) simp_all

lemma send_artifacts_ok: "send_artifacts rid [] arts = (concat (map (streamArtifact rid) arts), map at_name arts, [])"
  by (induction arts) simp_all

lemma for_each_append:
  "run_state (for_each (xs @ ys) f) s = (case run_state (for_each xs f) s of (_, t) \<Rightarrow> run_state (for_each ys f) t)"
  by (induction xs arbitrary: s) (simp_all split: prod.split)

lemma for_each_map: "for_each (map g xs) f = for_each xs (\<lambda>x. f (g x))"
  by (induction xs) simp_all

text \<open>The files hold the artifacts listed, and no artifact of the task but those to come is open.\<close>

definition stored_arts :: "string \<Rightarrow> probe_artifact list \<Rightarrow> 'z runner_scheme \<Rightarrow> bool" where
  "stored_arts tid arts s =
     list_all (\<lambda>art. file_get (tid, sanitize (at_name art)) (files s) = at_body art
        \<and> map_of (open_arts s) (artifact_id tid art) = None) arts"

lemma runner_two_updates:
  assumes "t = s\<lparr>files := files t, open_arts := open_arts t\<rparr>" and "u = t\<lparr>files := files u, open_arts := open_arts u\<rparr>"
  shows "u = s\<lparr>files := files u, open_arts := open_arts u\<rparr>"
  by (subst assms(2), subst assms(1)) simp

lemma assigned_view:
  "t = s\<lparr>files := files t, open_arts := open_arts t\<rparr> \<Longrightarrow> assigned agent tid t = assigned agent tid s"
  by (erule ssubst) (simp add: assigned_def)

lemma view_fields:
  assumes "t = s\<lparr>files := files t, open_arts := open_arts t\<rparr>"
  shows "tasks t = tasks s" and "faults t = faults s" and "clock t = clock s"
  by (subst assms, simp)+

lemma artifacts_stored:
  assumes fe: "full_writes fe" "fs_mkdir fe tid" "list_all (\<lambda>art. create_ok fe (tid, sanitize (at_name art))) arts"
    and d: "distinct (map (\<lambda>art. sanitize (at_name art)) arts)"
    and s: "assigned agent tid s" "list_all (\<lambda>art. map_of (open_arts s) (artifact_id tid art) = None) arts"
  shows "\<exists>s'. run_state (for_each (concat (map (streamArtifact tid) arts)) (\<lambda>c. OnArtifact fe agent (on_the_wire c))) s
      = ((), s') \<and> stored_arts tid arts s' \<and> s' = s\<lparr>files := files s', open_arts := open_arts s'\<rparr>
      \<and> (\<forall>p. p \<notin> (\<lambda>art. (tid, sanitize (at_name art))) ` set arts \<longrightarrow> file_get p (files s') = file_get p (files s))
      \<and> (\<forall>a. a \<notin> artifact_id tid ` set arts \<longrightarrow> map_of (open_arts s') a = map_of (open_arts s) a)"
  using fe(3) d s
proof (induction arts arbitrary: s)
  case (Cons art arts)
  let ?f = "(tid, sanitize (at_name art))" and ?aid = "artifact_id tid art"
  obtain s1 where s1: "run_state (for_each (map on_the_wire (streamArtifact tid art)) (OnArtifact fe agent)) s = ((), s1)"
    "file_get ?f (files s1) = at_body art" "art_frame ?aid ?f s s1" "map_of (open_arts s1) ?aid = None"
    using artifact_stored [OF fe(1,2), of art agent s] Cons.prems by auto
  have other: "artifact_id tid a \<noteq> ?aid" if "a \<in> set arts" for a
    using that Cons.prems(2) by (auto simp: artifact_id_def) (metis image_eqI)
  have "assigned agent tid s1"
    using Cons.prems(3) s1(3) assigned_view [of s1 s] unfolding art_frame_def by blast
  moreover have "list_all (\<lambda>a. map_of (open_arts s1) (artifact_id tid a) = None) arts"
    using Cons.prems(4) s1(3) other by (auto simp: art_frame_def list_all_iff)
  ultimately obtain s2 where s2:
    "run_state (for_each (concat (map (streamArtifact tid) arts)) (\<lambda>c. OnArtifact fe agent (on_the_wire c))) s1 = ((), s2)"
    "stored_arts tid arts s2" "s2 = s1\<lparr>files := files s2, open_arts := open_arts s2\<rparr>"
    "\<forall>p. p \<notin> (\<lambda>art. (tid, sanitize (at_name art))) ` set arts \<longrightarrow> file_get p (files s2) = file_get p (files s1)"
    "\<forall>a. a \<notin> artifact_id tid ` set arts \<longrightarrow> map_of (open_arts s2) a = map_of (open_arts s1) a"
    using Cons.IH [of s1] Cons.prems by auto
  have "run_state (for_each (concat (map (streamArtifact tid) (art # arts))) (\<lambda>c. OnArtifact fe agent (on_the_wire c))) s = ((), s2)"
    using s1(1) s2(1) by (simp add: for_each_append for_each_map)
  moreover
  have "?f \<notin> (\<lambda>art. (tid, sanitize (at_name art))) ` set arts" using Cons.prems(2) by auto
  with s1(2) s2(4) have "file_get ?f (files s2) = at_body art" by simp
  moreover have "map_of (open_arts s2) ?aid = None"
    using s1(4) s2(5) other by (metis imageE)
  moreover have "s2 = s\<lparr>files := files s2, open_arts := open_arts s2\<rparr>"
    using s1(3) s2(3) runner_two_updates [of s1 s s2] unfolding art_frame_def by blast
  moreover have "\<forall>p. p \<notin> (\<lambda>art. (tid, sanitize (at_name art))) ` set (art # arts) \<longrightarrow> file_get p (files s2) = file_get p (files s)"
    using s1(3) s2(4) by (auto simp: art_frame_def)
  moreover have "\<forall>a. a \<notin> artifact_id tid ` set (art # arts) \<longrightarrow> map_of (open_arts s2) a = map_of (open_arts s) a"
    using s1(3) s2(5) by (auto simp: art_frame_def)
  ultimately show ?case using s2(2) by (auto simp: stored_arts_def)
qed (simp add: stored_arts_def)

text \<open>
  C6: The way back, end to end: the hub that is waiting for a task from this agent, and
  receives what the agent's runner sends for that request, stores every artifact of the
  collector under the task's directory with exactly its bytes, gives the task the status, the
  error text and the duration of the outcome, stores the collector's data with the name list
  of its artifacts sent, and stops waiting. (The stream and the disk take everything, the
  artifacts' file names differ, and no artifact of that id was left open.)
\<close>
theorem answer_delivered:
  assumes "full_writes fe" and "fs_mkdir fe (rq_id req)"
    and "list_all (\<lambda>art. create_ok fe (rq_id req, sanitize (at_name art))) (cr_artifacts res)"
    and "distinct (map (\<lambda>art. sanitize (at_name art)) (cr_artifacts res))"
    and "assigned agent (rq_id req) s" and "faults s = []" and "rq_id req \<in> tk_id ` set (tasks s)"
    and "list_all (\<lambda>art. map_of (open_arts s) (artifact_id (rq_id req) art) = None) (cr_artifacts res)"
  shows "\<exists>s' row. run_state (for_each (finish_msgs lib timeout req dur [] (res, err)) (hub_receives lib fe dir agent)) s = ((), s')
    \<and> list_all (\<lambda>art. file_get (rq_id req, sanitize (at_name art)) (files s') = at_body art) (cr_artifacts res)
    \<and> list_all (\<lambda>t. if tk_id t = rq_id req
          then tk_status t = (case err of None \<Rightarrow> TkOk
                 | Some e \<Rightarrow> if root_cause e = deadline_exceeded then TkTimeout
                             else if root_cause e = context_canceled then TkCanceled else TkError)
               \<and> tk_duration t = Some dur else t \<in> set (tasks s)) (tasks s')
    \<and> find_row (\<lambda>r. rs_task r = rq_id req) (results s') = Some row
    \<and> rs_data row = (case err of None \<Rightarrow> JText (cr_data res) | Some _ \<Rightarrow> jempty)
    \<and> \<not> assigned agent (rq_id req) s'"
proof -
  let ?w = "(result_msg lib timeout req dur (res, err))\<lparr>wr_refs := map at_name (cr_artifacts res)\<rparr>"
  let ?arts = "cr_artifacts res" and ?tid = "rq_id req" and ?res = "received lib ?w"
  have ms: "finish_msgs lib timeout req dur [] (res, err)
      = map AgentChunk (concat (map (streamArtifact ?tid) ?arts)) @ [AgentResult ?w]"
    by (simp add: finish_msgs_def send_artifacts_ok)
  obtain s1 where s1: "run_state (for_each (concat (map (streamArtifact ?tid) ?arts)) (\<lambda>c. OnArtifact fe agent (on_the_wire c))) s = ((), s1)"
    "stored_arts ?tid ?arts s1" "s1 = s\<lparr>files := files s1, open_arts := open_arts s1\<rparr>"
    using artifacts_stored [OF assms(1-5,8)] by blast
  have id: "cs_id ?res = ?tid" by (simp add: received_def)
  have "assigned agent (cs_id ?res) s1" using assms(5) assigned_view [OF s1(3)] id by simp
  from OnResult_accepted [OF this] view_fields [OF s1(3)] assms(6) obtain s2 where s2:
    "run_state (OnResult dir agent ?res) s1 = ((), s2)"
    "tasks s2 = update_rows (\<lambda>t. tk_id t = ?tid)
        (\<lambda>t. t\<lparr>tk_status := mapStatus (cs_status ?res), tk_finished_at := Some (clock s1),
               tk_duration := Some (cs_duration ?res), tk_error := cs_error ?res\<rparr>) (tasks s)"
    "pending s2 = map_del ?tid (pending s1)" "files s2 = files s1"
    "?tid \<in> tk_id ` set (tasks s) \<longrightarrow> find_row (\<lambda>r. rs_task r = ?tid) (results s2) = Some (result_row dir ?res)"
    unfolding id by auto
  have "run_state (for_each (finish_msgs lib timeout req dur [] (res, err)) (hub_receives lib fe dir agent)) s = ((), s2)"
    using s1(1) s2(1) by (simp add: ms for_each_append for_each_map hub_receives_def)
  moreover have "list_all (\<lambda>art. file_get (?tid, sanitize (at_name art)) (files s2) = at_body art) ?arts"
    using s1(2) s2(4) by (simp add: stored_arts_def list_all_iff)
  moreover have "mapStatus (cs_status ?res) = (case err of None \<Rightarrow> TkOk
        | Some e \<Rightarrow> if root_cause e = deadline_exceeded then TkTimeout
                    else if root_cause e = context_canceled then TkCanceled else TkError)"
    "cs_duration ?res = dur" "cs_data ?res = (case err of None \<Rightarrow> JText (cr_data res) | Some _ \<Rightarrow> jempty)"
    by (auto simp: received_def result_msg_def Let_def split: option.split)
  moreover have "\<not> assigned agent ?tid s2" by (simp add: assigned_def s2(3) lookup_simps)
  ultimately show ?thesis using s2(2,5) assms(7)
    by (intro exI [of _ s2] exI [of _ "result_row dir ?res"])
      (auto simp: list_all_iff result_row_def set_update_rows)
qed

end
