(* ===== verification/Versions.thy ===== *)
theory Versions
  imports Json_Text "HOL-Library.Word" "HOL-Library.Product_Lexorder"
begin

text \<open>
  \<open>common/version/version.go\<close>, and what the two clients of the GitHub releases share: the
  repository named by a URL (\<open>parseRepo\<close>, once in \<open>agent/update\<close>, once in \<open>hub/release\<close>), the
  release document, and the reading of a reply up to a limit. Version numbers are Go's \<open>int\<close>: 64
  bits that wrap around.
\<close>

text \<open>What the linker stamps: the version and the commit.\<close>

definition Full :: "string \<times> string \<Rightarrow> string" where
  "Full stamp = fst stamp @ ''+'' @ snd stamp"

section \<open>Comparing versions\<close>

definition leading_number :: "string \<Rightarrow> 64 word" where
  "leading_number p = foldl (\<lambda>n c. n * 10 + of_nat (digit_val c)) 0 (takeWhile is_digit p)"

definition splitSemver :: "string \<Rightarrow> 64 word list" where
  "splitSemver s =
     (let t = trim_prefix (trim_space s) ''v'';
          u = takeWhile (\<lambda>c. c \<noteq> CHR ''-'' \<and> c \<noteq> CHR ''+'') t
      in map leading_number (split_on CHR ''.'' u))"

definition part :: "64 word list \<Rightarrow> nat \<Rightarrow> int" where
  "part ns i = (if i < length ns then sint (ns ! i) else 0)"

fun compare_from :: "64 word list \<Rightarrow> 64 word list \<Rightarrow> nat list \<Rightarrow> int" where
  "compare_from a b [] = 0"
| "compare_from a b (i # is) =
     (if part a i < part b i then - 1
      else if part a i > part b i then 1
      else compare_from a b is)"

definition compareSemver :: "string \<Rightarrow> string \<Rightarrow> int" where
  "compareSemver a b = compare_from (splitSemver a) (splitSemver b) [0, 1, 2]"

definition Outdated :: "string \<Rightarrow> string \<Rightarrow> bool" where
  "Outdated current latest =
     (if current = [] \<or> latest = [] then False
      else if has_prefix current ''0.0.0'' then False
      else compareSemver current latest < 0)"

text \<open>The three numbers that decide.\<close>

definition version_key :: "string \<Rightarrow> int \<times> int \<times> int" where
  "version_key s = (let ns = splitSemver s in (part ns 0, part ns 1, part ns 2))"

lemma compareSemver_less: "compareSemver a b < 0 \<longleftrightarrow> version_key a < version_key b"
  by (auto simp: compareSemver_def version_key_def Let_def less_prod_def)

lemma leading_number_bound:
  "list_all is_digit p \<Longrightarrow> length p \<le> 18 \<Longrightarrow> sint (leading_number p) = int (digits_val p)"
proof -
  assume d: "list_all is_digit p" and l: "length p \<le> 18"
  have tw: "takeWhile is_digit p = p" using d by (simp add: takeWhile_eq_all_conv list_all_iff)
  have acc: "foldl (\<lambda>n c. n * 10 + of_nat (digit_val c)) (of_nat k) q = (of_nat (foldl (\<lambda>n c. n * 10 + digit_val c) k q) :: 64 word)"
    for k q
  proof (induction q arbitrary: k)
    case (Cons c q)
    from Cons [of "k * 10 + digit_val c"] show ?case by simp
  qed simp
  have "leading_number p = of_nat (digits_val p)"
    using acc [of 0 p] by (simp add: leading_number_def tw digits_val_def)
  moreover have "digits_val p < 10 ^ length p"
  proof -
    have "foldl (\<lambda>n c. n * 10 + digit_val c) k q < (k + 1) * 10 ^ length q" if "list_all is_digit q" for k q
      using that
    proof (induction q arbitrary: k)
      case (Cons c q)
      then have "digit_val c < 10" by (auto simp: is_digit_def digit_val_def less_eq_char_def)
      then have "k * 10 + digit_val c + 1 \<le> (k + 1) * 10" by simp
      then have le: "(k * 10 + digit_val c + 1) * 10 ^ length q \<le> (k + 1) * 10 * 10 ^ length q"
        by (rule mult_right_mono) simp
      have "foldl (\<lambda>n c. n * 10 + digit_val c) (k * 10 + digit_val c) q < (k * 10 + digit_val c + 1) * 10 ^ length q"
        using Cons by simp
      from less_le_trans [OF this le] show ?case by (simp only: foldl.simps length_Cons power_Suc mult.assoc)
    qed simp
    from this [of p 0] d show ?thesis by (simp add: digits_val_def)
  qed
  moreover have "(10::nat) ^ length p \<le> 10 ^ 18" by (rule power_increasing [OF l]) simp
  ultimately have "int (digits_val p) < 2 ^ 63" and "leading_number p = of_nat (digits_val p)" by simp_all
  then show ?thesis by (simp add: sint_uint unsigned_of_nat signed_take_bit_int_eq_self take_bit_nat_eq_self)
qed


lemma Outdated_trans: "Outdated a b \<Longrightarrow> Outdated b c \<Longrightarrow> Outdated a c"
  by (auto simp: Outdated_def compareSemver_less split: if_splits)

lemma Outdated_irrefl: "\<not> Outdated a a"
  by (simp add: Outdated_def compareSemver_less)

text \<open>The part of a number that is used may wrap around, so a huge patch number can be older.\<close>

lemma version_wraps: "Outdated ''v1.0.9223372036854775808'' ''v1.0.1''"
  by code_simp

section \<open>The repository of a URL\<close>

definition parseRepo :: "string \<Rightarrow> (string \<times> string) option" where
  "parseRepo u0 =
     (let u = trim_suffix (trim_space u0) ''/''; prefix = ''https://github.com/''
      in if \<not> has_prefix u prefix then None
         else (case cut CHR ''/'' (trim_prefix u prefix) of
                 (owner, None) \<Rightarrow> None
               | (owner, Some rest) \<Rightarrow>
                   let repo = fst (cut CHR ''/'' rest)
                   in if owner = [] \<or> repo = [] then None else Some (owner, trim_suffix repo ''.git'')))"

definition releases_api :: "string \<times> string \<Rightarrow> string" where
  "releases_api r = ''https://api.github.com/repos/'' @ fst r @ ''/'' @ snd r @ ''/releases/latest''"

lemma parseRepo_examples:
  "parseRepo ''https://github.com/vasyakrg/reconops.git/'' = Some (''vasyakrg'', ''reconops'')"
  "parseRepo ''https://github.com/a/b/releases'' = Some (''a'', ''b'')"
  "parseRepo ''http://github.com/a/b'' = None"
  "parseRepo ''https://github.com/a'' = None"
  by code_simp+

section \<open>Replies of a web server\<close>

text \<open>
  A reply: its status, the header the poller reads, and its body, which may end early with an
  error. A reader limited to \<open>n\<close> bytes ends without an error once it has them.
\<close>

record http_reply =
  hr_status :: int
  hr_rate :: string
  hr_body :: bytes
  hr_fail :: "string option"

definition read_limited :: "nat \<Rightarrow> http_reply \<Rightarrow> bytes \<times> string option" where
  "read_limited n r = (take n (hr_body r), if n \<le> length (hr_body r) then None else hr_fail r)"

text \<open>
  \<open>json.Decoder\<close> takes the first value and leaves the rest unread. A value that begins with a
  bracket ends with the matching one; of any other, the shortest text that is a value.
\<close>

fun bracketed :: "nat \<Rightarrow> bool \<Rightarrow> bool \<Rightarrow> string \<Rightarrow> string" where
  "bracketed d instr esc [] = []"
| "bracketed d instr esc (c # cs) =
     (if instr then
        c # (if esc then bracketed d True False cs
             else if c = CHR 0x5C then bracketed d True True cs
             else bracketed d (c \<noteq> CHR 0x22) False cs)
      else if c = CHR 0x22 then c # bracketed d True False cs
      else if c = CHR ''{'' \<or> c = CHR ''['' then c # bracketed (Suc d) False False cs
      else if c = CHR ''}'' \<or> c = CHR '']'' then (if d \<le> 1 then [c] else c # bracketed (d - 1) False False cs)
      else c # bracketed d False False cs)"

definition first_value :: "bytes \<Rightarrow> json option" where
  "first_value s =
     (case dropWhile json_space s of
        [] \<Rightarrow> None
      | c # _ \<Rightarrow>
          if c = CHR ''{'' \<or> c = CHR ''['' then parse_json (bracketed 0 False False s)
          else (case List.find (\<lambda>v. v \<noteq> None) (map (\<lambda>n. parse_json (take n s)) [0..<Suc (length s)]) of
                  Some v \<Rightarrow> v | None \<Rightarrow> None))"

lemma first_value_examples:
  "first_value ''{\"a\":\"}\"} trailing'' = Some (JObj [(''a'', JStr ''}'')])"
  "first_value ''{\"a\":1'' = None"
  "first_value ''nullx'' = Some JNull"
  by code_simp+

record release_asset =
  ra_name :: string
  ra_url :: string

record release_doc =
  rl_tag :: string
  rl_draft :: bool
  rl_pre :: bool
  rl_assets :: "release_asset list"

definition no_release :: release_doc where
  "no_release = \<lparr>rl_tag = [], rl_draft = False, rl_pre = False, rl_assets = []\<rparr>"

definition dec_asset :: "release_asset agg_decoder" where
  "dec_asset = dec_struct (\<lambda>a kvs.
     let (n, ok1) = field ''name'' (leaf dec_string) (ra_name a) kvs;
         (u, ok2) = field ''browser_download_url'' (leaf dec_string) (ra_url a) kvs
     in (\<lparr>ra_name = n, ra_url = u\<rparr>, ok1 \<and> ok2))"

definition dec_release :: "release_doc agg_decoder" where
  "dec_release = dec_struct (\<lambda>r kvs.
     let (t, ok1) = field ''tag_name'' (leaf dec_string) (rl_tag r) kvs;
         (d, ok2) = field ''draft'' (leaf dec_bool) (rl_draft r) kvs;
         (p, ok3) = field ''prerelease'' (leaf dec_bool) (rl_pre r) kvs;
         (a, ok4) = field ''assets'' (dec_slice dec_asset \<lparr>ra_name = [], ra_url = []\<rparr>) (rl_assets r) kvs
     in (\<lparr>rl_tag = t, rl_draft = d, rl_pre = p, rl_assets = a\<rparr>, ok1 \<and> ok2 \<and> ok3 \<and> ok4))"

definition decode_release :: "http_reply \<Rightarrow> release_doc option" where
  "decode_release r =
     (case first_value (fst (read_limited (2 ^ 20) r)) of
        None \<Rightarrow> None
      | Some v \<Rightarrow> (case dec_release no_release v of (d, ok) \<Rightarrow> if ok then Some d else None))"

end
