(* ===== verification/Agent_Update.thy ===== *)
theory Agent_Update
  imports Versions Disk
begin

text \<open>
  \<open>agent/update/selfupdate.go\<close>: the agent's opt-in self-update. The network and the disk are
  answered by schedules: the k-th request for a URL, the k-th disk operation and the k-th
  random name. The state is the disk and the number of requests made. SHA-256 and the reading of
  a compressed archive are parameters: \<open>untar\<close> gives the entries in order (name, bytes, the error
  that ends the bytes early) and the error after them, if one ends the reading.
\<close>

section \<open>The updater\<close>

record update_options =
  uo_repo :: string
  uo_interval :: int
  uo_binary :: string
  uo_prerelease :: bool

record updater =
  ud_opts :: update_options
  ud_api :: string
  ud_current :: string

definition New_updater :: "string \<Rightarrow> update_options \<Rightarrow> updater option" where
  "New_updater version opts =
     (if uo_repo opts = [] \<or> uo_binary opts = [] then None
      else (case parseRepo (uo_repo opts) of
              None \<Rightarrow> None
            | Some r \<Rightarrow>
                Some \<lparr>ud_opts = (if uo_interval opts \<le> 0 then opts\<lparr>uo_interval := 3600 * 10 ^ 9\<rparr> else opts),
                      ud_api = releases_api r, ud_current = version\<rparr>))"

definition assetURL :: "release_asset list \<Rightarrow> string \<Rightarrow> string" where
  "assetURL as name = (case find_row (\<lambda>a. ra_name a = name) as of None \<Rightarrow> [] | Some a \<Rightarrow> ra_url a)"

section \<open>Network and disk\<close>

record archive_entry =
  ae_name :: string
  ae_bytes :: bytes
  ae_fail :: "string option"

record upkit =
  uk_sha :: "bytes \<Rightarrow> string"
  uk_untar :: "bytes \<Rightarrow> archive_entry list \<times> string option"
  uk_net :: "nat \<Rightarrow> string \<Rightarrow> string + http_reply"
  uk_disk :: "nat \<Rightarrow> string option"
  uk_rand :: "nat \<Rightarrow> string"

record upd = disk +
  up_requests :: nat

type_synonym 'a um = "(upd, 'a) state"

definition http_get :: "upkit \<Rightarrow> string \<Rightarrow> (cerr + http_reply) um" where
  "http_get k url = State (\<lambda>s.
     (case uk_net k (up_requests s) url of Inl e \<Rightarrow> Inl (Msg e) | Inr r \<Rightarrow> Inr r,
      s\<lparr>up_requests := up_requests s + 1\<rparr>))"

definition path_dir :: "string \<Rightarrow> string" where
  "path_dir p = path_clean (case last_index (CHR ''/'') p of None \<Rightarrow> [] | Some i \<Rightarrow> take (i + 1) p)"

definition path_base :: "string \<Rightarrow> string" where
  "path_base p =
     (if p = [] then ''.''
      else (let q = trim_right_char (CHR ''/'') p
            in if q = [] then ''/''
               else (case last_index (CHR ''/'') q of None \<Rightarrow> q | Some i \<Rightarrow> drop (i + 1) q)))"

text \<open>\<open>os.CreateTemp\<close>: the first of ten thousand random names that no file has.\<close>

definition temp_tries :: nat where
  "temp_tries = 10000"

definition create_temp :: "upkit \<Rightarrow> string \<Rightarrow> string \<Rightarrow> string \<Rightarrow> (cerr + string) um" where
  "create_temp k dir pre suf = State (\<lambda>s.
     let names = map (\<lambda>i. path_join dir (pre @ uk_rand k (ds_calls s + i) @ suf)) [0..<temp_tries]
     in case (uk_disk k (ds_calls s), find_row (\<lambda>n. map_of (ds_files s) n = None) names) of
          (Some e, _) \<Rightarrow> (Inl (Msg e), s\<lparr>ds_calls := ds_calls s + 1\<rparr>)
        | (None, None) \<Rightarrow> (Inl (Msg ''file exists''), s\<lparr>ds_calls := ds_calls s + 1\<rparr>)
        | (None, Some n) \<Rightarrow> (Inr n, s\<lparr>ds_calls := ds_calls s + 1, ds_files := map_put n [] (ds_files s)\<rparr>))"

section \<open>Fetching\<close>

definition github_error :: "http_reply \<Rightarrow> cerr" where
  "github_error r = Msg (''github api '' @ int_text (hr_status r) @ '': '' @ trim_space (fst (read_limited 512 r)))"

definition fetchLatest :: "upkit \<Rightarrow> updater \<Rightarrow> (cerr + release_doc) um" where
  "fetchLatest k u = unless_err (http_get k (ud_api u)) (\<lambda>r. return
     (if hr_status r \<noteq> 200 then Inl (github_error r)
      else (case decode_release r of
              None \<Rightarrow> Inl (JsonErr (hr_body r))
            | Some d \<Rightarrow> if rl_tag d = [] then Inl (Msg ''empty tag_name in release json'') else Inr d)))"

text \<open>The digest of a line of \<open>checksums.txt\<close>, when the line names the file.\<close>

definition checksum_line :: "string \<Rightarrow> string \<Rightarrow> string option" where
  "checksum_line name ln0 =
     (let ln = trim_space ln0
      in if ln = [] \<or> has_prefix ln ''#'' then None
         else (case Go_Strings.fields ln of
                 [h, f] \<Rightarrow> if path_base (trim_prefix f ''*'') = name then Some (to_lower h) else None
               | _ \<Rightarrow> None))"

definition listed_hash :: "string \<Rightarrow> bytes \<Rightarrow> string option" where
  "listed_hash name body =
     (case find_row (\<lambda>v. v \<noteq> None) (map (checksum_line name) (split_on newline body)) of
        Some v \<Rightarrow> v | None \<Rightarrow> None)"

definition fetchSHA256 :: "upkit \<Rightarrow> string \<Rightarrow> string \<Rightarrow> (cerr + string) um" where
  "fetchSHA256 k url name = unless_err (http_get k url) (\<lambda>r. return
     (if hr_status r \<noteq> 200 then Inl (Msg (''checksums http '' @ int_text (hr_status r)))
      else (case read_limited (64 * 1024) r of
              (_, Some e) \<Rightarrow> Inl (Msg e)
            | (body, None) \<Rightarrow>
                (case listed_hash name body of
                   Some h \<Rightarrow> Inr h
                 | None \<Rightarrow> Inl (Msg (name @ '' not found in checksums.txt''))))))"

section \<open>Downloading\<close>

definition arch_path :: "string \<Rightarrow> string" where
  "arch_path arch = ''recon-agent-linux-'' @ arch @ ''/bin/recon-agent''"

definition tar_name :: "string \<Rightarrow> string" where
  "tar_name arch = ''recon-agent-linux-'' @ arch @ ''.tar.gz''"

definition binary_limit :: nat where
  "binary_limit = 128 * 2 ^ 20"

definition tar_limit :: nat where
  "tar_limit = 64 * 2 ^ 20"

text \<open>
  An entry with the wanted name is written to a new file next to the binary; what a reader of
  \<open>binary_limit\<close> bytes gets of it is what is written.
\<close>

definition extract_entry :: "upkit \<Rightarrow> string \<Rightarrow> archive_entry \<Rightarrow> (cerr + string) um" where
  "extract_entry k dir e = unless_err (create_temp k dir ''.recon-agent-new-'' []) (\<lambda>n.
     let got = take binary_limit (ae_bytes e);
         bad = (if binary_limit \<le> length (ae_bytes e) then None else ae_fail e)
     in do {
       w \<leftarrow> write_file (uk_disk k) n got;
       (case (w, bad) of
          (Inl x, _) \<Rightarrow> do { _ \<leftarrow> remove_file (uk_disk k) n; return (Inl x) }
        | (Inr _, Some x) \<Rightarrow> do { _ \<leftarrow> remove_file (uk_disk k) n; return (Inl (Msg x)) }
        | (Inr _, None) \<Rightarrow> do {
            c \<leftarrow> touch_file (uk_disk k);
            (case c of
               Inl x \<Rightarrow> do { _ \<leftarrow> remove_file (uk_disk k) n; return (Inl x) }
             | Inr _ \<Rightarrow> unless_err (touch_file (uk_disk k)) (\<lambda>_. return (Inr n)))
          })
     })"

definition extract_binary :: "upkit \<Rightarrow> string \<Rightarrow> string \<Rightarrow> bytes \<Rightarrow> (cerr + string) um" where
  "extract_binary k dir want tgz =
     (case uk_untar k tgz of (entries, bad) \<Rightarrow>
        (case find_row (\<lambda>e. ae_name e = want) entries of
           Some e \<Rightarrow> extract_entry k dir e
         | None \<Rightarrow> return (Inl (case bad of
                                   Some x \<Rightarrow> Msg x
                                 | None \<Rightarrow> Msg (want @ '' not found inside tarball'')))))"

text \<open>The download into the temporary file, the comparison of the digest and the extraction.\<close>

definition unpack :: "upkit \<Rightarrow> string \<Rightarrow> string \<Rightarrow> string \<Rightarrow> http_reply \<Rightarrow> string \<Rightarrow> (cerr + string) um" where
  "unpack k dir wantHash arch r tmp =
     (case read_limited tar_limit r of (tgz, bad) \<Rightarrow> do {
        w \<leftarrow> write_file (uk_disk k) tmp tgz;
        res \<leftarrow> (case w of
            Inl x \<Rightarrow> return (Inl x)
          | Inr _ \<Rightarrow> (case bad of
              Some x \<Rightarrow> return (Inl (Msg x))
            | None \<Rightarrow>
              if uk_sha k tgz \<noteq> wantHash
              then return (Inl (Msg (''sha256 mismatch: want '' @ wantHash @ '' got '' @ uk_sha k tgz)))
              else unless_err (touch_file (uk_disk k)) (\<lambda>_. extract_binary k dir (arch_path arch) tgz)));
        _ \<leftarrow> remove_file (uk_disk k) tmp;
        return res
      })"

definition downloadAndExtract :: "upkit \<Rightarrow> updater \<Rightarrow> string \<Rightarrow> string \<Rightarrow> string \<Rightarrow> (cerr + string) um" where
  "downloadAndExtract k u url wantHash arch = unless_err (http_get k url) (\<lambda>r.
     if hr_status r \<noteq> 200 then return (Inl (Msg (''tarball http '' @ int_text (hr_status r))))
     else (let dir = path_dir (uo_binary (ud_opts u))
           in unless_err (create_temp k dir ''.recon-agent-update-'' ''.tgz'') (unpack k dir wantHash arch r)))"

section \<open>One check\<close>

datatype update_outcome = UpToDate | ReplacedWith string

text \<open>The rename over the binary; a failure removes the new file (the deferred call).\<close>

definition install :: "upkit \<Rightarrow> updater \<Rightarrow> string \<Rightarrow> string \<Rightarrow> (cerr + update_outcome) um" where
  "install k u tag tmp = do {
     sw \<leftarrow> wrapped ''swap'' (rename_file (uk_disk k) tmp (uo_binary (ud_opts u)));
     (case sw of
        Inl e \<Rightarrow> do { _ \<leftarrow> remove_file (uk_disk k) tmp; return (Inl e) }
      | Inr _ \<Rightarrow> return (Inr (ReplacedWith tag)))
   }"

definition checkAndApply :: "upkit \<Rightarrow> updater \<Rightarrow> string \<Rightarrow> (cerr + update_outcome) um" where
  "checkAndApply k u arch = unless_err (wrapped ''fetch latest'' (fetchLatest k u)) (\<lambda>rel.
     if rl_draft rel then return (Inr UpToDate)
     else if rl_pre rel \<and> \<not> uo_prerelease (ud_opts u) then return (Inr UpToDate)
     else if \<not> Outdated (ud_current u) (rl_tag rel) then return (Inr UpToDate)
     else if arch \<noteq> ''amd64'' \<and> arch \<noteq> ''arm64''
     then return (Inl (Quoting [(''unsupported arch '', arch)] ('' '' @ em_dash @ '' only amd64/arm64 have published tarballs'')))
     else (let tarURL = assetURL (rl_assets rel) (tar_name arch);
               sumURL = assetURL (rl_assets rel) ''checksums.txt''
           in if tarURL = [] then return (Inl (Msg (''release '' @ rl_tag rel @ '' has no asset '' @ tar_name arch)))
              else if sumURL = [] then return (Inl (Msg (''release '' @ rl_tag rel @ '' has no checksums.txt '' @ em_dash @ '' refusing to update without integrity check'')))
              else unless_err (wrapped ''checksum'' (fetchSHA256 k sumURL (tar_name arch))) (\<lambda>want.
                unless_err (wrapped ''download'' (downloadAndExtract k u tarURL want arch)) (install k u (rl_tag rel)))))"

text \<open>The checks of \<open>Run\<close>, one at once and one per tick; the process exits after a replacement.\<close>

fun update_ticks :: "upkit \<Rightarrow> updater \<Rightarrow> string \<Rightarrow> nat \<Rightarrow> bool um" where
  "update_ticks k u arch 0 = return False"
| "update_ticks k u arch (Suc n) = do {
     r \<leftarrow> checkAndApply k u arch;
     (case r of
        Inr (ReplacedWith _) \<Rightarrow> return True
      | _ \<Rightarrow> update_ticks k u arch n)
   }"

definition Run_updater :: "upkit \<Rightarrow> updater option \<Rightarrow> string \<Rightarrow> nat \<Rightarrow> bool um" where
  "Run_updater k u arch ticks =
     (case u of None \<Rightarrow> return False | Some v \<Rightarrow> update_ticks k v arch (Suc ticks))"

section \<open>What a check does to the disk\<close>

lemma run_http_get [simp]:
  "run_state (http_get k url) s =
     (case uk_net k (up_requests s) url of Inl e \<Rightarrow> Inl (Msg e) | Inr r \<Rightarrow> Inr r, s\<lparr>up_requests := up_requests s + 1\<rparr>)"
  by (simp add: http_get_def)

lemma create_temp_result:
  assumes "run_state (create_temp k dir pre suf) s = (r, s')"
  shows "case r of Inl _ \<Rightarrow> ds_files s' = ds_files s
    | Inr n \<Rightarrow> map_of (ds_files s) n = None \<and> ds_files s' = map_put n [] (ds_files s)"
  using assms by (auto simp: create_temp_def Let_def split: prod.splits option.splits dest!: find_row_SomeD)

lemma keeps_create: "keeps (stored p c) (create_temp k dir pre suf)"
proof (rule keepsI)
  fix s :: upd assume "stored p c s"
  then show "stored p c (snd (run_state (create_temp k dir pre suf) s))"
    using create_temp_result [of k dir pre suf s "fst (run_state (create_temp k dir pre suf) s)"
        "snd (run_state (create_temp k dir pre suf) s)"]
    by (auto simp: lookup_simps split: sum.splits)
qed

text \<open>What an operation that ends with the name of a new file leaves: nothing that was there changes.\<close>

lemma extract_entry_result:
  assumes "run_state (extract_entry k dir e) s = (r, s')"
  shows "(\<forall>p c. stored p c s \<longrightarrow> stored p c s')
    \<and> (\<forall>n. r = Inr n \<longrightarrow> map_of (ds_files s) n = None \<and> stored n (take binary_limit (ae_bytes e)) s')"
proof -
  obtain r1 s1 where c: "run_state (create_temp k dir ''.recon-agent-new-'' []) s = (r1, s1)" by fastforce
  show ?thesis
  proof (cases r1)
    case (Inl x)
    with assms c create_temp_result [OF c] show ?thesis by (auto simp: extract_entry_def)
  next
    case (Inr n)
    with create_temp_result [OF c] have n: "map_of (ds_files s) n = None" "ds_files s1 = map_put n [] (ds_files s)"
      by simp_all
    have old: "p \<noteq> n \<and> stored p d s1" if "stored p d s" for p d
      using that n by (auto simp: lookup_simps)
    show ?thesis using assms c Inr n old
      by (auto simp: extract_entry_def write_file_def touch_file_def remove_file_def run_disk_op Let_def lookup_simps
          split: option.splits if_splits)
  qed
qed

lemma keeps_extract: "keeps (stored p c) (extract_binary k dir want tgz)"
proof (rule keepsI)
  fix s :: upd assume st: "stored p c s"
  obtain es bad where u: "uk_untar k tgz = (es, bad)" by fastforce
  show "stored p c (snd (run_state (extract_binary k dir want tgz) s))"
  proof (cases "find_row (\<lambda>e. ae_name e = want) es")
    case (Some e)
    with u st extract_entry_result [of k dir e s, OF surjective_pairing] show ?thesis
      by (simp add: extract_binary_def)
  qed (use u st in \<open>simp add: extract_binary_def\<close>)
qed

lemma extract_binary_result:
  assumes "run_state (extract_binary k dir want tgz) s = (Inr n, s')"
  shows "\<exists>e. find_row (\<lambda>e. ae_name e = want) (fst (uk_untar k tgz)) = Some e
    \<and> map_of (ds_files s) n = None \<and> stored n (take binary_limit (ae_bytes e)) s'"
  using assms extract_entry_result [of k dir _ s "Inr n" s']
  by (auto simp: extract_binary_def split: prod.splits option.splits)

lemma keeps_unpack: "tmp \<noteq> p \<Longrightarrow> keeps (stored p c) (unpack k dir want arch r tmp)"
  unfolding unpack_def
  by (cases "read_limited tar_limit r")
    (auto intro!: keeps_intros keeps_write keeps_remove keeps_touch keeps_extract split: sum.split option.split)

lemma unpack_result:
  assumes "run_state (unpack k dir want arch r tmp) s = (Inr n, s')" and "stored tmp [] s"
  shows "uk_sha k (take tar_limit (hr_body r)) = want \<and> map_of (ds_files s) n = None
    \<and> (\<exists>e. find_row (\<lambda>e. ae_name e = arch_path arch) (fst (uk_untar k (take tar_limit (hr_body r)))) = Some e
        \<and> stored n (take binary_limit (ae_bytes e)) s')"
proof -
  let ?tgz = "take tar_limit (hr_body r)"
  obtain bad where bad: "read_limited tar_limit r = (?tgz, bad)" by (simp add: read_limited_def)
  obtain w s1 where w: "run_state (write_file (uk_disk k) tmp ?tgz) s = (w, s1)" by fastforce
  obtain t s2 where t: "run_state (touch_file (uk_disk k)) s1 = (t, s2)" by fastforce
  obtain x s3 where x: "run_state (extract_binary k dir (arch_path arch) ?tgz) s2 = (x, s3)" by fastforce
  note run = assms(1) [unfolded unpack_def bad prod.case]
  have w': "w = Inr ()" using run w by (cases w) (auto split: prod.splits)
  have b': "bad = None" using run w w' by (cases bad) (auto split: prod.splits)
  have h': "uk_sha k ?tgz = want" using run w w' b' by (auto split: prod.splits if_splits)
  have t': "t = Inr ()" using run w w' b' h' t by (cases t) (auto split: prod.splits)
  have x': "x = Inr n" "s' = snd (run_state (remove_file (uk_disk k) tmp) s3)"
    using run w w' b' h' t t' x by (auto split: prod.splits)
  note ok = w' b' h' t' x'
  from extract_binary_result [OF x [unfolded ok(5)]] obtain e where
    e: "find_row (\<lambda>e. ae_name e = arch_path arch) (fst (uk_untar k ?tgz)) = Some e"
      "map_of (ds_files s2) n = None" "stored n (take binary_limit (ae_bytes e)) s3" by blast
  from w ok(1) have s1: "ds_files s1 = map_put tmp ?tgz (ds_files s)"
    by (auto simp: write_file_def run_disk_op split: option.splits)
  from t ok(4) have s2: "ds_files s2 = ds_files s1"
    by (auto simp: touch_file_def run_disk_op split: option.splits)
  from e(2) s1 s2 have n: "n \<noteq> tmp" "map_of (ds_files s) n = None" by (auto simp: lookup_simps split: if_splits)
  from keepsD [OF keeps_remove [OF n(1) [symmetric]] e(3)] ok(6) have "stored n (take binary_limit (ae_bytes e)) s'"
    by simp
  with ok(3) e(1) n(2) show ?thesis by blast
qed

text \<open>The archive that was downloaded, whose digest is the wanted one, and its entry.\<close>

definition verified_binary :: "upkit \<Rightarrow> string \<Rightarrow> string \<Rightarrow> string \<Rightarrow> bytes \<Rightarrow> bool" where
  "verified_binary k url want arch b =
     (\<exists>q r e. uk_net k q url = Inr r \<and> hr_status r = 200 \<and> uk_sha k (take tar_limit (hr_body r)) = want
        \<and> find_row (\<lambda>e. ae_name e = arch_path arch) (fst (uk_untar k (take tar_limit (hr_body r)))) = Some e
        \<and> b = take binary_limit (ae_bytes e))"

lemma download_cases:
  assumes "run_state (downloadAndExtract k u url want arch) s = (res, s')"
  obtains (stop) "ds_files s' = ds_files s" "\<exists>e. res = Inl e"
    | (temp) r tmp and s1 :: upd where "uk_net k (up_requests s) url = Inr r" "hr_status r = 200" "map_of (ds_files s) tmp = None"
        "ds_files s1 = map_put tmp [] (ds_files s)"
        "run_state (unpack k (path_dir (uo_binary (ud_opts u))) want arch r tmp) s1 = (res, s')"
proof (cases "uk_net k (up_requests s) url")
  case (Inl e)
  with assms stop show thesis by (auto simp: downloadAndExtract_def)
next
  case (Inr r)
  let ?s0 = "s\<lparr>up_requests := up_requests s + 1\<rparr>" and ?dir = "path_dir (uo_binary (ud_opts u))"
  obtain c s1 where c: "run_state (create_temp k ?dir ''.recon-agent-update-'' ''.tgz'') ?s0 = (c, s1)" by fastforce
  show thesis
  proof (cases "hr_status r = 200")
    case False
    with Inr assms stop show thesis by (auto simp: downloadAndExtract_def)
  next
    case True
    with Inr c assms have run: "run_state (unless_err (create_temp k ?dir ''.recon-agent-update-'' ''.tgz'')
        (unpack k ?dir want arch r)) ?s0 = (res, s')"
      by (simp add: downloadAndExtract_def Let_def)
    show thesis
    proof (cases c)
      case (Inl e)
      with run c create_temp_result [OF c] have "ds_files s' = ds_files s" "\<exists>e. res = Inl e" by auto
      then show thesis by (rule stop)
    next
      case tmp: (Inr tmp)
      with create_temp_result [OF c] have n: "map_of (ds_files s) tmp = None" "ds_files s1 = map_put tmp [] (ds_files s)"
        by simp_all
      from run tmp have "run_state (unpack k ?dir want arch r tmp) s1 = (res, s')" by (simp del: One_nat_def add: c)
      then show thesis by (rule temp [OF Inr True n])
    qed
  qed
qed

lemma download_keeps:
  assumes "run_state (downloadAndExtract k u url want arch) s = (res, s')" and "stored p c s"
  shows "stored p c s'"
  using assms(1)
proof (cases rule: download_cases)
  case (temp r tmp s1)
  with assms(2) have "tmp \<noteq> p" "stored p c s1" by (auto simp: lookup_simps)
  from keepsD [OF keeps_unpack [OF this(1)] this(2), of k "path_dir (uo_binary (ud_opts u))" want arch r] temp(5)
  show ?thesis by simp
qed (use assms(2) in simp)

lemma download_result:
  assumes "run_state (downloadAndExtract k u url want arch) s = (Inr n, s')"
  shows "map_of (ds_files s) n = None \<and> (\<exists>b. verified_binary k url want arch b \<and> stored n b s')"
  using assms
proof (cases rule: download_cases)
  case (temp r tmp s1)
  have "stored tmp [] s1" by (simp add: temp(4) lookup_simps)
  from unpack_result [OF temp(5) this] temp show ?thesis
    by (auto simp: verified_binary_def lookup_simps split: if_splits)
qed simp

text \<open>A release that the updater applies, by the answers of the network.\<close>

definition applicable :: "upkit \<Rightarrow> updater \<Rightarrow> release_doc \<Rightarrow> bool" where
  "applicable k u rel =
     ((\<exists>q r. uk_net k q (ud_api u) = Inr r \<and> hr_status r = 200 \<and> decode_release r = Some rel)
      \<and> \<not> rl_draft rel \<and> (rl_pre rel \<longrightarrow> uo_prerelease (ud_opts u)) \<and> Outdated (ud_current u) (rl_tag rel))"

definition published_hash :: "upkit \<Rightarrow> release_doc \<Rightarrow> string \<Rightarrow> string \<Rightarrow> bool" where
  "published_hash k rel arch h =
     (\<exists>q r. uk_net k q (assetURL (rl_assets rel) ''checksums.txt'') = Inr r \<and> hr_status r = 200
        \<and> listed_hash (tar_name arch) (take (64 * 1024) (hr_body r)) = Some h)"

lemma fetchLatest_result:
  assumes "run_state (fetchLatest k u) s = (Inr rel, s')"
  shows "\<exists>q r. uk_net k q (ud_api u) = Inr r \<and> hr_status r = 200 \<and> decode_release r = Some rel"
  using assms by (auto simp: fetchLatest_def split: sum.splits if_splits option.splits)

lemma fetchSHA256_result:
  assumes "run_state (fetchSHA256 k url name) s = (Inr h, s')"
  shows "\<exists>q r. uk_net k q url = Inr r \<and> hr_status r = 200 \<and> listed_hash name (take (64 * 1024) (hr_body r)) = Some h"
proof (cases "uk_net k (up_requests s) url")
  case (Inr r)
  with assms show ?thesis
    by (auto simp: fetchSHA256_def read_limited_def split: if_splits option.splits prod.splits
        intro!: exI [of _ "up_requests s"] exI [of _ r])
qed (use assms in \<open>simp add: fetchSHA256_def\<close>)

lemma fetch_files:
  "run_state (fetchLatest k u) s = (r, s') \<Longrightarrow> ds_files s' = ds_files s"
  "run_state (fetchSHA256 k url name) s = (h, s') \<Longrightarrow> ds_files s' = ds_files s"
  by (auto simp: fetchLatest_def fetchSHA256_def split: sum.splits)

lemma install_cases:
  assumes "run_state (install k u tag tmp) s = (res, s')" and "stored tmp b s"
  obtains "\<forall>p c. p \<noteq> tmp \<longrightarrow> stored p c s \<longrightarrow> stored p c s'" "\<forall>t. res \<noteq> Inr (ReplacedWith t)"
    | "ds_files s' = map_put (uo_binary (ud_opts u)) b (map_del tmp (ds_files s))" "res = Inr (ReplacedWith tag)"
proof (cases "uk_disk k (ds_calls s)")
  case None
  with assms have "ds_files s' = map_put (uo_binary (ud_opts u)) b (map_del tmp (ds_files s))" "res = Inr (ReplacedWith tag)"
    by (auto simp: install_def rename_file_def run_disk_op)
  then show thesis by (rule that(2))
next
  case (Some e)
  with assms have r: "res = Inl (Wrap ''swap'' (Msg e))"
    "s' = snd (run_state (remove_file (uk_disk k) tmp) (s\<lparr>ds_calls := ds_calls s + 1\<rparr>))"
    by (auto simp: install_def rename_file_def run_disk_op split: prod.splits)
  have "stored p c s'" if "p \<noteq> tmp" "stored p c s" for p c
  proof -
    have "keeps (stored p c) (remove_file (uk_disk k) tmp)" by (rule keeps_remove) (use that(1) in simp)
    from keepsD [OF this, of "s\<lparr>ds_calls := ds_calls s + 1\<rparr>"] that(2) r(2) show ?thesis by simp
  qed
  with r(1) show thesis by (intro that(1)) auto
qed

text \<open>What a check does: nothing to the files that were there, or one replacement of the binary.\<close>

lemma check_cases:
  assumes "run_state (checkAndApply k u arch) s = (res, s')"
  obtains (kept) "\<forall>p c. stored p c s \<longrightarrow> stored p c s'" "\<forall>tag. res \<noteq> Inr (ReplacedWith tag)"
    | (swapped) rel want b tmp and s1 :: upd where "applicable k u rel" "published_hash k rel arch want"
        "verified_binary k (assetURL (rl_assets rel) (tar_name arch)) want arch b"
        "map_of (ds_files s) tmp = None" "\<forall>p c. stored p c s \<longrightarrow> stored p c s1" "stored tmp b s1"
        "ds_files s' = map_put (uo_binary (ud_opts u)) b (map_del tmp (ds_files s1))"
        "res = Inr (ReplacedWith (rl_tag rel))"
proof -
  obtain r1 s1 where f: "run_state (fetchLatest k u) s = (r1, s1)" by fastforce
  show thesis
  proof (cases "\<exists>rel. r1 = Inr rel \<and> \<not> rl_draft rel \<and> \<not> (rl_pre rel \<and> \<not> uo_prerelease (ud_opts u))
      \<and> Outdated (ud_current u) (rl_tag rel) \<and> \<not> (arch \<noteq> ''amd64'' \<and> arch \<noteq> ''arm64'')
      \<and> assetURL (rl_assets rel) (tar_name arch) \<noteq> [] \<and> assetURL (rl_assets rel) ''checksums.txt'' \<noteq> []")
    case False
    then have "ds_files s' = ds_files s1" "\<forall>tag. res \<noteq> Inr (ReplacedWith tag)"
      using assms f by (auto simp: checkAndApply_def Let_def split: sum.splits if_splits)
    then show thesis using kept fetch_files(1) [OF f] by simp
  next
    case True
    then obtain rel where rel: "r1 = Inr rel" "\<not> rl_draft rel" "\<not> (rl_pre rel \<and> \<not> uo_prerelease (ud_opts u))"
      "Outdated (ud_current u) (rl_tag rel)" "\<not> (arch \<noteq> ''amd64'' \<and> arch \<noteq> ''arm64'')"
      "assetURL (rl_assets rel) (tar_name arch) \<noteq> []" "assetURL (rl_assets rel) ''checksums.txt'' \<noteq> []" by blast
    let ?tar = "assetURL (rl_assets rel) (tar_name arch)" and ?sum = "assetURL (rl_assets rel) ''checksums.txt''"
    obtain r2 s2 where h: "run_state (fetchSHA256 k ?sum (tar_name arch)) s1 = (r2, s2)" by fastforce
    have files2: "ds_files s2 = ds_files s" using fetch_files(1) [OF f] fetch_files(2) [OF h] by simp
    have app: "applicable k u rel" using fetchLatest_result [OF f [unfolded rel(1)]] rel(2,3,4) by (auto simp: applicable_def)
    have run: "run_state (unless_err (wrapped ''checksum'' (fetchSHA256 k ?sum (tar_name arch))) (\<lambda>want.
                unless_err (wrapped ''download'' (downloadAndExtract k u ?tar want arch)) (install k u (rl_tag rel)))) s1
        = (res, s')"
      using assms f rel by (simp add: checkAndApply_def Let_def)
    show thesis
    proof (cases r2)
      case (Inl e)
      with run h files2 have "\<forall>p c. stored p c s \<longrightarrow> stored p c s'" "\<forall>tag. res \<noteq> Inr (ReplacedWith tag)" by auto
      then show thesis by (rule kept)
    next
      case want: (Inr want)
      obtain r3 s3 where d: "run_state (downloadAndExtract k u ?tar want arch) s2 = (r3, s3)" by fastforce
      have old: "\<forall>p c. stored p c s \<longrightarrow> stored p c s3" using download_keeps [OF d] files2 by simp
      show thesis
      proof (cases r3)
        case (Inl e)
        with run h want d old have "\<forall>p c. stored p c s \<longrightarrow> stored p c s'" "\<forall>tag. res \<noteq> Inr (ReplacedWith tag)" by auto
        then show thesis by (rule kept)
      next
        case (Inr tmp)
        from download_result [OF d [unfolded Inr]] files2 obtain b where
          b: "map_of (ds_files s) tmp = None" "verified_binary k ?tar want arch b" "stored tmp b s3" by auto
        have inst: "run_state (install k u (rl_tag rel) tmp) s3 = (res, s')"
          using run h want d Inr by simp
        have hash: "published_hash k rel arch want"
          using fetchSHA256_result [OF h [unfolded want]] by (auto simp: published_hash_def)
        from install_cases [OF inst b(3)] show thesis
        proof cases
          case 1
          have "stored p c s'" if "stored p c s" for p c
            using that old b(1) 1(1) by (cases "p = tmp") auto
          then show thesis using 1(2) by (intro kept) auto
        next
          case 2
          show thesis by (rule swapped [OF app hash b(2,1) old b(3) 2])
        qed
      qed
    qed
  qed
qed

text \<open>
  C7: A self-update changes at most one file that was on the disk: the agent's binary, and that
  only by a release the network answered for the repository's URL that is no draft, is a
  prerelease only if those are allowed, and whose version is higher than the running one; the
  new content is the binary entry of the archive named by that release, and the archive's
  SHA-256 is the one its \<open>checksums.txt\<close> lists for it. In every other case, whatever fails on
  the network or the disk and wherever it fails, the binary stays as it was.
\<close>
theorem self_update_verified:
  assumes "run_state (checkAndApply k u arch) s = (res, s')"
  shows "(\<forall>p c. p \<noteq> uo_binary (ud_opts u) \<longrightarrow> stored p c s \<longrightarrow> stored p c s')
    \<and> (case res of
         Inr (ReplacedWith tag) \<Rightarrow> Outdated (ud_current u) tag
           \<and> (\<exists>rel want b. rl_tag rel = tag \<and> applicable k u rel \<and> published_hash k rel arch want
                \<and> verified_binary k (assetURL (rl_assets rel) (tar_name arch)) want arch b
                \<and> stored (uo_binary (ud_opts u)) b s')
       | _ \<Rightarrow> \<forall>c. stored (uo_binary (ud_opts u)) c s \<longrightarrow> stored (uo_binary (ud_opts u)) c s')"
  using assms
proof (cases rule: check_cases)
  case kept
  then show ?thesis by (auto split: sum.split update_outcome.split)
next
  case (swapped rel want b tmp s1)
  have "stored p c s'" if "p \<noteq> uo_binary (ud_opts u)" "stored p c s" for p c
  proof -
    have "p \<noteq> tmp" "stored p c s1" using that(2) swapped(4,5) by auto
    with that(1) swapped(7) show ?thesis by (simp add: lookup_simps)
  qed
  moreover have "stored (uo_binary (ud_opts u)) b s'" by (simp add: swapped(7) lookup_simps)
  ultimately show ?thesis using swapped(1-3,8) by (auto simp: applicable_def)
qed

section \<open>An update\<close>

definition quote :: "string \<Rightarrow> string" where
  "quote s = [CHR 0x22] @ s @ [CHR 0x22]"

definition demo_release_text :: bytes where
  "demo_release_text =
     ''{'' @ quote ''tag_name'' @ '':'' @ quote ''v0.2.0'' @ '','' @ quote ''assets'' @ '':[''
       @ ''{'' @ quote ''name'' @ '':'' @ quote ''recon-agent-linux-amd64.tar.gz'' @ '',''
               @ quote ''browser_download_url'' @ '':'' @ quote ''t'' @ ''},''
       @ ''{'' @ quote ''name'' @ '':'' @ quote ''checksums.txt'' @ '',''
               @ quote ''browser_download_url'' @ '':'' @ quote ''c'' @ ''}]}'' @ [newline]"

definition status_ok :: "bytes \<Rightarrow> http_reply" where
  "status_ok b = \<lparr>hr_status = 200, hr_rate = [], hr_body = b, hr_fail = None\<rparr>"

lemma demo_release_decoded:
  "decode_release (status_ok demo_release_text) =
     Some \<lparr>rl_tag = ''v0.2.0'', rl_draft = False, rl_pre = False,
       rl_assets = [\<lparr>ra_name = ''recon-agent-linux-amd64.tar.gz'', ra_url = ''t''\<rparr>,
                    \<lparr>ra_name = ''checksums.txt'', ra_url = ''c''\<rparr>]\<rparr>"
proof -
  let ?v = "JObj [(''tag_name'', JStr ''v0.2.0''), (''assets'', JArr
      [JObj [(''name'', JStr ''recon-agent-linux-amd64.tar.gz''), (''browser_download_url'', JStr ''t'')],
       JObj [(''name'', JStr ''checksums.txt''), (''browser_download_url'', JStr ''c'')]])]"
  have "first_value demo_release_text = Some ?v" by code_simp
  moreover have "dec_release no_release ?v = (\<lparr>rl_tag = ''v0.2.0'', rl_draft = False, rl_pre = False,
       rl_assets = [\<lparr>ra_name = ''recon-agent-linux-amd64.tar.gz'', ra_url = ''t''\<rparr>,
                    \<lparr>ra_name = ''checksums.txt'', ra_url = ''c''\<rparr>]\<rparr>, True)" by code_simp
  moreover have "length demo_release_text \<le> 2 ^ 20" by (simp add: demo_release_text_def quote_def)
  ultimately show ?thesis by (simp add: decode_release_def status_ok_def read_limited_def)
qed

definition demo_updater :: updater where
  "demo_updater = \<lparr>ud_opts = \<lparr>uo_repo = ''https://github.com/a/b'', uo_interval = 600 * 10 ^ 9, uo_binary = ''/b/agent'',
     uo_prerelease = False\<rparr>, ud_api = ''api'', ud_current = ''v0.1.9''\<rparr>"

definition demo_kit :: upkit where
  "demo_kit =
     \<lparr>uk_sha = (\<lambda>b. if b = ''TAR'' then ''aa'' else ''bb''),
      uk_untar = (\<lambda>_. ([\<lparr>ae_name = ''recon-agent-linux-amd64/bin/recon-agent'', ae_bytes = ''new'', ae_fail = None\<rparr>], None)),
      uk_net = (\<lambda>_ url. if url = ''api'' then Inr (status_ok demo_release_text)
                       else if url = ''t'' then Inr (status_ok ''TAR'')
                       else Inr (status_ok ''AA  recon-agent-linux-amd64.tar.gz'')),
      uk_disk = (\<lambda>_. None), uk_rand = (\<lambda>_. ''1'')\<rparr>"

definition demo_disk :: upd where
  "demo_disk = \<lparr>ds_calls = 0, ds_files = [(''/b/agent'', ''old'')], up_requests = 0\<rparr>"

lemma demo_kit_simps [simp]:
  "uk_disk demo_kit n = None"
  "uk_rand demo_kit n = ''1''"
  "uk_sha demo_kit ''TAR'' = ''aa''"
  "uk_untar demo_kit b = ([\<lparr>ae_name = ''recon-agent-linux-amd64/bin/recon-agent'', ae_bytes = ''new'', ae_fail = None\<rparr>], None)"
  "uk_net demo_kit n ''api'' = Inr (status_ok demo_release_text)"
  "uk_net demo_kit n ''t'' = Inr (status_ok ''TAR'')"
  "uk_net demo_kit n ''c'' = Inr (status_ok ''AA  recon-agent-linux-amd64.tar.gz'')"
  by (simp_all add: demo_kit_def)

lemma ok_reply_simps [simp]: "hr_status (status_ok b) = 200" "hr_body (status_ok b) = b" "hr_fail (status_ok b) = None"
  by (simp_all add: status_ok_def)

lemma demo_temp:
  assumes "path_join dir (pre @ ''1'' @ suf) = n" and "map_of (ds_files s) n = None"
  shows "run_state (create_temp demo_kit dir pre suf) s =
    (Inr n, s\<lparr>ds_calls := ds_calls s + 1, ds_files := map_put n [] (ds_files s)\<rparr>)"
proof -
  have "0 < temp_tries" by (simp add: temp_tries_def)
  from upt_conv_Cons [OF this] show ?thesis using assms by (simp add: create_temp_def Let_def find_row_Cons)
qed

lemma demo_update:
  "\<exists>s'. run_state (checkAndApply demo_kit demo_updater ''amd64'') demo_disk = (Inr (ReplacedWith ''v0.2.0''), s')"
proof -
  have o: "Outdated ''v0.1.9'' ''v0.2.0''" by code_simp
  have h: "listed_hash (tar_name ''amd64'') ''AA  recon-agent-linux-amd64.tar.gz'' = Some ''aa''" by code_simp
  have d: "path_dir ''/b/agent'' = ''/b''" by code_simp
  have j: "path_join ''/b'' (''.recon-agent-update-'' @ ''1'' @ ''.tgz'') = ''/b/.recon-agent-update-1.tgz''"
    "path_join ''/b'' (''.recon-agent-new-'' @ ''1'' @ []) = ''/b/.recon-agent-new-1''" by code_simp+
  let ?rel = "\<lparr>rl_tag = ''v0.2.0'', rl_draft = False, rl_pre = False,
       rl_assets = [\<lparr>ra_name = ''recon-agent-linux-amd64.tar.gz'', ra_url = ''t''\<rparr>,
                    \<lparr>ra_name = ''checksums.txt'', ra_url = ''c''\<rparr>]\<rparr>"
  have urls: "assetURL (rl_assets ?rel) (tar_name ''amd64'') = ''t''" "assetURL (rl_assets ?rel) ''checksums.txt'' = ''c''"
    by (simp_all add: assetURL_def tar_name_def find_row_Cons)
  have 1: "run_state (fetchLatest demo_kit demo_updater) demo_disk = (Inr ?rel, demo_disk\<lparr>up_requests := 1\<rparr>)"
    by (simp add: fetchLatest_def demo_updater_def demo_disk_def demo_release_decoded)
  have 2: "run_state (fetchSHA256 demo_kit ''c'' (tar_name ''amd64'')) (demo_disk\<lparr>up_requests := 1\<rparr>)
      = (Inr ''aa'', demo_disk\<lparr>up_requests := 2\<rparr>)"
    using h by (simp add: fetchSHA256_def demo_disk_def read_limited_def)
  have 3: "\<exists>s'. run_state (downloadAndExtract demo_kit demo_updater ''t'' ''aa'' ''amd64'') (demo_disk\<lparr>up_requests := 2\<rparr>)
      = (Inr ''/b/.recon-agent-new-1'', s')"
    by (simp add: downloadAndExtract_def d demo_updater_def demo_disk_def Let_def
        demo_temp [OF j(1)] demo_temp [OF j(2)] unpack_def read_limited_def tar_limit_def write_file_def
        run_disk_op touch_file_def extract_binary_def extract_entry_def find_row_Cons arch_path_def binary_limit_def
        remove_file_def lookup_simps)
  then obtain s' where 3: "run_state (downloadAndExtract demo_kit demo_updater ''t'' ''aa'' ''amd64'') (demo_disk\<lparr>up_requests := 2\<rparr>)
      = (Inr ''/b/.recon-agent-new-1'', s')" by blast
  have "ud_current demo_updater = ''v0.1.9''" "\<not> uo_prerelease (ud_opts demo_updater)" by (simp_all add: demo_updater_def)
  then show ?thesis
    using 1 2 3 o urls by (simp add: checkAndApply_def Let_def install_def rename_file_def run_disk_op)
qed

lemma self_update_verified_witness:
  "\<exists>s' rel. run_state (checkAndApply demo_kit demo_updater ''amd64'') demo_disk = (Inr (ReplacedWith ''v0.2.0''), s')
     \<and> applicable demo_kit demo_updater rel \<and> rl_tag rel = ''v0.2.0''"
proof -
  obtain s' where s': "run_state (checkAndApply demo_kit demo_updater ''amd64'') demo_disk = (Inr (ReplacedWith ''v0.2.0''), s')"
    using demo_update by blast
  from self_update_verified [OF s'] s' show ?thesis by auto
qed

end
