(* ===== verification/Agent_Conn.thy ===== *)
theory Agent_Conn
  imports Agent_Runner Agent_Update Net_Addr Api_Server
begin

text \<open>
  \<open>agent/conn/*.go\<close>: the agent's configuration, the facts it advertises, its hello, its session
  with the hub and the reconnection loop. YAML decoding, TLS and the gRPC client are outside: a
  decoded configuration, and how a connection attempt and the stream end, are inputs. The agent's
  messages are the ones the hub's server takes (\<open>Api_Server\<close>).
\<close>

section \<open>Configuration\<close>

record hub_config =
  hc_endpoint :: string
  hc_ca :: string
  hc_cert :: string
  hc_key :: string
  hc_token_file :: string
  hc_token_inline :: string
  hc_server_name :: string

record runtime_config =
  rc_max :: int
  rc_artifacts :: string
  rc_timeout :: int
  rc_heartbeat :: int

record agent_config =
  ac_hub :: hub_config
  ac_id :: string
  ac_labels :: strmap
  ac_runtime :: runtime_config
  ac_update_enabled :: bool
  ac_update :: update_options

definition fill_runtime :: "runtime_config \<Rightarrow> runtime_config" where
  "fill_runtime r =
     r\<lparr>rc_heartbeat := (if rc_heartbeat r = 0 then 15 * second else rc_heartbeat r),
       rc_timeout := (if rc_timeout r = 0 then 30 * second else rc_timeout r),
       rc_max := (if rc_max r = 0 then 4 else rc_max r)\<rparr>"

definition fill_update :: "update_options \<Rightarrow> update_options" where
  "fill_update u =
     (let i = (if uo_interval u \<le> 0 then 3600 * second else uo_interval u)
      in u\<lparr>uo_interval := (if i < 600 * second then 600 * second else i),
           uo_binary := (if uo_binary u = [] then ''/usr/local/bin/recon-agent'' else uo_binary u)\<rparr>)"

text \<open>The file, what the YAML decoder makes of it, and the host's name (empty when unknown).\<close>

definition LoadConfig :: "string + bytes \<Rightarrow> (bytes \<Rightarrow> string + agent_config) \<Rightarrow> string \<Rightarrow> cerr + agent_config" where
  "LoadConfig body yaml hostname =
     (case body of
        Inl e \<Rightarrow> Inl (Wrap ''read config'' (Msg e))
      | Inr b \<Rightarrow>
          (case yaml b of
             Inl e \<Rightarrow> Inl (Wrap ''parse yaml'' (Msg e))
           | Inr c \<Rightarrow>
               if hc_endpoint (ac_hub c) = [] then Inl (Msg ''hub.endpoint required'')
               else Inr (c\<lparr>ac_id := (if ac_id c = [] then hostname else ac_id c),
                           ac_runtime := fill_runtime (ac_runtime c),
                           ac_update := fill_update (ac_update c)\<rparr>)))"

section \<open>Facts\<close>

record interface =
  nf_up :: bool
  nf_loopback :: bool
  nf_addrs :: "string + ip list"

record platform =
  pt_os :: string
  pt_arch :: string
  pt_cpus :: int
  pt_hostname :: "string option"
  pt_interfaces :: "string + interface list"

definition ipv4_text :: "int \<times> int \<times> int \<times> int \<Rightarrow> string" where
  "ipv4_text q = (case q of (a, b, c, d) \<Rightarrow> join ''.'' (map int_text [a, b, c, d]))"

fun first_ipv4 :: "ip list \<Rightarrow> string option" where
  "first_ipv4 [] = None"
| "first_ipv4 (a # as) =
     (if IsLoopback a \<or> IsLinkLocalUnicast a then first_ipv4 as
      else (case To4 a of Some q \<Rightarrow> Some (ipv4_text q) | None \<Rightarrow> first_ipv4 as))"

fun primary_of :: "interface list \<Rightarrow> string" where
  "primary_of [] = []"
| "primary_of (i # is) =
     (if \<not> nf_up i \<or> nf_loopback i then primary_of is
      else (case nf_addrs i of
              Inl _ \<Rightarrow> primary_of is
            | Inr as \<Rightarrow> (case first_ipv4 as of Some t \<Rightarrow> t | None \<Rightarrow> primary_of is)))"

definition primaryIP :: "platform \<Rightarrow> string" where
  "primaryIP p = (case pt_interfaces p of Inl _ \<Rightarrow> [] | Inr is \<Rightarrow> primary_of is)"

definition AutoFacts :: "platform \<Rightarrow> strmap" where
  "AutoFacts p =
     [(''os'', pt_os p), (''arch'', pt_arch p), (''cpu_count'', int_text (pt_cpus p))]
     @ (case pt_hostname p of Some h \<Rightarrow> [(''hostname'', h)] | None \<Rightarrow> [])
     @ (if primaryIP p = [] then [] else [(''primary_ip'', primaryIP p)])"

section \<open>The hello\<close>

fun cap_text :: "capability \<Rightarrow> string" where
  "cap_text CapSudoJournalctl = ''SUDO_JOURNALCTL''"
| "cap_text CapSudoSS = ''SUDO_SS''"
| "cap_text CapSudoIptables = ''SUDO_IPTABLES''"
| "cap_text CapDACReadSearch = ''CAP_DAC_READ_SEARCH''"
| "cap_text CapNetRaw = ''CAP_NET_RAW''"

definition param_json :: "param_spec \<Rightarrow> json" where
  "param_json p = JObj
     ([(''name'', JStr (ps_name p)), (''type'', JStr (ps_type p))]
      @ (if ps_required p then [(''required'', JBool True)] else [])
      @ omit_str ''default'' (ps_default p) @ [(''description'', JStr (ps_description p))])"

definition manifest_json :: "probe_manifest \<Rightarrow> json" where
  "manifest_json m = JObj
     ([(''name'', JStr (pm_name m)), (''version'', JStr (pm_version m)), (''category'', JStr (pm_category m)),
       (''description'', JStr (pm_description m)), (''reads'', slice_json JStr (pm_reads m))]
      @ (if pm_requires m = [] then [] else [(''requires'', JArr (map (\<lambda>c. JStr (cap_text c)) (pm_requires m)))])
      @ (if pm_params m = [] then [] else [(''params_schema'', JArr (map param_json (pm_params m)))]))"

definition wire_of :: "probe_manifest \<Rightarrow> wire_manifest" where
  "wire_of m =
     \<lparr>wm_name = pm_name m, wm_version = pm_version m, wm_category = pm_category m,
      wm_description = pm_description m, wm_reads = pm_reads m, wm_requires = map cap_text (pm_requires m),
      wm_params_schema = JText (manifest_json m), wm_output_schema = jempty\<rparr>"

definition hello_labels :: "strmap \<Rightarrow> strmap \<Rightarrow> strmap" where
  "hello_labels own facts = fold (\<lambda>(k, v) m. map_put k v m) facts own"

definition hello_of :: "string \<Rightarrow> agent_config \<Rightarrow> platform \<Rightarrow> registry \<Rightarrow> hello" where
  "hello_of version cfg p g =
     \<lparr>hl_agent = ac_id cfg, hl_version = version, hl_labels = hello_labels (ac_labels cfg) (AutoFacts p),
      hl_facts = AutoFacts p, hl_collectors = map wire_of (Manifests g)\<rparr>"

text \<open>A tick of the capability probe: the registry, and the hello that is sent again on a change.\<close>

definition probe_tick ::
  "string \<Rightarrow> agent_config \<Rightarrow> platform \<Rightarrow> stat \<Rightarrow> whitelist \<Rightarrow> registry \<Rightarrow> hello option \<times> registry" where
  "probe_tick version cfg p st wl g =
     (case RefreshAvailability st wl g of
        (d, g') \<Rightarrow> (if Changed d then Some (hello_of version cfg p g') else None, g'))"

section \<open>The session\<close>

definition serverName :: "hub_config \<Rightarrow> string" where
  "serverName h =
     (if hc_server_name h \<noteq> [] then hc_server_name h
      else (case last_index (CHR '':'') (hc_endpoint h) of
              Some i \<Rightarrow> take i (hc_endpoint h)
            | None \<Rightarrow> hc_endpoint h))"

datatype hub_msg = HubCollect collect_req | HubCancel string | HubConfig strmap | HubOther

definition receive :: "hub_msg \<Rightarrow> agent_runner \<Rightarrow> agent_runner" where
  "receive m r =
     (case m of
        HubCollect req \<Rightarrow> Handle_collect req r
      | HubCancel rid \<Rightarrow> snd (Cancel_request rid r)
      | _ \<Rightarrow> r)"

text \<open>
  How an attempt goes: the error of the client's credentials, of the dialling and of the call,
  whether the connection became ready in time, the error of the hello, and the end of the stream
  (no error is its regular end).
\<close>

record conn_attempt =
  tr_creds :: "cerr option"
  tr_dial :: "cerr option"
  tr_connect :: "cerr option"
  tr_ready :: "string option"
  tr_hello :: "cerr option"
  tr_stream :: "hub_msg list"
  tr_end :: "cerr option"

definition client_session :: "agent_config \<Rightarrow> conn_attempt \<Rightarrow> cerr option \<times> agent_runner option" where
  "client_session cfg a =
     (case tr_creds a of Some e \<Rightarrow> (Some (Wrap ''mtls'' e), None) | None \<Rightarrow>
     (case tr_dial a of Some e \<Rightarrow> (Some (Wrap ''dial'' e), None) | None \<Rightarrow>
     (case tr_connect a of Some e \<Rightarrow> (Some (Wrap ''connect rpc'' e), None) | None \<Rightarrow>
     (case tr_ready a of
        Some st \<Rightarrow> (Some (Msg (''dial timeout to '' @ hc_endpoint (ac_hub cfg) @ '': state='' @ st)), None)
      | None \<Rightarrow>
     (case tr_hello a of Some e \<Rightarrow> (Some (Wrap ''hello'' e), None) | None \<Rightarrow>
        (tr_end a, Some (fold receive (tr_stream a)
                     (New_runner (rc_max (ac_runtime cfg)) (rc_timeout (ac_runtime cfg))))))))))"

section \<open>The heartbeat\<close>

text \<open>
  The heartbeats of a session, by how the send of each tick ends; the first that fails is the last.
  A ticker cannot be made with an interval that is not positive.
\<close>

fun heartbeats :: "cerr option list \<Rightarrow> wire_msg list" where
  "heartbeats [] = []"
| "heartbeats (None # rest) = Heartbeat # heartbeats rest"
| "heartbeats (Some _ # rest) = []"

definition heartbeatLoop :: "agent_config \<Rightarrow> cerr option list \<Rightarrow> string + wire_msg list" where
  "heartbeatLoop cfg sends =
     (if rc_heartbeat (ac_runtime cfg) \<le> 0 then Inl ''non-positive interval for NewTicker''
      else Inr (heartbeats sends))"

lemma loaded_heartbeat_runs:
  "LoadConfig body yaml host = Inr c \<Longrightarrow> body = Inr b \<Longrightarrow> yaml b = Inr raw
   \<Longrightarrow> heartbeatLoop c sends = (if rc_heartbeat (ac_runtime raw) < 0 then Inl ''non-positive interval for NewTicker''
                              else Inr (heartbeats sends))"
  by (auto simp: LoadConfig_def heartbeatLoop_def fill_runtime_def second_def split: if_splits)

section \<open>Reconnecting\<close>

definition maxBackoff :: int where
  "maxBackoff = 30 * second"

text \<open>The random number is below its bound.\<close>

definition jitter :: "int \<Rightarrow> int \<Rightarrow> int" where
  "jitter d r = d div 2 + r mod (d div 2 + 1)"

definition context_error :: "cerr option \<Rightarrow> bool" where
  "context_error e =
     (case e of None \<Rightarrow> False | Some x \<Rightarrow> root_cause x = context_canceled \<or> root_cause x = deadline_exceeded)"

text \<open>
  \<open>Run\<close>, by the sessions' ends and a random number each: the waits between the attempts, and what
  it returns if a session ended with the context. The program's end while it waits is the end of
  the list.
\<close>

fun connection_loop :: "int \<Rightarrow> (cerr option \<times> int) list \<Rightarrow> int list \<times> cerr option" where
  "connection_loop b [] = ([], None)"
| "connection_loop b ((e, r) # rest) =
     (if context_error e then ([], e)
      else (case connection_loop (min (b * 2) maxBackoff) rest of
              (ws, res) \<Rightarrow> (jitter b r # ws, res)))"

definition Run_client :: "(cerr option \<times> int) list \<Rightarrow> int list \<times> cerr option" where
  "Run_client = connection_loop second"

section \<open>The reconnection loop\<close>

definition backoff_at :: "nat \<Rightarrow> int" where
  "backoff_at n = min (2 ^ n * second) maxBackoff"

lemma jitter_bounds: "0 \<le> d \<Longrightarrow> d div 2 \<le> jitter d r \<and> jitter d r \<le> d"
proof -
  assume "0 \<le> d"
  then have "0 < d div 2 + 1" by simp
  then have "0 \<le> r mod (d div 2 + 1)" "r mod (d div 2 + 1) < d div 2 + 1"
    by (rule pos_mod_sign, rule pos_mod_bound)
  moreover have "d div 2 + d div 2 \<le> d" by simp
  ultimately show ?thesis by (simp add: jitter_def)
qed

lemma backoff_step: "min (backoff_at n * 2) maxBackoff = backoff_at (Suc n)"
  by (auto simp: backoff_at_def maxBackoff_def second_def min_def)

lemma backoff_nonneg: "0 \<le> backoff_at n"
  by (simp add: backoff_at_def maxBackoff_def second_def)

lemma connection_loop_bounds:
  "(\<forall>i < length (fst (connection_loop (backoff_at n) xs)).
      backoff_at (n + i) div 2 \<le> fst (connection_loop (backoff_at n) xs) ! i
      \<and> fst (connection_loop (backoff_at n) xs) ! i \<le> backoff_at (n + i))
   \<and> (case snd (connection_loop (backoff_at n) xs) of
        None \<Rightarrow> length (fst (connection_loop (backoff_at n) xs)) = length xs
          \<and> list_all (\<lambda>x. \<not> context_error (fst x)) xs
      | Some e \<Rightarrow> context_error (Some e))"
proof (induction xs arbitrary: n)
  case (Cons x xs)
  obtain e r where x: "x = (e, r)" by fastforce
  show ?case
  proof (cases "context_error e")
    case True
    then show ?thesis by (cases e) (simp_all add: x context_error_def)
  next
    case False
    obtain ws res where w: "connection_loop (backoff_at (Suc n)) xs = (ws, res)" by fastforce
    have "connection_loop (backoff_at n) (x # xs) = (jitter (backoff_at n) r # ws, res)"
      using False by (simp add: x backoff_step w)
    with Cons.IH [of "Suc n"] w jitter_bounds [OF backoff_nonneg, of n r] False show ?thesis
      by (auto simp: x nth_Cons split: nat.split option.splits)
  qed
qed simp

text \<open>
  The client never gives up on its own and never floods the hub: whatever ends its sessions,
  it goes on reconnecting until an end is the program's own (a cancelled or expired context), and
  the n-th wait is between half of and the whole of the n-th power of two in seconds, capped at
  thirty seconds. (The cap is never left again: a long session does not reset it.)
\<close>
theorem reconnect_backoff:
  "list_all (\<lambda>i. backoff_at i div 2 \<le> fst (Run_client xs) ! i \<and> fst (Run_client xs) ! i \<le> backoff_at i)
      [0..<length (fst (Run_client xs))]
   \<and> (case snd (Run_client xs) of
        None \<Rightarrow> length (fst (Run_client xs)) = length xs \<and> list_all (\<lambda>x. \<not> context_error (fst x)) xs
      | Some e \<Rightarrow> context_error (Some e))"
proof -
  have "backoff_at 0 = second" by (simp add: backoff_at_def maxBackoff_def second_def)
  note b = connection_loop_bounds [of 0 xs, unfolded this, folded Run_client_def]
  show ?thesis
    by (rule conjI [OF _ conjunct2 [OF b]]) (use conjunct1 [OF b] in \<open>simp add: list_all_iff\<close>)
qed

section \<open>What the hub lists of an agent\<close>

lemma insert_manifests_fresh:
  "distinct (map mf_name mfs) \<Longrightarrow> \<forall>r \<in> set tbl. mf_host r = hid \<longrightarrow> mf_name r \<notin> mf_name ` set mfs
   \<Longrightarrow> insert_manifests hid mfs tbl = Inr (tbl @ map (\<lambda>m. m\<lparr>mf_host := hid\<rparr>) mfs)"
proof (induction mfs arbitrary: tbl)
  case (Cons m mfs)
  have "find_row (\<lambda>r. mf_host r = hid \<and> mf_name r = mf_name m) tbl = None"
    using Cons.prems(2) by (auto simp: find_row_None_iff)
  moreover have "insert_manifests hid mfs (tbl @ [m\<lparr>mf_host := hid\<rparr>])
      = Inr ((tbl @ [m\<lparr>mf_host := hid\<rparr>]) @ map (\<lambda>m. m\<lparr>mf_host := hid\<rparr>) mfs)"
    by (rule Cons.IH) (use Cons.prems in auto)
  ultimately show ?case by simp
qed simp

lemma Upsert_present:
  assumes "faults s = []"
  shows "\<exists>hs. run_state (UpsertHost h) s = (Inr (), s\<lparr>hosts := hs\<rparr>) \<and> find_row (\<lambda>r. h_id r = h_id h) hs \<noteq> None"
proof (cases "find_row (\<lambda>r. h_id r = h_id h) (hosts s)")
  case None
  with assms show ?thesis
    by (auto simp: UpsertHost_def sql_write_def find_row_append find_row_Cons)
next
  case (Some r)
  with assms show ?thesis
    by (auto simp: UpsertHost_def sql_write_def lookup_simps)
qed

lemma applyHello_lists:
  assumes "faults s = []" and "distinct (map wm_name (hl_collectors hl))"
  shows "\<exists>s'. run_state (applyHello hl fp) s = (Inr (), s') \<and> faults s' = []
    \<and> filter (\<lambda>r. mf_host r = hl_agent hl) (manifests s')
      = map (\<lambda>m. \<lparr>mf_host = hl_agent hl, mf_name = wm_name m, mf_version = wm_version m, mf_json = envelope m\<rparr>)
          (hl_collectors hl)"
proof -
  let ?h = "\<lparr>h_id = hl_agent hl, h_version = hl_version hl, h_labels = hl_labels hl, h_facts = hl_facts hl,
      h_fingerprint = fp, h_first_seen = 0, h_last_seen = 0, h_status = HostOnline\<rparr>"
  let ?mf = "\<lambda>m. \<lparr>mf_host = hl_agent hl, mf_name = wm_name m, mf_version = wm_version m, mf_json = envelope m\<rparr>"
  obtain hs where u: "run_state (UpsertHost ?h) s = (Inr (), s\<lparr>hosts := hs\<rparr>)"
    "find_row (\<lambda>r. h_id r = hl_agent hl) hs \<noteq> None"
    using Upsert_present [OF assms(1), of ?h] by auto
  let ?old = "delete_rows (\<lambda>r. mf_host r = hl_agent hl) (manifests s)"
  have "insert_manifests (hl_agent hl) (map ?mf (hl_collectors hl)) ?old
      = Inr (?old @ map (\<lambda>m. m\<lparr>mf_host := hl_agent hl\<rparr>) (map ?mf (hl_collectors hl)))"
    by (rule insert_manifests_fresh) (use assms(2) in \<open>simp_all add: comp_def\<close>)
  then have ins: "insert_manifests (hl_agent hl) (map ?mf (hl_collectors hl)) ?old
      = Inr (?old @ map ?mf (hl_collectors hl))" by (simp add: comp_def)
  have "run_state (applyHello hl fp) s = (Inr (), s\<lparr>hosts := hs, manifests := ?old @ map ?mf (hl_collectors hl)\<rparr>)"
    using u assms(1) ins by (simp add: applyHello_def ReplaceCollectorManifests_def)
  moreover have "filter (\<lambda>r. mf_host r = hl_agent hl) ?old = []"
    by (simp add: delete_rows_def filter_empty_conv)
  moreover have "filter (\<lambda>r. mf_host r = hl_agent hl) (map ?mf (hl_collectors hl)) = map ?mf (hl_collectors hl)"
    by (simp add: filter_map comp_def)
  ultimately show ?thesis using assms(1) by auto
qed

text \<open>
  C35: After the hub has taken the hello of an agent, the collectors it lists for that host
  are, in the order of their names and once each, exactly those visible in the agent's registry
  when it sent the hello, and each of them is one the agent's runner then finds.
\<close>
theorem hub_lists_what_the_agent_finds:
  assumes "registry_ok g" and "faults s = []"
  shows "\<exists>s' mfs. run_state (applyHello (hello_of version cfg p g) fp) s = (Inr (), s')
    \<and> run_state (ListCollectorManifests (ac_id cfg)) s' = (Inr mfs, s')
    \<and> map mf_name mfs = sorted_list_of_set (visible g)
    \<and> list_all (\<lambda>m. Get_collector (mf_name m) g \<noteq> None) mfs"
proof -
  let ?hl = "hello_of version cfg p g"
  have names: "map wm_name (hl_collectors ?hl) = sorted_list_of_set (visible g)"
    using Manifests_visible [OF assms(1)] by (simp add: hello_of_def wire_of_def comp_def)
  obtain s' where s': "run_state (applyHello ?hl fp) s = (Inr (), s')" "faults s' = []"
    "filter (\<lambda>r. mf_host r = ac_id cfg) (manifests s')
      = map (\<lambda>m. \<lparr>mf_host = ac_id cfg, mf_name = wm_name m, mf_version = wm_version m, mf_json = envelope m\<rparr>)
          (hl_collectors ?hl)"
    using applyHello_lists [OF assms(2), of ?hl fp] names by (auto simp: hello_of_def)
  let ?rows = "filter (\<lambda>r. mf_host r = ac_id cfg) (manifests s')"
  have rn: "map mf_name ?rows = sorted_list_of_set (visible g)" using names by (simp add: s'(3) comp_def)
  then have "sorted (map mf_name ?rows)" by simp
  then have srt: "sort_key mf_name ?rows = ?rows" by (rule sort_key_id_if_sorted)
  have "run_state (ListCollectorManifests (ac_id cfg)) s' = (Inr ?rows, s')"
    using s'(2) srt by (simp add: ListCollectorManifests_def sql_read_def)
  moreover have "list_all (\<lambda>m. Get_collector (mf_name m) g \<noteq> None) ?rows"
  proof -
    have "mf_name ` set ?rows = visible g"
      using arg_cong [OF rn, of set] by (simp add: visible_def del: set_filter)
    then show ?thesis using visible_found [of _ g] by (fastforce simp: list_all_iff)
  qed
  ultimately show ?thesis using s'(1) rn by blast
qed

end
