(* ===== verification/Agent_Enroll.thy ===== *)
theory Agent_Enroll
  imports Agent_Conn Api_Safety
begin

text \<open>
  \<open>agent/conn/enroll.go\<close>, run against the hub's \<open>Enroll\<close>: the state is the agent's disk and the
  hub's database. Key generation, the certificate request and the encoding of the private key are
  the parameter \<open>keyring\<close>; the network may lose the request or the reply.
\<close>

section \<open>The exchange\<close>

record 'z enrolling = disk +
  en_hub :: "'z db_scheme"

datatype rpc_err = Status code | Transport

datatype rpc_fate = Delivered | RequestLost | ReplyLost

record keyring =
  kr_key :: "string + bytes"
  kr_csr :: "bytes \<Rightarrow> string \<Rightarrow> string + bytes"
  kr_pem :: "bytes \<Rightarrow> string + bytes"
  kr_text :: "rpc_err \<Rightarrow> string"

definition call_hub ::
  "(string \<Rightarrow> string) \<Rightarrow> pki \<Rightarrow> rpc_fate \<Rightarrow> enroll_request \<Rightarrow> ('z enrolling, rpc_err + bytes \<times> bytes) state" where
  "call_hub hash pk fate req = State (\<lambda>s.
     if fate = RequestLost then (Inl Transport, s)
     else (case run_state (Enroll hash pk req) (en_hub s) of
             (r, h) \<Rightarrow> (if fate = ReplyLost then Inl Transport
                        else (case r of Inl c \<Rightarrow> Inl (Status c) | Inr x \<Rightarrow> Inr x),
                        s\<lparr>en_hub := h\<rparr>)))"

definition readToken :: "disk_faults \<Rightarrow> hub_config \<Rightarrow> ('z enrolling, cerr + string) state" where
  "readToken F h =
     (if hc_token_inline h \<noteq> [] then return (Inr (trim_space (hc_token_inline h)))
      else if hc_token_file h = [] then return (Inl (Msg ''no bootstrap_token (file or inline) set in config''))
      else unless_err (read_file F (hc_token_file h)) (\<lambda>b. return (Inr (trim_space b))))"

definition of_library :: "string + 'a \<Rightarrow> cerr + 'a" where
  "of_library r = (case r of Inl e \<Rightarrow> Inl (Msg e) | Inr x \<Rightarrow> Inr x)"

text \<open>What follows the hub's answer: the three files, and the token's file goes.\<close>

definition save_identity :: "disk_faults \<Rightarrow> keyring \<Rightarrow> hub_config \<Rightarrow> bytes \<Rightarrow> bytes \<times> bytes \<Rightarrow> ('z enrolling, cerr + unit) state" where
  "save_identity F kr h key ans =
     unless_err (writeFile F (hc_cert h) (fst ans)) (\<lambda>_.
     unless_err (writeFile F (hc_ca h) (snd ans)) (\<lambda>_.
     unless_err (return (of_library (kr_pem kr key))) (\<lambda>pem.
     unless_err (writeFile F (hc_key h) pem) (\<lambda>_. do {
       t \<leftarrow> fileExists (hc_token_file h);
       _ \<leftarrow> (if t then remove_file F (hc_token_file h) else return ());
       return (Inr ())
     }))))"

definition exchange ::
  "disk_faults \<Rightarrow> keyring \<Rightarrow> rpc_fate \<Rightarrow> (string \<Rightarrow> string) \<Rightarrow> pki \<Rightarrow> agent_config \<Rightarrow> string
   \<Rightarrow> ('z enrolling, cerr + unit) state" where
  "exchange F kr fate hash pk cfg token =
     unless_err (return (of_library (kr_key kr))) (\<lambda>key.
     unless_err (return (of_library (kr_csr kr key (ac_id cfg)))) (\<lambda>csr. do {
       r \<leftarrow> call_hub hash pk fate \<lparr>er_token = token, er_agent = ac_id cfg, er_csr = csr\<rparr>;
       (case r of
          Inl e \<Rightarrow> do {
            _ \<leftarrow> (if e = Status PermissionDenied \<and> hc_token_file (ac_hub cfg) \<noteq> []
                  then remove_file F (hc_token_file (ac_hub cfg)) else return ());
            return (Inl (Wrap ''enroll RPC'' (Msg (kr_text kr e))))
          }
        | Inr ans \<Rightarrow> save_identity F kr (ac_hub cfg) key ans)
     }))"

definition Enroll_agent ::
  "disk_faults \<Rightarrow> keyring \<Rightarrow> rpc_fate \<Rightarrow> (string \<Rightarrow> string) \<Rightarrow> pki \<Rightarrow> agent_config \<Rightarrow> ('z enrolling, cerr + unit) state" where
  "Enroll_agent F kr fate hash pk cfg = do {
     a \<leftarrow> fileExists (hc_cert (ac_hub cfg));
     b \<leftarrow> fileExists (hc_key (ac_hub cfg));
     c \<leftarrow> fileExists (hc_ca (ac_hub cfg));
     if a \<and> b \<and> c then return (Inr ())
     else do {
       t \<leftarrow> fileExists (hc_token_file (ac_hub cfg));
       if hc_token_inline (ac_hub cfg) = [] \<and> \<not> t
       then return (Inl (Msg (''agent state has no client cert AND no bootstrap token '' @ em_dash
              @ '' operator must issue a fresh token (see hub /hosts '' @ [CHR 0xE2, CHR 0x86, CHR 0x92] @ '' Quick install)'')))
       else unless_err (wrapped ''bootstrap token'' (readToken F (ac_hub cfg))) (exchange F kr fate hash pk cfg)
     }
   }"

section \<open>What success means\<close>

text \<open>The configured paths are set, and distinct together with the temporary ones.\<close>

definition paths_ok :: "hub_config \<Rightarrow> bool" where
  "paths_ok h =
     (let ps = [hc_cert h, hc_ca h, hc_key h]; ts = map (\<lambda>p. p @ ''.tmp'') ps
      in [] \<notin> set ps \<and> distinct (ps @ ts) \<and> hc_token_file h \<notin> set (ps @ ts))"

lemma run_call_hub:
  "run_state (call_hub hash pk fate req) s =
     (if fate = RequestLost then (Inl Transport, s)
      else (case run_state (Enroll hash pk req) (en_hub s) of
             (r, h) \<Rightarrow> (if fate = ReplyLost then Inl Transport
                        else (case r of Inl c \<Rightarrow> Inl (Status c) | Inr x \<Rightarrow> Inr x),
                        s\<lparr>en_hub := h\<rparr>)))"
  by (simp add: call_hub_def)

lemma disk_keeps_hub:
  "en_hub (snd (run_state (writeFile F p b) s)) = en_hub s"
  "en_hub (snd (run_state (remove_file F p) s)) = en_hub s"
  by (auto simp: writeFile_def write_file_def rename_file_def remove_file_def run_disk_op split: option.split prod.split sum.split)

lemma save_identity_done:
  assumes p: "paths_ok h" and r: "run_state (save_identity F kr h key ans) s = (Inr (), s')"
  shows "\<exists>pem. kr_pem kr key = Inr pem \<and> stored (hc_cert h) (fst ans) s' \<and> stored (hc_ca h) (snd ans) s'
    \<and> stored (hc_key h) pem s' \<and> en_hub s' = en_hub s"
proof -
  note r = r [unfolded save_identity_def]
  from r obtain s1 where 1: "run_state (writeFile F (hc_cert h) (fst ans)) s = (Inr (), s1)"
    and r1: "run_state (unless_err (writeFile F (hc_ca h) (snd ans)) (\<lambda>_.
       unless_err (return (of_library (kr_pem kr key))) (\<lambda>pem.
       unless_err (writeFile F (hc_key h) pem) (\<lambda>_. do {
         t \<leftarrow> fileExists (hc_token_file h);
         _ \<leftarrow> (if t then remove_file F (hc_token_file h) else return ());
         return (Inr ())
       })))) s1 = (Inr (), s')" by (rule unless_err_unitD)
  from r1 obtain s2 where 2: "run_state (writeFile F (hc_ca h) (snd ans)) s1 = (Inr (), s2)"
    and r2: "run_state (unless_err (return (of_library (kr_pem kr key))) (\<lambda>pem.
       unless_err (writeFile F (hc_key h) pem) (\<lambda>_. do {
         t \<leftarrow> fileExists (hc_token_file h);
         _ \<leftarrow> (if t then remove_file F (hc_token_file h) else return ());
         return (Inr ())
       }))) s2 = (Inr (), s')" by (rule unless_err_unitD)
  obtain pem where pem: "kr_pem kr key = Inr pem"
    using r2 by (auto simp: of_library_def split: sum.splits)
  with r2 have r3: "run_state (unless_err (writeFile F (hc_key h) pem) (\<lambda>_. do {
         t \<leftarrow> fileExists (hc_token_file h);
         _ \<leftarrow> (if t then remove_file F (hc_token_file h) else return ());
         return (Inr ())
       })) s2 = (Inr (), s')" by (simp add: of_library_def)
  then obtain s3 where 3: "run_state (writeFile F (hc_key h) pem) s2 = (Inr (), s3)"
    and r4: "run_state (do {
         t \<leftarrow> fileExists (hc_token_file h);
         _ \<leftarrow> (if t then remove_file F (hc_token_file h) else return ());
         return (Inr ())
       }) s3 = (Inr () :: cerr + unit, s')" by (rule unless_err_unitD)
  have s': "s' = snd (run_state (if map_of (ds_files s3) (hc_token_file h) \<noteq> None \<and> hc_token_file h \<noteq> []
        then remove_file F (hc_token_file h) else return ()) s3)"
    using r4 by (auto split: prod.splits if_splits)
  note d = p [unfolded paths_ok_def Let_def, simplified]
  have k2: "keeps (stored (hc_cert h) c) (writeFile F (hc_ca h) b)" for c b by (rule keeps_writeFile) (use d in auto)
  have k3: "keeps (stored (hc_cert h) c) (writeFile F (hc_key h) b)" for c b by (rule keeps_writeFile) (use d in auto)
  have l3: "keeps (stored (hc_ca h) c) (writeFile F (hc_key h) b)" for c b by (rule keeps_writeFile) (use d in auto)
  have fin: "stored q c s'" if "hc_token_file h \<noteq> q" "stored q c s3" for q c
  proof -
    have "keeps (stored q c) (remove_file F (hc_token_file h))" using that(1) by (rule keeps_remove)
    from keepsD [OF this that(2)] that(2) show ?thesis by (simp add: s')
  qed
  have s1: "stored (hc_cert h) (fst ans) s1" using writeFile_done [OF 1] .
  have s2: "stored (hc_cert h) (fst ans) s2" "stored (hc_ca h) (snd ans) s2"
    using keepsD [OF k2 s1] writeFile_done [OF 2] 2 by (metis snd_conv)+
  have s3: "stored (hc_cert h) (fst ans) s3" "stored (hc_ca h) (snd ans) s3" "stored (hc_key h) pem s3"
    using keepsD [OF k3 s2(1)] keepsD [OF l3 s2(2)] writeFile_done [OF 3] 3 by (metis snd_conv)+
  have "hc_token_file h \<noteq> hc_cert h" "hc_token_file h \<noteq> hc_ca h" "hc_token_file h \<noteq> hc_key h" using d by auto
  then have "stored (hc_cert h) (fst ans) s'" "stored (hc_ca h) (snd ans) s'" "stored (hc_key h) pem s'"
    using s3 fin by blast+
  moreover have "en_hub s' = en_hub s"
    using disk_keeps_hub(1) [of F "hc_cert h" "fst ans" s] disk_keeps_hub(1) [of F "hc_ca h" "snd ans" s1]
      disk_keeps_hub(1) [of F "hc_key h" pem s2] disk_keeps_hub(2) [of F "hc_token_file h" s3] 1 2 3
    by (simp add: s')
  ultimately show ?thesis using pem by blast
qed

lemma exchange_done:
  assumes "paths_ok (ac_hub cfg)" and "run_state (exchange F kr fate hash pk cfg token) s = (Inr (), s')"
  shows "\<exists>key csr pem cert h. kr_key kr = Inr key \<and> kr_csr kr key (ac_id cfg) = Inr csr \<and> kr_pem kr key = Inr pem
    \<and> run_state (Enroll hash pk \<lparr>er_token = token, er_agent = ac_id cfg, er_csr = csr\<rparr>) (en_hub s) = (Inr (cert, pk_ca pk), h)
    \<and> en_hub s' = h \<and> stored (hc_cert (ac_hub cfg)) cert s' \<and> stored (hc_ca (ac_hub cfg)) (pk_ca pk) s'
    \<and> stored (hc_key (ac_hub cfg)) pem s'"
proof -
  note r = assms(2) [unfolded exchange_def]
  from r obtain key where key: "kr_key kr = Inr key" by (auto simp: of_library_def split: sum.splits)
  with r obtain csr where csr: "kr_csr kr key (ac_id cfg) = Inr csr" by (auto simp: of_library_def split: sum.splits)
  let ?req = "\<lparr>er_token = token, er_agent = ac_id cfg, er_csr = csr\<rparr>"
  obtain x h where e: "run_state (Enroll hash pk ?req) (en_hub s) = (x, h)" by fastforce
  from r key csr e obtain ans where x: "x = Inr ans" "fate = Delivered"
    and save: "run_state (save_identity F kr (ac_hub cfg) key ans) (s\<lparr>en_hub := h\<rparr>) = (Inr (), s')"
    by (cases fate; cases x) (auto simp: of_library_def run_call_hub split: prod.splits)
  from Enroll_answer [OF e [unfolded x(1)]] have "snd ans = pk_ca pk" .
  with save_identity_done [OF assms(1) save] e x key csr show ?thesis by (cases ans) fastforce
qed

lemma enrolled_anew:
  assumes "paths_ok (ac_hub cfg)"
    and "\<not> (\<exists>a b c. stored (hc_cert (ac_hub cfg)) a s \<and> stored (hc_key (ac_hub cfg)) b s \<and> stored (hc_ca (ac_hub cfg)) c s)"
    and "run_state (Enroll_agent F kr fate hash pk cfg) s = (Inr (), s')"
  obtains token key csr pem cert where "kr_key kr = Inr key" "kr_csr kr key (ac_id cfg) = Inr csr" "kr_pem kr key = Inr pem"
    and "run_state (Enroll hash pk \<lparr>er_token = token, er_agent = ac_id cfg, er_csr = csr\<rparr>) (en_hub s) = (Inr (cert, pk_ca pk), en_hub s')"
    and "stored (hc_cert (ac_hub cfg)) cert s'" "stored (hc_ca (ac_hub cfg)) (pk_ca pk) s'" "stored (hc_key (ac_hub cfg)) pem s'"
proof -
  let ?h = "ac_hub cfg"
  have run: "run_state (unless_err (wrapped ''bootstrap token'' (readToken F ?h)) (exchange F kr fate hash pk cfg)) s = (Inr (), s')"
    using assms(2,3) by (auto simp: Enroll_agent_def split: if_splits)
  then obtain token t where tok: "run_state (wrapped ''bootstrap token'' (readToken F ?h)) s = (Inr token, t)"
    and ex: "run_state (exchange F kr fate hash pk cfg token) t = (Inr (), s')" by (rule unless_err_okD)
  have "en_hub t = en_hub s"
    using tok by (auto simp: readToken_def run_read_file split: prod.splits sum.splits if_splits)
  with exchange_done [OF assms(1) ex] show thesis using that by auto
qed


section \<open>Examples\<close>

definition demo_hub_config :: hub_config where
  "demo_hub_config =
     \<lparr>hc_endpoint = ''hub:9443'', hc_ca = ''/a/ca.pem'', hc_cert = ''/a/client.pem'', hc_key = ''/a/client.key'',
      hc_token_file = ''/a/token'', hc_token_inline = [], hc_server_name = []\<rparr>"

definition demo_agent_config :: agent_config where
  "demo_agent_config =
     \<lparr>ac_hub = demo_hub_config, ac_id = ''web-1'', ac_labels = [(''role'', ''web'')],
      ac_runtime = \<lparr>rc_max = 4, rc_artifacts = [], rc_timeout = 30 * second, rc_heartbeat = 15 * second\<rparr>,
      ac_update_enabled = False,
      ac_update = \<lparr>uo_repo = [], uo_interval = 3600 * second, uo_binary = ''/b/agent'', uo_prerelease = False\<rparr>\<rparr>"

definition demo_keyring :: keyring where
  "demo_keyring = \<lparr>kr_key = Inr ''k'', kr_csr = (\<lambda>_ _. Inr ''csr''), kr_pem = (\<lambda>_. Inr ''pem''), kr_text = (\<lambda>_. ''denied'')\<rparr>"

definition demo_before :: "unit enrolling" where
  "demo_before = \<lparr>ds_calls = 0, ds_files = [(''/a/token'', ''tok'')], en_hub = empty_db\<lparr>tokens := [demo_token]\<rparr>\<rparr>"

lemmas demo_enroll_defs =
  demo_before_def demo_agent_config_def demo_hub_config_def demo_keyring_def Enroll_agent_def readToken_def exchange_def
  save_identity_def run_call_hub run_read_file writeFile_def write_file_def rename_file_def remove_file_def run_disk_op
  of_library_def Enroll_def ConsumeBootstrapToken_def VerifyIdentity_def RegisterIdentity_def AuditLog_def
  sql_write_def demo_env_def demo_pki_def demo_token_def empty_db_def Let_def live_token_def lookup_simps

lemma tok_trimmed: "trim_space ''tok'' = ''tok''"
  by code_simp


text \<open>
  The private key is written last. When that write fails, the hub has spent the token and holds
  an active identity the agent has no key for: the next enrollment is refused, and deletes the
  token's file; every one after that stops for want of a token.
\<close>

definition key_write_fails :: disk_faults where
  "key_write_fails n = (if n = 5 then Some ''no space left on device'' else None)"

lemma enrollment_locks_out:
  "let enroll = Enroll_agent key_write_fails demo_keyring Delivered (env_hash demo_env) demo_pki demo_agent_config;
       (r1, s1) = run_state enroll demo_before; (r2, s2) = run_state enroll s1; (r3, s3) = run_state enroll s2
   in \<not> is_ok r1 \<and> active_identity ''web-1'' ''fp:cert:web-1'' (en_hub s1)
      \<and> \<not> is_ok r2 \<and> map_of (ds_files s2) ''/a/token'' = None \<and> \<not> is_ok r3 \<and> map_of (ds_files s3) ''/a/client.key'' = None"
  by (simp add: demo_enroll_defs tok_trimmed key_write_fails_def active_identity_def)

end
