(* ===== verification/Agent_Main.thy ===== *)
theory Agent_Main
  imports Agent_Enroll Agent_Collectors
begin

text \<open>
  The agent's program, \<open>cmd/agent/main.go\<close>: the gateway's table, the first availability probe, the
  configuration, the enrollment and the self-updater, up to the client's loop. A run ends with the
  version printed, a panic of the gateway's registration, an exit code, or the running agent.
\<close>

section \<open>The program\<close>

record agent_outside =
  ao_stamp :: "string \<times> string"
  ao_stat :: stat
  ao_golib :: golib
  ao_disk :: disk_faults
  ao_yaml :: "bytes \<Rightarrow> string + agent_config"
  ao_hostname :: string
  ao_keyring :: keyring
  ao_fate :: rpc_fate
  ao_sha :: "string \<Rightarrow> string"
  ao_pki :: pki

record running_agent =
  ra_table :: whitelist
  ra_registry :: registry
  ra_config :: agent_config
  ra_updater :: "updater option"

datatype agent_end = AgentVersion string | AgentPanics gw_panic | AgentExits int | AgentRuns running_agent

definition config_body :: "disk_faults \<Rightarrow> string \<Rightarrow> ('z, string + bytes) fm" where
  "config_body F path = do {
     r \<leftarrow> read_file F path;
     return (case r of Inr b \<Rightarrow> Inr b | Inl (Msg e) \<Rightarrow> Inl e | Inl _ \<Rightarrow> Inl [])
   }"

definition updater_of :: "agent_outside \<Rightarrow> agent_config \<Rightarrow> updater option" where
  "updater_of k cfg =
     (if ac_update_enabled cfg then New_updater (fst (ao_stamp k)) (ac_update cfg) else None)"

definition agent_main :: "agent_outside \<Rightarrow> bool \<Rightarrow> string \<Rightarrow> ('z enrolling, agent_end) state" where
  "agent_main k showVersion path =
     (if showVersion then return (AgentVersion (Full (ao_stamp k)))
      else (case RegisterDefaults (ao_stat k) Map.empty of
              Inl p \<Rightarrow> return (AgentPanics p)
            | Inr wl \<Rightarrow>
                (let g = snd (RefreshAvailability (ao_stat k) wl (agent_registry (ao_golib k)))
                 in do {
                   body \<leftarrow> config_body (ao_disk k) path;
                   (case LoadConfig body (ao_yaml k) (ao_hostname k) of
                      Inl _ \<Rightarrow> return (AgentExits 2)
                    | Inr cfg \<Rightarrow> do {
                        r \<leftarrow> Enroll_agent (ao_disk k) (ao_keyring k) (ao_fate k) (ao_sha k) (ao_pki k) cfg;
                        (case r of
                           Inl _ \<Rightarrow> return (AgentExits 3)
                         | Inr _ \<Rightarrow> return (AgentRuns \<lparr>ra_table = wl, ra_registry = g, ra_config = cfg,
                                              ra_updater = updater_of k cfg\<rparr>))
                      })
                 })))"

text \<open>How the running agent ends, by what the client's loop returns: an error that only wraps the
  cancellation is another error.\<close>

definition agent_exit :: "cerr option \<Rightarrow> int" where
  "agent_exit e = (case e of None \<Rightarrow> 0 | Some x \<Rightarrow> if x = context_canceled then 0 else 1)"

section \<open>What a running agent has\<close>

lemma enrolled_has_identity:
  assumes "paths_ok (ac_hub cfg)"
    and "run_state (Enroll_agent F kr fate hash pk cfg) s = (Inr (), s')"
  shows "\<exists>cert key ca. stored (hc_cert (ac_hub cfg)) cert s' \<and> stored (hc_key (ac_hub cfg)) key s'
    \<and> stored (hc_ca (ac_hub cfg)) ca s'"
proof (cases "\<exists>a b c. stored (hc_cert (ac_hub cfg)) a s \<and> stored (hc_key (ac_hub cfg)) b s \<and> stored (hc_ca (ac_hub cfg)) c s")
  case True
  then have "s' = s" using assms by (auto simp: Enroll_agent_def paths_ok_def Let_def)
  with True show ?thesis by blast
next
  case False
  then have "run_state (unless_err (wrapped ''bootstrap token'' (readToken F (ac_hub cfg)))
      (exchange F kr fate hash pk cfg)) s = (Inr (), s')"
    using assms(2) by (auto simp: Enroll_agent_def split: if_splits)
  then obtain token t where "run_state (exchange F kr fate hash pk cfg token) t = (Inr (), s')"
    by (rule unless_err_okD)
  from exchange_done [OF assms(1) this] show ?thesis by blast
qed

lemma updater_guarded:
  "updater_of k cfg = Some u \<Longrightarrow> ac_update_enabled cfg \<and> parseRepo (uo_repo (ac_update cfg)) \<noteq> None
     \<and> ud_current u = fst (ao_stamp k)"
  by (auto simp: updater_of_def New_updater_def split: if_splits option.splits)

lemma loaded_config:
  "LoadConfig body yaml host = Inr c \<Longrightarrow> hc_endpoint (ac_hub c) \<noteq> [] \<and> 600 * second \<le> uo_interval (ac_update c)"
  by (auto simp: LoadConfig_def fill_update_def Let_def split: sum.splits if_splits)

text \<open>
  C19: An agent runs only with the read-only table in its gateway, with exactly the collectors
  visible whose tools the first probe found, with its certificate, key and authority on disk, and
  with a self-updater only when the configuration enables one, for a GitHub repository and at most
  every ten minutes.
\<close>
theorem running_agent_is_prepared:
  assumes "run_state (agent_main k version path) s = (AgentRuns a, s')" and "paths_ok (ac_hub (ra_config a))"
  shows "RegisterDefaults (ao_stat k) Map.empty = Inr (ra_table a)
    \<and> visible (ra_registry a) = {n. \<exists>c \<in> set (compiled_in (ao_golib k)). co_name c = n
         \<and> asked (ao_stat k) (ra_table a) c \<noteq> Some False}
    \<and> hc_endpoint (ac_hub (ra_config a)) \<noteq> []
    \<and> (\<exists>cert key ca. stored (hc_cert (ac_hub (ra_config a))) cert s' \<and> stored (hc_key (ac_hub (ra_config a))) key s'
         \<and> stored (hc_ca (ac_hub (ra_config a))) ca s')
    \<and> (\<forall>u. ra_updater a = Some u \<longrightarrow> ac_update_enabled (ra_config a)
         \<and> parseRepo (uo_repo (ac_update (ra_config a))) \<noteq> None \<and> 600 * second \<le> uo_interval (ac_update (ra_config a)))"
proof -
  let ?g = "agent_registry (ao_golib k)"
  obtain wl where wl: "RegisterDefaults (ao_stat k) Map.empty = Inr wl" and v: "\<not> version"
    using assms(1) by (auto simp: agent_main_def split: if_splits sum.splits)
  obtain d g where g: "RefreshAvailability (ao_stat k) wl ?g = (d, g)" by fastforce
  obtain body t where b: "run_state (config_body (ao_disk k) path) s = (body, t)" by fastforce
  obtain cfg where cfg: "LoadConfig body (ao_yaml k) (ao_hostname k) = Inr cfg"
    and en: "run_state (Enroll_agent (ao_disk k) (ao_keyring k) (ao_fate k) (ao_sha k) (ao_pki k) cfg) t = (Inr (), s')"
    and a: "a = \<lparr>ra_table = wl, ra_registry = g, ra_config = cfg, ra_updater = updater_of k cfg\<rparr>"
    using assms(1) by (auto simp: agent_main_def wl v g b Let_def split: sum.splits prod.splits)
  have "visible g = {n. \<exists>c. map_of (rg_collectors ?g) n = Some c \<and> asked (ao_stat k) wl c \<noteq> Some False}"
    by (rule refresh_visible [OF agent_registry_ok _ g]) (simp add: agent_registry_def empty_registry_def)
  also have "\<dots> = {n. \<exists>c \<in> set (compiled_in (ao_golib k)). co_name c = n \<and> asked (ao_stat k) wl c \<noteq> Some False}"
  proof -
    have "distinct (map co_name (compiled_in (ao_golib k)))" unfolding compiled_in_names by simp
    then have "map_of (rg_collectors ?g) n = Some c \<longleftrightarrow> c \<in> set (compiled_in (ao_golib k)) \<and> co_name c = n" for n c
      by (subst map_of_eq_Some_iff) (auto simp: agent_registry_def comp_def)
    then show ?thesis by auto
  qed
  finally show ?thesis
    using wl loaded_config [OF cfg] enrolled_has_identity [OF _ en] updater_guarded [of k cfg] assms(2) by (auto simp: a)
qed

end
