(* ===== verification/Agent_Examples.thy ===== *)
theory Agent_Examples
  imports Agent_Commands Agent_Delivery Agent_Main
begin

text \<open>
  Concrete runs of the agent: collectors against a small host, the registry as the docker
  binary comes and goes, the runner with requests that arrive together, and an answer delivered
  to a hub. They show that the hypotheses of the agent's properties hold at real inputs.
\<close>

section \<open>A host\<close>

definition demo_file :: opened where
  "demo_file = \<lparr>op_size = Inr 9, op_bytes = ''127.0.0.1'', op_fail = None\<rparr>"

definition demo_machine :: machine where
  "demo_machine =
     \<lparr>w_stat = bare_stat, w_proc = (\<lambda>_. StartError ''no such file''),
      w_lstat = (\<lambda>_. Inr False), w_real = Inr,
      w_open = (\<lambda>p. if p = ''/etc/hosts'' then Inr demo_file else Inl ''no such file''),
      w_dir = (\<lambda>_. Inr []), w_statfs = (\<lambda>_. None), w_dial = (\<lambda>_ _. (Some ''refused'', 1)),
      w_addrs = (\<lambda>_ _. (Inl ''no such host'', 1)), w_cname = (\<lambda>_ _. None), w_hostname = ''h'',
      w_uname = None, w_cpus = 2\<rparr>"

definition demo_probe :: probe where
  "demo_probe = \<lparr>pr_world = (\<lambda>_. demo_machine), pr_now = 0, pr_wl = default_whitelist, pr_log = []\<rparr>"

definition demo_golib :: golib where
  "demo_golib = \<lparr>gl_jerr = (\<lambda>_. ''bad JSON''), gl_dur = (\<lambda>_. None), gl_ftext = (\<lambda>_. ''0''),
     gl_sha = (\<lambda>_. ''0''), gl_float = (\<lambda>_. None)\<rparr>"

lemma demo_table: "RegisterDefaults bare_stat Map.empty = Inr (pr_wl demo_probe)"
  by (simp add: demo_probe_def RegisterDefaults_bare)

lemma demo_file_read:
  "pr_log (snd (run_state (co_run (file_read (gl_sha demo_golib)) [(''path'', ''/etc/../etc/hosts'')]) demo_probe))
   = [Linked ''/etc/hosts'', Linked ''/etc/hosts'', Opened ''/etc/hosts'']"
proof -
  have g: "trim_space ''/etc/../etc/hosts'' = ''/etc/../etc/hosts''"
    "path_clean ''/etc/../etc/hosts'' = ''/etc/hosts''" "path_clean ''/etc/hosts'' = ''/etc/hosts''"
    "pathAllowed ''/etc/hosts''" "has_prefix ''/etc/hosts'' ''/''" by code_simp+
  show ?thesis
    by (simp add: file_read_def file_read_run_def param_def g check_path_def chain_def call_host_def
        demo_probe_def demo_machine_def Let_def)
qed

lemma demo_docker_inspect:
  "case fst (run_state (co_run docker_inspect [(''container'', ''a;b'')]) demo_probe) of
     Panicked _ \<Rightarrow> True | _ \<Rightarrow> False"
  by code_simp

section \<open>Collectors\<close>


lemma collector_panics_need_bad_parameter_witness: "\<not> gateway_params_ok [(''container'', ''a;b'')]"
proof -
  obtain r s' where run: "run_state (co_run docker_inspect [(''container'', ''a;b'')]) demo_probe = (r, s')"
    by fastforce
  with demo_docker_inspect obtain e where "r = Panicked e" by (auto split: outcome.splits)
  moreover have "docker_inspect \<in> set (compiled_in demo_golib)" by (simp add: compiled_in_def)
  ultimately show ?thesis using collector_panics_need_bad_parameter [OF demo_table _ run [unfolded \<open>r = Panicked e\<close>]]
    by blast
qed

section \<open>The registry\<close>

definition demo_registry :: registry where
  "demo_registry = snd (RefreshAvailability bare_stat default_whitelist (agent_registry demo_golib))"

lemma refresh_reports_changes_witness:
  "visible (snd (RefreshAvailability usr_bin_stat default_whitelist demo_registry)) - visible demo_registry
     = set (av_now (fst (RefreshAvailability usr_bin_stat default_whitelist demo_registry)))"
proof -
  have init: "rg_available (agent_registry demo_golib) = []"
    by (simp add: agent_registry_def empty_registry_def)
  have ok: "registry_ok demo_registry" "cache_ok demo_registry"
    using refresh_keeps [OF agent_registry_ok, of demo_golib bare_stat default_whitelist] init
    by (simp_all add: demo_registry_def)
  have "rg_collectors demo_registry = rg_collectors (agent_registry demo_golib)"
    using refresh_keeps [OF agent_registry_ok, of demo_golib bare_stat default_whitelist] init
    by (simp add: demo_registry_def)
  then have "map_of (rg_collectors demo_registry) ''docker_ps'' = Some docker_ps"
    by (simp add: agent_registry_def empty_registry_def compiled_in_def docker_ps_def docker_ps_manifest_def)
  moreover have "co_available docker_ps \<noteq> None" by (simp add: docker_ps_def)
  ultimately have ne: "rg_available demo_registry \<noteq> []"
    using ok(2) by (auto simp: cache_ok_def dest: spec [of _ "''docker_ps''"])
  have fin: "finite (visible g)" for g by (simp add: visible_def)
  show ?thesis
    using refresh_reports_changes [OF ok ne, of usr_bin_stat default_whitelist] fin
    by (metis finite_Diff prod.collapse set_sorted_list_of_set)
qed

section \<open>A hello\<close>

definition demo_platform :: platform where
  "demo_platform =
     \<lparr>pt_os = ''linux'', pt_arch = ''amd64'', pt_cpus = 2, pt_hostname = Some ''h'',
      pt_interfaces = Inr [\<lparr>nf_up = True, nf_loopback = True, nf_addrs = Inr [[127, 0, 0, 1]]\<rparr>,
                           \<lparr>nf_up = True, nf_loopback = False, nf_addrs = Inr [[10, 0, 0, 5]]\<rparr>]\<rparr>"

lemma hub_lists_what_the_agent_finds_witness:
  "\<exists>s' mfs. run_state (applyHello (hello_of ''v1'' demo_agent_config demo_platform (agent_registry demo_golib)) ''fp'')
       empty_db = (Inr (), s')
     \<and> run_state (ListCollectorManifests ''web-1'') s' = (Inr mfs, s')
     \<and> map mf_name mfs = sorted_list_of_set (visible (agent_registry demo_golib))
     \<and> list_all (\<lambda>m. Get_collector (mf_name m) (agent_registry demo_golib) \<noteq> None) mfs"
proof -
  have "faults empty_db = []" "ac_id demo_agent_config = ''web-1''"
    by (simp_all add: empty_db_def demo_agent_config_def)
  with hub_lists_what_the_agent_finds [OF agent_registry_ok [of demo_golib], of empty_db "''v1''" demo_agent_config demo_platform "''fp''"]
  show ?thesis by simp
qed

section \<open>The runner\<close>

definition demo_req :: collect_req where
  "demo_req = \<lparr>rq_id = ''task_1'', rq_collector = ''system_info'', rq_params = [], rq_timeout = 30\<rparr>"

definition demo_lib :: textlib where
  "demo_lib = \<lparr>tl_error = (\<lambda>_. ''error''), tl_duration = (\<lambda>_. ''30s''), tl_json = (\<lambda>_. ''null''),
     tl_base64 = (\<lambda>_. ''bnVsbA'')\<rparr>"

text \<open>Two requests with one id, and one place: the second is answered as a duplicate.\<close>

definition demo_runner0 :: agent_runner where
  "demo_runner0 = Handle_collect demo_req (Handle_collect demo_req (New_runner 2 30))"

definition demo_runner1 :: agent_runner where
  "demo_runner1 = set_phase 1 Holding (set_phase 0 Holding demo_runner0)"

definition demo_runner2 :: agent_runner where
  "demo_runner2 =
     (set_phase 1 Over (set_phase 0 Running demo_runner1))
       \<lparr>ar_running := [(''task_1'', 0)], ar_sent := [(1, duplicate_msg demo_req)]\<rparr>"

lemma demo_runner2_reachable: "(runner_step demo_lib)\<^sup>*\<^sup>* (New_runner 2 30) demo_runner2"
proof -
  let ?a = "set_phase 0 Holding demo_runner0"
  let ?b = "(set_phase 0 Running demo_runner1)\<lparr>ar_running := [(''task_1'', 0)]\<rparr>"
  note d = demo_runner0_def demo_runner1_def demo_runner2_def New_runner_def Handle_collect_def set_phase_def
    in_phase_def in_flight_def has_place_def
  have "(runner_step demo_lib)\<^sup>*\<^sup>* (New_runner 2 30) demo_runner0"
    unfolding demo_runner0_def by (blast intro: runner_step.arrive rtranclp.rtrancl_into_rtrancl)
  moreover have "acquire_place 0 demo_runner0 = Some ?a" by (simp add: acquire_place_def d)
  moreover have "acquire_place 1 ?a = Some demo_runner1" by (simp add: acquire_place_def d)
  moreover have "claim 0 demo_runner1 = Some ?b"
    by (simp add: claim_def d demo_req_def map_put_def)
  moreover have "claim 1 ?b = Some demo_runner2"
    by (simp add: claim_def d demo_req_def Let_def)
  ultimately show ?thesis
    by (meson runner_step.acquire runner_step.take_id rtranclp.rtrancl_into_rtrancl)
qed

lemma agent_runner_invariant_witness:
  "map msg_request (replies (ar_sent demo_runner2) 1) = [''task_1''] \<and> replies (ar_sent demo_runner2) 0 = []"
  using agent_runner_invariant [OF demo_runner2_reachable, of 1]
    agent_runner_invariant [OF demo_runner2_reachable, of 0]
  by (simp add: demo_runner2_def demo_runner1_def demo_runner0_def Handle_collect_def New_runner_def
      answered_def set_phase_def demo_req_def)


section \<open>An answer at the hub\<close>

definition demo_artifact :: probe_artifact where
  "demo_artifact = \<lparr>at_name = ''log.txt'', at_mime = [], at_body = ''abc''\<rparr>"

definition demo_waiting :: runner where
  "demo_waiting = demo_runner\<lparr>tasks := [new_task ''task_1'' ''run_1'' ''a''
     \<lparr>rr_name = ''r'', rr_hosts = [''a''], rr_collector = ''system_info'', rr_params = [], rr_timeout = 30, rr_by = ''op''\<rparr>]\<rparr>"

lemma answer_delivered_witness:
  "\<exists>s'. run_state (for_each (finish_msgs demo_lib 30 demo_req 7 []
        (no_result\<lparr>cr_artifacts := [demo_artifact]\<rparr>, None)) (hub_receives demo_lib demo_fs ''art'' ''a'')) demo_waiting = ((), s')
     \<and> file_get (''task_1'', ''log.txt'') (files s') = ''abc'' \<and> \<not> assigned ''a'' ''task_1'' s'"
proof -
  let ?res = "no_result\<lparr>cr_artifacts := [demo_artifact]\<rparr>"
  have sn: "sanitize ''log.txt'' = ''log.txt''" by code_simp
  have h: "full_writes demo_fs" "fs_mkdir demo_fs (rq_id demo_req)"
    "list_all (\<lambda>art. create_ok demo_fs (rq_id demo_req, sanitize (at_name art))) (cr_artifacts ?res)"
    "distinct (map (\<lambda>art. sanitize (at_name art)) (cr_artifacts ?res))"
    "assigned ''a'' (rq_id demo_req) demo_waiting" "faults demo_waiting = []"
    "rq_id demo_req \<in> tk_id ` set (tasks demo_waiting)"
    "list_all (\<lambda>art. map_of (open_arts demo_waiting) (artifact_id (rq_id demo_req) art) = None) (cr_artifacts ?res)"
    by (simp_all add: full_writes_def demo_fs_def create_ok_def demo_artifact_def sn assigned_def demo_waiting_def
        demo_runner_def demo_req_def db.defs runner.defs awaiting_def empty_db_def new_task_def)
  from answer_delivered [OF h, of demo_lib 30 7 None "''art''"] show ?thesis
    by (fastforce simp: demo_artifact_def demo_req_def sn)
qed

section \<open>The program\<close>

definition demo_agent_outside :: agent_outside where
  "demo_agent_outside =
     \<lparr>ao_stamp = (''1.2.0'', ''abc''), ao_stat = bare_stat, ao_golib = demo_golib, ao_disk = (\<lambda>_. None),
      ao_yaml = (\<lambda>_. Inr demo_agent_config), ao_hostname = ''h'', ao_keyring = demo_keyring, ao_fate = Delivered,
      ao_sha = env_hash demo_env, ao_pki = demo_pki\<rparr>"

definition demo_first_boot :: "unit enrolling" where
  "demo_first_boot = \<lparr>ds_calls = 0, ds_files = [(''/agent.yaml'', []), (''/a/token'', ''tok'')],
     en_hub = empty_db\<lparr>tokens := [demo_token]\<rparr>\<rparr>"

lemma demo_config_loads:
  "\<exists>cfg. LoadConfig (Inr []) (ao_yaml demo_agent_outside) ''h'' = Inr cfg \<and> ac_hub cfg = demo_hub_config
     \<and> ac_id cfg = ''web-1'' \<and> \<not> ac_update_enabled cfg"
  by (simp add: LoadConfig_def demo_agent_outside_def demo_agent_config_def demo_hub_config_def)

lemma demo_agent_runs:
  "\<exists>a s'. run_state (agent_main demo_agent_outside False ''/agent.yaml'') demo_first_boot = (AgentRuns a, s')
     \<and> ac_hub (ra_config a) = demo_hub_config"
proof -
  obtain cfg where c: "LoadConfig (Inr []) (ao_yaml demo_agent_outside) ''h'' = Inr cfg" "ac_hub cfg = demo_hub_config"
    "ac_id cfg = ''web-1''" using demo_config_loads by blast
  have b: "run_state (config_body (\<lambda>_. None) ''/agent.yaml'') demo_first_boot = (Inr [], demo_first_boot\<lparr>ds_calls := 1\<rparr>)"
    by (simp add: config_body_def run_read_file demo_first_boot_def)
  have "\<exists>s'. run_state (Enroll_agent (\<lambda>_. None) demo_keyring Delivered (env_hash demo_env) demo_pki cfg)
      (demo_first_boot\<lparr>ds_calls := 1\<rparr>) = (Inr (), s')"
    by (simp add: c(2,3) demo_first_boot_def demo_enroll_defs tok_trimmed)
  with b c demo_table show ?thesis
    by (auto simp: agent_main_def demo_agent_outside_def Let_def)
qed

lemma running_agent_is_prepared_witness:
  "\<exists>s' :: unit enrolling. \<exists>cert key ca. stored ''/a/client.pem'' cert s' \<and> stored ''/a/client.key'' key s'
     \<and> stored ''/a/ca.pem'' ca s'"
proof -
  obtain a s' where a: "run_state (agent_main demo_agent_outside False ''/agent.yaml'') demo_first_boot = (AgentRuns a, s')"
    "ac_hub (ra_config a) = demo_hub_config" using demo_agent_runs by blast
  have "paths_ok (ac_hub (ra_config a))" by (simp add: a(2) paths_ok_def Let_def demo_hub_config_def)
  from running_agent_is_prepared [OF a(1) this] show ?thesis by (auto simp: a(2) demo_hub_config_def)
qed

end
