(* ===== verification/Hub_Pki.thy ===== *)
theory Hub_Pki
  imports Disk Net_Addr Api_Safety
begin

text \<open>
  \<open>hub/auth/ca.go\<close> and \<open>hub/auth/tokens.go\<close>: the hub's certificate authority on its disk, the
  signing of the agents' requests, fingerprints, and the bytes of a bootstrap token. The
  cryptography (\<open>crypto/x509\<close>, \<open>encoding/pem\<close>, key generation, SHA-256) is the parameter
  \<open>x509lib\<close>: keys and certificates are the bytes it makes of them. \<open>pki_of\<close> makes of the
  authority what the agent server's \<open>Enroll\<close> is given.
\<close>

section \<open>The library\<close>

datatype pub_key = Ecdsa string bytes | Rsa nat bytes | OtherKey string

datatype key_usage = CertSign | CRLSign | DigitalSignature | KeyEncipherment

datatype ext_usage = ServerAuth | ClientAuth

datatype lifetime = Years nat | For int

record cert_template =
  tp_cn :: string
  tp_org :: "string list"
  tp_is_ca :: bool
  tp_usage :: "key_usage list"
  tp_ext :: "ext_usage list"
  tp_dns :: "string list"
  tp_ips :: "ip list"
  tp_life :: lifetime

record csr_info =
  cq_signature :: "string option"
  cq_key :: pub_key

text \<open>
  Creating a certificate takes the randomness, the template, the parent (none: self-signed), the
  subject's key and the signing key; parsing one yields the names and addresses it is valid for.
\<close>

record x509lib =
  xl_generate :: "nat \<Rightarrow> string + bytes"
  xl_public :: "bytes \<Rightarrow> pub_key"
  xl_create :: "nat \<Rightarrow> cert_template \<Rightarrow> bytes option \<Rightarrow> pub_key \<Rightarrow> bytes \<Rightarrow> string + bytes"
  xl_parse :: "bytes \<Rightarrow> string + string list \<times> ip list"
  xl_marshal :: "bytes \<Rightarrow> string + bytes"
  xl_parse_key :: "bytes \<Rightarrow> string + bytes"
  xl_parse_csr :: "bytes \<Rightarrow> string + csr_info"
  xl_pem_block :: "bytes \<Rightarrow> (string \<times> bytes) option"
  xl_pem :: "string \<Rightarrow> bytes \<Rightarrow> bytes"
  xl_sha256 :: "bytes \<Rightarrow> bytes"

text \<open>The text of an address: dotted, or groups with the first of the longest runs of zeros left out.\<close>

definition lower_hex :: "nat \<Rightarrow> char" where
  "lower_hex n = (if n < 10 then char_of (48 + n) else char_of (87 + n))"

fun group_text :: "nat \<Rightarrow> string" where
  "group_text n = (if n < 16 then [lower_hex n] else group_text (n div 16) @ [lower_hex (n mod 16)])"

declare group_text.simps [simp del]

definition zero_run :: "ip \<Rightarrow> nat \<Rightarrow> nat" where
  "zero_run p i = length (takeWhile (\<lambda>g. g = 0) (drop i p))"

definition best_run :: "ip \<Rightarrow> nat \<times> nat" where
  "best_run p = fold (\<lambda>i b. if zero_run p i > snd b then (i, zero_run p i) else b) [0..<length p] (0, 1)"

definition ip_text :: "ip \<Rightarrow> string" where
  "ip_text p =
     (case To4 p of
        Some (a, b, c, d) \<Rightarrow> join ''.'' (map int_text [a, b, c, d])
      | None \<Rightarrow>
          (case best_run p of (i, n) \<Rightarrow>
             if n < 2 then join '':'' (map (\<lambda>g. group_text (nat g)) p)
             else join '':'' (map (\<lambda>g. group_text (nat g)) (take i p)) @ ''::''
                  @ join '':'' (map (\<lambda>g. group_text (nat g)) (drop (i + n) p))))"

section \<open>The material\<close>

record material =
  mt_ca :: bytes
  mt_ca_pem :: bytes
  mt_key :: bytes
  mt_server_cert :: bytes
  mt_server_key :: bytes

record pki_disk = disk +
  pd_rnd :: nat

type_synonym ('z, 'a) km = "('z pki_disk_scheme, 'a) state"

definition fresh_bits :: "('z, nat) km" where
  "fresh_bits = State (\<lambda>s. (pd_rnd s, s\<lparr>pd_rnd := pd_rnd s + 1\<rparr>))"

definition from_lib :: "string + 'a \<Rightarrow> ('s, cerr + 'a) state" where
  "from_lib r = return (case r of Inl e \<Rightarrow> Inl (Msg e) | Inr x \<Rightarrow> Inr x)"

definition block_of :: "x509lib \<Rightarrow> string \<Rightarrow> bytes \<Rightarrow> ('s, cerr + bytes) state" where
  "block_of X what b =
     return (case xl_pem_block X b of None \<Rightarrow> Inl (Msg what) | Some (_, der) \<Rightarrow> Inr der)"

definition ca_template :: cert_template where
  "ca_template =
     \<lparr>tp_cn = ''recon-hub-ca'', tp_org = [''Recon''], tp_is_ca = True, tp_usage = [CertSign, CRLSign],
      tp_ext = [], tp_dns = [], tp_ips = [], tp_life = Years 10\<rparr>"

definition server_template :: "string list \<Rightarrow> ip list \<Rightarrow> cert_template" where
  "server_template dns ips =
     \<lparr>tp_cn = ''recon-hub'', tp_org = [''Recon''], tp_is_ca = False,
      tp_usage = [DigitalSignature, KeyEncipherment], tp_ext = [ServerAuth], tp_dns = dns, tp_ips = ips,
      tp_life = Years 2\<rparr>"

definition agent_template :: "string \<Rightarrow> int \<Rightarrow> cert_template" where
  "agent_template agent ttl =
     \<lparr>tp_cn = agent, tp_org = [''Recon Agent''], tp_is_ca = False,
      tp_usage = [DigitalSignature, KeyEncipherment], tp_ext = [ClientAuth], tp_dns = [], tp_ips = [],
      tp_life = For ttl\<rparr>"

section \<open>The authority on disk\<close>

definition caCertFile :: string where "caCertFile = ''ca.pem''"

definition caKeyFile :: string where "caKeyFile = ''ca.key''"

definition serverCertFile :: string where "serverCertFile = ''server.pem''"

definition serverKeyFile :: string where "serverKeyFile = ''server.key''"

text \<open>The certificate's bytes, its PEM text and the key.\<close>

definition generateCA :: "x509lib \<Rightarrow> disk_faults \<Rightarrow> string \<Rightarrow> ('z, cerr + bytes \<times> bytes \<times> bytes) km" where
  "generateCA X F dir = do {
     r \<leftarrow> fresh_bits;
     unless_err (from_lib (xl_generate X r)) (\<lambda>key. do {
       serial \<leftarrow> fresh_bits;
       unless_err (from_lib (xl_create X serial ca_template None (xl_public X key) key)) (\<lambda>der.
       unless_err (from_lib (xl_parse X der)) (\<lambda>_.
       unless_err (writeFile F (path_join dir caCertFile) (xl_pem X ''CERTIFICATE'' der)) (\<lambda>_.
       unless_err (from_lib (xl_marshal X key)) (\<lambda>kder.
       unless_err (writeFile F (path_join dir caKeyFile) (xl_pem X ''EC PRIVATE KEY'' kder)) (\<lambda>_.
       return (Inr (der, xl_pem X ''CERTIFICATE'' der, key)))))))
     })
   }"

definition loadCA :: "x509lib \<Rightarrow> disk_faults \<Rightarrow> string \<Rightarrow> ('z, cerr + bytes \<times> bytes \<times> bytes) km" where
  "loadCA X F dir =
     unless_err (read_file F (path_join dir caCertFile)) (\<lambda>cert.
     unless_err (read_file F (path_join dir caKeyFile)) (\<lambda>kpem.
     unless_err (block_of X ''ca.pem: invalid PEM'' cert) (\<lambda>der.
     unless_err (from_lib (xl_parse X der)) (\<lambda>_.
     unless_err (block_of X ''ca.key: invalid PEM'' kpem) (\<lambda>kder.
     unless_err (from_lib (xl_parse_key X kder)) (\<lambda>key.
     return (Inr (der, cert, key))))))))"

definition generateServerCert ::
  "x509lib \<Rightarrow> disk_faults \<Rightarrow> string \<Rightarrow> bytes \<Rightarrow> bytes \<Rightarrow> string list \<Rightarrow> ip list \<Rightarrow> ('z, cerr + unit) km" where
  "generateServerCert X F dir ca cakey dns ips = do {
     r \<leftarrow> fresh_bits;
     unless_err (from_lib (xl_generate X r)) (\<lambda>key. do {
       serial \<leftarrow> fresh_bits;
       unless_err (from_lib (xl_create X serial (server_template dns ips) (Some ca) (xl_public X key) cakey)) (\<lambda>der.
       unless_err (from_lib (xl_marshal X key)) (\<lambda>kder.
       unless_err (writeFile F (path_join dir serverCertFile) (xl_pem X ''CERTIFICATE'' der)) (\<lambda>_.
       writeFile F (path_join dir serverKeyFile) (xl_pem X ''EC PRIVATE KEY'' kder))))
     })
   }"

text \<open>The two comparisons of sets are the code's: the sizes, then one inclusion and the other.\<close>

definition same_sans :: "string set \<Rightarrow> string set \<Rightarrow> bool" where
  "same_sans have want = (card have = card want \<and> want \<subseteq> have \<and> have \<subseteq> want)"

definition sans :: "string list \<times> ip list \<Rightarrow> string set" where
  "sans d = set (fst d) \<union> ip_text ` set (snd d)"

definition serverCertCovers ::
  "x509lib \<Rightarrow> disk_faults \<Rightarrow> string \<Rightarrow> string list \<Rightarrow> ip list \<Rightarrow> ('z, cerr + bool) km" where
  "serverCertCovers X F path dns ips =
     unless_err (read_file F path) (\<lambda>pem.
     unless_err (block_of X ''server cert: no PEM block'' pem) (\<lambda>der.
     unless_err (from_lib (xl_parse X der)) (\<lambda>have.
     return (Inr (same_sans (sans have) (sans (dns, ips)))))))"

definition must_regenerate ::
  "x509lib \<Rightarrow> disk_faults \<Rightarrow> string \<Rightarrow> string list \<Rightarrow> ip list \<Rightarrow> ('z, bool) km" where
  "must_regenerate X F dir dns ips = do {
     a \<leftarrow> fileExists (path_join dir serverCertFile);
     b \<leftarrow> fileExists (path_join dir serverKeyFile);
     if a \<and> b
     then do { c \<leftarrow> serverCertCovers X F (path_join dir serverCertFile) dns ips; return (c \<noteq> Inr True) }
     else return True
   }"

definition obtain_CA :: "x509lib \<Rightarrow> disk_faults \<Rightarrow> string \<Rightarrow> ('z, cerr + bytes \<times> bytes \<times> bytes) km" where
  "obtain_CA X F dir = do {
     a \<leftarrow> fileExists (path_join dir caCertFile);
     b \<leftarrow> fileExists (path_join dir caKeyFile);
     if a \<and> b then wrapped ''load CA'' (loadCA X F dir) else wrapped ''generate CA'' (generateCA X F dir)
   }"

definition Bootstrap ::
  "x509lib \<Rightarrow> disk_faults \<Rightarrow> string \<Rightarrow> string list \<Rightarrow> ip list \<Rightarrow> ('z, cerr + material) km" where
  "Bootstrap X F dir dns ips =
     unless_err (wrapped ''mkdir caDir'' (touch_file F)) (\<lambda>_.
     unless_err (obtain_CA X F dir) (\<lambda>(ca, pem, key). do {
       regen \<leftarrow> must_regenerate X F dir dns ips;
       unless_err
         (if regen then wrapped ''generate server cert'' (generateServerCert X F dir ca key dns ips)
          else return (Inr ())) (\<lambda>_.
       unless_err (read_file F (path_join dir serverCertFile)) (\<lambda>cert.
       unless_err (read_file F (path_join dir serverKeyFile)) (\<lambda>skey.
       return (Inr \<lparr>mt_ca = ca, mt_ca_pem = pem, mt_key = key, mt_server_cert = cert, mt_server_key = skey\<rparr>))))
     }))"

section \<open>Signing, fingerprints, tokens\<close>

definition assertStrongKey :: "pub_key \<Rightarrow> cerr + unit" where
  "assertStrongKey k =
     (case k of
        Ecdsa curve _ \<Rightarrow>
          if curve \<in> set [''P-256'', ''P-384'', ''P-521''] then Inr ()
          else Inl (Msg (''csr: unsupported ECDSA curve '' @ curve))
      | Rsa bits _ \<Rightarrow>
          if bits < 2048
          then Inl (Msg (''csr: RSA key too small ('' @ nat_text bits @ '' bits, minimum 2048)''))
          else Inr ()
      | OtherKey t \<Rightarrow> Inl (Msg (''csr: unsupported public key type '' @ t)))"

definition SignCSR :: "x509lib \<Rightarrow> material \<Rightarrow> nat \<Rightarrow> bytes \<Rightarrow> string \<Rightarrow> int \<Rightarrow> cerr + bytes" where
  "SignCSR X m serial csr agent ttl =
     (case xl_pem_block X csr of
        None \<Rightarrow> Inl (Msg ''csr: not a PEM CSR'')
      | Some (kind, der) \<Rightarrow>
          if kind \<noteq> ''CERTIFICATE REQUEST'' then Inl (Msg ''csr: not a PEM CSR'')
          else (case xl_parse_csr X der of
                  Inl e \<Rightarrow> Inl (Wrap ''parse csr'' (Msg e))
                | Inr q \<Rightarrow>
                    (case cq_signature q of
                       Some e \<Rightarrow> Inl (Wrap ''csr signature'' (Msg e))
                     | None \<Rightarrow>
                         (case assertStrongKey (cq_key q) of
                            Inl e \<Rightarrow> Inl e
                          | Inr _ \<Rightarrow>
                              (case xl_create X serial (agent_template agent ttl) (Some (mt_ca m)) (cq_key q) (mt_key m) of
                                 Inl e \<Rightarrow> Inl (Msg e)
                               | Inr cert \<Rightarrow> Inr (xl_pem X ''CERTIFICATE'' cert))))))"

definition hex_byte :: "char \<Rightarrow> string" where
  "hex_byte b = [lower_hex (of_char b div 16), lower_hex (of_char b mod 16)]"

text \<open>The digest in hexadecimal, the bytes with colons between them.\<close>

definition digest_text :: "bytes \<Rightarrow> string" where
  "digest_text digest = join '':'' (map hex_byte digest)"

definition fingerprintBytes :: "x509lib \<Rightarrow> bytes \<Rightarrow> string" where
  "fingerprintBytes X raw = digest_text (xl_sha256 X raw)"

definition FingerprintFromPEM :: "x509lib \<Rightarrow> bytes \<Rightarrow> cerr + string" where
  "FingerprintFromPEM X pem =
     (case xl_pem_block X pem of
        None \<Rightarrow> Inl (Msg ''fingerprint: not a PEM cert'')
      | Some (_, der) \<Rightarrow>
          (case xl_parse X der of Inl e \<Rightarrow> Inl (Msg e) | Inr _ \<Rightarrow> Inr (fingerprintBytes X der)))"

definition pki_of :: "x509lib \<Rightarrow> material \<Rightarrow> nat \<Rightarrow> int \<Rightarrow> pki" where
  "pki_of X m serial ttl =
     \<lparr>pk_sign = (\<lambda>csr agent. case SignCSR X m serial csr agent ttl of Inl _ \<Rightarrow> None | Inr c \<Rightarrow> Some c),
      pk_fingerprint = (\<lambda>c. case FingerprintFromPEM X c of Inl _ \<Rightarrow> None | Inr f \<Rightarrow> Some f),
      pk_ca = mt_ca_pem m\<rparr>"

definition GenerateBootstrapToken :: "(bytes \<Rightarrow> string) \<Rightarrow> string + bytes \<Rightarrow> cerr + string" where
  "GenerateBootstrapToken b64 rand =
     (case rand of Inl e \<Rightarrow> Inl (Msg e) | Inr b \<Rightarrow> Inr (b64 b))"

section \<open>The files of the authority\<close>

lemma join_snoc: "\<exists>p. join c (es @ [e]) = p @ e"
proof (induction es)
  case (Cons w es)
  then obtain p where p: "join c (es @ [e]) = p @ e" by blast
  have "join c ((w # es) @ [e]) = (w @ c @ p) @ e" using p by (cases es) auto
  then show ?case by blast
qed simp

lemma path_clean_ends:
  assumes "split_on (CHR ''/'') p = ys @ [e]" and "plain_elem e"
  shows "\<exists>q. path_clean p = q @ e"
proof -
  obtain es where "path_elems p = (has_prefix p ''/'', es @ [e])"
    using assms by (auto simp: path_elems_def clean_push_append plain_elem_def Let_def)
  with join_snoc [of "''/''" es e] show ?thesis
    by (auto simp: path_clean_def render_path_def)
qed

lemma path_join_ends:
  assumes "plain_elem e"
  shows "\<exists>p. path_join d e = p @ e"
proof -
  have e: "e \<noteq> []" "split_on (CHR ''/'') e = [e]"
    using assms split_on_single [of "CHR ''/''" e] by (auto simp: plain_elem_def)
  show ?thesis
    using path_clean_ends [of e "[]" e] path_clean_ends [of "d @ CHR ''/'' # e" "split_on (CHR ''/'') d" e] e assms
    by (auto simp: path_join_def split_on_sep)
qed

text \<open>The four files and their temporary ones are different files.\<close>

lemma pki_files:
  "distinct (map (path_join d) [caCertFile, caKeyFile, serverCertFile, serverKeyFile]
     @ map (\<lambda>f. path_join d f @ ''.tmp'') [caCertFile, caKeyFile, serverCertFile, serverKeyFile])"
proof -
  obtain a b c e where p: "path_join d ''ca.pem'' = a @ ''ca.pem''" "path_join d ''ca.key'' = b @ ''ca.key''"
    "path_join d ''server.pem'' = c @ ''server.pem''" "path_join d ''server.key'' = e @ ''server.key''"
    using path_join_ends [of "''ca.pem''" d] path_join_ends [of "''ca.key''" d]
      path_join_ends [of "''server.pem''" d] path_join_ends [of "''server.key''" d]
    by (auto simp: plain_elem_def)
  show ?thesis
    unfolding caCertFile_def caKeyFile_def serverCertFile_def serverKeyFile_def list.map p
    by (auto dest!: arg_cong [where f = rev])
qed

lemmas pki_file_names = pki_files [unfolded list.map append.simps distinct.simps list.set, simplified]

lemma run_pki_steps [simp]:
  "run_state fresh_bits s = (pd_rnd s, s\<lparr>pd_rnd := pd_rnd s + 1\<rparr>)"
  "run_state (from_lib r) t = (case r of Inl e \<Rightarrow> Inl (Msg e) | Inr x \<Rightarrow> Inr x, t)"
  "run_state (block_of X what b) t = (case xl_pem_block X b of None \<Rightarrow> Inl (Msg what) | Some (_, der) \<Rightarrow> Inr der, t)"
  by (simp_all add: fresh_bits_def from_lib_def block_of_def)

lemma keeps_pki [keeps_intros]:
  "keeps (stored p c) fresh_bits"
  "keeps I (from_lib r)"
  "keeps I (block_of X what b)"
  by (auto intro!: keepsI)

lemma keeps_wrapped [keeps_intros]: "keeps I m \<Longrightarrow> keeps I (wrapped what m)"
  unfolding wrapped_def by (intro keeps_intros)

lemma keeps_both: "keeps I m \<Longrightarrow> keeps J m \<Longrightarrow> keeps (\<lambda>s. I s \<and> J s) m"
  by (simp add: keeps_def)

section \<open>The authority outlives its restarts\<close>

lemma keeps_loadCA: "keeps (stored p c) (loadCA X F dir)"
  unfolding loadCA_def by (intro keeps_intros keeps_read)

lemma keeps_must_regenerate: "keeps (stored p c) (must_regenerate X F dir dns ips)"
  unfolding must_regenerate_def serverCertCovers_def by (intro keeps_intros keeps_read keeps_exists)

lemma keeps_generateServerCert:
  assumes "f \<in> {caCertFile, caKeyFile}"
  shows "keeps (stored (path_join dir f) c) (generateServerCert X F dir ca key dns ips)"
  unfolding generateServerCert_def
  by (intro keeps_intros keeps_writeFile) (use assms pki_file_names [of dir] in auto)

abbreviation ca_files :: "string \<Rightarrow> bytes \<Rightarrow> bytes \<Rightarrow> 'z disk_scheme \<Rightarrow> bool" where
  "ca_files dir c k s \<equiv> stored (path_join dir caCertFile) c s \<and> stored (path_join dir caKeyFile) k s"

lemma pki_path_not_Nil [simp]:
  "path_join d caCertFile \<noteq> []" "path_join d caKeyFile \<noteq> []"
  "path_join d serverCertFile \<noteq> []" "path_join d serverKeyFile \<noteq> []"
  using path_join_ends [of caCertFile d] path_join_ends [of caKeyFile d]
    path_join_ends [of serverCertFile d] path_join_ends [of serverKeyFile d]
  by (auto simp: plain_elem_def caCertFile_def caKeyFile_def serverCertFile_def serverKeyFile_def)

lemma obtain_CA_loads:
  "ca_files dir c k s \<Longrightarrow> run_state (obtain_CA X F dir) s = run_state (wrapped ''load CA'' (loadCA X F dir)) s"
  by (simp add: obtain_CA_def)

lemma keeps_obtain_CA: "keeps (ca_files dir c k) (obtain_CA X F dir :: ('z, cerr + bytes \<times> bytes \<times> bytes) km)"
proof (rule keepsI)
  fix s :: "'z pki_disk_scheme" assume s: "ca_files dir c k s"
  have "keeps (ca_files dir c k) (wrapped ''load CA'' (loadCA X F dir) :: ('z, cerr + bytes \<times> bytes \<times> bytes) km)"
    by (intro keeps_both keeps_wrapped keeps_loadCA)
  from keepsD [OF this s] show "ca_files dir c k (snd (run_state (obtain_CA X F dir) s))"
    by (simp only: obtain_CA_loads [OF s])
qed

lemma keeps_Bootstrap: "keeps (ca_files dir c k) (Bootstrap X F dir dns ips)"
  unfolding Bootstrap_def
  by (intro keeps_intros keeps_obtain_CA) (intro keeps_both keeps_intros keeps_touch keeps_read
      keeps_must_regenerate keeps_generateServerCert; simp)+

lemma read_okD:
  assumes "run_state (read_file F p) s = (Inr b, s')"
  shows "stored p b s" and "s' = s\<lparr>ds_calls := ds_calls s + 1\<rparr>"
  using assms by (auto simp: run_read_file split: option.splits)

lemma wrapped_okD: "run_state (wrapped what m) s = (Inr x, t) \<Longrightarrow> run_state m s = (Inr x, t)"
  by (auto split: prod.splits sum.splits)

lemma loadCA_okD:
  assumes "run_state (loadCA X F dir) s = (Inr (ca, pem, key), s')"
  obtains k kb t t' where "ca_files dir pem k s" and "xl_pem_block X pem = Some (t, ca)" and "is_ok (xl_parse X ca)"
    and "xl_pem_block X k = Some (t', kb)" and "xl_parse_key X kb = Inr key"
proof -
  from assms obtain k s1 s2 where "run_state (read_file F (path_join dir caCertFile)) s = (Inr pem, s1)"
    and "run_state (read_file F (path_join dir caKeyFile)) s1 = (Inr k, s2)"
    and r: "\<exists>t t' kb. xl_pem_block X pem = Some (t, ca) \<and> is_ok (xl_parse X ca)
      \<and> xl_pem_block X k = Some (t', kb) \<and> xl_parse_key X kb = Inr key"
    unfolding loadCA_def
    by (auto elim!: unless_err_okD split: option.splits sum.splits simp del: run_unless_err)
  from read_okD [OF this(1)] read_okD [OF this(2)] have "ca_files dir pem k s" by simp
  with r that show ?thesis by blast
qed

lemma Bootstrap_okD:
  assumes "run_state (Bootstrap X F dir dns ips) s = (Inr m, s')"
  obtains t1 t2 t3 t4 t5 regen where "run_state (wrapped ''mkdir caDir'' (touch_file F)) s = (Inr (), t1)"
    and "run_state (obtain_CA X F dir) t1 = (Inr (mt_ca m, mt_ca_pem m, mt_key m), t2)"
    and "run_state (must_regenerate X F dir dns ips) t2 = (regen, t3)"
    and "run_state (if regen then generateServerCert X F dir (mt_ca m) (mt_key m) dns ips else return (Inr ())) t3 = (Inr (), t4)"
    and "run_state (read_file F (path_join dir serverCertFile)) t4 = (Inr (mt_server_cert m), t5)"
    and "run_state (read_file F (path_join dir serverKeyFile)) t5 = (Inr (mt_server_key m), s')"
proof -
  let ?m = "\<lambda>ca pem key cert skey. \<lparr>mt_ca = ca, mt_ca_pem = pem, mt_key = key, mt_server_cert = cert, mt_server_key = skey\<rparr>"
  let ?last = "\<lambda>ca pem key cert.
    unless_err (read_file F (path_join dir serverKeyFile)) (\<lambda>skey. return (Inr (?m ca pem key cert skey)))"
  let ?gen = "\<lambda>ca key. wrapped ''generate server cert'' (generateServerCert X F dir ca key dns ips)"
  let ?rest = "\<lambda>ca pem key. unless_err (read_file F (path_join dir serverCertFile)) (?last ca pem key)"
  obtain t1 where p: "run_state (wrapped ''mkdir caDir'' (touch_file F)) s = (Inr (), t1)"
    and a: "run_state (unless_err (obtain_CA X F dir) (\<lambda>(ca, pem, key). do {
       regen \<leftarrow> must_regenerate X F dir dns ips;
       unless_err (if regen then ?gen ca key else return (Inr ())) (\<lambda>_. ?rest ca pem key)})) t1 = (Inr m, s')"
    by (rule unless_err_unitD [OF assms [unfolded Bootstrap_def]])
  obtain w t2 where o: "run_state (obtain_CA X F dir) t1 = (Inr w, t2)" by (rule unless_err_okD [OF a])
  obtain ca pem key where w: "w = (ca, pem, key)" by (cases w)
  obtain regen t3 where q: "run_state (must_regenerate X F dir dns ips) t2 = (regen, t3)" by fastforce
  have b: "run_state (unless_err (if regen then ?gen ca key else return (Inr ())) (\<lambda>_. ?rest ca pem key)) t3 = (Inr m, s')"
    using a o q by (simp add: w del: run_wrapped)
  obtain t4 where g: "run_state (if regen then ?gen ca key else return (Inr ())) t3 = (Inr (), t4)"
    and c: "run_state (?rest ca pem key) t4 = (Inr m, s')"
    by (rule unless_err_unitD [OF b])
  obtain cert t5 where r: "run_state (read_file F (path_join dir serverCertFile)) t4 = (Inr cert, t5)"
    and d: "run_state (?last ca pem key cert) t5 = (Inr m, s')"
    by (rule unless_err_okD [OF c])
  obtain skey t6 where k: "run_state (read_file F (path_join dir serverKeyFile)) t5 = (Inr skey, t6)"
    and e: "run_state (return (Inr (?m ca pem key cert skey) :: cerr + material)) t6 = (Inr m, s')"
    by (rule unless_err_okD [OF d])
  from e have m: "m = ?m ca pem key cert skey" "t6 = s'" by auto
  have "run_state (if regen then generateServerCert X F dir ca key dns ips else return (Inr ())) t3 = (Inr (), t4)"
    using g wrapped_okD [of "''generate server cert''"] by (cases regen) (simp_all del: run_wrapped)
  then show ?thesis by (intro that [OF p _ q]) (use o r k m w in \<open>simp_all split: if_splits\<close>)
qed

lemma keeps_mkdir: "keeps (ca_files dir c k) (wrapped what (touch_file F))"
  by (intro keeps_both keeps_wrapped keeps_touch)


section \<open>A second start\<close>

text \<open>What the library does: PEM and keys can be read back, and a certificate has the names asked for.\<close>

definition x509_ok :: "x509lib \<Rightarrow> bool" where
  "x509_ok X =
     ((\<forall>t b. xl_pem_block X (xl_pem X t b) = Some (t, b))
      \<and> (\<forall>n tp par k sk der. xl_create X n tp par k sk = Inr der \<longrightarrow> xl_parse X der = Inr (tp_dns tp, tp_ips tp))
      \<and> (\<forall>k der. xl_marshal X k = Inr der \<longrightarrow> xl_parse_key X der = Inr k))"

definition ca_ready :: "x509lib \<Rightarrow> string \<Rightarrow> bytes \<times> bytes \<times> bytes \<Rightarrow> 'z disk_scheme \<Rightarrow> bool" where
  "ca_ready X dir m s =
     (case m of (ca, pem, key) \<Rightarrow>
        \<exists>k t t' kb. ca_files dir pem k s \<and> xl_pem_block X pem = Some (t, ca) \<and> is_ok (xl_parse X ca)
          \<and> xl_pem_block X k = Some (t', kb) \<and> xl_parse_key X kb = Inr key)"

definition server_ready :: "x509lib \<Rightarrow> string \<Rightarrow> string list \<Rightarrow> ip list \<Rightarrow> bytes \<Rightarrow> bytes \<Rightarrow> 'z disk_scheme \<Rightarrow> bool" where
  "server_ready X dir dns ips cert skey s =
     (stored (path_join dir serverCertFile) cert s \<and> stored (path_join dir serverKeyFile) skey s
      \<and> (\<exists>t der d. xl_pem_block X cert = Some (t, der) \<and> xl_parse X der = Inr d \<and> sans d = sans (dns, ips)))"

lemma same_sans_iff: "finite have \<Longrightarrow> same_sans have want \<longleftrightarrow> have = want"
  by (auto simp: same_sans_def)

lemma finite_sans [simp]: "finite (sans d)"
  by (simp add: sans_def)

lemma generateCA_done:
  assumes "x509_ok X" and "run_state (generateCA X F dir) s = (Inr m, s')"
  shows "ca_ready X dir m s'"
proof -
  from assms(2) obtain key der kder t1 t2 where
    "run_state (writeFile F (path_join dir caCertFile) (xl_pem X ''CERTIFICATE'' der)) t1 = (Inr (), t2)"
    and k: "run_state (writeFile F (path_join dir caKeyFile) (xl_pem X ''EC PRIVATE KEY'' kder)) t2 = (Inr (), s')"
    and x: "is_ok (xl_parse X der)" "xl_marshal X key = Inr kder" "m = (der, xl_pem X ''CERTIFICATE'' der, key)"
    unfolding generateCA_def by (auto split: sum.splits prod.splits)
  from writeFile_done [OF this(1)] have "stored (path_join dir caCertFile) (xl_pem X ''CERTIFICATE'' der) t2" .
  then have "stored (path_join dir caCertFile) (xl_pem X ''CERTIFICATE'' der) s'"
    using keepsD [OF keeps_writeFile] k pki_file_names [of dir] by (metis snd_conv)
  with writeFile_done [OF k] x assms(1) show ?thesis by (auto simp: ca_ready_def x509_ok_def)
qed

lemma obtain_CA_done:
  assumes "x509_ok X" and "run_state (obtain_CA X F dir) s = (Inr m, s')"
  shows "ca_ready X dir m s'"
proof (cases "\<exists>c k. ca_files dir c k s")
  case True
  then obtain c k where ck: "ca_files dir c k s" by blast
  obtain ca pem key where m: "m = (ca, pem, key)" by (cases m)
  have l: "run_state (loadCA X F dir) s = (Inr (ca, pem, key), s')"
    using assms(2) wrapped_okD [of "''load CA''"] m by (simp only: obtain_CA_loads [OF ck])
  then obtain k kb t t' where "ca_files dir pem k s" "xl_pem_block X pem = Some (t, ca)" "is_ok (xl_parse X ca)"
    "xl_pem_block X k = Some (t', kb)" "xl_parse_key X kb = Inr key" by (rule loadCA_okD)
  moreover have "ca_files dir pem k s'" if "ca_files dir pem k s" for k
    using keepsD [OF keeps_both [OF keeps_loadCA keeps_loadCA] that, of X F dir] l by simp
  ultimately show ?thesis by (auto simp: m ca_ready_def)
next
  case False
  then have "run_state (obtain_CA X F dir) s = run_state (wrapped ''generate CA'' (generateCA X F dir)) s"
    by (auto simp: obtain_CA_def)
  with assms(2) wrapped_okD [of "''generate CA''"] have "run_state (generateCA X F dir) s = (Inr m, s')" by metis
  then show ?thesis by (rule generateCA_done [OF assms(1)])
qed

lemma keeps_ca_ready:
  fixes m :: "('z disk_scheme, 'a) state"
  assumes "\<And>c k. keeps (ca_files dir c k) m"
  shows "keeps (ca_ready X dir w) m"
proof (rule keepsI)
  fix s :: "'z disk_scheme" assume "ca_ready X dir w s"
  then show "ca_ready X dir w (snd (run_state m s))"
    using keepsD [OF assms] by (cases w) (simp add: ca_ready_def, blast)
qed

lemma ca_ready_kept:
  "keeps (ca_ready X dir w) (must_regenerate X F dir dns ips)"
  "keeps (ca_ready X dir w) (generateServerCert X F dir ca key dns ips)"
  by (rule keeps_ca_ready, intro keeps_both keeps_must_regenerate keeps_generateServerCert; simp)+

lemma generateServerCert_done:
  assumes "x509_ok X" and "run_state (generateServerCert X F dir ca key dns ips) s = (Inr (), s')"
  shows "\<exists>cert skey. server_ready X dir dns ips cert skey s'"
proof -
  from assms(2) obtain der kder serial pk t1 t2 where
    "run_state (writeFile F (path_join dir serverCertFile) (xl_pem X ''CERTIFICATE'' der)) t1 = (Inr (), t2)"
    and k: "run_state (writeFile F (path_join dir serverKeyFile) (xl_pem X ''EC PRIVATE KEY'' kder)) t2 = (Inr (), s')"
    and x: "xl_create X serial (server_template dns ips) (Some ca) pk key = Inr der"
    unfolding generateServerCert_def by (auto split: sum.splits prod.splits)
  from writeFile_done [OF this(1)] have "stored (path_join dir serverCertFile) (xl_pem X ''CERTIFICATE'' der) t2" .
  then have "stored (path_join dir serverCertFile) (xl_pem X ''CERTIFICATE'' der) s'"
    using keepsD [OF keeps_writeFile] k pki_file_names [of dir] by (metis snd_conv)
  with writeFile_done [OF k] x assms(1) show ?thesis
    by (fastforce simp: server_ready_def x509_ok_def server_template_def)
qed

lemma must_regenerate_False:
  assumes "run_state (must_regenerate X F dir dns ips) s = (False, s')"
  shows "\<exists>cert skey. server_ready X dir dns ips cert skey s \<and> ds_files s' = ds_files s"
  using assms
  by (auto simp: must_regenerate_def serverCertCovers_def run_read_file server_ready_def same_sans_iff
      split: if_splits option.splits sum.splits prod.splits)

text \<open>A machine whose disk never fails.\<close>

definition no_disk_faults :: disk_faults where
  "no_disk_faults = (\<lambda>_. None)"

lemma obtain_CA_again:
  "ca_ready X dir (ca, pem, key) s
   \<Longrightarrow> \<exists>n. run_state (obtain_CA X no_disk_faults dir) s = (Inr (ca, pem, key), s\<lparr>ds_calls := n\<rparr>)"
  by (auto simp: ca_ready_def obtain_CA_def loadCA_def run_read_file no_disk_faults_def is_ok_iff)

lemma must_regenerate_again:
  "server_ready X dir dns ips cert skey s
   \<Longrightarrow> \<exists>n. run_state (must_regenerate X no_disk_faults dir dns ips) s = (False, s\<lparr>ds_calls := n\<rparr>)"
  by (auto simp: server_ready_def must_regenerate_def serverCertCovers_def run_read_file no_disk_faults_def same_sans_iff)

lemma Bootstrap_again:
  assumes "ca_ready X dir (ca, pem, key) s" and "server_ready X dir dns ips cert skey s"
  shows "\<exists>s'. run_state (Bootstrap X no_disk_faults dir dns ips) s
      = (Inr \<lparr>mt_ca = ca, mt_ca_pem = pem, mt_key = key, mt_server_cert = cert, mt_server_key = skey\<rparr>, s')
    \<and> ds_files s' = ds_files s"
proof -
  let ?t = "s\<lparr>ds_calls := ds_calls s + 1\<rparr>"
  have "ca_ready X dir (ca, pem, key) ?t" using assms(1) by (simp add: ca_ready_def)
  from obtain_CA_again [OF this] obtain n where
    n: "run_state (obtain_CA X no_disk_faults dir) ?t = (Inr (ca, pem, key), s\<lparr>ds_calls := n\<rparr>)" by auto
  have "server_ready X dir dns ips cert skey (s\<lparr>ds_calls := n\<rparr>)" using assms(2) by (simp add: server_ready_def)
  from must_regenerate_again [OF this] obtain k where
    "run_state (must_regenerate X no_disk_faults dir dns ips) (s\<lparr>ds_calls := n\<rparr>) = (False, s\<lparr>ds_calls := k\<rparr>)" by auto
  with n assms(2) show ?thesis
    by (simp add: Bootstrap_def touch_file_def run_disk_op run_read_file server_ready_def no_disk_faults_def)
qed

text \<open>
  C37: A start of the hub that succeeds leaves a server certificate that is valid for exactly the
  configured names and addresses, and a second start with the same configuration changes no file
  and works with the same authority, server certificate and keys.
\<close>
theorem bootstrap_restart:
  assumes "x509_ok X" and "run_state (Bootstrap X F dir dns ips) s = (Inr m, s')"
  shows "(\<exists>t der d. xl_pem_block X (mt_server_cert m) = Some (t, der) \<and> xl_parse X der = Inr d \<and> sans d = sans (dns, ips))
    \<and> fst (run_state (Bootstrap X no_disk_faults dir dns ips) s') = Inr m
    \<and> ds_files (snd (run_state (Bootstrap X no_disk_faults dir dns ips) s')) = ds_files s'"
proof -
  from assms(2) obtain t1 t2 t3 t4 t5 regen where
    o: "run_state (obtain_CA X F dir) t1 = (Inr (mt_ca m, mt_ca_pem m, mt_key m), t2)"
    and q: "run_state (must_regenerate X F dir dns ips) t2 = (regen, t3)"
    and g: "run_state (if regen then generateServerCert X F dir (mt_ca m) (mt_key m) dns ips else return (Inr ())) t3 = (Inr (), t4)"
    and r: "run_state (read_file F (path_join dir serverCertFile)) t4 = (Inr (mt_server_cert m), t5)"
    and k: "run_state (read_file F (path_join dir serverKeyFile)) t5 = (Inr (mt_server_key m), s')"
    by (rule Bootstrap_okD)
  have f: "ds_files t5 = ds_files t4" "ds_files s' = ds_files t4" using read_okD(2) [OF r] read_okD(2) [OF k] by simp_all
  let ?ca = "(mt_ca m, mt_ca_pem m, mt_key m)"
  have "ca_ready X dir ?ca t3" using keepsD [OF ca_ready_kept(1) obtain_CA_done [OF assms(1) o], of F dns ips] q by simp
  then have "ca_ready X dir ?ca t4"
    using keepsD [OF ca_ready_kept(2), of X dir ?ca t3 F "mt_ca m" "mt_key m" dns ips] g by (cases regen) simp_all
  then have ca: "ca_ready X dir ?ca s'" using f by (simp add: ca_ready_def)
  have "\<exists>cert skey. server_ready X dir dns ips cert skey t4"
  proof (cases regen)
    case True
    with g generateServerCert_done [OF assms(1)] show ?thesis by metis
  next
    case False
    with q g have "run_state (must_regenerate X F dir dns ips) t2 = (False, t3)" "t4 = t3" by simp_all
    with must_regenerate_False [OF this(1)] show ?thesis by (auto simp: server_ready_def)
  qed
  then have "server_ready X dir dns ips (mt_server_cert m) (mt_server_key m) t4"
    using read_okD(1) [OF r] read_okD(1) [OF k] f by (auto simp: server_ready_def)
  then have "server_ready X dir dns ips (mt_server_cert m) (mt_server_key m) s'" using f by (simp add: server_ready_def)
  with Bootstrap_again [OF ca this] show ?thesis by (auto simp: server_ready_def)
qed

section \<open>Fingerprints and enrolled keys\<close>

lemma lower_hex_code: "k < 16 \<Longrightarrow> of_char (lower_hex k) = (if k < 10 then 48 + k else 87 + k)"
  by (simp add: lower_hex_def)

lemma lower_hex_inj: "m < 16 \<Longrightarrow> n < 16 \<Longrightarrow> lower_hex m = lower_hex n \<longleftrightarrow> m = n"
proof
  assume b: "m < 16" "n < 16" and "lower_hex m = lower_hex n"
  then have "of_char (lower_hex m) = (of_char (lower_hex n) :: nat)" by simp
  with b show "m = n" by (simp add: lower_hex_code split: if_splits)
qed simp

lemma hex_byte_inj: "hex_byte a = hex_byte b \<longleftrightarrow> a = b"
proof
  have bound: "of_char c div 16 < (16 :: nat)" for c :: char by (simp add: less_mult_imp_div_less)
  assume "hex_byte a = hex_byte b"
  then have "of_char a div 16 = (of_char b div 16 :: nat)" "of_char a mod 16 = (of_char b mod 16 :: nat)"
    using bound by (simp_all add: hex_byte_def lower_hex_inj)
  then have "of_char a = (of_char b :: nat)" by (metis div_mult_mod_eq)
  then show "a = b" by simp
qed simp

lemma hex_byte_no_colon: "CHR '':'' \<notin> set (hex_byte b)"
proof -
  have c: "CHR '':'' \<noteq> lower_hex n" if "n < 16" for n
  proof
    assume "CHR '':'' = lower_hex n"
    then have "(of_char (CHR '':'') :: nat) = of_char (lower_hex n)" by simp
    with that show False by (simp add: lower_hex_code split: if_splits)
  qed
  have "of_char b div 16 < (16 :: nat)" by (simp add: less_mult_imp_div_less)
  with c [of "of_char b div 16"] c [of "of_char b mod 16"] show ?thesis by (simp add: hex_byte_def)
qed

lemma digest_text_split: "d \<noteq> [] \<Longrightarrow> split_on (CHR '':'') (digest_text d) = map hex_byte d"
  unfolding digest_text_def by (rule split_on_join) (auto simp: hex_byte_no_colon)

text \<open>
  Two certificates have the same fingerprint text, by which the hub knows an agent, only
  if their SHA-256 digests are the same: the text is a faithful rendering of the digest.
\<close>
theorem fingerprint_is_digest:
  "fingerprintBytes X a = fingerprintBytes X b \<longleftrightarrow> xl_sha256 X a = xl_sha256 X b"
proof -
  have "digest_text d = digest_text e \<longleftrightarrow> d = e" for d e
  proof (cases "d = [] \<or> e = []")
    case True
    have "digest_text f = [] \<longleftrightarrow> f = []" for f
      by (cases f rule: list.exhaust, simp_all add: digest_text_def)
        (metis append_is_Nil_conv hex_byte_def join.simps(2,3) list.exhaust list.simps(3) list.simps(8,9))
    with True show ?thesis by (metis (no_types))
  next
    case False
    with digest_text_split [of d] digest_text_split [of e] show ?thesis
      by (metis hex_byte_inj list.inj_map_strong)
  qed
  then show ?thesis by (simp add: fingerprintBytes_def)
qed

text \<open>
  C14: When the hub enrolls an agent with its own authority, the agent's request was signed by
  the key it is for, that key is an ECDSA key on one of the three NIST curves or an RSA key of at
  least 2048 bits, the certificate handed out is one for that key and the agent's name, for client
  authentication only and no authority, and the agent's active identity is that certificate's
  fingerprint.
\<close>
theorem enrolled_keys_are_strong:
  assumes "x509_ok X" and "db_ok s"
    and "run_state (Enroll hash (pki_of X m serial ttl) req) s = (Inr (cert, ca), s')"
  shows "\<exists>der q cder. xl_pem_block X (er_csr req) = Some (''CERTIFICATE REQUEST'', der)
    \<and> xl_parse_csr X der = Inr q \<and> cq_signature q = None
    \<and> (case cq_key q of
         Ecdsa curve _ \<Rightarrow> curve \<in> {''P-256'', ''P-384'', ''P-521''} | Rsa bits _ \<Rightarrow> 2048 \<le> bits | OtherKey _ \<Rightarrow> False)
    \<and> xl_create X serial (agent_template (er_agent req) ttl) (Some (mt_ca m)) (cq_key q) (mt_key m) = Inr cder
    \<and> cert = xl_pem X ''CERTIFICATE'' cder
    \<and> active_identity (er_agent req) (fingerprintBytes X cder) s'"
proof -
  note b = enroll_bound [OF assms(2,3)]
  then obtain fp where sign: "SignCSR X m serial (er_csr req) (er_agent req) ttl = Inr cert"
    and fp: "FingerprintFromPEM X cert = Inr fp" "active_identity (er_agent req) fp s'"
    by (auto simp: pki_of_def split: sum.splits)
  from sign obtain der q cder where q: "xl_pem_block X (er_csr req) = Some (''CERTIFICATE REQUEST'', der)"
    "xl_parse_csr X der = Inr q" "cq_signature q = None" "assertStrongKey (cq_key q) = Inr ()"
    "xl_create X serial (agent_template (er_agent req) ttl) (Some (mt_ca m)) (cq_key q) (mt_key m) = Inr cder"
    "cert = xl_pem X ''CERTIFICATE'' cder"
    by (auto simp: SignCSR_def split: option.splits sum.splits if_splits)
  have "fp = fingerprintBytes X cder"
    using fp(1) assms(1) by (auto simp: FingerprintFromPEM_def x509_ok_def q(6) split: sum.splits)
  moreover have "case cq_key q of
      Ecdsa curve _ \<Rightarrow> curve \<in> {''P-256'', ''P-384'', ''P-521''} | Rsa bits _ \<Rightarrow> 2048 \<le> bits | OtherKey _ \<Rightarrow> False"
    using q(4) by (auto simp: assertStrongKey_def split: pub_key.splits if_splits)
  ultimately show ?thesis using q fp(2) by blast
qed

end
