(* ===== verification/Hub_Upkeep.thy ===== *)
theory Hub_Upkeep
  imports Versions Store_Life
begin

text \<open>
  The hub's two background workers: \<open>hub/retention/retention.go\<close>, which deletes old artifact
  directories and archived messages, and \<open>hub/release/poller.go\<close>, which keeps the name of the
  newest release. A directory's listing and the end of each removal are inputs, and so are the
  replies of the release server. Durations are nanoseconds in 64 bits, which wrap around.
\<close>

section \<open>Retention\<close>

text \<open>An entry of the artifact root: its modification time if it is known, and the error of its removal.\<close>

record dir_entry =
  de_name :: string
  de_is_dir :: bool
  de_mtime :: "instant option"
  de_removal :: "string option"

record retention =
  rt_keep_days :: int
  rt_scan_every :: int

definition New_retention :: "int \<Rightarrow> int \<Rightarrow> retention" where
  "New_retention keep every =
     \<lparr>rt_keep_days = (if keep \<le> 0 then 30 else keep),
      rt_scan_every = (if every \<le> 0 then 3600 * 10 ^ 9 else every)\<rparr>"

definition day :: int where
  "day = 24 * 3600 * 10 ^ 9"

text \<open>\<open>time.Duration(days) * 24 * time.Hour\<close>.\<close>

definition days_duration :: "int \<Rightarrow> int" where
  "days_duration n = sint (word_of_int n * word_of_int day :: 64 word)"

text \<open>Whether the entry is gone afterwards.\<close>

definition sweep_entry :: "instant \<Rightarrow> dir_entry \<Rightarrow> ('z, bool) dbm" where
  "sweep_entry cutoff e =
     (if \<not> de_is_dir e then return False
      else do {
        t \<leftarrow> GetTask (de_name e);
        if (case t of Inr r \<Rightarrow> (case tk_finished_at r of Some f \<Rightarrow> f > cutoff | None \<Rightarrow> False) | Inl _ \<Rightarrow> False)
        then return False
        else if (case de_mtime e of Some m \<Rightarrow> m > cutoff | None \<Rightarrow> False) then return False
        else return (de_removal e = None)
      })"

fun sweep_entries :: "instant \<Rightarrow> dir_entry list \<Rightarrow> ('z, dir_entry list) dbm" where
  "sweep_entries cutoff [] = return []"
| "sweep_entries cutoff (e # es) = do {
     gone \<leftarrow> sweep_entry cutoff e;
     left \<leftarrow> sweep_entries cutoff es;
     return (if gone then left else e # left)
   }"

text \<open>What is left in the artifact root, or the error of reading it.\<close>

definition cleanupArtifacts :: "instant \<Rightarrow> string + dir_entry list \<Rightarrow> ('z, string + dir_entry list) dbm" where
  "cleanupArtifacts cutoff root =
     (case root of
        Inl e \<Rightarrow> return (Inl e)
      | Inr es \<Rightarrow> do { left \<leftarrow> sweep_entries cutoff es; return (Inr left) })"

definition finished_before :: "instant \<Rightarrow> investigation \<Rightarrow> bool" where
  "finished_before cutoff v = (inv_status v \<in> {InvDone, InvAborted} \<and> inv_updated_at v < cutoff)"

definition cleanupArchivedMessages :: "instant \<Rightarrow> ('z, unit) dbr" where
  "cleanupArchivedMessages cutoff = sql_write (\<lambda>s.
     s\<lparr>msgs := delete_rows (\<lambda>x. m_archived x
         \<and> m_inv x \<in> set (map inv_id (filter (finished_before cutoff) (invs s)))) (msgs s)\<rparr>)"

definition sweep :: "retention \<Rightarrow> string + dir_entry list \<Rightarrow> ('z, string + dir_entry list) dbm" where
  "sweep w root = do {
     now \<leftarrow> gets clock;
     (let cutoff = now + - days_duration (rt_keep_days w)
      in do {
        left \<leftarrow> cleanupArtifacts cutoff root;
        _ \<leftarrow> cleanupArchivedMessages cutoff;
        return left
      })
   }"

section \<open>What a sweep leaves\<close>

lemma days_duration_exact: "0 \<le> n \<Longrightarrow> n \<le> 106751 \<Longrightarrow> days_duration n = n * day"
proof -
  assume n: "0 \<le> n" "n \<le> 106751"
  then have "0 \<le> n * day" "n * day < 2 ^ 63" by (simp_all add: day_def)
  moreover have "days_duration n = signed_take_bit 63 (n * day)"
    unfolding days_duration_def wi_hom_mult sint_sbintrunc' by simp
  ultimately show ?thesis by (simp add: signed_take_bit_int_eq_self)
qed

text \<open>A number of days that is too large makes a negative duration, and with it a cutoff in the future.\<close>

lemma days_duration_wraps: "days_duration 106752 < 0"
  by (simp add: days_duration_def day_def)

lemma sweep_entry_result:
  assumes "run_state (sweep_entry cutoff e) s = (gone, s')"
  shows "s' = s\<lparr>faults := faults s'\<rparr>
    \<and> (gone \<longrightarrow> de_is_dir e \<and> (\<forall>m. de_mtime e = Some m \<longrightarrow> m \<le> cutoff)
          \<and> (faults s = [] \<longrightarrow> (\<forall>t f. find_row (\<lambda>t. tk_id t = de_name e) (tasks s) = Some t
                \<longrightarrow> tk_finished_at t = Some f \<longrightarrow> f \<le> cutoff)))"
  using assms
  by (auto simp: sweep_entry_def GetTask_def run_sql simp del: run_sql_no_fault faults_Nil
      split: if_splits option.splits sum.splits)

text \<open>What an entry must be to be removed, when the database answers.\<close>

definition removable :: "'z db_scheme \<Rightarrow> instant \<Rightarrow> dir_entry \<Rightarrow> bool" where
  "removable s cutoff e =
     (de_is_dir e \<and> (case de_mtime e of Some m \<Rightarrow> m \<le> cutoff | None \<Rightarrow> True)
      \<and> list_all (\<lambda>t. tk_id t = de_name e \<longrightarrow> (case tk_finished_at t of Some f \<Rightarrow> f \<le> cutoff | None \<Rightarrow> True)) (tasks s))"

lemma sweep_entry_removable:
  assumes "distinct (map tk_id (tasks s))" and "faults s = []" and "run_state (sweep_entry cutoff e) s = (True, s')"
  shows "removable s cutoff e"
proof -
  have "find_row (\<lambda>t. tk_id t = de_name e) (tasks s) = Some t" if "t \<in> set (tasks s)" "tk_id t = de_name e" for t
    using that assms(1) find_row_key [of tk_id "tasks s"] by metis
  with sweep_entry_result [OF assms(3)] assms(2) show ?thesis
    by (auto simp: removable_def list_all_iff split: option.split)
qed

lemma sweep_entry_state: "faults s = [] \<Longrightarrow> snd (run_state (sweep_entry cutoff e) s) = s"
  by (auto simp: sweep_entry_def GetTask_def split: option.split sum.split)

lemma sweep_entries_result:
  assumes "distinct (map tk_id (tasks s))" and "faults s = []"
  shows "\<exists>left. run_state (sweep_entries cutoff es) s = (left, s) \<and> set left \<subseteq> set es
    \<and> (\<forall>e \<in> set es - set left. removable s cutoff e)"
proof (induction es)
  case (Cons e es)
  then obtain left where left: "run_state (sweep_entries cutoff es) s = (left, s)" "set left \<subseteq> set es"
    "\<forall>e \<in> set es - set left. removable s cutoff e" by blast
  obtain gone where g: "run_state (sweep_entry cutoff e) s = (gone, s)"
    using sweep_entry_state [OF assms(2), of cutoff e] by (metis prod.collapse)
  show ?case
    using left g sweep_entry_removable [OF assms, of cutoff e s] by (cases gone) auto
qed simp

lemma archived_deletion_keeps: "keeps db_ok (cleanupArchivedMessages cutoff)"
  unfolding cleanupArchivedMessages_def
proof (rule sql_write_keeps)
  fix s :: "'a db_scheme"
  assume ok: "db_ok s"
  let ?P = "\<lambda>x. m_archived x \<and> m_inv x \<in> set (map inv_id (filter (finished_before cutoff) (invs s)))"
  have "sorted_wrt (<) (map m_id (delete_rows ?P (msgs s)))"
    using ok by (simp add: db_ok_parts delete_rows_def sorted_wrt_map sorted_wrt_filter)
  moreover have "sorted_wrt (<) (msg_seqs i (delete_rows ?P (msgs s)))" for i
  proof -
    have "msg_seqs i (delete_rows ?P (msgs s)) = map m_seq (filter (\<lambda>x. \<not> ?P x) (filter (\<lambda>x. m_inv x = i) (msgs s)))"
      by (simp add: msg_seqs_def delete_rows_def conj_commute)
    moreover have "sorted_wrt (<) (map m_seq (filter (\<lambda>x. m_inv x = i) (msgs s)))"
      using ok by (simp add: db_ok_parts msg_seqs_def)
    ultimately show ?thesis by (simp only: sorted_wrt_map sorted_wrt_filter)
  qed
  ultimately show "db_ok (s\<lparr>msgs := delete_rows ?P (msgs s)\<rparr>)"
    using ok by (auto simp: db_ok_parts)
qed


section \<open>The release poller\<close>

record poller =
  pl_api :: string
  pl_html :: string
  pl_interval :: int
  pl_latest :: string
  pl_fetched_at :: "instant option"
  pl_error :: "string option"
  pl_error_at :: "instant option"
  pl_rate :: string

definition New_poller :: "string \<Rightarrow> int \<Rightarrow> poller option" where
  "New_poller url interval =
     (case parseRepo url of
        None \<Rightarrow> None
      | Some (owner, repo) \<Rightarrow>
          Some \<lparr>pl_api = releases_api (owner, repo),
                pl_html = ''https://github.com/'' @ owner @ ''/'' @ repo @ ''/releases'',
                pl_interval = (if interval \<le> 0 then 30 * 60 * 10 ^ 9 else interval),
                pl_latest = [], pl_fetched_at = None, pl_error = None, pl_error_at = None, pl_rate = []\<rparr>)"

definition recordErr :: "instant \<Rightarrow> string \<Rightarrow> poller \<Rightarrow> poller" where
  "recordErr now e p = p\<lparr>pl_error := Some e, pl_error_at := Some now\<rparr>"

text \<open>The document of this client has the tag and the two flags.\<close>

definition dec_latest :: "release_doc agg_decoder" where
  "dec_latest = dec_struct (\<lambda>r kvs.
     let (t, ok1) = field ''tag_name'' (leaf dec_string) (rl_tag r) kvs;
         (d, ok2) = field ''draft'' (leaf dec_bool) (rl_draft r) kvs;
         (p, ok3) = field ''prerelease'' (leaf dec_bool) (rl_pre r) kvs
     in (r\<lparr>rl_tag := t, rl_draft := d, rl_pre := p\<rparr>, ok1 \<and> ok2 \<and> ok3))"

definition latest_tag :: "http_reply \<Rightarrow> string option" where
  "latest_tag r =
     (case first_value (fst (read_limited (2 ^ 20) r)) of
        None \<Rightarrow> None
      | Some v \<Rightarrow> (case dec_latest no_release v of (d, ok) \<Rightarrow> if ok then Some (rl_tag d) else None))"

text \<open>A poll: the error of making or sending the request, or the reply; \<open>jerr\<close> is the decoder's text.\<close>

definition pollOnce :: "(bytes \<Rightarrow> string) \<Rightarrow> instant \<Rightarrow> string + http_reply \<Rightarrow> poller \<Rightarrow> poller" where
  "pollOnce jerr now answer p =
     (case answer of
        Inl e \<Rightarrow> recordErr now e p
      | Inr r \<Rightarrow>
          if hr_status r = 404
          then p\<lparr>pl_error := Some ''no releases published yet'', pl_error_at := Some now, pl_rate := hr_rate r\<rparr>
          else if hr_status r \<noteq> 200
          then recordErr now (''github api '' @ int_text (hr_status r) @ '': '' @ trim_space (fst (read_limited 512 r))) p
          else (case latest_tag r of
                  None \<Rightarrow> recordErr now (jerr (hr_body r)) p
                | Some tag \<Rightarrow>
                    if tag = [] then recordErr now ''empty tag_name'' p
                    else p\<lparr>pl_latest := tag, pl_fetched_at := Some now, pl_error := None, pl_rate := hr_rate r\<rparr>))"

text \<open>\<open>Run\<close>: one poll at once and one per tick, by the instants and answers.\<close>

definition Run_poller :: "(bytes \<Rightarrow> string) \<Rightarrow> poller option \<Rightarrow> (instant \<times> (string + http_reply)) list \<Rightarrow> poller option" where
  "Run_poller jerr p polls = map_option (fold (\<lambda>(now, a). pollOnce jerr now a) polls) p"

definition Latest :: "poller option \<Rightarrow> string \<times> bool" where
  "Latest p = (case p of None \<Rightarrow> ([], False) | Some q \<Rightarrow> (pl_latest q, pl_latest q \<noteq> []))"

definition ReleasesURL :: "poller option \<Rightarrow> string" where
  "ReleasesURL p = (case p of None \<Rightarrow> [] | Some q \<Rightarrow> pl_html q)"

text \<open>The latest tag, the instant of its poll, the last error's text and the rate hint.\<close>

definition Info :: "poller option \<Rightarrow> string \<times> instant option \<times> string \<times> string" where
  "Info p =
     (case p of
        None \<Rightarrow> ([], None, [], [])
      | Some q \<Rightarrow> (pl_latest q, pl_fetched_at q, (case pl_error q of None \<Rightarrow> [] | Some e \<Rightarrow> e), pl_rate q))"

text \<open>The tag of an answer that counts.\<close>

definition good_answer :: "string + http_reply \<Rightarrow> string option" where
  "good_answer a =
     (case a of
        Inl _ \<Rightarrow> None
      | Inr r \<Rightarrow> if hr_status r = 200 then (case latest_tag r of Some t \<Rightarrow> if t = [] then None else Some t | None \<Rightarrow> None) else None)"

lemma pollOnce_latest:
  "pl_latest (pollOnce jerr now a p) = (case good_answer a of Some t \<Rightarrow> t | None \<Rightarrow> pl_latest p)"
  by (auto simp: pollOnce_def good_answer_def recordErr_def split: sum.splits option.splits)

lemma pollOnce_error: "pl_error (pollOnce jerr now a p) = None \<longleftrightarrow> good_answer a \<noteq> None"
  by (auto simp: pollOnce_def good_answer_def recordErr_def split: sum.splits option.splits)

text \<open>Failures never take the known release away: it is the one of the last answer that counts.\<close>

lemma latest_survives_failures:
  "pl_latest (fold (\<lambda>(now, a). pollOnce jerr now a) polls p)
   = (case find_last (\<lambda>a. good_answer a \<noteq> None) (map snd polls) of
        Some a \<Rightarrow> the (good_answer a) | None \<Rightarrow> pl_latest p)"
proof (induction polls rule: rev_induct)
  case (snoc x polls)
  then show ?case
    by (cases x) (auto simp: find_last_def find_row_def pollOnce_latest split: option.splits)
qed (simp add: find_last_def)

section \<open>A sweep\<close>

definition demo_old_inv :: investigation where
  "demo_old_inv =
     \<lparr>inv_id = ''i'', inv_goal = ''g'', inv_status = InvDone, inv_created_by = ''op'', inv_created_at = 0, inv_updated_at = 0,
      inv_model = [], inv_base_url = [], inv_prompt_tokens = 0, inv_completion_tokens = 0, inv_tool_calls = 0,
      inv_compaction_tokens = 0, inv_summary = None, inv_allowed = [], inv_extra_steps = 0, inv_extra_tokens = 0,
      inv_auto_approve = False\<rparr>"

definition demo_msg :: "int \<Rightarrow> bool \<Rightarrow> msg" where
  "demo_msg n old =
     \<lparr>m_id = n, m_inv = ''i'', m_seq = n, m_role = RoleUser, m_content = jempty, m_call_id = None, m_calls = None,
      m_at = 0, m_archived = old\<rparr>"

definition demo_store :: db where
  "demo_store = empty_db\<lparr>invs := [demo_old_inv], msgs := [demo_msg 1 True, demo_msg 2 False], last_msg_id := 2, clock := 40 * day\<rparr>"


end
