(* ===== verification/Hub_Llm.thy ===== *)
theory Hub_Llm
  imports Versions Net_Addr Paths Agent_Probe Inv_Base
begin

text \<open>
  \<open>hub/llm/client.go\<close>: the client of the model. The network is a function from requests to
  replies; the bytes a request is marshalled to and the text of a decoding error are parameters.
  The first part is what the client uses of \<open>net/url\<close>: the scheme and the host of a URL, with every
  check whose failure makes \<open>url.Parse\<close> fail.
\<close>

section \<open>URLs\<close>

definition control_char :: "char \<Rightarrow> bool" where
  "control_char c = (of_char c < (0x20 :: nat) \<or> c = CHR 0x7F)"

definition scheme_char :: "char \<Rightarrow> bool" where
  "scheme_char c = (is_alnum c \<or> c \<in> set ''+-.'')"

text \<open>The scheme and what follows its colon; no scheme is the empty one.\<close>

definition getScheme :: "string \<Rightarrow> (string \<times> string) option" where
  "getScheme raw =
     (case (takeWhile scheme_char raw, dropWhile scheme_char raw) of
        ([], c # _) \<Rightarrow> if c = CHR '':'' then None else Some ([], raw)
      | (s, c # rest) \<Rightarrow>
          if c = CHR '':'' \<and> (is_lower (hd s) \<or> is_upper (hd s)) then Some (s, rest) else Some ([], raw)
      | (_, []) \<Rightarrow> Some ([], raw))"

fun escapes_ok :: "string \<Rightarrow> bool" where
  "escapes_ok [] = True"
| "escapes_ok (c # cs) =
     (if c = CHR 0x25
      then (case cs of a # b # _ \<Rightarrow> hexadecimal a \<and> hexadecimal b | _ \<Rightarrow> False) \<and> escapes_ok cs
      else escapes_ok cs)"

definition url_host_char :: "char \<Rightarrow> bool" where
  "url_host_char c = (of_char c \<ge> (0x80 :: nat) \<or> is_alnum c \<or> c \<in> set ''-_.~!$&()*+,;=:[]<>'' \<or> c = CHR 0x27 \<or> c = CHR 0x22)"

text \<open>Host and zone: which percent-encoded bytes are allowed differs.\<close>

fun host_unescape :: "bool \<Rightarrow> string \<Rightarrow> string option" where
  "host_unescape zone [] = Some []"
| "host_unescape zone (c # cs) =
     (if c = CHR 0x25 then
        (case cs of
           a # b # rest \<Rightarrow>
             let v = char_of (nat (16 * hexadecimal_val a + hexadecimal_val b)) :: char
             in if hexadecimal a \<and> hexadecimal b
                   \<and> ((a = CHR ''2'' \<and> b = CHR ''5'')
                      \<or> (if zone then v = CHR '' '' \<or> (url_host_char v \<and> of_char v < (0x80 :: nat)) else hexadecimal_val a \<ge> 8))
                then map_option ((#) v) (host_unescape zone rest) else None
         | _ \<Rightarrow> None)
      else if url_host_char c then map_option ((#) c) (host_unescape zone cs) else None)"

definition validOptionalPort :: "string \<Rightarrow> bool" where
  "validOptionalPort p = (case p of [] \<Rightarrow> True | c # ds \<Rightarrow> c = CHR '':'' \<and> list_all is_digit ds)"

fun index_sub :: "string \<Rightarrow> string \<Rightarrow> nat option" where
  "index_sub p [] = (if p = [] then Some 0 else None)"
| "index_sub p (c # cs) = (if has_prefix (c # cs) p then Some 0 else map_option Suc (index_sub p cs))"

definition parseHost :: "string \<Rightarrow> string option" where
  "parseHost host =
     (if has_prefix host ''['' then
        (case last_index (CHR '']'') host of
           None \<Rightarrow> None
         | Some i \<Rightarrow>
             if \<not> validOptionalPort (drop (i + 1) host) then None
             else (case index_sub [CHR 0x25, CHR ''2'', CHR ''5''] (take i host) of
                     Some z \<Rightarrow>
                       (case (host_unescape False (take z host), host_unescape True (drop z (take i host)),
                              host_unescape False (drop i host)) of
                          (Some a, Some b, Some c) \<Rightarrow> Some (a @ b @ c) | _ \<Rightarrow> None)
                   | None \<Rightarrow> host_unescape False host))
      else (case last_index (CHR '':'') host of
              Some i \<Rightarrow> if validOptionalPort (drop i host) then host_unescape False host else None
            | None \<Rightarrow> host_unescape False host))"

definition user_char :: "char \<Rightarrow> bool" where
  "user_char c = (is_alnum c \<or> c \<in> set ''-._:~!$&()*+,;=%@'' \<or> c = CHR 0x27)"

definition parseAuthority :: "string \<Rightarrow> string option" where
  "parseAuthority a =
     (case last_index (CHR ''@'') a of
        None \<Rightarrow> parseHost a
      | Some i \<Rightarrow>
          (case parseHost (drop (i + 1) a) of
             None \<Rightarrow> None
           | Some h \<Rightarrow> if list_all user_char (take i a) \<and> escapes_ok (take i a) then Some h else None))"

text \<open>\<open>Hostname\<close>: the host without its port and brackets.\<close>

definition strip_port :: "string \<Rightarrow> string" where
  "strip_port h =
     (let h1 = (case last_index (CHR '':'') h of
                  Some i \<Rightarrow> if validOptionalPort (drop i h) then take i h else h | None \<Rightarrow> h)
      in if has_prefix h1 ''['' \<and> has_suffix h1 '']'' then take (length h1 - 2) (drop 1 h1) else h1)"

definition after_scheme :: "string \<Rightarrow> string \<Rightarrow> (string \<times> string) option" where
  "after_scheme scheme rest0 =
     (let rest = fst (cut (CHR ''?'') rest0) in
      if \<not> has_prefix rest ''/'' then
        (if scheme \<noteq> [] then Some (scheme, [])
         else if CHR '':'' \<in> set (fst (cut (CHR ''/'') rest)) then None
         else if escapes_ok rest then Some (scheme, []) else None)
      else if has_prefix rest ''//'' \<and> (scheme \<noteq> [] \<or> \<not> has_prefix rest ''///'') then
        (case parseAuthority (takeWhile (\<lambda>c. c \<noteq> CHR ''/'') (drop 2 rest)) of
           None \<Rightarrow> None
         | Some h \<Rightarrow>
             if escapes_ok (dropWhile (\<lambda>c. c \<noteq> CHR ''/'') (drop 2 rest)) then Some (scheme, strip_port h) else None)
      else if escapes_ok rest then Some (scheme, []) else None)"

text \<open>The lower-case scheme and the host name of a URL that parses.\<close>

definition url_origin :: "string \<Rightarrow> (string \<times> string) option" where
  "url_origin raw =
     (let (u, frag) = cut (CHR ''#'') raw in
      if list_ex control_char u then None
      else if (case frag of Some f \<Rightarrow> \<not> escapes_ok f | None \<Rightarrow> False) then None
      else if u = ''*'' then Some ([], [])
      else (case getScheme u of
              None \<Rightarrow> None
            | Some (s, rest) \<Rightarrow> after_scheme (to_lower s) rest))"

definition loopback_host :: "string \<Rightarrow> bool" where
  "loopback_host h = (h = ''localhost'' \<or> (case ParseIP h of Some p \<Rightarrow> IsLoopback p | None \<Rightarrow> False))"

definition isHTTPSAllowed :: "string \<Rightarrow> bool" where
  "isHTTPSAllowed raw =
     (case url_origin raw of
        None \<Rightarrow> False
      | Some (s, h) \<Rightarrow> if s = ''https'' then True else if s \<noteq> ''http'' then False else loopback_host h)"

lemma isHTTPSAllowed_examples:
  "isHTTPSAllowed ''https://openrouter.ai/api/v1''"
  "isHTTPSAllowed ''HTTP://127.0.0.5:8000/v1''"
  "isHTTPSAllowed ''http://[::1]:11434''"
  "isHTTPSAllowed ''http://localhost''"
  "\<not> isHTTPSAllowed ''http://localhost.evil.example''"
  "\<not> isHTTPSAllowed ''http://localhost@10.0.0.1''"
  "\<not> isHTTPSAllowed ''http://10.0.0.1''"
  "\<not> isHTTPSAllowed ''ftp://localhost''"
  "\<not> isHTTPSAllowed ''localhost:8000''"
  by code_simp+

section \<open>The client\<close>

record llm_options =
  lo_base :: string
  lo_key :: string
  lo_model :: string
  lo_referer :: string
  lo_title :: string
  lo_timeout :: int

record llm_client =
  lc_base :: string
  lc_key :: string
  lc_model :: string
  lc_timeout :: int
  lc_headers :: strmap

definition defaultTimeout :: int where
  "defaultTimeout = 120 * second"

definition New_llm :: "llm_options \<Rightarrow> cerr + llm_client" where
  "New_llm opt =
     (if trim_space (lo_key opt) = []
      then Inl (Msg ''llm: API key is empty (set RECON_LLM_API_KEY or hub.yaml.llm.api_key_env)'')
      else if lo_base opt = [] then Inl (Msg ''llm: base_url is empty'')
      else if lo_model opt = [] then Inl (Msg ''llm: model is empty'')
      else if \<not> isHTTPSAllowed (lo_base opt)
      then Inl (Quoting [(''llm: base_url '', lo_base opt)]
             ('' is plaintext HTTP and not loopback '' @ em_dash @ '' bearer token would leak''))
      else Inr \<lparr>lc_base = trim_right_char (CHR ''/'') (lo_base opt), lc_key = lo_key opt, lc_model = lo_model opt,
                lc_timeout = (if lo_timeout opt \<le> 0 then defaultTimeout else lo_timeout opt),
                lc_headers = (if lo_referer opt = [] then [] else [(''HTTP-Referer'', lo_referer opt)])
                  @ (if lo_title opt = [] then [] else [(''X-Title'', lo_title opt)])\<rparr>)"

definition NewFromEnv ::
  "(string \<Rightarrow> string) \<Rightarrow> string \<Rightarrow> string \<Rightarrow> string \<Rightarrow> string \<Rightarrow> string \<Rightarrow> cerr + llm_client" where
  "NewFromEnv env base model envName referer title =
     New_llm \<lparr>lo_base = base, lo_key = env (if envName = [] then ''RECON_LLM_API_KEY'' else envName),
              lo_model = model, lo_referer = referer, lo_title = title, lo_timeout = 0\<rparr>"

section \<open>Redaction\<close>

definition redacted :: string where
  "redacted = ''***REDACTED***''"

text \<open>\<open>bytes.ReplaceAll\<close> of a text that is not empty.\<close>

function replace_all :: "string \<Rightarrow> string \<Rightarrow> string \<Rightarrow> string" where
  "replace_all k r [] = []"
| "replace_all k r (c # s) =
     (if k \<noteq> [] \<and> has_prefix (c # s) k then r @ replace_all k r (drop (length k - 1) s)
      else c # replace_all k r s)"
  by pat_completeness auto
termination by (relation "measure (\<lambda>(k, r, s). length s)") auto

text \<open>
  The pattern ignores case: a rune is its lower-case letter and its bytes; two runes outside ASCII
  (long s, Kelvin sign) fold to letters, and all other bytes match nothing.
\<close>

function runes :: "string \<Rightarrow> (char \<times> string) list" where
  "runes [] = []"
| "runes (c # cs) =
     (if has_prefix (c # cs) [CHR 0xC5, CHR 0xBF] then (CHR ''s'', [CHR 0xC5, CHR 0xBF]) # runes (drop 1 cs)
      else if has_prefix (c # cs) [CHR 0xE2, CHR 0x84, CHR 0xAA]
      then (CHR ''k'', [CHR 0xE2, CHR 0x84, CHR 0xAA]) # runes (drop 2 cs)
      else (lower_char c, [c]) # runes cs)"
  by pat_completeness auto
termination by (relation "measure length") auto

definition run_of :: "(char \<Rightarrow> bool) \<Rightarrow> string \<Rightarrow> nat" where
  "run_of p s = length (takeWhile p s)"

definition key_char :: "char \<Rightarrow> bool" where
  "key_char c = (is_alnum c \<or> c = CHR ''_'' \<or> c = CHR ''-'')"

definition router_char :: "char \<Rightarrow> bool" where
  "router_char c = (is_digit c \<or> (CHR ''a'' \<le> c \<and> c \<le> CHR ''f'') \<or> c = CHR ''-'')"

text \<open>
  The length of a match of \<open>keyPattern\<close> at the start. The optional parts of its first alternative
  consist of characters of its last one, so it matches \<open>sk-\<close> and the whole run that follows.
\<close>

definition key_match :: "string \<Rightarrow> nat option" where
  "key_match f =
     (if has_prefix f ''sk-'' \<and> run_of key_char (drop 3 f) \<ge> 16 then Some (3 + run_of key_char (drop 3 f))
      else if has_prefix f ''or-v'' \<and> run_of router_char (drop 4 f) \<ge> 16 then Some (4 + run_of router_char (drop 4 f))
      else None)"

function mask_keys :: "(char \<times> string) list \<Rightarrow> string" where
  "mask_keys [] = []"
| "mask_keys (x # xs) =
     (case key_match (map fst (x # xs)) of
        Some n \<Rightarrow> redacted @ mask_keys (drop (n - 1) xs)
      | None \<Rightarrow> snd x @ mask_keys xs)"
  by pat_completeness auto
termination by (relation "measure length") auto

definition sanitizeForError :: "bytes \<Rightarrow> string \<Rightarrow> bytes" where
  "sanitizeForError body key =
     mask_keys (runes (if key = [] then body else replace_all key redacted body))"

definition snippet :: "bytes \<Rightarrow> nat \<Rightarrow> string" where
  "snippet b n = (if length b \<le> n then b else take n b @ [CHR 0xE2, CHR 0x80, CHR 0xA6])"

section \<open>A chat completion\<close>

record chat_message =
  ch_role :: string
  ch_content :: string
  ch_name :: string
  ch_call_id :: string
  ch_calls :: "call_req list"

record chat_choice =
  co_index :: int
  co_message :: chat_message
  co_finish :: string

record chat_usage =
  us_prompt :: int
  us_completion :: int
  us_total :: int

record chat_response =
  cp_id :: string
  cp_model :: string
  cp_choices :: "chat_choice list"
  cp_usage :: chat_usage

record llm_post =
  hq_url :: string
  hq_headers :: strmap
  hq_body :: bytes

definition maxResponseBytes :: nat where
  "maxResponseBytes = 8 * 1024 * 1024"

definition chat_url :: "llm_client \<Rightarrow> string" where
  "chat_url c = lc_base c @ ''/chat/completions''"

definition chat_headers :: "llm_client \<Rightarrow> strmap" where
  "chat_headers c =
     [(''Content-Type'', ''application/json''), (''Authorization'', ''Bearer '' @ lc_key c)] @ lc_headers c"

text \<open>The decoding of a reply.\<close>

definition dec_function :: "(string \<times> string) agg_decoder" where
  "dec_function = dec_struct (\<lambda>f kvs.
     let (n, ok1) = field ''name'' (leaf dec_string) (fst f) kvs;
         (a, ok2) = field ''arguments'' (leaf dec_string) (snd f) kvs
     in ((n, a), ok1 \<and> ok2))"

text \<open>A call of a tool: its id, its type, and the function with the text of its arguments.\<close>

definition dec_call :: "(string \<times> string \<times> string \<times> string) agg_decoder" where
  "dec_call = dec_struct (\<lambda>(i, t, f) kvs.
     let (i', ok1) = field ''id'' (leaf dec_string) i kvs;
         (t', ok2) = field ''type'' (leaf dec_string) t kvs;
         (f', ok3) = field ''function'' dec_function f kvs
     in ((i', t', f'), ok1 \<and> ok2 \<and> ok3))"

definition call_req_of :: "string \<times> string \<times> string \<times> string \<Rightarrow> call_req" where
  "call_req_of c = (case c of (i, _, n, a) \<Rightarrow> \<lparr>cr_id = i, cr_name = n, cr_args = text_json a\<rparr>)"

record raw_message =
  rw_role :: string
  rw_content :: string
  rw_name :: string
  rw_call_id :: string
  rw_calls :: "(string \<times> string \<times> string \<times> string) list"

definition dec_message :: "raw_message agg_decoder" where
  "dec_message = dec_struct (\<lambda>m kvs.
     let (r, ok1) = field ''role'' (leaf dec_string) (rw_role m) kvs;
         (c, ok2) = field ''content'' (leaf dec_string) (rw_content m) kvs;
         (n, ok3) = field ''name'' (leaf dec_string) (rw_name m) kvs;
         (i, ok4) = field ''tool_call_id'' (leaf dec_string) (rw_call_id m) kvs;
         (t, ok5) = field ''tool_calls'' (dec_slice dec_call ([], [], [], [])) (rw_calls m) kvs
     in (\<lparr>rw_role = r, rw_content = c, rw_name = n, rw_call_id = i, rw_calls = t\<rparr>, ok1 \<and> ok2 \<and> ok3 \<and> ok4 \<and> ok5))"

definition no_message :: raw_message where
  "no_message = \<lparr>rw_role = [], rw_content = [], rw_name = [], rw_call_id = [], rw_calls = []\<rparr>"

definition dec_choice :: "(int \<times> raw_message \<times> string) agg_decoder" where
  "dec_choice = dec_struct (\<lambda>(i, m, f) kvs.
     let (i', ok1) = field ''index'' (leaf dec_int) i kvs;
         (m', ok2) = field ''message'' dec_message m kvs;
         (f', ok3) = field ''finish_reason'' (leaf dec_string) f kvs
     in ((i', m', f'), ok1 \<and> ok2 \<and> ok3))"

definition dec_usage :: "chat_usage agg_decoder" where
  "dec_usage = dec_struct (\<lambda>u kvs.
     let (p, ok1) = field ''prompt_tokens'' (leaf dec_int) (us_prompt u) kvs;
         (c, ok2) = field ''completion_tokens'' (leaf dec_int) (us_completion u) kvs;
         (t, ok3) = field ''total_tokens'' (leaf dec_int) (us_total u) kvs
     in (\<lparr>us_prompt = p, us_completion = c, us_total = t\<rparr>, ok1 \<and> ok2 \<and> ok3))"

definition message_of :: "raw_message \<Rightarrow> chat_message" where
  "message_of m =
     \<lparr>ch_role = rw_role m, ch_content = rw_content m, ch_name = rw_name m, ch_call_id = rw_call_id m,
      ch_calls = map call_req_of (rw_calls m)\<rparr>"

definition dec_response :: "chat_response agg_decoder" where
  "dec_response = dec_struct (\<lambda>r kvs.
     let (i, ok1) = field ''id'' (leaf dec_string) (cp_id r) kvs;
         (m, ok2) = field ''model'' (leaf dec_string) (cp_model r) kvs;
         (c, ok3) = field ''choices'' (dec_slice dec_choice (0, no_message, [])) [] kvs;
         (u, ok4) = field ''usage'' dec_usage (cp_usage r) kvs
     in (\<lparr>cp_id = i, cp_model = m,
          cp_choices = map (\<lambda>(n, x, f). \<lparr>co_index = n, co_message = message_of x, co_finish = f\<rparr>) c,
          cp_usage = u\<rparr>, ok1 \<and> ok2 \<and> ok3 \<and> ok4))"

definition no_response :: chat_response where
  "no_response =
     \<lparr>cp_id = [], cp_model = [], cp_choices = [], cp_usage = \<lparr>us_prompt = 0, us_completion = 0, us_total = 0\<rparr>\<rparr>"

text \<open>What is done with the reply; \<open>jerr\<close> is the text of the decoder's error.\<close>

definition take_reply :: "(bytes \<Rightarrow> string) \<Rightarrow> llm_client \<Rightarrow> http_reply \<Rightarrow> cerr + chat_response" where
  "take_reply jerr c r =
     (case read_limited (maxResponseBytes + 1) r of
        (_, Some e) \<Rightarrow> Inl (Wrap ''read response'' (Msg e))
      | (body, None) \<Rightarrow>
          if length body > maxResponseBytes
          then Inl (Msg (''llm response exceeds '' @ nat_text maxResponseBytes @ '' bytes '' @ em_dash
                   @ '' provider returned more than the safety cap''))
          else if hr_status r div 100 \<noteq> 2
          then Inl (Msg (''llm http '' @ int_text (hr_status r) @ '': '' @ snippet (sanitizeForError body (lc_key c)) 512))
          else (case unmarshal dec_response no_response body of
                  (_, False) \<Rightarrow> Inl (Msg (''decode response: '' @ jerr body @ '' (body: '' @ snippet body 256 @ '')''))
                | (out, True) \<Rightarrow>
                    if cp_choices out = [] then Inl (Msg (''llm returned no choices: '' @ snippet body 256))
                    else Inr out))"

text \<open>
  \<open>Chat\<close>: the model asked for (the client's when the request names none) goes into the body, which
  \<open>marshal\<close> makes. A URL that does not parse makes no request.
\<close>

definition Chat ::
  "(string \<Rightarrow> string + bytes) \<Rightarrow> (bytes \<Rightarrow> string) \<Rightarrow> (llm_post \<Rightarrow> string + http_reply) \<Rightarrow> llm_client
   \<Rightarrow> string \<Rightarrow> cerr + chat_response" where
  "Chat marshal jerr net c model =
     (case marshal (if model = [] then lc_model c else model) of
        Inl e \<Rightarrow> Inl (Wrap ''marshal request'' (Msg e))
      | Inr body \<Rightarrow>
          (case url_origin (chat_url c) of
             None \<Rightarrow> Inl (Msg ''invalid URL'')
           | Some _ \<Rightarrow>
               (case net \<lparr>hq_url = chat_url c, hq_headers = chat_headers c, hq_body = body\<rparr> of
                  Inl e \<Rightarrow> Inl (Wrap ''http'' (Msg e))
                | Inr r \<Rightarrow> take_reply jerr c r)))"

text \<open>What the investigator's loop takes of an answer; an error is no answer.\<close>

definition reply_of :: "cerr + chat_response \<Rightarrow> llm_reply option" where
  "reply_of r =
     (case r of
        Inr out \<Rightarrow>
          (case cp_choices out of
             x # _ \<Rightarrow> Some \<lparr>lr_content = ch_content (co_message x), lr_calls = ch_calls (co_message x),
                        lr_prompt_tokens = us_prompt (cp_usage out), lr_completion_tokens = us_completion (cp_usage out)\<rparr>
           | [] \<Rightarrow> None)
      | Inl _ \<Rightarrow> None)"

section \<open>The key goes over TLS or stays on the machine\<close>

lemma takeWhile_twice: "takeWhile P (takeWhile Q s) = takeWhile (\<lambda>x. Q x \<and> P x) s"
  by (induction s) auto

lemma takeWhile_stop: "(\<And>x. x \<in> set a \<Longrightarrow> P x) \<Longrightarrow> \<not> P d \<Longrightarrow> takeWhile P (a @ d # s) = a"
  by (induction a) auto

lemma getScheme_split:
  assumes "getScheme u = Some (s, rest)" and "s \<noteq> []"
  shows "u = s @ CHR '':'' # rest \<and> list_all scheme_char s \<and> (is_lower (hd s) \<or> is_upper (hd s))"
proof -
  obtain a b where ab: "takeWhile scheme_char u = a" "dropWhile scheme_char u = b" by blast
  have "u = a @ b" using ab takeWhile_dropWhile_id by metis
  moreover have "list_all scheme_char a" using ab(1) set_takeWhileD [of _ scheme_char u] by (auto simp: list_all_iff)
  ultimately show ?thesis
    using assms unfolding getScheme_def ab by (auto split: list.splits if_splits)
qed

lemma getScheme_intro:
  assumes "list_all scheme_char s" and "s \<noteq> []" and "is_lower (hd s) \<or> is_upper (hd s)"
  shows "getScheme (s @ CHR '':'' # rest) = Some (s, rest)"
proof -
  have p: "\<And>x. x \<in> set s \<Longrightarrow> scheme_char x" using assms(1) by (simp add: list_all_iff)
  have c: "\<not> scheme_char (CHR '':'')" by code_simp
  have "takeWhile scheme_char (s @ CHR '':'' # rest) = s" using p c by (rule takeWhile_stop)
  moreover have "dropWhile scheme_char (s @ CHR '':'' # rest) = CHR '':'' # rest"
    using p c by (simp add: dropWhile_append)
  ultimately show ?thesis using assms(2,3) by (cases s) (simp_all add: getScheme_def)
qed

text \<open>What decides where the key goes: the scheme, and the authority up to the first delimiter.\<close>

definition authority :: "string \<Rightarrow> string" where
  "authority r = takeWhile (\<lambda>c. c \<noteq> CHR ''#'' \<and> c \<noteq> CHR ''?'' \<and> c \<noteq> CHR ''/'') r"

lemma after_scheme_host:
  assumes "after_scheme s (fst (cut (CHR ''#'') t)) = Some (s', h)" and "h \<noteq> []"
  shows "\<exists>r g. s' = s \<and> t = ''//'' @ r \<and> parseAuthority (authority r) = Some g \<and> h = strip_port g \<and> authority r \<noteq> []"
proof -
  let ?t = "takeWhile (\<lambda>x. x \<noteq> CHR ''?'') (takeWhile (\<lambda>x. x \<noteq> CHR ''#'') t)"
  have cuts: "fst (cut (CHR ''?'') (fst (cut (CHR ''#'') t))) = ?t" by (simp add: cut_def)
  from assms obtain g where g: "has_prefix ?t ''//''" "s' = s" "h = strip_port g"
    "parseAuthority (takeWhile (\<lambda>c. c \<noteq> CHR ''/'') (drop 2 ?t)) = Some g"
    by (auto simp: after_scheme_def Let_def cuts split: if_splits option.splits)
  from g(1) obtain q where q: "?t = ''//'' @ q" by (auto simp: has_prefix_iff)
  then obtain r where r: "t = ''//'' @ r"
    by (cases t; cases "tl t") (auto split: if_splits)
  have a: "takeWhile (\<lambda>c. c \<noteq> CHR ''/'') (drop 2 ?t) = authority r"
    by (simp add: r authority_def takeWhile_twice conj_assoc)
  have "authority r \<noteq> []"
  proof
    assume "authority r = []"
    with g(4) a have "g = []" by (simp add: parseAuthority_def parseHost_def last_index_def has_prefix_def)
    with g(3) assms(2) show False by (simp add: strip_port_def last_index_def has_prefix_def)
  qed
  with g a r show ?thesis by metis
qed

lemma trim_right_append:
  assumes "x \<noteq> []" and "last x \<noteq> c"
  shows "trim_right_char c (x @ z) = x @ trim_right_char c z"
proof -
  obtain y l where "rev x = l # y" "l \<noteq> c"
    using assms by (metis hd_rev list.collapse rev_is_Nil_conv)
  then have "dropWhile (\<lambda>k. k = c) (rev x) = rev x" by simp
  then show ?thesis by (simp add: trim_right_char_def dropWhile_append)
qed

lemma trim_right_prefix: "\<exists>w. z = trim_right_char c z @ w"
  by (metis rev_append rev_rev_ident takeWhile_dropWhile_id trim_right_char_def)

lemma authority_append:
  assumes "authority r \<noteq> []"
  obtains d where "\<And>p. trim_right_char (CHR ''/'') (p @ r) = p @ authority r @ d"
    and "\<And>e. authority (authority r @ d @ CHR ''/'' # e) = authority r"
proof -
  let ?P = "\<lambda>c. c \<noteq> CHR ''#'' \<and> c \<noteq> CHR ''?'' \<and> c \<noteq> CHR ''/''"
  obtain z where z: "r = authority r @ z" "z = dropWhile ?P r" by (simp add: authority_def)
  let ?d = "trim_right_char (CHR ''/'') z"
  have in_a: "\<And>x. x \<in> set (authority r) \<Longrightarrow> ?P x"
    unfolding authority_def by (rule set_takeWhileD [THEN conjunct2])
  have "last (authority r) \<noteq> CHR ''/''" using in_a assms by simp
  then have t: "trim_right_char (CHR ''/'') (p @ r) = p @ authority r @ ?d" for p
    using trim_right_append [of "p @ authority r" "CHR ''/''" z] assms z(1) by simp
  have "authority (authority r @ ?d @ CHR ''/'' # e) = authority r" for e
  proof (cases ?d)
    case Nil
    have "takeWhile ?P (authority r @ CHR ''/'' # e) = authority r" using in_a by (rule takeWhile_stop) simp_all
    then show ?thesis by (simp add: Nil) (simp add: authority_def)
  next
    case (Cons x d)
    obtain w where "z = ?d @ w" using trim_right_prefix by blast
    then have "z \<noteq> []" "hd z = x" using Cons by auto
    then have "\<not> ?P x" using z(2) hd_dropWhile [of ?P r] by metis
    with in_a have "takeWhile ?P (authority r @ x # d @ CHR ''/'' # e) = authority r" by (intro takeWhile_stop) auto
    then show ?thesis by (simp add: Cons) (simp add: authority_def)
  qed
  with t that show ?thesis by blast
qed

lemma after_scheme_scheme: "after_scheme s t = Some (s', h) \<Longrightarrow> s' = s"
  by (auto simp: after_scheme_def Let_def split: if_splits option.splits)

lemma after_scheme_slashes:
  assumes "after_scheme s (fst (cut (CHR ''#'') (''//'' @ r))) = Some (s', h)" and "s \<noteq> []"
  shows "\<exists>g. parseAuthority (authority r) = Some g \<and> h = strip_port g"
proof -
  have "fst (cut (CHR ''?'') (fst (cut (CHR ''#'') (''//'' @ r))))
      = ''//'' @ takeWhile (\<lambda>x. x \<noteq> CHR ''?'') (takeWhile (\<lambda>x. x \<noteq> CHR ''#'') r)"
    by (simp add: cut_def)
  moreover have "takeWhile (\<lambda>c. c \<noteq> CHR ''/'') (takeWhile (\<lambda>x. x \<noteq> CHR ''?'') (takeWhile (\<lambda>x. x \<noteq> CHR ''#'') r)) = authority r"
    by (simp add: authority_def takeWhile_twice conj_assoc)
  ultimately show ?thesis
    using assms by (auto simp: after_scheme_def Let_def has_prefix_def split: if_splits option.splits)
qed

lemma url_origin_split:
  assumes "url_origin raw = Some (s, h)" and "s \<noteq> []"
  shows "\<exists>s0 t. raw = s0 @ CHR '':'' # t \<and> list_all scheme_char s0 \<and> s0 \<noteq> [] \<and> (is_lower (hd s0) \<or> is_upper (hd s0))
    \<and> to_lower s0 = s \<and> after_scheme s (fst (cut (CHR ''#'') t)) = Some (s, h)"
proof -
  obtain u frag where c: "cut (CHR ''#'') raw = (u, frag)" by fastforce
  from assms c obtain s0 rest where g: "getScheme u = Some (s0, rest)" "after_scheme (to_lower s0) rest = Some (s, h)"
    by (auto simp: url_origin_def split: if_splits option.splits)
  from after_scheme_scheme [OF g(2)] have s: "s = to_lower s0" .
  with assms(2) have ne: "s0 \<noteq> []" by (auto simp: to_lower_def)
  note u = getScheme_split [OF g(1) ne]
  have hash: "\<not> scheme_char (CHR ''#'')" by code_simp
  obtain w where w: "raw = u @ w" "w = dropWhile (\<lambda>x. x \<noteq> CHR ''#'') raw"
    using c by (auto simp: cut_def)
  have u_take: "u = takeWhile (\<lambda>x. x \<noteq> CHR ''#'') raw" using c by (simp add: cut_def)
  have raw: "raw = s0 @ CHR '':'' # (rest @ w)" using u w(1) by simp
  have "fst (cut (CHR ''#'') (rest @ w)) = rest"
  proof -
    have "\<And>x. x \<in> set rest \<Longrightarrow> x \<noteq> CHR ''#''" using u u_take set_takeWhileD [of _ "\<lambda>x. x \<noteq> CHR ''#''" raw] by auto
    moreover have "w = [] \<or> hd w = CHR ''#''" using w(2) hd_dropWhile [of "\<lambda>x. x \<noteq> CHR ''#''" raw] by auto
    ultimately show ?thesis by (cases w) (auto simp: cut_def takeWhile_append takeWhile_eq_all_conv)
  qed
  with raw u s ne g(2) show ?thesis by metis
qed

lemma cut_scheme:
  "list_all scheme_char s0 \<Longrightarrow> fst (cut (CHR ''#'') (s0 @ CHR '':'' # t)) = s0 @ CHR '':'' # fst (cut (CHR ''#'') t)"
proof -
  assume "list_all scheme_char s0"
  moreover have "\<not> scheme_char (CHR ''#'')" by code_simp
  ultimately have "\<And>x. x \<in> set s0 \<Longrightarrow> x \<noteq> CHR ''#''" by (auto simp: list_all_iff)
  then show ?thesis by (auto simp: cut_def takeWhile_append takeWhile_eq_all_conv)
qed

lemma url_origin_scheme:
  assumes "url_origin raw = Some (s2, h2)" and "fst (cut (CHR ''#'') raw) = u" and "u \<noteq> ''*''"
    and "getScheme u = Some (s0, rest)"
  shows "after_scheme (to_lower s0) rest = Some (s2, h2)"
  using assms by (auto simp: url_origin_def split_def Let_def split: if_splits)

lemma chat_url_origin:
  assumes "url_origin base = Some (s, h)" and "s \<noteq> []"
    and "url_origin (trim_right_char (CHR ''/'') base @ CHR ''/'' # e) = Some (s2, h2)"
  shows "s2 = s \<and> (h \<noteq> [] \<longrightarrow> h2 = h)"
proof -
  from url_origin_split [OF assms(1,2)] obtain s0 t where b: "base = s0 @ CHR '':'' # t" "list_all scheme_char s0" "s0 \<noteq> []"
    "is_lower (hd s0) \<or> is_upper (hd s0)" "to_lower s0 = s" "after_scheme s (fst (cut (CHR ''#'') t)) = Some (s, h)" by blast
  let ?t = "trim_right_char (CHR ''/'') t @ CHR ''/'' # e"
  have url: "trim_right_char (CHR ''/'') base @ CHR ''/'' # e = s0 @ CHR '':'' # ?t"
    using trim_right_append [of "s0 @ '':''" "CHR ''/''" t] b(1) by simp
  have cut_url: "fst (cut (CHR ''#'') (s0 @ CHR '':'' # ?t)) = s0 @ CHR '':'' # fst (cut (CHR ''#'') ?t)"
    by (rule cut_scheme [OF b(2)])
  have after: "after_scheme s (fst (cut (CHR ''#'') ?t)) = Some (s2, h2)"
  proof -
    have "getScheme (s0 @ CHR '':'' # fst (cut (CHR ''#'') ?t)) = Some (s0, fst (cut (CHR ''#'') ?t))"
      by (rule getScheme_intro [OF b(2,3,4)])
    moreover have "s0 @ CHR '':'' # fst (cut (CHR ''#'') ?t) \<noteq> ''*''" using b(3) by (cases s0) auto
    ultimately show ?thesis
      using url_origin_scheme [OF assms(3) [unfolded url] cut_url] b(5) by simp
  qed
  moreover have "h2 = h" if "h \<noteq> []"
  proof -
    from after_scheme_host [OF b(6) that] obtain r g where r: "t = ''//'' @ r" "parseAuthority (authority r) = Some g"
      "h = strip_port g" "authority r \<noteq> []" by blast
    from authority_append [OF r(4)] obtain d where d: "trim_right_char (CHR ''/'') t = ''//'' @ authority r @ d"
      "authority (authority r @ d @ CHR ''/'' # e) = authority r" unfolding r(1) by metis
    have "after_scheme s (fst (cut (CHR ''#'') (''//'' @ (authority r @ d @ CHR ''/'' # e)))) = Some (s2, h2)"
      using after d(1) by simp
    from after_scheme_slashes [OF this assms(2)] d(2) r(2,3) show ?thesis by auto
  qed
  ultimately show ?thesis using after_scheme_scheme by blast
qed


section \<open>The key is not shown\<close>

text \<open>A text without a key, judged piece by piece between the characters \<open>c\<close>, which the key has not.\<close>

lemma contains_pieces:
  assumes "c \<notin> set k" and "k \<noteq> []"
  shows "contains s k \<longleftrightarrow> (\<exists>w \<in> set (split_on c s). contains w k)"
proof (induction s)
  case (Cons x s)
  obtain w ws where w: "split_on c s = w # ws" by (cases "split_on c s") auto
  obtain y ys where k: "k = y # ys" "y \<noteq> c" using assms by (cases k) auto
  have pre: "has_prefix (x # s) k \<longleftrightarrow> has_prefix (x # w) k" if "x \<noteq> c"
  proof -
    have "\<exists>r. s = w @ r \<and> (r = [] \<or> hd r = c)"
    proof -
      have j: "join [c] (w # ws) = s" using join_split_on [of c s] w by simp
      show ?thesis
      proof (cases ws)
        case (Cons v vs)
        then have "s = w @ (c # join [c] (v # vs))" using j by simp
        then show ?thesis by (metis list.sel(1))
      qed (use j in simp)
    qed
    then obtain r where r: "s = w @ r" "r = [] \<or> hd r = c" by blast
    have "has_prefix (w @ r) q \<longleftrightarrow> has_prefix w q" if "c \<notin> set q" for q
      using that r(2)
    proof (induction q arbitrary: w)
      case (Cons z q)
      then show ?case by (cases w; cases r) (auto simp: has_prefix_def)
    qed simp
    with assms(1) show ?thesis by (auto simp: r(1) k has_prefix_def)
  qed
  show ?case
  proof (cases "x = c")
    case True
    then have "\<not> has_prefix (x # s) k" using k by (simp add: has_prefix_def)
    with True Cons.IH assms(2) show ?thesis by simp
  next
    case False
    with Cons.IH w pre show ?thesis by auto
  qed
qed (use assms in simp)

text \<open>The output \<open>out\<close> follows the text \<open>t\<close> up to its first piece, and no piece has the key.\<close>

definition follows :: "string \<Rightarrow> string \<Rightarrow> string \<Rightarrow> bool" where
  "follows k t out =
     (has_prefix t (hd (split_on (CHR ''*'') out)) \<and> list_all (\<lambda>w. \<not> contains w k) (split_on (CHR ''*'') out))"

lemma follows_Nil: "k \<noteq> [] \<Longrightarrow> follows k [] []"
  by (simp add: follows_def)

lemma has_prefix_trans: "has_prefix t p \<Longrightarrow> has_prefix p q \<Longrightarrow> has_prefix t q"
  by (auto simp: has_prefix_iff)

lemma follows_Cons:
  assumes "follows k t out" and "\<not> has_prefix (c # t) k" and "k \<noteq> []"
  shows "follows k (c # t) (c # out)"
proof -
  obtain w ws where w: "split_on (CHR ''*'') out = w # ws" by (cases "split_on (CHR ''*'') out") auto
  have "has_prefix (c # t) (c # w)" using assms(1) w by (auto simp: follows_def has_prefix_iff)
  with assms(2) have "\<not> has_prefix (c # w) k" using has_prefix_trans by blast
  with assms w \<open>has_prefix (c # t) (c # w)\<close> show ?thesis by (simp add: follows_def)
qed

lemma follows_append:
  "follows k t out \<Longrightarrow> \<not> contains (b @ t) k \<Longrightarrow> k \<noteq> [] \<Longrightarrow> follows k (b @ t) (b @ out)"
  by (induction b) (auto intro: follows_Cons)

lemma contains_length: "contains s k \<Longrightarrow> length k \<le> length s"
  by (auto simp: contains_iff)

lemma follows_redacted:
  assumes "follows k t out" and "8 < length k"
  shows "follows k u (redacted @ out)"
proof -
  have "split_on (CHR ''*'') (redacted @ out) = [[], [], [], ''REDACTED'', [], []] @ split_on (CHR ''*'') out"
    by (simp add: redacted_def)
  moreover have "\<not> contains [] k" "\<not> contains ''REDACTED'' k"
    using contains_length [of "[]" k] contains_length [of "''REDACTED''" k] assms(2) by auto
  ultimately show ?thesis using assms(1) by (simp add: follows_def)
qed

lemma replace_all_follows:
  "8 < length k \<Longrightarrow> follows k s (replace_all k redacted s)"
proof (induction k redacted s rule: replace_all.induct)
  case (2 k c s)
  then show ?case
    by (cases "k \<noteq> [] \<and> has_prefix (c # s) k") (auto intro: follows_redacted follows_Cons)
qed (auto intro: follows_Nil)

lemma runes_bytes: "concat (map snd (runes s)) = s"
proof (induction s rule: runes.induct)
  case (2 c cs)
  then show ?case by (auto simp: has_prefix_iff)
qed simp

lemma contains_suffix: "contains t k \<Longrightarrow> contains (b @ t) k"
  by (induction b) auto

lemma contains_take: "contains (take n s) k \<Longrightarrow> contains s k"
proof -
  assume "contains (take n s) k"
  then obtain a b where "take n s = a @ k @ b" by (auto simp: contains_iff)
  then have "s = a @ k @ (b @ drop n s)" by (metis append.assoc append_take_drop_id)
  then show ?thesis unfolding contains_iff by blast
qed

lemma mask_keys_follows:
  assumes "8 < length k"
  shows "\<not> contains (concat (map snd xs)) k \<Longrightarrow> follows k (concat (map snd xs)) (mask_keys xs)"
proof (induction xs rule: mask_keys.induct)
  case 1
  show ?case using assms by (auto intro: follows_Nil)
next
  case (2 x xs)
  show ?case
  proof (cases "key_match (map fst (x # xs))")
    case None
    with 2(1,3) have "follows k (concat (map snd xs)) (mask_keys xs)" using contains_suffix by auto
    with None 2(3) assms show ?thesis by (auto intro: follows_append)
  next
    case (Some n)
    have "concat (map snd (x # xs)) = snd x @ concat (map snd (take (n - 1) xs)) @ concat (map snd (drop (n - 1) xs))"
      by (metis append_take_drop_id concat.simps(2) concat_append list.simps(9) map_append)
    with 2(3) have "\<not> contains (concat (map snd (drop (n - 1) xs))) k" using contains_suffix by metis
    from 2(2) [OF Some this] show ?thesis using Some assms by (auto intro: follows_redacted)
  qed
qed

text \<open>A key of ordinary length in the characters of a bearer token.\<close>

definition bearer_key :: "string \<Rightarrow> bool" where
  "bearer_key k = (8 < length k \<and> list_all (\<lambda>c. is_alnum c \<or> c \<in> set ''-._~+/='') k)"

lemma bearer_key_chars: "bearer_key k \<Longrightarrow> CHR ''*'' \<notin> set k \<and> CHR 0xE2 \<notin> set k \<and> k \<noteq> []"
proof -
  have "\<not> (is_alnum (CHR ''*'') \<or> CHR ''*'' \<in> set ''-._~+/='')" "\<not> (is_alnum (CHR 0xE2) \<or> CHR 0xE2 \<in> set ''-._~+/='')"
    by code_simp+
  then show "bearer_key k \<Longrightarrow> CHR ''*'' \<notin> set k \<and> CHR 0xE2 \<notin> set k \<and> k \<noteq> []"
    by (auto simp: bearer_key_def list_all_iff)
qed

lemma sanitized_has_no_key:
  assumes "bearer_key k"
  shows "\<not> contains (sanitizeForError body k) k"
proof -
  note k = bearer_key_chars [OF assms] and len = assms [unfolded bearer_key_def, THEN conjunct1]
  have pieces: "\<not> contains out k" if "follows k t out" for t out
    using that contains_pieces [of "CHR ''*''" k out] k by (auto simp: follows_def list_all_iff)
  have "\<not> contains (replace_all k redacted body) k" by (rule pieces [OF replace_all_follows [OF len]])
  then have "follows k (replace_all k redacted body) (mask_keys (runes (replace_all k redacted body)))"
    using mask_keys_follows [OF len, of "runes (replace_all k redacted body)"] by (simp add: runes_bytes)
  from pieces [OF this] show ?thesis using k by (simp add: sanitizeForError_def)
qed

lemma snippet_has_no_key:
  assumes "\<not> contains s k" and "bearer_key k"
  shows "\<not> contains (snippet s n) k"
proof (cases "length s \<le> n")
  case False
  note k = bearer_key_chars [OF assms(2)]
  let ?o = "take n s @ [CHR 0xE2, CHR 0x80, CHR 0xA6]"
  have pieces: "contains t k \<longleftrightarrow> (\<exists>w \<in> set (split_on (CHR 0xE2) t). contains w k)" for t
    by (rule contains_pieces) (use k in simp_all)
  have no: "\<not> contains (take n s) k" using assms(1) contains_take by blast
  have short: "\<not> contains [CHR 0x80, CHR 0xA6] k"
    using contains_length [of "[CHR 0x80, CHR 0xA6]" k] assms(2) by (auto simp: bearer_key_def)
  have "\<not> contains ?o k"
  proof
    assume "contains ?o k"
    then obtain w where w: "w \<in> set (split_on (CHR 0xE2) ?o)" "contains w k" using pieces [of ?o] by blast
    have "set (split_on (CHR 0xE2) ?o) = set (split_on (CHR 0xE2) (take n s)) \<union> {[CHR 0x80, CHR 0xA6]}"
      using split_on_sep [of "CHR 0xE2" "take n s" "[CHR 0x80, CHR 0xA6]"] by simp
    with w short have "w \<in> set (split_on (CHR 0xE2) (take n s))" by blast
    with w(2) no pieces [of "take n s"] show False by blast
  qed
  then show ?thesis using False by (simp add: snippet_def)
qed (use assms(1) in \<open>simp add: snippet_def\<close>)

text \<open>
  C20: When the provider refuses a request, the error that goes into the audit log and onto the
  operator's page quotes the reply without the client's key, wherever and however often the reply
  echoes it, also where the redaction of other keys and the cut at 512 bytes put texts together.
\<close>
theorem refused_reply_hides_key:
  assumes "bearer_key (lc_key c)" and "hr_status r div 100 \<noteq> 2"
    and "take_reply jerr c r = Inl (Msg e)" and "length (hr_body r) \<le> maxResponseBytes"
  shows "\<exists>excerpt. e = ''llm http '' @ int_text (hr_status r) @ '': '' @ excerpt \<and> \<not> contains excerpt (lc_key c)"
proof -
  have "e = ''llm http '' @ int_text (hr_status r) @ '': '' @ snippet (sanitizeForError (hr_body r) (lc_key c)) 512"
    using assms(2-4) by (auto simp: take_reply_def read_limited_def split: option.splits)
  then show ?thesis using snippet_has_no_key [OF sanitized_has_no_key [OF assms(1)] assms(1)] by blast
qed

section \<open>Examples\<close>

definition demo_options :: llm_options where
  "demo_options =
     \<lparr>lo_base = ''http://127.0.0.1:8000/v1//'', lo_key = ''my.secret.key'', lo_model = ''m'', lo_referer = [],
      lo_title = [], lo_timeout = 0\<rparr>"

definition demo_client :: llm_client where
  "demo_client =
     \<lparr>lc_base = ''http://127.0.0.1:8000/v1'', lc_key = ''my.secret.key'', lc_model = ''m'',
      lc_timeout = defaultTimeout, lc_headers = []\<rparr>"

lemma demo_client_made: "New_llm demo_options = Inr demo_client"
  by code_simp


definition refusal :: http_reply where
  "refusal = \<lparr>hr_status = 401, hr_rate = [], hr_body = ''bad key my.secret.key'', hr_fail = None\<rparr>"

lemma refused_reply_hides_key_witness:
  "\<not> contains (snippet (sanitizeForError ''bad key my.secret.key'' ''my.secret.key'') 512) ''my.secret.key''"
proof -
  let ?e = "''llm http '' @ int_text 401 @ '': '' @ snippet (sanitizeForError ''bad key my.secret.key'' ''my.secret.key'') 512"
  have key: "bearer_key (lc_key demo_client)" by code_simp
  have taken: "take_reply (\<lambda>_. []) demo_client refusal = Inl (Msg ?e)"
    by (simp add: take_reply_def read_limited_def refusal_def demo_client_def maxResponseBytes_def)
  have "length (hr_body refusal) \<le> maxResponseBytes" by (simp add: refusal_def maxResponseBytes_def)
  from refused_reply_hides_key [OF key _ taken this] show ?thesis by (simp add: refusal_def demo_client_def)
qed

text \<open>An answer with a status of success is quoted as it is, the key included, when it has no choices.\<close>

definition echoing :: http_reply where
  "echoing = \<lparr>hr_status = 200, hr_rate = [], hr_body = ''{\"k\":\"my.secret.key\"}'', hr_fail = None\<rparr>"

lemma successful_reply_shows_key:
  "take_reply (\<lambda>_. []) demo_client echoing = Inl (Msg (''llm returned no choices: '' @ hr_body echoing))"
  "contains (hr_body echoing) ''my.secret.key''"
proof -
  have "unmarshal dec_response no_response (hr_body echoing) = (no_response, True)" by code_simp
  then show "take_reply (\<lambda>_. []) demo_client echoing = Inl (Msg (''llm returned no choices: '' @ hr_body echoing))"
    by (simp add: take_reply_def read_limited_def echoing_def maxResponseBytes_def no_response_def snippet_def)
qed code_simp

end
