(* ===== verification/Web_Http.thy ===== *)
theory Web_Http
  imports Inv_Loop
begin

text \<open>
  Requests and replies of the hub's web server (\<open>hub/web\<close>), the part of \<open>net/http\<close> its
  handlers use, and the state and configuration they share. A body is seen as what the
  library's parsers make of it: the pairs of a form, or a JSON value.
\<close>

section \<open>Requests\<close>

type_synonym pairs = "(string \<times> string) list"

text \<open>
  \<open>bd_length\<close> bytes, \<open>bd_value\<close> of them up to the end of the first JSON value; \<open>bd_is_form\<close> says
  that the content type is a URL-encoded form, \<open>bd_form\<close> are the pairs \<open>url.ParseQuery\<close> finds
  then, and \<open>bd_form_ok\<close> says that it finds no malformed one.
\<close>

record body =
  bd_length :: int
  bd_is_form :: bool
  bd_form :: pairs
  bd_form_ok :: bool
  bd_json :: jtext
  bd_value :: int

text \<open>What a checked bearer token puts into the request's context.\<close>

record principal =
  pr_token :: string
  pr_name :: string
  pr_scope :: string
  pr_actor :: string

text \<open>
  \<open>rq_limit\<close> is the cap of \<open>http.MaxBytesReader\<close>, \<open>rq_form\<close> the parsed form (\<open>r.Form\<close>, body
  before query), \<open>rq_user\<close> and \<open>rq_principal\<close> the values of the context.
\<close>

record http_request =
  rq_method :: string
  rq_escaped :: string
  rq_host :: string
  rq_query :: pairs
  rq_query_ok :: bool
  rq_headers :: pairs
  rq_cookies :: pairs
  rq_remote :: string
  rq_tls :: bool
  rq_body :: body
  rq_limit :: "int option"
  rq_form :: "pairs option"
  rq_user :: "string option"
  rq_principal :: "principal option"

text \<open>
  \<open>r.URL.Path\<close>: the path as the request has it (\<open>rq_escaped\<close>, \<open>URL.EscapedPath\<close>), its escapes
  decoded. Paths with malformed escapes do not reach a handler.
\<close>

definition hex_val :: "char \<Rightarrow> nat" where
  "hex_val c = (let n = of_char c in if is_digit c then n - 48 else if is_upper c then n - 55 else n - 87)"

fun path_unescape :: "string \<Rightarrow> string" where
  "path_unescape [] = []"
| "path_unescape (c # cs) =
     (if c = CHR 0x25
      then (case cs of a # b # rest \<Rightarrow> char_of (16 * hex_val a + hex_val b) # path_unescape rest | _ \<Rightarrow> [])
      else c # path_unescape cs)"

definition rq_path :: "http_request \<Rightarrow> string" where
  "rq_path rq = path_unescape (rq_escaped rq)"

definition get_first :: "string \<Rightarrow> pairs \<Rightarrow> string" where
  "get_first k ps = (case map_of ps k of Some v \<Rightarrow> v | None \<Rightarrow> [])"

definition get_all :: "string \<Rightarrow> pairs \<Rightarrow> string list" where
  "get_all k ps = map snd (filter (\<lambda>p. fst p = k) ps)"

definition header :: "string \<Rightarrow> http_request \<Rightarrow> string" where
  "header k rq = get_first k (rq_headers rq)"

definition cookie_value :: "string \<Rightarrow> http_request \<Rightarrow> string option" where
  "cookie_value k rq = map_of (rq_cookies rq) k"

definition query_get :: "string \<Rightarrow> http_request \<Rightarrow> string" where
  "query_get k rq = get_first k (rq_query rq)"

definition MaxBytesReader :: "int \<Rightarrow> http_request \<Rightarrow> http_request" where
  "MaxBytesReader n rq = rq\<lparr>rq_limit := Some n\<rparr>"

definition within_limit :: "int \<Rightarrow> http_request \<Rightarrow> bool" where
  "within_limit n rq = (case rq_limit rq of None \<Rightarrow> n \<le> 10 * 1024 * 1024 | Some m \<Rightarrow> n \<le> m)"

text \<open>
  \<open>ParseForm\<close>: a form that has been parsed stays as it is, and then there is no error. The
  body counts for \<open>POST\<close>, \<open>PUT\<close> and \<open>PATCH\<close>, and only when it is within the cap; malformed
  pairs are left out and reported.
\<close>

definition ParseForm :: "http_request \<Rightarrow> http_request \<times> bool" where
  "ParseForm rq =
     (case rq_form rq of
        Some _ \<Rightarrow> (rq, True)
      | None \<Rightarrow>
          (let posts = (rq_method rq \<in> {''POST'', ''PUT'', ''PATCH''} \<and> bd_is_form (rq_body rq));
               readable = within_limit (bd_length (rq_body rq)) rq;
               post = (if posts \<and> readable then bd_form (rq_body rq) else []);
               ok = ((posts \<longrightarrow> readable \<and> bd_form_ok (rq_body rq)) \<and> rq_query_ok rq)
           in (rq\<lparr>rq_form := Some (post @ rq_query rq)\<rparr>, ok)))"

definition form :: "http_request \<Rightarrow> pairs" where
  "form rq = (case rq_form (fst (ParseForm rq)) of Some ps \<Rightarrow> ps | None \<Rightarrow> [])"

definition FormValue :: "string \<Rightarrow> http_request \<Rightarrow> string" where
  "FormValue k rq = get_first k (form rq)"

lemma ParseForm_again: "ParseForm (fst (ParseForm rq)) = (fst (ParseForm rq), True)"
  by (simp add: ParseForm_def Let_def split: option.splits)

section \<open>Replies\<close>

record cookie =
  ck_name :: string
  ck_value :: string
  ck_max_age :: int
  ck_http_only :: bool
  ck_same_site_strict :: bool
  ck_secure :: bool

text \<open>The pages of the UI, with the data their templates show.\<close>

record layout =
  ly_csrf :: string
  ly_auth :: bool
  ly_user :: string
  ly_nav :: string
  ly_title :: string
  ly_counts :: "nav_counts option"

record catalog_page_entry =
  ce_name :: string
  ce_hosts :: "string list"
  ce_total :: nat
  ce_latest :: string
  ce_category :: string
  ce_description :: string
  ce_reads :: "string list"
  ce_requires :: "string list"
  ce_schema :: string

record investigation_page =
  ip_inv :: investigation
  ip_calls :: "call_row list"
  ip_findings :: "finding list"
  ip_pending :: "call_row option"
  ip_llm :: bool
  ip_max_steps :: int
  ip_max_tokens :: int
  ip_used_tokens :: int
  ip_steps_pct :: int
  ip_tokens_pct :: int
  ip_snap :: string

record settings_page =
  sp_hosts :: "host list"
  sp_issued :: string
  sp_issued_api :: string
  sp_model :: string
  sp_base_url :: string
  sp_max_steps :: int
  sp_max_tokens :: int
  sp_admin :: string
  sp_tokens :: "boot_token list"
  sp_api_tokens :: "pat list"

datatype page =
    LoginPage string string string
  | HostsPage "host list" bool string string string
  | HostDetailPage host "manifest list" string
  | CollectorsPage "catalog_page_entry list"
  | RunsPage "run list"
  | RunDetailPage run "(task \<times> task_result option) list" string nat nat nat
  | SettingsPage settings_page
  | InvestigationsPage "investigation list" "string \<Rightarrow> finding_counts option" bool int int string "nat \<times> nat \<times> nat \<times> nat" "host list"
  | InvestigationPage investigation_page
  | AuditPage "audit_row list" string string

datatype payload =
    Empty
  | ErrorText string
  | ApiError string
  | JsonBody json
  | Rendered "layout option" page
  | Plain string
  | ServeFile string
  | EventStream nat "string list"

record reply =
  rp_code :: nat
  rp_location :: string
  rp_cookies :: "cookie list"
  rp_payload :: payload

definition answer :: "nat \<Rightarrow> payload \<Rightarrow> reply" where
  "answer c p = \<lparr>rp_code = c, rp_location = [], rp_cookies = [], rp_payload = p\<rparr>"

definition http_error :: "nat \<Rightarrow> string \<Rightarrow> reply" where
  "http_error c t = answer c (ErrorText t)"

definition http_redirect :: "nat \<Rightarrow> string \<Rightarrow> reply" where
  "http_redirect c url = \<lparr>rp_code = c, rp_location = url, rp_cookies = [], rp_payload = Empty\<rparr>"

definition not_found :: reply where
  "not_found = http_error 404 ''404 page not found''"

section \<open>State and configuration\<close>

text \<open>
  The web server's own state: the one-shot values per session, by key, and the times of
  failed logins per client address.
\<close>

record web = inv +
  flashes :: "(string \<times> pairs) list"
  login_failures :: "(string \<times> instant list) list"

type_synonym ('z, 'a) wm = "('z web_scheme, 'a) state"

record install_cfg =
  ic_repo :: string
  ic_endpoint :: string
  ic_port :: int
  ic_version :: string
  ic_external :: string
  ic_trusted :: bool

text \<open>
  The server's configuration and the outside functions it uses: SHA-256, bcrypt's comparison,
  base64, \<open>time.ParseDuration\<close> and a duration's text, random tokens (in hexadecimal, in base64
  and row ids), the release poller's latest version, times with nanoseconds, JSON text read,
  indented and of tool calls, Go's quoting, and the substitution in the install script's
  template. \<open>w_loop\<close> says whether the loop is attached.
\<close>

record web_cfg =
  w_cf :: cfg
  w_loop :: bool
  w_username :: string
  w_password_hash :: string
  w_session_ttl :: int
  w_behind_proxy :: bool
  w_install :: install_cfg
  w_sha256 :: "string \<Rightarrow> string"
  w_bcrypt :: "string \<Rightarrow> string \<Rightarrow> bool"
  w_base64 :: "string \<Rightarrow> string option"
  w_duration :: "string \<Rightarrow> int option"
  w_duration_text :: "int \<Rightarrow> string"
  w_hex :: "nat \<Rightarrow> string"
  w_b64 :: "nat \<Rightarrow> string"
  w_row_id :: "nat \<Rightarrow> string"
  w_latest :: string
  w_base_url :: string
  w_time_nano :: "instant \<Rightarrow> string"
  w_parse :: "string \<Rightarrow> jtext"
  w_indent :: "json \<Rightarrow> string"
  w_calls_text :: "call_req list \<Rightarrow> string"
  w_quote :: "string \<Rightarrow> string"
  w_script :: "(string \<times> string) list \<Rightarrow> string"

definition serr_str :: "web_cfg \<Rightarrow> serr \<Rightarrow> string" where
  "serr_str wc e = c_err_text (w_cf wc) (TStore e)"

definition terr_str :: "web_cfg \<Rightarrow> terr \<Rightarrow> string" where
  "terr_str wc e = c_err_text (w_cf wc) e"

text \<open>The audit of the web layer: a failed write is logged, never returned.\<close>

definition audit_web :: "string \<Rightarrow> string \<Rightarrow> json \<Rightarrow> ('z, unit) wm" where
  "audit_web actor action details = ignore (AuditLog actor action details)"

end
