(* ===== verification/Web_Auth.thy ===== *)
theory Web_Auth
  imports Web_Http
begin

text \<open>
  \<open>hub/web/auth.go\<close>: operator sessions, flash values, the throttle of logins, the check of
  session and CSRF token before a handler, login and logout.
\<close>

section \<open>Throttle of logins\<close>

definition login_window :: int where
  "login_window = 5 * 60 * 10 ^ 9"

text \<open>The failures of a key that count: those after the cutoff; they replace the stored ones.\<close>

definition loginAllowed :: "string \<Rightarrow> ('z, bool) wm" where
  "loginAllowed key = State (\<lambda>s.
     (let old = (case map_of (login_failures s) key of Some ts \<Rightarrow> ts | None \<Rightarrow> []);
          keep = filter (\<lambda>t. t > clock s - login_window) old
      in (length keep < 10, s\<lparr>login_failures := map_put key keep (login_failures s)\<rparr>)))"

definition recordLoginFailure :: "string \<Rightarrow> ('z, unit) wm" where
  "recordLoginFailure key = modify (\<lambda>s.
     s\<lparr>login_failures := map_put key
         ((case map_of (login_failures s) key of Some ts \<Rightarrow> ts | None \<Rightarrow> []) @ [clock s]) (login_failures s)\<rparr>)"

section \<open>Sessions\<close>

definition issue :: "web_cfg \<Rightarrow> string \<Rightarrow> int \<Rightarrow> ('z, serr + string \<times> string) wm" where
  "issue wc username ttl = do {
     sid \<leftarrow> draw (w_hex wc);
     tok \<leftarrow> draw (w_hex wc);
     now \<leftarrow> gets clock;
     unless_err (InsertSession \<lparr>ss_sid = sid, ss_user = username, ss_csrf = tok,
                   ss_created_at = now, ss_expires_at = now + ttl\<rparr>)
       (\<lambda>_. return (Inr (sid, tok)))
   }"

text \<open>One-shot values: set on a session, returned and cleared by the next read.\<close>

definition setFlash :: "string \<Rightarrow> string \<Rightarrow> string \<Rightarrow> ('z, unit) wm" where
  "setFlash sid key val = modify (\<lambda>s.
     s\<lparr>flashes := map_put sid (map_put key val
         (case map_of (flashes s) sid of Some bag \<Rightarrow> bag | None \<Rightarrow> [])) (flashes s)\<rparr>)"

definition popFlash :: "string \<Rightarrow> string \<Rightarrow> ('z, string) wm" where
  "popFlash sid key = State (\<lambda>s.
     case map_of (flashes s) sid of
       None \<Rightarrow> ([], s)
     | Some bag \<Rightarrow>
         (let bag' = map_del key bag
          in (get_first key bag,
              s\<lparr>flashes := (if bag' = [] then map_del sid (flashes s) else map_put sid bag' (flashes s))\<rparr>)))"

definition lookup_session :: "string \<Rightarrow> ('z, session option) wm" where
  "lookup_session sid =
     (if sid = [] then return None
      else do {
        r \<leftarrow> GetSession sid;
        return (case r of Inl _ \<Rightarrow> None | Inr row \<Rightarrow> Some row)
      })"

definition revoke :: "string \<Rightarrow> ('z, unit) wm" where
  "revoke sid = do {
     _ \<leftarrow> DeleteSession sid;
     modify (\<lambda>s. s\<lparr>flashes := map_del sid (flashes s)\<rparr>)
   }"

text \<open>The sweep: expired rows, then the flash values whose session is gone.\<close>

definition gc_flash :: "string \<Rightarrow> ('z, unit) wm" where
  "gc_flash sid = do {
     r \<leftarrow> GetSession sid;
     (case r of
        Inl _ \<Rightarrow> modify (\<lambda>s. s\<lparr>flashes := map_del sid (flashes s)\<rparr>)
      | Inr _ \<Rightarrow> return ())
   }"

definition gcExpired :: "('z, unit) wm" where
  "gcExpired = do {
     _ \<leftarrow> DeleteExpiredSessions;
     sids \<leftarrow> gets (\<lambda>s. map fst (flashes s));
     for_each sids gc_flash
   }"

section \<open>Tokens and passwords\<close>

definition investigatorTokenFor :: "web_cfg \<Rightarrow> string \<Rightarrow> int \<Rightarrow> string \<Rightarrow> ('z, serr + string) wm" where
  "investigatorTokenFor wc agent ttl issuer = do {
     tok \<leftarrow> draw (w_b64 wc);
     unless_err (InsertBootstrapToken (w_sha256 wc) tok agent issuer ttl) (\<lambda>_. return (Inr tok))
   }"

definition verifyPassword :: "web_cfg \<Rightarrow> string \<Rightarrow> string \<Rightarrow> bool" where
  "verifyPassword wc pw encoded =
     (case w_base64 wc encoded of None \<Rightarrow> False | Some h \<Rightarrow> w_bcrypt wc h pw)"

section \<open>The check before a handler\<close>

definition cookieSession :: string where
  "cookieSession = ''recon_sid''"

definition cookieCSRF :: string where
  "cookieCSRF = ''recon_csrf''"

definition auth_enabled :: "web_cfg \<Rightarrow> bool" where
  "auth_enabled wc = (w_username wc \<noteq> [] \<and> w_password_hash wc \<noteq> [])"

text \<open>The token a request brings: the header, or else the form field, which parses the form.\<close>

definition provided_csrf :: "http_request \<Rightarrow> string \<times> http_request" where
  "provided_csrf rq =
     (let h = header ''X-CSRF-Token'' rq
      in if h \<noteq> [] then (h, rq)
         else (let rq' = fst (ParseForm (MaxBytesReader (256 * 1024) rq)) in (FormValue ''csrf'' rq', rq')))"

definition csrf_matches :: "http_request \<Rightarrow> string \<Rightarrow> session \<Rightarrow> bool" where
  "csrf_matches rq provided sess =
     (case cookie_value cookieCSRF rq of
        None \<Rightarrow> False
      | Some tok \<Rightarrow> provided \<noteq> [] \<and> tok = ss_csrf sess \<and> provided = ss_csrf sess)"

definition requireAuth ::
  "web_cfg \<Rightarrow> (http_request \<Rightarrow> ('z, reply) wm) \<Rightarrow> http_request \<Rightarrow> ('z, reply) wm" where
  "requireAuth wc h rq =
     (if \<not> auth_enabled wc then h rq
      else do {
        sess \<leftarrow> (case cookie_value cookieSession rq of
                   None \<Rightarrow> return None
                 | Some sid \<Rightarrow> lookup_session sid);
        (case sess of
           None \<Rightarrow>
             return (if rq_method rq = ''GET'' then http_redirect 302 (''/login?next='' @ rq_path rq)
                     else http_error 401 ''unauthorized'')
         | Some row \<Rightarrow>
             if rq_method rq \<noteq> ''GET'' \<and> rq_method rq \<noteq> ''HEAD''
             then (let (provided, rq') = provided_csrf rq
                   in if csrf_matches rq' provided row then h (rq'\<lparr>rq_user := Some (ss_user row)\<rparr>)
                      else return (http_error 403 ''csrf token mismatch''))
             else h (rq\<lparr>rq_user := Some (ss_user row)\<rparr>))
      })"

definition authedUser :: "http_request \<Rightarrow> string" where
  "authedUser rq = (case rq_user rq of Some u \<Rightarrow> if u \<noteq> [] then u else ''operator'' | None \<Rightarrow> ''operator'')"

definition csrfTokenFor :: "http_request \<Rightarrow> ('z, string) wm" where
  "csrfTokenFor rq =
     (case cookie_value cookieSession rq of
        None \<Rightarrow> return []
      | Some sid \<Rightarrow> do {
          sess \<leftarrow> lookup_session sid;
          return (case sess of None \<Rightarrow> [] | Some row \<Rightarrow> ss_csrf row)
        })"

section \<open>Addresses\<close>

text \<open>What comes before the last colon, unless that is empty; and before the first comma.\<close>

definition cut_last :: "char \<Rightarrow> string \<Rightarrow> string" where
  "cut_last c s =
     (let before = rev (drop 1 (dropWhile (\<lambda>x. x \<noteq> c) (rev s)))
      in if c \<in> set s \<and> before \<noteq> [] then before else s)"

definition clientIP :: "http_request \<Rightarrow> bool \<Rightarrow> string" where
  "clientIP rq trustProxy =
     (let xff = header ''X-Forwarded-For'' rq; first = takeWhile (\<lambda>x. x \<noteq> CHR '','') xff
      in if trustProxy \<and> xff \<noteq> []
         then (if CHR '','' \<in> set xff \<and> first \<noteq> [] then trim_space first else trim_space xff)
         else cut_last (CHR '':'') (rq_remote rq))"

text \<open>
  \<open>strings.EqualFold(s, "https")\<close>: letter case aside, and the long s (U+017F, two bytes) counts
  as an s.
\<close>

definition is_https :: "string \<Rightarrow> bool" where
  "is_https s = (to_lower s = ''https'' \<or> to_lower s = ''http'' @ [CHR 0xC5, CHR 0xBF])"

definition cookieSecure :: "web_cfg \<Rightarrow> http_request \<Rightarrow> bool" where
  "cookieSecure wc rq = (rq_tls rq \<or> w_behind_proxy wc \<and> is_https (header ''X-Forwarded-Proto'' rq))"

section \<open>Login and logout\<close>

definition renderLogin :: "nat \<Rightarrow> string \<Rightarrow> string \<Rightarrow> string \<Rightarrow> reply" where
  "renderLogin code user nxt err = answer code (Rendered None (LoginPage user nxt err))"

definition session_cookies :: "web_cfg \<Rightarrow> http_request \<Rightarrow> string \<Rightarrow> string \<Rightarrow> cookie list" where
  "session_cookies wc rq sid tok =
     [\<lparr>ck_name = cookieSession, ck_value = sid, ck_max_age = w_session_ttl wc div 10 ^ 9, ck_http_only = True,
       ck_same_site_strict = True, ck_secure = cookieSecure wc rq\<rparr>,
      \<lparr>ck_name = cookieCSRF, ck_value = tok, ck_max_age = w_session_ttl wc div 10 ^ 9, ck_http_only = False,
       ck_same_site_strict = True, ck_secure = cookieSecure wc rq\<rparr>]"

definition login_target :: "string \<Rightarrow> string" where
  "login_target nxt = (if \<not> has_prefix nxt ''/'' \<or> has_prefix nxt ''//'' then ''/'' else nxt)"

definition login_refused :: "string \<Rightarrow> string \<Rightarrow> string \<Rightarrow> ('z, reply) wm" where
  "login_refused ip user nxt = do {
     _ \<leftarrow> recordLoginFailure ip;
     _ \<leftarrow> audit_web ''anonymous'' ''auth.login_failed'' (JObj [(''ip'', JStr ip), (''username'', JStr user)]);
     return (renderLogin 401 user nxt ''Invalid username or password.'')
   }"

definition login_accepted :: "web_cfg \<Rightarrow> http_request \<Rightarrow> string \<Rightarrow> string \<Rightarrow> ('z, reply) wm" where
  "login_accepted wc rq user nxt = do {
     r \<leftarrow> issue wc user (w_session_ttl wc);
     (case r of
        Inl e \<Rightarrow> return (renderLogin 500 user nxt (''Could not start session: '' @ serr_str wc e))
      | Inr (sid, tok) \<Rightarrow> do {
          _ \<leftarrow> audit_web user ''auth.login'' JNull;
          return \<lparr>rp_code = 303, rp_location = login_target nxt,
                  rp_cookies = session_cookies wc rq sid tok, rp_payload = Empty\<rparr>
        })
   }"

definition login_post :: "web_cfg \<Rightarrow> http_request \<Rightarrow> ('z, reply) wm" where
  "login_post wc rq0 =
     (let (rq, ok) = ParseForm (MaxBytesReader (8 * 1024) rq0)
      in if \<not> ok then return (renderLogin 400 [] [] ''Bad request.'')
         else (let nxt = FormValue ''next'' rq; user = trim_space (FormValue ''username'' rq);
                   ip = clientIP rq (w_behind_proxy wc); pw = FormValue ''password'' rq
               in do {
                 allowed \<leftarrow> loginAllowed ip;
                 (if \<not> allowed then do {
                    _ \<leftarrow> audit_web ''anonymous'' ''auth.login_throttled'' (JObj [(''ip'', JStr ip)]);
                    return (renderLogin 429 user nxt ''Too many failed attempts. Try again in a few minutes.'')
                  }
                  else if user \<noteq> w_username wc \<or> \<not> verifyPassword wc pw (w_password_hash wc)
                  then login_refused ip user nxt
                  else login_accepted wc rq user nxt)
               }))"

definition handleLogin :: "web_cfg \<Rightarrow> http_request \<Rightarrow> ('z, reply) wm" where
  "handleLogin wc rq =
     (if \<not> auth_enabled wc then return (http_redirect 302 ''/'')
      else if rq_method rq = ''GET'' then return (renderLogin 200 [] (query_get ''next'' rq) [])
      else if rq_method rq = ''POST'' then login_post wc rq
      else return (http_error 405 ''method not allowed''))"

definition cleared_cookie :: "string \<Rightarrow> cookie" where
  "cleared_cookie nm = \<lparr>ck_name = nm, ck_value = [], ck_max_age = - 1, ck_http_only = False,
     ck_same_site_strict = False, ck_secure = False\<rparr>"

definition handleLogout :: "http_request \<Rightarrow> ('z, reply) wm" where
  "handleLogout rq = do {
     _ \<leftarrow> (case cookie_value cookieSession rq of None \<Rightarrow> return () | Some sid \<Rightarrow> revoke sid);
     _ \<leftarrow> audit_web (authedUser rq) ''auth.logout'' JNull;
     return \<lparr>rp_code = 303, rp_location = ''/login'',
             rp_cookies = [cleared_cookie cookieSession, cleared_cookie cookieCSRF], rp_payload = Empty\<rparr>
   }"

end
