(* ===== verification/Hub_Main.thy ===== *)
theory Hub_Main
  imports Hub_Pki Hub_Upkeep Hub_Llm Agent_Update Web_Auth
begin

text \<open>
  The hub's program, \<open>cmd/hub\<close>: its configuration file with the defaults, and \<open>main\<close> in its four
  modes over a machine (the disk, the store with the hub's memory) that may fail at any operation.
  A run ends with printed lines, with an exit code, or by serving: what the parts were wired with.
  The two properties are what \<open>gen-token\<close> prints and what \<open>serve\<close> never starts with.
\<close>

section \<open>Configuration\<close>

record http_tls =
  ht_enabled :: bool
  ht_cert :: string
  ht_key :: string

record server_config =
  sc_grpc :: string
  sc_http :: string
  sc_dns :: "string list"
  sc_ips :: "string list"
  sc_tls :: http_tls

record storage_config =
  so_db :: string
  so_artifacts :: string
  so_ca :: string
  so_retention :: int

record model_config =
  mc_base :: string
  mc_model :: string
  mc_key_env :: string
  mc_steps :: int
  mc_tokens :: int
  mc_referer :: string
  mc_title :: string

record hub_file =
  hf_server :: server_config
  hf_storage :: storage_config
  hf_admins :: "string list"
  hf_llm :: model_config
  hf_rpm :: int
  hf_install :: install_cfg

definition envOr :: "(string \<Rightarrow> string) \<Rightarrow> string \<Rightarrow> string \<Rightarrow> string" where
  "envOr env key fallback = (if env key \<noteq> [] then env key else fallback)"

definition or_text :: "string \<Rightarrow> string \<Rightarrow> string" where
  "or_text v d = (if v = [] then d else v)"

definition or_number :: "int \<Rightarrow> int \<Rightarrow> int" where
  "or_number v d = (if v = 0 then d else v)"

definition fill_server :: "server_config \<Rightarrow> server_config" where
  "fill_server c =
     c\<lparr>sc_grpc := or_text (sc_grpc c) '':9443'', sc_http := or_text (sc_http c) ''127.0.0.1:8080''\<rparr>"

definition fill_storage :: "storage_config \<Rightarrow> storage_config" where
  "fill_storage c =
     (let db = or_text (so_db c) ''/var/lib/recon/recon.db''
      in c\<lparr>so_db := db, so_artifacts := or_text (so_artifacts c) ''/var/lib/recon/artifacts'',
           so_ca := or_text (so_ca c) (path_join (path_dir db) ''ca''),
           so_retention := or_number (so_retention c) 30\<rparr>)"

definition fill_llm :: "(string \<Rightarrow> string) \<Rightarrow> model_config \<Rightarrow> model_config" where
  "fill_llm env c =
     c\<lparr>mc_base := or_text (mc_base c) (envOr env ''RECON_LLM_BASE_URL'' ''https://openrouter.ai/api/v1''),
       mc_model := or_text (mc_model c) (envOr env ''RECON_LLM_MODEL'' ''anthropic/claude-sonnet-4.5''),
       mc_key_env := or_text (mc_key_env c) ''RECON_LLM_API_KEY'',
       mc_steps := or_number (mc_steps c) 12, mc_tokens := or_number (mc_tokens c) 500000\<rparr>"

definition fill_install :: "(string \<Rightarrow> string) \<Rightarrow> install_cfg \<Rightarrow> install_cfg" where
  "fill_install env c =
     c\<lparr>ic_version := or_text (ic_version c) (envOr env ''RECON_INSTALL_VERSION'' ''latest''),
       ic_repo := or_text (ic_repo c) (envOr env ''RECON_INSTALL_RELEASE_REPO'' []),
       ic_endpoint := or_text (ic_endpoint c) (envOr env ''RECON_INSTALL_GRPC_ENDPOINT'' ''auto''),
       ic_port := or_number (ic_port c) 9443,
       ic_external := or_text (ic_external c) (envOr env ''RECON_INSTALL_EXTERNAL_URL'' []),
       ic_trusted := (ic_trusted c \<or> envOr env ''RECON_INSTALL_TRUSTED_TLS'' [] = ''true'')\<rparr>"

definition hub_defaults :: "(string \<Rightarrow> string) \<Rightarrow> hub_file \<Rightarrow> hub_file" where
  "hub_defaults env c =
     c\<lparr>hf_server := fill_server (hf_server c), hf_storage := fill_storage (hf_storage c),
       hf_llm := fill_llm env (hf_llm c), hf_install := fill_install env (hf_install c)\<rparr>"

definition ParsedIPs :: "server_config \<Rightarrow> ip list" where
  "ParsedIPs c = List.map_filter ParseIP (sc_ips c)"

text \<open>The comment says that the environment always wins; what the file sets stays.\<close>

lemma file_wins_over_environment:
  "mc_base c \<noteq> [] \<Longrightarrow> mc_base (fill_llm env c) = mc_base c"
  "mc_model c \<noteq> [] \<Longrightarrow> mc_model (fill_llm env c) = mc_model c"
  by (simp_all add: fill_llm_def or_text_def)

section \<open>What the program is given\<close>

record hub_flags =
  fl_config :: string
  fl_mode :: string
  fl_ttl :: int
  fl_issuer :: string
  fl_agent :: string
  fl_reason :: string
  fl_version :: bool

text \<open>
  Outside functions: the version and commit the linker stamps, the environment, the disk's failures, YAML, certificates, the opening of the
  store's file, the match of a certificate and a key, and listening on an address (an error or
  none each), SHA-256, the random bytes of a token
  and their base64, bcrypt and its base64, a duration's text, the pages' templates (an error or
  none) and the outside functions of the web layer.
\<close>

record hub_outside =
  ho_stamp :: "string \<times> string"
  ho_env :: "string \<Rightarrow> string"
  ho_disk :: disk_faults
  ho_yaml :: "bytes \<Rightarrow> string + hub_file"
  ho_x509 :: x509lib
  ho_open :: "string \<Rightarrow> string option"
  ho_pair :: "bytes \<Rightarrow> bytes \<Rightarrow> string option"
  ho_listen :: "string \<Rightarrow> string option"
  ho_sha :: "string \<Rightarrow> string"
  ho_random :: "string + bytes"
  ho_b64 :: "bytes \<Rightarrow> string"
  ho_bcrypt :: "string \<Rightarrow> string + bytes"
  ho_raw_b64 :: "bytes \<Rightarrow> string"
  ho_ttl_text :: "int \<Rightarrow> string"
  ho_templates :: "string option"
  ho_web :: web_cfg

record hub_machine = pki_disk +
  hm_hub :: inv

type_synonym ('z, 'a) hm = "('z hub_machine_scheme, 'a) state"

definition on_hub :: "(inv, 'a) state \<Rightarrow> ('z, 'a) hm" where
  "on_hub m = State (\<lambda>s. case run_state m (hm_hub s) of (x, h) \<Rightarrow> (x, s\<lparr>hm_hub := h\<rparr>))"

definition LoadHubConfig :: "hub_outside \<Rightarrow> string \<Rightarrow> ('z, cerr + hub_file) hm" where
  "LoadHubConfig k path =
     unless_err (wrapped ''read config'' (read_file (ho_disk k) path)) (\<lambda>body.
     (case ho_yaml k body of
        Inl e \<Rightarrow> return (Inl (Wrap ''parse yaml'' (Msg e)))
      | Inr c \<Rightarrow> return (Inr (hub_defaults (ho_env k) c))))"

text \<open>\<open>PasswordHashFromPlaintext\<close>, which \<open>GenPasswordHash\<close> calls.\<close>

definition GenPasswordHash :: "hub_outside \<Rightarrow> string \<Rightarrow> string + string" where
  "GenPasswordHash k pw =
     (if length pw < 8 then Inl ''password must be at least 8 characters''
      else (case ho_bcrypt k pw of Inl e \<Rightarrow> Inl e | Inr h \<Rightarrow> Inr (ho_raw_b64 k h)))"

section \<open>Serving\<close>

record service =
  sv_web :: web_cfg
  sv_http :: string
  sv_tls :: "(string \<times> string) option"
  sv_grpc :: string
  sv_pki :: material
  sv_artifacts :: string
  sv_retention :: retention
  sv_client :: "llm_client option"
  sv_poller :: "poller option"

datatype hub_end = Finished "string list" | Exits int | Serving service

text \<open>The memory of the parts as they are built: agents' streams, the runner, the loop and its bus.\<close>

definition New_streams :: "(inv, unit) state" where
  "New_streams = modify (\<lambda>h. h\<lparr>streams := []\<rparr>)"

definition New_hub_runner :: "int \<Rightarrow> (inv, unit) state" where
  "New_hub_runner rpm = modify (\<lambda>h. h\<lparr>limiter := newRateLimiter rpm, pending := [], open_arts := []\<rparr>)"

definition New_loop :: "(inv, unit) state" where
  "New_loop = modify (\<lambda>h. h\<lparr>bus := None, running := [], cooldown := []\<rparr>)"

definition SetBus :: "(inv, unit) state" where
  "SetBus = modify (\<lambda>h. h\<lparr>bus := Some NewBus\<rparr>)"

definition loop_cfg :: "hub_outside \<Rightarrow> model_config \<Rightarrow> llm_client \<Rightarrow> cfg" where
  "loop_cfg k c lc =
     (w_cf (ho_web k))\<lparr>c_max_steps := mc_steps c, c_max_tokens := mc_tokens c, c_llm := True, c_model := lc_model lc\<rparr>"

text \<open>The operator's credentials from the environment, or the message the program dies with.\<close>

definition operator_auth :: "hub_outside \<Rightarrow> string + string \<times> string \<times> bool" where
  "operator_auth k =
     (let user = envOr (ho_env k) ''RECON_ADMIN_USER'' [];
          proxied = (envOr (ho_env k) ''RECON_BEHIND_TLS_PROXY'' [] = ''true'');
          given = envOr (ho_env k) ''RECON_ADMIN_PASSWORD_HASH'' [];
          pw = ho_env k ''RECON_ADMIN_PASSWORD''
      in case (if given = [] \<and> pw \<noteq> [] then GenPasswordHash k pw else Inr given) of
           Inl e \<Rightarrow> Inl e
         | Inr h \<Rightarrow> if user \<noteq> [] \<and> h = [] then Inl ''refusing to start'' else Inr (user, h, proxied))"

text \<open>\<open>web.NewServer\<close>: the session's lifetime, which the program leaves at zero, becomes twelve hours.\<close>

definition New_web :: "web_cfg \<Rightarrow> web_cfg" where
  "New_web wc = wc\<lparr>w_session_ttl := (if w_session_ttl wc \<le> 0 then 12 * 3600 * 10 ^ 9 else w_session_ttl wc)\<rparr>"

definition web_of ::
  "hub_outside \<Rightarrow> hub_file \<Rightarrow> llm_client option \<Rightarrow> poller option \<Rightarrow> string \<times> string \<times> bool \<Rightarrow> web_cfg" where
  "web_of k c client poll auth = New_web
     ((ho_web k)\<lparr>w_cf := (case client of None \<Rightarrow> w_cf (ho_web k) | Some lc \<Rightarrow> loop_cfg k (hf_llm c) lc),
        w_loop := (client \<noteq> None), w_username := fst auth, w_password_hash := fst (snd auth),
        w_behind_proxy := snd (snd auth), w_session_ttl := 0, w_install := hf_install c,
        w_latest := fst (Latest poll)\<rparr>)"

text \<open>The files the web listener is started with, or none of the two: plain HTTP.\<close>

definition tls_files :: "http_tls \<Rightarrow> unit + (string \<times> string) option" where
  "tls_files t =
     (if \<not> ht_enabled t then Inr None
      else if ht_cert t = [] \<or> ht_key t = [] then Inl ()
      else Inr (Some (ht_cert t, ht_key t)))"

text \<open>\<open>Listen\<close> of \<open>hub/api/server.go\<close>: the server's pair, then the address (an error or none).\<close>

definition Listen ::
  "(bytes \<Rightarrow> bytes \<Rightarrow> string option) \<Rightarrow> (string \<Rightarrow> string option) \<Rightarrow> material \<Rightarrow> string \<Rightarrow> cerr + unit" where
  "Listen pair netListen m addr =
     (case pair (mt_server_cert m) (mt_server_key m) of
        Some e \<Rightarrow> Inl (Wrap ''server keypair'' (Msg e))
      | None \<Rightarrow> (case netListen addr of Some e \<Rightarrow> Inl (Msg e) | None \<Rightarrow> Inr ()))"

definition llm_of :: "hub_outside \<Rightarrow> model_config \<Rightarrow> llm_client option" where
  "llm_of k c =
     (case NewFromEnv (ho_env k) (mc_base c) (mc_model c) (mc_key_env c) (mc_referer c) (mc_title c) of
        Inl _ \<Rightarrow> None | Inr lc \<Rightarrow> Some lc)"

definition start_loop :: "hub_outside \<Rightarrow> model_config \<Rightarrow> llm_client \<Rightarrow> (inv, unit) state" where
  "start_loop k c lc = do { _ \<leftarrow> New_loop; _ \<leftarrow> SetBus; ignore (Resume (loop_cfg k c lc)) }"

definition serve :: "hub_outside \<Rightarrow> hub_file \<Rightarrow> material \<Rightarrow> ('z, hub_end) hm" where
  "serve k c m = do {
     _ \<leftarrow> on_hub New_streams;
     _ \<leftarrow> on_hub (New_hub_runner (hf_rpm c));
     let client = llm_of k (hf_llm c);
     _ \<leftarrow> (case client of None \<Rightarrow> return () | Some lc \<Rightarrow> on_hub (start_loop k (hf_llm c) lc));
     (case Listen (ho_pair k) (ho_listen k) m (sc_grpc (hf_server c)) of
        Inl _ \<Rightarrow> return (Exits 2)
      | Inr _ \<Rightarrow>
          (case operator_auth k of
             Inl _ \<Rightarrow> return (Exits 2)
           | Inr auth \<Rightarrow>
               (let poll = New_poller (ic_repo (hf_install c)) 0
                in if ho_templates k \<noteq> None then return (Exits 2)
                   else (case tls_files (sc_tls (hf_server c)) of
                           Inl _ \<Rightarrow> return (Exits 2)
                         | Inr t \<Rightarrow> return (Serving
                             \<lparr>sv_web = web_of k c client poll auth, sv_http = sc_http (hf_server c), sv_tls = t,
                              sv_grpc = sc_grpc (hf_server c), sv_pki = m, sv_artifacts = so_artifacts (hf_storage c),
                              sv_retention = New_retention (so_retention (hf_storage c)) (3600 * 10 ^ 9),
                              sv_client = client, sv_poller = poll\<rparr>)))))
   }"

section \<open>The modes\<close>

definition gen_token :: "hub_outside \<Rightarrow> hub_flags \<Rightarrow> ('z, hub_end) hm" where
  "gen_token k fl =
     (if fl_agent fl = [] then return (Exits 2)
      else (case GenerateBootstrapToken (ho_b64 k) (ho_random k) of
              Inl _ \<Rightarrow> return (Exits 2)
            | Inr t \<Rightarrow> do {
                r \<leftarrow> on_hub (InsertBootstrapToken (ho_sha k) t (fl_agent fl) (fl_issuer fl) (fl_ttl fl));
                (case r of
                   Inl _ \<Rightarrow> return (Exits 2)
                 | Inr _ \<Rightarrow> do {
                     _ \<leftarrow> on_hub (AuditLog (fl_issuer fl) ''token.issue''
                           (JObj [(''agent_id'', JStr (fl_agent fl)), (''ttl'', JStr (ho_ttl_text k (fl_ttl fl)))]));
                     return (Finished [t])
                   })
              }))"

definition revoke_mode :: "hub_flags \<Rightarrow> ('z, hub_end) hm" where
  "revoke_mode fl =
     (if fl_agent fl = [] then return (Exits 2)
      else do {
        r \<leftarrow> on_hub (RevokeIdentity (fl_agent fl) (fl_reason fl));
        (case r of
           Inl _ \<Rightarrow> return (Exits 2)
         | Inr _ \<Rightarrow> do {
             _ \<leftarrow> on_hub (AuditLog (fl_issuer fl) ''identity.revoke''
                   (JObj [(''agent_id'', JStr (fl_agent fl)), (''reason'', JStr (fl_reason fl))]));
             return (Finished [])
           })
      })"

definition run_mode :: "hub_outside \<Rightarrow> hub_flags \<Rightarrow> hub_file \<Rightarrow> material \<Rightarrow> ('z, hub_end) hm" where
  "run_mode k fl c m =
     (if fl_mode fl = ''gen-token'' then gen_token k fl
      else if fl_mode fl = ''revoke'' then revoke_mode fl
      else if fl_mode fl = ''serve'' then serve k c m
      else return (Exits 2))"

text \<open>Everything up to the modes; any error ends the program with code 2.\<close>

definition prepare :: "hub_outside \<Rightarrow> hub_flags \<Rightarrow> ('z, cerr + hub_file \<times> material) hm" where
  "prepare k fl =
     unless_err (LoadHubConfig k (fl_config fl)) (\<lambda>c.
     unless_err (touch_file (ho_disk k)) (\<lambda>_.
     unless_err (touch_file (ho_disk k)) (\<lambda>_.
     unless_err (return (case ho_open k (so_db (hf_storage c)) of Some e \<Rightarrow> Inl (Msg e) | None \<Rightarrow> Inr ())) (\<lambda>_.
     unless_err (Bootstrap (ho_x509 k) (ho_disk k) (so_ca (hf_storage c)) (sc_dns (hf_server c)) (ParsedIPs (hf_server c))) (\<lambda>m.
     return (Inr (c, m)))))))"

definition hub_main :: "hub_outside \<Rightarrow> hub_flags \<Rightarrow> ('z, hub_end) hm" where
  "hub_main k fl =
     (if fl_version fl then return (Finished [Full (ho_stamp k)])
      else if fl_mode fl = ''gen-password-hash''
      then (let pw = ho_env k ''RECON_ADMIN_PASSWORD''
            in if pw = [] then return (Exits 2)
               else (case GenPasswordHash k pw of Inl _ \<Rightarrow> return (Exits 2) | Inr h \<Rightarrow> return (Finished [h])))
      else do {
        r \<leftarrow> prepare k fl;
        (case r of Inl _ \<Rightarrow> return (Exits 2) | Inr (c, m) \<Rightarrow> run_mode k fl c m)
      })"

section \<open>The disk's operations leave the hub's state alone\<close>

abbreviation same_hub :: "inv \<Rightarrow> 'z hub_machine_scheme \<Rightarrow> bool" where
  "same_hub h s \<equiv> hm_hub s = h"

lemma keeps_hub_steps [keeps_intros]:
  "keeps (same_hub h) (disk_op F f)" "keeps (same_hub h) (read_file F p)" "keeps (same_hub h) (fileExists p)"
  "keeps (same_hub h) fresh_bits"
  by (auto intro!: keepsI simp: run_disk_op run_read_file fresh_bits_def split: option.split)

lemma keeps_hub_prepare: "keeps (same_hub h) (prepare k fl)"
  unfolding prepare_def LoadHubConfig_def Bootstrap_def obtain_CA_def loadCA_def generateCA_def must_regenerate_def
    serverCertCovers_def generateServerCert_def writeFile_def write_file_def rename_file_def touch_file_def
  by (intro keeps_intros keeps_wrapped)

lemma main_runs_mode:
  assumes "run_state (hub_main k fl) s = (e, s')" and "\<not> fl_version fl" and "fl_mode fl \<noteq> ''gen-password-hash''"
  shows "e = Exits 2 \<or> (\<exists>c m t. run_state (prepare k fl) s = (Inr (c, m), t) \<and> hm_hub t = hm_hub s
    \<and> run_state (run_mode k fl c m) t = (e, s'))"
proof -
  obtain r t where p: "run_state (prepare k fl) s = (r, t)" by fastforce
  have "hm_hub t = hm_hub s" using keepsD [OF keeps_hub_prepare [of "hm_hub s" k fl], of s] p by simp
  with assms p show ?thesis by (cases r) (auto simp: hub_main_def)
qed

section \<open>What \<open>gen-token\<close> prints\<close>

lemma insert_token_done:
  assumes "run_state (InsertBootstrapToken hash p agent issuer ttl) d = (Inr u, d')"
  shows "\<forall>r \<in> set (tokens d). bt_hash r \<noteq> hash p" and "clock d' = clock d"
    and "tokens d' = tokens d @ [\<lparr>bt_hash = hash p, bt_agent = agent, bt_issued_at = clock d,
           bt_expires_at = clock d + ttl, bt_issued_by = issuer, bt_consumed_at = None, bt_used_by = None\<rparr>]"
  using assms by (auto simp: InsertBootstrapToken_def sql_def Let_def find_row_def find_None_iff split: if_splits)

lemma audit_leaves_tokens: "tokens (snd (run_state (AuditLog actor action d) s)) = tokens s"
  by (simp add: AuditLog_def sql_write_def sql_def Let_def)

text \<open>
  C12: The token that \<open>gen-token\<close> prints opens an enrollment for the agent it was asked for, while
  its lifetime lasts, and for no other agent: until the token table changes, consuming it
  succeeds exactly for that agent before the expiry, whatever tokens were issued before.
\<close>
theorem printed_token_is_bound:
  assumes "run_state (hub_main k fl) s = (Finished out, s')" and "fl_mode fl = ''gen-token''" and "\<not> fl_version fl"
  shows "\<exists>t. out = [t] \<and> (\<forall>a now. fst (run_state (ConsumeBootstrapToken (ho_sha k) t a)
                                   ((hm_hub s')\<lparr>clock := now, faults := []\<rparr>)) = Inr ()
           \<longleftrightarrow> a = fl_agent fl \<and> now < clock (hm_hub s) + fl_ttl fl)"
proof -
  from main_runs_mode [OF assms(1,3)] assms(2) obtain t0 where t0: "hm_hub t0 = hm_hub s"
    and g: "run_state (gen_token k fl) t0 = (Finished out, s')"
    by (auto simp: run_mode_def)
  then obtain t d where out: "out = [t]"
    and ins: "run_state (InsertBootstrapToken (ho_sha k) t (fl_agent fl) (fl_issuer fl) (fl_ttl fl)) (hm_hub s) = (Inr (), d)"
    and "tokens (hm_hub s') = tokens d"
    by (auto simp: gen_token_def on_hub_def audit_leaves_tokens split: if_splits sum.splits prod.splits)
       (metis audit_leaves_tokens snd_conv)
  with insert_token_done [OF ins] show ?thesis
    by (auto simp: ConsumeBootstrapToken_def sql_def Let_def live_token_def)
qed

section \<open>What \<open>serve\<close> starts with\<close>

lemma serve_result:
  assumes "run_state (serve k c m) t = (Serving v, t')"
  shows "\<exists>auth tls. operator_auth k = Inr auth \<and> tls_files (sc_tls (hf_server c)) = Inr tls
    \<and> v = \<lparr>sv_web = web_of k c (llm_of k (hf_llm c)) (New_poller (ic_repo (hf_install c)) 0) auth,
          sv_http = sc_http (hf_server c), sv_tls = tls, sv_grpc = sc_grpc (hf_server c), sv_pki = m,
          sv_artifacts = so_artifacts (hf_storage c),
          sv_retention = New_retention (so_retention (hf_storage c)) (3600 * 10 ^ 9),
          sv_client = llm_of k (hf_llm c), sv_poller = New_poller (ic_repo (hf_install c)) 0\<rparr>"
  using assms
  by (auto simp: serve_def Let_def split: prod.splits option.splits sum.splits if_splits)

lemma auth_guarded: "operator_auth k = Inr (user, h, proxied) \<Longrightarrow> user \<noteq> [] \<Longrightarrow> h \<noteq> []"
  by (auto simp: operator_auth_def Let_def split: if_splits sum.splits)

lemma web_of_fields:
  "w_username (web_of k c client poll auth) = fst auth"
  "w_password_hash (web_of k c client poll auth) = fst (snd auth)"
  "w_loop (web_of k c client poll auth) = (client \<noteq> None)"
  by (simp_all add: web_of_def New_web_def)

lemma llm_of_guarded:
  "llm_of k c = Some lc \<Longrightarrow> trim_space (lc_key lc) \<noteq> [] \<and> isHTTPSAllowed (mc_base c)
     \<and> lc_base lc = trim_right_char (CHR ''/'') (mc_base c)"
  by (auto simp: llm_of_def NewFromEnv_def New_llm_def split: sum.splits if_splits)

lemma prepared_config:
  assumes "run_state (prepare k fl) s = (Inr (c, m), t)"
  shows "\<exists>body raw. map_of (ds_files s) (fl_config fl) = Some body \<and> ho_yaml k body = Inr raw
    \<and> c = hub_defaults (ho_env k) raw"
proof -
  from assms obtain t1 where "run_state (LoadHubConfig k (fl_config fl)) s = (Inr c, t1)"
    unfolding prepare_def by (auto elim!: unless_err_okD simp del: run_unless_err split: sum.splits)
  then obtain b t2 where w: "run_state (wrapped ''read config'' (read_file (ho_disk k) (fl_config fl))) s = (Inr b, t2)"
    and y: "\<exists>raw. ho_yaml k b = Inr raw \<and> c = hub_defaults (ho_env k) raw"
    unfolding LoadHubConfig_def by (elim unless_err_okD) (auto split: sum.splits)
  from w have "map_of (ds_files s) (fl_config fl) = Some b"
    by (auto simp: wrapped_def run_read_file split: option.splits)
  with y show ?thesis by blast
qed

text \<open>
  C15: The hub serves only behind the guards its configuration file and environment ask for: with
  an operator name set, requests are authenticated; TLS on the web listener is on exactly when
  the file enables it, and then with both files named; and the investigator runs only with a
  model client, whose key is not blank and whose base address is HTTPS or loopback.
\<close>
theorem serving_is_guarded:
  assumes "run_state (hub_main k fl) s = (Serving v, s')"
  shows "\<exists>body raw. map_of (ds_files s) (fl_config fl) = Some body \<and> ho_yaml k body = Inr raw
    \<and> (ho_env k ''RECON_ADMIN_USER'' \<noteq> [] \<longrightarrow>
         auth_enabled (sv_web v) \<and> w_username (sv_web v) = ho_env k ''RECON_ADMIN_USER'')
    \<and> (if ht_enabled (sc_tls (hf_server raw))
       then \<exists>cert key. cert \<noteq> [] \<and> key \<noteq> [] \<and> sv_tls v = Some (cert, key) else sv_tls v = None)
    \<and> (w_loop (sv_web v) \<longrightarrow>
         (\<exists>lc. sv_client v = Some lc \<and> trim_space (lc_key lc) \<noteq> []
            \<and> isHTTPSAllowed (mc_base (fill_llm (ho_env k) (hf_llm raw)))
            \<and> lc_base lc = trim_right_char (CHR ''/'') (mc_base (fill_llm (ho_env k) (hf_llm raw)))))"
proof -
  have "\<not> fl_version fl \<and> fl_mode fl \<noteq> ''gen-password-hash''"
    using assms by (auto simp: hub_main_def Let_def split: if_splits sum.splits)
  with main_runs_mode [OF assms] obtain c m t where p: "run_state (prepare k fl) s = (Inr (c, m), t)"
    and "run_state (run_mode k fl c m) t = (Serving v, s')" by auto
  then have sv: "run_state (serve k c m) t = (Serving v, s')"
    by (auto simp: run_mode_def gen_token_def revoke_mode_def split: if_splits sum.splits prod.splits)
  from prepared_config [OF p] obtain body raw where b: "map_of (ds_files s) (fl_config fl) = Some body"
    "ho_yaml k body = Inr raw" and c: "c = hub_defaults (ho_env k) raw" by blast
  from serve_result [OF sv] obtain auth tls where a: "operator_auth k = Inr auth" "tls_files (sc_tls (hf_server c)) = Inr tls"
    and v: "sv_web v = web_of k c (llm_of k (hf_llm c)) (New_poller (ic_repo (hf_install c)) 0) auth"
      "sv_tls v = tls" "sv_client v = llm_of k (hf_llm c)" by auto
  have name: "fst auth = ho_env k ''RECON_ADMIN_USER''"
    using a(1) by (auto simp: operator_auth_def envOr_def Let_def split: sum.splits if_splits)
  moreover have "fst auth \<noteq> [] \<Longrightarrow> fst (snd auth) \<noteq> []" using auth_guarded a(1) by (metis prod.collapse)
  ultimately have "ho_env k ''RECON_ADMIN_USER'' \<noteq> [] \<longrightarrow>
      auth_enabled (sv_web v) \<and> w_username (sv_web v) = ho_env k ''RECON_ADMIN_USER''"
    by (simp add: auth_enabled_def v(1) web_of_fields)
  note operator = this
  have "sc_tls (hf_server c) = sc_tls (hf_server raw)" by (simp add: c hub_defaults_def fill_server_def)
  with a(2) have "if ht_enabled (sc_tls (hf_server raw))
      then \<exists>cert key. cert \<noteq> [] \<and> key \<noteq> [] \<and> sv_tls v = Some (cert, key) else sv_tls v = None"
    by (auto simp: tls_files_def v(2) split: if_splits)
  moreover have "hf_llm c = fill_llm (ho_env k) (hf_llm raw)" by (simp add: c hub_defaults_def)
  ultimately show ?thesis using b operator llm_of_guarded [of k "hf_llm c"]
    by (cases "llm_of k (hf_llm c)") (simp_all add: v(1,3) web_of_fields)
qed

end
