(* ===== verification/Agent_Link.thy ===== *)
theory Agent_Link
  imports Agent_Enroll Hub_Pki
begin

text \<open>
  The connection between an agent and the hub, from both ends: the agent's credentials
  (\<open>mTLSCreds\<close> of \<open>agent/conn/conn.go\<close>), the hub's check of the peer
  (\<open>hub/api/server.go\<close>), and what they give together: an agent that enrolled can connect. TLS itself is
  outside: the chains of the peer's certificate that it verified.
\<close>

section \<open>The two ends\<close>

text \<open>
  \<open>LoadX509KeyPair\<close> reads both files and checks that they belong together; \<open>pair\<close> is the error of
  that check, and \<open>pool\<close> says whether the authority's text holds a certificate.
\<close>

record credentials =
  cd_cert :: bytes
  cd_key :: bytes
  cd_roots :: bytes
  cd_server :: string

definition mTLSCreds ::
  "disk_faults \<Rightarrow> (bytes \<Rightarrow> bytes \<Rightarrow> string option) \<Rightarrow> (bytes \<Rightarrow> bool) \<Rightarrow> hub_config \<Rightarrow> ('z, cerr + credentials) fm" where
  "mTLSCreds F pair pool h =
     unless_err (wrapped ''client keypair''
         (unless_err (read_file F (hc_cert h)) (\<lambda>cert.
          unless_err (read_file F (hc_key h)) (\<lambda>key.
          return (case pair cert key of Some e \<Rightarrow> Inl (Msg e) | None \<Rightarrow> Inr (cert, key)))))) (\<lambda>(cert, key).
     unless_err (wrapped ''ca cert'' (read_file F (hc_ca h))) (\<lambda>ca.
     return (if pool ca
             then Inr \<lparr>cd_cert = cert, cd_key = key, cd_roots = ca, cd_server = serverName h\<rparr>
             else Inl (Msg ''ca cert: invalid PEM''))))"

text \<open>
  What gRPC knows of the peer of a call. A client may present no certificate (that is how it
  enrolls): then no chain was verified.
\<close>

datatype peer = NoPeer | PlainPeer | TlsPeer "bytes list list"

definition requireVerifiedPeer :: "peer \<Rightarrow> cerr + bytes" where
  "requireVerifiedPeer p =
     (case p of
        NoPeer \<Rightarrow> Inl (Msg ''no peer info'')
      | PlainPeer \<Rightarrow> Inl (Msg ''non-TLS peer'')
      | TlsPeer ((cert # _) # _) \<Rightarrow> Inr cert
      | TlsPeer _ \<Rightarrow> Inl (Msg ''client cert not presented or not verified''))"

definition FingerprintFromCert :: "x509lib \<Rightarrow> bytes \<Rightarrow> string" where
  "FingerprintFromCert X der = fingerprintBytes X der"

text \<open>The opening of \<open>Connect\<close> behind the stream interceptor; \<open>cn\<close> reads a certificate's common name.\<close>

definition peer_identity :: "x509lib \<Rightarrow> (bytes \<Rightarrow> string) \<Rightarrow> peer \<Rightarrow> (string \<times> string) option" where
  "peer_identity X cn p =
     (case requireVerifiedPeer p of Inl _ \<Rightarrow> None | Inr der \<Rightarrow> Some (cn der, FingerprintFromCert X der))"

definition streamAuth :: "peer \<Rightarrow> ('z, code option + conn) am \<Rightarrow> ('z, code option + conn) am" where
  "streamAuth p h = (case requireVerifiedPeer p of Inl _ \<Rightarrow> return (Inl (Some Unauthenticated)) | Inr _ \<Rightarrow> h)"

definition serve_stream ::
  "x509lib \<Rightarrow> (bytes \<Rightarrow> string) \<Rightarrow> peer \<Rightarrow> wire_msg option \<Rightarrow> ('z, code option + conn) am" where
  "serve_stream X cn p first = streamAuth p (connect_open (peer_identity X cn p) first)"

lemma no_chain_no_stream:
  "(\<And>c cs rest. p \<noteq> TlsPeer ((c # cs) # rest)) \<Longrightarrow> run_state (serve_stream X cn p first) s = (Inl (Some Unauthenticated), s)"
  by (cases p) (auto simp: serve_stream_def streamAuth_def requireVerifiedPeer_def split: list.splits)

section \<open>Enrolled agents connect\<close>

lemma Enroll_keeps: "keeps db_ok (Enroll hash pk req)"
  unfolding Enroll_def Let_def by (intro keeps_intros)

lemma verify_active:
  assumes "db_ok s" and "faults s = []" and "active_identity agent fp s"
  shows "run_state (VerifyIdentity agent fp) s = (Inr (), s)"
proof -
  from assms(3) obtain r where r: "r \<in> set (idents s)" "id_agent r = agent" "id_revoked_at r = None" "id_fingerprint r = fp"
    by (auto simp: active_identity_def)
  have "distinct (map id_agent (idents s))" using assms(1) by (simp add: db_ok_parts)
  then have "find_row (\<lambda>r. id_agent r = agent) (idents s) = Some r"
    using find_row_key [of id_agent "idents s" r] r(1,2) by simp
  with r assms(2) show ?thesis by (simp add: VerifyIdentity_def)
qed

lemma connect_opens:
  fixes s :: "'z api_scheme"
  assumes "db_ok s" and "faults s = []" and "active_identity agent fp s" and "agent \<noteq> []"
    and "hl_agent hl = agent" and "distinct (map wm_name (hl_collectors hl))"
  shows "\<exists>c t. run_state (connect_open (Some (agent, fp)) (Some (Hello hl))) s = (Inr c, t)
    \<and> cn_agent c = agent \<and> map_of (streams t) agent = Some \<lparr>sh_id = cn_handle c, sh_queue = []\<rparr>"
proof -
  obtain s1 where a: "run_state (applyHello hl fp) s = (Inr (), s1)"
    using applyHello_lists [OF assms(2,6)] by blast
  show ?thesis
    using verify_active [OF assms(1-3)] assms(4,5) a
    by (simp add: connect_open_def registerStream_def lookup_simps)
qed

text \<open>What the hub signed for an agent: the certificate and the fingerprint it registered.\<close>

lemma signed_for_agent:
  assumes "x509_ok X" and "pk_sign (pki_of X m serial ttl) csr agent = Some cert"
    and "pk_fingerprint (pki_of X m serial ttl) cert = Some fp"
  obtains q der where "xl_create X serial (agent_template agent ttl) (Some (mt_ca m)) q (mt_key m) = Inr der"
    and "cert = xl_pem X ''CERTIFICATE'' der" and "fp = fingerprintBytes X der"
proof -
  from assms(2) obtain q der where c: "xl_create X serial (agent_template agent ttl) (Some (mt_ca m)) q (mt_key m) = Inr der"
    "cert = xl_pem X ''CERTIFICATE'' der"
    by (auto simp: pki_of_def SignCSR_def split: option.splits sum.splits if_splits)
  have "fp = fingerprintBytes X der"
    using assms(1,3) by (auto simp: c(2) pki_of_def FingerprintFromPEM_def x509_ok_def split: option.splits sum.splits)
  with c show thesis using that by blast
qed


end
