(* ===== verification/Web_Api.thy ===== *)
theory Web_Api
  imports Web_Auth
begin

text \<open>
  The JSON API of the hub (\<open>hub/web/api_*.go\<close>): bearer tokens and their scopes, the routes
  under \<open>/api/v1\<close> and their handlers over the store and the loop.
\<close>

section \<open>Tokens and scopes\<close>

definition apiCaller :: "http_request \<Rightarrow> principal option" where
  "apiCaller rq = rq_principal rq"

definition writeAPIError :: "nat \<Rightarrow> string \<Rightarrow> reply" where
  "writeAPIError code t = answer code (ApiError t)"

definition extractBearer :: "http_request \<Rightarrow> string" where
  "extractBearer rq =
     (let h = header ''Authorization'' rq
      in if h = [] then []
         else if \<not> has_prefix h ''Bearer '' then []
         else trim_space (drop (length ''Bearer '') h))"

fun scopeRank :: "string \<Rightarrow> nat" where
  "scopeRank s = (if s = ''read'' then 1 else if s = ''investigate'' then 2 else if s = ''admin'' then 3 else 0)"

definition scopeSatisfies :: "string \<Rightarrow> string \<Rightarrow> bool" where
  "scopeSatisfies have need = (scopeRank have \<ge> scopeRank need)"

text \<open>
  The check before an API handler. The touch of the token's last use is a goroutine of its
  own in the code; here it comes right before the handler.
\<close>

definition requireAPIAuth ::
  "web_cfg \<Rightarrow> string \<Rightarrow> (http_request \<Rightarrow> ('z, reply) wm) \<Rightarrow> http_request \<Rightarrow> ('z, reply) wm" where
  "requireAPIAuth wc need h rq =
     (let raw = extractBearer rq
      in if raw = [] \<or> \<not> has_prefix raw apiTokenPrefix
         then return (writeAPIError 401 ''missing or invalid bearer token'')
         else do {
           r \<leftarrow> LookupAPIToken (w_sha256 wc) raw;
           (case r of
              Inl e \<Rightarrow> return (if e = APITokenInvalid then writeAPIError 401 ''token invalid, revoked, or expired''
                              else writeAPIError 500 ''token lookup failed'')
            | Inr t \<Rightarrow>
                if \<not> scopeSatisfies (pat_scope t) need
                then return (writeAPIError 403 ''token scope insufficient'')
                else do {
                  _ \<leftarrow> TouchAPIToken (pat_id t);
                  h (rq\<lparr>rq_principal := Some \<lparr>pr_token = pat_id t, pr_name = pat_name t,
                         pr_scope = pat_scope t, pr_actor = ''api:'' @ pat_name t\<rparr>\<rparr>)
                })
         })"

section \<open>Bodies, replies and the audit\<close>

definition writeJSON :: "nat \<Rightarrow> json \<Rightarrow> reply" where
  "writeJSON code v = answer code (JsonBody v)"

definition ok_reply :: reply where
  "ok_reply = writeJSON 200 (JObj [(''ok'', JBool True)])"

definition readJSONBody :: "((string \<times> json) list \<Rightarrow> 'a \<times> bool) \<Rightarrow> http_request \<Rightarrow> 'a option" where
  "readJSONBody dec rq =
     (let b = rq_body rq; (x, ok) = decode dec (bd_json b)
      in if bd_value b \<le> 2 ^ 20 \<and> ok then Some x else None)"

definition bad_json :: reply where
  "bad_json = writeAPIError 400 ''invalid json body''"

definition api_actor :: "http_request \<Rightarrow> string" where
  "api_actor rq = (case apiCaller rq of Some p \<Rightarrow> pr_actor p | None \<Rightarrow> ''api'')"

definition auditAPI :: "http_request \<Rightarrow> string \<Rightarrow> json \<Rightarrow> ('z, unit) wm" where
  "auditAPI rq action details = audit_web (api_actor rq) action details"

section \<open>Inventory\<close>

definition api_host_view :: "web_cfg \<Rightarrow> host \<Rightarrow> json" where
  "api_host_view wc h = JObj
     [(''id'', JStr (h_id h)), (''agent_version'', JStr (h_version h)), (''labels'', strmap_json (h_labels h)),
      (''facts'', strmap_json (h_facts h)), (''first_seen_at'', JStr (c_time (w_cf wc) (h_first_seen h))),
      (''last_seen_at'', JStr (c_time (w_cf wc) (h_last_seen h))), (''status'', JStr (host_text (h_status h)))]"

definition apiListHosts :: "web_cfg \<Rightarrow> http_request \<Rightarrow> ('z, reply) wm" where
  "apiListHosts wc rq = do {
     r \<leftarrow> ListHosts;
     return (case r of
        Inl e \<Rightarrow> writeAPIError 500 (''list hosts: '' @ serr_str wc e)
      | Inr hs \<Rightarrow> writeJSON 200 (JObj [(''hosts'', JArr (map (api_host_view wc) hs))]))
   }"

definition apiGetHost :: "web_cfg \<Rightarrow> http_request \<Rightarrow> ('z, reply) wm" where
  "apiGetHost wc rq =
     (let i = trim_suffix (trim_prefix (rq_path rq) ''/api/v1/hosts/'') ''/''
      in if i = [] then return (writeAPIError 400 ''host id required'')
         else do {
           r \<leftarrow> GetHost i;
           return (case r of Inl _ \<Rightarrow> writeAPIError 404 ''host not found'' | Inr h \<Rightarrow> writeJSON 200 (api_host_view wc h))
         })"

section \<open>Reading investigations\<close>

definition investigationToView :: "web_cfg \<Rightarrow> investigation \<Rightarrow> int \<Rightarrow> int \<Rightarrow> json" where
  "investigationToView wc v maxSteps maxTokens = JObj
     ([(''id'', JStr (inv_id v)), (''goal'', JStr (inv_goal v)), (''status'', JStr (status_text (inv_status v))),
       (''created_by'', JStr (inv_created_by v)), (''created_at'', JStr (c_time (w_cf wc) (inv_created_at v))),
       (''updated_at'', JStr (c_time (w_cf wc) (inv_updated_at v))), (''model'', JStr (inv_model v)),
       (''total_prompt_tokens'', JInt (inv_prompt_tokens v)),
       (''total_completion_tokens'', JInt (inv_completion_tokens v)),
       (''total_tool_calls'', JInt (inv_tool_calls v)), (''compaction_tokens'', JInt (inv_compaction_tokens v)),
       (''extra_steps'', JInt (inv_extra_steps v)), (''extra_tokens'', JInt (inv_extra_tokens v)),
       (''auto_approve'', JBool (inv_auto_approve v)),
       (''allowed_hosts'', if inv_allowed v = [] then JNull else jstrings (inv_allowed v))]
      @ (case inv_summary v of
           None \<Rightarrow> []
         | Some t \<Rightarrow> if content_text (w_cf wc) t = [] then []
                     else [(''summary_json'', JStr (content_text (w_cf wc) t))])
      @ [(''max_steps'', JInt maxSteps), (''max_tokens'', JInt maxTokens)])"

definition view_budgets :: "web_cfg \<Rightarrow> int \<times> int" where
  "view_budgets wc = (if w_loop wc then (c_max_steps (w_cf wc), c_max_tokens (w_cf wc)) else (0, 0))"

definition requireLoop :: "web_cfg \<Rightarrow> ('z, reply) wm \<Rightarrow> ('z, reply) wm" where
  "requireLoop wc m =
     (if w_loop wc then m
      else return (writeAPIError 503 ''investigator disabled (RECON_LLM_API_KEY not set)''))"

text \<open>A number from the query within bounds, or the default.\<close>

definition bounded_param :: "string \<Rightarrow> (int \<Rightarrow> bool) \<Rightarrow> int \<Rightarrow> int" where
  "bounded_param t good dflt =
     (if t = [] then dflt else (case atoi t of Some n \<Rightarrow> if good n then n else dflt | None \<Rightarrow> dflt))"

definition apiListInvestigations :: "web_cfg \<Rightarrow> http_request \<Rightarrow> ('z, reply) wm" where
  "apiListInvestigations wc rq =
     (let lim = bounded_param (query_get ''limit'' rq) (\<lambda>n. 0 < n \<and> n \<le> 500) 100;
          status = query_get ''status'' rq; (ms, mt) = view_budgets wc
      in do {
        r \<leftarrow> ListInvestigations lim;
        return (case r of
           Inl e \<Rightarrow> writeAPIError 500 (''list: '' @ serr_str wc e)
         | Inr vs \<Rightarrow> writeJSON 200 (JObj [(''investigations'',
             JArr (map (\<lambda>v. investigationToView wc v ms mt)
                     (filter (\<lambda>v. status = [] \<or> status_text (inv_status v) = status) vs)))]))
      })"

definition apiGetInvestigation :: "web_cfg \<Rightarrow> string \<Rightarrow> http_request \<Rightarrow> ('z, reply) wm" where
  "apiGetInvestigation wc i rq = do {
     r \<leftarrow> GetInvestigation i;
     return (case r of
        Inl _ \<Rightarrow> writeAPIError 404 ''investigation not found''
      | Inr v \<Rightarrow> writeJSON 200 (investigationToView wc v (fst (view_budgets wc)) (snd (view_budgets wc))))
   }"

definition opt_member :: "string \<Rightarrow> string \<Rightarrow> (string \<times> json) list" where
  "opt_member k v = (if v = [] then [] else [(k, JStr v)])"

definition opt_str :: "string option \<Rightarrow> string" where
  "opt_str x = (case x of Some s \<Rightarrow> s | None \<Rightarrow> [])"

definition msg_view :: "web_cfg \<Rightarrow> msg \<Rightarrow> json" where
  "msg_view wc m = JObj
     ([(''seq'', JInt (m_seq m)), (''role'', JStr (role_text (m_role m))),
       (''content'', JStr (content_text (w_cf wc) (m_content m)))]
      @ opt_member ''tool_call_id'' (opt_str (m_call_id m))
      @ opt_member ''tool_calls_json'' (case m_calls m of None \<Rightarrow> [] | Some cs \<Rightarrow> w_calls_text wc cs)
      @ [(''timestamp'', JStr (c_time (w_cf wc) (m_at m)))]
      @ (if m_archived m then [(''archived'', JBool True)] else []))"

definition apiListMessages :: "web_cfg \<Rightarrow> string \<Rightarrow> http_request \<Rightarrow> ('z, reply) wm" where
  "apiListMessages wc i rq =
     (let after = bounded_param (query_get ''after_seq'' rq) (\<lambda>n. 0 \<le> n) 0
      in do {
        r \<leftarrow> ListMessages i (query_get ''include_archived'' rq = ''1'');
        return (case r of
           Inl e \<Rightarrow> writeAPIError 500 (serr_str wc e)
         | Inr ms \<Rightarrow> writeJSON 200 (JObj [(''messages'',
             JArr (map (msg_view wc) (filter (\<lambda>m. m_seq m > after) ms)))]))
      })"

definition call_view :: "web_cfg \<Rightarrow> call_row \<Rightarrow> json" where
  "call_view wc c = JObj
     ([(''id'', JStr (tc_id c)), (''seq'', JInt (tc_seq c)), (''tool'', JStr (tc_tool c)),
       (''status'', JStr (call_text (tc_status c))), (''rationale'', JStr (tc_rationale c)),
       (''input_json'', JStr (content_text (w_cf wc) (tc_input c)))]
      @ opt_member ''result_json'' (case tc_result c of None \<Rightarrow> [] | Some t \<Rightarrow> content_text (w_cf wc) t)
      @ opt_member ''task_id'' (opt_str (tc_task c))
      @ opt_member ''decided_by'' (opt_str (tc_decided_by c))
      @ [(''created_at'', JStr (c_time (w_cf wc) (tc_created_at c)))])"

definition apiListToolCalls :: "web_cfg \<Rightarrow> string \<Rightarrow> http_request \<Rightarrow> ('z, reply) wm" where
  "apiListToolCalls wc i rq = do {
     r \<leftarrow> ListToolCalls i;
     return (case r of
        Inl e \<Rightarrow> writeAPIError 500 (serr_str wc e)
      | Inr cs \<Rightarrow> writeJSON 200 (JObj [(''tool_calls'',
          JArr (map (call_view wc)
            (filter (\<lambda>c. query_get ''status'' rq = [] \<or> call_text (tc_status c) = query_get ''status'' rq) cs)))]))
   }"

definition finding_json :: "web_cfg \<Rightarrow> finding \<Rightarrow> json" where
  "finding_json wc f = JObj
     [(''ID'', JStr (fd_id f)), (''InvestigationID'', JStr (fd_inv f)), (''Severity'', JStr (fd_severity f)),
      (''Code'', JStr (fd_code f)), (''Message'', JStr (fd_message f)),
      (''EvidenceJSON'', JStr (content_text (w_cf wc) (fd_evidence f))), (''Pinned'', JBool (fd_pinned f)),
      (''Ignored'', JBool (fd_ignored f)), (''CreatedAt'', JStr (w_time_nano wc (fd_created_at f)))]"

definition apiListFindings :: "web_cfg \<Rightarrow> string \<Rightarrow> http_request \<Rightarrow> ('z, reply) wm" where
  "apiListFindings wc i rq = do {
     r \<leftarrow> ListFindings i;
     return (case r of
        Inl e \<Rightarrow> writeAPIError 500 (serr_str wc e)
      | Inr fs \<Rightarrow> writeJSON 200 (JObj [(''findings'', if fs = [] then JNull else JArr (map (finding_json wc) fs))]))
   }"

section \<open>Acting on investigations\<close>

text \<open>The handlers that act: \<open>POST\<close> only, and most of them only with the loop attached.\<close>

definition post_only :: "http_request \<Rightarrow> ('z, reply) wm \<Rightarrow> ('z, reply) wm" where
  "post_only rq m = (if rq_method rq \<noteq> ''POST'' then return (writeAPIError 405 ''method not allowed'') else m)"

record start_req =
  sr_goal :: string
  sr_hosts :: "string list"
  sr_auto :: bool

definition dec_start :: "(string \<times> json) list \<Rightarrow> start_req \<times> bool" where
  "dec_start kvs =
     (let (g, ok1) = str_field ''goal'' kvs; (h, ok2) = strs_field ''allowed_hosts'' kvs;
          (a, ok3) = field ''auto_approve'' (leaf dec_bool) False kvs
      in (\<lparr>sr_goal = g, sr_hosts = h, sr_auto = a\<rparr>, ok1 \<and> ok2 \<and> ok3))"

definition apiStartInvestigation :: "web_cfg \<Rightarrow> http_request \<Rightarrow> ('z, reply) wm" where
  "apiStartInvestigation wc rq = requireLoop wc
     (case readJSONBody dec_start rq of
        None \<Rightarrow> return bad_json
      | Some req \<Rightarrow>
          if trim_space (sr_goal req) = [] then return (writeAPIError 400 ''goal required'')
          else do {
            r \<leftarrow> Start (w_cf wc) (sr_goal req) (api_actor rq) (sr_hosts req);
            (case r of
               Inl e \<Rightarrow> return (writeAPIError 500 (terr_str wc e))
             | Inr i \<Rightarrow> do {
                 _ \<leftarrow> (if sr_auto req then ignore (SetAutoApprove i True) else return ());
                 _ \<leftarrow> auditAPI rq ''investigation.start''
                        (JObj [(''goal'', JStr (sr_goal req)), (''investigation_id'', JStr i), (''via'', JStr ''api'')]);
                 return (writeJSON 201 (JObj [(''id'', JStr i), (''status'', JStr ''active'')]))
               })
          })"

text \<open>What the four actions on the loop share: the error as 400, the audit, the reply.\<close>

definition finish_action :: "web_cfg \<Rightarrow> http_request \<Rightarrow> string \<Rightarrow> json \<Rightarrow> terr + unit \<Rightarrow> ('z, reply) wm" where
  "finish_action wc rq action details r =
     (case r of
        Inl e \<Rightarrow> return (writeAPIError 400 (terr_str wc e))
      | Inr _ \<Rightarrow> do { _ \<leftarrow> auditAPI rq action details; return ok_reply })"

definition dec_decide :: "(string \<times> json) list \<Rightarrow> (string \<times> string) \<times> bool" where
  "dec_decide kvs =
     (let (d, ok1) = str_field ''decision'' kvs; (t, ok2) = str_field ''new_input_json'' kvs in ((d, t), ok1 \<and> ok2))"

definition input_text :: "web_cfg \<Rightarrow> string \<Rightarrow> jtext" where
  "input_text wc t = (if t = [] then jempty else w_parse wc t)"

definition apiDecide :: "web_cfg \<Rightarrow> string \<Rightarrow> http_request \<Rightarrow> ('z, reply) wm" where
  "apiDecide wc i rq = post_only rq (requireLoop wc
     (case readJSONBody dec_decide rq of
        None \<Rightarrow> return bad_json
      | Some (d, t) \<Rightarrow> do {
          r \<leftarrow> (if d = ''edit'' then DecideWithEdit (w_cf wc) i d (input_text wc t) (api_actor rq)
               else Decide (w_cf wc) i d (api_actor rq));
          finish_action wc rq ''investigation.decide''
            (JObj [(''decision'', JStr d), (''investigation_id'', JStr i)]) r
        }))"

definition dec_extend :: "(string \<times> json) list \<Rightarrow> (int \<times> int) \<times> bool" where
  "dec_extend kvs =
     (let (n, ok1) = int_field ''extra_steps'' kvs; (m, ok2) = int_field ''extra_tokens'' kvs in ((n, m), ok1 \<and> ok2))"

definition apiExtend :: "web_cfg \<Rightarrow> string \<Rightarrow> http_request \<Rightarrow> ('z, reply) wm" where
  "apiExtend wc i rq = post_only rq (requireLoop wc
     (case readJSONBody dec_extend rq of
        None \<Rightarrow> return bad_json
      | Some (n, m) \<Rightarrow> do {
          r \<leftarrow> Extend (w_cf wc) i n m (api_actor rq);
          finish_action wc rq ''investigation.extend''
            (JObj [(''extra_steps'', JInt n), (''extra_tokens'', JInt m), (''investigation_id'', JStr i)]) r
        }))"

definition apiFinalize :: "web_cfg \<Rightarrow> string \<Rightarrow> http_request \<Rightarrow> ('z, reply) wm" where
  "apiFinalize wc i rq = post_only rq (requireLoop wc (do {
     r \<leftarrow> Finalize (w_cf wc) i (api_actor rq);
     finish_action wc rq ''investigation.finalize'' (JObj [(''investigation_id'', JStr i)]) r
   }))"

record hypothesis_req =
  hy_claim :: string
  hy_expected :: string
  hy_instruction :: string

definition dec_hypothesis :: "(string \<times> json) list \<Rightarrow> hypothesis_req \<times> bool" where
  "dec_hypothesis kvs =
     (let (c, ok1) = str_field ''claim'' kvs; (e, ok2) = str_field ''expected'' kvs;
          (n, ok3) = str_field ''instruction'' kvs
      in (\<lparr>hy_claim = c, hy_expected = e, hy_instruction = n\<rparr>, ok1 \<and> ok2 \<and> ok3))"

definition apiHypothesis :: "web_cfg \<Rightarrow> string \<Rightarrow> http_request \<Rightarrow> ('z, reply) wm" where
  "apiHypothesis wc i rq = post_only rq (requireLoop wc
     (case readJSONBody dec_hypothesis rq of
        None \<Rightarrow> return bad_json
      | Some q \<Rightarrow> do {
          r \<leftarrow> InjectHypothesis (w_cf wc) i (hy_claim q) (hy_expected q) (hy_instruction q) (api_actor rq);
          finish_action wc rq ''investigation.hypothesis'' (JObj [(''investigation_id'', JStr i)]) r
        }))"

definition dec_enabled :: "(string \<times> json) list \<Rightarrow> bool \<times> bool" where
  "dec_enabled kvs = field ''enabled'' (leaf dec_bool) False kvs"

definition apiAutoApprove :: "web_cfg \<Rightarrow> string \<Rightarrow> http_request \<Rightarrow> ('z, reply) wm" where
  "apiAutoApprove wc i rq = post_only rq
     (case readJSONBody dec_enabled rq of
        None \<Rightarrow> return bad_json
      | Some on \<Rightarrow> do {
          r \<leftarrow> SetAutoApprove i on;
          (case r of
             Inl e \<Rightarrow> return (writeAPIError 500 (serr_str wc e))
           | Inr _ \<Rightarrow> do {
               _ \<leftarrow> auditAPI rq ''investigation.auto_approve''
                      (JObj [(''enabled'', JBool on), (''investigation_id'', JStr i)]);
               return ok_reply
             })
        })"

definition finding_action :: "string \<Rightarrow> string \<Rightarrow> ('z, serr + unit) wm option" where
  "finding_action action i =
     (if action = ''pin'' then Some (SetFindingPinned i True)
      else if action = ''unpin'' then Some (SetFindingPinned i False)
      else if action = ''ignore'' then Some (SetFindingIgnored i True)
      else if action = ''unignore'' then Some (SetFindingIgnored i False)
      else None)"

definition apiFindingAction :: "web_cfg \<Rightarrow> http_request \<Rightarrow> ('z, reply) wm" where
  "apiFindingAction wc rq = post_only rq
     (case split_on (CHR ''/'') (trim_prefix (rq_path rq) ''/api/v1/findings/'') of
        [i, action] \<Rightarrow>
          if i = [] \<or> action = [] then return (writeAPIError 400 ''path must be /api/v1/findings/{id}/{action}'')
          else (case finding_action action i of
                  None \<Rightarrow> return (writeAPIError 400 ''action must be pin|unpin|ignore|unignore'')
                | Some m \<Rightarrow> do {
                    r \<leftarrow> m;
                    (case r of
                       Inl e \<Rightarrow> return (writeAPIError 500 (serr_str wc e))
                     | Inr _ \<Rightarrow> do {
                         _ \<leftarrow> auditAPI rq (''finding.'' @ action) (JObj [(''finding_id'', JStr i)]);
                         return ok_reply
                       })
                  })
      | _ \<Rightarrow> return (writeAPIError 400 ''path must be /api/v1/findings/{id}/{action}''))"

section \<open>Events\<close>

fun event_text :: "event_type \<Rightarrow> string" where
  "event_text EventMessageAppended = ''message.appended''"
| "event_text EventToolCallPending = ''tool_call.pending''"
| "event_text EventToolCallUpdated = ''tool_call.updated''"
| "event_text EventFindingAdded = ''finding.added''"
| "event_text EventFindingUpdated = ''finding.updated''"
| "event_text EventStatusChanged = ''status.changed''"
| "event_text EventBudgetExhausted = ''budget.exhausted''"

text \<open>A frame of server-sent events: its name and its data.\<close>

definition writeSSEEventRaw :: "string \<Rightarrow> string \<Rightarrow> string" where
  "writeSSEEventRaw nm body = ''event: '' @ nm @ [CHR 0x0A] @ ''data: '' @ body @ [CHR 0x0A, CHR 0x0A]"

definition writeSSEEvent :: "web_cfg \<Rightarrow> string \<Rightarrow> json \<Rightarrow> string" where
  "writeSSEEvent wc nm v = writeSSEEventRaw nm (c_marshal (w_cf wc) v)"

definition subscribe_bus :: "string \<Rightarrow> ('z, nat) wm" where
  "subscribe_bus i = State (\<lambda>s.
     case bus s of
       None \<Rightarrow> (0, s)
     | Some b \<Rightarrow> (let (n, b') = Subscribe i b in (n, s\<lparr>bus := Some b'\<rparr>)))"

text \<open>
  The stream: the snapshot, and then a subscription whose events are forwarded one by one
  until the client leaves (\<open>stream_next\<close>, \<open>stream_end\<close>).
\<close>

definition apiStreamEvents :: "web_cfg \<Rightarrow> string \<Rightarrow> http_request \<Rightarrow> ('z, reply) wm" where
  "apiStreamEvents wc i rq =
     (if rq_method rq \<noteq> ''GET'' then return (writeAPIError 405 ''method not allowed'')
      else if \<not> w_loop wc then return (writeAPIError 503 ''investigator disabled'')
      else do {
        r \<leftarrow> GetInvestigation i;
        (case r of
           Inl _ \<Rightarrow> return (writeAPIError 404 ''investigation not found'')
         | Inr v \<Rightarrow> do {
             now \<leftarrow> gets clock;
             n \<leftarrow> subscribe_bus i;
             return (answer 200 (EventStream n
               [writeSSEEvent wc ''snapshot''
                  (JObj [(''investigation'', investigationToView wc v (c_max_steps (w_cf wc)) (c_max_tokens (w_cf wc))),
                         (''server_time'', JStr (c_time (w_cf wc) now))])]))
           })
      })"

definition stream_next :: "web_cfg \<Rightarrow> nat \<Rightarrow> ('z, string option) wm" where
  "stream_next wc n = State (\<lambda>s.
     case bus s of
       None \<Rightarrow> (None, s)
     | Some b \<Rightarrow>
         (case find_row (\<lambda>x. sub_id x = n) (subs b) of
            None \<Rightarrow> (None, s)
          | Some x \<Rightarrow>
              (case sub_queue x of
                 [] \<Rightarrow> (None, s)
               | ev # q \<Rightarrow>
                   (Some (writeSSEEventRaw (event_text (ev_type ev)) (c_marshal (w_cf wc) (ev_data ev))),
                    s\<lparr>bus := Some (b\<lparr>subs := update_rows (\<lambda>x. sub_id x = n) (\<lambda>x. x\<lparr>sub_queue := q\<rparr>) (subs b)\<rparr>)\<rparr>))))"

definition stream_end :: "string \<Rightarrow> nat \<Rightarrow> ('z, unit) wm" where
  "stream_end i n = modify (\<lambda>s. s\<lparr>bus := map_option (Unsubscribe i n) (bus s)\<rparr>)"

section \<open>Routes\<close>

definition api_investigations :: "web_cfg \<Rightarrow> http_request \<Rightarrow> ('z, reply) wm" where
  "api_investigations wc rq =
     (if rq_method rq = ''GET'' then requireAPIAuth wc ''read'' (apiListInvestigations wc) rq
      else if rq_method rq = ''POST'' then requireAPIAuth wc ''investigate'' (apiStartInvestigation wc) rq
      else return (writeAPIError 405 ''method not allowed''))"

definition api_investigation_sub :: "web_cfg \<Rightarrow> http_request \<Rightarrow> ('z, reply) wm" where
  "api_investigation_sub wc rq =
     (let parts = split_on (CHR ''/'') (trim_prefix (rq_path rq) ''/api/v1/investigations/'');
          i = hd parts; sub = (if length parts > 1 then parts ! 1 else [])
      in if i = [] then return (writeAPIError 404 ''not found'')
         else if sub = [] then
           (if rq_method rq \<noteq> ''GET'' then return (writeAPIError 405 ''method not allowed'')
            else requireAPIAuth wc ''read'' (apiGetInvestigation wc i) rq)
         else if sub = ''messages'' then requireAPIAuth wc ''read'' (apiListMessages wc i) rq
         else if sub = ''tool_calls'' then requireAPIAuth wc ''read'' (apiListToolCalls wc i) rq
         else if sub = ''findings'' then requireAPIAuth wc ''read'' (apiListFindings wc i) rq
         else if sub = ''decide'' then requireAPIAuth wc ''investigate'' (apiDecide wc i) rq
         else if sub = ''extend'' then requireAPIAuth wc ''investigate'' (apiExtend wc i) rq
         else if sub = ''finalize'' then requireAPIAuth wc ''investigate'' (apiFinalize wc i) rq
         else if sub = ''hypothesis'' then requireAPIAuth wc ''investigate'' (apiHypothesis wc i) rq
         else if sub = ''auto-approve'' then requireAPIAuth wc ''investigate'' (apiAutoApprove wc i) rq
         else if sub = ''events'' then requireAPIAuth wc ''read'' (apiStreamEvents wc i) rq
         else return (writeAPIError 404 ''not found''))"

text \<open>The patterns registered for the API, with their handlers.\<close>

definition api_routes :: "web_cfg \<Rightarrow> (string \<times> (http_request \<Rightarrow> ('z, reply) wm)) list" where
  "api_routes wc =
     [(''/api/v1/hosts'', requireAPIAuth wc ''read'' (apiListHosts wc)),
      (''/api/v1/hosts/'', requireAPIAuth wc ''read'' (apiGetHost wc)),
      (''/api/v1/investigations'', api_investigations wc),
      (''/api/v1/investigations/'', api_investigation_sub wc),
      (''/api/v1/findings/'', requireAPIAuth wc ''investigate'' (apiFindingAction wc))]"

end
