(* ===== verification/Web_Pages.thy ===== *)
theory Web_Pages
  imports Web_Api
begin

text \<open>
  The pages of the operator UI (\<open>hub/web/server.go\<close>): what each handler reads and shows. The
  templates themselves are not modelled; a page is the data they are given.
\<close>

section \<open>Small functions of the templates\<close>

definition shortID :: "string \<Rightarrow> nat \<Rightarrow> string" where
  "shortID s keep = (if length s \<le> keep then s else take keep s @ [CHR 0xE2, CHR 0x80, CHR 0xA6])"

definition truncate :: "string \<Rightarrow> nat \<Rightarrow> string" where
  "truncate s n = (if length s \<le> n then s else take n s @ [CHR 0xE2, CHR 0x80, CHR 0xA6])"

text \<open>Integer division as Go's, which truncates, by a positive number.\<close>

definition quot :: "int \<Rightarrow> int \<Rightarrow> int" where
  "quot a b = (if a < 0 then - ((- a) div b) else a div b)"

definition safePct :: "int \<Rightarrow> int \<Rightarrow> int" where
  "safePct used mx = (if mx \<le> 0 then 0 else (let p = quot (used * 100) mx in if p > 100 then 100 else p))"

definition findCount :: "(string \<Rightarrow> finding_counts option) \<Rightarrow> string \<Rightarrow> string \<Rightarrow> nat" where
  "findCount counts i severity =
     (case counts i of
        None \<Rightarrow> 0
      | Some c \<Rightarrow> if severity = ''critical'' then fc_critical c
                  else if severity = ''error'' then fc_error c
                  else if severity = ''warn'' then fc_warn c
                  else if severity = ''info'' then fc_info c else 0)"

definition barRepeat :: "nat \<Rightarrow> nat" where
  "barRepeat n = (if n > 24 then 24 else n)"

text \<open>\<open>prettyJSON\<close> of a column: text that does not parse is shown as it is.\<close>

definition prettyJSON :: "web_cfg \<Rightarrow> jtext \<Rightarrow> string" where
  "prettyJSON wc t = (case t of JInvalid s \<Rightarrow> s | JText v \<Rightarrow> w_indent wc (canon v))"

definition activeNavFor :: "string \<Rightarrow> string" where
  "activeNavFor page =
     (if page = ''hosts'' \<or> page = ''host_detail'' then ''hosts''
      else if page = ''collectors'' then ''collectors''
      else if page = ''runs_list'' \<or> page = ''run_detail'' then ''runs''
      else if page = ''investigations_list'' \<or> page = ''investigation_detail'' then ''investigations''
      else if page = ''audit'' then ''audit''
      else if page = ''settings'' then ''settings''
      else [])"

section \<open>Rendering\<close>

text \<open>The layout's data: the session's CSRF token, the user, the navigation and its counts.\<close>

definition renderForReq :: "web_cfg \<Rightarrow> http_request \<Rightarrow> string \<Rightarrow> string \<Rightarrow> page \<Rightarrow> ('z, reply) wm" where
  "renderForReq wc rq page title data = do {
     csrf \<leftarrow> csrfTokenFor rq;
     c \<leftarrow> NavCounts;
     return (answer 200 (Rendered (Some
       \<lparr>ly_csrf = csrf, ly_auth = auth_enabled wc, ly_user = authedUser rq, ly_nav = activeNavFor page,
        ly_title = title, ly_counts = (case c of Inl _ \<Rightarrow> None | Inr n \<Rightarrow> Some n)\<rparr>) data))
   }"

text \<open>A one-shot value of the request's session.\<close>

definition pop_for :: "http_request \<Rightarrow> string \<Rightarrow> ('z, string) wm" where
  "pop_for rq key = (case cookie_value cookieSession rq of None \<Rightarrow> return [] | Some sid \<Rightarrow> popFlash sid key)"

definition or_nil :: "('z, serr + 'a list) wm \<Rightarrow> ('z, 'a list) wm" where
  "or_nil m = do { r \<leftarrow> m; return (case r of Inl _ \<Rightarrow> [] | Inr xs \<Rightarrow> xs) }"

section \<open>Hosts and collectors\<close>

definition handleRoot :: "http_request \<Rightarrow> ('z, reply) wm" where
  "handleRoot rq = return (if rq_path rq \<noteq> ''/'' then not_found else http_redirect 302 ''/hosts'')"

definition handleHosts :: "web_cfg \<Rightarrow> http_request \<Rightarrow> ('z, reply) wm" where
  "handleHosts wc rq = do {
     r \<leftarrow> ListHosts;
     (case r of
        Inl e \<Rightarrow> return (http_error 500 (serr_str wc e))
      | Inr hs \<Rightarrow> do {
          oneLiner \<leftarrow> pop_for rq ''install_one_liner'';
          agent \<leftarrow> pop_for rq ''install_agent_id'';
          renderForReq wc rq ''hosts'' ''Hosts''
            (HostsPage hs (ic_repo (w_install wc) \<noteq> []) oneLiner agent (w_latest wc))
        })
   }"

definition handleHostDetail :: "web_cfg \<Rightarrow> http_request \<Rightarrow> ('z, reply) wm" where
  "handleHostDetail wc rq =
     (let i = trim_prefix (rq_path rq) ''/hosts/''
      in if i = [] \<or> contains ''/'' i then return not_found
         else do {
           r \<leftarrow> GetHost i;
           (case r of
              Inl _ \<Rightarrow> return (http_error 404 ''host not found'')
            | Inr h \<Rightarrow> do {
                ms \<leftarrow> or_nil (ListCollectorManifests i);
                renderForReq wc rq ''host_detail'' (''Host '' @ i) (HostDetailPage h ms (w_latest wc))
              })
         })"

text \<open>One manifest counted into the catalog; what its JSON says is taken where nothing was known.\<close>

definition new_entry :: "string \<Rightarrow> catalog_page_entry" where
  "new_entry nm = \<lparr>ce_name = nm, ce_hosts = [], ce_total = 0, ce_latest = [], ce_category = [],
     ce_description = [], ce_reads = [], ce_requires = [], ce_schema = []\<rparr>"

definition dec_map :: "json option agg_decoder" where
  "dec_map old v = (case v of JNull \<Rightarrow> (None, True) | JObj _ \<Rightarrow> (Some v, True) | _ \<Rightarrow> (old, False))"

definition enrich :: "web_cfg \<Rightarrow> json \<Rightarrow> catalog_page_entry \<Rightarrow> catalog_page_entry" where
  "enrich wc v e =
     (case members (JText v) of
        None \<Rightarrow> e
      | Some kvs \<Rightarrow>
          (let (cat, ok1) = str_field ''category'' kvs; (desc, ok2) = str_field ''description'' kvs;
               (reads, ok3) = strs_field ''reads'' kvs; (reqs, ok4) = strs_field ''requires'' kvs;
               (schema, ok5) = field ''input_schema'' dec_map None kvs
           in if \<not> (ok1 \<and> ok2 \<and> ok3 \<and> ok4 \<and> ok5) then e
              else e\<lparr>ce_category := (if ce_category e = [] then cat else ce_category e),
                     ce_description := (if ce_description e = [] then desc else ce_description e),
                     ce_reads := (if ce_reads e = [] then reads else ce_reads e),
                     ce_requires := (if ce_requires e = [] then reqs else ce_requires e),
                     ce_schema := (case schema of
                         Some sc \<Rightarrow> if ce_schema e = [] then w_indent wc (canon sc) else ce_schema e
                       | None \<Rightarrow> ce_schema e)\<rparr>))"

definition count_manifest :: "web_cfg \<Rightarrow> string \<Rightarrow> manifest \<Rightarrow> catalog_page_entry list \<Rightarrow> catalog_page_entry list" where
  "count_manifest wc h m es =
     (let nm = mf_name m;
          es' = (if find_row (\<lambda>e. ce_name e = nm) es = None then es @ [new_entry nm] else es)
      in update_rows (\<lambda>e. ce_name e = nm)
           (\<lambda>e. enrich wc (mf_json m) (e\<lparr>ce_hosts := ce_hosts e @ [h], ce_latest := mf_version m\<rparr>)) es')"

fun catalog_hosts :: "web_cfg \<Rightarrow> host list \<Rightarrow> catalog_page_entry list \<Rightarrow> ('z, catalog_page_entry list) wm" where
  "catalog_hosts wc [] es = return es"
| "catalog_hosts wc (h # hs) es = do {
     ms \<leftarrow> or_nil (ListCollectorManifests (h_id h));
     catalog_hosts wc hs (fold (count_manifest wc (h_id h)) ms es)
   }"

definition handleCollectorsCatalog :: "web_cfg \<Rightarrow> http_request \<Rightarrow> ('z, reply) wm" where
  "handleCollectorsCatalog wc rq = do {
     hs \<leftarrow> or_nil ListHosts;
     es \<leftarrow> catalog_hosts wc hs [];
     renderForReq wc rq ''collectors'' ''Collectors''
       (CollectorsPage (sort_key ce_name (map (\<lambda>e. e\<lparr>ce_total := length hs\<rparr>) es)))
   }"

section \<open>Runs\<close>

definition handleRunsList :: "web_cfg \<Rightarrow> http_request \<Rightarrow> ('z, reply) wm" where
  "handleRunsList wc rq = do {
     r \<leftarrow> ListRuns 100;
     (case r of
        Inl e \<Rightarrow> return (http_error 500 (serr_str wc e))
      | Inr rs \<Rightarrow> renderForReq wc rq ''runs_list'' ''Runs'' (RunsPage rs))
   }"

definition serveArtifact :: "string \<Rightarrow> string \<Rightarrow> ('z, reply) wm" where
  "serveArtifact task_id nm = do {
     r \<leftarrow> GetResult task_id;
     return (case r of
        Inl _ \<Rightarrow> not_found
      | Inr res \<Rightarrow>
          if rs_artifact_dir res = [] then not_found
          else (case artifact_path (rs_artifact_dir res) nm of
                  None \<Rightarrow> http_error 400 ''path traversal''
                | Some p \<Rightarrow> answer 200 (ServeFile p)))
   }"

fun with_results :: "task list \<Rightarrow> ('z, (task \<times> task_result option) list) wm" where
  "with_results [] = return []"
| "with_results (t # ts) = do {
     r \<leftarrow> GetResult (tk_id t);
     rest \<leftarrow> with_results ts;
     return ((t, case r of Inl _ \<Rightarrow> None | Inr x \<Rightarrow> Some x) # rest)
   }"

definition count_status :: "(task_status \<Rightarrow> bool) \<Rightarrow> task list \<Rightarrow> nat" where
  "count_status P ts = length (filter (\<lambda>t. P (tk_status t)) ts)"

definition first_collector :: "task list \<Rightarrow> string" where
  "first_collector ts = (case filter (\<lambda>c. c \<noteq> []) (map tk_collector ts) of [] \<Rightarrow> [] | c # _ \<Rightarrow> c)"

definition run_detail :: "web_cfg \<Rightarrow> http_request \<Rightarrow> string \<Rightarrow> ('z, reply) wm" where
  "run_detail wc rq rid = do {
     r \<leftarrow> GetRun rid;
     (case r of
        Inl e \<Rightarrow> return (http_error 404 (serr_str wc e))
      | Inr run \<Rightarrow> do {
          ts \<leftarrow> or_nil (ListTasks rid);
          views \<leftarrow> with_results ts;
          renderForReq wc rq ''run_detail'' (''Run '' @ rid)
            (RunDetailPage run views (first_collector ts)
               (count_status (\<lambda>x. x = TkOk) ts)
               (count_status (\<lambda>x. x \<notin> {TkOk, TkPending, TkSent}) ts)
               (count_status (\<lambda>x. x \<in> {TkPending, TkSent}) ts))
        })
   }"

definition handleRunsDetail :: "web_cfg \<Rightarrow> http_request \<Rightarrow> ('z, reply) wm" where
  "handleRunsDetail wc rq =
     (let rest = trim_prefix (rq_path rq) ''/runs/''; (rid, sub) = cut (CHR ''/'') rest
      in if rest = [] \<or> rest = ''new'' then return not_found
         else (case sub of
                 Some t \<Rightarrow> if has_prefix t ''artifact/'' then serveArtifact rid (trim_prefix t ''artifact/'')
                           else run_detail wc rq rid
               | None \<Rightarrow> run_detail wc rq rid))"

section \<open>Settings and audit\<close>

definition handleSettings :: "web_cfg \<Rightarrow> http_request \<Rightarrow> ('z, reply) wm" where
  "handleSettings wc rq = do {
     hs \<leftarrow> or_nil ListHosts;
     issued \<leftarrow> pop_for rq ''issued_token'';
     toks \<leftarrow> or_nil (ListBootstrapTokens 50);
     ptoks \<leftarrow> or_nil (ListAPITokens 100);
     issuedAPI \<leftarrow> pop_for rq ''issued_api_token'';
     renderForReq wc rq ''settings'' ''Settings'' (SettingsPage
       \<lparr>sp_hosts = hs, sp_issued = issued, sp_issued_api = issuedAPI,
        sp_model = (if w_loop wc then c_model (w_cf wc) else []),
        sp_base_url = (if w_loop wc then w_base_url wc else []),
        sp_max_steps = fst (view_budgets wc), sp_max_tokens = snd (view_budgets wc),
        sp_admin = w_username wc, sp_tokens = toks, sp_api_tokens = ptoks\<rparr>)
   }"

definition handleAudit :: "web_cfg \<Rightarrow> http_request \<Rightarrow> ('z, reply) wm" where
  "handleAudit wc rq =
     (let actor = query_get ''actor'' rq; action = query_get ''action'' rq
      in do {
        r \<leftarrow> ListAuditFiltered actor action 500;
        (case r of
           Inl e \<Rightarrow> return (http_error 500 (serr_str wc e))
         | Inr es \<Rightarrow> renderForReq wc rq ''audit'' ''Audit'' (AuditPage es actor action))
      })"

section \<open>Investigations\<close>

definition status_buckets :: "investigation list \<Rightarrow> nat \<times> nat \<times> nat \<times> nat" where
  "status_buckets vs =
     (length vs,
      length (filter (\<lambda>v. inv_status v \<in> {InvActive, InvWaiting}) vs),
      length (filter (\<lambda>v. inv_status v = InvDone) vs),
      length (filter (\<lambda>v. inv_status v = InvAborted) vs))"

definition handleInvestigationsList :: "web_cfg \<Rightarrow> http_request \<Rightarrow> ('z, reply) wm" where
  "handleInvestigationsList wc rq = do {
     r \<leftarrow> ListInvestigations 100;
     (case r of
        Inl e \<Rightarrow> return (http_error 500 (serr_str wc e))
      | Inr vs \<Rightarrow> do {
          c \<leftarrow> FindingCountsByInvestigation;
          hs \<leftarrow> or_nil ListHosts;
          renderForReq wc rq ''investigations_list'' ''Investigations''
            (InvestigationsPage vs (case c of Inl _ \<Rightarrow> (\<lambda>_. None) | Inr f \<Rightarrow> f) (w_loop wc)
               (fst (view_budgets wc)) (snd (view_budgets wc)) (query_get ''f'' rq) (status_buckets vs) hs)
        })
   }"

definition budgets :: "web_cfg \<Rightarrow> int \<times> int" where
  "budgets wc =
     (let (steps, toks) = view_budgets wc
      in (if steps = 0 then 40 else steps, if toks = 0 then 500000 else toks))"

text \<open>The digest of an investigation's state, and the browser's stream of its changes.\<close>

definition quoted :: "string \<Rightarrow> string" where
  "quoted s = [CHR 0x22] @ s @ [CHR 0x22]"

definition snapshotForSSE :: "string \<Rightarrow> ('z, serr + string) wm" where
  "snapshotForSSE i = do {
     r \<leftarrow> SnapshotCounters i;
     return (case r of
        Inl e \<Rightarrow> Inl e
      | Inr sn \<Rightarrow> Inr (''{'' @ quoted ''status'' @ '':'' @ quoted (status_text (sn_status sn))
          @ '','' @ quoted ''steps'' @ '':'' @ nat_text (sn_steps sn)
          @ '','' @ quoted ''last'' @ '':'' @ quoted (case sn_last_call sn of None \<Rightarrow> [] | Some st \<Rightarrow> call_text st)
          @ '','' @ quoted ''findings'' @ '':'' @ nat_text (sn_findings sn) @ ''}''))
   }"

text \<open>One tick: the frame to send and the digest sent last, or the end of the stream.\<close>

definition sse_tick :: "string \<Rightarrow> string \<Rightarrow> ('z, (string \<times> string) option) wm" where
  "sse_tick i prev = do {
     r \<leftarrow> snapshotForSSE i;
     return (case r of
        Inl _ \<Rightarrow> None
      | Inr snap \<Rightarrow>
          Some (if snap = prev then ('': ping'' @ [CHR 0x0A, CHR 0x0A], prev)
                else (''event: state-change'' @ [CHR 0x0A] @ ''data: '' @ snap @ [CHR 0x0A, CHR 0x0A], snap)))
   }"

definition handleInvestigationSSE :: "http_request \<Rightarrow> ('z, reply) wm" where
  "handleInvestigationSSE rq =
     (if trim_prefix (rq_path rq) ''/investigations/events/'' = [] then return not_found
      else return (answer 200 (EventStream 0 [])))"

definition handleInvestigationsDetail :: "web_cfg \<Rightarrow> http_request \<Rightarrow> ('z, reply) wm" where
  "handleInvestigationsDetail wc rq =
     (let i = trim_prefix (rq_path rq) ''/investigations/''
      in if i = [] \<or> i = ''new'' \<or> i = ''decide'' then return not_found
         else do {
           r \<leftarrow> GetInvestigation i;
           (case r of
              Inl e \<Rightarrow> return (http_error 404 (serr_str wc e))
            | Inr v \<Rightarrow> do {
                cs \<leftarrow> or_nil (ListToolCalls i);
                fs \<leftarrow> or_nil (ListFindings i);
                p \<leftarrow> PendingToolCall i;
                snap \<leftarrow> snapshotForSSE i;
                (let maxSteps = fst (budgets wc) + inv_extra_steps v; maxTokens = snd (budgets wc) + inv_extra_tokens v;
                     used = inv_prompt_tokens v + inv_completion_tokens v
                 in renderForReq wc rq ''investigation_detail'' (''Investigation '' @ i) (InvestigationPage
                      \<lparr>ip_inv = v, ip_calls = cs, ip_findings = fs,
                       ip_pending = (case p of Inl _ \<Rightarrow> None | Inr x \<Rightarrow> x), ip_llm = w_loop wc,
                       ip_max_steps = maxSteps, ip_max_tokens = maxTokens, ip_used_tokens = used,
                       ip_steps_pct = safePct (inv_tool_calls v) maxSteps, ip_tokens_pct = safePct used maxTokens,
                       ip_snap = (case snap of Inl _ \<Rightarrow> [] | Inr t \<Rightarrow> t)\<rparr>))
              })
         })"

section \<open>Export\<close>

definition nl :: string where
  "nl = [CHR 0x0A]"

definition fence :: "string \<Rightarrow> string \<Rightarrow> string" where
  "fence before body = before @ ''~~~~json'' @ nl @ body @ nl @ ''~~~~'' @ nl"

definition upper_char :: "char \<Rightarrow> char" where
  "upper_char c = (if is_lower c then char_of (of_char c - 32 :: nat) else c)"

definition export_finding :: "finding \<Rightarrow> string" where
  "export_finding f =
     (let mark = (if fd_ignored f then '' '' @ [CHR 0xF0, CHR 0x9F, CHR 0x9A, CHR 0xAB]
                  else if fd_pinned f then '' '' @ [CHR 0xF0, CHR 0x9F, CHR 0x93, CHR 0x8C] else [])
      in ''- **['' @ map upper_char (fd_severity f) @ '']** `'' @ fd_code f @ ''`'' @ mark
         @ '' '' @ [CHR 0xE2, CHR 0x80, CHR 0x94] @ '' '' @ fd_message f @ nl)"

definition export_call :: "web_cfg \<Rightarrow> call_row \<Rightarrow> string" where
  "export_call wc c =
     ''### '' @ int_text (tc_seq c) @ ''. `'' @ tc_tool c @ ''` '' @ [CHR 0xE2, CHR 0x80, CHR 0x94] @ '' _''
     @ call_text (tc_status c) @ ''_'' @ nl
     @ (if tc_rationale c \<noteq> [] then ''> '' @ tc_rationale c @ nl @ nl else [])
     @ fence (''**Input:**'' @ nl) (prettyJSON wc (tc_input c))
     @ (case tc_result c of
          None \<Rightarrow> []
        | Some t \<Rightarrow> if t = jempty then [] else fence (''**Result:**'' @ nl) (prettyJSON wc t))
     @ nl"

definition export_text :: "web_cfg \<Rightarrow> investigation \<Rightarrow> call_row list \<Rightarrow> finding list \<Rightarrow> string" where
  "export_text wc v cs fs =
     ''# Investigation '' @ inv_id v @ nl @ nl
     @ ''- **Status:** '' @ status_text (inv_status v) @ nl @ ''- **Model:** '' @ inv_model v @ nl
     @ ''- **Created:** '' @ c_time (w_cf wc) (inv_created_at v) @ nl
     @ ''- **Steps:** '' @ int_text (inv_tool_calls v) @ nl
     @ ''- **Tokens:** '' @ int_text (inv_prompt_tokens v) @ '' prompt + '' @ int_text (inv_completion_tokens v)
     @ '' completion'' @ nl @ nl
     @ ''## Goal'' @ nl @ nl @ ''> '' @ inv_goal v @ nl @ nl
     @ ''## Findings'' @ nl @ nl
     @ (if fs = [] then ''_(none)_'' @ nl else concat (map export_finding fs))
     @ nl @ ''## Tool-call timeline'' @ nl @ nl
     @ concat (map (export_call wc) cs)
     @ (case inv_summary v of
          None \<Rightarrow> []
        | Some t \<Rightarrow> fence (''## Summary'' @ nl @ nl) (prettyJSON wc t))"

definition handleInvestigationExport :: "web_cfg \<Rightarrow> http_request \<Rightarrow> ('z, reply) wm" where
  "handleInvestigationExport wc rq =
     (let i = trim_prefix (rq_path rq) ''/investigations/export/''
      in if i = [] then return not_found
         else do {
           r \<leftarrow> GetInvestigation i;
           (case r of
              Inl e \<Rightarrow> return (http_error 404 (serr_str wc e))
            | Inr v \<Rightarrow> do {
                cs \<leftarrow> or_nil (ListToolCalls i);
                fs \<leftarrow> or_nil (ListFindings i);
                return (answer 200 (Plain (export_text wc v cs fs)))
              })
         })"

end
