(* ===== verification/Web_Actions.thy ===== *)
theory Web_Actions
  imports Web_Pages
begin

text \<open>
  What operators do in the UI (\<open>hub/web/server.go\<close>, \<open>install.go\<close>): the handlers of forms, over
  the store, the runner and the loop, and the script that installs an agent.
\<close>

section \<open>Forms\<close>

text \<open>
  The start of a form handler: \<open>POST\<close> only; the body is capped and parsed, and a parse error is
  a bad request (the text of its error is not modelled).
\<close>

definition post_form :: "http_request \<Rightarrow> int \<Rightarrow> (http_request \<Rightarrow> ('z, reply) wm) \<Rightarrow> ('z, reply) wm" where
  "post_form rq cap h =
     (if rq_method rq \<noteq> ''POST'' then return (http_error 405 ''POST only'')
      else (let (rq', ok) = ParseForm (MaxBytesReader cap rq)
            in if \<not> ok then return (http_error 400 ''bad form'') else h rq'))"

definition with_loop :: "web_cfg \<Rightarrow> http_request \<Rightarrow> string \<Rightarrow> ('z, reply) wm \<Rightarrow> ('z, reply) wm" where
  "with_loop wc rq t m =
     (if rq_method rq \<noteq> ''POST'' then return (http_error 405 ''POST only'')
      else if \<not> w_loop wc then return (http_error 503 t)
      else m)"

definition flash_for :: "http_request \<Rightarrow> string \<Rightarrow> string \<Rightarrow> ('z, unit) wm" where
  "flash_for rq key val =
     (case cookie_value cookieSession rq of None \<Rightarrow> return () | Some sid \<Rightarrow> setFlash sid key val)"

text \<open>A store operation's error as 500, and otherwise the audit and the redirect.\<close>

definition audited_redirect :: "string \<Rightarrow> string \<Rightarrow> json \<Rightarrow> string \<Rightarrow> ('z, reply) wm" where
  "audited_redirect actor action details url = do {
     _ \<leftarrow> audit_web actor action details;
     return (http_redirect 303 url)
   }"

section \<open>Runs\<close>

definition form_params :: "http_request \<Rightarrow> strmap" where
  "form_params rq =
     map (\<lambda>k. (trim_prefix k ''param_'', get_first k (form rq)))
       (filter (\<lambda>k. has_prefix k ''param_'' \<and> get_first k (form rq) \<noteq> []) (remdups (map fst (form rq))))"

definition handleRunsNew :: "web_cfg \<Rightarrow> http_request \<Rightarrow> ('z, reply) wm" where
  "handleRunsNew wc rq0 = post_form rq0 (64 * 1024) (\<lambda>rq.
     (let hs = get_all ''host_id'' (form rq); coll = FormValue ''collector'' rq
      in if hs = [] \<or> coll = [] then return (http_error 400 ''host_id and collector required'')
         else do {
           r \<leftarrow> CreateRun (c_ids (w_cf wc)) IsOnline SendCollect
                  \<lparr>rr_name = FormValue ''name'' rq, rr_hosts = hs, rr_collector = coll, rr_params = form_params rq,
                   rr_timeout = 0, rr_by = ''operator''\<rparr>;
           (case r of
              Inl e \<Rightarrow> return (http_error 400 (serr_str wc e))
            | Inr rid \<Rightarrow> audited_redirect ''operator'' ''run.create''
                (JObj [(''collector'', JStr coll), (''host_count'', JInt (int (length hs))), (''run_id'', JStr rid)])
                (''/runs/'' @ rid))
         }))"

section \<open>Tokens\<close>

text \<open>A lifetime given as text: ten years at most; none is no expiry.\<close>

definition token_expiry :: "web_cfg \<Rightarrow> string \<Rightarrow> instant \<Rightarrow> instant option option" where
  "token_expiry wc ttl now =
     (if ttl = [] then Some None
      else (case w_duration wc ttl of
              None \<Rightarrow> None
            | Some d \<Rightarrow> if d \<le> 0 \<or> d > 10 * 365 * 24 * 3600 * 10 ^ 9 then None else Some (Some (now + d))))"

definition handleIssueAPIToken :: "web_cfg \<Rightarrow> http_request \<Rightarrow> ('z, reply) wm" where
  "handleIssueAPIToken wc rq0 = post_form rq0 (8 * 1024) (\<lambda>rq.
     (let nm = trim_space (FormValue ''name'' rq); scope = trim_space (FormValue ''scope'' rq);
          ttl = trim_space (FormValue ''ttl'' rq)
      in if nm = [] then return (http_error 400 ''name required'')
         else if \<not> ValidAPIScope scope then return (http_error 400 ''invalid scope'')
         else do {
           now \<leftarrow> gets clock;
           (case token_expiry wc ttl now of
              None \<Rightarrow> return (http_error 400 ''invalid ttl'')
            | Some expires \<Rightarrow> do {
                (raw, h, prefix) \<leftarrow> GenerateAPIToken (w_sha256 wc) (w_b64 wc);
                r \<leftarrow> InsertAPIToken (w_row_id wc) nm h prefix scope (authedUser rq) expires;
                (case r of
                   Inl e \<Rightarrow> return (http_error 500 (serr_str wc e))
                 | Inr i \<Rightarrow> do {
                     _ \<leftarrow> audit_web (authedUser rq) ''api_token.issue''
                            (JObj [(''id'', JStr i), (''name'', JStr nm), (''scope'', JStr scope)]);
                     _ \<leftarrow> flash_for rq ''issued_api_token'' raw;
                     return (http_redirect 303 ''/settings#api-tokens'')
                   })
              })
         }))"

definition handleRevokeAPIToken :: "web_cfg \<Rightarrow> http_request \<Rightarrow> ('z, reply) wm" where
  "handleRevokeAPIToken wc rq0 = post_form rq0 (8 * 1024) (\<lambda>rq.
     (let i = FormValue ''id'' rq
      in if i = [] then return (http_error 400 ''id required'')
         else do {
           r \<leftarrow> RevokeAPIToken i;
           (case r of
              Inl e \<Rightarrow> return (http_error 500 (serr_str wc e))
            | Inr _ \<Rightarrow> audited_redirect (authedUser rq) ''api_token.revoke'' (JObj [(''id'', JStr i)])
                         ''/settings#api-tokens'')
         }))"

text \<open>The lifetime of a bootstrap token: the form's, up to thirty days, or the default.\<close>

definition bootstrap_ttl :: "web_cfg \<Rightarrow> string \<Rightarrow> int \<Rightarrow> int" where
  "bootstrap_ttl wc t dflt =
     (if t = [] then dflt
      else (case w_duration wc t of
              Some d \<Rightarrow> if d > 0 \<and> d \<le> 30 * 24 * 3600 * 10 ^ 9 then d else dflt
            | None \<Rightarrow> dflt))"

definition handleIssueToken :: "web_cfg \<Rightarrow> http_request \<Rightarrow> ('z, reply) wm" where
  "handleIssueToken wc rq0 = post_form rq0 (8 * 1024) (\<lambda>rq.
     (let agent = trim_space (FormValue ''agent_id'' rq);
          ttl = bootstrap_ttl wc (FormValue ''ttl'' rq) (24 * 3600 * 10 ^ 9)
      in if agent = [] then return (http_error 400 ''agent_id required'')
         else do {
           r \<leftarrow> investigatorTokenFor wc agent ttl (authedUser rq);
           (case r of
              Inl e \<Rightarrow> return (http_error 500 (serr_str wc e))
            | Inr tok \<Rightarrow> do {
                _ \<leftarrow> audit_web (authedUser rq) ''token.issue''
                       (JObj [(''agent_id'', JStr agent), (''ttl'', JStr (w_duration_text wc ttl))]);
                _ \<leftarrow> flash_for rq ''issued_token'' tok;
                return (http_redirect 303 ''/settings'')
              })
         }))"

definition handleRevokeToken :: "web_cfg \<Rightarrow> http_request \<Rightarrow> ('z, reply) wm" where
  "handleRevokeToken wc rq0 = post_form rq0 (8 * 1024) (\<lambda>rq.
     (let h = FormValue ''token_hash'' rq
      in if h = [] then return (http_error 400 ''token_hash required'')
         else do {
           r \<leftarrow> DeleteBootstrapToken h;
           (case r of
              Inl e \<Rightarrow> return (http_error 500 (serr_str wc e))
            | Inr _ \<Rightarrow> audited_redirect (authedUser rq) ''token.revoke''
                         (JObj [(''token_hash_prefix'', JStr (truncate h 12))]) ''/settings#tokens'')
         }))"

section \<open>Hosts\<close>

definition handleHostRevoke :: "web_cfg \<Rightarrow> http_request \<Rightarrow> ('z, reply) wm" where
  "handleHostRevoke wc rq0 = post_form rq0 (8 * 1024) (\<lambda>rq.
     (let i = FormValue ''agent_id'' rq;
          reason = (if FormValue ''reason'' rq = [] then ''operator UI'' else FormValue ''reason'' rq)
      in if i = [] then return (http_error 400 ''agent_id required'')
         else do {
           r \<leftarrow> RevokeIdentity i reason;
           (case r of
              Inl e \<Rightarrow> return (http_error 500 (serr_str wc e))
            | Inr _ \<Rightarrow> audited_redirect (authedUser rq) ''identity.revoke''
                         (JObj [(''agent_id'', JStr i), (''reason'', JStr reason)]) (''/hosts/'' @ i))
         }))"

definition handleHostDelete :: "web_cfg \<Rightarrow> http_request \<Rightarrow> ('z, reply) wm" where
  "handleHostDelete wc rq0 = post_form rq0 (8 * 1024) (\<lambda>rq.
     (let i = FormValue ''agent_id'' rq
      in if i = [] then return (http_error 400 ''agent_id required'')
         else do {
           g \<leftarrow> GetHost i;
           (case g of
              Inl _ \<Rightarrow> return (http_error 404 ''host not found'')
            | Inr h \<Rightarrow>
                if h_status h = HostOnline
                then return (http_error 409 (''refusing to delete an online host '' @ [CHR 0xE2, CHR 0x80, CHR 0x94]
                       @ '' revoke its identity first, wait for it to drop offline''))
                else do {
                  r \<leftarrow> DeleteHost i;
                  (case r of
                     Inl e \<Rightarrow> return (http_error 500 (serr_str wc e))
                   | Inr _ \<Rightarrow> audited_redirect (authedUser rq) ''host.delete''
                       (JObj [(''agent_id'', JStr i), (''last_status'', JStr (host_text (h_status h)))]) ''/hosts'')
                })
         }))"

section \<open>Investigations\<close>

definition investigation_url :: "string \<Rightarrow> string" where
  "investigation_url i = ''/investigations/'' @ i"

definition disabled_text :: string where
  "disabled_text = ''investigator disabled''"

definition handleInvestigationsNew :: "web_cfg \<Rightarrow> http_request \<Rightarrow> ('z, reply) wm" where
  "handleInvestigationsNew wc rq0 =
     with_loop wc rq0 (disabled_text @ '' '' @ [CHR 0xE2, CHR 0x80, CHR 0x94] @ '' set RECON_LLM_API_KEY and restart hub'')
       (post_form rq0 (32 * 1024) (\<lambda>rq.
     (let goal = trim_space (FormValue ''goal'' rq); allowed = get_all ''agent_ids'' (form rq)
      in if goal = [] then return (http_error 400 ''goal required'')
         else do {
           r \<leftarrow> Start (w_cf wc) goal (authedUser rq) allowed;
           (case r of
              Inl e \<Rightarrow> return (http_error 400 (terr_str wc e))
            | Inr i \<Rightarrow> audited_redirect (authedUser rq) ''investigation.start''
                (JObj [(''allowed_hosts'', JInt (int (length allowed))), (''goal_chars'', JInt (int (length goal))),
                       (''investigation_id'', JStr i)]) (investigation_url i))
         })))"

definition handleInvestigationDecide :: "web_cfg \<Rightarrow> http_request \<Rightarrow> ('z, reply) wm" where
  "handleInvestigationDecide wc rq0 = with_loop wc rq0 disabled_text (post_form rq0 (32 * 1024) (\<lambda>rq.
     (let i = FormValue ''investigation_id'' rq; decision = FormValue ''decision'' rq;
          newInput = FormValue ''new_input_json'' rq
      in if i = [] \<or> decision = [] then return (http_error 400 ''investigation_id and decision required'')
         else do {
           r \<leftarrow> DecideWithEdit (w_cf wc) i decision (input_text wc newInput) ''operator'';
           (case r of
              Inl e \<Rightarrow> return (http_error 400 (terr_str wc e))
            | Inr _ \<Rightarrow> audited_redirect ''operator'' ''investigation.decide''
                (JObj [(''decision'', JStr decision), (''edited'', JBool (newInput \<noteq> [])), (''investigation_id'', JStr i)])
                (investigation_url i))
         })))"

definition handleHypothesis :: "web_cfg \<Rightarrow> http_request \<Rightarrow> ('z, reply) wm" where
  "handleHypothesis wc rq0 = with_loop wc rq0 disabled_text (post_form rq0 (32 * 1024) (\<lambda>rq.
     (let i = FormValue ''investigation_id'' rq; claim = FormValue ''claim'' rq
      in if i = [] \<or> trim_space claim = [] then return (http_error 400 ''investigation_id and claim required'')
         else do {
           r \<leftarrow> InjectHypothesis (w_cf wc) i claim (FormValue ''expected'' rq) (FormValue ''instruction'' rq) ''operator'';
           (case r of
              Inl e \<Rightarrow> return (http_error 400 (terr_str wc e))
            | Inr _ \<Rightarrow> audited_redirect ''operator'' ''investigation.hypothesis''
                (JObj [(''claim_chars'', JInt (int (length claim))), (''investigation_id'', JStr i)]) (investigation_url i))
         })))"

definition handleInvestigationExtend :: "web_cfg \<Rightarrow> http_request \<Rightarrow> ('z, reply) wm" where
  "handleInvestigationExtend wc rq0 = with_loop wc rq0 disabled_text (post_form rq0 (4 * 1024) (\<lambda>rq.
     (let i = FormValue ''investigation_id'' rq;
          steps = bounded_param (FormValue ''extra_steps'' rq) (\<lambda>n. 0 \<le> n \<and> n \<le> 200) 10;
          toks = bounded_param (FormValue ''extra_tokens'' rq) (\<lambda>n. 0 \<le> n \<and> n \<le> 2000000) 500000
      in if i = [] then return (http_error 400 ''investigation_id required'')
         else do {
           r \<leftarrow> Extend (w_cf wc) i steps toks (authedUser rq);
           return (case r of
              Inl e \<Rightarrow> http_error 400 (terr_str wc e)
            | Inr _ \<Rightarrow> http_redirect 303 (investigation_url i))
         })))"

definition handleInvestigationFinalize :: "web_cfg \<Rightarrow> http_request \<Rightarrow> ('z, reply) wm" where
  "handleInvestigationFinalize wc rq0 = with_loop wc rq0 disabled_text (post_form rq0 (4 * 1024) (\<lambda>rq.
     (let i = FormValue ''investigation_id'' rq
      in if i = [] then return (http_error 400 ''investigation_id required'')
         else do {
           r \<leftarrow> Finalize (w_cf wc) i (authedUser rq);
           return (case r of
              Inl e \<Rightarrow> http_error 400 (terr_str wc e)
            | Inr _ \<Rightarrow> http_redirect 303 (investigation_url i))
         })))"

definition handleInvestigationAutoApprove :: "web_cfg \<Rightarrow> http_request \<Rightarrow> ('z, reply) wm" where
  "handleInvestigationAutoApprove wc rq0 = post_form rq0 (4 * 1024) (\<lambda>rq.
     (let i = FormValue ''investigation_id'' rq; on = (FormValue ''on'' rq = ''1'')
      in if i = [] then return (http_error 400 ''investigation_id required'')
         else do {
           r \<leftarrow> SetAutoApprove i on;
           (case r of
              Inl e \<Rightarrow> return (http_error 500 (serr_str wc e))
            | Inr _ \<Rightarrow> audited_redirect (authedUser rq) ''investigation.auto_approve''
                (JObj [(''investigation_id'', JStr i), (''on'', JBool on)]) (investigation_url i))
         }))"

section \<open>Findings\<close>

text \<open>
  What an action does to a finding: nothing when it is already so, otherwise the flag and,
  for \<open>ignore\<close> and \<open>unignore\<close>, a note to the model.
\<close>

definition mark_ignored :: "web_cfg \<Rightarrow> finding \<Rightarrow> bool \<Rightarrow> ('z, serr + unit) wm" where
  "mark_ignored wc f on =
     unless_err (SetFindingIgnored (fd_id f) on) (\<lambda>_. do {
       _ \<leftarrow> (if \<not> w_loop wc then return ()
            else if on then ignore (InjectIgnoreNote (fd_inv f) (fd_code f) (fd_message f))
            else ignore (InjectRestoreNote (fd_inv f) (fd_code f) (fd_message f)));
       return (Inr ())
     })"

definition act_on_finding :: "web_cfg \<Rightarrow> finding \<Rightarrow> string \<Rightarrow> ('z, serr + unit) wm option" where
  "act_on_finding wc f action =
     (if action = ''pin'' then Some (SetFindingPinned (fd_id f) True)
      else if action = ''unpin'' then Some (SetFindingPinned (fd_id f) False)
      else if action = ''ignore'' then Some (mark_ignored wc f True)
      else if action = ''unignore'' then Some (mark_ignored wc f False)
      else None)"

definition already_so :: "finding \<Rightarrow> string \<Rightarrow> bool" where
  "already_so f action = (action = ''ignore'' \<and> fd_ignored f \<or> action = ''unignore'' \<and> \<not> fd_ignored f)"

definition handleFindingAction :: "web_cfg \<Rightarrow> http_request \<Rightarrow> ('z, reply) wm" where
  "handleFindingAction wc rq =
     (if rq_method rq \<noteq> ''POST'' then return (http_error 405 ''POST only'')
      else (case cut (CHR ''/'') (trim_prefix (rq_path rq) ''/findings/'') of
              (i, None) \<Rightarrow> return (http_error 400 ''expected /findings/{id}/{action}'')
            | (i, Some action) \<Rightarrow> do {
                g \<leftarrow> GetFinding i;
                (case g of
                   Inl e \<Rightarrow> return (http_error 404 (serr_str wc e))
                 | Inr f \<Rightarrow>
                     if already_so f action then return (http_redirect 303 (investigation_url (fd_inv f)))
                     else (case act_on_finding wc f action of
                             None \<Rightarrow> return (http_error 400 ''unknown action'')
                           | Some m \<Rightarrow> do {
                               r \<leftarrow> m;
                               (case r of
                                  Inl e \<Rightarrow> return (http_error 500 (serr_str wc e))
                                | Inr _ \<Rightarrow> audited_redirect ''operator'' (''finding.'' @ action)
                                    (JObj [(''finding_id'', JStr i), (''investigation_id'', JStr (fd_inv f))])
                                    (investigation_url (fd_inv f)))
                             }))
              }))"

section \<open>Installing an agent\<close>

definition install_enabled :: "web_cfg \<Rightarrow> bool" where
  "install_enabled wc = (ic_repo (w_install wc) \<noteq> [])"

definition install_disabled :: string where
  "install_disabled = ''install endpoint is disabled '' @ [CHR 0xE2, CHR 0x80, CHR 0x94]
     @ '' set install.download_base_url and install.agent_grpc_endpoint in hub.yaml''"

definition DownloadBase :: "install_cfg \<Rightarrow> string" where
  "DownloadBase ic =
     (let repo = trim_right_char (CHR ''/'') (ic_repo ic); v = ic_version ic
      in if v = [] \<or> v = ''latest'' then repo @ ''/releases/latest/download''
         else repo @ ''/releases/download/'' @ (if has_prefix v ''v'' then v else ''v'' @ v))"

text \<open>Escaping inside double quotes of a shell: backslash, quote, backtick and dollar.\<close>

definition shell_special :: "char \<Rightarrow> bool" where
  "shell_special c = (c \<in> {CHR 0x5C, CHR 0x22, CHR 0x60, CHR ''$''})"

definition shellQuote :: "string \<Rightarrow> string" where
  "shellQuote s = concat (map (\<lambda>c. if shell_special c then [CHR 0x5C, c] else [c]) s)"

definition hex_digit :: "nat \<Rightarrow> char" where
  "hex_digit n = (if n < 10 then char_of (48 + n) else char_of (55 + n))"

definition url_safe :: "char \<Rightarrow> bool" where
  "url_safe c = (is_alnum c \<or> c \<in> {CHR ''-'', CHR ''.'', CHR ''_'', CHR ''~''})"

definition urlEscape :: "string \<Rightarrow> string" where
  "urlEscape s = concat (map (\<lambda>c. if url_safe c then [c]
      else [CHR 0x25, hex_digit (of_char c div 16), hex_digit (of_char c mod 16)]) s)"

text \<open>The host a request came to, as a proxy reports it or as the client named it.\<close>

definition request_host :: "http_request \<Rightarrow> string" where
  "request_host rq =
     (if header ''X-Forwarded-Host'' rq \<noteq> [] then header ''X-Forwarded-Host'' rq else rq_host rq)"

definition without_port :: "string \<Rightarrow> string" where
  "without_port h =
     (let after = rev (takeWhile (\<lambda>c. c \<noteq> CHR '':'') (rev h))
      in if contains '']'' after then h else cut_last (CHR '':'') h)"

definition hub_endpoint :: "web_cfg \<Rightarrow> http_request \<Rightarrow> string" where
  "hub_endpoint wc rq =
     (let ep = (if query_get ''hub'' rq \<noteq> [] then query_get ''hub'' rq else ic_endpoint (w_install wc))
      in if ep = [] \<or> ep = ''auto''
         then without_port (request_host rq) @ '':'' @ int_text (ic_port (w_install wc)) else ep)"

definition handleInstallAgentScript :: "web_cfg \<Rightarrow> http_request \<Rightarrow> ('z, reply) wm" where
  "handleInstallAgentScript wc rq =
     (let tok = query_get ''token'' rq; agent = query_get ''id'' rq;
          ic = (if query_get ''version'' rq \<noteq> [] then (w_install wc)\<lparr>ic_version := query_get ''version'' rq\<rparr>
                else w_install wc)
      in if \<not> install_enabled wc then return (http_error 503 install_disabled)
         else if tok = [] \<or> agent = [] then return (http_error 400 ''token and id are required query params'')
         else do {
           r \<leftarrow> LookupBootstrapToken (w_sha256 wc) tok agent;
           return (if r \<noteq> Inr True then not_found
             else answer 200 (Plain (w_script wc
               [(''__TOKEN__'', shellQuote tok), (''__AGENT_ID__'', shellQuote agent),
                (''__HUB_ENDPOINT__'', shellQuote (hub_endpoint wc rq)), (''__VERSION__'', shellQuote (ic_version ic)),
                (''__DOWNLOAD_BASE__'', shellQuote (DownloadBase ic)), (''__RELEASE_REPO__'', shellQuote (ic_repo ic))])))
         })"

definition install_base :: "web_cfg \<Rightarrow> http_request \<Rightarrow> string" where
  "install_base wc rq =
     (let base = trim_right_char (CHR ''/'') (ic_external (w_install wc))
      in if base \<noteq> [] then base
         else (if rq_tls rq \<or> header ''X-Forwarded-Proto'' rq = ''https'' then ''https'' else ''http'')
              @ ''://'' @ request_host rq)"

definition install_one_liner :: "web_cfg \<Rightarrow> http_request \<Rightarrow> string \<Rightarrow> string \<Rightarrow> string" where
  "install_one_liner wc rq tok agent =
     ''curl '' @ (if ic_trusted (w_install wc) then ''-fsSL'' else ''-fsSLk'') @ '' ''
     @ w_quote wc (install_base wc rq @ ''/install/agent.sh?token='' @ urlEscape tok @ ''&id='' @ urlEscape agent)
     @ '' | sudo bash''"

definition quick_install :: "web_cfg \<Rightarrow> http_request \<Rightarrow> string \<Rightarrow> int \<Rightarrow> ('z, reply) wm" where
  "quick_install wc rq agent ttl = do {
     v \<leftarrow> RevokeIdentity agent ''quick-install reissue'';
     _ \<leftarrow> (case v of
            Inl _ \<Rightarrow> return ()
          | Inr _ \<Rightarrow> audit_web (authedUser rq) ''identity.revoke''
              (JObj [(''agent_id'', JStr agent), (''reason'', JStr ''quick-install reissue'')]));
     r \<leftarrow> investigatorTokenFor wc agent ttl (authedUser rq);
     (case r of
        Inl e \<Rightarrow> return (http_error 500 (serr_str wc e))
      | Inr tok \<Rightarrow> do {
          _ \<leftarrow> audit_web (authedUser rq) ''install.token_issued''
                 (JObj [(''agent_id'', JStr agent), (''ttl'', JStr (w_duration_text wc ttl))]);
          _ \<leftarrow> flash_for rq ''install_one_liner'' (install_one_liner wc rq tok agent);
          _ \<leftarrow> flash_for rq ''install_agent_id'' agent;
          return (http_redirect 303 ''/hosts'')
        })
   }"

definition handleQuickInstall :: "web_cfg \<Rightarrow> http_request \<Rightarrow> ('z, reply) wm" where
  "handleQuickInstall wc rq0 =
     (if rq_method rq0 \<noteq> ''POST'' then return (http_error 405 ''POST only'')
      else if \<not> install_enabled wc then return (http_error 503 install_disabled)
      else post_form rq0 (8 * 1024) (\<lambda>rq.
        (let agent = trim_space (FormValue ''agent_id'' rq);
             ttl = bootstrap_ttl wc (FormValue ''ttl'' rq) (3600 * 10 ^ 9)
         in if agent = [] then return (http_error 400 ''agent_id required'')
            else do {
              g \<leftarrow> GetHost agent;
              (case g of
                 Inr h \<Rightarrow>
                   if h_status h = HostOnline
                   then return (http_error 409 (''agent_id '' @ agent @ '' is currently online '' @ [CHR 0xE2, CHR 0x80, CHR 0x94]
                     @ '' revoke its cert from /hosts/'' @ agent @ '' first, or pick a different agent_id''))
                   else quick_install wc rq agent ttl
               | Inl _ \<Rightarrow> quick_install wc rq agent ttl)
            })))"

end
