(* ===== verification/Web_Routes.thy ===== *)
theory Web_Routes
  imports Web_Actions
begin

text \<open>
  The routes of the web server (\<open>Server.Routes\<close> in \<open>hub/web/server.go\<close>) and the multiplexer of
  \<open>net/http\<close> that picks the handler of a request.
\<close>

section \<open>The multiplexer\<close>

text \<open>
  \<open>cleanPath\<close> keeps a trailing slash. A path is matched by its segments, each with its escapes
  decoded; a pattern that ends with a slash matches everything below it.
\<close>

definition cleanPath :: "string \<Rightarrow> string" where
  "cleanPath p =
     (let q = (if has_prefix p ''/'' then p else ''/'' @ p); np = path_clean q
      in if has_suffix q ''/'' \<and> np \<noteq> ''/'' then np @ ''/'' else np)"

definition segments :: "string \<Rightarrow> string list" where
  "segments p = map path_unescape (split_on (CHR ''/'') (drop 1 p))"

definition pattern_matches :: "string \<Rightarrow> string list \<Rightarrow> bool" where
  "pattern_matches pat segs =
     (let ps = split_on (CHR ''/'') (drop 1 pat)
      in if last ps = [] then length segs \<ge> length ps \<and> take (length ps - 1) segs = butlast ps
         else segs = ps)"

text \<open>The most specific pattern: the one with the most segments; an exact one before a subtree.\<close>

definition pattern_rank :: "string \<Rightarrow> nat" where
  "pattern_rank pat =
     (let ps = split_on (CHR ''/'') (drop 1 pat) in 2 * length ps + (if last ps = [] then 0 else 1))"

fun pick :: "string list \<Rightarrow> (string \<times> 'h) list \<Rightarrow> (string \<times> 'h) option" where
  "pick segs [] = None"
| "pick segs (r # rs) =
     (case pick segs rs of
        None \<Rightarrow> if pattern_matches (fst r) segs then Some r else None
      | Some q \<Rightarrow> if pattern_matches (fst r) segs \<and> pattern_rank (fst r) > pattern_rank (fst q) then Some r else Some q)"

text \<open>
  A path that is not clean, and a path whose subtree is registered while it is not, are
  redirected.
\<close>

definition serve_mux :: "(string \<times> (http_request \<Rightarrow> ('z, reply) wm)) list \<Rightarrow> http_request \<Rightarrow> ('z, reply) wm" where
  "serve_mux routes rq =
     (let p = (if rq_method rq = ''CONNECT'' then rq_escaped rq else cleanPath (rq_escaped rq));
          q = p @ ''/''
      in if \<not> has_suffix p ''/'' \<and> q \<in> fst ` set routes \<and> p \<notin> fst ` set routes then return (http_redirect 301 q)
         else if p \<noteq> rq_escaped rq then return (http_redirect 301 p)
         else (case pick (segments p) routes of
                 None \<Rightarrow> return not_found
               | Some (_, h) \<Rightarrow> h rq))"

section \<open>The routes\<close>

definition healthz :: "http_request \<Rightarrow> ('z, reply) wm" where
  "healthz rq = return (answer 200 (Plain ''ok''))"

definition static_file :: "http_request \<Rightarrow> ('z, reply) wm" where
  "static_file rq = return (answer 200 (ServeFile (trim_prefix (rq_path rq) ''/static/'')))"

definition public_routes :: "web_cfg \<Rightarrow> (string \<times> (http_request \<Rightarrow> ('z, reply) wm)) list" where
  "public_routes wc =
     [(''/healthz'', healthz), (''/static/'', static_file), (''/login'', handleLogin wc), (''/logout'', handleLogout),
      (''/install/agent.sh'', handleInstallAgentScript wc)]"

definition page_routes :: "web_cfg \<Rightarrow> (string \<times> (http_request \<Rightarrow> ('z, reply) wm)) list" where
  "page_routes wc =
     [(''/'', handleRoot), (''/hosts'', handleHosts wc), (''/hosts/'', handleHostDetail wc),
      (''/collectors'', handleCollectorsCatalog wc), (''/runs'', handleRunsList wc), (''/runs/'', handleRunsDetail wc),
      (''/investigations'', handleInvestigationsList wc), (''/investigations/'', handleInvestigationsDetail wc),
      (''/investigations/export/'', handleInvestigationExport wc),
      (''/investigations/events/'', handleInvestigationSSE), (''/audit'', handleAudit wc),
      (''/settings'', handleSettings wc)]"

definition form_routes :: "web_cfg \<Rightarrow> (string \<times> (http_request \<Rightarrow> ('z, reply) wm)) list" where
  "form_routes wc =
     [(''/runs/new'', handleRunsNew wc), (''/investigations/new'', handleInvestigationsNew wc),
      (''/investigations/decide'', handleInvestigationDecide wc), (''/investigations/hypothesis'', handleHypothesis wc),
      (''/investigations/extend'', handleInvestigationExtend wc),
      (''/investigations/finalize'', handleInvestigationFinalize wc),
      (''/investigations/auto-approve'', handleInvestigationAutoApprove wc),
      (''/findings/'', handleFindingAction wc), (''/settings/issue-token'', handleIssueToken wc),
      (''/settings/revoke-token'', handleRevokeToken wc),
      (''/settings/api-tokens/issue'', handleIssueAPIToken wc),
      (''/settings/api-tokens/revoke'', handleRevokeAPIToken wc), (''/hosts/delete'', handleHostDelete wc),
      (''/hosts/revoke'', handleHostRevoke wc), (''/hosts/quick-install'', handleQuickInstall wc)]"

definition all_routes :: "web_cfg \<Rightarrow> (string \<times> (http_request \<Rightarrow> ('z, reply) wm)) list" where
  "all_routes wc =
     public_routes wc @ map (\<lambda>(p, h). (p, requireAuth wc h)) (page_routes wc @ form_routes wc) @ api_routes wc"

definition Routes :: "web_cfg \<Rightarrow> http_request \<Rightarrow> ('z, reply) wm" where
  "Routes wc rq = serve_mux (all_routes wc) rq"

end
