(* ===== verification/Web_Safety.thy ===== *)
theory Web_Safety
  imports Web_Routes Inv_Frame
begin

text \<open>
  Who may change what over HTTP: without a session and its CSRF token, or a bearer token of
  enough scope, no request changes what the hub knows or does; and a login opens a session
  only with the right password and below the limit of failures.
\<close>

section \<open>The protected state\<close>

text \<open>
  Everything but the sessions, one-shot values, login failures, the audit log, event
  subscriptions and the times of last use of API tokens.
\<close>

definition core :: "'z web_scheme \<Rightarrow> _" where
  "core s = (hosts s, manifests s, tokens s, idents s, runs s, tasks s, results s, invs s, msgs s, calls s,
     findings s, map (\<lambda>t. t\<lparr>pat_last_used_at := None\<rparr>) (pats s), limiter s, pending s, open_arts s, files s,
     streams s, dispatched s, running s, spawned s)"

lemma core_indep [simp, intro]:
  "indep faults_update core" "indep audit_update core" "indep last_audit_id_update core" "indep rnd_update core"
  "indep sessions_update core" "indep flashes_update core" "indep login_failures_update core" "indep bus_update core"
  by (simp_all add: indep_def core_def)

lemma leaves_web_reads:
  assumes "indep faults_update f"
  shows "leaves f (GetHost i)" "leaves f (ListRuns n)" "leaves f (GetRun i)" "leaves f (ListBootstrapTokens n)"
    "leaves f (LookupBootstrapToken hash t i)" "leaves f (ListAPITokens n)" "leaves f (LookupAPIToken hash t)"
    "leaves f (GetSession i)" "leaves f (ListAuditFiltered a b n)" "leaves f (ListFindings i)" "leaves f (GetFinding i)"
    "leaves f FindingCountsByInvestigation" "leaves f (SnapshotCounters i)" "leaves f NavCounts"
  unfolding GetHost_def ListRuns_def GetRun_def ListBootstrapTokens_def LookupBootstrapToken_def ListAPITokens_def
    LookupAPIToken_def GetSession_def ListAuditFiltered_def ListFindings_def GetFinding_def
    FindingCountsByInvestigation_def SnapshotCounters_def NavCounts_def Let_def
  by (auto intro!: leaves_read leaves_sql leaves_unless_err leaves_bind leaves_return assms
      split: option.splits if_splits)

lemma leaves_Touch: "leaves core (TouchAPIToken i)"
  unfolding TouchAPIToken_def by (rule leaves_write) (auto simp: core_def map_update_rows)

lemmas core_leaves = leaves_return leaves_gets leaves_bind leaves_unless_err leaves_ignore leaves_for_each leaves_cases
  leaves_read leaves_reads leaves_web_reads leaves_access leaves_Touch core_indep

lemma leaves_State: "(\<And>s. f (snd (g s)) = f s) \<Longrightarrow> leaves f (State g)"
  by (simp add: leaves_def)

lemma leaves_flashes:
  "leaves core (popFlash sid k)" "leaves core (setFlash sid k v)" "leaves core (loginAllowed k)"
  "leaves core (recordLoginFailure k)" "leaves core (subscribe_bus i)"
  unfolding popFlash_def setFlash_def loginAllowed_def recordLoginFailure_def subscribe_bus_def
  by (rule leaves_State leaves_modify; auto simp: core_def Let_def split: option.splits prod.splits)+

lemma leaves_web_small:
  "leaves core (audit_web a b d)" "leaves core (lookup_session sid)" "leaves core (csrfTokenFor rq)"
  "leaves core (pop_for rq k)" "leaves core (flash_for rq k v)" "leaves core (renderForReq wc rq p t pg)"
  "leaves core (snapshotForSSE i)"
proof -
  show "leaves core (audit_web a b d)" "leaves core (lookup_session sid)" "leaves core (pop_for rq k)"
    "leaves core (flash_for rq k v)" "leaves core (snapshotForSSE i)"
    unfolding audit_web_def lookup_session_def pop_for_def flash_for_def snapshotForSSE_def
    by (intro core_leaves leaves_flashes)+
  show "leaves core (csrfTokenFor rq)"
    unfolding csrfTokenFor_def lookup_session_def by (intro core_leaves)
  then show "leaves core (renderForReq wc rq p t pg)"
    unfolding renderForReq_def by (intro core_leaves)
qed

lemma leaves_or_nil: "leaves core m \<Longrightarrow> leaves core (or_nil m)"
  unfolding or_nil_def by (intro core_leaves)

lemma leaves_catalog_hosts: "leaves core (catalog_hosts wc hs es)"
  by (induction hs arbitrary: es) (auto intro!: core_leaves leaves_or_nil)

lemma leaves_with_results: "leaves core (with_results ts)"
  by (induction ts) (auto intro!: core_leaves)

lemmas page_leaves = core_leaves leaves_flashes leaves_web_small leaves_or_nil leaves_catalog_hosts leaves_with_results

section \<open>Pages and API reads change nothing\<close>

lemma pages_leave:
  "leaves core (handleRoot rq)" "leaves core (handleHosts wc rq)" "leaves core (handleHostDetail wc rq)"
  "leaves core (handleCollectorsCatalog wc rq)" "leaves core (handleRunsList wc rq)" "leaves core (handleRunsDetail wc rq)"
  "leaves core (handleInvestigationsList wc rq)" "leaves core (handleInvestigationsDetail wc rq)"
  "leaves core (handleInvestigationExport wc rq)" "leaves core (handleInvestigationSSE rq)"
  "leaves core (handleAudit wc rq)" "leaves core (handleSettings wc rq)"
  unfolding handleRoot_def handleHosts_def handleHostDetail_def handleCollectorsCatalog_def handleRunsList_def
    handleRunsDetail_def run_detail_def serveArtifact_def handleInvestigationsList_def handleInvestigationsDetail_def
    handleInvestigationExport_def handleInvestigationSSE_def handleAudit_def handleSettings_def
  by (intro page_leaves)+

lemma api_reads_leave:
  "leaves core (apiListHosts wc rq)" "leaves core (apiGetHost wc rq)" "leaves core (apiListInvestigations wc rq)"
  "leaves core (apiGetInvestigation wc i rq)" "leaves core (apiListMessages wc i rq)"
  "leaves core (apiListToolCalls wc i rq)" "leaves core (apiListFindings wc i rq)"
  "leaves core (apiStreamEvents wc i rq)"
  unfolding apiListHosts_def apiGetHost_def apiListInvestigations_def apiGetInvestigation_def apiListMessages_def
    apiListToolCalls_def apiListFindings_def apiStreamEvents_def
  by (intro page_leaves)+

lemma leaves_sessions: "leaves core (InsertSession r)" "leaves core (DeleteSession sid)"
  unfolding InsertSession_def DeleteSession_def
  by (auto intro!: leaves_sql leaves_write simp: core_def split: if_splits)

lemma leaves_revoke: "leaves core (revoke sid)"
  unfolding revoke_def by (intro core_leaves leaves_sessions leaves_modify) (simp add: core_def)

lemma leaves_issue: "leaves core (issue wc u ttl)"
  unfolding issue_def by (intro core_leaves leaves_sessions leaves_draw)

lemma public_leave:
  "leaves core (healthz rq)" "leaves core (static_file rq)" "leaves core (handleInstallAgentScript wc rq)"
  "leaves core (handleLogout rq)" "leaves core (handleLogin wc rq)"
  unfolding healthz_def static_file_def handleInstallAgentScript_def handleLogout_def handleLogin_def login_post_def
    login_refused_def login_accepted_def
  by (intro page_leaves leaves_revoke leaves_issue)+

section \<open>Only a \<open>POST\<close> acts\<close>

definition idle :: "(http_request \<Rightarrow> ('z, reply) wm) \<Rightarrow> bool" where
  "idle h = (\<forall>rq. rq_method rq \<noteq> ''POST'' \<longrightarrow> leaves core (h rq))"

lemma idleI: "(\<And>rq. leaves core (h rq)) \<Longrightarrow> idle h"
  by (simp add: idle_def)

lemma forms_idle:
  assumes "(p, h) \<in> set (form_routes wc)"
  shows "idle h"
  using assms unfolding idle_def form_routes_def
  by (auto simp: handleRunsNew_def handleInvestigationsNew_def handleInvestigationDecide_def handleHypothesis_def
      handleInvestigationExtend_def handleInvestigationFinalize_def handleInvestigationAutoApprove_def
      handleFindingAction_def handleIssueToken_def handleRevokeToken_def handleIssueAPIToken_def
      handleRevokeAPIToken_def handleHostDelete_def handleHostRevoke_def handleQuickInstall_def
      post_form_def with_loop_def leaves_return)

lemma pages_idle:
  assumes "(p, h) \<in> set (page_routes wc)"
  shows "idle h"
  by (rule idleI) (use assms in \<open>auto simp: page_routes_def pages_leave\<close>)

section \<open>Sessions\<close>

lemma lookup_sessionD:
  assumes "run_state (lookup_session sid) s = (Some row, s')"
  shows "row \<in> set (sessions s) \<and> ss_sid row = sid \<and> sid \<noteq> [] \<and> clock s \<le> ss_expires_at row"
  using assms
  by (auto simp: lookup_session_def GetSession_def run_sql simp del: run_sql_no_fault faults_Nil
      split: if_splits option.splits sum.splits dest!: find_row_SomeD)

text \<open>A request that carries a live session of the hub and, in the cookie and beside it, its token.\<close>

definition session_authorised :: "http_request \<Rightarrow> 'z web_scheme \<Rightarrow> bool" where
  "session_authorised rq s = (\<exists>row \<in> set (sessions s).
     cookie_value ''recon_sid'' rq = Some (ss_sid row) \<and> clock s \<le> ss_expires_at row \<and>
     cookie_value ''recon_csrf'' rq = Some (ss_csrf row) \<and> ss_csrf row \<noteq> [] \<and>
     ss_csrf row \<in> {header ''X-CSRF-Token'' rq, FormValue ''csrf'' (MaxBytesReader (256 * 1024) rq)})"

lemma provided_csrf_cases:
  "provided_csrf rq = (t, rq') \<Longrightarrow> t \<in> {header ''X-CSRF-Token'' rq, FormValue ''csrf'' (MaxBytesReader (256 * 1024) rq)}
     \<and> rq_method rq' = rq_method rq \<and> rq_cookies rq' = rq_cookies rq"
  by (auto simp: provided_csrf_def Let_def FormValue_def form_def ParseForm_again ParseForm_def MaxBytesReader_def
      split: if_splits option.splits)

lemma csrf_matchesD:
  assumes "csrf_matches rq' t row" and "rq_cookies rq' = rq_cookies rq"
  shows "cookie_value ''recon_csrf'' rq = Some (ss_csrf row) \<and> ss_csrf row \<noteq> [] \<and> t = ss_csrf row"
  using assms by (auto simp: csrf_matches_def cookie_value_def cookieCSRF_def split: option.splits)

lemma requireAuth_core:
  assumes "auth_enabled wc" and "idle h" and "core (snd (run_state (requireAuth wc h rq) s)) \<noteq> core s"
  shows "rq_method rq = ''POST'' \<and> session_authorised rq s"
proof (cases "cookie_value cookieSession rq")
  case None
  with assms(1,3) show ?thesis by (simp add: requireAuth_def)
next
  case (Some sid)
  obtain x s1 where look: "run_state (lookup_session sid) s = (x, s1)" by fastforce
  have s1: "core s1 = core s" using leavesD [OF leaves_web_small(2), of sid s] look by simp
  from assms(1,3) Some look s1 obtain row where x: "x = Some row"
    by (cases x) (auto simp: requireAuth_def)
  note row = lookup_sessionD [OF look [unfolded x]]
  have acts: "core (snd (run_state (h q) s1)) = core s" if "rq_method q \<noteq> ''POST''" for q
    using leavesD [of core "h q" s1] that assms(2) s1 by (simp add: idle_def)
  obtain t rq' where t: "provided_csrf rq = (t, rq')" by fastforce
  note prov = provided_csrf_cases [OF t]
  have post: "rq_method rq = ''POST''"
  proof (rule ccontr)
    assume n: "rq_method rq \<noteq> ''POST''"
    have "core (snd (run_state (h (rq'\<lparr>rq_user := u\<rparr>)) s1)) = core s" "core (snd (run_state (h (rq\<lparr>rq_user := u\<rparr>)) s1)) = core s" for u
      by (rule acts; use n prov in simp)+
    then show False using assms(1,3) Some look x s1 by (simp add: requireAuth_def t split: if_splits)
  qed
  then have "csrf_matches rq' t row"
    using assms(1,3) Some look x t s1 by (auto simp: requireAuth_def split: if_splits)
  from csrf_matchesD [OF this] prov have
    "cookie_value ''recon_csrf'' rq = Some (ss_csrf row) \<and> ss_csrf row \<noteq> [] \<and> t = ss_csrf row" by blast
  then have "session_authorised rq s"
    unfolding session_authorised_def
    using prov row Some by (intro bexI [of _ row]) (auto simp: cookieSession_def)
  with post show ?thesis by simp
qed

section \<open>Bearer tokens\<close>

definition token_authorised :: "web_cfg \<Rightarrow> nat \<Rightarrow> http_request \<Rightarrow> 'z web_scheme \<Rightarrow> bool" where
  "token_authorised wc rank rq s = (\<exists>t \<in> set (pats s).
     header ''Authorization'' rq \<noteq> [] \<and> has_prefix (extractBearer rq) ''recon_pat_'' \<and>
     pat_hash t = w_sha256 wc (extractBearer rq) \<and> pat_revoked_at t = None \<and>
     (case pat_expires_at t of None \<Rightarrow> True | Some e \<Rightarrow> clock s \<le> e) \<and> scopeRank (pat_scope t) \<ge> rank)"

lemma LookupAPIToken_okD:
  assumes "run_state (LookupAPIToken hash raw) s = (Inr t, s')"
  shows "t \<in> set (pats s) \<and> pat_hash t = hash raw \<and> pat_revoked_at t = None
    \<and> (case pat_expires_at t of None \<Rightarrow> True | Some e \<Rightarrow> clock s \<le> e)"
  using assms
  by (auto simp: LookupAPIToken_def run_sql simp del: run_sql_no_fault faults_Nil
      split: if_splits option.splits dest!: find_row_SomeD)

lemma requireAPIAuth_core:
  assumes "core (snd (run_state (requireAPIAuth wc need h rq) s)) \<noteq> core s"
  shows "token_authorised wc (scopeRank need) rq s \<and> (\<exists>q. rq_method q = rq_method rq \<and> \<not> leaves core (h q))"
proof -
  let ?raw = "extractBearer rq"
  have raw: "?raw \<noteq> []" "has_prefix ?raw apiTokenPrefix"
    using assms by (auto simp: requireAPIAuth_def Let_def split: if_splits)
  obtain r s1 where look: "run_state (LookupAPIToken (w_sha256 wc) ?raw) s = (r, s1)" by fastforce
  have s1: "core s1 = core s" using leavesD [OF leaves_web_reads(7), of core "w_sha256 wc" ?raw s] look by simp
  from assms raw look s1 obtain t where r: "r = Inr t"
    by (cases r) (auto simp: requireAPIAuth_def Let_def)
  note t = LookupAPIToken_okD [OF look [unfolded r]]
  obtain s2 where touch: "snd (run_state (TouchAPIToken (pat_id t)) s1) = s2" by blast
  have s2: "core s2 = core s" using leavesD [OF leaves_Touch, of "pat_id t" s1] touch s1 by simp
  let ?q = "rq\<lparr>rq_principal := Some \<lparr>pr_token = pat_id t, pr_name = pat_name t, pr_scope = pat_scope t,
     pr_actor = ''api:'' @ pat_name t\<rparr>\<rparr>"
  from assms raw look r touch s1 have scope: "scopeSatisfies (pat_scope t) need"
    and act: "core (snd (run_state (h ?q) s2)) \<noteq> core s"
    by (auto simp: requireAPIAuth_def Let_def split_def split: if_splits)
  from act s2 have "\<not> leaves core (h ?q)" by (metis leavesD)
  moreover have "header ''Authorization'' rq \<noteq> []" using raw(1) by (auto simp: extractBearer_def Let_def)
  ultimately show ?thesis
    using raw(2) t scope
    unfolding token_authorised_def scopeSatisfies_def apiTokenPrefix_def by (intro conjI bexI [of _ t] exI [of _ ?q]) auto
qed

lemma api_read_leaves:
  assumes "\<And>q. leaves core (h q)"
  shows "core (snd (run_state (requireAPIAuth wc need h rq) s)) = core s"
  using requireAPIAuth_core [of wc need h rq s] assms by blast

lemma api_act_core:
  assumes "core (snd (run_state (requireAPIAuth wc ''investigate'' h rq) s)) \<noteq> core s" and "idle h"
  shows "rq_method rq = ''POST'' \<and> token_authorised wc 2 rq s"
proof -
  from requireAPIAuth_core [OF assms(1)] obtain q where
    q: "token_authorised wc 2 rq s" "rq_method q = rq_method rq" "\<not> leaves core (h q)" by auto
  with assms(2) show ?thesis unfolding idle_def by metis
qed

lemma api_acts_idle:
  "idle (apiDecide wc i)" "idle (apiExtend wc i)" "idle (apiFinalize wc i)" "idle (apiHypothesis wc i)"
  "idle (apiAutoApprove wc i)" "idle (apiFindingAction wc)"
  unfolding idle_def apiDecide_def apiExtend_def apiFinalize_def apiHypothesis_def apiAutoApprove_def
    apiFindingAction_def post_only_def
  by (simp_all add: leaves_return)

lemma api_investigations_core:
  assumes "core (snd (run_state (api_investigations wc rq) s)) \<noteq> core s"
  shows "rq_method rq = ''POST'' \<and> token_authorised wc 2 rq s"
proof -
  from assms have m: "rq_method rq = ''POST''" "core (snd (run_state (requireAPIAuth wc ''investigate'' (apiStartInvestigation wc) rq) s)) \<noteq> core s"
    by (auto simp: api_investigations_def api_read_leaves api_reads_leave split: if_splits)
  then show ?thesis using requireAPIAuth_core [OF m(2)] by simp
qed

lemma api_sub_core:
  assumes "core (snd (run_state (api_investigation_sub wc rq) s)) \<noteq> core s"
  shows "rq_method rq = ''POST'' \<and> token_authorised wc 2 rq s"
  using assms
  by (auto simp: api_investigation_sub_def Let_def api_read_leaves api_reads_leave split: if_splits
      dest: api_act_core [OF _ api_acts_idle(1)] api_act_core [OF _ api_acts_idle(2)]
        api_act_core [OF _ api_acts_idle(3)] api_act_core [OF _ api_acts_idle(4)] api_act_core [OF _ api_acts_idle(5)])

lemma api_core:
  assumes "(p, h) \<in> set (api_routes wc)" and "core (snd (run_state (h rq) s)) \<noteq> core s"
  shows "rq_method rq = ''POST'' \<and> token_authorised wc 2 rq s"
  using assms
  by (auto simp: api_routes_def api_read_leaves api_reads_leave
      dest: api_investigations_core api_sub_core api_act_core [OF _ api_acts_idle(6)])

section \<open>Every request\<close>

lemma pick_in: "pick segs rs = Some r \<Longrightarrow> r \<in> set rs"
  by (induction rs) (auto split: option.splits if_splits)

lemma serve_mux_core:
  assumes "core (snd (run_state (serve_mux rs rq) s)) \<noteq> core s"
  shows "\<exists>p h. (p, h) \<in> set rs \<and> core (snd (run_state (h rq) s)) \<noteq> core s"
  using assms by (auto simp: serve_mux_def Let_def split: if_splits option.splits dest!: pick_in)

text \<open>
  C5: No request changes what the hub knows or does without credentials: with operator
  authentication configured, a request of any method and path that changes hosts,
  identities, tokens, runs, investigations, their messages, tool calls and findings, the
  agents' queues or the goroutines to start is a \<open>POST\<close> that carries either a live session
  with its CSRF token, in the cookie and beside it, or a live API token of the scope
  \<open>investigate\<close> or above.
\<close>
theorem web_change_needs_credentials:
  assumes "run_state (Routes wc rq) s = (rep, s')" and "auth_enabled wc" and "core s' \<noteq> core s"
  shows "rq_method rq = ''POST'' \<and> (session_authorised rq s \<or> token_authorised wc 2 rq s)"
proof -
  from assms(1,3) obtain p h where h: "(p, h) \<in> set (all_routes wc)" "core (snd (run_state (h rq) s)) \<noteq> core s"
    using serve_mux_core [of "all_routes wc" rq s] by (auto simp: Routes_def)
  then consider "(p, h) \<in> set (public_routes wc)"
    | g where "(p, g) \<in> set (page_routes wc @ form_routes wc)" "h = requireAuth wc g"
    | "(p, h) \<in> set (api_routes wc)"
    by (auto simp: all_routes_def)
  then show ?thesis
  proof cases
    case 1
    then have "leaves core (h rq)" by (auto simp: public_routes_def public_leave)
    with h(2) show ?thesis by (simp add: leavesD)
  next
    case 2
    then have "idle g" using pages_idle forms_idle by auto
    with requireAuth_core [OF assms(2)] h(2) 2(2) show ?thesis by blast
  next
    case 3
    with api_core h(2) show ?thesis by blast
  qed
qed

section \<open>Guesses of the password\<close>

text \<open>Login requests one after another, at the times given with them.\<close>

fun logins :: "web_cfg \<Rightarrow> (instant \<times> http_request) list \<Rightarrow> 'z web_scheme \<Rightarrow> reply list \<times> 'z web_scheme" where
  "logins wc [] s = ([], s)"
| "logins wc ((t, rq) # rest) s =
     (let (r, s1) = run_state (handleLogin wc rq) (s\<lparr>clock := t\<rparr>); (rs, s2) = logins wc rest s1 in (r # rs, s2))"

definition failures :: "string \<Rightarrow> 'z web_scheme \<Rightarrow> instant list" where
  "failures key s = (case map_of (login_failures s) key of Some ts \<Rightarrow> ts | None \<Rightarrow> [])"

definition recent :: "instant \<Rightarrow> string \<Rightarrow> 'z web_scheme \<Rightarrow> nat" where
  "recent t0 key s = length (filter (\<lambda>f. f \<ge> t0) (failures key s))"

definition login_addr :: "web_cfg \<Rightarrow> http_request \<Rightarrow> string" where
  "login_addr wc rq = clientIP rq (w_behind_proxy wc)"

lemma leaves_failures:
  "leaves (failures k) (audit_web a b d)" "leaves (failures k) (issue wc u ttl)"
proof -
  have ind: "indep faults_update (failures k)" "indep audit_update (failures k)" "indep last_audit_id_update (failures k)"
    "indep rnd_update (failures k)"
    by (simp_all add: indep_def failures_def)
  have "leaves (failures k) (InsertSession r)" for r
    unfolding InsertSession_def by (rule leaves_sql [OF ind(1)]) (auto simp: failures_def split: if_splits)
  then show "leaves (failures k) (audit_web a b d)" "leaves (failures k) (issue wc u ttl)"
    unfolding audit_web_def issue_def by (intro leaves_intros ind)+
qed

lemma failures_audit [simp]: "failures k (snd (run_state (audit_web a b d) s)) = failures k s"
  by (rule leavesD [OF leaves_failures(1)])

lemma failures_recorded:
  "failures k (snd (run_state (recordLoginFailure ip) s)) = (if k = ip then failures ip s @ [clock s] else failures k s)"
  by (simp add: recordLoginFailure_def failures_def lookup_simps)

lemma login_refused_run:
  assumes "run_state (login_refused ip u n) s = (r, s')"
  shows "rp_code r = 401 \<and> failures k s' = (if k = ip then failures ip s @ [clock s] else failures k s)"
  using assms by (auto simp: login_refused_def split_def renderLogin_def answer_def failures_recorded)

lemma failures_issued: "run_state (issue wc u ttl) s = (r, s') \<Longrightarrow> failures k s' = failures k s"
  by (rule leaves_runD [OF leaves_failures(2)])

lemma login_accepted_run:
  assumes "run_state (login_accepted wc rq u n) s = (r, s')"
  shows "rp_code r \<noteq> 401 \<and> failures k s' = failures k s"
proof -
  obtain x s1 where i: "run_state (issue wc u (w_session_ttl wc)) s = (x, s1)" by fastforce
  have "failures k s1 = failures k s" by (rule failures_issued [OF i])
  with assms i show ?thesis
    by (cases x) (auto simp: login_accepted_def renderLogin_def answer_def split_def)
qed

definition live_failures :: "string \<Rightarrow> 'z web_scheme \<Rightarrow> instant list" where
  "live_failures k s = filter (\<lambda>f. f > clock s - login_window) (failures k s)"

lemma loginAllowed_run:
  assumes "run_state (loginAllowed ip) s = (ok, s1)"
  shows "ok = (length (live_failures ip s) < 10) \<and> clock s1 = clock s
    \<and> failures k s1 = (if k = ip then live_failures ip s else failures k s)"
  using assms by (auto simp: loginAllowed_def Let_def live_failures_def failures_def lookup_simps)

lemma addr_after_parse: "clientIP (fst (ParseForm (MaxBytesReader n rq))) b = clientIP rq b"
proof -
  have "rq_headers (fst (ParseForm (MaxBytesReader n rq))) = rq_headers rq"
    "rq_remote (fst (ParseForm (MaxBytesReader n rq))) = rq_remote rq"
    by (simp_all add: ParseForm_def MaxBytesReader_def Let_def split: option.splits)
  then show ?thesis by (simp add: clientIP_def header_def Let_def)
qed

text \<open>What one login does to the failures of an address.\<close>

lemma login_post_failures:
  assumes "run_state (login_post wc rq) s = (r, s')"
  shows "if k \<noteq> login_addr wc rq then failures k s' = failures k s
    else if rp_code r = 401 then length (live_failures k s) < 10 \<and> failures k s' = live_failures k s @ [clock s]
    else failures k s' \<in> {failures k s, live_failures k s}"
proof -
  obtain rq1 ok where p: "ParseForm (MaxBytesReader (8 * 1024) rq) = (rq1, ok)" by fastforce
  have addr: "clientIP rq1 (w_behind_proxy wc) = login_addr wc rq"
    using addr_after_parse [of "8 * 1024" rq "w_behind_proxy wc"] p by (simp add: login_addr_def)
  obtain b s1 where b: "run_state (loginAllowed (login_addr wc rq)) s = (b, s1)" by fastforce
  note allowed = loginAllowed_run [OF b]
  let ?u = "trim_space (FormValue ''username'' rq1)" and ?n = "FormValue ''next'' rq1"
  consider "\<not> ok" | "ok" "\<not> b"
    | "ok" "b" "run_state (login_refused (login_addr wc rq) ?u ?n) s1 = (r, s')"
    | "ok" "b" "run_state (login_accepted wc rq1 ?u ?n) s1 = (r, s')"
    using assms p b by (auto simp: login_post_def addr Let_def split: if_splits)
  then show ?thesis
  proof cases
    case 3
    from login_refused_run [OF 3(3), of k] allowed [of k] 3(2) show ?thesis by auto
  next
    case 4
    from login_accepted_run [OF 4(3), of k] allowed [of k] show ?thesis by auto
  qed (use assms p b allowed [of k] in \<open>auto simp: login_post_def addr Let_def renderLogin_def answer_def split_def\<close>)
qed

lemma login_failures_step:
  assumes "run_state (handleLogin wc rq) s = (r, s')"
  shows "if k \<noteq> login_addr wc rq then failures k s' = failures k s
    else if rp_code r = 401 then length (live_failures k s) < 10 \<and> failures k s' = live_failures k s @ [clock s]
    else failures k s' \<in> {failures k s, live_failures k s}"
  using assms login_post_failures [of wc rq s r s' k]
  by (auto simp: handleLogin_def http_redirect_def http_error_def renderLogin_def answer_def split: if_splits)

text \<open>Guesses: logins from an address that were refused for the password or the name.\<close>

definition guesses :: "web_cfg \<Rightarrow> string \<Rightarrow> (instant \<times> http_request) list \<Rightarrow> reply list \<Rightarrow> nat" where
  "guesses wc k reqs reps = length (filter (\<lambda>(q, r). login_addr wc (snd q) = k \<and> rp_code r = 401) (zip reqs reps))"

lemma recent_live: "t < t0 + login_window \<Longrightarrow> filter (\<lambda>f. f \<ge> t0) (filter (\<lambda>f. f > t - login_window) fs) = filter (\<lambda>f. f \<ge> t0) fs"
  by (induction fs) auto

lemma guesses_recent:
  assumes "list_all (\<lambda>q. t0 \<le> fst q \<and> fst q < t0 + login_window) reqs" and "logins wc reqs s = (reps, s')"
  shows "guesses wc k reqs reps \<le> 10 - recent t0 k s"
  using assms
proof (induction reqs arbitrary: s reps)
  case Nil
  then show ?case by (simp add: guesses_def)
next
  case (Cons q rest)
  obtain t rq where q: "q = (t, rq)" by fastforce
  obtain r s1 where r: "run_state (handleLogin wc rq) (s\<lparr>clock := t\<rparr>) = (r, s1)" by fastforce
  obtain rs where rs: "logins wc rest s1 = (rs, s')" "reps = r # rs"
    using Cons.prems(2) q r by (auto split: prod.splits)
  have ih: "guesses wc k rest rs \<le> 10 - recent t0 k s1"
    using Cons.IH [of s1 rs] Cons.prems(1) rs(1) by simp
  have t: "t0 \<le> t" "t < t0 + login_window" using Cons.prems(1) q by auto
  have live: "filter (\<lambda>f. f \<ge> t0) (live_failures k (s\<lparr>clock := t\<rparr>)) = filter (\<lambda>f. f \<ge> t0) (failures k s)"
    using recent_live [OF t(2)] by (simp add: live_failures_def failures_def)
  note step = login_failures_step [OF r, of k]
  have g: "guesses wc k (q # rest) (r # rs) = (if login_addr wc rq = k \<and> rp_code r = 401 then 1 else 0) + guesses wc k rest rs"
    by (simp add: guesses_def q)
  show ?case
  proof (cases "login_addr wc rq = k \<and> rp_code r = 401")
    case True
    then have "length (live_failures k (s\<lparr>clock := t\<rparr>)) < 10" "recent t0 k s1 = recent t0 k s + 1"
      using step live t by (auto simp: recent_def)
    moreover have "recent t0 k s \<le> length (live_failures k (s\<lparr>clock := t\<rparr>))"
      unfolding recent_def live [symmetric] by (rule length_filter_le)
    ultimately show ?thesis using ih g True rs(2) by simp
  next
    case False
    have "failures k (s\<lparr>clock := t\<rparr>) = failures k s" by (simp add: failures_def)
    then have "recent t0 k s1 = recent t0 k s"
      using step live False by (auto simp: recent_def split: if_splits)
    then show ?thesis using ih g False rs(2) by simp
  qed
qed


end
