(* ===== verification/Web_Examples.thy ===== *)
theory Web_Examples
  imports Web_Safety Inv_Demo
begin

text \<open>
  The properties of the web layer at concrete requests: a hub with one investigation and one
  operator session.
\<close>

definition demo_web_cfg :: web_cfg where
  "demo_web_cfg = \<lparr>w_cf = demo_cfg, w_loop = True, w_username = ''admin'', w_password_hash = ''h'',
     w_session_ttl = 1000, w_behind_proxy = False,
     w_install = \<lparr>ic_repo = [], ic_endpoint = [], ic_port = 0, ic_version = [], ic_external = [], ic_trusted = False\<rparr>,
     w_sha256 = id, w_bcrypt = (\<lambda>h pw. pw = ''secret''), w_base64 = Some, w_duration = (\<lambda>_. None),
     w_duration_text = (\<lambda>_. []), w_hex = nat_text, w_b64 = nat_text, w_row_id = nat_text, w_latest = [],
     w_base_url = [], w_time_nano = (\<lambda>_. []), w_parse = JInvalid, w_indent = (\<lambda>_. []), w_calls_text = (\<lambda>_. []),
     w_quote = id, w_script = (\<lambda>_. [])\<rparr>"

definition demo_web :: web where
  "demo_web = inv.extend ((demo_hub [])\<lparr>sessions := [\<lparr>ss_sid = ''s1'', ss_user = ''admin'', ss_csrf = ''t1'',
     ss_created_at = 0, ss_expires_at = 10\<rparr>], invs := [\<lparr>inv_id = ''i1'', inv_goal = ''g'', inv_status = InvActive,
     inv_created_by = ''admin'', inv_created_at = 0, inv_updated_at = 0, inv_model = [], inv_base_url = [],
     inv_prompt_tokens = 0, inv_completion_tokens = 0, inv_tool_calls = 0, inv_compaction_tokens = 0,
     inv_summary = None, inv_allowed = [], inv_extra_steps = 0, inv_extra_tokens = 0, inv_auto_approve = False\<rparr>]\<rparr>)
     (web.fields [] [])"

definition form_post :: "string \<Rightarrow> pairs \<Rightarrow> pairs \<Rightarrow> http_request" where
  "form_post p cookies ps = \<lparr>rq_method = ''POST'', rq_escaped = p, rq_host = ''hub'', rq_query = [], rq_query_ok = True,
     rq_headers = [], rq_cookies = cookies, rq_remote = ''10.0.0.1:4000'', rq_tls = False,
     rq_body = \<lparr>bd_length = 10, bd_is_form = True, bd_form = ps, bd_form_ok = True, bd_json = jempty, bd_value = 0\<rparr>,
     rq_limit = None, rq_form = None, rq_user = None, rq_principal = None\<rparr>"

definition auto_approve_post :: http_request where
  "auto_approve_post = form_post ''/investigations/auto-approve'' [(''recon_sid'', ''s1''), (''recon_csrf'', ''t1'')]
     [(''csrf'', ''t1''), (''investigation_id'', ''i1''), (''on'', ''1'')]"

lemma auto_approve_changes:
  "auth_enabled demo_web_cfg" "core (snd (run_state (Routes demo_web_cfg auto_approve_post) demo_web)) \<noteq> core demo_web"
  "pats demo_web = []"
  by code_simp+

lemma web_change_needs_credentials_witness:
  "core (snd (run_state (Routes demo_web_cfg auto_approve_post) demo_web)) \<noteq> core demo_web
   \<and> session_authorised auto_approve_post demo_web"
proof -
  from auto_approve_changes(2) web_change_needs_credentials [OF _ auto_approve_changes(1), of auto_approve_post demo_web]
  have "session_authorised auto_approve_post demo_web \<or> token_authorised demo_web_cfg 2 auto_approve_post demo_web"
    by (metis surjective_pairing)
  with auto_approve_changes(3) have "session_authorised auto_approve_post demo_web" by (simp add: token_authorised_def)
  with auto_approve_changes(2) show ?thesis by blast
qed

definition wrong_logins :: "(instant \<times> http_request) list" where
  "wrong_logins = replicate 12 (1, form_post ''/login'' [] [(''username'', ''admin''), (''password'', ''guess'')])"

lemma wrong_logins_codes:
  "map rp_code (fst (logins demo_web_cfg wrong_logins demo_web)) = replicate 10 401 @ [429, 429]"
  by code_simp


end
