(* ===== verification/Hub_Examples.thy ===== *)
theory Hub_Examples
  imports Hub_Main Agent_Link Web_Examples
begin

text \<open>
  A small certificate library and starts of the hub with it: the hypotheses of the authority's
  properties hold at real inputs, and a start that is cut off between the two server files
  leaves a pair that does not match and is never replaced. Then the hub's program on a machine with a
  configuration file: a token is printed, and the hub serves with an operator, TLS and a model
  client. An operator name without a password is refused.
\<close>

section \<open>A library\<close>

definition demo_pem :: "string \<Rightarrow> bytes \<Rightarrow> bytes" where
  "demo_pem t b = replicate (length t) (CHR ''x'') @ CHR '':'' # t @ b"

definition demo_block :: "bytes \<Rightarrow> (string \<times> bytes) option" where
  "demo_block s =
     (let n = length (takeWhile (\<lambda>c. c = CHR ''x'') s)
      in Some (take n (drop (n + 1) s), drop (2 * n + 1) s))"

fun demo_key_bytes :: "pub_key \<Rightarrow> bytes" where
  "demo_key_bytes (Ecdsa _ b) = b"
| "demo_key_bytes (Rsa _ b) = b"
| "demo_key_bytes (OtherKey _) = []"

text \<open>It knows certificates for no name and for two names, with the subject's key after the name.\<close>

definition demo_create :: "nat \<Rightarrow> cert_template \<Rightarrow> bytes option \<Rightarrow> pub_key \<Rightarrow> bytes \<Rightarrow> string + bytes" where
  "demo_create n tp par k sk =
     (if tp_ips tp \<noteq> [] then Inl ''address''
      else if tp_dns tp = [] then Inr (''0'' @ demo_key_bytes k)
      else if tp_dns tp = [''hub''] then Inr (''1'' @ demo_key_bytes k)
      else if tp_dns tp = [''hub2''] then Inr (''2'' @ demo_key_bytes k)
      else Inl ''name'')"

definition demo_parse :: "bytes \<Rightarrow> string + string list \<times> ip list" where
  "demo_parse b =
     (case b of
        [] \<Rightarrow> Inl ''empty''
      | c # _ \<Rightarrow>
          if c = CHR ''0'' then Inr ([], []) else if c = CHR ''1'' then Inr ([''hub''], [])
          else if c = CHR ''2'' then Inr ([''hub2''], []) else Inl ''name'')"

definition demo_x509 :: x509lib where
  "demo_x509 =
     \<lparr>xl_generate = (\<lambda>n. Inr (nat_text n)), xl_public = Ecdsa ''P-256'', xl_create = demo_create,
      xl_parse = demo_parse, xl_marshal = Inr, xl_parse_key = Inr,
      xl_parse_csr = (\<lambda>b. Inr \<lparr>cq_signature = None, cq_key = Ecdsa ''P-256'' b\<rparr>),
      xl_pem_block = demo_block, xl_pem = demo_pem, xl_sha256 = (\<lambda>b. b)\<rparr>"

lemma demo_x509_ok: "x509_ok demo_x509"
proof -
  have "takeWhile (\<lambda>c. c = CHR ''x'') (replicate n (CHR ''x'') @ CHR '':'' # r) = replicate n (CHR ''x'')" for n r
    by (induction n) auto
  then have "demo_block (demo_pem t b) = Some (t, b)" for t b
    by (simp add: demo_block_def demo_pem_def)
  moreover have "demo_parse der = Inr (tp_dns tp, tp_ips tp)" if "demo_create n tp par k sk = Inr der" for n tp par k sk der
    using that by (auto simp: demo_create_def demo_parse_def split: if_splits)
  ultimately show ?thesis by (auto simp: x509_ok_def demo_x509_def)
qed

section \<open>Starts\<close>

definition new_disk :: pki_disk where
  "new_disk = \<lparr>ds_calls = 0, ds_files = [], pd_rnd = 0\<rparr>"

definition first_start :: "(cerr + material) \<times> pki_disk" where
  "first_start = run_state (Bootstrap demo_x509 no_disk_faults ''/c'' [''hub''] []) new_disk"

lemma first_start_ok:
  "case first_start of (Inr m, s) \<Rightarrow>
       map fst (ds_files s) = [''/c/ca.pem'', ''/c/ca.key'', ''/c/server.pem'', ''/c/server.key'']
     | _ \<Rightarrow> False"
  by code_simp

lemma first_start_files:
  "map_of (ds_files (snd first_start)) (path_join ''/c'' caCertFile) \<noteq> None"
  "map_of (ds_files (snd first_start)) (path_join ''/c'' caKeyFile) \<noteq> None"
  by code_simp+


lemma bootstrap_restart_witness:
  "case first_start of
     (Inr m, s) \<Rightarrow> fst (run_state (Bootstrap demo_x509 no_disk_faults ''/c'' [''hub''] []) s) = Inr m
   | _ \<Rightarrow> False"
proof -
  obtain m s where ms: "run_state (Bootstrap demo_x509 no_disk_faults ''/c'' [''hub''] []) new_disk = (Inr m, s)"
    using first_start_ok by (cases first_start) (auto simp: first_start_def split: sum.splits)
  from bootstrap_restart [OF demo_x509_ok this] show ?thesis by (simp add: first_start_def ms)
qed

text \<open>
  The disk fails as the new server key is written: the new certificate stays with the old key. It
  is valid for the configured name, so the next start, and every later one, keeps the pair.
\<close>

definition key_write_lost :: disk_faults where
  "key_write_lost = (\<lambda>n. if n = 17 then Some ''no space left on device'' else None)"

lemma torn_server_pair:
  "case run_state (Bootstrap demo_x509 key_write_lost ''/c'' [''hub2''] []) (snd first_start) of
     (Inl _, s) \<Rightarrow>
       (case run_state (Bootstrap demo_x509 no_disk_faults ''/c'' [''hub2''] []) s of
          (Inr m, _) \<Rightarrow> mt_server_cert m = demo_pem ''CERTIFICATE'' ''24''
            \<and> mt_server_key m = demo_pem ''EC PRIVATE KEY'' ''2''
        | _ \<Rightarrow> False)
   | _ \<Rightarrow> False"
  by code_simp

section \<open>Enrollment\<close>

definition demo_material :: material where
  "demo_material =
     \<lparr>mt_ca = ''00'', mt_ca_pem = demo_pem ''CERTIFICATE'' ''00'', mt_key = ''0'', mt_server_cert = ''s'', mt_server_key = ''t''\<rparr>"

lemma enrolled_keys_are_strong_witness:
  "\<exists>s'. run_state (Enroll (env_hash demo_env) (pki_of demo_x509 demo_material 7 60)
        \<lparr>er_token = ''tok'', er_agent = ''web-1'', er_csr = demo_pem ''CERTIFICATE REQUEST'' ''ak''\<rparr>)
       (empty_db\<lparr>tokens := [demo_token]\<rparr>) = (Inr (demo_pem ''CERTIFICATE'' ''0ak'', demo_pem ''CERTIFICATE'' ''00''), s')
     \<and> active_identity ''web-1'' (digest_text ''0ak'') s'"
proof -
  let ?req = "\<lparr>er_token = ''tok'', er_agent = ''web-1'', er_csr = demo_pem ''CERTIFICATE REQUEST'' ''ak''\<rparr>"
  let ?s = "empty_db\<lparr>tokens := [demo_token]\<rparr>"
  let ?pk = "pki_of demo_x509 demo_material 7 60"
  have ok: "db_ok ?s" by (simp add: db_ok_parts empty_db_def msg_seqs_def)
  have "xl_pem_block demo_x509 (demo_pem t b) = Some (t, b)" for t b
    using demo_x509_ok by (simp add: x509_ok_def demo_x509_def)
  then have pk: "pk_sign ?pk (demo_pem ''CERTIFICATE REQUEST'' ''ak'') ''web-1'' = Some (demo_pem ''CERTIFICATE'' ''0ak'')"
    "pk_fingerprint ?pk (demo_pem ''CERTIFICATE'' ''0ak'') = Some (digest_text ''0ak'')"
    "pk_ca ?pk = demo_pem ''CERTIFICATE'' ''00''"
    by (simp_all add: pki_of_def SignCSR_def FingerprintFromPEM_def fingerprintBytes_def demo_x509_def
        assertStrongKey_def agent_template_def demo_create_def demo_parse_def demo_material_def)
  have ne: "demo_pem t b \<noteq> []" for t b by (simp add: demo_pem_def)
  have "\<exists>s'. run_state (Enroll (env_hash demo_env) ?pk ?req) ?s
      = (Inr (demo_pem ''CERTIFICATE'' ''0ak'', demo_pem ''CERTIFICATE'' ''00''), s')"
    by (simp add: Enroll_def ConsumeBootstrapToken_def VerifyIdentity_def RegisterIdentity_def AuditLog_def
        sql_write_def demo_env_def pk ne demo_token_def empty_db_def Let_def live_token_def)
  then obtain s' where s': "run_state (Enroll (env_hash demo_env) ?pk ?req) ?s
      = (Inr (demo_pem ''CERTIFICATE'' ''0ak'', demo_pem ''CERTIFICATE'' ''00''), s')" ..
  from enrolled_keys_are_strong [OF demo_x509_ok ok s'] obtain cder where
    "demo_pem ''CERTIFICATE'' ''0ak'' = demo_pem ''CERTIFICATE'' cder"
    "active_identity ''web-1'' (fingerprintBytes demo_x509 cder) s'"
    by (auto simp: demo_x509_def)
  then have "active_identity ''web-1'' (digest_text ''0ak'') s'"
    by (simp add: demo_pem_def fingerprintBytes_def demo_x509_def)
  with s' show ?thesis by blast
qed

section \<open>A connection\<close>

text \<open>A library whose certificates are their common names.\<close>

definition naming_x509 :: x509lib where
  "naming_x509 = demo_x509\<lparr>xl_create := (\<lambda>n tp par k sk. if tp_dns tp = [] \<and> tp_ips tp = [] then Inr (tp_cn tp) else Inl ''name''),
     xl_parse := (\<lambda>_. Inr ([], []))\<rparr>"

lemma naming_x509_ok: "x509_ok naming_x509"
  using demo_x509_ok by (auto simp: x509_ok_def naming_x509_def demo_x509_def)

lemma naming_x509_names: "xl_create naming_x509 n tp par k sk = Inr der \<Longrightarrow> der = tp_cn tp"
  by (simp add: naming_x509_def split: if_splits)

definition link_keyring :: keyring where
  "link_keyring = demo_keyring\<lparr>kr_csr := (\<lambda>_ _. Inr (demo_pem ''CERTIFICATE REQUEST'' ''ak''))\<rparr>"

definition link_enroll :: "(cerr + unit) \<times> (unit api_ext runner_ext) enrolling" where
  "link_enroll = run_state (Enroll_agent no_disk_faults link_keyring Delivered (env_hash demo_env)
       (pki_of naming_x509 demo_material 7 60) demo_agent_config)
     \<lparr>ds_calls = 0, ds_files = [(''/a/token'', ''tok'')], en_hub = demo_api\<lparr>tokens := [demo_token]\<rparr>\<rparr>"

lemma link_enroll_ok: "is_ok (fst link_enroll)"
  by code_simp


section \<open>A machine\<close>

definition demo_hub_file :: hub_file where
  "demo_hub_file =
     \<lparr>hf_server = \<lparr>sc_grpc = [], sc_http = [], sc_dns = [''hub''], sc_ips = [''not an address''],
        sc_tls = \<lparr>ht_enabled = True, ht_cert = ''/c.pem'', ht_key = ''/c.key''\<rparr>\<rparr>,
      hf_storage = \<lparr>so_db = ''/d/r.db'', so_artifacts = [], so_ca = [], so_retention = 0\<rparr>, hf_admins = [],
      hf_llm = \<lparr>mc_base = [], mc_model = ''m'', mc_key_env = [], mc_steps = 0, mc_tokens = 0, mc_referer = [], mc_title = []\<rparr>,
      hf_rpm = 0,
      hf_install = \<lparr>ic_repo = [], ic_endpoint = [], ic_port = 0, ic_version = [], ic_external = [], ic_trusted = False\<rparr>\<rparr>"

definition demo_env_of :: "string \<Rightarrow> string \<Rightarrow> string" where
  "demo_env_of password key =
     (if key = ''RECON_ADMIN_USER'' then ''admin''
      else if key = ''RECON_ADMIN_PASSWORD'' then password
      else if key = ''RECON_LLM_API_KEY'' then ''k1''
      else if key = ''RECON_LLM_BASE_URL'' then ''https://models.example/v1/'' else [])"

definition demo_outside :: "string \<Rightarrow> hub_outside" where
  "demo_outside password =
     \<lparr>ho_stamp = (''1.2.0'', ''abc''), ho_env = demo_env_of password, ho_disk = no_disk_faults,
      ho_yaml = (\<lambda>_. Inr demo_hub_file), ho_x509 = demo_x509, ho_open = (\<lambda>_. None), ho_pair = (\<lambda>_ _. None), ho_listen = (\<lambda>_. None),
      ho_sha = id, ho_random = Inr ''r'', ho_b64 = id, ho_bcrypt = Inr, ho_raw_b64 = id, ho_ttl_text = (\<lambda>_. []),
      ho_templates = None, ho_web = demo_web_cfg\<rparr>"

definition demo_flags :: "string \<Rightarrow> hub_flags" where
  "demo_flags mode =
     \<lparr>fl_config = ''/hub.yaml'', fl_mode = mode, fl_ttl = 60, fl_issuer = ''admin'', fl_agent = ''web-1'',
      fl_reason = ''manual'', fl_version = False\<rparr>"

definition demo_box :: hub_machine where
  "demo_box = \<lparr>ds_calls = 0, ds_files = [(''/hub.yaml'', [])], pd_rnd = 0, hm_hub = demo_hub []\<rparr>"

section \<open>Runs\<close>

lemma demo_token_printed:
  "case fst (run_state (hub_main (demo_outside ''long password'') (demo_flags ''gen-token'')) demo_box) of
     Finished out \<Rightarrow> out = [''r''] | _ \<Rightarrow> False"
  by code_simp

lemma demo_box_clock: "clock (hm_hub demo_box) = 0"
  by code_simp

lemma printed_token_is_bound_witness:
  "fst (run_state (ConsumeBootstrapToken id ''r'' ''web-1'')
     ((hm_hub (snd (run_state (hub_main (demo_outside ''long password'') (demo_flags ''gen-token'')) demo_box)))
        \<lparr>clock := 59, faults := []\<rparr>)) = Inr ()"
proof -
  let ?r = "run_state (hub_main (demo_outside ''long password'') (demo_flags ''gen-token'')) demo_box"
  have r: "?r = (Finished [''r''], snd ?r)" using demo_token_printed by (auto split: hub_end.splits intro: prod_eqI)
  have "fl_mode (demo_flags ''gen-token'') = ''gen-token''" "\<not> fl_version (demo_flags ''gen-token'')"
    "fl_agent (demo_flags ''gen-token'') = ''web-1''" "fl_ttl (demo_flags ''gen-token'') = 60"
    "ho_sha (demo_outside ''long password'') = id"
    by (simp_all add: demo_flags_def demo_outside_def)
  with demo_box_clock printed_token_is_bound [OF r] show ?thesis by simp
qed

definition service_of :: "hub_end \<Rightarrow> service option" where
  "service_of e = (case e of Serving v \<Rightarrow> Some v | _ \<Rightarrow> None)"

definition demo_service :: service where
  "demo_service = the (service_of (fst (run_state (hub_main (demo_outside ''long password'') (demo_flags ''serve'')) demo_box)))"

lemma demo_serves:
  "case fst (run_state (hub_main (demo_outside ''long password'') (demo_flags ''serve'')) demo_box) of
     Serving v \<Rightarrow> w_loop (sv_web v) | _ \<Rightarrow> False"
  by code_simp

lemma serving_is_guarded_witness:
  "auth_enabled (sv_web demo_service) \<and> w_username (sv_web demo_service) = ''admin''
   \<and> (\<exists>cert key. cert \<noteq> [] \<and> key \<noteq> [] \<and> sv_tls demo_service = Some (cert, key))"
proof -
  let ?r = "run_state (hub_main (demo_outside ''long password'') (demo_flags ''serve'')) demo_box"
  have r: "?r = (Serving demo_service, snd ?r)"
    using demo_serves by (auto simp: demo_service_def service_of_def split: hub_end.splits intro: prod_eqI)
  have "ho_env (demo_outside ''long password'') ''RECON_ADMIN_USER'' = ''admin''"
    "ho_yaml (demo_outside ''long password'') b = Inr demo_hub_file" "ht_enabled (sc_tls (hf_server demo_hub_file))" for b
    by (simp_all add: demo_outside_def demo_env_of_def demo_hub_file_def)
  with serving_is_guarded [OF r] show ?thesis by auto
qed

lemma no_password_no_service:
  "case fst (run_state (hub_main (demo_outside []) (demo_flags ''serve'')) demo_box) of Exits n \<Rightarrow> n = 2 | _ \<Rightarrow> False"
  by code_simp

end
